(* ===== verification/Prelude.thy ===== *)
theory Prelude
  imports Main "HOL-Library.Word" "HOL-Library.Signed_Division" "HOL-Library.Sublist"
begin

text \<open>
  Shared ground of the development: the error values of the program
  (\<^verbatim>\<open>common/errors.go\<close>), the state-and-error computations in which stateful Go
  code is written, a small Hoare logic for them, Go's 64-bit integers, and the
  list lemmas that the table and purge proofs share.

  A Go function that returns \<open>(T, error)\<close> and mutates a state \<open>'s\<close> is an
  \<open>('s, T) io\<close>.  \<open>bindE\<close> is the idiom \<open>x, err := f(); if err != nil { return err }\<close>;
  \<open>tryE\<close> is a call whose error the caller inspects.  A nil dereference, an index out
  of range or another run-time panic is the error value \<open>Panic\<close>, which \<open>tryE\<close> does
  not intercept.
\<close>

named_theorems io_simps
named_theorems hoare_intros
named_theorems go_simps

section \<open>Errors\<close>

datatype goerr =
    ErrMediaNotFound
  | ErrMediaTooLarge
  | ErrInvalidHost
  | ErrHostNotFound
  | ErrHostNotAllowed
  | ErrMediaQuarantined
  | ErrQuotaExceeded
  | ErrWrongUser
  | ErrExpired
  | ErrAlreadyUploaded
  | ErrMediaNotYetUploaded
  | ErrMediaDimensionsTooSmall
  | ErrRateLimitExceeded
  | ErrRestrictedAuth
  | ServerNotAllowedError string
  | ErrInvalidToken
  | ErrGuestToken
  | ErrNoXMatrixAuth
  | ErrWrongDestination
  | ErrEOF
  | ErrOther string
  | Panic string

fun is_panic :: "goerr \<Rightarrow> bool" where
  "is_panic (Panic _) = True"
| "is_panic _ = False"

section \<open>State and error computations\<close>

type_synonym ('s, 'a) io = "'s \<Rightarrow> (goerr + 'a) \<times> 's"

definition returnE :: "'a \<Rightarrow> ('s, 'a) io" where
  "returnE x = (\<lambda>s. (Inr x, s))"

definition throwE :: "goerr \<Rightarrow> ('s, 'a) io" where
  "throwE e = (\<lambda>s. (Inl e, s))"

definition bindE :: "('s, 'a) io \<Rightarrow> ('a \<Rightarrow> ('s, 'b) io) \<Rightarrow> ('s, 'b) io" where
  "bindE m f = (\<lambda>s. case m s of (Inl e, s') \<Rightarrow> (Inl e, s') | (Inr x, s') \<Rightarrow> f x s')"

definition thenE :: "('s, 'a) io \<Rightarrow> ('s, 'b) io \<Rightarrow> ('s, 'b) io" where
  "thenE m n = bindE m (\<lambda>_. n)"

definition tryE :: "('s, 'a) io \<Rightarrow> ('s, goerr + 'a) io" where
  "tryE m = (\<lambda>s. case m s of
     (Inl e, s') \<Rightarrow> (if is_panic e then Inl e else Inr (Inl e), s')
   | (Inr x, s') \<Rightarrow> (Inr (Inr x), s'))"

definition getsE :: "('s \<Rightarrow> 'a) \<Rightarrow> ('s, 'a) io" where
  "getsE f = (\<lambda>s. (Inr (f s), s))"

definition modifyE :: "('s \<Rightarrow> 's) \<Rightarrow> ('s, unit) io" where
  "modifyE f = (\<lambda>s. (Inr (), f s))"

definition whenE :: "bool \<Rightarrow> ('s, unit) io \<Rightarrow> ('s, unit) io" where
  "whenE b m = (if b then m else returnE ())"

text \<open>A \<open>for _, x := range xs\<close> loop with an accumulator, left by the first error.\<close>

primrec foldE :: "('a \<Rightarrow> 'b \<Rightarrow> ('s, 'b) io) \<Rightarrow> 'a list \<Rightarrow> 'b \<Rightarrow> ('s, 'b) io" where
  "foldE f [] a = returnE a"
| "foldE f (x # xs) a = bindE (f x a) (foldE f xs)"

primrec foreachE :: "('a \<Rightarrow> ('s, unit) io) \<Rightarrow> 'a list \<Rightarrow> ('s, unit) io" where
  "foreachE f [] = returnE ()"
| "foreachE f (x # xs) = thenE (f x) (foreachE f xs)"

text \<open>The unfolding of these combinators at a state, which executes a computation.\<close>

lemma returnE_run [io_simps]: "returnE x s = (Inr x, s)"
  by (simp add: returnE_def)

lemma throwE_run [io_simps]: "throwE e s = (Inl e, s)"
  by (simp add: throwE_def)

lemma getsE_run [simp, io_simps]: "getsE f s = (Inr (f s), s)"
  by (simp add: getsE_def)

lemma modifyE_run [simp, io_simps]: "modifyE f s = (Inr (), f s)"
  by (simp add: modifyE_def)

lemma bindE_run [io_simps]:
  "bindE m f s = (case m s of (Inl e, s') \<Rightarrow> (Inl e, s') | (Inr x, s') \<Rightarrow> f x s')"
  by (simp add: bindE_def)

lemma thenE_run [io_simps]:
  "thenE m n s = (case m s of (Inl e, s') \<Rightarrow> (Inl e, s') | (Inr x, s') \<Rightarrow> n s')"
  by (simp add: thenE_def bindE_def)

lemma tryE_run [io_simps]:
  "tryE m s = (case m s of
     (Inl e, s') \<Rightarrow> (if is_panic e then Inl e else Inr (Inl e), s')
   | (Inr x, s') \<Rightarrow> (Inr (Inr x), s'))"
  by (simp add: tryE_def)

lemma whenE_run [io_simps]: "whenE b m s = (if b then m s else (Inr (), s))"
  by (simp add: whenE_def returnE_run)

lemma bindE_return [simp]: "bindE (returnE x) f = f x"
  by (simp add: bindE_def returnE_def)

lemma bindE_throw [simp]: "bindE (throwE e) f = throwE e"
  by (simp add: bindE_def throwE_def)

lemma bindE_assoc: "bindE (bindE m f) g = bindE m (\<lambda>x. bindE (f x) g)"
  by (rule ext) (simp add: bindE_def split: prod.split sum.split)

section \<open>A Hoare logic with two postconditions\<close>

text \<open>
  \<open>hoare P m Q E\<close>: from every state of \<open>P\<close>, a normal return satisfies \<open>Q\<close> and a
  returned error (a panic included) satisfies \<open>E\<close>.  Every computation of the type is
  total, so this is total correctness.
\<close>

definition hoare ::
  "('s \<Rightarrow> bool) \<Rightarrow> ('s, 'a) io \<Rightarrow> ('a \<Rightarrow> 's \<Rightarrow> bool) \<Rightarrow> (goerr \<Rightarrow> 's \<Rightarrow> bool) \<Rightarrow> bool" where
  "hoare P m Q E \<longleftrightarrow>
     (\<forall>s. P s \<longrightarrow> (case m s of (Inr x, s') \<Rightarrow> Q x s' | (Inl e, s') \<Rightarrow> E e s'))"

definition preserves :: "('s \<Rightarrow> bool) \<Rightarrow> ('s, 'a) io \<Rightarrow> bool" where
  "preserves I m \<longleftrightarrow> hoare I m (\<lambda>_. I) (\<lambda>_. I)"

lemma hoareI:
  assumes "\<And>s x s'. P s \<Longrightarrow> m s = (Inr x, s') \<Longrightarrow> Q x s'"
    and "\<And>s e s'. P s \<Longrightarrow> m s = (Inl e, s') \<Longrightarrow> E e s'"
  shows "hoare P m Q E"
  using assms by (auto simp: hoare_def split: prod.split sum.split)

lemma hoareD_Inr: "hoare P m Q E \<Longrightarrow> P s \<Longrightarrow> m s = (Inr x, s') \<Longrightarrow> Q x s'"
  by (force simp: hoare_def)

lemma hoareD_Inl: "hoare P m Q E \<Longrightarrow> P s \<Longrightarrow> m s = (Inl e, s') \<Longrightarrow> E e s'"
  by (force simp: hoare_def)

lemma hoare_weaken:
  assumes "hoare P' m Q' E'" and "\<And>s. P s \<Longrightarrow> P' s"
    and "\<And>x s. Q' x s \<Longrightarrow> Q x s" and "\<And>e s. E' e s \<Longrightarrow> E e s"
  shows "hoare P m Q E"
  using assms by (fastforce simp: hoare_def split: prod.splits sum.splits)

lemma hoare_conj:
  assumes "hoare P m Q E" and "hoare P' m Q' E'"
  shows "hoare (\<lambda>s. P s \<and> P' s) m (\<lambda>x s. Q x s \<and> Q' x s) (\<lambda>e s. E e s \<and> E' e s)"
  using assms by (fastforce simp: hoare_def split: prod.splits sum.splits)

lemma hoare_return: "(\<And>s. P s \<Longrightarrow> Q x s) \<Longrightarrow> hoare P (returnE x) Q E"
  by (simp add: hoare_def io_simps)

lemma hoare_throw: "(\<And>s. P s \<Longrightarrow> E e s) \<Longrightarrow> hoare P (throwE e) Q E"
  by (simp add: hoare_def io_simps)

lemma hoare_bind:
  assumes "hoare P m R E" and "\<And>x. hoare (R x) (f x) Q E"
  shows "hoare P (bindE m f) Q E"
  using assms by (fastforce simp: hoare_def bindE_def split: prod.splits sum.splits)

lemma hoare_bind_val:
  assumes "hoare P m (\<lambda>x s. R s \<and> x = v) E" and "hoare R (f v) Q E"
  shows "hoare P (bindE m f) Q E"
  using assms by (fastforce simp: hoare_def bindE_def split: prod.splits sum.splits)

lemma hoare_pure: "(A \<Longrightarrow> hoare P m Q E) \<Longrightarrow> hoare (\<lambda>s. P s \<and> A) m Q E"
  by (cases A) (auto simp: hoare_def)

lemma hoare_pure_post: "hoare P m Q E \<Longrightarrow> A \<Longrightarrow> hoare P m (\<lambda>x s. Q x s \<and> A) E"
  by simp

lemma hoare_then:
  assumes "hoare P m (\<lambda>_. R) E" and "hoare R n Q E"
  shows "hoare P (thenE m n) Q E"
  using assms unfolding thenE_def by (rule hoare_bind)

lemma hoare_try:
  assumes "hoare P m (\<lambda>x. Q (Inr x)) (\<lambda>e s. if is_panic e then E e s else Q (Inl e) s)"
  shows "hoare P (tryE m) Q E"
  using assms by (fastforce simp: hoare_def tryE_def split: prod.splits sum.splits if_splits)

lemma hoare_fold:
  assumes "\<And>x a. x \<in> set xs \<Longrightarrow> hoare (J a) (f x a) J E"
  shows "hoare (J a) (foldE f xs a) J E"
  using assms
proof (induction xs arbitrary: a)
  case Nil
  show ?case by (simp add: hoare_return)
next
  case (Cons x xs)
  then show ?case by (auto intro!: hoare_bind)
qed

text \<open>The same with an invariant that knows which elements have been visited.\<close>

lemma hoare_fold_prefix:
  assumes "\<And>xs1 x xs2 a. xs = xs1 @ x # xs2 \<Longrightarrow> hoare (J xs1 a) (f x a) (J (xs1 @ [x])) E"
  shows "hoare (J [] a) (foldE f xs a) (J xs) E"
proof -
  have "hoare (J pre a) (foldE f todo a) (J xs) E" if "xs = pre @ todo" for pre todo a
    using that
  proof (induction todo arbitrary: pre a)
    case Nil
    then show ?case by (simp add: hoare_return)
  next
    case (Cons x todo)
    then show ?case using assms [of pre x todo a] by (auto intro!: hoare_bind)
  qed
  from this [of "[]" xs a] show ?thesis by simp
qed

lemma hoare_foreach:
  assumes "\<And>x. x \<in> set xs \<Longrightarrow> hoare J (f x) (\<lambda>_. J) E"
  shows "hoare J (foreachE f xs) (\<lambda>_. J) E"
  using assms
proof (induction xs)
  case Nil
  show ?case by (simp add: hoare_return)
next
  case (Cons x xs)
  then show ?case by (auto intro!: hoare_then)
qed

lemma hoare_disj: "hoare P m Q E \<Longrightarrow> hoare P' m Q E \<Longrightarrow> hoare (\<lambda>s. P s \<or> P' s) m Q E"
  by (auto simp: hoare_def)

lemma hoare_bex_pre:
  "(\<And>x. A x \<Longrightarrow> hoare (P x) m Q E) \<Longrightarrow> hoare (\<lambda>s. \<exists>x. A x \<and> P x s) m Q E"
  by (rule hoareI) (auto dest: hoareD_Inr hoareD_Inl)

lemma hoare_obtain:
  assumes "hoare P m Q (\<lambda>_ _. False)" "P s" "\<And>x s'. m s = (Inr x, s') \<Longrightarrow> Q x s' \<Longrightarrow> thesis"
  shows thesis
proof (cases "m s")
  case (Pair r s')
  with assms show thesis by (cases r) (auto dest: hoareD_Inr hoareD_Inl)
qed

subsection \<open>Invariants of computations\<close>

lemma preservesI:
  "(\<And>s. I s \<Longrightarrow> I (snd (m s))) \<Longrightarrow> preserves I m"
  by (force simp: preserves_def hoare_def split: prod.split sum.split)

lemma preservesD: "preserves I m \<Longrightarrow> I s \<Longrightarrow> I (snd (m s))"
  by (cases "m s"; cases "fst (m s)") (auto simp: preserves_def hoare_def)

lemma preservesD': "preserves I m \<Longrightarrow> I s \<Longrightarrow> m s = (r, s') \<Longrightarrow> I s'"
  by (drule (1) preservesD) simp

lemma hoare_preserves: "preserves P m \<Longrightarrow> (\<And>s e. P s \<Longrightarrow> E e s) \<Longrightarrow> hoare P m (\<lambda>_. P) E"
  unfolding preserves_def by (erule hoare_weaken) auto

lemma preserves_return [hoare_intros, intro!]: "preserves I (returnE x)"
  by (simp add: preservesI io_simps)

lemma preserves_throw [hoare_intros, intro!]: "preserves I (throwE e)"
  by (simp add: preservesI io_simps)

lemma preserves_gets [hoare_intros, intro!]: "preserves I (getsE f)"
  by (simp add: preservesI)

lemma preserves_modify [hoare_intros]:
  "(\<And>s. I s \<Longrightarrow> I (f s)) \<Longrightarrow> preserves I (modifyE f)"
  by (simp add: preservesI)

lemma preserves_bind [hoare_intros]:
  "preserves I m \<Longrightarrow> (\<And>x. preserves I (f x)) \<Longrightarrow> preserves I (bindE m f)"
  unfolding preserves_def by (rule hoare_bind)

lemma preserves_then [hoare_intros]:
  "preserves I m \<Longrightarrow> preserves I n \<Longrightarrow> preserves I (thenE m n)"
  unfolding preserves_def by (rule hoare_then)

lemma preserves_try [hoare_intros]: "preserves I m \<Longrightarrow> preserves I (tryE m)"
  unfolding preserves_def by (rule hoare_try) simp

lemma preserves_when [hoare_intros]: "(b \<Longrightarrow> preserves I m) \<Longrightarrow> preserves I (whenE b m)"
  by (auto simp: whenE_def)

lemma preserves_if [hoare_intros]:
  "(b \<Longrightarrow> preserves I m) \<Longrightarrow> (\<not> b \<Longrightarrow> preserves I n) \<Longrightarrow> preserves I (if b then m else n)"
  by simp

lemma preserves_fold [hoare_intros]:
  "(\<And>x a. x \<in> set xs \<Longrightarrow> preserves I (f x a)) \<Longrightarrow> preserves I (foldE f xs a)"
  unfolding preserves_def by (rule hoare_fold)

lemma preserves_foreach [hoare_intros]:
  "(\<And>x. x \<in> set xs \<Longrightarrow> preserves I (f x)) \<Longrightarrow> preserves I (foreachE f xs)"
  unfolding preserves_def by (rule hoare_foreach)

lemma preserves_case_option [hoare_intros]:
  "preserves I m \<Longrightarrow> (\<And>x. preserves I (f x)) \<Longrightarrow> preserves I (case o' of None \<Rightarrow> m | Some x \<Rightarrow> f x)"
  by (cases o') auto

lemma preserves_case_sum [hoare_intros]:
  "(\<And>e. preserves I (f e)) \<Longrightarrow> (\<And>x. preserves I (g x)) \<Longrightarrow>
     preserves I (case r of Inl e \<Rightarrow> f e | Inr x \<Rightarrow> g x)"
  by (cases r) auto

lemma preserves_case_prod [hoare_intros]:
  "(\<And>a b. preserves I (f a b)) \<Longrightarrow> preserves I (case p of (a, b) \<Rightarrow> f a b)"
  by (cases p) auto

section \<open>64-bit integers\<close>

text \<open>Go's \<open>int64\<close> and \<open>int\<close> (on 64-bit targets): results of arithmetic wrap around.\<close>

definition int64 :: "int \<Rightarrow> int" where
  "int64 x = signed_take_bit 63 x"

definition in_int64 :: "int \<Rightarrow> bool" where
  "in_int64 x \<longleftrightarrow> - (2 ^ 63) \<le> x \<and> x < 2 ^ 63"

lemma int64_id [simp, go_simps]: "in_int64 x \<Longrightarrow> int64 x = x"
  by (simp add: int64_def in_int64_def signed_take_bit_int_eq_self)

lemma int64_range [simp]: "in_int64 (int64 x)"
  unfolding in_int64_def int64_def
  using signed_take_bit_int_greater_eq_minus_exp [of 63 x] signed_take_bit_int_less_exp [of 63 x]
  by simp

lemma in_int64_between: "in_int64 a \<Longrightarrow> in_int64 b \<Longrightarrow> a \<le> x \<Longrightarrow> x \<le> b \<Longrightarrow> in_int64 x"
  by (simp add: in_int64_def)

section \<open>Lists\<close>

text \<open>First row matching a condition: what \<open>QueryRow ... Scan\<close> sees.\<close>

abbreviation first_row :: "('a \<Rightarrow> bool) \<Rightarrow> 'a list \<Rightarrow> 'a option" where
  "first_row \<equiv> List.find"

lemma find_SomeD: "List.find P xs = Some x \<Longrightarrow> x \<in> set xs \<and> P x"
  by (auto simp: find_Some_iff)

lemma find_filter: "List.find P (filter Q xs) = List.find (\<lambda>x. Q x \<and> P x) xs"
  by (induction xs) auto

lemma find_append:
  "List.find P (xs @ ys) = (case List.find P xs of Some x \<Rightarrow> Some x | None \<Rightarrow> List.find P ys)"
  by (induction xs) auto

lemma find_map: "List.find P (map f xs) = map_option f (List.find (P \<circ> f) xs)"
  by (induction xs) auto

lemma distinct_map_filterI [simp, intro]: "distinct (map f xs) \<Longrightarrow> distinct (map f (filter P xs))"
  by (induction xs) auto

lemma distinct_key_unique:
  "distinct (map f xs) \<Longrightarrow> x \<in> set xs \<Longrightarrow> y \<in> set xs \<Longrightarrow> f x = f y \<Longrightarrow> x = y"
  by (auto simp: distinct_map inj_on_def)

lemma find_key:
  assumes "distinct (map f xs)" and "x \<in> set xs"
  shows "List.find (\<lambda>y. f y = f x) xs = Some x"
  using assms by (induction xs) (auto simp: rev_image_eqI)

lemma find_key_None: "List.find (\<lambda>y. f y = k) xs = None \<longleftrightarrow> k \<notin> f ` set xs"
  by (auto simp: find_None_iff)

text \<open>A separator makes concatenation injective when it does not occur in the first part.\<close>

lemma sep_append_inj:
  "c \<notin> set a \<Longrightarrow> c \<notin> set a' \<Longrightarrow> a @ c # b = a' @ c # b' \<longleftrightarrow> a = a' \<and> b = b'"
proof (induction a arbitrary: a')
  case Nil
  then show ?case by (cases a') auto
next
  case (Cons x a)
  then show ?case by (cases a') auto
qed

lemma sum_list_filter_split:
  fixes f :: "'a \<Rightarrow> int"
  shows "sum_list (map f xs) = sum_list (map f (filter P xs)) + sum_list (map f (filter (\<lambda>x. \<not> P x) xs))"
  by (induction xs) auto

end
