(* ===== verification/GoStd.thy ===== *)
theory GoStd
  imports Prelude
begin

text \<open>
  What the program uses of Go's standard library: \<^verbatim>\<open>strings\<close>, \<^verbatim>\<open>strconv\<close>,
  \<^verbatim>\<open>encoding/base64\<close>.  A Go string is a list of bytes (\<open>string\<close> is a list of 8-bit
  characters).  Case folding and white space are those of the ASCII range, which
  is what host names, header keys and numbers use.
\<close>

section \<open>Package strings\<close>

definition HasPrefix :: "string \<Rightarrow> string \<Rightarrow> bool" where
  "HasPrefix s p \<longleftrightarrow> take (length p) s = p"

definition HasSuffix :: "string \<Rightarrow> string \<Rightarrow> bool" where
  "HasSuffix s p \<longleftrightarrow> HasPrefix (rev s) (rev p)"

text \<open>\<open>strings.Index\<close>: the first position of \<open>sub\<close> in \<open>s\<close>, or -1.\<close>

fun str_index :: "string \<Rightarrow> string \<Rightarrow> int" where
  "str_index [] sub = (if sub = [] then 0 else - 1)"
| "str_index (c # s) sub =
     (if HasPrefix (c # s) sub then 0
      else let i = str_index s sub in if i < 0 then - 1 else i + 1)"

definition str_contains :: "string \<Rightarrow> string \<Rightarrow> bool" where
  "str_contains s sub \<longleftrightarrow> 0 \<le> str_index s sub"

text \<open>\<open>strings.Split\<close> and \<open>strings.SplitN(_, _, 2)\<close> at a one-byte separator.\<close>

fun str_split :: "char \<Rightarrow> string \<Rightarrow> string list" where
  "str_split c [] = [[]]"
| "str_split c (x # s) =
     (if x = c then [] # str_split c s
      else case str_split c s of [] \<Rightarrow> [[x]] | p # ps \<Rightarrow> (x # p) # ps)"

definition str_split2 :: "char \<Rightarrow> string \<Rightarrow> string list" where
  "str_split2 c s =
     (if c \<in> set s then [takeWhile (\<lambda>x. x \<noteq> c) s, tl (dropWhile (\<lambda>x. x \<noteq> c) s)] else [s])"

fun str_join :: "string \<Rightarrow> string list \<Rightarrow> string" where
  "str_join sep [] = []"
| "str_join sep [p] = p"
| "str_join sep (p # ps) = p @ sep @ str_join sep ps"

definition char_lower :: "char \<Rightarrow> char" where
  "char_lower c = (let n = of_char c :: nat in if 65 \<le> n \<and> n \<le> 90 then char_of (n + 32) else c)"

definition ToLower :: "string \<Rightarrow> string" where
  "ToLower s = map char_lower s"

definition is_space :: "char \<Rightarrow> bool" where
  "is_space c = (let n = of_char c :: nat in n = 32 \<or> (9 \<le> n \<and> n \<le> 13))"

definition str_trim :: "(char \<Rightarrow> bool) \<Rightarrow> string \<Rightarrow> string" where
  "str_trim P s = rev (dropWhile P (rev (dropWhile P s)))"

definition TrimSpace :: "string \<Rightarrow> string" where
  "TrimSpace s = str_trim is_space s"

subsection \<open>Facts\<close>

lemma HasPrefix_append [simp, go_simps]: "HasPrefix (p @ s) p"
  by (simp add: HasPrefix_def)

lemma HasPrefix_iff: "HasPrefix s p \<longleftrightarrow> (\<exists>t. s = p @ t)"
  by (metis HasPrefix_append HasPrefix_def append_take_drop_id)

lemma HasPrefix_prefix: "HasPrefix s p \<longleftrightarrow> prefix p s"
  by (simp add: HasPrefix_iff prefix_def)

lemma str_index_bounds: "- 1 \<le> str_index s sub \<and> str_index s sub \<le> int (length s)"
  by (induction s sub rule: str_index.induct) (auto simp: Let_def)

lemma str_index_zero: "str_index s sub = 0 \<longleftrightarrow> HasPrefix s sub"
proof (cases s)
  case Nil
  then show ?thesis by (auto simp: HasPrefix_def)
next
  case (Cons c t)
  then show ?thesis using str_index_bounds [of t sub] by (auto simp: Let_def)
qed

lemma str_split_not_Nil [simp]: "str_split c s \<noteq> []"
  by (induction s) (auto split: list.split)

lemma str_split_no_sep [go_simps]: "c \<notin> set s \<Longrightarrow> str_split c s = [s]"
  by (induction s) auto

lemma str_split_append [go_simps]:
  "c \<notin> set p \<Longrightarrow> str_split c (p @ c # s) = p # str_split c s"
  by (induction p) auto

lemma str_split_parts: "q \<in> set (str_split c s) \<Longrightarrow> c \<notin> set q"
  by (induction s arbitrary: q) (fastforce split: if_splits list.splits)+

lemma str_join_split: "str_join [c] (str_split c s) = s"
proof (induction s)
  case (Cons x s)
  show ?case
  proof (cases "str_split c s")
    case Nil
    then show ?thesis by simp
  next
    case (Cons p ps)
    with \<open>str_join [c] (str_split c s) = s\<close> show ?thesis
      by (cases ps) auto
  qed
qed simp

lemma str_split_join:
  "ps \<noteq> [] \<Longrightarrow> (\<And>p. p \<in> set ps \<Longrightarrow> c \<notin> set p) \<Longrightarrow> str_split c (str_join [c] ps) = ps"
  by (induction "[c]" ps rule: str_join.induct) (auto simp: go_simps)

lemma str_split_hd: "hd (str_split c s) = takeWhile (\<lambda>x. x \<noteq> c) s"
  by (induction s) (auto split: list.split)

lemma char_lower_idem [simp]: "char_lower (char_lower c) = char_lower c"
proof -
  have "of_char (char_of (n + 32)) = n + 32" if "n \<le> 90" for n :: nat
    using that by (simp add: of_char_of)
  then show ?thesis by (auto simp: char_lower_def Let_def)
qed

lemma ToLower_idem [simp, go_simps]: "ToLower (ToLower s) = ToLower s"
  by (simp add: ToLower_def)

section \<open>Package strconv\<close>

definition is_digit :: "char \<Rightarrow> bool" where
  "is_digit c = (let n = of_char c :: nat in 48 \<le> n \<and> n \<le> 57)"

definition digit_val :: "char \<Rightarrow> int" where
  "digit_val c = int (of_char c) - 48"

definition digits_val :: "string \<Rightarrow> int" where
  "digits_val s = foldl (\<lambda>a c. a * 10 + digit_val c) 0 s"

text \<open>\<open>strconv.Atoi\<close> and \<open>ParseInt(_, 10, 64)\<close>: an optional sign and decimal digits, in range.\<close>

definition Atoi :: "string \<Rightarrow> goerr + int" where
  "Atoi s =
     (let neg = HasPrefix s ''-'';
          ds = (if neg \<or> HasPrefix s ''+'' then tl s else s);
          v = (if neg then - digits_val ds else digits_val ds)
      in if ds = [] \<or> \<not> list_all is_digit ds then Inl (ErrOther ''invalid syntax'')
         else if \<not> in_int64 v then Inl (ErrOther ''value out of range'')
         else Inr v)"

text \<open>
  The value that \<open>Atoi\<close> returns beside its error: 0 for a syntax error, the nearest bound
  when the number is out of range.
\<close>

definition Atoi_value :: "string \<Rightarrow> int" where
  "Atoi_value s = (case Atoi s of
      Inr v \<Rightarrow> v
    | Inl e \<Rightarrow> if e = ErrOther ''value out of range''
               then (if HasPrefix s ''-'' then - (2 ^ 63) else 2 ^ 63 - 1) else 0)"

definition ParseBool :: "string \<Rightarrow> goerr + bool" where
  "ParseBool s =
     (if s \<in> set [''1'', ''t'', ''T'', ''true'', ''TRUE'', ''True''] then Inr True
      else if s \<in> set [''0'', ''f'', ''F'', ''false'', ''FALSE'', ''False''] then Inr False
      else Inl (ErrOther ''invalid syntax''))"

text \<open>\<open>strconv.Itoa\<close> on a natural number, and on an \<open>int64\<close>.\<close>

fun nat_dec :: "nat \<Rightarrow> string" where
  "nat_dec n = (if n < 10 then [char_of (48 + n)] else nat_dec (n div 10) @ [char_of (48 + n mod 10)])"

declare nat_dec.simps [simp del]

definition Itoa :: "int \<Rightarrow> string" where
  "Itoa i = (if i < 0 then CHR ''-'' # nat_dec (nat (- i)) else nat_dec (nat i))"

lemma digits_val_snoc: "digits_val (s @ [c]) = digits_val s * 10 + digit_val c"
  by (simp add: digits_val_def)

lemma digit_char: "n < 10 \<Longrightarrow> is_digit (char_of (48 + n)) \<and> digit_val (char_of (48 + n)) = int n"
  by (simp add: is_digit_def digit_val_def Let_def of_char_of)

lemma nat_dec_digits: "list_all is_digit (nat_dec n) \<and> nat_dec n \<noteq> []"
proof (induction n rule: nat_dec.induct)
  case (1 n)
  then show ?case by (subst (1 2) nat_dec.simps) (auto simp: digit_char)
qed

lemma digits_val_nat_dec: "digits_val (nat_dec n) = int n"
proof (induction n rule: nat_dec.induct)
  case (1 n)
  show ?case
  proof (cases "n < 10")
    case True
    then show ?thesis
      by (subst nat_dec.simps) (simp add: digits_val_def digit_char)
  next
    case False
    with 1 show ?thesis
      by (subst nat_dec.simps) (simp add: digits_val_snoc digit_char zdiv_int zmod_int)
  qed
qed

lemma is_digit_not_sign: "is_digit c \<Longrightarrow> c \<noteq> CHR ''-'' \<and> c \<noteq> CHR ''+''"
  by (auto simp: is_digit_def)

lemma nat_dec_no_sign: "\<not> HasPrefix (nat_dec n) ''-'' \<and> \<not> HasPrefix (nat_dec n) ''+''"
  using nat_dec_digits [of n] is_digit_not_sign
  by (cases "nat_dec n") (auto simp: HasPrefix_def)

lemma Atoi_Itoa: "in_int64 i \<Longrightarrow> Atoi (Itoa i) = Inr i"
proof (cases "i < 0")
  case True
  moreover assume "in_int64 i"
  ultimately show ?thesis
    using nat_dec_digits [of "nat (- i)"] digits_val_nat_dec [of "nat (- i)"]
    by (simp add: Atoi_def Itoa_def HasPrefix_def)
next
  case False
  moreover assume "in_int64 i"
  ultimately show ?thesis
    using nat_dec_digits [of "nat i"] digits_val_nat_dec [of "nat i"] nat_dec_no_sign [of "nat i"]
    by (simp add: Atoi_def Itoa_def Let_def)
qed

lemma Itoa_inj: "in_int64 i \<Longrightarrow> in_int64 j \<Longrightarrow> Itoa i = Itoa j \<longleftrightarrow> i = j"
  by (metis Atoi_Itoa sum.inject(2))

lemma Atoi_range: "Atoi s = Inr v \<Longrightarrow> in_int64 v"
  by (auto simp: Atoi_def Let_def split: if_splits)

end
