(* ===== verification/Util.thy ===== *)
theory Util
  imports GoStd
begin

text \<open>
  The package \<^verbatim>\<open>util\<close>: identifiers, MXC URIs, durations, request headers, MIME
  types, unpadded base64 (\<^verbatim>\<open>util/*.go\<close>).
\<close>

section \<open>arrays.go, strings.go, math.go\<close>

fun ArrayContains :: "string list \<Rightarrow> string \<Rightarrow> bool" where
  "ArrayContains [] v = False"
| "ArrayContains (e # a) v = (if e = v then True else ArrayContains a v)"

fun HasAnyPrefix :: "string \<Rightarrow> string list \<Rightarrow> bool" where
  "HasAnyPrefix v [] = False"
| "HasAnyPrefix v (p # ps) = (if HasPrefix v p then True else HasAnyPrefix v ps)"

definition MaxInt :: "int \<Rightarrow> int \<Rightarrow> int" where
  "MaxInt a b = (if a > b then a else b)"

definition MinInt :: "int \<Rightarrow> int \<Rightarrow> int" where
  "MinInt a b = (if a < b then a else b)"

lemma ArrayContains_iff [simp]: "ArrayContains a v \<longleftrightarrow> v \<in> set a"
  by (induction a) auto

lemma HasAnyPrefix_iff: "HasAnyPrefix v ps \<longleftrightarrow> (\<exists>p \<in> set ps. prefix p v)"
  by (induction ps) (auto simp: HasPrefix_prefix)

lemma MaxInt_max: "MaxInt a b = max a b" and MinInt_min: "MinInt a b = min a b"
  by (simp_all add: MaxInt_def MinInt_def)

section \<open>identifiers.go and mxc.go\<close>

definition MxcUri :: "string \<Rightarrow> string \<Rightarrow> string" where
  "MxcUri origin mediaId = ''mxc://'' @ origin @ ''/'' @ mediaId"

definition SplitMxc :: "string \<Rightarrow> goerr + (string \<times> string)" where
  "SplitMxc mxc =
     (if str_index mxc ''mxc://'' \<noteq> 0
      then Inl (ErrOther ''not a valid mxc uri: missing protocol'')
      else let mxc1 = drop 6 mxc;
               mxc2 = hd (str_split (CHR ''?'') mxc1);
               parts = str_split (CHR ''/'') mxc2
           in if length parts \<noteq> 2
              then Inl (ErrOther ''not a valid mxc uri: not in the format of mxc://origin/media_id'')
              else Inr (parts ! 0, parts ! 1))"

definition SplitUserId :: "string \<Rightarrow> goerr + (string \<times> string)" where
  "SplitUserId userId =
     (if str_index userId ''@'' \<noteq> 0
      then Inl (ErrOther ''not a valid user id: missing symbol'')
      else let parts = str_split (CHR '':'') (drop 1 userId)
           in if length parts < 2
              then Inl (ErrOther ''not a valid user id: not enough parts'')
              else Inr (parts ! 0, str_join '':'' (drop 1 parts)))"

lemma SplitMxc_MxcUri:
  assumes "CHR ''/'' \<notin> set origin" "CHR ''?'' \<notin> set origin"
    and "CHR ''/'' \<notin> set mediaId" "CHR ''?'' \<notin> set mediaId"
  shows "SplitMxc (MxcUri origin mediaId) = Inr (origin, mediaId)"
proof -
  have "str_index (MxcUri origin mediaId) ''mxc://'' = 0"
    by (simp add: str_index_zero MxcUri_def HasPrefix_def)
  moreover have "str_split (CHR ''?'') (drop 6 (MxcUri origin mediaId)) = [origin @ CHR ''/'' # mediaId]"
    using assms by (simp add: MxcUri_def str_split_no_sep)
  ultimately show ?thesis
    using assms by (simp add: SplitMxc_def str_split_append str_split_no_sep)
qed

lemma SplitMxc_ok:
  assumes "SplitMxc mxc = Inr (origin, mediaId)"
  shows "CHR ''/'' \<notin> set origin \<and> CHR ''/'' \<notin> set mediaId \<and>
         CHR ''?'' \<notin> set origin \<and> CHR ''?'' \<notin> set mediaId \<and>
         (\<exists>query. mxc = MxcUri origin mediaId @ query \<and> (query = [] \<or> hd query = CHR ''?''))"
proof -
  define rest where "rest = drop 6 mxc"
  define body where "body = takeWhile (\<lambda>x. x \<noteq> CHR ''?'') rest"
  have pre: "mxc = ''mxc://'' @ rest"
    using assms by (auto simp: SplitMxc_def str_index_zero HasPrefix_iff rest_def split: if_splits)
  have "str_split (CHR ''/'') body = [origin, mediaId]"
    using assms
    by (auto simp: SplitMxc_def Let_def rest_def [symmetric] str_split_hd body_def [symmetric]
                   length_Suc_conv numeral_2_eq_2 split: if_splits)
  then have sp: "str_split (CHR ''/'') body = [origin, mediaId]" .
  then have body: "body = origin @ ''/'' @ mediaId"
    using str_join_split [of "CHR ''/''" body] by simp
  have noq: "CHR ''?'' \<notin> set body"
    by (auto simp: body_def dest: set_takeWhileD)
  have nos: "CHR ''/'' \<notin> set origin" "CHR ''/'' \<notin> set mediaId"
    using str_split_parts [of _ "CHR ''/''" body] sp by auto
  define query where "query = dropWhile (\<lambda>x. x \<noteq> CHR ''?'') rest"
  have "rest = body @ query"
    by (simp add: body_def query_def)
  then have "mxc = MxcUri origin mediaId @ query"
    unfolding pre body MxcUri_def by simp
  moreover have "query = [] \<or> hd query = CHR ''?''"
    using hd_dropWhile [of "\<lambda>x. x \<noteq> CHR ''?''" rest] by (auto simp: query_def)
  ultimately show ?thesis using noq nos unfolding body by auto
qed

lemma SplitUserId_ok:
  assumes "CHR '':'' \<notin> set localpart"
  shows "SplitUserId (''@'' @ localpart @ '':'' @ domain) = Inr (localpart, domain)"
  using assms str_join_split [of "CHR '':''" domain]
  by (simp add: SplitUserId_def str_index_zero HasPrefix_def str_split_append Suc_le_eq)

lemma SplitUserId_Inr:
  assumes "SplitUserId userId = Inr (localpart, domain)"
  shows "userId = ''@'' @ localpart @ '':'' @ domain \<and> CHR '':'' \<notin> set localpart"
proof -
  define rest where "rest = drop 1 userId"
  obtain p ps where sp: "str_split (CHR '':'') rest = p # ps" and ne: "ps \<noteq> []"
    and res: "localpart = p" "domain = str_join '':'' ps"
    using assms
    by (cases "str_split (CHR '':'') rest")
       (auto simp: SplitUserId_def Let_def rest_def split: if_splits)
  have "userId = ''@'' @ rest"
    using assms by (auto simp: SplitUserId_def str_index_zero HasPrefix_iff rest_def split: if_splits)
  moreover have "rest = p @ '':'' @ str_join '':'' ps"
    using str_join_split [of "CHR '':''" rest] sp ne by (cases ps) auto
  moreover have "CHR '':'' \<notin> set p"
    using str_split_parts [of p "CHR '':''" rest] sp by simp
  ultimately show ?thesis using res by simp
qed

section \<open>time.go\<close>

text \<open>Durations are nanoseconds, instants are milliseconds, both \<open>int64\<close>.\<close>

abbreviation millisecond :: int where "millisecond \<equiv> 1000000"
abbreviation second :: int where "second \<equiv> 1000000000"

definition CalcBlockForDuration :: "string \<Rightarrow> goerr + int" where
  "CalcBlockForDuration timeoutMs =
     (if timeoutMs \<noteq> [] then
        (case Atoi timeoutMs of
           Inl err \<Rightarrow> Inl err
         | Inr parsed \<Rightarrow>
             if parsed > 0 then
               (let parsed = (if parsed > 60000 then 60000 else parsed)
                in Inr (int64 (parsed * millisecond)))
             else Inr (20 * second))
      else Inr (20 * second))"

definition GetHourBucket :: "int \<Rightarrow> int" where
  "GetHourBucket ts = int64 ((ts sdiv 3600000) * 3600000)"

lemma CalcBlockForDuration_bounds:
  assumes "CalcBlockForDuration s = Inr d"
  shows "0 < d \<and> d \<le> 60 * second \<and> d mod millisecond = 0"
proof -
  have "int64 (p * millisecond) = p * millisecond" if "0 < p" "p \<le> 60000" for p
    using that by (intro int64_id) (simp add: in_int64_def)
  from this [of 60000] this show ?thesis
    using assms by (auto simp: CalcBlockForDuration_def Let_def split: if_splits sum.splits)
qed

lemma sdiv_mult_le:
  fixes ts k :: int
  assumes "0 \<le> ts" "0 < k"
  shows "(ts sdiv k) * k \<le> ts" "ts < (ts sdiv k) * k + k" "0 \<le> (ts sdiv k) * k"
proof -
  have q: "ts sdiv k = ts div k"
    using assms by (simp add: signed_divide_int_def sgn_if)
  show "(ts sdiv k) * k \<le> ts" "0 \<le> (ts sdiv k) * k"
    using assms pos_mod_sign [of k ts] zmod_le_nonneg_dividend [of ts k]
    by (simp_all add: q minus_mod_eq_div_mult [symmetric])
  show "ts < (ts sdiv k) * k + k"
    using assms pos_mod_bound [of k ts] by (simp add: q minus_mod_eq_div_mult [symmetric])
qed

lemma GetHourBucket_nonneg:
  assumes "0 \<le> ts" "in_int64 ts"
  shows "GetHourBucket ts = ts - ts mod 3600000"
proof -
  have "in_int64 ((ts sdiv 3600000) * 3600000)"
    using sdiv_mult_le [of ts 3600000] assms by (simp add: in_int64_def)
  then have "GetHourBucket ts = (ts sdiv 3600000) * 3600000"
    by (simp add: GetHourBucket_def)
  also have "\<dots> = ts - ts mod 3600000"
    using assms by (simp add: signed_divide_int_def sgn_if minus_mod_eq_div_mult [symmetric])
  finally show ?thesis .
qed

section \<open>urls.go\<close>

text \<open>
  \<open>p[len(p)-1:]\<close> and \<open>p[0]\<close> panic on an empty part: the slice lower bound is -1.
\<close>

fun MakeUrl_from :: "nat \<Rightarrow> string \<Rightarrow> string list \<Rightarrow> goerr + string" where
  "MakeUrl_from i res [] = Inr res"
| "MakeUrl_from i res (p # ps) =
     (if p = [] then Inl (Panic ''slice bounds out of range [-1:]'')
      else if last p = CHR ''/'' then MakeUrl_from (Suc i) (res @ butlast p) ps
      else if hd p \<noteq> CHR ''/'' \<and> 0 < i then MakeUrl_from (Suc i) (res @ ''/'' @ p) ps
      else MakeUrl_from (Suc i) (res @ p) ps)"

definition MakeUrl :: "string list \<Rightarrow> goerr + string" where
  "MakeUrl parts = MakeUrl_from 0 [] parts"

section \<open>mime.go\<close>

definition FixContentType :: "string \<Rightarrow> string" where
  "FixContentType ct = hd (str_split (CHR '';'') ct)"

text \<open>
  \<open>mime.ExtensionsByType\<close> reads the system's MIME tables: a parameter that returns
  the extensions (empty on an error).
\<close>

definition ExtensionForContentType :: "(string \<Rightarrow> string list) \<Rightarrow> string \<Rightarrow> string" where
  "ExtensionForContentType ExtensionsByType ct =
     (if ct = ''image/png'' then ''.png''
      else if ct = ''image/jpeg'' then ''.jpg''
      else case ExtensionsByType ct of e # _ \<Rightarrow> e | [] \<Rightarrow> ''.bin'')"

definition InlineContentTypes :: "string list" where
  "InlineContentTypes =
    [''text/css'', ''text/plain'', ''text/csv'', ''application/json'', ''application/ld+json'',
     ''image/jpeg'', ''image/gif'', ''image/png'', ''image/apng'', ''image/webp'', ''image/avif'',
     ''video/mp4'', ''video/webm'', ''video/ogg'', ''video/quicktime'',
     ''audio/mp4'', ''audio/webm'', ''audio/aac'', ''audio/mpeg'', ''audio/ogg'', ''audio/wave'',
     ''audio/wav'', ''audio/x-wav'', ''audio/x-pn-wav'', ''audio/flac'', ''audio/x-flac'']"

definition CanInline :: "string \<Rightarrow> bool" where
  "CanInline ct = ArrayContains InlineContentTypes (FixContentType ct)"

lemma CanInline_params: "CHR '';'' \<notin> set ct \<Longrightarrow> CanInline (ct @ '';'' @ params) = CanInline ct"
  by (simp add: CanInline_def FixContentType_def str_split_append str_split_no_sep)

lemma CanInline_no_html: "CanInline ct \<Longrightarrow> FixContentType ct \<noteq> ''text/html'' \<and> FixContentType ct \<noteq> ''image/svg+xml''"
  by (auto simp: CanInline_def InlineContentTypes_def)

end
