(* ===== verification/World.thy ===== *)
theory World
  imports Config
begin

text \<open>
  The rows of the database tables (\<^verbatim>\<open>database/table_*.go\<close>) and the state that the
  stateful code works on: the configuration, the tables, the objects in the
  datastores, the clock, and the environment's choices.

  Go's embedding of \<open>*Locatable\<close> in the row structs is record extension.  The schema
  and the trigger that maintains \<open>user_stats\<close> are those of \<^verbatim>\<open>migrations/\<close>.  Postgres'
  \<open>BIGINT\<close> columns hold the \<open>int64\<close> values that Go sends; the sums of the trigger are
  not bounded.
\<close>

section \<open>Rows\<close>

record Locatable =
  Sha256Hash :: string
  DatastoreId :: string
  Location :: string

abbreviation place :: "'a Locatable_scheme \<Rightarrow> string \<times> string" where
  "place r \<equiv> (DatastoreId r, Location r)"

record DbMedia = Locatable +
  m_Origin :: string
  m_MediaId :: string
  m_UploadName :: string
  m_ContentType :: string
  m_UserId :: string
  m_SizeBytes :: int
  m_CreationTs :: int
  m_Quarantined :: bool

record DbThumbnail = Locatable +
  t_Origin :: string
  t_MediaId :: string
  t_ContentType :: string
  t_Width :: int
  t_Height :: int
  t_Method :: string
  t_Animated :: bool
  t_SizeBytes :: int
  t_CreationTs :: int

record VirtLastAccess = Locatable +
  v_SizeBytes :: int
  v_CreationTs :: int
  v_LastAccessTs :: int
  v_ContentType :: string

record DbExpiringMedia =
  e_Origin :: string
  e_MediaId :: string
  e_UserId :: string
  e_ExpiresTs :: int

type_synonym Purpose = string

definition PurposeNone :: Purpose where "PurposeNone = ''none''"

definition PurposePinned :: Purpose where "PurposePinned = ''pinned''"

definition IsPurpose :: "Purpose \<Rightarrow> bool" where
  "IsPurpose purpose \<longleftrightarrow> purpose = PurposeNone \<or> purpose = PurposePinned"

record DbMediaAttributes =
  a_Origin :: string
  a_MediaId :: string
  a_Purpose :: Purpose

record DbHeldMedia =
  h_Origin :: string
  h_MediaId :: string
  h_Reason :: string
  h_HeldTs :: int

definition ForCreateHeldReason :: string where "ForCreateHeldReason = ''media_create''"

record DbReservedMedia =
  r_Origin :: string
  r_MediaId :: string
  r_Reason :: string

definition RestrictedRequiresAuth :: string where
  "RestrictedRequiresAuth = ''io.t2bot.requires_authentication''"

record DbRestrictedMedia =
  rm_Origin :: string
  rm_MediaId :: string
  rm_Condition :: string
  rm_ConditionValue :: string

record DbTask =
  task_TaskId :: int
  task_Name :: string
  task_Params :: "(string \<times> string) list"
  task_StartTs :: int
  task_EndTs :: int
  task_Error :: string

record DbUrlPreview =
  p_Url :: string
  p_ErrorCode :: string
  p_BucketTs :: int
  p_SiteUrl :: string
  p_SiteName :: string
  p_ResourceType :: string
  p_Description :: string
  p_Title :: string
  p_ImageMxc :: string
  p_ImageType :: string
  p_ImageSize :: int
  p_ImageWidth :: int
  p_ImageHeight :: int
  p_LanguageHeader :: string

record DbExportPart =
  x_ExportId :: string
  x_PartNum :: int
  x_SizeBytes :: int
  x_FileName :: string
  x_DatastoreId :: string
  x_Location :: string

record DbLastAccess =
  la_Sha256Hash :: string
  la_LastAccessTs :: int

record DbUserStats =
  us_UserId :: string
  us_UploadedBytes :: int

type_synonym bytes = string

text \<open>
  The client settings that \<^verbatim>\<open>datastores/s3.go\<close> derives from a datastore's options and
  keeps in \<open>s3clients\<close>.  The \<^verbatim>\<open>minio\<close> client itself is represented by the arguments it
  is made from.
\<close>

record s3 =
  s3_endpoint :: string
  s3_region :: string
  s3_useSsl :: bool
  s3_storageClass :: string
  s3_bucket :: string
  s3_publicBaseUrl :: string
  s3_redirectWhenCached :: bool
  s3_prefixLength :: int
  s3_multipartUploads :: bool

section \<open>The state\<close>

text \<open>
  \<open>faults\<close> scripts the failures of the calls that leave the process (SQL statements,
  datastore and file operations): each such call takes the next entry, fails with that
  error and without effect when it is \<open>Some\<close>, and runs when it is \<open>None\<close> or the script
  is used up.  \<open>ticks\<close> are the milliseconds that pass before each reading of the clock.
  \<open>uniq\<close> are the identifiers that the random source will produce.
\<close>

text \<open>
  What the process keeps outside the database: the record caches of the download and
  thumbnail pipelines (a cached nil is \<open>Some None\<close>), the remembered download errors with
  the time they were set, the download buckets of the clients, and the cached access
  tokens with the time they were set and their lifetime in seconds.  The level of a bucket
  is kept by a library and opaque here.
\<close>

record leaky_Bucket =
  bk_Capacity :: int
  bk_DrainBy :: int
  bk_OverflowLimit :: int
  bk_level :: "int list"

record cachedToken =
  ct_userId :: string
  ct_isGuest :: bool
  ct_err :: "goerr option"

record process =
  recordSf :: "string \<Rightarrow> DbMedia option option"
  thumbSf :: "string \<Rightarrow> DbThumbnail option option"
  DownloadErrors :: "string \<Rightarrow> (goerr \<times> int) option"
  buckets :: "string \<Rightarrow> leaky_Bucket option"
  tokenCache :: "string \<Rightarrow> (cachedToken \<times> int \<times> int) option"

record world =
  cfg :: MainRepoConfig
  doms :: domains
  now :: int
  ticks :: "nat list"
  faults :: "string option list"
  uniq :: "string list"
  objects :: "string \<times> string \<Rightarrow> bytes option"
  s3clients :: "(string \<times> s3) list"
  redis_media :: "string \<Rightarrow> bytes option"
  tbl_media :: "DbMedia list"
  tbl_thumbnails :: "DbThumbnail list"
  tbl_expiring :: "DbExpiringMedia list"
  tbl_attributes :: "DbMediaAttributes list"
  tbl_held :: "DbHeldMedia list"
  tbl_reserved :: "DbReservedMedia list"
  tbl_restricted :: "DbRestrictedMedia list"
  tbl_tasks :: "DbTask list"
  tbl_previews :: "DbUrlPreview list"
  tbl_exports :: "(string \<times> string) list"
  tbl_export_parts :: "DbExportPart list"
  tbl_last_access :: "DbLastAccess list"
  tbl_user_stats :: "DbUserStats list"
  task_seq :: int
  process :: process

definition ext :: "(world, 'a) io \<Rightarrow> (world, 'a) io" where
  "ext m = (\<lambda>w. case faults w of
      [] \<Rightarrow> m w
    | None # fs \<Rightarrow> m (w\<lparr>faults := fs\<rparr>)
    | Some e # fs \<Rightarrow> (Inl (ErrOther e), w\<lparr>faults := fs\<rparr>))"

definition dbQuery :: "(world \<Rightarrow> 'a) \<Rightarrow> (world, 'a) io" where
  "dbQuery q = ext (getsE q)"

definition dbExec :: "(world \<Rightarrow> world) \<Rightarrow> (world, unit) io" where
  "dbExec f = ext (modifyE f)"

text \<open>An \<open>INSERT\<close> that fails on a duplicate key.\<close>

definition dbInsert :: "(world \<Rightarrow> bool) \<Rightarrow> (world \<Rightarrow> world) \<Rightarrow> (world, unit) io" where
  "dbInsert dup f = ext (\<lambda>w. if dup w
      then (Inl (ErrOther ''pq: duplicate key value violates unique constraint''), w)
      else (Inr (), f w))"

text \<open>
  A request's context carries the configuration of the domain it is for
  (\<^verbatim>\<open>common/rcontext\<close>); \<open>Initial\<close> is the context of background work.
\<close>

record RequestContext =
  ctx_Config :: DomainRepoConfig

definition rcontext_Initial :: "MainRepoConfig \<Rightarrow> RequestContext" where
  "rcontext_Initial c = \<lparr>ctx_Config = MinimumRepoConfig.extend (MinimumRepoConfig.truncate c)
     (DomainRepoConfig.fields
       \<lparr>hs_Name = '''', hs_ClientServerApi = '''', hs_BackoffAt = 0, hs_AdminApiKind = '''', hs_SigningKeyPath = ''''\<rparr>
       (DownloadsConfig.truncate (MainDownloads c))
       (ThumbnailsConfig.truncate (MainThumbnails c))
       (UrlPreviewsConfig.truncate (MainUrlPreviews c)))\<rparr>"

definition NowMillis :: "(world, int) io" where
  "NowMillis = (\<lambda>w. case ticks w of
      [] \<Rightarrow> (Inr (now w), w)
    | t # ts \<Rightarrow> (Inr (now w + int t), w\<lparr>now := now w + int t, ticks := ts\<rparr>))"

text \<open>
  The state of a repository with the default configuration and empty tables, on which
  the witnesses build.
\<close>

definition empty_world :: world where
  "empty_world =
    \<lparr>cfg = NewDefaultMainConfig, doms = [], now = 0, ticks = [], faults = [], uniq = [],
     objects = (\<lambda>_. None), s3clients = [], redis_media = (\<lambda>_. None), tbl_media = [], tbl_thumbnails = [], tbl_expiring = [],
     tbl_attributes = [], tbl_held = [], tbl_reserved = [], tbl_restricted = [],
     tbl_tasks = [], tbl_previews = [], tbl_exports = [], tbl_export_parts = [],
     tbl_last_access = [], tbl_user_stats = [], task_seq = 1,
     process = \<lparr>recordSf = (\<lambda>_. None), thumbSf = (\<lambda>_. None), DownloadErrors = (\<lambda>_. None), buckets = (\<lambda>_. None),
       tokenCache = (\<lambda>_. None)\<rparr>\<rparr>"

section \<open>Reasoning about external calls\<close>

text \<open>
  A condition that survives the steps of the environment: it does not look at the script
  of failures, the clock and the cache of clients, and an identifier may be taken from the
  random source.
\<close>

definition env_stable :: "(world \<Rightarrow> bool) \<Rightarrow> bool" where
  "env_stable I \<longleftrightarrow>
     (\<forall>w fs. I w \<longrightarrow> I (w\<lparr>faults := fs\<rparr>)) \<and>
     (\<forall>w n ts. I w \<longrightarrow> I (w\<lparr>now := n, ticks := ts\<rparr>)) \<and>
     (\<forall>w. I w \<longrightarrow> I (w\<lparr>uniq := tl (uniq w)\<rparr>)) \<and>
     (\<forall>w cs. I w \<longrightarrow> I (w\<lparr>s3clients := cs\<rparr>))"

lemma env_stableI:
  "(\<And>w fs. I (w\<lparr>faults := fs\<rparr>) = I w) \<Longrightarrow> (\<And>w n ts. I (w\<lparr>now := n, ticks := ts\<rparr>) = I w) \<Longrightarrow>
   (\<And>w us. I (w\<lparr>uniq := us\<rparr>) = I w) \<Longrightarrow> (\<And>w cs. I (w\<lparr>s3clients := cs\<rparr>) = I w) \<Longrightarrow> env_stable I"
  by (simp add: env_stable_def)

lemma env_stable_conj [intro]: "env_stable I \<Longrightarrow> env_stable J \<Longrightarrow> env_stable (\<lambda>w. I w \<and> J w)"
  by (simp add: env_stable_def)

lemma ext_cases:
  obtains (run) fs where "ext m w = m (w\<lparr>faults := fs\<rparr>)"
    | (fail) e fs where "ext m w = (Inl (ErrOther e), w\<lparr>faults := fs\<rparr>)"
proof (cases "faults w")
  case Nil
  then have same: "w\<lparr>faults := []\<rparr> = w" by (cases w) simp
  have "ext m w = m w" using Nil by (simp add: ext_def)
  with run [of "[]"] show ?thesis unfolding same by simp
next
  case (Cons x fs)
  then show ?thesis
    by (cases x) (auto simp: ext_def intro: run fail)
qed

lemma ext_no_faults [simp]: "faults w = [] \<Longrightarrow> ext m w = m w"
  by (simp add: ext_def)

lemma preserves_ext [hoare_intros]: "env_stable I \<Longrightarrow> preserves I m \<Longrightarrow> preserves I (ext m)"
proof (rule preservesI)
  fix s assume "env_stable I" "preserves I m" "I s"
  then show "I (snd (ext m s))"
    by (cases m s rule: ext_cases) (auto simp: env_stable_def preservesD)
qed

lemma preserves_dbQuery [hoare_intros]: "env_stable I \<Longrightarrow> preserves I (dbQuery q)"
  unfolding dbQuery_def by (intro preserves_ext preserves_gets)

lemma preserves_dbExec [hoare_intros]:
  "env_stable I \<Longrightarrow> (\<And>w. I w \<Longrightarrow> I (f w)) \<Longrightarrow> preserves I (dbExec f)"
  unfolding dbExec_def by (intro preserves_ext preserves_modify)

lemma preserves_dbInsert [hoare_intros]:
  "env_stable I \<Longrightarrow> (\<And>w. I w \<Longrightarrow> \<not> dup w \<Longrightarrow> I (f w)) \<Longrightarrow> preserves I (dbInsert dup f)"
  unfolding dbInsert_def by (intro preserves_ext preservesI) auto

lemma preserves_NowMillis [hoare_intros]: "env_stable I \<Longrightarrow> preserves I NowMillis"
  by (rule preservesI) (auto simp: NowMillis_def env_stable_def split: list.split)

lemma hoare_ext:
  assumes "env_stable P" and "hoare P m Q E" and "\<And>s e. P s \<Longrightarrow> E (ErrOther e) s"
  shows "hoare P (ext m) Q E"
  unfolding hoare_def
proof (intro allI impI)
  fix s assume "P s"
  with assms show "case ext m s of (Inr x, s') \<Rightarrow> Q x s' | (Inl e, s') \<Rightarrow> E e s'"
    by (cases m s rule: ext_cases) (auto simp: hoare_def env_stable_def)
qed

text \<open>
  The same rules for conditions that may say that the script of failures is used up: a
  failure is to be accounted for only when the script is not empty.
\<close>

definition script_stable :: "(world \<Rightarrow> bool) \<Rightarrow> bool" where
  "script_stable P \<longleftrightarrow> (\<forall>s fs. P s \<longrightarrow> faults s \<noteq> [] \<longrightarrow> P (s\<lparr>faults := fs\<rparr>))"

lemma script_stableD: "script_stable P \<Longrightarrow> P s \<Longrightarrow> faults s = f # fs \<Longrightarrow> P (s\<lparr>faults := fs\<rparr>)"
  by (simp add: script_stable_def)

lemma env_script_stable: "env_stable P \<Longrightarrow> script_stable P"
  by (simp add: env_stable_def script_stable_def)

lemma hoare_ext_script:
  assumes "script_stable P" and "hoare P m Q E"
    and "\<And>s e fs. P s \<Longrightarrow> faults s \<noteq> [] \<Longrightarrow> P (s\<lparr>faults := fs\<rparr>) \<Longrightarrow> E (ErrOther e) (s\<lparr>faults := fs\<rparr>)"
  shows "hoare P (ext m) Q E"
  unfolding hoare_def
proof (intro allI impI)
  fix s assume P: "P s"
  show "case ext m s of (Inr x, s') \<Rightarrow> Q x s' | (Inl e, s') \<Rightarrow> E e s'"
  proof (cases "faults s")
    case Nil
    with P assms(2) show ?thesis by (auto simp: ext_def hoare_def)
  next
    case (Cons f fs)
    then have "P (s\<lparr>faults := fs\<rparr>)" using P assms(1) by (auto dest: script_stableD)
    with P Cons assms(2,3) show ?thesis by (cases f) (auto simp: ext_def hoare_def)
  qed
qed

lemma hoare_dbQuery:
  assumes "script_stable P" and "\<And>s. P s \<Longrightarrow> Q (q s) s"
    and "\<And>s e fs. P s \<Longrightarrow> faults s \<noteq> [] \<Longrightarrow> P (s\<lparr>faults := fs\<rparr>) \<Longrightarrow> E (ErrOther e) (s\<lparr>faults := fs\<rparr>)"
  shows "hoare P (dbQuery q) Q E"
  unfolding dbQuery_def using assms
  by (intro hoare_ext_script) (auto simp: hoare_def)

lemma hoare_dbExec:
  assumes "script_stable P" and "\<And>s. P s \<Longrightarrow> Q () (f s)"
    and "\<And>s e fs. P s \<Longrightarrow> faults s \<noteq> [] \<Longrightarrow> P (s\<lparr>faults := fs\<rparr>) \<Longrightarrow> E (ErrOther e) (s\<lparr>faults := fs\<rparr>)"
  shows "hoare P (dbExec f) Q E"
  unfolding dbExec_def using assms
  by (intro hoare_ext_script) (auto simp: hoare_def)

lemma hoare_dbInsert:
  assumes "env_stable P" and "\<And>w. P w \<Longrightarrow> \<not> dup w \<Longrightarrow> Q () (f w)" and "\<And>w e. P w \<Longrightarrow> E (ErrOther e) w"
  shows "hoare P (dbInsert dup f) Q E"
  unfolding dbInsert_def by (rule hoare_ext) (use assms in \<open>auto simp: hoare_def\<close>)

lemma hoare_step:
  assumes "env_stable P" and "\<And>s e. P s \<Longrightarrow> E (ErrOther e) s" and "hoare P m Q E"
  shows "hoare P (thenE (ext (returnE x)) m) Q E"
  by (rule hoare_then [where R = P, OF hoare_ext]) (use assms in \<open>auto intro: hoare_return\<close>)

lemma dbQuery_Inr:
  "dbQuery q w = (Inr x, w') \<Longrightarrow> \<exists>fs. w' = w\<lparr>faults := fs\<rparr> \<and> x = q w'"
  unfolding dbQuery_def by (cases "getsE q" w rule: ext_cases) auto

lemma dbQuery_snd: "\<exists>fs. snd (dbQuery q w) = w\<lparr>faults := fs\<rparr>"
  unfolding dbQuery_def by (cases "getsE q" w rule: ext_cases) auto

lemma dbQuery_no_faults [simp]: "faults w = [] \<Longrightarrow> dbQuery q w = (Inr (q w), w)"
  by (simp add: dbQuery_def)

lemma dbExec_no_faults [simp]: "faults w = [] \<Longrightarrow> dbExec f w = (Inr (), f w)"
  by (simp add: dbExec_def)

lemma dbInsert_no_faults [simp]:
  "faults w = [] \<Longrightarrow> dbInsert dup f w =
     (if dup w then (Inl (ErrOther ''pq: duplicate key value violates unique constraint''), w) else (Inr (), f w))"
  by (simp add: dbInsert_def)

end
