(* ===== verification/Demo.thy ===== *)
theory Demo
  imports World
begin

text \<open>
  A small repository on which the witnesses evaluate: one file datastore, one local
  domain, two local media that share a file (the second one is pinned), a remote one,
  and a thumbnail.
\<close>

definition demo_ds :: DatastoreConfig where
  "demo_ds = \<lparr>ds_Id = ''fs'', ds_Type = ''file'', ds_MediaKinds = [''all''], ds_Options = [(''path'', ''/m'')]\<rparr>"

definition demo_domain :: DomainRepoConfig where
  "demo_domain = NewDefaultDomainConfig
    \<lparr>DataStores := [demo_ds],
     Homeserver := \<lparr>hs_Name = ''a.org'', hs_ClientServerApi = ''https://a.org'', hs_BackoffAt = 10,
                    hs_AdminApiKind = ''matrix'', hs_SigningKeyPath = ''''\<rparr>\<rparr>"

definition demo_ctx :: RequestContext where
  "demo_ctx = \<lparr>ctx_Config = demo_domain\<rparr>"

definition demo_m1 :: DbMedia where
  "demo_m1 = \<lparr>Sha256Hash = ''h1'', DatastoreId = ''fs'', Location = ''l1'', m_Origin = ''a.org'', m_MediaId = ''one'',
     m_UploadName = ''x.png'', m_ContentType = ''image/png'', m_UserId = ''@u:a.org'', m_SizeBytes = 3,
     m_CreationTs = 100, m_Quarantined = False\<rparr>"

definition demo_m2 :: DbMedia where
  "demo_m2 = \<lparr>Sha256Hash = ''h1'', DatastoreId = ''fs'', Location = ''l1'', m_Origin = ''a.org'', m_MediaId = ''two'',
     m_UploadName = ''y.png'', m_ContentType = ''image/png'', m_UserId = ''@v:a.org'', m_SizeBytes = 3,
     m_CreationTs = 200, m_Quarantined = False\<rparr>"

definition demo_m3 :: DbMedia where
  "demo_m3 = \<lparr>Sha256Hash = ''h3'', DatastoreId = ''fs'', Location = ''l3'', m_Origin = ''b.org'', m_MediaId = ''three'',
     m_UploadName = ''z.txt'', m_ContentType = ''text/plain'', m_UserId = '''', m_SizeBytes = 2,
     m_CreationTs = 50, m_Quarantined = False\<rparr>"

definition demo_t1 :: DbThumbnail where
  "demo_t1 = \<lparr>Sha256Hash = ''h4'', DatastoreId = ''fs'', Location = ''t1'', t_Origin = ''a.org'', t_MediaId = ''one'',
     t_ContentType = ''image/png'', t_Width = 32, t_Height = 32, t_Method = ''scale'', t_Animated = False,
     t_SizeBytes = 1, t_CreationTs = 100\<rparr>"

definition demo_world :: world where
  "demo_world = empty_world
    \<lparr>doms := [(''a.org'', demo_domain)], now := 1000, uniq := [''aabbccdd'', ''eeff0011''],
     objects := [(''fs'', ''l1'') \<mapsto> ''abc'', (''fs'', ''l3'') \<mapsto> ''de'', (''fs'', ''t1'') \<mapsto> ''t''],
     tbl_media := [demo_m1, demo_m2, demo_m3],
     tbl_thumbnails := [demo_t1],
     tbl_attributes := [\<lparr>a_Origin = ''a.org'', a_MediaId = ''two'', a_Purpose = PurposePinned\<rparr>],
     tbl_user_stats := [\<lparr>us_UserId = ''@u:a.org'', us_UploadedBytes = 3\<rparr>,
        \<lparr>us_UserId = ''@v:a.org'', us_UploadedBytes = 3\<rparr>, \<lparr>us_UserId = '''', us_UploadedBytes = 2\<rparr>]\<rparr>"

named_theorems demo_simps

lemmas demo_defs [demo_simps] = demo_ds_def demo_domain_def demo_ctx_def demo_m1_def demo_m2_def demo_m3_def demo_t1_def

lemma demo_world_tables [simp]:
  "tbl_media demo_world = [demo_m1, demo_m2, demo_m3]"
  "tbl_thumbnails demo_world = [demo_t1]"
  "faults demo_world = []" "ticks demo_world = []" "now demo_world = 1000"
  "tbl_attributes demo_world = [\<lparr>a_Origin = ''a.org'', a_MediaId = ''two'', a_Purpose = PurposePinned\<rparr>]"
  "doms demo_world = [(''a.org'', demo_domain)]"
  "objects demo_world = [(''fs'', ''l1'') \<mapsto> ''abc'', (''fs'', ''l3'') \<mapsto> ''de'', (''fs'', ''t1'') \<mapsto> ''t'']"
  "tbl_user_stats demo_world = [\<lparr>us_UserId = ''@u:a.org'', us_UploadedBytes = 3\<rparr>,
        \<lparr>us_UserId = ''@v:a.org'', us_UploadedBytes = 3\<rparr>, \<lparr>us_UserId = '''', us_UploadedBytes = 2\<rparr>]"
  by (simp_all add: demo_world_def empty_world_def)

end
