(* ===== verification/MediaTable.thy ===== *)
theory MediaTable
  imports World Demo
begin

text \<open>
  The media table and the statistics its trigger maintains
  (\<^verbatim>\<open>database/table_media.go\<close>, \<^verbatim>\<open>database/table_user_stats.go\<close>,
  \<^verbatim>\<open>migrations/17_add_user_stats_table_up.sql\<close>), statement preparation, and the
  interface of a keyed table that the other tables share.
\<close>

section \<open>Preparing statements\<close>

text \<open>
  Every \<open>prepare...Tables\<close> function prepares its statements in order and stops at the
  first that the server refuses, naming it.  The value returned is the list of the
  statements that are ready.
\<close>

fun err_text :: "goerr \<Rightarrow> string" where
  "err_text (ErrOther s) = s"
| "err_text (Panic s) = s"
| "err_text ErrMediaNotFound = ''media not found''"
| "err_text ErrMediaTooLarge = ''media too large''"
| "err_text ErrInvalidHost = ''invalid host''"
| "err_text ErrHostNotFound = ''host not found''"
| "err_text ErrHostNotAllowed = ''host not allowed''"
| "err_text ErrMediaQuarantined = ''media quarantined''"
| "err_text ErrQuotaExceeded = ''quota exceeded''"
| "err_text ErrWrongUser = ''wrong user''"
| "err_text ErrExpired = ''expired''"
| "err_text ErrAlreadyUploaded = ''already uploaded''"
| "err_text ErrMediaNotYetUploaded = ''media not yet uploaded''"
| "err_text ErrMediaDimensionsTooSmall = ''media is too small dimensionally''"
| "err_text ErrRateLimitExceeded = ''rate limit exceeded''"
| "err_text ErrRestrictedAuth = ''authentication is required to download this media''"
| "err_text (ServerNotAllowedError serverName) = ''server '' @ serverName @ '' is not allowed''"
| "err_text ErrInvalidToken = ''missing or invalid access token''"
| "err_text ErrGuestToken = ''token belongs to a guest''"
| "err_text ErrNoXMatrixAuth = ''no X-Matrix auth headers''"
| "err_text ErrWrongDestination = ''wrong destination''"
| "err_text ErrEOF = ''EOF''"

definition wrap_err :: "string \<Rightarrow> (world, 'a) io \<Rightarrow> (world, 'a) io" where
  "wrap_err msg m = bindE (tryE m) (\<lambda>r. case r of
      Inl err \<Rightarrow> throwE (ErrOther (msg @ err_text err))
    | Inr x \<Rightarrow> returnE x)"

fun prepareAll :: "string list \<Rightarrow> (world, string list) io" where
  "prepareAll [] = returnE []"
| "prepareAll (name # names) =
     bindE (wrap_err (''error preparing '' @ name @ '': '') (ext (returnE name))) (\<lambda>stmt.
     bindE (prepareAll names) (\<lambda>stmts. returnE (stmt # stmts)))"

definition prepareMediaTables :: "(world, string list) io" where
  "prepareMediaTables = prepareAll
    [''selectDistinctMediaDatastoreIds'', ''selectMediaIsQuarantinedByHash'', ''selectMediaByHash'',
     ''insertMedia'', ''selectMediaExists'', ''selectMediaById'', ''selectMediaByUserId'',
     ''selectOldMediaByUserId'', ''selectMediaByOrigin'', ''selectOldMediaByOrigin'',
     ''selectMediaByLocationExists'', ''selectMediaByUserCount'', ''selectMediaByOriginAndUserIds'',
     ''selectMediaByOriginAndIds'', ''selectOldMediaExcludingDomains'', ''deleteMedia'',
     ''updateMediaLocation'', ''selectMediaByLocation'', ''selectMediaByQuarantine'',
     ''selectMediaByQuarantineAndOrigin'']"

definition prepareUserStatsTables :: "(world, string list) io" where
  "prepareUserStatsTables = prepareAll [''selectUserStatsUploadedBytes'']"

lemma prepareAll_ok: "prepareAll names w = (Inr stmts, w') \<Longrightarrow> stmts = names"
proof (induction names arbitrary: w w' stmts)
  case (Cons name names)
  have "wrap_err msg (ext (returnE name)) w = (Inr x, w1) \<Longrightarrow> x = name" for msg x and w1 :: world
    by (cases "returnE name :: (world, string) io" w rule: ext_cases)
       (auto simp: wrap_err_def io_simps split: if_splits)
  with Cons show ?case
    by (fastforce simp: io_simps split: prod.splits sum.splits)
qed (simp add: io_simps)

lemma prepareAll_no_faults: "faults w = [] \<Longrightarrow> prepareAll names w = (Inr names, w)"
  by (induction names arbitrary: w) (simp_all add: wrap_err_def io_simps)

section \<open>user\_stats\<close>

fun stats_add :: "string \<Rightarrow> int \<Rightarrow> DbUserStats list \<Rightarrow> DbUserStats list" where
  "stats_add u n [] = [\<lparr>us_UserId = u, us_UploadedBytes = n\<rparr>]"
| "stats_add u n (r # rs) =
     (if us_UserId r = u then r\<lparr>us_UploadedBytes := us_UploadedBytes r + n\<rparr> # rs
      else r # stats_add u n rs)"

text \<open>The trigger's DELETE branch: an UPDATE, so a user without a row gets none.\<close>

definition stats_sub :: "string \<Rightarrow> int \<Rightarrow> DbUserStats list \<Rightarrow> DbUserStats list" where
  "stats_sub u n rs =
     map (\<lambda>r. if us_UserId r = u then r\<lparr>us_UploadedBytes := us_UploadedBytes r - n\<rparr> else r) rs"

definition stats_of :: "string \<Rightarrow> DbUserStats list \<Rightarrow> int" where
  "stats_of u rs = (case first_row (\<lambda>r. us_UserId r = u) rs of None \<Rightarrow> 0 | Some r \<Rightarrow> us_UploadedBytes r)"

definition userStats_UserUploadedBytes :: "string \<Rightarrow> (world, int) io" where
  "userStats_UserUploadedBytes userId = dbQuery (\<lambda>w. stats_of userId (tbl_user_stats w))"

section \<open>media: queries\<close>

abbreviation media_key :: "DbMedia \<Rightarrow> string \<times> string" where
  "media_key m \<equiv> (m_Origin m, m_MediaId m)"

definition media_scanRows :: "(world \<Rightarrow> DbMedia \<Rightarrow> bool) \<Rightarrow> (world, DbMedia list) io" where
  "media_scanRows P = dbQuery (\<lambda>w. filter (P w) (tbl_media w))"

definition media_GetDistinctDatastoreIds :: "(world, string list) io" where
  "media_GetDistinctDatastoreIds = dbQuery (\<lambda>w. remdups (map DatastoreId (tbl_media w)))"

definition media_IsHashQuarantined :: "string \<Rightarrow> (world, bool) io" where
  "media_IsHashQuarantined sha256hash = dbQuery (\<lambda>w.
     case first_row (\<lambda>m. m_Quarantined m \<and> Sha256Hash m = sha256hash) (tbl_media w) of
       None \<Rightarrow> False | Some m \<Rightarrow> m_Quarantined m)"

definition media_GetByHash :: "string \<Rightarrow> (world, DbMedia list) io" where
  "media_GetByHash sha256hash = media_scanRows (\<lambda>w m. Sha256Hash m = sha256hash)"

definition media_GetByUserId :: "string \<Rightarrow> (world, DbMedia list) io" where
  "media_GetByUserId userId = media_scanRows (\<lambda>w m. m_UserId m = userId)"

definition media_GetOldByUserId :: "string \<Rightarrow> int \<Rightarrow> (world, DbMedia list) io" where
  "media_GetOldByUserId userId beforeTs =
     media_scanRows (\<lambda>w m. m_UserId m = userId \<and> m_CreationTs m < beforeTs)"

definition media_GetByOrigin :: "string \<Rightarrow> (world, DbMedia list) io" where
  "media_GetByOrigin origin = media_scanRows (\<lambda>w m. m_Origin m = origin)"

definition media_GetOldByOrigin :: "string \<Rightarrow> int \<Rightarrow> (world, DbMedia list) io" where
  "media_GetOldByOrigin origin beforeTs =
     media_scanRows (\<lambda>w m. m_Origin m = origin \<and> m_CreationTs m < beforeTs)"

definition media_GetByOriginUsers :: "string \<Rightarrow> string list \<Rightarrow> (world, DbMedia list) io" where
  "media_GetByOriginUsers origin userIds =
     media_scanRows (\<lambda>w m. m_Origin m = origin \<and> m_UserId m \<in> set userIds)"

definition media_GetByIds :: "string \<Rightarrow> string list \<Rightarrow> (world, DbMedia list) io" where
  "media_GetByIds origin mediaIds =
     media_scanRows (\<lambda>w m. m_Origin m = origin \<and> m_MediaId m \<in> set mediaIds)"

text \<open>
  \<open>m.origin <> ANY($1)\<close> holds when some element of the array differs from the origin.
\<close>

definition old_excluding :: "string list \<Rightarrow> int \<Rightarrow> DbMedia list \<Rightarrow> DbMedia \<Rightarrow> bool" where
  "old_excluding origins beforeTs rows m \<longleftrightarrow>
     (list_ex (\<lambda>o'. m_Origin m \<noteq> o') origins \<or> length origins = 0) \<and>
     m_CreationTs m < beforeTs \<and>
     length (filter (\<lambda>d. Sha256Hash d = Sha256Hash m \<and> m_CreationTs d \<ge> beforeTs) rows) = 0 \<and>
     length (filter (\<lambda>d. Sha256Hash d = Sha256Hash m \<and> m_Origin d \<in> set origins) rows) = 0"

definition media_GetOldExcluding :: "string list \<Rightarrow> int \<Rightarrow> (world, DbMedia list) io" where
  "media_GetOldExcluding origins beforeTs =
     media_scanRows (\<lambda>w. old_excluding origins beforeTs (tbl_media w))"

definition media_GetByLocation :: "string \<Rightarrow> string \<Rightarrow> (world, DbMedia list) io" where
  "media_GetByLocation datastoreId location =
     media_scanRows (\<lambda>w m. DatastoreId m = datastoreId \<and> Location m = location)"

definition media_GetByQuarantine :: "(world, DbMedia list) io" where
  "media_GetByQuarantine = media_scanRows (\<lambda>w m. m_Quarantined m)"

definition media_GetByOriginQuarantine :: "string \<Rightarrow> (world, DbMedia list) io" where
  "media_GetByOriginQuarantine origin = media_scanRows (\<lambda>w m. m_Quarantined m \<and> m_Origin m = origin)"

definition media_GetById :: "string \<Rightarrow> string \<Rightarrow> (world, DbMedia option) io" where
  "media_GetById origin mediaId =
     dbQuery (\<lambda>w. first_row (\<lambda>m. m_Origin m = origin \<and> m_MediaId m = mediaId) (tbl_media w))"

definition media_ByUserCount :: "string \<Rightarrow> (world, int) io" where
  "media_ByUserCount userId =
     dbQuery (\<lambda>w. int (length (filter (\<lambda>m. m_UserId m = userId) (tbl_media w))))"

definition media_IdExists :: "string \<Rightarrow> string \<Rightarrow> (world, bool) io" where
  "media_IdExists origin mediaId =
     dbQuery (\<lambda>w. list_ex (\<lambda>m. m_Origin m = origin \<and> m_MediaId m = mediaId) (tbl_media w))"

definition media_LocationExists :: "string \<Rightarrow> string \<Rightarrow> (world, bool) io" where
  "media_LocationExists datastoreId location =
     dbQuery (\<lambda>w. list_ex (\<lambda>m. DatastoreId m = datastoreId \<and> Location m = location) (tbl_media w))"

section \<open>media: updates\<close>

definition media_Insert :: "DbMedia \<Rightarrow> (world, unit) io" where
  "media_Insert m =
     dbInsert (\<lambda>w. media_key m \<in> media_key ` set (tbl_media w))
       (\<lambda>w. w\<lparr>tbl_media := tbl_media w @ [m],
              tbl_user_stats := stats_add (m_UserId m) (m_SizeBytes m) (tbl_user_stats w)\<rparr>)"

definition media_Delete :: "string \<Rightarrow> string \<Rightarrow> (world, unit) io" where
  "media_Delete origin mediaId = dbExec (\<lambda>w.
     let gone = filter (\<lambda>m. m_Origin m = origin \<and> m_MediaId m = mediaId) (tbl_media w) in
     w\<lparr>tbl_media := filter (\<lambda>m. \<not> (m_Origin m = origin \<and> m_MediaId m = mediaId)) (tbl_media w),
       tbl_user_stats := fold (\<lambda>m. stats_sub (m_UserId m) (m_SizeBytes m)) gone (tbl_user_stats w)\<rparr>)"

definition relocate :: "string \<Rightarrow> string \<Rightarrow> string \<Rightarrow> string \<Rightarrow> 'a Locatable_scheme \<Rightarrow> 'a Locatable_scheme" where
  "relocate sourceDsId sourceLocation targetDsId targetLocation r =
     (if DatastoreId r = sourceDsId \<and> Location r = sourceLocation
      then r\<lparr>DatastoreId := targetDsId, Location := targetLocation\<rparr> else r)"

text \<open>
  The trigger runs for the updated rows too; with the user and the size unchanged it
  only makes sure that the user has a row.
\<close>

definition media_UpdateLocation :: "string \<Rightarrow> string \<Rightarrow> string \<Rightarrow> string \<Rightarrow> (world, unit) io" where
  "media_UpdateLocation sourceDsId sourceLocation targetDsId targetLocation = dbExec (\<lambda>w.
     let hit = filter (\<lambda>m. DatastoreId m = sourceDsId \<and> Location m = sourceLocation) (tbl_media w) in
     w\<lparr>tbl_media := map (relocate sourceDsId sourceLocation targetDsId targetLocation) (tbl_media w),
       tbl_user_stats := fold (\<lambda>m. stats_add (m_UserId m) 0) hit (tbl_user_stats w)\<rparr>)"

section \<open>The contract of a keyed table\<close>

text \<open>
  What the pipelines rely on when they look a row up by its key, insert one or delete
  one: the accessors behave like a finite map, and a failed statement changes no row.
\<close>

locale keyed_table =
  fixes rows :: "world \<Rightarrow> 'r list"
    and key :: "'r \<Rightarrow> 'k"
    and get :: "'k \<Rightarrow> (world, 'r option) io"
    and ins :: "'r \<Rightarrow> (world, unit) io"
    and del :: "'k \<Rightarrow> (world, unit) io"
  assumes get_run: "get k w = (Inr x, w') \<Longrightarrow> x = List.find (\<lambda>r. key r = k) (rows w)"
    and get_rows: "get k w = (res, w') \<Longrightarrow> rows w' = rows w"
    and ins_ok: "ins r w = (Inr (), w') \<Longrightarrow> key r \<notin> key ` set (rows w) \<and> rows w' = rows w @ [r]"
    and ins_fail: "ins r w = (Inl e, w') \<Longrightarrow> rows w' = rows w"
    and del_ok: "del k w = (Inr (), w') \<Longrightarrow> rows w' = filter (\<lambda>r. key r \<noteq> k) (rows w)"
    and del_fail: "del k w = (Inl e, w') \<Longrightarrow> rows w' = rows w"
begin

definition unique_keys :: "world \<Rightarrow> bool" where
  "unique_keys w \<longleftrightarrow> distinct (map key (rows w))"

lemma ins_unique: "preserves unique_keys (ins r)"
proof (rule preservesI)
  fix w assume "unique_keys w"
  then show "unique_keys (snd (ins r w))"
    by (cases "ins r w"; cases "fst (ins r w)")
       (auto simp: unique_keys_def dest!: ins_ok ins_fail)
qed

lemma del_unique: "preserves unique_keys (del k)"
proof (rule preservesI)
  fix w assume "unique_keys w"
  then show "unique_keys (snd (del k w))"
    by (cases "del k w"; cases "fst (del k w)")
       (auto simp: unique_keys_def dest!: del_ok del_fail)
qed

lemma get_unique: "preserves unique_keys (get k)"
  by (rule preservesI) (metis get_rows prod.collapse unique_keys_def)

lemma get_after_ins:
  assumes "ins r w = (Inr (), w1)" and "get (key r) w1 = (Inr x, w2)"
  shows "x = Some r"
proof -
  have "List.find (\<lambda>r'. key r' = key r) (rows w) = None"
    using ins_ok [OF assms(1)] by (simp add: find_key_None)
  then have "List.find (\<lambda>r'. key r' = key r) (rows w1) = Some r"
    using ins_ok [OF assms(1)] by (simp add: find_append)
  then show ?thesis using get_run [OF assms(2)] by simp
qed

lemma get_after_del:
  assumes "del k w = (Inr (), w1)" and "get k w1 = (Inr x, w2)"
  shows "x = None"
proof -
  have "rows w1 = filter (\<lambda>r. key r \<noteq> k) (rows w)"
    by (rule del_ok [OF assms(1)])
  moreover have "x = List.find (\<lambda>r. key r = k) (rows w1)"
    by (rule get_run [OF assms(2)])
  ultimately show ?thesis
    by (auto simp: find_filter find_None_iff)
qed

lemma get_other_after_ins:
  assumes "ins r w = (Inr (), w1)" and "k \<noteq> key r"
    and "get k w1 = (Inr x, w2)" and "get k w = (Inr y, w3)"
  shows "x = y"
proof -
  have "List.find (\<lambda>r'. key r' = k) (rows w1) = List.find (\<lambda>r'. key r' = k) (rows w)"
    using ins_ok [OF assms(1)] assms(2) by (auto simp: find_append split: option.split)
  then show ?thesis using get_run [OF assms(3)] get_run [OF assms(4)] by simp
qed

lemma ins_duplicate_fails:
  assumes "key r \<in> key ` set (rows w)" and "ins r w = (res, w')"
  shows "\<exists>e. res = Inl e \<and> rows w' = rows w"
  using assms by (cases res) (auto dest: ins_ok ins_fail)

end

lemma ext_getsE_result: "dbQuery q w = (Inr x, w') \<Longrightarrow> (\<And>fs. q (w\<lparr>faults := fs\<rparr>) = q w) \<Longrightarrow> x = q w"
  using dbQuery_Inr by fastforce

lemma dbExec_result:
  "dbExec f w = (Inr (), w') \<Longrightarrow> \<exists>fs. w' = f (w\<lparr>faults := fs\<rparr>)"
  "dbExec f w = (Inl e, w') \<Longrightarrow> \<exists>fs. w' = w\<lparr>faults := fs\<rparr>"
  unfolding dbExec_def by (cases "modifyE f" w rule: ext_cases; auto)+

lemma dbInsert_result:
  "dbInsert dup f w = (Inr (), w') \<Longrightarrow> \<exists>fs. \<not> dup (w\<lparr>faults := fs\<rparr>) \<and> w' = f (w\<lparr>faults := fs\<rparr>)"
  "dbInsert dup f w = (Inl e, w') \<Longrightarrow> \<exists>fs. w' = w\<lparr>faults := fs\<rparr>"
  unfolding dbInsert_def
  by (cases "\<lambda>w. if dup w
      then (Inl (ErrOther ''pq: duplicate key value violates unique constraint''), w)
      else (Inr (), f w)" w rule: ext_cases; auto split: if_splits)+

lemma dbQuery_state: "dbQuery q w = (res, w') \<Longrightarrow> \<exists>fs. w' = w\<lparr>faults := fs\<rparr>"
  using dbQuery_snd [of q w] by auto

lemmas db_results = dbExec_result dbInsert_result dbQuery_state

interpretation media: keyed_table tbl_media media_key "\<lambda>(o', i). media_GetById o' i"
  media_Insert "\<lambda>(o', i). media_Delete o' i"
proof unfold_locales
  fix k w x w'
  assume "(case k of (o', i) \<Rightarrow> media_GetById o' i) w = (Inr x, w')"
  then show "x = List.find (\<lambda>r. media_key r = k) (tbl_media w)"
    by (cases k) (auto simp: media_GetById_def dest!: ext_getsE_result)
next
  fix k w x w'
  assume "(case k of (o', i) \<Rightarrow> media_GetById o' i) w = (x, w')"
  then show "tbl_media w' = tbl_media w"
    by (cases k) (auto simp: media_GetById_def dest!: dbQuery_state)
qed (auto simp: media_Insert_def media_Delete_def Let_def dest!: db_results intro!: filter_cong)

section \<open>Facts\<close>

lemma old_excluding_not_ours:
  assumes "old_excluding origins ts rows m" "m \<in> set rows" "d \<in> set rows" "Sha256Hash d = Sha256Hash m"
  shows "m_CreationTs d < ts \<and> m_Origin d \<notin> set origins"
  using assms by (auto simp: old_excluding_def filter_empty_conv)

lemma relocate_simps [simp]:
  "Sha256Hash (relocate a b c d r) = Sha256Hash r"
  "m_Origin (relocate a b c d m) = m_Origin m"
  "m_MediaId (relocate a b c d m) = m_MediaId m"
  "m_UserId (relocate a b c d m) = m_UserId m"
  "m_SizeBytes (relocate a b c d m) = m_SizeBytes m"
  "m_Quarantined (relocate a b c d m) = m_Quarantined m"
  by (simp_all add: relocate_def)

lemma stats_of_add: "stats_of u (stats_add v n rs) = stats_of u rs + (if u = v then n else 0)"
  by (induction v n rs rule: stats_add.induct) (auto simp: stats_of_def)

lemma stats_sub_find:
  "first_row (\<lambda>r. us_UserId r = u) (stats_sub v n rs) =
     map_option (\<lambda>r. if us_UserId r = v then r\<lparr>us_UploadedBytes := us_UploadedBytes r - n\<rparr> else r)
       (first_row (\<lambda>r. us_UserId r = u) rs)"
  by (induction rs) (auto simp: stats_sub_def)

lemma stats_of_sub:
  assumes "v \<in> us_UserId ` set rs"
  shows "stats_of u (stats_sub v n rs) = stats_of u rs - (if u = v then n else 0)"
proof (cases "first_row (\<lambda>r. us_UserId r = u) rs")
  case None
  with assms have "u \<noteq> v" by (auto simp: find_None_iff)
  with None show ?thesis by (simp add: stats_of_def stats_sub_find)
next
  case (Some r)
  then have "us_UserId r = u" by (auto dest: find_SomeD)
  with Some show ?thesis by (simp add: stats_of_def stats_sub_find)
qed

text \<open>
  The invariant of the database: keys are unique, every uploader has a statistics row,
  once, and it holds the sum of the sizes of the uploads.
\<close>

definition uploaded_bytes :: "string \<Rightarrow> DbMedia list \<Rightarrow> int" where
  "uploaded_bytes u ms = sum_list (map m_SizeBytes (filter (\<lambda>m. m_UserId m = u) ms))"

definition media_inv :: "world \<Rightarrow> bool" where
  "media_inv w \<longleftrightarrow>
     distinct (map media_key (tbl_media w)) \<and>
     m_UserId ` set (tbl_media w) \<subseteq> us_UserId ` set (tbl_user_stats w) \<and>
     (\<forall>u. stats_of u (tbl_user_stats w) = uploaded_bytes u (tbl_media w))"

lemma stats_users_add [simp]: "us_UserId ` set (stats_add u n rs) = insert u (us_UserId ` set rs)"
  by (induction u n rs rule: stats_add.induct) auto

lemma stats_users_sub [simp]: "us_UserId ` set (stats_sub u n rs) = us_UserId ` set rs"
  by (induction rs) (auto simp: stats_sub_def)

lemma stats_users_fold_sub [simp]:
  "us_UserId ` set (fold (\<lambda>m. stats_sub (m_UserId m) (m_SizeBytes m)) ms rs) = us_UserId ` set rs"
  by (induction ms arbitrary: rs) auto

lemma stats_users_fold_touch:
  "us_UserId ` set (fold (\<lambda>m. stats_add (m_UserId m) 0) ms rs) = m_UserId ` set ms \<union> us_UserId ` set rs"
  by (induction ms arbitrary: rs) auto

lemma stats_of_fold_touch [simp]:
  "stats_of u (fold (\<lambda>m. stats_add (m_UserId m) 0) ms rs) = stats_of u rs"
  by (induction ms arbitrary: rs) (auto simp: stats_of_add)

lemma stats_of_fold_sub:
  "m_UserId ` set ms \<subseteq> us_UserId ` set rs \<Longrightarrow>
     stats_of u (fold (\<lambda>m. stats_sub (m_UserId m) (m_SizeBytes m)) ms rs) = stats_of u rs - uploaded_bytes u ms"
  by (induction ms arbitrary: rs) (auto simp: stats_of_sub uploaded_bytes_def)

lemma uploaded_bytes_append: "uploaded_bytes u (ms @ ns) = uploaded_bytes u ms + uploaded_bytes u ns"
  by (simp add: uploaded_bytes_def)

lemma uploaded_bytes_split:
  "uploaded_bytes u ms = uploaded_bytes u (filter P ms) + uploaded_bytes u (filter (\<lambda>m. \<not> P m) ms)"
  by (induction ms) (auto simp: uploaded_bytes_def)

lemma uploaded_bytes_map:
  "(\<And>m. m_UserId (f m) = m_UserId m) \<Longrightarrow> (\<And>m. m_SizeBytes (f m) = m_SizeBytes m) \<Longrightarrow>
     uploaded_bytes u (map f ms) = uploaded_bytes u ms"
  by (induction ms) (auto simp: uploaded_bytes_def)

lemma media_inv_stable [simp, intro]: "env_stable media_inv"
  by (rule env_stableI) (simp_all add: media_inv_def)

lemma media_inv_insert [hoare_intros]: "preserves media_inv (media_Insert m)"
  unfolding media_Insert_def
  by (rule preserves_dbInsert)
     (auto simp: media_inv_def stats_of_add uploaded_bytes_append, auto simp: uploaded_bytes_def)

lemma media_inv_delete [hoare_intros]: "preserves media_inv (media_Delete origin mediaId)"
  unfolding media_Delete_def
proof (rule preserves_dbExec)
  fix w assume inv: "media_inv w"
  let ?P = "\<lambda>m. m_Origin m = origin \<and> m_MediaId m = mediaId"
  have "m_UserId ` set (filter ?P (tbl_media w)) \<subseteq> us_UserId ` set (tbl_user_stats w)"
    using inv by (auto simp: media_inv_def)
  note sub = stats_of_fold_sub [OF this]
  have "uploaded_bytes u (tbl_media w) - uploaded_bytes u (filter ?P (tbl_media w)) =
        uploaded_bytes u (filter (\<lambda>m. \<not> ?P m) (tbl_media w))" for u
    using uploaded_bytes_split [of u "tbl_media w" ?P] by simp
  with inv show "media_inv (let gone = filter ?P (tbl_media w) in
     w\<lparr>tbl_media := filter (\<lambda>m. \<not> ?P m) (tbl_media w),
       tbl_user_stats := fold (\<lambda>m. stats_sub (m_UserId m) (m_SizeBytes m)) gone (tbl_user_stats w)\<rparr>)"
    by (auto simp: media_inv_def sub Let_def)
qed simp

lemma media_inv_update_location [hoare_intros]: "preserves media_inv (media_UpdateLocation a b c d)"
  unfolding media_UpdateLocation_def
  by (rule preserves_dbExec)
     (auto simp: media_inv_def Let_def uploaded_bytes_map stats_users_fold_touch comp_def)

lemma demo_media_inv [simp]: "media_inv demo_world"
  by (simp add: media_inv_def stats_of_def uploaded_bytes_def demo_simps)

end
