(* ===== verification/Tables.thy ===== *)
theory Tables
  imports MediaTable
begin

text \<open>
  The smaller tables: pending uploads, attributes, held and reserved identifiers,
  restrictions, background tasks, URL previews, exports and access times
  (\<^verbatim>\<open>database/table_*.go\<close>).  Those with a key are interpreted as \<open>keyed_table\<close>.
\<close>

section \<open>table\_expiring\_media.go\<close>

abbreviation expiring_key :: "DbExpiringMedia \<Rightarrow> string \<times> string" where
  "expiring_key r \<equiv> (e_Origin r, e_MediaId r)"

definition IsExpired :: "DbExpiringMedia \<Rightarrow> (world, bool) io" where
  "IsExpired r = bindE NowMillis (\<lambda>now'. returnE (e_ExpiresTs r < now'))"

definition prepareExpiringMediaTables :: "(world, string list) io" where
  "prepareExpiringMediaTables = prepareAll
    [''insertExpiringMedia'', ''selectExpiringMediaByUserCount'', ''selectExpiringMediaById'',
     ''deleteExpiringMediaById'']"

definition expiring_Insert :: "string \<Rightarrow> string \<Rightarrow> string \<Rightarrow> int \<Rightarrow> (world, unit) io" where
  "expiring_Insert origin mediaId userId expiresTs =
     dbInsert (\<lambda>w. (origin, mediaId) \<in> expiring_key ` set (tbl_expiring w))
       (\<lambda>w. w\<lparr>tbl_expiring := tbl_expiring w @
          [\<lparr>e_Origin = origin, e_MediaId = mediaId, e_UserId = userId, e_ExpiresTs = expiresTs\<rparr>]\<rparr>)"

definition expiring_ByUserCount :: "string \<Rightarrow> (world, int) io" where
  "expiring_ByUserCount userId = bindE NowMillis (\<lambda>now'.
     dbQuery (\<lambda>w. int (length (filter (\<lambda>r. e_UserId r = userId \<and> e_ExpiresTs r \<ge> now') (tbl_expiring w)))))"

definition expiring_Get :: "string \<Rightarrow> string \<Rightarrow> (world, DbExpiringMedia option) io" where
  "expiring_Get origin mediaId =
     dbQuery (\<lambda>w. first_row (\<lambda>r. e_Origin r = origin \<and> e_MediaId r = mediaId) (tbl_expiring w))"

definition expiring_Delete :: "string \<Rightarrow> string \<Rightarrow> (world, unit) io" where
  "expiring_Delete origin mediaId =
     dbExec (\<lambda>w. w\<lparr>tbl_expiring := filter (\<lambda>r. \<not> (e_Origin r = origin \<and> e_MediaId r = mediaId)) (tbl_expiring w)\<rparr>)"

interpretation expiring: keyed_table tbl_expiring expiring_key "\<lambda>(o', i). expiring_Get o' i"
  "\<lambda>r. expiring_Insert (e_Origin r) (e_MediaId r) (e_UserId r) (e_ExpiresTs r)" "\<lambda>(o', i). expiring_Delete o' i"
proof unfold_locales
  fix k w x w'
  assume "(case k of (o', i) \<Rightarrow> expiring_Get o' i) w = (Inr x, w')"
  then show "x = List.find (\<lambda>r. expiring_key r = k) (tbl_expiring w)"
    by (cases k) (auto simp: expiring_Get_def dest!: ext_getsE_result)
next
  fix k w x w'
  assume "(case k of (o', i) \<Rightarrow> expiring_Get o' i) w = (x, w')"
  then show "tbl_expiring w' = tbl_expiring w"
    by (cases k) (auto simp: expiring_Get_def dest!: dbQuery_state)
qed (auto simp: expiring_Insert_def expiring_Delete_def dest!: db_results intro!: filter_cong)

section \<open>table\_media\_attributes.go\<close>

abbreviation attr_key :: "DbMediaAttributes \<Rightarrow> string \<times> string" where
  "attr_key r \<equiv> (a_Origin r, a_MediaId r)"

definition prepareMediaAttributesTables :: "(world, string list) io" where
  "prepareMediaAttributesTables = prepareAll [''selectMediaAttributes'', ''upsertMediaPurpose'']"

definition find_attrs :: "string \<Rightarrow> string \<Rightarrow> DbMediaAttributes list \<Rightarrow> DbMediaAttributes option" where
  "find_attrs origin mediaId rs = first_row (\<lambda>r. a_Origin r = origin \<and> a_MediaId r = mediaId) rs"

definition attributes_Get :: "string \<Rightarrow> string \<Rightarrow> (world, DbMediaAttributes option) io" where
  "attributes_Get origin mediaId = dbQuery (\<lambda>w. find_attrs origin mediaId (tbl_attributes w))"

fun upsert_purpose :: "string \<Rightarrow> string \<Rightarrow> Purpose \<Rightarrow> DbMediaAttributes list \<Rightarrow> DbMediaAttributes list" where
  "upsert_purpose origin mediaId purpose [] = [\<lparr>a_Origin = origin, a_MediaId = mediaId, a_Purpose = purpose\<rparr>]"
| "upsert_purpose origin mediaId purpose (r # rs) =
     (if a_Origin r = origin \<and> a_MediaId r = mediaId then r\<lparr>a_Purpose := purpose\<rparr> # rs
      else r # upsert_purpose origin mediaId purpose rs)"

definition attributes_UpsertPurpose :: "string \<Rightarrow> string \<Rightarrow> Purpose \<Rightarrow> (world, unit) io" where
  "attributes_UpsertPurpose origin mediaId purpose =
     dbExec (\<lambda>w. w\<lparr>tbl_attributes := upsert_purpose origin mediaId purpose (tbl_attributes w)\<rparr>)"

lemma find_attrs_upsert:
  "find_attrs o' i (upsert_purpose origin mediaId purpose rs) =
     (if (o', i) = (origin, mediaId)
      then Some \<lparr>a_Origin = origin, a_MediaId = mediaId, a_Purpose = purpose\<rparr>
      else find_attrs o' i rs)"
  by (induction origin mediaId purpose rs rule: upsert_purpose.induct) (auto simp: find_attrs_def)

lemma upsert_purpose_distinct:
  "distinct (map attr_key rs) \<Longrightarrow> distinct (map attr_key (upsert_purpose origin mediaId purpose rs))"
proof (induction origin mediaId purpose rs rule: upsert_purpose.induct)
  case (2 origin mediaId purpose r rs)
  have "attr_key ` set (upsert_purpose origin mediaId purpose rs) = insert (origin, mediaId) (attr_key ` set rs)" for rs
    by (induction origin mediaId purpose rs rule: upsert_purpose.induct) auto
  with 2 show ?case by auto
qed simp

section \<open>table\_media\_hold.go\<close>

definition prepareHeldMediaTables :: "(world, string list) io" where
  "prepareHeldMediaTables = prepareAll [''insertHeldMedia'', ''deleteHeldMedia'']"

definition held_TryInsert :: "string \<Rightarrow> string \<Rightarrow> string \<Rightarrow> (world, unit) io" where
  "held_TryInsert origin mediaId reason = bindE NowMillis (\<lambda>now'.
     dbInsert (\<lambda>w. (origin, mediaId) \<in> (\<lambda>r. (h_Origin r, h_MediaId r)) ` set (tbl_held w))
       (\<lambda>w. w\<lparr>tbl_held := tbl_held w @
          [\<lparr>h_Origin = origin, h_MediaId = mediaId, h_Reason = reason, h_HeldTs = now'\<rparr>]\<rparr>))"

definition held_DeleteOlderThan :: "string \<Rightarrow> int \<Rightarrow> (world, unit) io" where
  "held_DeleteOlderThan reason olderThanTs =
     dbExec (\<lambda>w. w\<lparr>tbl_held := filter (\<lambda>r. \<not> (h_Reason r = reason \<and> h_HeldTs r \<le> olderThanTs)) (tbl_held w)\<rparr>)"

section \<open>table\_reserved\_media.go\<close>

definition prepareReservedMediaTables :: "(world, string list) io" where
  "prepareReservedMediaTables = prepareAll [''insertReservedMediaNoConflict'', ''selectReservedMediaExists'']"

definition is_reserved :: "string \<Rightarrow> string \<Rightarrow> DbReservedMedia list \<Rightarrow> bool" where
  "is_reserved origin mediaId rs = list_ex (\<lambda>r. r_Origin r = origin \<and> r_MediaId r = mediaId) rs"

definition reserved_InsertNoConflict :: "string \<Rightarrow> string \<Rightarrow> string \<Rightarrow> (world, unit) io" where
  "reserved_InsertNoConflict origin mediaId reason = dbExec (\<lambda>w.
     if is_reserved origin mediaId (tbl_reserved w) then w
     else w\<lparr>tbl_reserved := tbl_reserved w @ [\<lparr>r_Origin = origin, r_MediaId = mediaId, r_Reason = reason\<rparr>]\<rparr>)"

definition reserved_IdExists :: "string \<Rightarrow> string \<Rightarrow> (world, bool) io" where
  "reserved_IdExists origin mediaId = dbQuery (\<lambda>w. is_reserved origin mediaId (tbl_reserved w))"

section \<open>table\_restricted\_media.go\<close>

abbreviation restricted_key :: "DbRestrictedMedia \<Rightarrow> string \<times> string" where
  "restricted_key r \<equiv> (rm_Origin r, rm_MediaId r)"

definition prepareRestrictedMediaTables :: "(world, string list) io" where
  "prepareRestrictedMediaTables = prepareAll
    [''insertRestrictedMedia'', ''updateRestrictedMedia'', ''selectRestrictedMedia'', ''deleteRestrictedMedia'']"

definition restricted_Insert :: "string \<Rightarrow> string \<Rightarrow> string \<Rightarrow> string \<Rightarrow> (world, unit) io" where
  "restricted_Insert origin mediaId condition conditionValue =
     dbInsert (\<lambda>w. (origin, mediaId) \<in> restricted_key ` set (tbl_restricted w))
       (\<lambda>w. w\<lparr>tbl_restricted := tbl_restricted w @
          [\<lparr>rm_Origin = origin, rm_MediaId = mediaId, rm_Condition = condition, rm_ConditionValue = conditionValue\<rparr>]\<rparr>)"

definition restricted_Update :: "string \<Rightarrow> string \<Rightarrow> string \<Rightarrow> string \<Rightarrow> (world, unit) io" where
  "restricted_Update origin mediaId condition conditionValue = dbExec (\<lambda>w. w\<lparr>tbl_restricted :=
     map (\<lambda>r. if rm_Origin r = origin \<and> rm_MediaId r = mediaId
              then r\<lparr>rm_Condition := condition, rm_ConditionValue := conditionValue\<rparr> else r) (tbl_restricted w)\<rparr>)"

definition restrictions_for :: "string \<Rightarrow> string \<Rightarrow> DbRestrictedMedia list \<Rightarrow> DbRestrictedMedia list" where
  "restrictions_for origin mediaId rs = filter (\<lambda>r. rm_Origin r = origin \<and> rm_MediaId r = mediaId) rs"

definition restricted_GetAllForId :: "string \<Rightarrow> string \<Rightarrow> (world, DbRestrictedMedia list) io" where
  "restricted_GetAllForId origin mediaId = dbQuery (\<lambda>w. restrictions_for origin mediaId (tbl_restricted w))"

definition restricted_Delete :: "string \<Rightarrow> string \<Rightarrow> (world, unit) io" where
  "restricted_Delete origin mediaId =
     dbExec (\<lambda>w. w\<lparr>tbl_restricted := filter (\<lambda>r. \<not> (rm_Origin r = origin \<and> rm_MediaId r = mediaId)) (tbl_restricted w)\<rparr>)"

text \<open>The table has no single-row query: the first row of \<open>GetAllForId\<close> stands for it.\<close>

definition restricted_first :: "string \<times> string \<Rightarrow> (world, DbRestrictedMedia option) io" where
  "restricted_first k = bindE (restricted_GetAllForId (fst k) (snd k))
     (\<lambda>rs. returnE (case rs of [] \<Rightarrow> None | r # _ \<Rightarrow> Some r))"

lemma filter_find: "(case filter P xs of [] \<Rightarrow> None | r # _ \<Rightarrow> Some r) = List.find P xs"
  by (induction xs) auto

interpretation restricted: keyed_table tbl_restricted restricted_key restricted_first
  "\<lambda>r. restricted_Insert (rm_Origin r) (rm_MediaId r) (rm_Condition r) (rm_ConditionValue r)"
  "\<lambda>(o', i). restricted_Delete o' i"
proof unfold_locales
  fix k w x w'
  assume "restricted_first k w = (Inr x, w')"
  then obtain rs where "restricted_GetAllForId (fst k) (snd k) w = (Inr rs, w')"
    and x: "x = (case rs of [] \<Rightarrow> None | r # _ \<Rightarrow> Some r)"
    by (auto simp: restricted_first_def io_simps split: prod.splits sum.splits)
  then have "rs = filter (\<lambda>r. restricted_key r = k) (tbl_restricted w)"
    by (cases k) (auto simp: restricted_GetAllForId_def restrictions_for_def dest!: ext_getsE_result)
  then show "x = List.find (\<lambda>r. restricted_key r = k) (tbl_restricted w)"
    by (simp add: x filter_find)
next
  fix k w x w'
  assume "restricted_first k w = (x, w')"
  then show "tbl_restricted w' = tbl_restricted w"
    by (auto simp: restricted_first_def restricted_GetAllForId_def io_simps
             split: prod.splits sum.splits dest!: dbQuery_state)
qed (auto simp: restricted_Insert_def restricted_Delete_def dest!: db_results intro!: filter_cong)

section \<open>table\_tasks.go\<close>

text \<open>The parameters are the fields of the task's JSON object, with their text.\<close>

type_synonym AnonymousJson = "(string \<times> string) list"

definition prepareTasksTables :: "(world, string list) io" where
  "prepareTasksTables = prepareAll
    [''selectTask'', ''insertTask'', ''selectAllTasks'', ''selectIncompleteTasks'', ''updateTaskEndTime'',
     ''updateTaskError'']"

definition tasks_Insert :: "string \<Rightarrow> AnonymousJson \<Rightarrow> int \<Rightarrow> (world, DbTask) io" where
  "tasks_Insert name params startTs = ext (\<lambda>w.
     let t = \<lparr>task_TaskId = task_seq w, task_Name = name, task_Params = params, task_StartTs = startTs,
              task_EndTs = 0, task_Error = ''''\<rparr>
     in (Inr t, w\<lparr>tbl_tasks := tbl_tasks w @ [t], task_seq := task_seq w + 1\<rparr>))"

definition tasks_SetEndTime :: "int \<Rightarrow> int \<Rightarrow> (world, unit) io" where
  "tasks_SetEndTime taskId endTs = dbExec (\<lambda>w. w\<lparr>tbl_tasks :=
     map (\<lambda>t. if task_TaskId t = taskId then t\<lparr>task_EndTs := endTs\<rparr> else t) (tbl_tasks w)\<rparr>)"

definition tasks_SetError :: "int \<Rightarrow> string \<Rightarrow> (world, unit) io" where
  "tasks_SetError taskId errVal = dbExec (\<lambda>w. w\<lparr>tbl_tasks :=
     map (\<lambda>t. if task_TaskId t = taskId then t\<lparr>task_Error := errVal\<rparr> else t) (tbl_tasks w)\<rparr>)"

definition tasks_Get :: "int \<Rightarrow> (world, DbTask option) io" where
  "tasks_Get i = dbQuery (\<lambda>w. first_row (\<lambda>t. task_TaskId t = i) (tbl_tasks w))"

definition tasks_GetAll :: "bool \<Rightarrow> (world, DbTask list) io" where
  "tasks_GetAll includingFinished =
     dbQuery (\<lambda>w. if \<not> includingFinished then filter (\<lambda>t. task_EndTs t \<le> 0) (tbl_tasks w) else tbl_tasks w)"

section \<open>table\_url\_previews.go\<close>

definition prepareUrlPreviewsTables :: "(world, string list) io" where
  "prepareUrlPreviewsTables = prepareAll
    [''selectUrlPreview'', ''insertUrlPreview'', ''updateUrlPreviewIfError'', ''deleteOldUrlPreviews'']"

abbreviation preview_key :: "DbUrlPreview \<Rightarrow> string \<times> int \<times> string" where
  "preview_key p \<equiv> (p_Url p, p_BucketTs p, p_LanguageHeader p)"

definition previews_Get :: "string \<Rightarrow> int \<Rightarrow> string \<Rightarrow> (world, DbUrlPreview option) io" where
  "previews_Get url ts languageHeader = dbQuery (\<lambda>w.
     first_row (\<lambda>p. p_Url p = url \<and> p_BucketTs p = GetHourBucket ts \<and> p_LanguageHeader p = languageHeader)
       (tbl_previews w))"

definition previews_Insert :: "DbUrlPreview \<Rightarrow> (world, bool) io" where
  "previews_Insert p = ext (\<lambda>w.
     if preview_key p \<in> preview_key ` set (tbl_previews w) then (Inr False, w)
     else (Inr True, w\<lparr>tbl_previews := tbl_previews w @ [p]\<rparr>))"

definition replaces_error :: "DbUrlPreview \<Rightarrow> DbUrlPreview \<Rightarrow> bool" where
  "replaces_error p r \<longleftrightarrow> preview_key r = preview_key p \<and> p_ErrorCode r \<noteq> ''''"

definition previews_UpdateIfError :: "DbUrlPreview \<Rightarrow> (world, bool) io" where
  "previews_UpdateIfError p = ext (\<lambda>w.
     (Inr (0 < length (filter (replaces_error p) (tbl_previews w))),
      w\<lparr>tbl_previews := map (\<lambda>r. if replaces_error p r then p else r) (tbl_previews w)\<rparr>))"

definition previews_InsertError :: "string \<Rightarrow> string \<Rightarrow> int \<Rightarrow> string \<Rightarrow> (world, unit) io" where
  "previews_InsertError url errorCode ts languageHeader =
     bindE (tryE (previews_Insert
       \<lparr>p_Url = url, p_ErrorCode = errorCode, p_BucketTs = ts, p_SiteUrl = '''', p_SiteName = '''',
        p_ResourceType = '''', p_Description = '''', p_Title = '''', p_ImageMxc = '''', p_ImageType = '''',
        p_ImageSize = 0, p_ImageWidth = 0, p_ImageHeight = 0, p_LanguageHeader = languageHeader\<rparr>))
     (\<lambda>_. returnE ())"

definition previews_DeleteOlderThan :: "int \<Rightarrow> (world, unit) io" where
  "previews_DeleteOlderThan ts =
     dbExec (\<lambda>w. w\<lparr>tbl_previews := filter (\<lambda>p. \<not> p_BucketTs p \<le> ts) (tbl_previews w)\<rparr>)"

section \<open>table\_exports.go and table\_export\_parts.go\<close>

definition prepareExportsTables :: "(world, string list) io" where
  "prepareExportsTables = prepareAll [''insertExport'', ''selectExportEntity'', ''deleteExport'']"

definition exports_Insert :: "string \<Rightarrow> string \<Rightarrow> (world, unit) io" where
  "exports_Insert exportId entity =
     dbInsert (\<lambda>w. exportId \<in> fst ` set (tbl_exports w)) (\<lambda>w. w\<lparr>tbl_exports := tbl_exports w @ [(exportId, entity)]\<rparr>)"

definition exports_Delete :: "string \<Rightarrow> (world, unit) io" where
  "exports_Delete exportId = dbExec (\<lambda>w. w\<lparr>tbl_exports := filter (\<lambda>r. fst r \<noteq> exportId) (tbl_exports w)\<rparr>)"

definition exports_GetEntity :: "string \<Rightarrow> (world, string) io" where
  "exports_GetEntity exportId = dbQuery (\<lambda>w.
     case first_row (\<lambda>r. fst r = exportId) (tbl_exports w) of None \<Rightarrow> '''' | Some r \<Rightarrow> snd r)"

definition prepareExportPartsTables :: "(world, string list) io" where
  "prepareExportPartsTables = prepareAll
    [''insertExportPart'', ''deleteExportPartsById'', ''selectExportPartsById'', ''selectExportPartById'']"

abbreviation part_key :: "DbExportPart \<Rightarrow> string \<times> int" where
  "part_key p \<equiv> (x_ExportId p, x_PartNum p)"

definition exportParts_GetForExport :: "string \<Rightarrow> (world, DbExportPart list) io" where
  "exportParts_GetForExport exportId = dbQuery (\<lambda>w. filter (\<lambda>p. x_ExportId p = exportId) (tbl_export_parts w))"

definition exportParts_Get :: "string \<Rightarrow> int \<Rightarrow> (world, DbExportPart option) io" where
  "exportParts_Get exportId partNum =
     dbQuery (\<lambda>w. first_row (\<lambda>p. x_ExportId p = exportId \<and> x_PartNum p = partNum) (tbl_export_parts w))"

definition exportParts_Insert :: "DbExportPart \<Rightarrow> (world, unit) io" where
  "exportParts_Insert p =
     dbInsert (\<lambda>w. part_key p \<in> part_key ` set (tbl_export_parts w))
       (\<lambda>w. w\<lparr>tbl_export_parts := tbl_export_parts w @ [p]\<rparr>)"

definition exportParts_DeleteForExport :: "string \<Rightarrow> (world, unit) io" where
  "exportParts_DeleteForExport exportId =
     dbExec (\<lambda>w. w\<lparr>tbl_export_parts := filter (\<lambda>p. x_ExportId p \<noteq> exportId) (tbl_export_parts w)\<rparr>)"

section \<open>table\_last\_access.go\<close>

definition prepareLastAccessTables :: "(world, string list) io" where
  "prepareLastAccessTables = prepareAll [''upsertLastAccess'']"

fun upsert_access :: "string \<Rightarrow> int \<Rightarrow> DbLastAccess list \<Rightarrow> DbLastAccess list" where
  "upsert_access h ts [] = [\<lparr>la_Sha256Hash = h, la_LastAccessTs = ts\<rparr>]"
| "upsert_access h ts (r # rs) =
     (if la_Sha256Hash r = h then r\<lparr>la_LastAccessTs := ts\<rparr> # rs else r # upsert_access h ts rs)"

definition lastAccess_Upsert :: "string \<Rightarrow> int \<Rightarrow> (world, unit) io" where
  "lastAccess_Upsert sha256hash ts =
     dbExec (\<lambda>w. w\<lparr>tbl_last_access := upsert_access sha256hash ts (tbl_last_access w)\<rparr>)"

section \<open>What the accessors keep\<close>

text \<open>None of these accessors touches the media table or the statistics.\<close>

lemmas small_table_defs =
  IsExpired_def expiring_Insert_def expiring_ByUserCount_def expiring_Get_def expiring_Delete_def
  attributes_Get_def attributes_UpsertPurpose_def held_TryInsert_def held_DeleteOlderThan_def
  reserved_InsertNoConflict_def reserved_IdExists_def restricted_Insert_def restricted_Update_def
  restricted_GetAllForId_def restricted_Delete_def tasks_Insert_def tasks_SetEndTime_def
  tasks_SetError_def tasks_Get_def tasks_GetAll_def previews_Get_def previews_Insert_def
  previews_UpdateIfError_def previews_InsertError_def previews_DeleteOlderThan_def exports_Insert_def
  exports_Delete_def exports_GetEntity_def exportParts_GetForExport_def exportParts_Get_def
  exportParts_Insert_def exportParts_DeleteForExport_def lastAccess_Upsert_def

end
