(* ===== verification/ThumbnailTable.thy ===== *)
theory ThumbnailTable
  imports Tables "HOL-Library.Char_ord" "HOL-Library.List_Lexorder" "HOL-Library.Product_Lexorder"
begin

text \<open>
  The thumbnails table (\<^verbatim>\<open>database/table_thumbnails.go\<close>) and the queries over several
  tables (\<^verbatim>\<open>database/virtualtable_metadata.go\<close>), and the opening of the database
  (\<^verbatim>\<open>database/db.go\<close>).

  \<open>ORDER BY\<close> over text columns is the order of the C collation.  Groups and equal sort
  keys come in the order in which the rows are stored.
\<close>

section \<open>table\_thumbnails.go\<close>

abbreviation thumb_unique :: "DbThumbnail \<Rightarrow> string \<times> string \<times> int \<times> int \<times> string \<times> bool" where
  "thumb_unique t \<equiv> (t_Origin t, t_MediaId t, t_Width t, t_Height t, t_Method t, t_Animated t)"

text \<open>The tuple of the constant \<open>oldThumbnailsOrder\<close>, which has all twelve columns.\<close>

definition oldThumbnailsOrder ::
  "DbThumbnail \<Rightarrow> int \<times> string \<times> string \<times> int \<times> int \<times> string \<times> bool \<times> string \<times> string \<times> int \<times> string \<times> string" where
  "oldThumbnailsOrder t =
    (t_CreationTs t, t_Origin t, t_MediaId t, t_Width t, t_Height t, t_Method t, t_Animated t,
     t_ContentType t, Sha256Hash t, t_SizeBytes t, DatastoreId t, Location t)"

definition prepareThumbnailsTables :: "(world, string list) io" where
  "prepareThumbnailsTables = prepareAll
    [''selectThumbnailByParams'', ''insertThumbnail'', ''selectThumbnailByLocationExists'',
     ''selectThumbnailsForMedia'', ''selectOldThumbnails'', ''selectOldThumbnailsBatch'',
     ''selectOldThumbnailsBatchAfter'', ''deleteThumbnail'', ''updateThumbnailLocation'',
     ''selectThumbnailsByLocation'']"

definition thumbnails_GetByParams ::
  "string \<Rightarrow> string \<Rightarrow> int \<Rightarrow> int \<Rightarrow> string \<Rightarrow> bool \<Rightarrow> (world, DbThumbnail option) io" where
  "thumbnails_GetByParams origin mediaId width height mthd animated = dbQuery (\<lambda>w.
     first_row (\<lambda>t. t_Origin t = origin \<and> t_MediaId t = mediaId \<and> t_Width t = width \<and>
                    t_Height t = height \<and> t_Method t = mthd \<and> t_Animated t = animated) (tbl_thumbnails w))"

definition thumbnails_scanRows :: "(DbThumbnail list \<Rightarrow> DbThumbnail list) \<Rightarrow> (world, DbThumbnail list) io" where
  "thumbnails_scanRows q = dbQuery (\<lambda>w. q (tbl_thumbnails w))"

definition thumbnails_GetForMedia :: "string \<Rightarrow> string \<Rightarrow> (world, DbThumbnail list) io" where
  "thumbnails_GetForMedia origin mediaId =
     thumbnails_scanRows (filter (\<lambda>t. t_Origin t = origin \<and> t_MediaId t = mediaId))"

definition thumbnails_GetOlderThan :: "int \<Rightarrow> (world, DbThumbnail list) io" where
  "thumbnails_GetOlderThan ts = thumbnails_scanRows (filter (\<lambda>t. t_CreationTs t < ts))"

definition older_batch :: "int \<Rightarrow> nat \<Rightarrow> DbThumbnail list \<Rightarrow> DbThumbnail list" where
  "older_batch ts limit rows = take limit (sort_key oldThumbnailsOrder (filter (\<lambda>t. t_CreationTs t < ts) rows))"

definition older_batch_after :: "int \<Rightarrow> nat \<Rightarrow> DbThumbnail \<Rightarrow> DbThumbnail list \<Rightarrow> DbThumbnail list" where
  "older_batch_after ts limit after rows =
     take limit (sort_key oldThumbnailsOrder
       (filter (\<lambda>t. t_CreationTs t < ts \<and> oldThumbnailsOrder t > oldThumbnailsOrder after) rows))"

definition thumbnails_GetOlderThanBatch :: "int \<Rightarrow> nat \<Rightarrow> (world, DbThumbnail list) io" where
  "thumbnails_GetOlderThanBatch ts limit = thumbnails_scanRows (older_batch ts limit)"

definition thumbnails_GetOlderThanBatchAfter ::
  "int \<Rightarrow> nat \<Rightarrow> DbThumbnail option \<Rightarrow> (world, DbThumbnail list) io" where
  "thumbnails_GetOlderThanBatchAfter ts limit after =
     (case after of
        None \<Rightarrow> thumbnails_GetOlderThanBatch ts limit
      | Some a \<Rightarrow> thumbnails_scanRows (older_batch_after ts limit a))"

definition thumbnails_GetByLocation :: "string \<Rightarrow> string \<Rightarrow> (world, DbThumbnail list) io" where
  "thumbnails_GetByLocation datastoreId location =
     thumbnails_scanRows (filter (\<lambda>t. DatastoreId t = datastoreId \<and> Location t = location))"

definition thumbnails_Insert :: "DbThumbnail \<Rightarrow> (world, unit) io" where
  "thumbnails_Insert t =
     dbInsert (\<lambda>w. thumb_unique t \<in> thumb_unique ` set (tbl_thumbnails w))
       (\<lambda>w. w\<lparr>tbl_thumbnails := tbl_thumbnails w @ [t]\<rparr>)"

definition thumbnails_LocationExists :: "string \<Rightarrow> string \<Rightarrow> (world, bool) io" where
  "thumbnails_LocationExists datastoreId location =
     dbQuery (\<lambda>w. list_ex (\<lambda>t. DatastoreId t = datastoreId \<and> Location t = location) (tbl_thumbnails w))"

text \<open>The WHERE clause compares all twelve columns, so it selects the rows equal to the record.\<close>

definition thumbnails_Delete :: "DbThumbnail \<Rightarrow> (world, unit) io" where
  "thumbnails_Delete t = dbExec (\<lambda>w. w\<lparr>tbl_thumbnails := filter (\<lambda>r. r \<noteq> t) (tbl_thumbnails w)\<rparr>)"

definition thumbnails_UpdateLocation :: "string \<Rightarrow> string \<Rightarrow> string \<Rightarrow> string \<Rightarrow> (world, unit) io" where
  "thumbnails_UpdateLocation sourceDsId sourceLocation targetDsId targetLocation = dbExec (\<lambda>w.
     w\<lparr>tbl_thumbnails := map (relocate sourceDsId sourceLocation targetDsId targetLocation) (tbl_thumbnails w)\<rparr>)"

section \<open>virtualtable\_metadata.go\<close>

definition prepareMetadataVirtualTables :: "(world, string list) io" where
  "prepareMetadataVirtualTables = prepareAll
    [''selectEstimatedDatastoreSize'', ''selectUploadSizesForServer'', ''selectUploadCountsForServer'',
     ''selectMediaForDatastoreWithLastAccess'', ''selectThumbnailsForDatastoreWithLastAccess'',
     ''updateQuarantineByHash'', ''updateQuarantineByHashAndOrigin'']"

text \<open>\<open>SUM(size_bytes)\<close> over \<open>SELECT DISTINCT sha256_hash, MAX(size_bytes) ... GROUP BY sha256_hash\<close>.\<close>

definition distinct_size :: "('r \<Rightarrow> string) \<Rightarrow> ('r \<Rightarrow> int) \<Rightarrow> 'r list \<Rightarrow> int" where
  "distinct_size hash size' rs =
     sum_list (map (\<lambda>h. Max (set (map size' (filter (\<lambda>r. hash r = h) rs)))) (remdups (map hash rs)))"

definition metadata_EstimateDatastoreSize :: "string \<Rightarrow> (world, int) io" where
  "metadata_EstimateDatastoreSize datastoreId = dbQuery (\<lambda>w.
     distinct_size Sha256Hash m_SizeBytes (filter (\<lambda>m. DatastoreId m = datastoreId) (tbl_media w)) +
     distinct_size Sha256Hash t_SizeBytes (filter (\<lambda>t. DatastoreId t = datastoreId) (tbl_thumbnails w)))"

definition metadata_ByteUsageForServer :: "string \<Rightarrow> (world, int \<times> int) io" where
  "metadata_ByteUsageForServer serverName = dbQuery (\<lambda>w.
     (sum_list (map m_SizeBytes (filter (\<lambda>m. m_Origin m = serverName) (tbl_media w))),
      sum_list (map t_SizeBytes (filter (\<lambda>t. t_Origin t = serverName) (tbl_thumbnails w)))))"

definition metadata_CountUsageForServer :: "string \<Rightarrow> (world, int \<times> int) io" where
  "metadata_CountUsageForServer serverName = dbQuery (\<lambda>w.
     (int (length (filter (\<lambda>m. m_Origin m = serverName) (tbl_media w))),
      int (length (filter (\<lambda>t. t_Origin t = serverName) (tbl_thumbnails w)))))"

subsection \<open>The page of user statistics\<close>

datatype SynStatUserOrderBy = SynStatUserOrderByMediaCount | SynStatUserOrderByMediaLength | SynStatUserOrderByUserId

fun parse_order_by :: "string \<Rightarrow> SynStatUserOrderBy option" where
  "parse_order_by s =
     (if s = ''media_count'' then Some SynStatUserOrderByMediaCount
      else if s = ''media_length'' then Some SynStatUserOrderByMediaLength
      else if s = ''user_id'' then Some SynStatUserOrderByUserId
      else None)"

definition IsSynStatUserOrderBy :: "string \<Rightarrow> bool" where
  "IsSynStatUserOrderBy orderBy \<longleftrightarrow> parse_order_by orderBy \<noteq> None"

record DbSynUserStat =
  syn_UserId :: string
  syn_MediaCount :: int
  syn_MediaLength :: int

text \<open>SQL's LIKE: \<open>%\<close> matches any run of characters, \<open>_\<close> any one, a backslash quotes.\<close>

fun sql_like :: "string \<Rightarrow> string \<Rightarrow> bool" where
  "sql_like [] s = (s = [])"
| "sql_like (p # ps) s =
     (if p = CHR ''%'' then sql_like ps s \<or> (case s of [] \<Rightarrow> False | _ # s' \<Rightarrow> sql_like (p # ps) s')
      else if p = CHR ''_'' then (case s of [] \<Rightarrow> False | _ # s' \<Rightarrow> sql_like ps s')
      else if p = CHR 0x5C \<and> ps \<noteq> [] then
        (case s of [] \<Rightarrow> False | c # s' \<Rightarrow> c = hd ps \<and> sql_like (tl ps) s')
      else (case s of [] \<Rightarrow> False | c # s' \<Rightarrow> c = p \<and> sql_like ps s'))"

definition syn_where :: "string \<Rightarrow> int \<Rightarrow> int \<Rightarrow> string \<Rightarrow> DbMedia \<Rightarrow> bool" where
  "syn_where serverName fromTs untilTs search m \<longleftrightarrow>
     m_Origin m = serverName \<and>
     (fromTs \<ge> 0 \<longrightarrow> m_CreationTs m \<ge> fromTs) \<and>
     (untilTs \<ge> 0 \<longrightarrow> m_CreationTs m \<le> untilTs) \<and>
     (search \<noteq> [] \<longrightarrow> sql_like (''@%'' @ search @ ''%:%'') (m_UserId m)) \<and>
     m_UserId m \<noteq> []"

definition syn_group :: "DbMedia list \<Rightarrow> DbSynUserStat list" where
  "syn_group ms = map (\<lambda>u. let mine = filter (\<lambda>m. m_UserId m = u) ms in
      \<lparr>syn_UserId = u, syn_MediaCount = int (length mine), syn_MediaLength = sum_list (map m_SizeBytes mine)\<rparr>)
     (remdups (map m_UserId ms))"

definition syn_sort :: "SynStatUserOrderBy \<Rightarrow> DbSynUserStat list \<Rightarrow> DbSynUserStat list" where
  "syn_sort orderBy rs = (case orderBy of
      SynStatUserOrderByMediaCount \<Rightarrow> sort_key syn_MediaCount rs
    | SynStatUserOrderByMediaLength \<Rightarrow> sort_key syn_MediaLength rs
    | SynStatUserOrderByUserId \<Rightarrow> sort_key syn_UserId rs)"

definition metadata_UnoptimizedSynapseUserStatsPage ::
  "string \<Rightarrow> string \<Rightarrow> int \<Rightarrow> int \<Rightarrow> int \<Rightarrow> int \<Rightarrow> string \<Rightarrow> bool \<Rightarrow> (world, DbSynUserStat list \<times> int) io" where
  "metadata_UnoptimizedSynapseUserStatsPage serverName orderBy startIdx limit fromTs untilTs search asc =
     (case parse_order_by orderBy of
        None \<Rightarrow> throwE (ErrOther ''sql injection prevented: orderBy must be recognized'')
      | Some ob \<Rightarrow>
          bindE (ext (\<lambda>w.
            let groups = syn_group (filter (syn_where serverName fromTs untilTs search) (tbl_media w));
                sorted' = (if asc then syn_sort ob groups else rev (syn_sort ob groups))
            in if limit < 0 then (Inl (ErrOther ''pq: LIMIT must not be negative''), w)
               else if startIdx < 0 then (Inl (ErrOther ''pq: OFFSET must not be negative''), w)
               else (Inr (take (nat limit) (drop (nat startIdx) sorted')), w))) (\<lambda>results.
          bindE (dbQuery (\<lambda>w. int (length (syn_group
            (filter (syn_where serverName fromTs untilTs search) (tbl_media w)))))) (\<lambda>total.
          returnE (results, total))))"

subsection \<open>Last access\<close>

definition join_access ::
  "('r Locatable_scheme \<Rightarrow> VirtLastAccess) \<Rightarrow> string \<Rightarrow> int \<Rightarrow> 'r Locatable_scheme list \<Rightarrow> DbLastAccess list \<Rightarrow> VirtLastAccess list" where
  "join_access mk datastoreId ts rs las =
     concat (map (\<lambda>r. map (\<lambda>a. (mk r)\<lparr>v_LastAccessTs := la_LastAccessTs a\<rparr>)
       (filter (\<lambda>a. la_Sha256Hash a = Sha256Hash r \<and> la_LastAccessTs a < ts \<and> DatastoreId r = datastoreId) las)) rs)"

definition access_of_media :: "DbMedia \<Rightarrow> VirtLastAccess" where
  "access_of_media m = \<lparr>Sha256Hash = Sha256Hash m, DatastoreId = DatastoreId m, Location = Location m,
     v_SizeBytes = m_SizeBytes m, v_CreationTs = m_CreationTs m, v_LastAccessTs = 0, v_ContentType = m_ContentType m\<rparr>"

definition access_of_thumbnail :: "DbThumbnail \<Rightarrow> VirtLastAccess" where
  "access_of_thumbnail t = \<lparr>Sha256Hash = Sha256Hash t, DatastoreId = DatastoreId t, Location = Location t,
     v_SizeBytes = t_SizeBytes t, v_CreationTs = t_CreationTs t, v_LastAccessTs = 0, v_ContentType = t_ContentType t\<rparr>"

definition metadata_GetMediaForDatastoreByLastAccess :: "string \<Rightarrow> int \<Rightarrow> (world, VirtLastAccess list) io" where
  "metadata_GetMediaForDatastoreByLastAccess datastoreId lastAccessTs =
     dbQuery (\<lambda>w. join_access access_of_media datastoreId lastAccessTs (tbl_media w) (tbl_last_access w))"

definition metadata_GetThumbnailsForDatastoreByLastAccess :: "string \<Rightarrow> int \<Rightarrow> (world, VirtLastAccess list) io" where
  "metadata_GetThumbnailsForDatastoreByLastAccess datastoreId lastAccessTs =
     dbQuery (\<lambda>w. join_access access_of_thumbnail datastoreId lastAccessTs (tbl_thumbnails w) (tbl_last_access w))"

subsection \<open>Quarantine\<close>

text \<open>
  The common table expression: a left join with the attributes, so that a row without
  attributes passes, and one with attributes passes unless they pin it.
\<close>

definition quarantine_hit :: "DbMediaAttributes list \<Rightarrow> string \<Rightarrow> bool \<Rightarrow> DbMedia \<Rightarrow> bool" where
  "quarantine_hit attrs hash q m \<longleftrightarrow>
     Sha256Hash m = hash \<and> m_Quarantined m \<noteq> q \<and>
     (let as = filter (\<lambda>a. a_Origin a = m_Origin m \<and> a_MediaId a = m_MediaId m) attrs
      in as = [] \<or> list_ex (\<lambda>a. a_Purpose a \<noteq> PurposePinned) as)"

definition quarantine_rows :: "(DbMedia \<Rightarrow> bool) \<Rightarrow> bool \<Rightarrow> (world, int) io" where
  "quarantine_rows hit q = ext (\<lambda>w.
     let hs = filter hit (tbl_media w) in
     (Inr (int (length hs)),
      w\<lparr>tbl_media := map (\<lambda>m. if hit m then m\<lparr>m_Quarantined := q\<rparr> else m) (tbl_media w),
        tbl_user_stats := fold (\<lambda>m. stats_add (m_UserId m) 0) hs (tbl_user_stats w)\<rparr>))"

definition metadata_UpdateQuarantineByHash :: "string \<Rightarrow> bool \<Rightarrow> (world, int) io" where
  "metadata_UpdateQuarantineByHash hash quarantined =
     (\<lambda>w. quarantine_rows (quarantine_hit (tbl_attributes w) hash quarantined) quarantined w)"

definition metadata_UpdateQuarantineByHashAndOrigin :: "string \<Rightarrow> string \<Rightarrow> bool \<Rightarrow> (world, int) io" where
  "metadata_UpdateQuarantineByHashAndOrigin origin hash quarantined =
     (\<lambda>w. quarantine_rows (\<lambda>m. m_Origin m = origin \<and> quarantine_hit (tbl_attributes w) hash quarantined m) quarantined w)"

section \<open>db.go\<close>

text \<open>
  \<open>sql.Open\<close>, the migrator's set-up and its run are external calls.  The value is the
  list of the accessors that are ready, in the order in which the code creates them.
\<close>

definition openDatabase :: "(world, string list list) io" where
  "openDatabase =
     thenE (wrap_err ''error connecting to db: '' (ext (returnE ())))
    (thenE (wrap_err ''error setting up migrator: '' (ext (returnE ())))
    (thenE (wrap_err ''error running migrations: '' (ext (returnE ())))
    (foldE (\<lambda>(what, prep) acc. bindE (wrap_err (''failed to create '' @ what @ '' table accessor: '') prep)
              (\<lambda>stmts. returnE (acc @ [stmts])))
      [(''media'', prepareMediaTables), (''expiring media'', prepareExpiringMediaTables),
       (''user stats'', prepareUserStatsTables), (''reserved media'', prepareReservedMediaTables),
       (''metadata virtual'', prepareMetadataVirtualTables), (''held media'', prepareHeldMediaTables),
       (''thumbnails'', prepareThumbnailsTables), (''last access'', prepareLastAccessTables),
       (''url previews'', prepareUrlPreviewsTables), (''media attributes'', prepareMediaAttributesTables),
       (''tasks'', prepareTasksTables), (''exports'', prepareExportsTables),
       (''export parts'', prepareExportPartsTables), (''restricted media'', prepareRestrictedMediaTables)] [])))"

section \<open>Facts\<close>

lemma oldThumbnailsOrder_inj: "oldThumbnailsOrder s = oldThumbnailsOrder t \<longleftrightarrow> s = t"
  by (auto simp: oldThumbnailsOrder_def)

lemma older_batch_set: "set (older_batch ts limit rows) \<subseteq> {t \<in> set rows. t_CreationTs t < ts}"
  by (auto simp: older_batch_def dest: in_set_takeD)

lemma older_batch_after_set:
  "set (older_batch_after ts limit a rows) \<subseteq>
     {t \<in> set rows. t_CreationTs t < ts \<and> oldThumbnailsOrder a < oldThumbnailsOrder t}"
  by (auto simp: older_batch_after_def dest: in_set_takeD)

lemma older_batch_sorted:
  "sorted (map oldThumbnailsOrder (older_batch ts limit rows))"
  "sorted (map oldThumbnailsOrder (older_batch_after ts limit a rows))"
  by (simp_all add: older_batch_def older_batch_after_def sorted_wrt_take flip: take_map)

lemma relocate_thumb_simps [simp]:
  "t_Origin (relocate a b c d t) = t_Origin t"
  "t_MediaId (relocate a b c d t) = t_MediaId t"
  "t_SizeBytes (relocate a b c d t) = t_SizeBytes t"
  by (simp_all add: relocate_def)

lemma media_inv_quarantine_rows [hoare_intros]: "preserves media_inv (quarantine_rows hit q)"
  unfolding quarantine_rows_def
proof (rule preserves_ext, simp, rule preservesI)
  fix w assume inv: "media_inv w"
  have keys: "map (\<lambda>m. media_key (if hit m then m\<lparr>m_Quarantined := q\<rparr> else m)) ms = map media_key ms"
    for ms by simp
  have users: "(\<lambda>m. m_UserId (if hit m then m\<lparr>m_Quarantined := q\<rparr> else m)) ` S = m_UserId ` S" for S
    by (rule image_cong) auto
  have "uploaded_bytes u (map (\<lambda>m. if hit m then m\<lparr>m_Quarantined := q\<rparr> else m) ms) = uploaded_bytes u ms" for u ms
    by (rule uploaded_bytes_map) auto
  with inv show "media_inv (snd (let hs = filter hit (tbl_media w) in (Inr (int (length hs)),
      w\<lparr>tbl_media := map (\<lambda>m. if hit m then m\<lparr>m_Quarantined := q\<rparr> else m) (tbl_media w),
        tbl_user_stats := fold (\<lambda>m. stats_add (m_UserId m) 0) hs (tbl_user_stats w)\<rparr>)))"
    by (auto simp: media_inv_def Let_def comp_def keys stats_users_fold_touch image_image users)
qed

lemma media_inv_update_quarantine [hoare_intros]:
  "preserves media_inv (metadata_UpdateQuarantineByHash hash q)"
  "preserves media_inv (metadata_UpdateQuarantineByHashAndOrigin origin hash q)"
  unfolding metadata_UpdateQuarantineByHash_def metadata_UpdateQuarantineByHashAndOrigin_def
  by (rule preservesI, rule preservesD [OF media_inv_quarantine_rows], assumption)+

end
