(* ===== verification/Datastores.thy ===== *)
theory Datastores
  imports ThumbnailTable
begin

text \<open>
  The package \<^verbatim>\<open>datastores\<close>: choosing a datastore, and storing, opening and removing
  objects in it.

  The stored objects are the map \<open>objects\<close> from a datastore's identifier and a location
  to bytes.  Opening an object and reading it to the end are one step.  What the \<^verbatim>\<open>minio\<close>
  client does is a parameter where the code uses its answer: \<open>PutObject\<close> gives the bytes
  it took from the stream and stored, \<open>urlOf\<close> and \<open>hostOf\<close> are the text and the host of
  the client's endpoint URL.  SHA-256 in hexadecimal is the parameter \<open>sha\<close>.
\<close>

section \<open>kind.go, locate.go\<close>

type_synonym Kind = string

definition LocalMediaKind :: Kind where "LocalMediaKind = ''local_media''"
definition RemoteMediaKind :: Kind where "RemoteMediaKind = ''remote_media''"
definition ThumbnailsKind :: Kind where "ThumbnailsKind = ''thumbnails''"
definition ArchivesKind :: Kind where "ArchivesKind = ''archives''"
definition AllKind :: Kind where "AllKind = ''all''"

fun HasListedKind :: "string list \<Rightarrow> Kind \<Rightarrow> bool" where
  "HasListedKind [] want = False"
| "HasListedKind (k # have') want = (if k = want \<or> k = AllKind then True else HasListedKind have' want)"

definition datastores_Get :: "RequestContext \<Rightarrow> string \<Rightarrow> DatastoreConfig option" where
  "datastores_Get ctx dsId = List.find (\<lambda>c. ds_Id c = dsId) (DataStores (ctx_Config ctx))"

section \<open>s3.go\<close>

definition opt :: "DatastoreConfig \<Rightarrow> string \<Rightarrow> string" where
  "opt ds k = (case map_of (ds_Options ds) k of None \<Rightarrow> [] | Some v \<Rightarrow> v)"

definition bool_opt :: "DatastoreConfig \<Rightarrow> string \<Rightarrow> bool \<Rightarrow> bool" where
  "bool_opt ds k dflt = (if opt ds k \<noteq> [] then (case ParseBool (opt ds k) of Inr b \<Rightarrow> b | Inl _ \<Rightarrow> False) else dflt)"

definition s3_settings :: "DatastoreConfig \<Rightarrow> s3" where
  "s3_settings ds =
    \<lparr>s3_endpoint = opt ds ''endpoint'',
     s3_region = opt ds ''region'',
     s3_useSsl = bool_opt ds ''ssl'' True,
     s3_storageClass = (case map_of (ds_Options ds) ''storageClass'' of None \<Rightarrow> ''STANDARD'' | Some c \<Rightarrow> c),
     s3_bucket = opt ds ''bucketName'',
     s3_publicBaseUrl = opt ds ''publicBaseUrl'',
     s3_redirectWhenCached = bool_opt ds ''redirectWhenCached'' False,
     s3_prefixLength = (if opt ds ''prefixLength'' \<noteq> []
        then (let n = Atoi_value (opt ds ''prefixLength'') in if n < 0 then 0 else n) else 0),
     s3_multipartUploads = bool_opt ds ''multipartUploads'' True\<rparr>"

definition getS3 :: "DatastoreConfig \<Rightarrow> (world, s3) io" where
  "getS3 ds = bindE (getsE (\<lambda>w. map_of (s3clients w) (ds_Id ds))) (\<lambda>val.
     case val of
       Some s3c \<Rightarrow> returnE s3c
     | None \<Rightarrow>
         thenE (ext (returnE ()))
        (thenE (modifyE (\<lambda>w. w\<lparr>s3clients := (ds_Id ds, s3_settings ds) # s3clients w\<rparr>))
        (returnE (s3_settings ds))))"

definition ResetS3Clients :: "(world, unit) io" where
  "ResetS3Clients = modifyE (\<lambda>w. w\<lparr>s3clients := []\<rparr>)"

definition GetS3Url :: "(s3 \<Rightarrow> string) \<Rightarrow> DatastoreConfig \<Rightarrow> string \<Rightarrow> (world, string) io" where
  "GetS3Url urlOf ds location =
     (if ds_Type ds \<noteq> ''s3'' then returnE []
      else bindE (getS3 ds) (\<lambda>s3c.
        returnE (urlOf s3c @ ''/'' @ s3_bucket s3c @ ''/'' @ location)))"

fun ParseS3Url_find ::
  "(s3 \<Rightarrow> string) \<Rightarrow> string \<Rightarrow> string \<Rightarrow> string \<Rightarrow> DatastoreConfig list \<Rightarrow> (world, DatastoreConfig \<times> string) io" where
  "ParseS3Url_find hostOf endpoint bucket location [] = throwE (ErrOther ''could not locate datastore'')"
| "ParseS3Url_find hostOf endpoint bucket location (c # cs) =
     (if ds_Type c \<noteq> ''s3'' then ParseS3Url_find hostOf endpoint bucket location cs
      else bindE (getS3 c) (\<lambda>s3c.
        if hostOf s3c = endpoint \<and> s3_bucket s3c = bucket then returnE (c, location)
        else ParseS3Url_find hostOf endpoint bucket location cs))"

definition ParseS3Url :: "(s3 \<Rightarrow> string) \<Rightarrow> string \<Rightarrow> (world, DatastoreConfig \<times> string) io" where
  "ParseS3Url hostOf s3url =
     (if length s3url < length ''https://'' then throwE (Panic ''slice bounds out of range'')
      else let parts = str_split (CHR ''/'') (drop (length ''https://'') s3url) in
        if length parts < 3 then throwE (ErrOther ''invalid url'')
        else bindE (getsE (\<lambda>w. DataStores (cfg w)))
          (ParseS3Url_find hostOf (hd parts) (str_join ''/'' (butlast (tl parts))) (last parts)))"

section \<open>pick.go\<close>

fun Pick_loop :: "nat \<Rightarrow> DatastoreConfig list \<Rightarrow> int \<Rightarrow> nat \<Rightarrow> (world, nat) io" where
  "Pick_loop i [] dsSize idx = returnE idx"
| "Pick_loop i (ds # usable) dsSize idx =
     bindE (metadata_EstimateDatastoreSize (ds_Id ds)) (\<lambda>size'.
       Pick_loop (Suc i) usable dsSize (if dsSize < 0 \<or> size' > dsSize then i else idx))"

definition Pick :: "RequestContext \<Rightarrow> Kind \<Rightarrow> (world, DatastoreConfig) io" where
  "Pick ctx kind =
     (let usable = filter (\<lambda>conf. HasListedKind (ds_MediaKinds conf) kind) (DataStores (ctx_Config ctx))
      in if length usable = 0 then throwE (ErrOther ''unable to locate a usable datastore'')
         else if length usable = 1 then returnE (usable ! 0)
         else bindE (Pick_loop 0 usable (- 1) 0) (\<lambda>idx. returnE (usable ! idx)))"

section \<open>delete.go\<close>

definition Remove :: "DatastoreConfig \<Rightarrow> string \<Rightarrow> (world, unit) io" where
  "Remove ds location =
     (if ds_Type ds = ''s3'' then
        thenE (getS3 ds) (ext (modifyE (\<lambda>w. w\<lparr>objects := (objects w)((ds_Id ds, location) := None)\<rparr>)))
      else if ds_Type ds = ''file'' then
        ext (modifyE (\<lambda>w. w\<lparr>objects := (objects w)((ds_Id ds, location) := None)\<rparr>))
      else throwE (ErrOther ''unknown datastore type - contact developer''))"

definition RemoveWithDsId :: "RequestContext \<Rightarrow> string \<Rightarrow> string \<Rightarrow> (world, unit) io" where
  "RemoveWithDsId ctx dsId location =
     (case datastores_Get ctx dsId of
        None \<Rightarrow> throwE (ErrOther ''unknown datastore'')
      | Some ds \<Rightarrow> Remove ds location)"

section \<open>download.go, redirect.go\<close>

definition read_object :: "DatastoreConfig \<Rightarrow> string \<Rightarrow> (world, bytes) io" where
  "read_object ds name = ext (\<lambda>w. case objects w (ds_Id ds, name) of
      None \<Rightarrow> (Inl (ErrOther ''file does not exist''), w)
    | Some b \<Rightarrow> (Inr b, w))"

definition datastores_Download :: "DatastoreConfig \<Rightarrow> string \<Rightarrow> (world, bytes) io" where
  "datastores_Download ds dsFileName =
     (if ds_Type ds = ''s3'' then thenE (getS3 ds) (read_object ds dsFileName)
      else if ds_Type ds = ''file'' then read_object ds dsFileName
      else throwE (ErrOther ''unknown datastore type - contact developer''))"

datatype opened = Redirect string | Contents bytes

definition DownloadOrRedirect :: "DatastoreConfig \<Rightarrow> string \<Rightarrow> (world, opened) io" where
  "DownloadOrRedirect ds dsFileName =
     (if ds_Type ds \<noteq> ''s3'' then bindE (datastores_Download ds dsFileName) (\<lambda>b. returnE (Contents b))
      else bindE (getS3 ds) (\<lambda>s3c.
        if s3_publicBaseUrl s3c \<noteq> [] then returnE (Redirect (s3_publicBaseUrl s3c @ dsFileName))
        else bindE (datastores_Download ds dsFileName) (\<lambda>b. returnE (Contents b))))"

definition WouldRedirectWhenCached :: "DatastoreConfig \<Rightarrow> (world, bool) io" where
  "WouldRedirectWhenCached ds =
     (if ds_Type ds \<noteq> ''s3'' then returnE False
      else bindE (getS3 ds) (\<lambda>s3c. returnE (s3_redirectWhenCached s3c \<and> s3_publicBaseUrl s3c \<noteq> [])))"

section \<open>buffer.go\<close>

text \<open>A stream: the bytes that come out of it and the error that ends it, if any.\<close>

type_synonym stream = "bytes \<times> goerr option"

definition io_copy :: "stream \<Rightarrow> (world, bytes) io" where
  "io_copy contents = (case contents of (b, None) \<Rightarrow> ext (returnE b) | (b, Some e) \<Rightarrow> throwE e)"

text \<open>
  \<open>BufferTemp\<close> makes a temporary file (unless the path is empty), copies the stream there,
  and then closes both and opens the file for reading.
\<close>

definition buffer_target :: "DatastoreConfig \<Rightarrow> (world, string) io" where
  "buffer_target datastore =
     bindE (if ds_Type datastore = ''s3'' then returnE (opt datastore ''tempPath'')
            else if ds_Type datastore = ''file''
            then wrap_err ''error generating temporary directory: '' (ext (returnE ''mmr''))
            else throwE (ErrOther ''unknown datastore type - contact developer'')) (\<lambda>fpath.
     thenE (whenE (fpath \<noteq> [])
        (thenE (wrap_err ''error creating temp path: '' (ext (returnE ())))
               (wrap_err ''error generating temporary file: '' (ext (returnE ())))))
    (returnE fpath))"

definition buffer_finish :: "(bytes \<Rightarrow> string) \<Rightarrow> string \<Rightarrow> bytes \<Rightarrow> (world, string \<times> int \<times> bytes) io" where
  "buffer_finish sha fpath b =
     thenE (ext (returnE ()))
    (thenE (whenE (fpath \<noteq> []) (thenE (ext (returnE ())) (ext (returnE ()))))
    (returnE (sha b, int (length b), b)))"

definition BufferTemp ::
  "(bytes \<Rightarrow> string) \<Rightarrow> DatastoreConfig \<Rightarrow> stream \<Rightarrow> (world, string \<times> int \<times> bytes) io" where
  "BufferTemp sha datastore contents =
     bindE (buffer_target datastore) (\<lambda>fpath.
     bindE (io_copy contents) (\<lambda>b.
     buffer_finish sha fpath b))"

section \<open>upload.go\<close>

definition NewUniqueId :: "(world, string) io" where
  "NewUniqueId = ext (\<lambda>w. case uniq w of
      [] \<Rightarrow> (Inl (ErrOther ''no entropy''), w)
    | u # us \<Rightarrow> (Inr u, w\<lparr>uniq := us\<rparr>))"

text \<open>
  A file opened with \<open>O_WRONLY|O_CREATE\<close> keeps what an earlier, longer file had beyond
  the bytes written.
\<close>

definition overwrite :: "bytes \<Rightarrow> bytes option \<Rightarrow> bytes" where
  "overwrite new old = new @ (case old of None \<Rightarrow> [] | Some b \<Rightarrow> drop (length new) b)"

definition put_s3 ::
  "(bytes \<Rightarrow> int \<Rightarrow> goerr + bytes) \<Rightarrow> DatastoreConfig \<Rightarrow> string \<Rightarrow> bytes \<Rightarrow> int \<Rightarrow> (world, string \<times> bytes) io" where
  "put_s3 PutObject ds objectName data size' =
     bindE (getS3 ds) (\<lambda>s3c.
     if s3_prefixLength s3c > int (length objectName) then throwE (Panic ''slice bounds out of range'')
     else
       let n = nat (s3_prefixLength s3c);
           name = (if s3_prefixLength s3c > 0 then take n objectName @ ''/'' @ drop n objectName else objectName)
       in ext (\<lambda>w. case PutObject data size' of
            Inl e \<Rightarrow> (Inl e, w)
          | Inr stored \<Rightarrow> (Inr (name, stored), w\<lparr>objects := (objects w)((ds_Id ds, name) \<mapsto> stored)\<rparr>)))"

definition put_file :: "DatastoreConfig \<Rightarrow> string \<Rightarrow> bytes \<Rightarrow> (world, string \<times> bytes) io" where
  "put_file ds objectName data =
     (let name = take 2 objectName @ ''/'' @ take 2 (drop 2 objectName) @ ''/'' @ drop 4 objectName
      in thenE (ext (returnE ()))
        (thenE (ext (returnE ()))
        (thenE (ext (modifyE (\<lambda>w. w\<lparr>objects := (objects w)((ds_Id ds, name) \<mapsto> overwrite data (objects w (ds_Id ds, name)))\<rparr>)))
        (thenE (ext (returnE ()))
        (returnE (name, data))))))"

definition datastores_Upload ::
  "(bytes \<Rightarrow> string) \<Rightarrow> (bytes \<Rightarrow> int \<Rightarrow> goerr + bytes) \<Rightarrow> DatastoreConfig \<Rightarrow> bytes \<Rightarrow> int \<Rightarrow> string \<Rightarrow> (world, string) io" where
  "datastores_Upload sha PutObject ds data size' sha256hash =
     bindE NewUniqueId (\<lambda>u.
     let objectName = u @ ''idv2fmt'' in
     bindE (if ds_Type ds = ''s3'' then put_s3 PutObject ds objectName data size'
            else if ds_Type ds = ''file'' then put_file ds objectName data
            else throwE (ErrOther ''unknown datastore type - contact developer'')) (\<lambda>(name, sent).
     if int (length sent) \<noteq> size' then
       thenE (tryE (Remove ds name)) (throwE (ErrOther ''upload size mismatch''))
     else if sha sent \<noteq> sha256hash then
       thenE (tryE (Remove ds name)) (throwE (ErrOther ''upload hash mismatch''))
     else returnE name))"

section \<open>info.go\<close>

definition GetUri :: "(s3 \<Rightarrow> string) \<Rightarrow> DatastoreConfig \<Rightarrow> (world, string) io" where
  "GetUri hostnameOf ds =
     (if ds_Type ds = ''s3'' then bindE (getS3 ds) (\<lambda>s3c. returnE (''s3://'' @ hostnameOf s3c @ ''/'' @ s3_bucket s3c))
      else if ds_Type ds = ''file'' then returnE (opt ds ''path'')
      else throwE (ErrOther ''unknown datastore type - contact developer''))"

record SizeEstimate =
  ThumbnailsAffected :: int
  ThumbnailHashesAffected :: int
  ThumbnailBytes :: int
  MediaAffected :: int
  MediaHashesAffected :: int
  MediaBytes :: int
  TotalHashesAffected :: int
  TotalBytes :: int

record size_state = SizeEstimate +
  seenHashes :: "string set"
  seenMediaHashes :: "string set"
  seenThumbnailHashes :: "string set"

definition zero_estimate :: size_state where
  "zero_estimate = \<lparr>ThumbnailsAffected = 0, ThumbnailHashesAffected = 0, ThumbnailBytes = 0,
     MediaAffected = 0, MediaHashesAffected = 0, MediaBytes = 0, TotalHashesAffected = 0, TotalBytes = 0,
     seenHashes = {}, seenMediaHashes = {}, seenThumbnailHashes = {}\<rparr>"

definition count_total :: "VirtLastAccess \<Rightarrow> size_state \<Rightarrow> size_state" where
  "count_total r s = (if Sha256Hash r \<notin> seenHashes s
     then s\<lparr>TotalBytes := TotalBytes s + v_SizeBytes r, TotalHashesAffected := TotalHashesAffected s + 1\<rparr> else s)"

definition count_media :: "VirtLastAccess \<Rightarrow> size_state \<Rightarrow> size_state" where
  "count_media r s =
     (let s1 = s\<lparr>MediaAffected := MediaAffected s + 1\<rparr>;
          s2 = count_total r s1;
          s3 = (if Sha256Hash r \<notin> seenMediaHashes s2
                then s2\<lparr>MediaBytes := MediaBytes s2 + v_SizeBytes r, MediaHashesAffected := MediaHashesAffected s2 + 1\<rparr> else s2)
      in s3\<lparr>seenHashes := insert (Sha256Hash r) (seenHashes s3),
            seenMediaHashes := insert (Sha256Hash r) (seenMediaHashes s3)\<rparr>)"

definition count_thumb :: "VirtLastAccess \<Rightarrow> size_state \<Rightarrow> size_state" where
  "count_thumb r s =
     (let s1 = s\<lparr>ThumbnailsAffected := ThumbnailsAffected s + 1\<rparr>;
          s2 = count_total r s1;
          s3 = (if Sha256Hash r \<notin> seenThumbnailHashes s2
                then s2\<lparr>ThumbnailBytes := ThumbnailBytes s2 + v_SizeBytes r, ThumbnailHashesAffected := ThumbnailHashesAffected s2 + 1\<rparr> else s2)
      in s3\<lparr>seenHashes := insert (Sha256Hash r) (seenHashes s3),
            seenThumbnailHashes := insert (Sha256Hash r) (seenThumbnailHashes s3)\<rparr>)"

definition SizeOfDsIdWithAge :: "string \<Rightarrow> int \<Rightarrow> (world, SizeEstimate) io" where
  "SizeOfDsIdWithAge dsId beforeTs =
     bindE (metadata_GetMediaForDatastoreByLastAccess dsId beforeTs) (\<lambda>media.
     bindE (metadata_GetThumbnailsForDatastoreByLastAccess dsId beforeTs) (\<lambda>thumbs.
     returnE (SizeEstimate.truncate (fold count_thumb thumbs (fold count_media media zero_estimate)))))"

section \<open>Facts\<close>

lemma HasListedKind_iff: "HasListedKind have' want \<longleftrightarrow> want \<in> set have' \<or> AllKind \<in> set have'"
  by (induction have' want rule: HasListedKind.induct) auto

lemma preserves_getS3 [hoare_intros]: "env_stable I \<Longrightarrow> preserves I (getS3 ds)"
  unfolding getS3_def by (intro hoare_intros) (auto simp: env_stable_def)

lemma preserves_NewUniqueId [hoare_intros]: "env_stable I \<Longrightarrow> preserves I NewUniqueId"
  unfolding NewUniqueId_def
proof (intro hoare_intros preservesI)
  fix w assume "env_stable I" "I w"
  then show "I (snd (case uniq w of [] \<Rightarrow> (Inl (ErrOther ''no entropy''), w) | u # us \<Rightarrow> (Inr u, w\<lparr>uniq := us\<rparr>)))"
    unfolding env_stable_def by (cases "uniq w") (force dest: spec [of _ w])+
qed

lemma preserves_read_object [hoare_intros]: "env_stable I \<Longrightarrow> preserves I (read_object ds name)"
  unfolding read_object_def
  by (intro hoare_intros preservesI) (auto split: option.split)

lemma preserves_Remove [hoare_intros]:
  assumes "env_stable I" and "\<And>w. I w \<Longrightarrow> I (w\<lparr>objects := (objects w)((ds_Id ds, location) := None)\<rparr>)"
  shows "preserves I (Remove ds location)"
  unfolding Remove_def using assms by (intro hoare_intros) auto

lemma datastores_Get_Some: "datastores_Get ctx dsId = Some ds \<Longrightarrow> ds_Id ds = dsId \<and> ds \<in> set (DataStores (ctx_Config ctx))"
  by (auto simp: datastores_Get_def dest: find_SomeD)

lemma preserves_RemoveWithDsId [hoare_intros]:
  assumes "env_stable I" and "\<And>w. I w \<Longrightarrow> I (w\<lparr>objects := (objects w)((dsId, location) := None)\<rparr>)"
  shows "preserves I (RemoveWithDsId ctx dsId location)"
  unfolding RemoveWithDsId_def using assms
  by (auto split: option.split dest: datastores_Get_Some intro!: hoare_intros)

lemma preserves_Download [hoare_intros]: "env_stable I \<Longrightarrow> preserves I (datastores_Download ds name)"
  unfolding datastores_Download_def by (intro hoare_intros)

lemma Pick_loop_last:
  "Pick_loop i usable (- 1) idx w = (Inr r, w') \<Longrightarrow> r = (if usable = [] then idx else i + length usable - 1)"
proof (induction usable arbitrary: i idx w)
  case (Cons ds usable)
  then obtain w1 where "Pick_loop (Suc i) usable (- 1) i w1 = (Inr r, w')"
    by (auto simp: io_simps split: prod.splits sum.splits)
  then show ?case by (drule_tac Cons.IH) (cases usable; simp)
qed (simp add: io_simps)

lemma Remove_gone: "Remove ds location w = (Inr (), w') \<Longrightarrow> objects w' (ds_Id ds, location) = None"
  by (auto simp: Remove_def io_simps ext_def split: if_splits prod.splits sum.splits list.splits option.splits)

lemma count_media_step [simp]:
  "MediaAffected (count_media r s) = MediaAffected s + 1"
  "MediaHashesAffected (count_media r s) = MediaHashesAffected s + (if Sha256Hash r \<in> seenMediaHashes s then 0 else 1)"
  "seenMediaHashes (count_media r s) = insert (Sha256Hash r) (seenMediaHashes s)"
  by (simp_all add: count_media_def count_total_def Let_def)

lemma count_media_bytes:
  "MediaAffected (fold count_media rs s) = MediaAffected s + int (length rs)"
  "MediaHashesAffected (fold count_media rs s) =
     MediaHashesAffected s + int (card (Sha256Hash ` set rs - seenMediaHashes s))"
  "seenMediaHashes (fold count_media rs s) = seenMediaHashes s \<union> Sha256Hash ` set rs"
proof (induction rs arbitrary: s)
  case (Cons r rs)
  { case 1 show ?case by (simp add: Cons.IH) }
  { case 2
    have "card (Sha256Hash ` set rs - insert h S) + (if h \<in> S then 0 else 1) =
          card (insert h (Sha256Hash ` set rs) - S)" for h and S
    proof (cases "h \<in> S")
      case True
      then show ?thesis by (simp add: insert_absorb)
    next
      case False
      then have "insert h (Sha256Hash ` set rs) - S = insert h (Sha256Hash ` set rs - insert h S)"
        by auto
      with False show ?thesis by (simp add: card_insert_if)
    qed
    from this [of "Sha256Hash r" "seenMediaHashes s"] show ?case
      by (simp add: Cons.IH split: if_splits) }
  { case 3 show ?case by (auto simp: Cons.IH) }
qed auto

text \<open>Removing an object, in the terms of a proof that may know that no call fails (\<open>q\<close>).\<close>

definition known_datastore :: "RequestContext \<Rightarrow> string \<Rightarrow> bool" where
  "known_datastore ctx dsId =
     (case datastores_Get ctx dsId of None \<Rightarrow> False | Some ds \<Rightarrow> ds_Type ds = ''s3'' \<or> ds_Type ds = ''file'')"

lemma hoare_getS3:
  assumes st: "script_stable P" and cs: "\<And>w cs. P w \<Longrightarrow> P (w\<lparr>s3clients := cs\<rparr>)"
    and quiet: "\<And>w. P w \<Longrightarrow> q \<Longrightarrow> faults w = []" and er: "\<And>w e. P w \<Longrightarrow> \<not> q \<Longrightarrow> E (ErrOther e) w"
  shows "hoare P (getS3 ds) (\<lambda>_. P) E"
proof -
  have "hoare P (ext (returnE ())) (\<lambda>_. P) E"
    by (rule hoare_ext_script [OF st]) (use quiet er in \<open>auto simp: hoare_return\<close>)
  moreover have "hoare P (thenE (modifyE (\<lambda>w. w\<lparr>s3clients := (ds_Id ds, s3_settings ds) # s3clients w\<rparr>)) (returnE (s3_settings ds))) (\<lambda>_. P) E"
    using cs by (simp add: hoare_def io_simps)
  ultimately have miss: "hoare P (thenE (ext (returnE ())) (thenE (modifyE (\<lambda>w. w\<lparr>s3clients := (ds_Id ds, s3_settings ds) # s3clients w\<rparr>)) (returnE (s3_settings ds)))) (\<lambda>_. P) E"
    by (rule hoare_then)
  show ?thesis unfolding getS3_def
    by (rule hoare_bind [where R = "\<lambda>_. P"]) (auto simp: hoare_def [of _ "getsE _"] miss split: option.split intro: hoare_return)
qed

lemma hoare_RemoveWithDsId:
  assumes st: "script_stable P" and cs: "\<And>w cs. P w \<Longrightarrow> P (w\<lparr>s3clients := cs\<rparr>)"
    and quiet: "\<And>w. P w \<Longrightarrow> q \<Longrightarrow> faults w = []" and er: "\<And>w e. P w \<Longrightarrow> \<not> q \<Longrightarrow> E (ErrOther e) w"
    and rm: "\<And>w. P w \<Longrightarrow> Q () (w\<lparr>objects := (objects w)((dsId, location) := None)\<rparr>)"
    and known: "q \<Longrightarrow> known_datastore ctx dsId"
  shows "hoare P (RemoveWithDsId ctx dsId location) Q E"
proof -
  have del: "hoare P (ext (modifyE (\<lambda>w. w\<lparr>objects := (objects w)((dsId, location) := None)\<rparr>))) Q E"
    by (rule hoare_ext_script [OF st]) (use quiet er rm in \<open>auto simp: hoare_def\<close>)
  have s3: "hoare P (getS3 ds) (\<lambda>_. P) E" for ds
    by (rule hoare_getS3 [where q = q, OF st]) (use cs quiet er in auto)
  have rem: "hoare P (Remove ds location) Q E" if "ds_Id ds = dsId" "q \<Longrightarrow> ds_Type ds = ''s3'' \<or> ds_Type ds = ''file''" for ds
    using that hoare_then [OF s3 del] del er
    by (auto simp: Remove_def intro: hoare_throw)
  show ?thesis
  proof (cases "datastores_Get ctx dsId")
    case None
    then have "\<not> q" using known by (auto simp: known_datastore_def)
    with None show ?thesis by (auto simp: RemoveWithDsId_def intro!: hoare_throw er)
  next
    case (Some ds)
    moreover have "hoare P (Remove ds location) Q E"
      by (rule rem) (use Some known datastores_Get_Some [OF Some] in \<open>auto simp: known_datastore_def\<close>)
    ultimately show ?thesis by (simp add: RemoveWithDsId_def)
  qed
qed

end
