(* ===== verification/Quarantine.thy ===== *)
theory Quarantine
  imports Datastores
begin

text \<open>
  Resolving what a moderator names into media records, and quarantining it by hash
  (\<^verbatim>\<open>tasks/task_runner/quarantine.go\<close>), with the cache entry that a quarantine drops
  (\<^verbatim>\<open>redislib/cache.go\<close>) and the answer for quarantined media
  (\<^verbatim>\<open>pipelines/_steps/quarantine/logic.go\<close>).
\<close>

definition redis_DeleteMedia :: "string \<Rightarrow> (world, unit) io" where
  "redis_DeleteMedia hash = bindE (getsE (\<lambda>w. redis_Enabled (Redis (cfg w)))) (\<lambda>ring.
     if \<not> ring then returnE ()
     else ext (modifyE (\<lambda>w. w\<lparr>redis_media := (redis_media w)(hash := None)\<rparr>)))"

record QuarantineRecord =
  qrec_Origin :: string
  qrec_MediaId :: string

record QuarantineThis =
  qt_MxcUris :: "string list"
  qt_Single :: "QuarantineRecord option"
  qt_DbMedia :: "DbMedia list"

text \<open>
  In the loop over the MXC URIs the host test comes before the test of the error of
  \<open>SplitMxc\<close>, which returns an empty origin with its error.
\<close>

definition resolve_mxc :: "string \<Rightarrow> string \<Rightarrow> DbMedia list \<Rightarrow> (world, DbMedia list) io" where
  "resolve_mxc onlyHost mxc records =
     (let origin = (case SplitMxc mxc of Inl _ \<Rightarrow> [] | Inr (o', _) \<Rightarrow> o') in
      if onlyHost \<noteq> [] \<and> origin \<noteq> onlyHost then returnE records
      else case SplitMxc mxc of
          Inl err \<Rightarrow> throwE err
        | Inr (origin, mediaId) \<Rightarrow>
            bindE (media_GetById origin mediaId) (\<lambda>r.
              returnE (case r of None \<Rightarrow> records | Some m \<Rightarrow> records @ [m])))"

definition resolveMedia :: "string \<Rightarrow> QuarantineThis \<Rightarrow> (world, DbMedia list) io" where
  "resolveMedia onlyHost toHandle =
     bindE (case qt_Single toHandle of
         None \<Rightarrow> returnE (qt_DbMedia toHandle)
       | Some s \<Rightarrow>
           if onlyHost = [] \<or> qrec_Origin s = onlyHost then
             bindE (media_GetById (qrec_Origin s) (qrec_MediaId s)) (\<lambda>r.
               returnE (case r of None \<Rightarrow> qt_DbMedia toHandle | Some m \<Rightarrow> qt_DbMedia toHandle @ [m]))
           else returnE (qt_DbMedia toHandle))
     (foldE (resolve_mxc onlyHost) (qt_MxcUris toHandle))"

text \<open>The function returns its running total beside the error.\<close>

fun quarantine_loop :: "string \<Rightarrow> DbMedia list \<Rightarrow> int \<Rightarrow> (world, int \<times> goerr option) io" where
  "quarantine_loop onlyHost [] total' = returnE (total', None)"
| "quarantine_loop onlyHost (r # records) total' =
     (if onlyHost \<noteq> [] \<and> onlyHost \<noteq> m_Origin r then quarantine_loop onlyHost records total'
      else bindE (tryE (if onlyHost \<noteq> [] then metadata_UpdateQuarantineByHashAndOrigin (m_Origin r) (Sha256Hash r) True
                        else metadata_UpdateQuarantineByHash (Sha256Hash r) True)) (\<lambda>res.
        case res of
          Inl err \<Rightarrow> returnE (total', Some err)
        | Inr count \<Rightarrow>
            thenE (tryE (redis_DeleteMedia (Sha256Hash r)))
              (quarantine_loop onlyHost records (int64 (total' + count)))))"

definition QuarantineMedia :: "string \<Rightarrow> QuarantineThis \<Rightarrow> (world, int \<times> goerr option) io" where
  "QuarantineMedia onlyHost toHandle =
     bindE (tryE (resolveMedia onlyHost toHandle)) (\<lambda>res.
       case res of
         Inl err \<Rightarrow> returnE (0, Some err)
       | Inr records \<Rightarrow> quarantine_loop onlyHost records 0)"

text \<open>The placeholder image is drawn by a graphics library: \<open>MakeThumbnail\<close> is a parameter.\<close>

definition ReturnAppropriateThing ::
  "(RequestContext \<Rightarrow> int \<Rightarrow> int \<Rightarrow> goerr + bytes) \<Rightarrow> RequestContext \<Rightarrow> bool \<Rightarrow> bool \<Rightarrow> int \<Rightarrow> int \<Rightarrow> goerr + bytes" where
  "ReturnAppropriateThing MakeThumbnail ctx isDownload recordOnly width height =
     (let flag = (if \<not> isDownload then qr_ReplaceThumbnails (Quarantine (ctx_Config ctx))
                  else qr_ReplaceDownloads (Quarantine (ctx_Config ctx)))
      in if \<not> flag \<or> recordOnly then Inl ErrMediaQuarantined
         else MakeThumbnail ctx width height)"

section \<open>Facts\<close>

lemma preserves_redis_DeleteMedia [hoare_intros]:
  assumes "env_stable I" and "\<And>w f. I w \<Longrightarrow> I (w\<lparr>redis_media := f\<rparr>)"
  shows "preserves I (redis_DeleteMedia hash)"
  unfolding redis_DeleteMedia_def using assms by (intro hoare_intros) auto

lemma preserves_resolveMedia [hoare_intros]: "env_stable I \<Longrightarrow> preserves I (resolveMedia onlyHost toHandle)"
  unfolding resolveMedia_def resolve_mxc_def media_GetById_def Let_def
  by (intro hoare_intros)

text \<open>
  What a quarantine may do to the state: flag rows as quarantined, never a pinned one,
  and nothing else.
\<close>

definition pinned :: "DbMediaAttributes list \<Rightarrow> DbMedia \<Rightarrow> bool" where
  "pinned attrs m \<longleftrightarrow>
     (\<exists>a. a \<in> set attrs \<and> a_Origin a = m_Origin m \<and> a_MediaId a = m_MediaId m) \<and>
     (\<forall>a. a \<in> set attrs \<and> a_Origin a = m_Origin m \<and> a_MediaId a = m_MediaId m \<longrightarrow> a_Purpose a = PurposePinned)"

lemma quarantine_hit_not_pinned: "quarantine_hit attrs hash q m \<Longrightarrow> \<not> pinned attrs m"
  by (fastforce simp: quarantine_hit_def pinned_def Let_def filter_empty_conv list_ex_iff)

definition quarantined_from :: "(DbMedia \<Rightarrow> bool) \<Rightarrow> DbMedia list \<Rightarrow> DbMedia list \<Rightarrow> bool" where
  "quarantined_from may old new \<longleftrightarrow>
     list_all2 (\<lambda>a b. b = a \<or> (may a \<and> b = a\<lparr>m_Quarantined := True\<rparr>)) old new"

lemma quarantined_from_refl [simp]: "quarantined_from may ms ms"
  by (simp add: quarantined_from_def list_all2_same)

lemma quarantined_from_map:
  assumes "quarantined_from may ms ns" "\<And>b. hit b \<Longrightarrow> may b"
    and keep: "\<And>a. may (a\<lparr>m_Quarantined := True\<rparr>) = may a"
  shows "quarantined_from may ms (map (\<lambda>m. if hit m then m\<lparr>m_Quarantined := True\<rparr> else m) ns)"
  using assms(1) unfolding quarantined_from_def list_all2_map2
proof (rule list_all2_mono)
  fix a b assume "b = a \<or> (may a \<and> b = a\<lparr>m_Quarantined := True\<rparr>)"
  then show "(if hit b then b\<lparr>m_Quarantined := True\<rparr> else b) = a \<or>
    (may a \<and> (if hit b then b\<lparr>m_Quarantined := True\<rparr> else b) = a\<lparr>m_Quarantined := True\<rparr>)"
    using assms(2) by auto
qed

lemma quarantine_hit_iff:
  "quarantine_hit attrs hash q m \<longleftrightarrow> Sha256Hash m = hash \<and> m_Quarantined m \<noteq> q \<and> \<not> pinned attrs m"
  by (fastforce simp: quarantine_hit_def pinned_def Let_def filter_empty_conv list_ex_iff)

lemma pinned_keep [simp]: "pinned attrs (m\<lparr>m_Quarantined := q\<rparr>) = pinned attrs m"
  by (simp add: pinned_def)

text \<open>The rows that a quarantine under \<open>onlyHost\<close> may touch.\<close>

definition in_scope :: "string \<Rightarrow> DbMediaAttributes list \<Rightarrow> DbMedia \<Rightarrow> bool" where
  "in_scope onlyHost attrs m \<longleftrightarrow> (onlyHost \<noteq> [] \<longrightarrow> m_Origin m = onlyHost) \<and> \<not> pinned attrs m"

lemma in_scope_keep [simp]: "in_scope onlyHost attrs (m\<lparr>m_Quarantined := q\<rparr>) = in_scope onlyHost attrs m"
  by (simp add: in_scope_def)

definition count_quarantined :: "DbMedia list \<Rightarrow> int" where
  "count_quarantined ms = int (length (filter m_Quarantined ms))"

lemma count_quarantined_map:
  "(\<And>m. hit m \<Longrightarrow> \<not> m_Quarantined m) \<Longrightarrow>
     count_quarantined (map (\<lambda>m. if hit m then m\<lparr>m_Quarantined := True\<rparr> else m) ms) =
       count_quarantined ms + int (length (filter hit ms))"
  by (induction ms) (auto simp: count_quarantined_def)

lemma count_quarantined_bounds: "0 \<le> count_quarantined ms" "count_quarantined ms \<le> int (length ms)"
  by (simp_all add: count_quarantined_def)

text \<open>
  The invariant of the loop, relative to the state \<open>w0\<close> in which it starts.
\<close>

definition quarantine_progress :: "string \<Rightarrow> world \<Rightarrow> int \<Rightarrow> world \<Rightarrow> bool" where
  "quarantine_progress onlyHost w0 n w \<longleftrightarrow>
     quarantined_from (in_scope onlyHost (tbl_attributes w0)) (tbl_media w0) (tbl_media w) \<and>
     tbl_attributes w = tbl_attributes w0 \<and> objects w = objects w0 \<and>
     tbl_thumbnails w = tbl_thumbnails w0 \<and>
     n = count_quarantined (tbl_media w) - count_quarantined (tbl_media w0)"

lemma quarantine_progress_stable: "env_stable (quarantine_progress onlyHost w0 n)"
  by (rule env_stableI) (simp_all add: quarantine_progress_def)

definition hashes_done :: "string \<Rightarrow> world \<Rightarrow> string set \<Rightarrow> world \<Rightarrow> bool" where
  "hashes_done onlyHost w0 H w \<longleftrightarrow>
     (\<forall>m \<in> set (tbl_media w). Sha256Hash m \<in> H \<and> in_scope onlyHost (tbl_attributes w0) m \<longrightarrow> m_Quarantined m)"

lemma hashes_done_stable: "env_stable (hashes_done onlyHost w0 H)"
  by (rule env_stableI) (simp_all add: hashes_done_def)

lemma hashes_done_map:
  assumes "\<And>m. hit m \<longleftrightarrow> Sha256Hash m = h \<and> \<not> m_Quarantined m \<and> in_scope onlyHost (tbl_attributes w0) m"
    and "hashes_done onlyHost w0 H w"
  shows "hashes_done onlyHost w0 (insert h H)
    (w\<lparr>tbl_media := map (\<lambda>m. if hit m then m\<lparr>m_Quarantined := True\<rparr> else m) (tbl_media w), tbl_user_stats := u\<rparr>)"
  using assms by (auto simp: hashes_done_def)

lemma quarantine_rows_progress:
  assumes hit: "\<And>m. hit m \<longleftrightarrow> Sha256Hash m = h \<and> \<not> m_Quarantined m \<and> in_scope onlyHost (tbl_attributes w0) m"
  shows "hoare (\<lambda>w. quarantine_progress onlyHost w0 n w \<and> hashes_done onlyHost w0 H w) (quarantine_rows hit True)
           (\<lambda>c w. quarantine_progress onlyHost w0 (n + c) w \<and> hashes_done onlyHost w0 (insert h H) w)
           (\<lambda>e w. \<not> is_panic e \<and> quarantine_progress onlyHost w0 n w)"
  unfolding quarantine_rows_def
proof (rule hoare_ext)
  show "env_stable (\<lambda>w. quarantine_progress onlyHost w0 n w \<and> hashes_done onlyHost w0 H w)"
    by (intro env_stable_conj quarantine_progress_stable hashes_done_stable)
  have from_map: "quarantined_from (in_scope onlyHost (tbl_attributes w0)) ms
      (map (\<lambda>m. if hit m then m\<lparr>m_Quarantined := True\<rparr> else m) ns)"
    if "quarantined_from (in_scope onlyHost (tbl_attributes w0)) ms ns" for ms ns
    using that hit by (intro quarantined_from_map) auto
  have cnt: "count_quarantined (map (\<lambda>m. if hit m then m\<lparr>m_Quarantined := True\<rparr> else m) ms) =
      count_quarantined ms + int (length (filter hit ms))" for ms
    using hit by (intro count_quarantined_map) auto
  show "hoare (\<lambda>w. quarantine_progress onlyHost w0 n w \<and> hashes_done onlyHost w0 H w)
     (\<lambda>w. let hs = filter hit (tbl_media w) in (Inr (int (length hs)),
       w\<lparr>tbl_media := map (\<lambda>m. if hit m then m\<lparr>m_Quarantined := True\<rparr> else m) (tbl_media w),
         tbl_user_stats := fold (\<lambda>m. stats_add (m_UserId m) 0) hs (tbl_user_stats w)\<rparr>))
     (\<lambda>c w. quarantine_progress onlyHost w0 (n + c) w \<and> hashes_done onlyHost w0 (insert h H) w)
     (\<lambda>e w. \<not> is_panic e \<and> quarantine_progress onlyHost w0 n w)"
    using hashes_done_map [OF hit]
    by (simp add: hoare_def Let_def quarantine_progress_def cnt from_map)
qed auto

lemma update_quarantine_progress:
  assumes "onlyHost \<noteq> [] \<Longrightarrow> m_Origin r = onlyHost"
  shows "hoare (\<lambda>w. quarantine_progress onlyHost w0 n w \<and> hashes_done onlyHost w0 H w)
     (if onlyHost \<noteq> [] then metadata_UpdateQuarantineByHashAndOrigin (m_Origin r) (Sha256Hash r) True
      else metadata_UpdateQuarantineByHash (Sha256Hash r) True)
     (\<lambda>c w. quarantine_progress onlyHost w0 (n + c) w \<and> hashes_done onlyHost w0 (insert (Sha256Hash r) H) w)
     (\<lambda>e w. \<not> is_panic e \<and> quarantine_progress onlyHost w0 n w)"
  unfolding hoare_def
proof (intro allI impI)
  fix w assume pre: "quarantine_progress onlyHost w0 n w \<and> hashes_done onlyHost w0 H w"
  let ?hit = "\<lambda>m. (onlyHost \<noteq> [] \<longrightarrow> m_Origin m = m_Origin r) \<and> quarantine_hit (tbl_attributes w0) (Sha256Hash r) True m"
  have "?hit m \<longleftrightarrow> Sha256Hash m = Sha256Hash r \<and> \<not> m_Quarantined m \<and> in_scope onlyHost (tbl_attributes w0) m" for m
    using assms by (auto simp: quarantine_hit_iff in_scope_def)
  note run = quarantine_rows_progress [where hit = ?hit, OF this, of n H, unfolded hoare_def, rule_format, OF pre]
  have "(if onlyHost \<noteq> [] then metadata_UpdateQuarantineByHashAndOrigin (m_Origin r) (Sha256Hash r) True
      else metadata_UpdateQuarantineByHash (Sha256Hash r) True) w = quarantine_rows ?hit True w"
    using pre by (simp add: metadata_UpdateQuarantineByHashAndOrigin_def metadata_UpdateQuarantineByHash_def
        quarantine_progress_def)
  with run show "case (if onlyHost \<noteq> [] then metadata_UpdateQuarantineByHashAndOrigin (m_Origin r) (Sha256Hash r) True
      else metadata_UpdateQuarantineByHash (Sha256Hash r) True) w of
      (Inl e, s') \<Rightarrow> \<not> is_panic e \<and> quarantine_progress onlyHost w0 n s'
    | (Inr c, s') \<Rightarrow> quarantine_progress onlyHost w0 (n + c) s' \<and> hashes_done onlyHost w0 (insert (Sha256Hash r) H) s'"
    by simp
qed

lemma redis_DeleteMedia_quiet:
  assumes "env_stable P" "\<And>w f. P w \<Longrightarrow> P (w\<lparr>redis_media := f\<rparr>)"
  shows "hoare P (tryE (redis_DeleteMedia h)) (\<lambda>_. P) (\<lambda>_ _. False)"
proof (rule hoare_try, rule hoareI)
  fix s x s' assume "P s" "redis_DeleteMedia h s = (Inr x, s')"
  then show "P s'" using preservesD' [OF preserves_redis_DeleteMedia [OF assms]] by blast
next
  fix s e s' assume "P s" and run: "redis_DeleteMedia h s = (Inl e, s')"
  then have "P s'" using preservesD' [OF preserves_redis_DeleteMedia [OF assms]] by blast
  moreover have "\<not> is_panic e"
    using run by (auto simp: redis_DeleteMedia_def io_simps ext_def split: if_splits list.splits option.splits)
  ultimately show "if is_panic e then False else P s'" by simp
qed

lemma quarantine_loop_progress:
  assumes "in_int64 (int (length (tbl_media w0)))"
  shows "hoare (\<lambda>w. quarantine_progress onlyHost w0 n w \<and> hashes_done onlyHost w0 H w) (quarantine_loop onlyHost records n)
     (\<lambda>(n', err) w. quarantine_progress onlyHost w0 n' w \<and>
        (err = None \<longrightarrow> hashes_done onlyHost w0 (H \<union> Sha256Hash ` {r \<in> set records. onlyHost \<noteq> [] \<longrightarrow> m_Origin r = onlyHost}) w))
     (\<lambda>_ _. False)"
proof (induction records arbitrary: n H)
  case Nil
  show ?case by (simp add: hoare_return)
next
  case (Cons r records)
  show ?case
  proof (cases "onlyHost \<noteq> [] \<and> onlyHost \<noteq> m_Origin r")
    case True
    then have "{r' \<in> set (r # records). onlyHost \<noteq> [] \<longrightarrow> m_Origin r' = onlyHost} =
               {r' \<in> set records. onlyHost \<noteq> [] \<longrightarrow> m_Origin r' = onlyHost}" by auto
    with True Cons.IH [of n H] show ?thesis by simp
  next
    case False
    then have orig: "onlyHost \<noteq> [] \<Longrightarrow> m_Origin r = onlyHost" by auto
    let ?S = "{r' \<in> set records. onlyHost \<noteq> [] \<longrightarrow> m_Origin r' = onlyHost}"
    have S: "{r' \<in> set (r # records). onlyHost \<noteq> [] \<longrightarrow> m_Origin r' = onlyHost} = insert r ?S"
      using orig by auto
    have wrap: "quarantine_progress onlyHost w0 m w \<Longrightarrow> int64 m = m" for m w
    proof (rule int64_id, rule in_int64_between [of "- int (length (tbl_media w0))"])
      assume "quarantine_progress onlyHost w0 m w"
      then have "length (tbl_media w) = length (tbl_media w0)"
        and m: "m = count_quarantined (tbl_media w) - count_quarantined (tbl_media w0)"
        by (auto simp: quarantine_progress_def quarantined_from_def dest: list_all2_lengthD)
      with count_quarantined_bounds [of "tbl_media w"] count_quarantined_bounds [of "tbl_media w0"]
      show "- int (length (tbl_media w0)) \<le> m" "m \<le> int (length (tbl_media w0))" by auto
    qed (use assms in \<open>auto simp: in_int64_def\<close>)
    let ?Q = "\<lambda>c w. quarantine_progress onlyHost w0 (n + c) w \<and> hashes_done onlyHost w0 (insert (Sha256Hash r) H) w"
    have st: "env_stable (?Q c)" for c
      by (intro env_stable_conj quarantine_progress_stable hashes_done_stable)
    have rd: "?Q c (w\<lparr>redis_media := f\<rparr>)" if "?Q c w" for c w f
      using that by (simp add: quarantine_progress_def hashes_done_def)
    have rest: "hoare (?Q c) (thenE (tryE (redis_DeleteMedia (Sha256Hash r))) (quarantine_loop onlyHost records (int64 (n + c))))
     (\<lambda>(n', err) w. quarantine_progress onlyHost w0 n' w \<and>
        (err = None \<longrightarrow> hashes_done onlyHost w0 (insert (Sha256Hash r) H \<union> Sha256Hash ` ?S) w))
     (\<lambda>_ _. False)" for c
      by (rule hoare_then [OF redis_DeleteMedia_quiet [OF st rd]], assumption)
         (rule hoare_weaken [OF Cons.IH [of "int64 (n + c)" "insert (Sha256Hash r) H"]], auto simp: wrap)
    have upd: "hoare (\<lambda>w. quarantine_progress onlyHost w0 n w \<and> hashes_done onlyHost w0 H w)
       (tryE (if onlyHost \<noteq> [] then metadata_UpdateQuarantineByHashAndOrigin (m_Origin r) (Sha256Hash r) True
              else metadata_UpdateQuarantineByHash (Sha256Hash r) True))
       (\<lambda>res w. case res of Inr c \<Rightarrow> ?Q c w | Inl e \<Rightarrow> quarantine_progress onlyHost w0 n w) (\<lambda>_ _. False)"
      by (rule hoare_try, rule hoare_weaken [OF update_quarantine_progress [OF orig]]) auto
    have k: "hoare (\<lambda>w. case res of Inr c \<Rightarrow> ?Q c w | Inl e \<Rightarrow> quarantine_progress onlyHost w0 n w)
       (case res of Inl err \<Rightarrow> returnE (n, Some err)
        | Inr c \<Rightarrow> thenE (tryE (redis_DeleteMedia (Sha256Hash r))) (quarantine_loop onlyHost records (int64 (n + c))))
       (\<lambda>(n', err) w. quarantine_progress onlyHost w0 n' w \<and>
          (err = None \<longrightarrow> hashes_done onlyHost w0 (insert (Sha256Hash r) H \<union> Sha256Hash ` ?S) w))
       (\<lambda>_ _. False)" for res
      using rest by (cases res) (auto intro: hoare_return)
    show ?thesis
      using hoare_bind [OF upd k]
      by (simp only: quarantine_loop.simps if_not_P [OF False] S image_insert Un_insert_right Un_insert_left)
  qed
qed

lemma resolveMedia_no_panic: "resolveMedia onlyHost toHandle w = (Inl e, w') \<Longrightarrow> \<not> is_panic e"
proof -
  have get: "hoare (\<lambda>_. True) (media_GetById o' i) (\<lambda>_ _. True) (\<lambda>e _. \<not> is_panic e)" for o' i
    unfolding media_GetById_def by (rule hoare_dbQuery) (auto simp: script_stable_def)
  have split: "SplitMxc mxc = Inl e \<Longrightarrow> \<not> is_panic e" for mxc e
    by (auto simp: SplitMxc_def Let_def split: if_splits)
  have step: "hoare (\<lambda>_. True) (resolve_mxc onlyHost mxc records) (\<lambda>_ _. True) (\<lambda>e _. \<not> is_panic e)" for mxc records
    by (cases "SplitMxc mxc")
       (auto simp: resolve_mxc_def Let_def split intro!: hoare_return hoare_throw hoare_bind [OF get])
  have "hoare (\<lambda>_. True) (resolveMedia onlyHost toHandle) (\<lambda>_ _. True) (\<lambda>e _. \<not> is_panic e)"
    unfolding resolveMedia_def
    by (rule hoare_bind [where R = "\<lambda>_ _. True"], auto split: option.split intro!: hoare_return hoare_bind [OF get])
       (rule hoare_fold [where J = "\<lambda>_ _. True"], rule step)
  then show "resolveMedia onlyHost toHandle w = (Inl e, w') \<Longrightarrow> \<not> is_panic e"
    by (auto dest: hoareD_Inl)
qed

lemma quarantine_start:
  "quarantine_progress onlyHost w 0 w" "hashes_done onlyHost w {} w"
  by (simp_all add: quarantine_progress_def hashes_done_def)

lemma QuarantineMedia_run:
  assumes "QuarantineMedia onlyHost toHandle w = (res, w')" and "in_int64 (int (length (tbl_media w)))"
  shows "\<exists>n err. res = Inr (n, err) \<and> quarantine_progress onlyHost w n w' \<and>
    (err = None \<longrightarrow> (\<exists>records w1. resolveMedia onlyHost toHandle w = (Inr records, w1) \<and>
       hashes_done onlyHost w (Sha256Hash ` {r \<in> set records. onlyHost \<noteq> [] \<longrightarrow> m_Origin r = onlyHost}) w'))"
proof -
  obtain rr w1 where run: "resolveMedia onlyHost toHandle w = (rr, w1)" by fastforce
  have start: "quarantine_progress onlyHost w 0 w1 \<and> hashes_done onlyHost w {} w1"
    using preservesD' [OF preserves_resolveMedia [OF quarantine_progress_stable] _ run, of onlyHost w 0]
      preservesD' [OF preserves_resolveMedia [OF hashes_done_stable] _ run, of onlyHost w "{}"]
    by (simp add: quarantine_start)
  show ?thesis
  proof (cases rr)
    case (Inl e)
    with run assms(1) start resolveMedia_no_panic [of onlyHost toHandle w e w1] show ?thesis
      by (auto simp: QuarantineMedia_def io_simps)
  next
    case (Inr records)
    then have "quarantine_loop onlyHost records 0 w1 = (res, w')"
      using run assms(1) by (simp add: QuarantineMedia_def io_simps)
    with quarantine_loop_progress [OF assms(2), of onlyHost 0 "{}" records] start run Inr show ?thesis
      by (cases res) (fastforce dest: hoareD_Inr hoareD_Inl)+
  qed
qed

section \<open>Properties\<close>

text \<open>
  C7: quarantining never fails half-way in a way that matters for others: whatever the
  outcome, every row of the media table is either untouched or has become quarantined,
  and only rows in scope are touched: never a pinned one, and with \<open>onlyHost\<close> set only
  rows of that host.  The count returned, beside an error too, is the number of rows
  that became quarantined.
\<close>

theorem QuarantineMedia_scope:
  assumes "QuarantineMedia onlyHost toHandle w = (res, w')"
    and "in_int64 (int (length (tbl_media w)))"
  shows "quarantined_from (in_scope onlyHost (tbl_attributes w)) (tbl_media w) (tbl_media w') \<and>
     tbl_attributes w' = tbl_attributes w \<and> tbl_thumbnails w' = tbl_thumbnails w \<and> objects w' = objects w \<and>
     (\<exists>n err. res = Inr (n, err) \<and> n = count_quarantined (tbl_media w') - count_quarantined (tbl_media w))"
  using QuarantineMedia_run [OF assms] by (auto simp: quarantine_progress_def)

theorem QuarantineMedia_scope_witness:
  "quarantined_from (in_scope [] (tbl_attributes demo_world)) (tbl_media demo_world)
     (tbl_media (snd (QuarantineMedia [] \<lparr>qt_MxcUris = [''mxc://a.org/one''], qt_Single = None, qt_DbMedia = []\<rparr> demo_world))) \<and>
   fst (QuarantineMedia [] \<lparr>qt_MxcUris = [''mxc://a.org/one''], qt_Single = None, qt_DbMedia = []\<rparr> demo_world) = Inr (1, None)"
proof -
  have "fst (QuarantineMedia [] \<lparr>qt_MxcUris = [''mxc://a.org/one''], qt_Single = None, qt_DbMedia = []\<rparr> demo_world) = Inr (1, None)"
    by code_simp
  then show ?thesis
    using QuarantineMedia_scope [of "[]" "\<lparr>qt_MxcUris = [''mxc://a.org/one''], qt_Single = None, qt_DbMedia = []\<rparr>" demo_world, OF prod.collapse [symmetric]]
    by (simp add: in_int64_def)
qed

text \<open>
  C8: when quarantining reports no error, every row in scope that has the hash of one of
  the resolved records is quarantined: the same file cannot stay available under
  another identifier.
\<close>

theorem QuarantineMedia_complete:
  assumes "QuarantineMedia onlyHost toHandle w = (Inr (n, None), w')"
    and "resolveMedia onlyHost toHandle w = (Inr records, w1)"
    and "in_int64 (int (length (tbl_media w)))"
    and "r \<in> set records" "onlyHost = [] \<or> m_Origin r = onlyHost"
    and "m \<in> set (tbl_media w')" "Sha256Hash m = Sha256Hash r" "in_scope onlyHost (tbl_attributes w) m"
  shows "m_Quarantined m"
  using QuarantineMedia_run [OF assms(1,3)] assms(2,4-) by (auto simp: hashes_done_def)

theorem QuarantineMedia_complete_witness:
  "m_Quarantined (demo_m1\<lparr>m_Quarantined := True\<rparr>) \<and>
   demo_m1\<lparr>m_Quarantined := True\<rparr> \<in> set (tbl_media (snd (QuarantineMedia [] \<lparr>qt_MxcUris = [''mxc://a.org/one''], qt_Single = None, qt_DbMedia = []\<rparr> demo_world)))"
proof -
  let ?t = "\<lparr>qt_MxcUris = [''mxc://a.org/one''], qt_Single = None, qt_DbMedia = []\<rparr>" and ?m = "demo_m1\<lparr>m_Quarantined := True\<rparr>"
  have a: "QuarantineMedia [] ?t demo_world = (Inr (1, None), snd (QuarantineMedia [] ?t demo_world))"
    by (rule prod_eqI) (code_simp, simp)
  have b: "resolveMedia [] ?t demo_world = (Inr [demo_m1], snd (resolveMedia [] ?t demo_world))"
    by (rule prod_eqI) (code_simp, simp)
  have c: "?m \<in> set (tbl_media (snd (QuarantineMedia [] ?t demo_world)))" by code_simp
  have d: "Sha256Hash ?m = Sha256Hash demo_m1" "in_scope [] (tbl_attributes demo_world) ?m"
    by (simp_all add: in_scope_def pinned_def demo_simps)
  show ?thesis using QuarantineMedia_complete [OF a b _ _ _ c d] c by (simp add: in_int64_def)
qed

end
