(* ===== verification/Purge.thy ===== *)
theory Purge
  imports Quarantine "HOL-Library.AList"
begin

text \<open>
  Deleting media (\<^verbatim>\<open>tasks/task_runner/purge.go\<close>) and the hourly purges
  (\<^verbatim>\<open>purge_remote_media.go\<close>, \<^verbatim>\<open>purge_previews.go\<close>, \<^verbatim>\<open>purge_held_media_ids.go\<close>).

  The maps that \<open>doPurge\<close> fills are association lists with one entry per key.
\<close>

section \<open>purge.go\<close>

record purgeConfig =
  IncludeQuarantined :: bool

record PurgeAuthContext =
  UploaderUserId :: string
  SourceOrigin :: string

definition canAffect :: "PurgeAuthContext \<Rightarrow> DbMedia \<Rightarrow> bool" where
  "canAffect c media =
     (if UploaderUserId c \<noteq> [] \<and> UploaderUserId c \<noteq> m_UserId media then False
      else if SourceOrigin c \<noteq> [] \<and> SourceOrigin c \<noteq> m_Origin media then False
      else True)"

definition locationId :: "string \<Rightarrow> string \<Rightarrow> string" where
  "locationId datastoreId location = datastoreId @ ''/'' @ location"

abbreviation media_mxc :: "DbMedia \<Rightarrow> string" where
  "media_mxc r \<equiv> MxcUri (m_Origin r) (m_MediaId r)"

abbreviation thumb_mxc :: "DbThumbnail \<Rightarrow> string" where
  "thumb_mxc t \<equiv> MxcUri (t_Origin t) (t_MediaId t)"

type_synonym flagMap = "(string \<times> (string \<times> bool) list) list"
type_synonym thumbsMap = "(string \<times> DbThumbnail list) list"

definition purge_filter :: "purgeConfig \<Rightarrow> DbMedia list \<Rightarrow> (world, DbMedia list) io" where
  "purge_filter config records =
     foldE (\<lambda>r records2.
       if m_Quarantined r \<and> \<not> IncludeQuarantined config then returnE records2
       else bindE (attributes_Get (m_Origin r) (m_MediaId r)) (\<lambda>attrs.
         case attrs of
           Some a \<Rightarrow> if a_Purpose a = PurposePinned then returnE records2 else returnE (records2 @ [r])
         | None \<Rightarrow> returnE (records2 @ [r]))) records []"

definition doFlagging :: "string \<Rightarrow> string \<Rightarrow> flagMap \<Rightarrow> (world, flagMap) io" where
  "doFlagging datastoreId location flags =
     (let lid = locationId datastoreId location in
      if map_of flags lid \<noteq> None then returnE flags
      else
        bindE (media_GetByLocation datastoreId location) (\<lambda>media.
        bindE (thumbnails_GetByLocation datastoreId location) (\<lambda>thumbs.
        returnE (AList.update lid
          (fold (\<lambda>mxc m. AList.update mxc False m) (map media_mxc media @ map thumb_mxc thumbs) []) flags))))"

definition purge_stage1 :: "DbMedia list \<Rightarrow> (world, flagMap \<times> thumbsMap) io" where
  "purge_stage1 records =
     foldE (\<lambda>r (flags, thumbsMap).
       bindE (doFlagging (DatastoreId r) (Location r) flags) (\<lambda>flags.
       bindE (thumbnails_GetForMedia (m_Origin r) (m_MediaId r)) (\<lambda>thumbs.
       bindE (foldE (\<lambda>t flags. doFlagging (DatastoreId t) (Location t) flags) thumbs flags) (\<lambda>flags.
       returnE (flags, AList.update (media_mxc r) thumbs thumbsMap))))) records ([], [])"

definition markBeingPurged :: "string \<Rightarrow> string \<Rightarrow> flagMap \<Rightarrow> (world, flagMap) io" where
  "markBeingPurged lid mxc flags =
     (case map_of flags lid of
        None \<Rightarrow> throwE (ErrOther ''logic error: missing flag map for location ID in second step'')
      | Some m \<Rightarrow>
          (case map_of m mxc of
             None \<Rightarrow> throwE (ErrOther ''logic error: missing flag map value for MXC URI in second step'')
           | Some v \<Rightarrow> returnE (if \<not> v then AList.update lid (AList.update mxc True m) flags else flags)))"

definition purge_stage2 :: "thumbsMap \<Rightarrow> DbMedia list \<Rightarrow> flagMap \<Rightarrow> (world, flagMap) io" where
  "purge_stage2 thumbsMap records flags =
     foldE (\<lambda>r flags.
       bindE (markBeingPurged (locationId (DatastoreId r) (Location r)) (media_mxc r) flags) (\<lambda>flags.
       case map_of thumbsMap (media_mxc r) of
         None \<Rightarrow> throwE (ErrOther ''logic error: missing thumbnails map value for MXC URI in second step'')
       | Some thumbs \<Rightarrow>
           foldE (\<lambda>t flags. markBeingPurged (locationId (DatastoreId t) (Location t)) (thumb_mxc t) flags)
             thumbs flags)) records flags"

definition tryRemoveDsFile ::
  "RequestContext \<Rightarrow> flagMap \<Rightarrow> string \<Rightarrow> string \<Rightarrow> string list \<Rightarrow> (world, string list) io" where
  "tryRemoveDsFile ctx flags datastoreId location deletedLocations =
     (let lid = locationId datastoreId location in
      if lid \<in> set deletedLocations then returnE deletedLocations
      else case map_of flags lid of
          None \<Rightarrow> throwE (ErrOther ''logic error: missing flag map value for location ID in third step'')
        | Some m \<Rightarrow>
            if \<not> list_all snd m then returnE deletedLocations
            else thenE (RemoveWithDsId ctx datastoreId location) (returnE (lid # deletedLocations)))"

definition purge_thumb ::
  "RequestContext \<Rightarrow> flagMap \<Rightarrow> DbThumbnail \<Rightarrow> string list \<Rightarrow> (world, string list) io" where
  "purge_thumb ctx flags t deletedLocations =
     bindE (tryRemoveDsFile ctx flags (DatastoreId t) (Location t) deletedLocations) (\<lambda>deletedLocations.
     thenE (thumbnails_Delete t) (returnE deletedLocations))"

definition purge_record ::
  "RequestContext \<Rightarrow> flagMap \<Rightarrow> thumbsMap \<Rightarrow> DbMedia \<Rightarrow> string list \<times> string list \<Rightarrow> (world, string list \<times> string list) io" where
  "purge_record ctx flags thumbsMap r st =
     (case st of (deletedLocations, removedMxcs) \<Rightarrow>
      let mxc = media_mxc r in
      bindE (tryRemoveDsFile ctx flags (DatastoreId r) (Location r) deletedLocations) (\<lambda>deletedLocations.
      bindE (getsE (\<lambda>w. IsServerOurs (doms w) (m_Origin r))) (\<lambda>ours.
      thenE (whenE ours (reserved_InsertNoConflict (m_Origin r) (m_MediaId r) ''purged / deleted''))
     (thenE (whenE (\<not> m_Quarantined r) (media_Delete (m_Origin r) (m_MediaId r)))
     (case map_of thumbsMap mxc of
        None \<Rightarrow> throwE (ErrOther ''logic error: missing thumbnails for MXC URI in third step'')
      | Some thumbs \<Rightarrow>
          bindE (foldE (purge_thumb ctx flags) thumbs deletedLocations) (\<lambda>deletedLocations.
          returnE (deletedLocations, removedMxcs @ [mxc])))))))"

definition doPurge :: "RequestContext \<Rightarrow> DbMedia list \<Rightarrow> purgeConfig \<Rightarrow> (world, string list) io" where
  "doPurge ctx records config =
     bindE (purge_filter config records) (\<lambda>records.
     bindE (purge_stage1 records) (\<lambda>(flags, thumbsMap).
     bindE (purge_stage2 thumbsMap records flags) (\<lambda>flags.
     bindE (foldE (purge_record ctx flags thumbsMap) records ([], [])) (\<lambda>(_, removedMxcs).
     returnE removedMxcs))))"

definition PurgeMedia :: "RequestContext \<Rightarrow> PurgeAuthContext \<Rightarrow> QuarantineThis \<Rightarrow> (world, string list) io" where
  "PurgeMedia ctx authContext toHandle =
     bindE (resolveMedia [] toHandle) (\<lambda>records.
       if list_ex (\<lambda>r. \<not> canAffect authContext r) records then throwE ErrWrongUser
       else doPurge ctx records \<lparr>IncludeQuarantined = True\<rparr>)"

section \<open>purge\_remote\_media.go, purge\_previews.go, purge\_held\_media\_ids.go\<close>

definition PurgeRemoteMediaBefore :: "RequestContext \<Rightarrow> int \<Rightarrow> (world, int) io" where
  "PurgeRemoteMediaBefore ctx beforeTs =
     bindE (getsE (\<lambda>w. GetOurDomains (doms w))) (\<lambda>origins.
     bindE (media_GetOldExcluding origins beforeTs) (\<lambda>records.
     bindE (doPurge ctx records \<lparr>IncludeQuarantined = False\<rparr>) (\<lambda>removed.
     returnE (int (length removed)))))"

definition days_ms :: "int \<Rightarrow> int" where
  "days_ms d = int64 (d * 24 * 60 * 60 * 1000)"

definition PurgeRemoteMedia :: "RequestContext \<Rightarrow> (world, unit) io" where
  "PurgeRemoteMedia ctx =
     bindE (getsE (\<lambda>w. mdl_ExpireDays (MainDownloads (cfg w)))) (\<lambda>expireDays.
     if expireDays \<le> 0 then returnE ()
     else bindE NowMillis (\<lambda>n.
       let beforeTs = int64 (n - days_ms expireDays) in
       bindE (tryE (PurgeRemoteMediaBefore ctx beforeTs)) (\<lambda>_. returnE ())))"

definition PurgePreviews :: "(world, unit) io" where
  "PurgePreviews =
     bindE (getsE (\<lambda>w. mpv_ExpireDays (MainUrlPreviews (cfg w)))) (\<lambda>expireDays.
     if expireDays \<le> 0 then returnE ()
     else bindE NowMillis (\<lambda>n.
       let beforeTs = int64 (n - days_ms expireDays) in
       bindE (tryE (previews_DeleteOlderThan beforeTs)) (\<lambda>_. returnE ())))"

definition PurgeHeldMediaIds :: "(world, unit) io" where
  "PurgeHeldMediaIds =
     bindE NowMillis (\<lambda>n.
       let beforeTs = int64 (n - 7 * 24 * 60 * 60 * 1000) in
       bindE (tryE (held_DeleteOlderThan ForCreateHeldReason beforeTs)) (\<lambda>_. returnE ()))"

end
