(* ===== verification/PurgeProofs.thy ===== *)
theory PurgeProofs
  imports Purge
begin

text \<open>
  What a purge does to the tables and to the stored files, on every path: no file that
  another record still uses is removed, and a completed purge leaves neither rows
  without their file nor files without a row.
\<close>

section \<open>Names of locations and media\<close>

abbreviation slash :: char where "slash \<equiv> CHR ''/''"

abbreviation loc_of :: "'a Locatable_scheme \<Rightarrow> string \<times> string" where
  "loc_of r \<equiv> (DatastoreId r, Location r)"

abbreviation thumb_key :: "DbThumbnail \<Rightarrow> string \<times> string" where
  "thumb_key t \<equiv> (t_Origin t, t_MediaId t)"

lemma locationId_inj:
  "slash \<notin> set d \<Longrightarrow> slash \<notin> set d' \<Longrightarrow> locationId d l = locationId d' l' \<longleftrightarrow> d = d' \<and> l = l'"
  by (simp add: locationId_def sep_append_inj)

lemma MxcUri_inj:
  "slash \<notin> set o' \<Longrightarrow> slash \<notin> set o'' \<Longrightarrow> MxcUri o' i = MxcUri o'' j \<longleftrightarrow> o' = o'' \<and> i = j"
  by (simp add: MxcUri_def sep_append_inj)

text \<open>Server names and configured datastore identifiers have no slash in them.\<close>

definition slash_free :: "world \<Rightarrow> bool" where
  "slash_free w \<longleftrightarrow>
     list_all (\<lambda>m. slash \<notin> set (DatastoreId m) \<and> slash \<notin> set (m_Origin m)) (tbl_media w) \<and>
     list_all (\<lambda>t. slash \<notin> set (DatastoreId t) \<and> slash \<notin> set (t_Origin t)) (tbl_thumbnails w)"

lemma slash_freeD:
  "slash_free w \<Longrightarrow> m \<in> set (tbl_media w) \<Longrightarrow> slash \<notin> set (DatastoreId m) \<and> slash \<notin> set (m_Origin m)"
  "slash_free w \<Longrightarrow> t \<in> set (tbl_thumbnails w) \<Longrightarrow> slash \<notin> set (DatastoreId t) \<and> slash \<notin> set (t_Origin t)"
  by (auto simp: slash_free_def list_all_iff)

section \<open>The flag maps\<close>

text \<open>The MXC URIs of the rows that use a file.\<close>

definition mxcs_at :: "world \<Rightarrow> string \<times> string \<Rightarrow> string set" where
  "mxcs_at w k = media_mxc ` {m \<in> set (tbl_media w). loc_of m = k} \<union>
                 thumb_mxc ` {t \<in> set (tbl_thumbnails w). loc_of t = k}"

definition thumbs_of :: "world \<Rightarrow> DbMedia \<Rightarrow> DbThumbnail list" where
  "thumbs_of w r = filter (\<lambda>t. t_Origin t = m_Origin r \<and> t_MediaId t = m_MediaId r) (tbl_thumbnails w)"

text \<open>
  \<open>flags_ok w M\<close>: every entry belongs to one file, has one flag for each MXC URI using
  that file, and only MXC URIs of \<open>M\<close> are marked.
\<close>

definition flags_ok :: "world \<Rightarrow> string set \<Rightarrow> flagMap \<Rightarrow> bool" where
  "flags_ok w M flags \<longleftrightarrow> (\<forall>lid m. map_of flags lid = Some m \<longrightarrow>
     (\<exists>d l. slash \<notin> set d \<and> lid = locationId d l \<and> dom (map_of m) = mxcs_at w (d, l)) \<and>
     distinct (map fst m) \<and> (\<forall>mxc. map_of m mxc = Some True \<longrightarrow> mxc \<in> M))"

definition flagged :: "flagMap \<Rightarrow> string \<times> string \<Rightarrow> bool" where
  "flagged flags k \<longleftrightarrow> map_of flags (locationId (fst k) (snd k)) \<noteq> None"

definition marked :: "flagMap \<Rightarrow> string \<times> string \<Rightarrow> string \<Rightarrow> bool" where
  "marked flags k mxc \<longleftrightarrow>
     (\<exists>m. map_of flags (locationId (fst k) (snd k)) = Some m \<and> map_of m mxc = Some True)"

lemma flagged_mono: "flagged flags k \<Longrightarrow> dom (map_of flags) \<subseteq> dom (map_of flags') \<Longrightarrow> flagged flags' k"
  by (auto simp: flagged_def)

lemma flags_ok_at:
  assumes "flags_ok w M flags" "map_of flags (locationId d l) = Some m" "slash \<notin> set d"
  shows "dom (map_of m) = mxcs_at w (d, l)" "distinct (map fst m)" "\<And>mxc. map_of m mxc = Some True \<Longrightarrow> mxc \<in> M"
proof -
  have "(\<exists>d' l'. slash \<notin> set d' \<and> locationId d l = locationId d' l' \<and> dom (map_of m) = mxcs_at w (d', l')) \<and>
     distinct (map fst m) \<and> (\<forall>mxc. map_of m mxc = Some True \<longrightarrow> mxc \<in> M)"
    using assms(1,2) by (simp add: flags_ok_def)
  with assms(3) show "dom (map_of m) = mxcs_at w (d, l)" "distinct (map fst m)"
    "\<And>mxc. map_of m mxc = Some True \<Longrightarrow> mxc \<in> M"
    by (auto simp: locationId_inj)
qed

lemma fold_update_False:
  "dom (map_of (fold (\<lambda>mxc m. AList.update mxc False m) xs al)) = set xs \<union> dom (map_of al)"
  "distinct (map fst al) \<Longrightarrow> distinct (map fst (fold (\<lambda>mxc m. AList.update mxc False m) xs al))"
  "(\<And>k. map_of al k \<noteq> Some True) \<Longrightarrow> map_of (fold (\<lambda>mxc m. AList.update mxc False m) xs al) k \<noteq> Some True"
  by (induction xs arbitrary: al) (auto simp: update_conv' distinct_update)

lemma flags_ok_new:
  assumes "flags_ok w M flags" "slash \<notin> set d" "set xs = mxcs_at w (d, l)"
  shows "flags_ok w M (AList.update (locationId d l) (fold (\<lambda>mxc m. AList.update mxc False m) xs []) flags)"
proof -
  have "(\<exists>d' l'. slash \<notin> set d' \<and> locationId d l = locationId d' l' \<and>
          dom (map_of (fold (\<lambda>mxc m. AList.update mxc False m) xs [])) = mxcs_at w (d', l')) \<and>
        distinct (map fst (fold (\<lambda>mxc m. AList.update mxc False m) xs [])) \<and>
        (\<forall>mxc. map_of (fold (\<lambda>mxc m. AList.update mxc False m) xs []) mxc = Some True \<longrightarrow> mxc \<in> M)"
    using assms(2,3) fold_update_False [where xs = xs and al = "[]"] by auto
  with assms(1) show ?thesis unfolding flags_ok_def by (auto simp: update_conv')
qed

lemma flags_ok_mark:
  assumes "flags_ok w M flags" "map_of flags lid = Some m" "map_of m mxc = Some v" "mxc \<in> M"
  shows "flags_ok w M (AList.update lid (AList.update mxc True m) flags)"
proof -
  have m: "(\<exists>d l. slash \<notin> set d \<and> lid = locationId d l \<and> dom (map_of m) = mxcs_at w (d, l)) \<and>
     distinct (map fst m) \<and> (\<forall>mxc. map_of m mxc = Some True \<longrightarrow> mxc \<in> M)"
    using assms(1,2) by (simp add: flags_ok_def)
  have "dom (map_of (AList.update mxc True m)) = dom (map_of m)"
    using assms(3) by (auto simp: update_conv')
  with m assms(4) have "(\<exists>d l. slash \<notin> set d \<and> lid = locationId d l \<and> dom (map_of (AList.update mxc True m)) = mxcs_at w (d, l)) \<and>
     distinct (map fst (AList.update mxc True m)) \<and> (\<forall>mxc'. map_of (AList.update mxc True m) mxc' = Some True \<longrightarrow> mxc' \<in> M)"
    by (auto simp: update_conv' distinct_update)
  with assms(1) show ?thesis unfolding flags_ok_def by (auto simp: update_conv')
qed

section \<open>The stages that only read\<close>

text \<open>
  The tables and the files are those of \<open>w0\<close>; with \<open>q\<close> (quiet) the script of failures is
  used up, so that no external call fails.
\<close>

definition purge_base :: "bool \<Rightarrow> world \<Rightarrow> world \<Rightarrow> bool" where
  "purge_base q w0 w \<longleftrightarrow>
     tbl_media w = tbl_media w0 \<and> tbl_thumbnails w = tbl_thumbnails w0 \<and>
     tbl_attributes w = tbl_attributes w0 \<and> tbl_reserved w = tbl_reserved w0 \<and>
     objects w = objects w0 \<and> doms w = doms w0 \<and> (q \<longrightarrow> faults w = [])"

abbreviation base_err :: "bool \<Rightarrow> world \<Rightarrow> goerr \<Rightarrow> world \<Rightarrow> bool" where
  "base_err q w0 \<equiv> \<lambda>e w. \<not> q \<and> \<not> is_panic e \<and> purge_base False w0 w"

lemma purge_base_refl: "(q \<Longrightarrow> faults w = []) \<Longrightarrow> purge_base q w w"
  by (simp add: purge_base_def)

lemma base_query:
  assumes "\<And>w. purge_base q w0 w \<Longrightarrow> f w = v"
  shows "hoare (purge_base q w0) (dbQuery f) (\<lambda>x w. purge_base q w0 w \<and> x = v) (base_err q w0)"
  using assms by (intro hoare_dbQuery) (auto simp: script_stable_def purge_base_def)

text \<open>Which records the pre-filter keeps.\<close>

definition purgeable :: "DbMediaAttributes list \<Rightarrow> purgeConfig \<Rightarrow> DbMedia \<Rightarrow> bool" where
  "purgeable attrs config r \<longleftrightarrow>
     (m_Quarantined r \<longrightarrow> IncludeQuarantined config) \<and>
     (case find_attrs (m_Origin r) (m_MediaId r) attrs of Some a \<Rightarrow> a_Purpose a \<noteq> PurposePinned | None \<Rightarrow> True)"

lemma purge_filter_spec:
  "hoare (purge_base q w0) (purge_filter config records)
     (\<lambda>rs w. purge_base q w0 w \<and> rs = filter (purgeable (tbl_attributes w0) config) records) (base_err q w0)"
proof -
  let ?J = "\<lambda>xs acc w. purge_base q w0 w \<and> acc = filter (purgeable (tbl_attributes w0) config) xs"
  have get: "hoare (purge_base q w0) (attributes_Get o' i)
      (\<lambda>x w. purge_base q w0 w \<and> x = find_attrs o' i (tbl_attributes w0)) (base_err q w0)" for o' i
    unfolding attributes_Get_def by (rule base_query) (simp add: purge_base_def)
  have "hoare (?J [] []) (purge_filter config records) (?J records) (base_err q w0)"
    unfolding purge_filter_def
  proof (rule hoare_fold_prefix [where J = ?J], rule hoare_pure)
    fix xs1 r xs2 acc assume acc: "acc = filter (purgeable (tbl_attributes w0) config) xs1"
    show "hoare (purge_base q w0)
      (if m_Quarantined r \<and> \<not> IncludeQuarantined config then returnE acc
       else bindE (attributes_Get (m_Origin r) (m_MediaId r)) (\<lambda>attrs. case attrs of
           Some a \<Rightarrow> if a_Purpose a = PurposePinned then returnE acc else returnE (acc @ [r])
         | None \<Rightarrow> returnE (acc @ [r]))) (?J (xs1 @ [r])) (base_err q w0)"
      by (auto simp: purgeable_def acc split: option.split intro!: hoare_return hoare_bind_val [OF get])
  qed
  then show ?thesis by (rule hoare_weaken) auto
qed

lemma get_media_at:
  "hoare (purge_base q w0) (media_GetByLocation d l)
     (\<lambda>x w. purge_base q w0 w \<and> x = filter (\<lambda>m. DatastoreId m = d \<and> Location m = l) (tbl_media w0)) (base_err q w0)"
  unfolding media_GetByLocation_def media_scanRows_def by (rule base_query) (simp add: purge_base_def)

lemma get_thumbs_at:
  "hoare (purge_base q w0) (thumbnails_GetByLocation d l)
     (\<lambda>x w. purge_base q w0 w \<and> x = filter (\<lambda>t. DatastoreId t = d \<and> Location t = l) (tbl_thumbnails w0)) (base_err q w0)"
  unfolding thumbnails_GetByLocation_def thumbnails_scanRows_def by (rule base_query) (simp add: purge_base_def)

lemma get_thumbs_of:
  "hoare (purge_base q w0) (thumbnails_GetForMedia (m_Origin r) (m_MediaId r))
     (\<lambda>x w. purge_base q w0 w \<and> x = thumbs_of w0 r) (base_err q w0)"
  unfolding thumbnails_GetForMedia_def thumbnails_scanRows_def
  by (rule base_query) (simp add: purge_base_def thumbs_of_def)

lemma doFlagging_spec:
  assumes d: "slash \<notin> set d" and ok: "flags_ok w0 M flags"
  shows "hoare (purge_base q w0) (doFlagging d l flags)
     (\<lambda>flags' w. purge_base q w0 w \<and> (flags_ok w0 M flags' \<and> map_of flags' (locationId d l) \<noteq> None \<and>
        dom (map_of flags) \<subseteq> dom (map_of flags'))) (base_err q w0)"
proof (cases "map_of flags (locationId d l) = None")
  case False
  with ok show ?thesis by (auto simp: doFlagging_def intro: hoare_return)
next
  case True
  let ?ms = "filter (\<lambda>m. DatastoreId m = d \<and> Location m = l) (tbl_media w0)"
  let ?ts = "filter (\<lambda>t. DatastoreId t = d \<and> Location t = l) (tbl_thumbnails w0)"
  let ?new = "AList.update (locationId d l)
    (fold (\<lambda>mxc m. AList.update mxc False m) (map media_mxc ?ms @ map thumb_mxc ?ts) []) flags"
  have "set (map media_mxc ?ms @ map thumb_mxc ?ts) = mxcs_at w0 (d, l)"
    by (auto simp: mxcs_at_def)
  then have new: "flags_ok w0 M ?new" by (rule flags_ok_new [OF ok d])
  have "doFlagging d l flags = bindE (media_GetByLocation d l) (\<lambda>media.
        bindE (thumbnails_GetByLocation d l) (\<lambda>thumbs.
        returnE (AList.update (locationId d l)
          (fold (\<lambda>mxc m. AList.update mxc False m) (map media_mxc media @ map thumb_mxc thumbs) []) flags)))"
    using True by (simp add: doFlagging_def)
  moreover have "hoare (purge_base q w0) (returnE ?new)
     (\<lambda>flags' w. purge_base q w0 w \<and> (flags_ok w0 M flags' \<and> map_of flags' (locationId d l) \<noteq> None \<and>
        dom (map_of flags) \<subseteq> dom (map_of flags'))) (base_err q w0)"
    by (rule hoare_return) (use new in \<open>auto simp: update_conv'\<close>)
  ultimately show ?thesis
    by (simp only:) (rule hoare_bind_val [OF get_media_at], rule hoare_bind_val [OF get_thumbs_at])
qed

lemma doFlagging_thumbs_spec:
  fixes thumbs :: "DbThumbnail list"
  assumes "flags_ok w0 M flags" "\<And>t. t \<in> set thumbs \<Longrightarrow> slash \<notin> set (DatastoreId t)"
  shows "hoare (purge_base q w0) (foldE (\<lambda>t flags. doFlagging (DatastoreId t) (Location t) flags) thumbs flags)
     (\<lambda>flags' w. purge_base q w0 w \<and> (flags_ok w0 M flags' \<and> (\<forall>t \<in> set thumbs. flagged flags' (loc_of t)) \<and>
        dom (map_of flags) \<subseteq> dom (map_of flags'))) (base_err q w0)"
proof -
  let ?J = "\<lambda>(ts :: DbThumbnail list) flags' w. purge_base q w0 w \<and> (flags_ok w0 M flags' \<and> (\<forall>t \<in> set ts. flagged flags' (loc_of t)) \<and>
        dom (map_of flags) \<subseteq> dom (map_of flags'))"
  have "hoare (?J [] flags) (foldE (\<lambda>t flags. doFlagging (DatastoreId t) (Location t) flags) thumbs flags)
    (?J thumbs) (base_err q w0)"
  proof (rule hoare_fold_prefix [where J = ?J], rule hoare_pure)
    fix ts1 t ts2 fl
    assume "thumbs = ts1 @ t # ts2"
      and fl: "flags_ok w0 M fl \<and> (\<forall>t \<in> set ts1. flagged fl (loc_of t)) \<and> dom (map_of flags) \<subseteq> dom (map_of fl)"
    then have d: "slash \<notin> set (DatastoreId t)" and ok: "flags_ok w0 M fl" using assms(2) by auto
    have "?J (ts1 @ [t]) x w" if w: "purge_base q w0 w" and x: "flags_ok w0 M x \<and>
        map_of x (locationId (DatastoreId t) (Location t)) \<noteq> None \<and> dom (map_of fl) \<subseteq> dom (map_of x)" for x w
    proof -
      have "flagged x (loc_of t)" using x by (simp add: flagged_def)
      moreover have "\<forall>t' \<in> set ts1. flagged x (loc_of t')" using fl x flagged_mono by blast
      moreover have "dom (map_of flags) \<subseteq> dom (map_of x)" using x fl by blast
      ultimately show ?thesis using w x by simp
    qed
    then show "hoare (purge_base q w0) (doFlagging (DatastoreId t) (Location t) fl) (?J (ts1 @ [t])) (base_err q w0)"
      by (intro hoare_weaken [OF doFlagging_spec [OF d ok]]) blast+
  qed
  with assms(1) show ?thesis by simp
qed

definition stage1_ok :: "world \<Rightarrow> string set \<Rightarrow> DbMedia list \<Rightarrow> flagMap \<times> thumbsMap \<Rightarrow> bool" where
  "stage1_ok w0 M rs ft \<longleftrightarrow> flags_ok w0 M (fst ft) \<and>
     (\<forall>r \<in> set rs. flagged (fst ft) (loc_of r) \<and> (\<forall>t \<in> set (thumbs_of w0 r). flagged (fst ft) (loc_of t)) \<and>
        map_of (snd ft) (media_mxc r) = Some (thumbs_of w0 r))"

lemma thumbs_of_mxc:
  "slash_free w0 \<Longrightarrow> r \<in> set (tbl_media w0) \<Longrightarrow> r' \<in> set (tbl_media w0) \<Longrightarrow> media_mxc r = media_mxc r' \<Longrightarrow>
     thumbs_of w0 r = thumbs_of w0 r'"
  using slash_freeD(1) [of w0 r] slash_freeD(1) [of w0 r'] MxcUri_inj [of "m_Origin r" "m_Origin r'" "m_MediaId r" "m_MediaId r'"]
  by (simp add: thumbs_of_def)

lemma stage1_step:
  assumes sf: "slash_free w0" and rows: "set (rs @ [r]) \<subseteq> set (tbl_media w0)" and ok: "stage1_ok w0 M rs (flags, tm)"
  shows "hoare (purge_base q w0)
     (bindE (doFlagging (DatastoreId r) (Location r) flags) (\<lambda>flags.
       bindE (thumbnails_GetForMedia (m_Origin r) (m_MediaId r)) (\<lambda>thumbs.
       bindE (foldE (\<lambda>t flags. doFlagging (DatastoreId t) (Location t) flags) thumbs flags) (\<lambda>flags.
       returnE (flags, AList.update (media_mxc r) thumbs tm)))))
     (\<lambda>ft w. purge_base q w0 w \<and> stage1_ok w0 M (rs @ [r]) ft) (base_err q w0)"
proof -
  have d: "slash \<notin> set (DatastoreId r)" and fl: "flags_ok w0 M flags"
    using slash_freeD(1) [OF sf, of r] rows ok by (auto simp: stage1_ok_def)
  have ts: "\<And>t. t \<in> set (thumbs_of w0 r) \<Longrightarrow> slash \<notin> set (DatastoreId t)"
    using slash_freeD(2) [OF sf] by (auto simp: thumbs_of_def)
  have tm: "map_of (AList.update (media_mxc r) (thumbs_of w0 r) tm) (media_mxc r') = Some (thumbs_of w0 r')"
    if "r' \<in> set rs" for r'
    using that ok rows thumbs_of_mxc [OF sf, of r r'] by (auto simp: stage1_ok_def update_conv')
  show ?thesis
  proof (rule hoare_bind [OF doFlagging_spec [OF d fl]], rule hoare_pure, rule hoare_bind_val [OF get_thumbs_of])
    fix flags1
    assume f1: "flags_ok w0 M flags1 \<and> map_of flags1 (locationId (DatastoreId r) (Location r)) \<noteq> None \<and>
      dom (map_of flags) \<subseteq> dom (map_of flags1)"
    show "hoare (purge_base q w0)
      (bindE (foldE (\<lambda>t flags. doFlagging (DatastoreId t) (Location t) flags) (thumbs_of w0 r) flags1) (\<lambda>flags.
       returnE (flags, AList.update (media_mxc r) (thumbs_of w0 r) tm)))
      (\<lambda>ft w. purge_base q w0 w \<and> stage1_ok w0 M (rs @ [r]) ft) (base_err q w0)"
    proof (rule hoare_bind [OF doFlagging_thumbs_spec], rule f1 [THEN conjunct1], erule ts, rule hoare_pure, rule hoare_return)
      fix flags2 w
      assume f2: "flags_ok w0 M flags2 \<and> (\<forall>t \<in> set (thumbs_of w0 r). flagged flags2 (loc_of t)) \<and>
        dom (map_of flags1) \<subseteq> dom (map_of flags2)" and w: "purge_base q w0 w"
      have "flagged flags2 (loc_of r)" using f1 f2 flagged_mono [of flags1 "loc_of r" flags2] by (auto simp: flagged_def)
      moreover have "flagged flags2 k" if "flagged flags k" for k
        using that f1 f2 flagged_mono [of flags k flags1] flagged_mono [of flags1 k flags2] by blast
      ultimately show "purge_base q w0 w \<and> stage1_ok w0 M (rs @ [r]) (flags2, AList.update (media_mxc r) (thumbs_of w0 r) tm)"
        using w f2 ok tm by (auto simp: stage1_ok_def update_conv')
    qed
  qed
qed

lemma purge_stage1_spec:
  assumes "slash_free w0" and rows: "set records \<subseteq> set (tbl_media w0)"
  shows "hoare (purge_base q w0) (purge_stage1 records)
     (\<lambda>ft w. purge_base q w0 w \<and> stage1_ok w0 M records ft) (base_err q w0)"
proof -
  let ?J = "\<lambda>rs ft w. purge_base q w0 w \<and> stage1_ok w0 M rs ft"
  have "hoare (?J [] ([], [])) (purge_stage1 records) (?J records) (base_err q w0)"
    unfolding purge_stage1_def
  proof (rule hoare_fold_prefix [where J = ?J], rule hoare_pure)
    fix rs1 r rs2 and ft :: "flagMap \<times> thumbsMap"
    assume "records = rs1 @ r # rs2" and ok: "stage1_ok w0 M rs1 ft"
    then have "set (rs1 @ [r]) \<subseteq> set (tbl_media w0)" using rows by auto
    with ok show "hoare (purge_base q w0) (case ft of (flags, thumbsMap) \<Rightarrow>
        bindE (doFlagging (DatastoreId r) (Location r) flags) (\<lambda>flags.
        bindE (thumbnails_GetForMedia (m_Origin r) (m_MediaId r)) (\<lambda>thumbs.
        bindE (foldE (\<lambda>t flags. doFlagging (DatastoreId t) (Location t) flags) thumbs flags) (\<lambda>flags.
        returnE (flags, AList.update (media_mxc r) thumbs thumbsMap))))) (?J (rs1 @ [r])) (base_err q w0)"
      by (cases ft) (auto intro!: stage1_step assms(1))
  qed
  moreover have "stage1_ok w0 M [] ([], [])" by (simp add: stage1_ok_def flags_ok_def)
  ultimately show ?thesis by simp
qed

lemma markBeingPurged_spec:
  assumes ok: "flags_ok w0 M flags" and fl: "flagged flags k" and d: "slash \<notin> set (fst k)"
    and mxc: "mxc \<in> mxcs_at w0 k" "mxc \<in> M"
  shows "\<exists>flags'. markBeingPurged (locationId (fst k) (snd k)) mxc flags = returnE flags' \<and> flags_ok w0 M flags' \<and>
     dom (map_of flags') = dom (map_of flags) \<and> marked flags' k mxc \<and> (\<forall>k' x. marked flags k' x \<longrightarrow> marked flags' k' x)"
proof -
  obtain m where m: "map_of flags (locationId (fst k) (snd k)) = Some m" using fl by (auto simp: flagged_def)
  then have "mxc \<in> dom (map_of m)" using flags_ok_at(1) [OF ok m d] mxc(1) by simp
  then obtain v where v: "map_of m mxc = Some v" by auto
  let ?f = "AList.update (locationId (fst k) (snd k)) (AList.update mxc True m) flags"
  show ?thesis
  proof (cases v)
    case True
    with m v ok show ?thesis by (auto simp: markBeingPurged_def marked_def)
  next
    case False
    have mono: "marked ?f k' x" if "marked flags k' x" for k' x
      using that m by (auto simp: marked_def update_conv')
    have "markBeingPurged (locationId (fst k) (snd k)) mxc flags = returnE ?f"
      using m v False by (simp add: markBeingPurged_def)
    moreover have "flags_ok w0 M ?f" by (rule flags_ok_mark [OF ok m v mxc(2)])
    moreover have "dom (map_of ?f) = dom (map_of flags)" using m by (auto simp: update_conv')
    moreover have "marked ?f k mxc" by (simp add: marked_def update_conv')
    ultimately show ?thesis using mono by blast
  qed
qed

lemma mark_thumbs_spec:
  assumes "flags_ok w0 M flags" and "\<And>t. t \<in> set ts \<Longrightarrow> flagged flags (loc_of t)"
    and "\<And>t. t \<in> set ts \<Longrightarrow> slash \<notin> set (DatastoreId t) \<and> t \<in> set (tbl_thumbnails w0) \<and> thumb_mxc t \<in> M"
  shows "\<exists>flags'. foldE (\<lambda>t flags. markBeingPurged (locationId (DatastoreId t) (Location t)) (thumb_mxc t) flags) ts flags = returnE flags' \<and>
     flags_ok w0 M flags' \<and> dom (map_of flags') = dom (map_of flags) \<and>
     (\<forall>t \<in> set ts. marked flags' (loc_of t) (thumb_mxc t)) \<and> (\<forall>k' x. marked flags k' x \<longrightarrow> marked flags' k' x)"
  using assms
proof (induction ts arbitrary: flags)
  case Nil
  then show ?case by auto
next
  case (Cons t ts)
  have "thumb_mxc t \<in> mxcs_at w0 (loc_of t)" using Cons.prems(3) [of t] by (auto simp: mxcs_at_def)
  then obtain f1 where f1: "markBeingPurged (locationId (DatastoreId t) (Location t)) (thumb_mxc t) flags = returnE f1"
      "flags_ok w0 M f1" "dom (map_of f1) = dom (map_of flags)" "marked f1 (loc_of t) (thumb_mxc t)"
      "\<forall>k' x. marked flags k' x \<longrightarrow> marked f1 k' x"
    using markBeingPurged_spec [OF Cons.prems(1), of "loc_of t" "thumb_mxc t"] Cons.prems(2,3) [of t] by auto
  have "flagged f1 (loc_of t')" if "t' \<in> set ts" for t'
    using Cons.prems(2) [of t'] that f1(3) flagged_mono [of flags "loc_of t'" f1] by auto
  then obtain f2 where f2: "foldE (\<lambda>t flags. markBeingPurged (locationId (DatastoreId t) (Location t)) (thumb_mxc t) flags) ts f1 = returnE f2"
      "flags_ok w0 M f2" "dom (map_of f2) = dom (map_of f1)" "\<forall>t \<in> set ts. marked f2 (loc_of t) (thumb_mxc t)"
      "\<forall>k' x. marked f1 k' x \<longrightarrow> marked f2 k' x"
    using Cons.IH [OF f1(2)] Cons.prems(3) by force
  then show ?case using f1 by (intro exI [of _ f2]) auto
qed

lemma thumbs_of_mem:
  "t \<in> set (thumbs_of w0 r) \<longleftrightarrow> t \<in> set (tbl_thumbnails w0) \<and> thumb_key t = media_key r"
  by (auto simp: thumbs_of_def)

text \<open>The second stage never takes one of its error branches.\<close>

lemma purge_stage2_spec:
  assumes sf: "slash_free w0" and rows: "set records \<subseteq> set (tbl_media w0)" and M: "media_mxc ` set records \<subseteq> M"
    and s1: "stage1_ok w0 M records (flags, tm)"
  shows "\<exists>flags'. purge_stage2 tm records flags = returnE flags' \<and> flags_ok w0 M flags' \<and>
     dom (map_of flags') = dom (map_of flags) \<and>
     (\<forall>r \<in> set records. marked flags' (loc_of r) (media_mxc r) \<and> (\<forall>t \<in> set (thumbs_of w0 r). marked flags' (loc_of t) (thumb_mxc t))) \<and>
     (\<forall>k x. marked flags k x \<longrightarrow> marked flags' k x)"
  using rows M s1
proof (induction records arbitrary: flags)
  case Nil
  then show ?case by (auto simp: purge_stage2_def stage1_ok_def)
next
  case (Cons r records)
  let ?ts = "thumbs_of w0 r"
  have r: "r \<in> set (tbl_media w0)" "media_mxc r \<in> M" "slash \<notin> set (DatastoreId r)"
    using Cons.prems slash_freeD(1) [OF sf, of r] by auto
  have fl: "flags_ok w0 M flags" "flagged flags (loc_of r)" "\<And>t. t \<in> set ?ts \<Longrightarrow> flagged flags (loc_of t)"
    and tm: "map_of tm (media_mxc r) = Some ?ts"
    using Cons.prems(3) by (auto simp: stage1_ok_def)
  have "media_mxc r \<in> mxcs_at w0 (loc_of r)" using r by (auto simp: mxcs_at_def)
  then obtain f1 where f1: "markBeingPurged (locationId (DatastoreId r) (Location r)) (media_mxc r) flags = returnE f1"
      "flags_ok w0 M f1" "dom (map_of f1) = dom (map_of flags)" "marked f1 (loc_of r) (media_mxc r)"
      "\<forall>k x. marked flags k x \<longrightarrow> marked f1 k x"
    using markBeingPurged_spec [OF fl(1,2), of "media_mxc r"] r by auto
  have ts: "slash \<notin> set (DatastoreId t) \<and> t \<in> set (tbl_thumbnails w0) \<and> thumb_mxc t \<in> M" if "t \<in> set ?ts" for t
    using that r(2) slash_freeD(2) [OF sf, of t] by (auto simp: thumbs_of_mem)
  have "flagged f1 (loc_of t)" if "t \<in> set ?ts" for t
    using fl(3) [OF that] f1(3) flagged_mono [of flags "loc_of t" f1] by auto
  from mark_thumbs_spec [of w0 M f1 ?ts, OF f1(2) this ts] obtain f2 where
    f2: "foldE (\<lambda>t flags. markBeingPurged (locationId (DatastoreId t) (Location t)) (thumb_mxc t) flags) ?ts f1 = returnE f2"
      "flags_ok w0 M f2" "dom (map_of f2) = dom (map_of f1)" "\<forall>t \<in> set ?ts. marked f2 (loc_of t) (thumb_mxc t)"
      "\<forall>k x. marked f1 k x \<longrightarrow> marked f2 k x" by auto
  have fl2: "flagged f2 k = flagged flags k" for k
    using f1(3) f2(3) flagged_mono [of f2 k flags] flagged_mono [of flags k f2] by auto
  then have s2: "stage1_ok w0 M records (f2, tm)"
    using Cons.prems(3) f2(2) by (auto simp: stage1_ok_def)
  have sub: "set records \<subseteq> set (tbl_media w0)" "media_mxc ` set records \<subseteq> M" using Cons.prems(1,2) by auto
  from Cons.IH [OF sub s2] obtain f3 where f3: "purge_stage2 tm records f2 = returnE f3"
      "flags_ok w0 M f3" "dom (map_of f3) = dom (map_of f2)"
      "\<forall>r \<in> set records. marked f3 (loc_of r) (media_mxc r) \<and> (\<forall>t \<in> set (thumbs_of w0 r). marked f3 (loc_of t) (thumb_mxc t))"
      "\<forall>k x. marked f2 k x \<longrightarrow> marked f3 k x" by auto
  have "purge_stage2 tm (r # records) flags = returnE f3"
    using f1(1) f2(1) f3(1) tm by (simp add: purge_stage2_def)
  moreover have "marked f3 (loc_of r) (media_mxc r)" using f1(4) f2(5) f3(5) by blast
  moreover have "marked f3 (loc_of t) (thumb_mxc t)" if "t \<in> set ?ts" for t using that f2(4) f3(5) by blast
  moreover have "marked f3 k x" if "marked flags k x" for k x using that f1(5) f2(5) f3(5) by blast
  ultimately show ?case using f3 f2(3) f1(3) by (intro exI [of _ f3]) auto
qed

definition flags_final :: "world \<Rightarrow> string set \<Rightarrow> flagMap \<Rightarrow> bool" where
  "flags_final w M flags \<longleftrightarrow> flags_ok w M flags \<and>
     (\<forall>k mxc. slash \<notin> set (fst k) \<and> flagged flags k \<and> mxc \<in> mxcs_at w k \<and> mxc \<in> M \<longrightarrow> marked flags k mxc)"

lemma flags_finalI:
  assumes sf: "slash_free w0" and rows: "set records \<subseteq> set (tbl_media w0)"
    and uniq: "distinct (map media_key (tbl_media w0))"
    and ok: "flags_ok w0 (media_mxc ` set records) flags"
    and mk: "\<forall>r \<in> set records. marked flags (loc_of r) (media_mxc r) \<and> (\<forall>t \<in> set (thumbs_of w0 r). marked flags (loc_of t) (thumb_mxc t))"
  shows "flags_final w0 (media_mxc ` set records) flags"
proof -
  have "marked flags k mxc" if mxc: "mxc \<in> mxcs_at w0 k" and r: "r \<in> set records" "mxc = media_mxc r" for k mxc r
  proof -
    have o: "slash \<notin> set (m_Origin r)" "r \<in> set (tbl_media w0)" using r rows slash_freeD(1) [OF sf, of r] by auto
    from mxc consider m where "m \<in> set (tbl_media w0)" "loc_of m = k" "mxc = media_mxc m"
      | t where "t \<in> set (tbl_thumbnails w0)" "loc_of t = k" "mxc = thumb_mxc t"
      by (auto simp: mxcs_at_def)
    then show ?thesis
    proof cases
      case 1
      then have "media_key m = media_key r"
        using r(2) o slash_freeD(1) [OF sf, of m] by (simp add: MxcUri_inj)
      then have "m = r" using distinct_key_unique [OF uniq 1(1) o(2)] by simp
      then show ?thesis using 1 mk r by auto
    next
      case 2
      then have "thumb_key t = media_key r"
        using r(2) o slash_freeD(2) [OF sf, of t] by (simp add: MxcUri_inj)
      then have "t \<in> set (thumbs_of w0 r)" using 2 by (simp add: thumbs_of_mem)
      then show ?thesis using 2 mk r by auto
    qed
  qed
  with ok show ?thesis by (auto simp: flags_final_def)
qed

text \<open>A file is safe to remove when it is in use and every row that uses it is being purged.\<close>

definition file_safe :: "world \<Rightarrow> string set \<Rightarrow> string \<times> string \<Rightarrow> bool" where
  "file_safe w M k \<longleftrightarrow> mxcs_at w k \<noteq> {} \<and> mxcs_at w k \<subseteq> M"

lemma flags_decide:
  assumes "flags_final w0 M flags" "slash \<notin> set (fst k)" and m: "map_of flags (locationId (fst k) (snd k)) = Some m"
    and used: "mxcs_at w0 k \<noteq> {}"
  shows "list_all snd m \<longleftrightarrow> file_safe w0 M k"
proof -
  have ok: "flags_ok w0 M flags" using assms(1) by (simp add: flags_final_def)
  note at = flags_ok_at [OF ok m assms(2), unfolded prod.collapse]
  have "file_safe w0 M k" if "list_all snd m"
  proof -
    have "map_of m mxc = Some True" if "mxc \<in> dom (map_of m)" for mxc
    proof -
      from that obtain v where v: "map_of m mxc = Some v" by auto
      then have "(mxc, v) \<in> set m" by (rule map_of_SomeD)
      with \<open>list_all snd m\<close> v show ?thesis by (auto simp: list_all_iff)
    qed
    then show ?thesis using at(1,3) used by (auto simp: file_safe_def)
  qed
  moreover have "list_all snd m" if "file_safe w0 M k"
  proof -
    have "v" if "(mxc, v) \<in> set m" for mxc v
    proof -
      have v: "map_of m mxc = Some v" using that at(2) by (simp add: map_of_eq_Some_iff)
      then have "mxc \<in> mxcs_at w0 k" using at(1) by auto
      then have "marked flags k mxc"
        using assms m \<open>file_safe w0 M k\<close> by (cases k) (auto simp: flags_final_def flagged_def file_safe_def)
      then show "v" using m v by (auto simp: marked_def)
    qed
    then show ?thesis by (auto simp: list_all_iff)
  qed
  ultimately show ?thesis by blast
qed

section \<open>The stage that deletes\<close>

definition purge_st :: "bool \<Rightarrow> world \<Rightarrow> string set \<Rightarrow> (string \<times> string) set \<Rightarrow> DbThumbnail set \<Rightarrow> world \<Rightarrow> bool" where
  "purge_st q w0 M DM DT w \<longleftrightarrow>
     tbl_media w = filter (\<lambda>m. media_key m \<notin> DM) (tbl_media w0) \<and>
     tbl_thumbnails w = filter (\<lambda>t. t \<notin> DT) (tbl_thumbnails w0) \<and>
     tbl_attributes w = tbl_attributes w0 \<and> doms w = doms w0 \<and>
     (\<forall>k. objects w k = objects w0 k \<or> (objects w k = None \<and> file_safe w0 M k)) \<and>
     (\<forall>o' i. is_reserved o' i (tbl_reserved w0) \<longrightarrow> is_reserved o' i (tbl_reserved w)) \<and>
     (q \<longrightarrow> faults w = [])"

text \<open>
  What has been done so far: the files in the list \<open>dels\<close> are gone, of the locations in
  \<open>L\<close> those that are safe are gone, and the identifiers in \<open>R\<close> are reserved.
\<close>

definition purge_done :: "world \<Rightarrow> string set \<Rightarrow> (string \<times> string) set \<Rightarrow> string list \<Rightarrow> (string \<times> string) set \<Rightarrow> world \<Rightarrow> bool" where
  "purge_done w0 M L dels R w \<longleftrightarrow>
     (\<forall>d l. slash \<notin> set d \<and> locationId d l \<in> set dels \<longrightarrow> objects w (d, l) = None) \<and>
     (\<forall>k \<in> L. file_safe w0 M k \<longrightarrow> objects w k = None) \<and>
     (\<forall>(o', i) \<in> R. is_reserved o' i (tbl_reserved w))"

abbreviation purge_inv ::
  "bool \<Rightarrow> world \<Rightarrow> string set \<Rightarrow> (string \<times> string) set \<Rightarrow> DbThumbnail set \<Rightarrow> (string \<times> string) set \<Rightarrow> string list \<Rightarrow> (string \<times> string) set \<Rightarrow> world \<Rightarrow> bool" where
  "purge_inv q w0 M DM DT L dels R \<equiv> \<lambda>w. purge_st q w0 M DM DT w \<and> purge_done w0 M L dels R w"

definition purge_err :: "bool \<Rightarrow> world \<Rightarrow> string set \<Rightarrow> (string \<times> string) set \<Rightarrow> DbThumbnail set \<Rightarrow> goerr \<Rightarrow> world \<Rightarrow> bool" where
  "purge_err q w0 M KM KT e w \<longleftrightarrow> \<not> q \<and> \<not> is_panic e \<and> (\<exists>DM DT. DM \<subseteq> KM \<and> DT \<subseteq> KT \<and> purge_st False w0 M DM DT w)"

lemma purge_inv_script: "script_stable (purge_inv q w0 M DM DT L dels R)"
  by (auto simp: script_stable_def purge_st_def purge_done_def)

lemma purge_inv_err:
  "purge_inv q w0 M DM DT L dels R w \<Longrightarrow> \<not> q \<Longrightarrow> DM \<subseteq> KM \<Longrightarrow> DT \<subseteq> KT \<Longrightarrow> purge_err q w0 M KM KT (ErrOther e) w"
  by (auto simp: purge_err_def purge_st_def)

lemma purge_inv_quiet: "purge_inv q w0 M DM DT L dels R w \<Longrightarrow> q \<Longrightarrow> faults w = []"
  by (simp add: purge_st_def)

lemma purge_inv_remove:
  assumes "purge_inv q w0 M DM DT L dels R w" "file_safe w0 M (d, l)" "slash \<notin> set d"
  shows "purge_inv q w0 M DM DT (insert (d, l) L) (locationId d l # dels) R (w\<lparr>objects := (objects w)((d, l) := None)\<rparr>)"
  using assms by (auto simp: purge_st_def purge_done_def locationId_inj)

lemma tryRemoveDsFile_spec:
  assumes fin: "flags_final w0 M flags" and d: "slash \<notin> set d" and fl: "flagged flags (d, l)"
    and used: "mxcs_at w0 (d, l) \<noteq> {}"
    and known: "q \<Longrightarrow> known_datastore ctx d" and K: "DM \<subseteq> KM" "DT \<subseteq> KT"
  shows "hoare (purge_inv q w0 M DM DT L dels R) (tryRemoveDsFile ctx flags d l dels)
     (\<lambda>dels'. purge_inv q w0 M DM DT (insert (d, l) L) dels' R) (purge_err q w0 M KM KT)"
proof (cases "locationId d l \<in> set dels")
  case True
  then show ?thesis using d by (auto simp: tryRemoveDsFile_def purge_done_def intro!: hoare_return)
next
  case False
  from fl obtain m where m: "map_of flags (locationId d l) = Some m" by (auto simp: flagged_def)
  have dec: "list_all snd m \<longleftrightarrow> file_safe w0 M (d, l)" using flags_decide [OF fin, of "(d, l)" m] d m used by simp
  show ?thesis
  proof (cases "file_safe w0 M (d, l)")
    case unsafe: False
    then show ?thesis using False m dec by (auto simp: tryRemoveDsFile_def purge_done_def intro!: hoare_return)
  next
    case safe: True
    have rm: "hoare (purge_inv q w0 M DM DT L dels R) (RemoveWithDsId ctx d l)
      (\<lambda>_. purge_inv q w0 M DM DT (insert (d, l) L) (locationId d l # dels) R) (purge_err q w0 M KM KT)"
    proof (rule hoare_RemoveWithDsId [where q = q, OF purge_inv_script])
      show "purge_inv q w0 M DM DT L dels R (w\<lparr>s3clients := cs\<rparr>)" if "purge_inv q w0 M DM DT L dels R w" for w cs
        using that by (simp add: purge_st_def purge_done_def)
    next
      show "purge_err q w0 M KM KT (ErrOther e) w" if "purge_inv q w0 M DM DT L dels R w" "\<not> q" for w e
        using purge_inv_err [OF that K] .
    qed (use known purge_inv_quiet purge_inv_remove [OF _ safe d] in auto)
    show ?thesis using False m dec safe hoare_then [OF rm hoare_return]
      by (simp add: tryRemoveDsFile_def Let_def)
  qed
qed

lemma hoare_purge_exec:
  assumes "\<And>w. purge_inv q w0 M DM DT L dels R w \<Longrightarrow> purge_inv q w0 M DM' DT' L dels R' (f w)"
    and "DM \<subseteq> KM" "DT \<subseteq> KT"
  shows "hoare (purge_inv q w0 M DM DT L dels R) (dbExec f) (\<lambda>_. purge_inv q w0 M DM' DT' L dels R') (purge_err q w0 M KM KT)"
proof (rule hoare_dbExec [OF purge_inv_script])
  fix s e fs assume "purge_inv q w0 M DM DT L dels R s" "faults s \<noteq> []" "purge_inv q w0 M DM DT L dels R (s\<lparr>faults := fs\<rparr>)"
  then show "purge_err q w0 M KM KT (ErrOther e) (s\<lparr>faults := fs\<rparr>)"
    using purge_inv_quiet by (intro purge_inv_err [OF _ _ assms(2,3)]) blast+
qed (fact assms(1))

lemma purge_thumb_spec:
  assumes "flags_final w0 M flags" "slash \<notin> set (DatastoreId t)" "flagged flags (loc_of t)"
    and "mxcs_at w0 (loc_of t) \<noteq> {}" and "q \<Longrightarrow> known_datastore ctx (DatastoreId t)" and "DM \<subseteq> KM" "DT \<subseteq> KT"
  shows "hoare (purge_inv q w0 M DM DT L dels R) (purge_thumb ctx flags t dels)
     (\<lambda>dels'. purge_inv q w0 M DM (insert t DT) (insert (loc_of t) L) dels' R) (purge_err q w0 M KM KT)"
  unfolding purge_thumb_def
proof (rule hoare_bind [OF tryRemoveDsFile_spec [OF assms]])
  fix dels'
  have del: "hoare (purge_inv q w0 M DM DT (insert (loc_of t) L) dels' R) (thumbnails_Delete t)
     (\<lambda>_. purge_inv q w0 M DM (insert t DT) (insert (loc_of t) L) dels' R) (purge_err q w0 M KM KT)"
    unfolding thumbnails_Delete_def
    by (rule hoare_purge_exec [OF _ assms(6,7)]) (auto simp: purge_st_def purge_done_def intro!: filter_cong)
  show "hoare (purge_inv q w0 M DM DT (insert (loc_of t) L) dels' R) (thenE (thumbnails_Delete t) (returnE dels'))
     (\<lambda>dels'. purge_inv q w0 M DM (insert t DT) (insert (loc_of t) L) dels' R) (purge_err q w0 M KM KT)"
    by (rule hoare_then [OF del hoare_return])
qed

lemma purge_thumbs_spec:
  assumes fin: "flags_final w0 M flags" and DM: "DM \<subseteq> KM" and DT: "DT \<union> set ts \<subseteq> KT"
    and ts: "\<And>t. t \<in> set ts \<Longrightarrow> slash \<notin> set (DatastoreId t) \<and> flagged flags (loc_of t) \<and> mxcs_at w0 (loc_of t) \<noteq> {} \<and>
      (q \<longrightarrow> known_datastore ctx (DatastoreId t))"
  shows "hoare (purge_inv q w0 M DM DT L dels R) (foldE (purge_thumb ctx flags) ts dels)
     (\<lambda>dels'. purge_inv q w0 M DM (DT \<union> set ts) (L \<union> loc_of ` set ts) dels' R) (purge_err q w0 M KM KT)"
proof -
  let ?J = "\<lambda>ts (dels' :: string list). purge_inv q w0 M DM (DT \<union> set ts) (L \<union> loc_of ` set ts) dels' R"
  have "hoare (?J [] dels) (foldE (purge_thumb ctx flags) ts dels) (?J ts) (purge_err q w0 M KM KT)"
  proof (rule hoare_fold_prefix [where J = ?J])
    fix ts1 t ts2 dels' assume eq: "ts = ts1 @ t # ts2"
    then have "DT \<union> set ts1 \<subseteq> KT" using DT by auto
    from purge_thumb_spec [OF fin _ _ _ _ DM this, of t q ctx "L \<union> loc_of ` set ts1" dels' R] ts [of t] eq
    show "hoare (?J ts1 dels') (purge_thumb ctx flags t dels') (?J (ts1 @ [t])) (purge_err q w0 M KM KT)"
      by simp
  qed
  then show ?thesis by simp
qed

lemma purge_record_spec:
  assumes fin: "flags_final w0 M flags" and r: "slash \<notin> set (DatastoreId r)" "flagged flags (loc_of r)" "mxcs_at w0 (loc_of r) \<noteq> {}"
    and tm: "map_of tm (media_mxc r) = Some ts"
    and known: "q \<Longrightarrow> known_datastore ctx (DatastoreId r)"
    and ts: "\<And>t. t \<in> set ts \<Longrightarrow> slash \<notin> set (DatastoreId t) \<and> flagged flags (loc_of t) \<and> mxcs_at w0 (loc_of t) \<noteq> {} \<and>
      (q \<longrightarrow> known_datastore ctx (DatastoreId t))"
    and K: "insert (media_key r) DM \<subseteq> KM" "DT \<union> set ts \<subseteq> KT"
  shows "hoare (purge_inv q w0 M DM DT L dels R) (purge_record ctx flags tm r (dels, mxcs))
     (\<lambda>st w. purge_inv q w0 M (if m_Quarantined r then DM else insert (media_key r) DM) (DT \<union> set ts)
        (insert (loc_of r) L \<union> loc_of ` set ts) (fst st)
        (if IsServerOurs (doms w0) (m_Origin r) then insert (media_key r) R else R) w \<and> snd st = mxcs @ [media_mxc r])
     (purge_err q w0 M KM KT)"
proof -
  let ?L = "insert (loc_of r) L" and ?ours = "IsServerOurs (doms w0) (m_Origin r)"
  let ?R = "if ?ours then insert (media_key r) R else R"
  let ?DM = "if m_Quarantined r then DM else insert (media_key r) DM"
  have DM: "DM \<subseteq> KM" "?DM \<subseteq> KM" and DT: "DT \<subseteq> KT" using K by auto
  have ours: "hoare (purge_inv q w0 M DM DT ?L dels' R) (getsE (\<lambda>w. IsServerOurs (doms w) (m_Origin r)))
     (\<lambda>x w. purge_inv q w0 M DM DT ?L dels' R w \<and> x = ?ours) (purge_err q w0 M KM KT)" for dels'
    by (auto simp: hoare_def purge_st_def)
  have res: "hoare (purge_inv q w0 M DM DT ?L dels' R)
     (whenE ?ours (reserved_InsertNoConflict (m_Origin r) (m_MediaId r) ''purged / deleted''))
     (\<lambda>_. purge_inv q w0 M DM DT ?L dels' ?R) (purge_err q w0 M KM KT)" for dels'
  proof (cases ?ours)
    case True
    have "hoare (purge_inv q w0 M DM DT ?L dels' R) (reserved_InsertNoConflict (m_Origin r) (m_MediaId r) ''purged / deleted'')
      (\<lambda>_. purge_inv q w0 M DM DT ?L dels' (insert (media_key r) R)) (purge_err q w0 M KM KT)"
      unfolding reserved_InsertNoConflict_def
      by (rule hoare_purge_exec [OF _ DM(1) DT]) (auto simp: purge_st_def purge_done_def is_reserved_def)
    with True show ?thesis by (simp add: whenE_def)
  qed (auto simp: whenE_def intro: hoare_return)
  have del: "hoare (purge_inv q w0 M DM DT ?L dels' ?R) (whenE (\<not> m_Quarantined r) (media_Delete (m_Origin r) (m_MediaId r)))
     (\<lambda>_. purge_inv q w0 M ?DM DT ?L dels' ?R) (purge_err q w0 M KM KT)" for dels'
  proof (cases "m_Quarantined r")
    case False
    have "hoare (purge_inv q w0 M DM DT ?L dels' ?R) (media_Delete (m_Origin r) (m_MediaId r))
      (\<lambda>_. purge_inv q w0 M (insert (media_key r) DM) DT ?L dels' ?R) (purge_err q w0 M KM KT)"
      unfolding media_Delete_def
      by (rule hoare_purge_exec [OF _ DM(1) DT])
         (auto simp: purge_st_def purge_done_def Let_def intro!: filter_cong)
    with False show ?thesis by (simp add: whenE_def)
  qed (auto simp: whenE_def intro: hoare_return)
  note thumbs = purge_thumbs_spec [OF fin DM(2) K(2) ts]
  show ?thesis
    unfolding purge_record_def Let_def prod.case tm option.case
    by (rule hoare_bind [OF tryRemoveDsFile_spec [OF fin r known DM(1) DT]], assumption,
        rule hoare_bind_val [OF ours], rule hoare_then [OF res], rule hoare_then [OF del],
        rule hoare_bind [OF thumbs], assumption, rule hoare_return) simp
qed

section \<open>The whole purge\<close>

abbreviation purged_locs :: "world \<Rightarrow> DbMedia list \<Rightarrow> (string \<times> string) set" where
  "purged_locs w rs \<equiv> loc_of ` set rs \<union> (\<Union>r \<in> set rs. loc_of ` set (thumbs_of w r))"

abbreviation purged_thumbs :: "world \<Rightarrow> DbMedia list \<Rightarrow> DbThumbnail set" where
  "purged_thumbs w rs \<equiv> \<Union>r \<in> set rs. set (thumbs_of w r)"

lemma purge_base_st: "purge_base q w0 w \<Longrightarrow> purge_st q w0 M {} {} w"
  by (simp add: purge_base_def purge_st_def)

lemma base_err_purge_err: "base_err q w0 e w \<Longrightarrow> purge_err q w0 M KM KT e w"
  unfolding purge_err_def using purge_base_st [of False w0 w M] by blast

lemma purge_stage3_spec:
  assumes fin: "flags_final w0 (media_mxc ` set rs) flags" and sf: "slash_free w0" and rows: "set rs \<subseteq> set (tbl_media w0)"
    and s1: "\<And>r. r \<in> set rs \<Longrightarrow> flagged flags (loc_of r) \<and> (\<forall>t \<in> set (thumbs_of w0 r). flagged flags (loc_of t)) \<and>
              map_of tm (media_mxc r) = Some (thumbs_of w0 r)"
    and known: "\<And>k. q \<Longrightarrow> k \<in> purged_locs w0 rs \<Longrightarrow> known_datastore ctx (fst k)"
  shows "hoare (purge_base q w0) (foldE (purge_record ctx flags tm) rs ([], []))
     (\<lambda>(dels, mxcs) w. purge_inv q w0 (media_mxc ` set rs) (media_key ` {r \<in> set rs. \<not> m_Quarantined r}) (purged_thumbs w0 rs)
        (purged_locs w0 rs) dels (media_key ` {r \<in> set rs. IsServerOurs (doms w0) (m_Origin r)}) w \<and> mxcs = map media_mxc rs)
     (purge_err q w0 (media_mxc ` set rs) (media_key ` set rs) (purged_thumbs w0 rs))"
proof -
  let ?M = "media_mxc ` set rs" and ?KM = "media_key ` set rs" and ?KT = "purged_thumbs w0 rs"
  let ?DM = "\<lambda>xs. media_key ` {r \<in> set xs. \<not> m_Quarantined r}"
  let ?R = "\<lambda>xs. media_key ` {r \<in> set xs. IsServerOurs (doms w0) (m_Origin r)}"
  let ?J = "\<lambda>xs (st :: string list \<times> string list) w.
    purge_inv q w0 ?M (?DM xs) (purged_thumbs w0 xs) (purged_locs w0 xs) (fst st) (?R xs) w \<and> snd st = map media_mxc xs"
  have "hoare (?J [] ([], [])) (foldE (purge_record ctx flags tm) rs ([], [])) (?J rs) (purge_err q w0 ?M ?KM ?KT)"
  proof (rule hoare_fold_prefix [where J = ?J], rule hoare_pure)
    fix xs1 r xs2 and st :: "string list \<times> string list"
    assume eq: "rs = xs1 @ r # xs2" and mx: "snd st = map media_mxc xs1"
    have r: "r \<in> set rs" "slash \<notin> set (DatastoreId r)" "flagged flags (loc_of r)"
      and tm: "map_of tm (media_mxc r) = Some (thumbs_of w0 r)" and rw: "r \<in> set (tbl_media w0)"
      using eq s1 [of r] rows slash_freeD(1) [OF sf, of r] by auto
    then have ru: "mxcs_at w0 (loc_of r) \<noteq> {}" by (auto simp: mxcs_at_def)
    have kr: "q \<Longrightarrow> known_datastore ctx (DatastoreId r)" using known [of "loc_of r"] r by auto
    have ts: "slash \<notin> set (DatastoreId t) \<and> flagged flags (loc_of t) \<and> mxcs_at w0 (loc_of t) \<noteq> {} \<and>
        (q \<longrightarrow> known_datastore ctx (DatastoreId t))" if "t \<in> set (thumbs_of w0 r)" for t
    proof -
      have "loc_of t \<in> purged_locs w0 rs" using that r(1) by blast
      moreover have "mxcs_at w0 (loc_of t) \<noteq> {}" using that by (auto simp: mxcs_at_def thumbs_of_mem)
      ultimately show ?thesis
        using that r(1) s1 [of r] slash_freeD(2) [OF sf, of t] known [of "loc_of t"] by (simp add: thumbs_of_mem)
    qed
    have K: "insert (media_key r) (?DM xs1) \<subseteq> ?KM" "purged_thumbs w0 xs1 \<union> set (thumbs_of w0 r) \<subseteq> ?KT"
      using eq by auto
    have m2: "map media_mxc (xs1 @ [r]) = snd st @ [media_mxc r]" using mx by simp
    note step = purge_record_spec [OF fin r(2,3) ru tm kr ts K, of "purged_locs w0 xs1" "fst st" "?R xs1" "snd st", unfolded prod.collapse]
    have DM: "?DM (xs1 @ [r]) = (if m_Quarantined r then ?DM xs1 else insert (media_key r) (?DM xs1))" by auto
    have R: "?R (xs1 @ [r]) = (if IsServerOurs (doms w0) (m_Origin r) then insert (media_key r) (?R xs1) else ?R xs1)" by auto
    have T: "purged_thumbs w0 (xs1 @ [r]) = purged_thumbs w0 xs1 \<union> set (thumbs_of w0 r)" by auto
    have L: "purged_locs w0 (xs1 @ [r]) = insert (loc_of r) (purged_locs w0 xs1) \<union> loc_of ` set (thumbs_of w0 r)" by auto
    show "hoare (purge_inv q w0 ?M (?DM xs1) (purged_thumbs w0 xs1) (purged_locs w0 xs1) (fst st) (?R xs1))
       (purge_record ctx flags tm r st) (?J (xs1 @ [r])) (purge_err q w0 ?M ?KM ?KT)"
      unfolding DM R T L m2 by (rule step)
  qed
  then show ?thesis
    by (rule hoare_weaken) (auto simp: purge_base_st purge_done_def)
qed

text \<open>The specification that the properties of the purge rest on.\<close>

lemma doPurge_spec:
  assumes sf: "slash_free w0" and uniq: "distinct (map media_key (tbl_media w0))"
    and rows: "set records \<subseteq> set (tbl_media w0)"
    and known: "\<And>k. q \<Longrightarrow> k \<in> purged_locs w0 records \<Longrightarrow> known_datastore ctx (fst k)"
    and rs: "rs = filter (purgeable (tbl_attributes w0) config) records"
  shows "hoare (purge_base q w0) (doPurge ctx records config)
     (\<lambda>mxcs w. (\<exists>dels. purge_inv q w0 (media_mxc ` set rs) (media_key ` {r \<in> set rs. \<not> m_Quarantined r}) (purged_thumbs w0 rs)
        (purged_locs w0 rs) dels (media_key ` {r \<in> set rs. IsServerOurs (doms w0) (m_Origin r)}) w) \<and> mxcs = map media_mxc rs)
     (purge_err q w0 (media_mxc ` set rs) (media_key ` set rs) (purged_thumbs w0 rs))"
proof -
  let ?M = "media_mxc ` set rs"
  let ?E = "purge_err q w0 ?M (media_key ` set rs) (purged_thumbs w0 rs)"
  have rs_rows: "set rs \<subseteq> set (tbl_media w0)" and rs_sub: "set rs \<subseteq> set records" using rows rs by auto
  have filt: "hoare (purge_base q w0) (purge_filter config records) (\<lambda>x w. purge_base q w0 w \<and> x = rs) ?E"
    by (rule hoare_weaken [OF purge_filter_spec]) (auto simp: rs intro: base_err_purge_err)
  have st1: "hoare (purge_base q w0) (purge_stage1 rs) (\<lambda>ft w. purge_base q w0 w \<and> stage1_ok w0 ?M rs ft) ?E"
    by (rule hoare_weaken [OF purge_stage1_spec [OF sf rs_rows]]) (auto intro: base_err_purge_err)
  have rest: "hoare (purge_base q w0) (case ft of (flags, thumbsMap) \<Rightarrow>
      bindE (purge_stage2 thumbsMap rs flags) (\<lambda>flags.
      bindE (foldE (purge_record ctx flags thumbsMap) rs ([], [])) (\<lambda>(_, removedMxcs). returnE removedMxcs)))
     (\<lambda>mxcs w. (\<exists>dels. purge_inv q w0 ?M (media_key ` {r \<in> set rs. \<not> m_Quarantined r}) (purged_thumbs w0 rs)
        (purged_locs w0 rs) dels (media_key ` {r \<in> set rs. IsServerOurs (doms w0) (m_Origin r)}) w) \<and> mxcs = map media_mxc rs) ?E"
    if s1: "stage1_ok w0 ?M rs ft" for ft
  proof -
    obtain flags tm where ft: "ft = (flags, tm)" by (cases ft)
    from purge_stage2_spec [OF sf rs_rows order_refl s1 [unfolded ft]] obtain flags' where
      f: "purge_stage2 tm rs flags = returnE flags'" "flags_ok w0 ?M flags'" "dom (map_of flags') = dom (map_of flags)"
         "\<forall>r \<in> set rs. marked flags' (loc_of r) (media_mxc r) \<and> (\<forall>t \<in> set (thumbs_of w0 r). marked flags' (loc_of t) (thumb_mxc t))"
      by blast
    have fin: "flags_final w0 ?M flags'" by (rule flags_finalI [OF sf rs_rows uniq f(2,4)])
    have "flagged flags' k" if "flagged flags k" for k using flagged_mono [OF that] f(3) by auto
    then have fl: "flagged flags' (loc_of r) \<and> (\<forall>t \<in> set (thumbs_of w0 r). flagged flags' (loc_of t)) \<and>
        map_of tm (media_mxc r) = Some (thumbs_of w0 r)" if "r \<in> set rs" for r
      using that s1 ft by (auto simp: stage1_ok_def)
    have kn: "known_datastore ctx (fst k)" if "q" "k \<in> purged_locs w0 rs" for k
      using known [OF that(1), of k] that(2) rs_sub by blast
    note st3 = purge_stage3_spec [OF fin sf rs_rows fl kn]
    show ?thesis unfolding ft prod.case f(1) bindE_return
      by (rule hoare_bind [OF st3]) (auto split: prod.split intro!: hoare_return)
  qed
  show ?thesis unfolding doPurge_def
    by (rule hoare_bind_val [OF filt], rule hoare_bind [OF st1], rule hoare_pure, rule rest)
qed

section \<open>Properties of the purge\<close>

text \<open>
  The file at \<open>k\<close> is used by a record of \<open>rs\<close> or one of its thumbnails, and every row that
  uses it belongs to a record of \<open>rs\<close>.
\<close>

definition only_used_by :: "world \<Rightarrow> DbMedia list \<Rightarrow> string \<times> string \<Rightarrow> bool" where
  "only_used_by w rs k \<longleftrightarrow>
     k \<in> purged_locs w rs \<and>
     (\<forall>m \<in> set (tbl_media w). loc_of m = k \<longrightarrow> m \<in> set rs) \<and>
     (\<forall>t \<in> set (tbl_thumbnails w). loc_of t = k \<longrightarrow> thumb_key t \<in> media_key ` set rs)"

lemma file_safe_only_used:
  assumes sf: "slash_free w" and uniq: "distinct (map media_key (tbl_media w))" and rows: "set rs \<subseteq> set (tbl_media w)"
  shows "file_safe w (media_mxc ` set rs) k \<longleftrightarrow> only_used_by w rs k"
proof -
  have m: "m \<in> set rs \<longleftrightarrow> media_mxc m \<in> media_mxc ` set rs" if m: "m \<in> set (tbl_media w)" for m
  proof
    assume "media_mxc m \<in> media_mxc ` set rs"
    then obtain r where r: "r \<in> set rs" "media_mxc m = media_mxc r" by blast
    then have "media_key m = media_key r"
      using m rows slash_freeD(1) [OF sf, of m] slash_freeD(1) [OF sf, of r] by (auto simp: MxcUri_inj)
    then show "m \<in> set rs" using distinct_key_unique [OF uniq m, of r] r(1) rows by auto
  qed blast
  have t: "thumb_key t \<in> media_key ` set rs \<longleftrightarrow> thumb_mxc t \<in> media_mxc ` set rs" if t: "t \<in> set (tbl_thumbnails w)" for t
  proof -
    have "thumb_mxc t = media_mxc r \<longleftrightarrow> thumb_key t = media_key r" if "r \<in> set rs" for r
      using that t rows slash_freeD(2) [OF sf, of t] slash_freeD(1) [OF sf, of r]
      by (auto simp: MxcUri_inj)
    then show ?thesis by (auto simp: image_iff)
  qed
  have used: "k \<in> purged_locs w rs \<longleftrightarrow> mxcs_at w k \<noteq> {}"
    if "\<And>m. m \<in> set (tbl_media w) \<Longrightarrow> loc_of m = k \<Longrightarrow> m \<in> set rs"
      "\<And>t. t \<in> set (tbl_thumbnails w) \<Longrightarrow> loc_of t = k \<Longrightarrow> thumb_key t \<in> media_key ` set rs"
  proof
    assume "k \<in> purged_locs w rs"
    then consider r where "r \<in> set rs" "loc_of r = k"
      | r t where "r \<in> set rs" "t \<in> set (thumbs_of w r)" "loc_of t = k" by auto
    then show "mxcs_at w k \<noteq> {}"
    proof cases
      case 1
      then have "media_mxc r \<in> mxcs_at w k" using rows by (auto simp: mxcs_at_def)
      then show ?thesis by blast
    next
      case 2
      then have "t \<in> {t \<in> set (tbl_thumbnails w). loc_of t = k}" by (simp add: thumbs_of_mem)
      then have "thumb_mxc t \<in> mxcs_at w k" unfolding mxcs_at_def by blast
      then show ?thesis by blast
    qed
  next
    assume "mxcs_at w k \<noteq> {}"
    then consider m where "m \<in> set (tbl_media w)" "loc_of m = k"
      | t where "t \<in> set (tbl_thumbnails w)" "loc_of t = k" by (auto simp: mxcs_at_def)
    then show "k \<in> purged_locs w rs"
    proof cases
      case 1
      then show ?thesis using that(1) by blast
    next
      case 2
      then have "thumb_key t \<in> media_key ` set rs" by (rule that(2))
      then obtain r where "r \<in> set rs" "thumb_key t = media_key r" by blast
      then have "t \<in> set (thumbs_of w r)" using 2 by (simp add: thumbs_of_mem)
      then show ?thesis using 2 \<open>r \<in> set rs\<close> by blast
    qed
  qed
  have "mxcs_at w k \<subseteq> media_mxc ` set rs \<longleftrightarrow>
     (\<forall>m \<in> set (tbl_media w). loc_of m = k \<longrightarrow> m \<in> set rs) \<and>
     (\<forall>t \<in> set (tbl_thumbnails w). loc_of t = k \<longrightarrow> thumb_key t \<in> media_key ` set rs)"
    unfolding mxcs_at_def using m t by blast
  then show ?thesis unfolding file_safe_def only_used_by_def using used by blast
qed

lemma media_inv_unique: "media_inv w \<Longrightarrow> distinct (map media_key (tbl_media w))"
  by (simp add: media_inv_def)

text \<open>
  On every path: removed files had only purged users, and rows of other media stay.
\<close>

lemma doPurge_any:
  assumes "media_inv w" "slash_free w" "set records \<subseteq> set (tbl_media w)"
    and rs: "rs = filter (purgeable (tbl_attributes w) config) records"
    and run: "doPurge ctx records config w = (res, w')"
  shows "(\<forall>k. objects w' k = objects w k \<or> (objects w' k = None \<and> only_used_by w rs k)) \<and>
     (\<forall>m \<in> set (tbl_media w). m \<notin> set rs \<longrightarrow> m \<in> set (tbl_media w')) \<and>
     (\<forall>t \<in> set (tbl_thumbnails w). thumb_key t \<notin> media_key ` set rs \<longrightarrow> t \<in> set (tbl_thumbnails w')) \<and>
     set (tbl_media w') \<subseteq> set (tbl_media w) \<and> set (tbl_thumbnails w') \<subseteq> set (tbl_thumbnails w)"
proof -
  have uniq: "distinct (map media_key (tbl_media w))" using assms(1) by (rule media_inv_unique)
  have rows: "set rs \<subseteq> set (tbl_media w)" using assms(3) rs by auto
  note spec = doPurge_spec [OF assms(2) uniq assms(3) _ rs, where q = False]
  have "\<exists>DM DT. DM \<subseteq> media_key ` set rs \<and> DT \<subseteq> purged_thumbs w rs \<and> purge_st False w (media_mxc ` set rs) DM DT w'"
  proof (cases res)
    case (Inl e)
    from hoareD_Inl [OF spec purge_base_refl run [unfolded Inl]] show ?thesis by (simp add: purge_err_def)
  next
    case (Inr x)
    from hoareD_Inr [OF spec purge_base_refl run [unfolded Inr]] have
      "purge_st False w (media_mxc ` set rs) (media_key ` {r \<in> set rs. \<not> m_Quarantined r}) (purged_thumbs w rs) w'"
      by simp
    moreover have "media_key ` {r \<in> set rs. \<not> m_Quarantined r} \<subseteq> media_key ` set rs" by auto
    ultimately show ?thesis by blast
  qed
  then obtain DM DT where D: "DM \<subseteq> media_key ` set rs" "DT \<subseteq> purged_thumbs w rs" and
    st: "purge_st False w (media_mxc ` set rs) DM DT w'" by blast
  have "m \<in> set rs" if "m \<in> set (tbl_media w)" "media_key m \<in> DM" for m
  proof -
    from that D obtain r where "r \<in> set rs" "media_key m = media_key r" by blast
    with distinct_key_unique [OF uniq that(1), of r] rows show ?thesis by auto
  qed
  then have med: "m \<in> set (tbl_media w')" if "m \<in> set (tbl_media w)" "m \<notin> set rs" for m
    using st that by (auto simp: purge_st_def)
  have thumb: "t \<in> set (tbl_thumbnails w')" if "t \<in> set (tbl_thumbnails w)" "thumb_key t \<notin> media_key ` set rs" for t
  proof -
    have "t \<notin> DT" using that D(2) by (auto simp: thumbs_of_mem simp del: prod.inject)
    then show ?thesis using st that by (simp add: purge_st_def)
  qed
  have obj: "objects w' k = objects w k \<or> (objects w' k = None \<and> only_used_by w rs k)" for k
    using st file_safe_only_used [OF assms(2) uniq rows, of k] unfolding purge_st_def by blast
  have "set (tbl_media w') \<subseteq> set (tbl_media w)" "set (tbl_thumbnails w') \<subseteq> set (tbl_thumbnails w)"
    using st by (auto simp: purge_st_def)
  with med thumb obj show ?thesis by blast
qed

lemma doPurge_outsider:
  assumes "media_inv w" "slash_free w" "set records \<subseteq> set (tbl_media w)"
    and "doPurge ctx records config w = (res, w')"
    and "m \<in> set (tbl_media w)" "m \<notin> set records \<or> \<not> purgeable (tbl_attributes w) config m"
  shows "m \<in> set (tbl_media w') \<and> objects w' (loc_of m) = objects w (loc_of m) \<and>
     (\<forall>t \<in> set (tbl_thumbnails w). thumb_key t = media_key m \<longrightarrow>
        t \<in> set (tbl_thumbnails w') \<and> objects w' (loc_of t) = objects w (loc_of t))"
proof -
  define rs where "rs = filter (purgeable (tbl_attributes w) config) records"
  have m: "m \<notin> set rs" using assms(6) by (auto simp: rs_def)
  have key: "media_key m \<notin> media_key ` set rs"
  proof
    assume "media_key m \<in> media_key ` set rs"
    then obtain r where r: "r \<in> set rs" "media_key m = media_key r" by blast
    then have "r \<in> set (tbl_media w)" using assms(3) by (auto simp: rs_def)
    from distinct_key_unique [OF media_inv_unique [OF assms(1)] assms(5) this r(2)] r m show False by simp
  qed
  note any = doPurge_any [OF assms(1-3) rs_def assms(4)]
  then have same: "objects w' k = objects w k" if "\<not> only_used_by w rs k" for k using that by blast
  have "objects w' (loc_of m) = objects w (loc_of m)"
    by (rule same) (use m assms(5) in \<open>auto simp: only_used_by_def\<close>)
  moreover have "objects w' (loc_of t) = objects w (loc_of t)"
    if "t \<in> set (tbl_thumbnails w)" "thumb_key t = media_key m" for t
  proof (rule same)
    have "thumb_key t \<notin> media_key ` set rs" using that(2) key by (simp only: not_False_eq_True)
    then show "\<not> only_used_by w rs (loc_of t)" unfolding only_used_by_def using that(1) by blast
  qed
  moreover have "t \<in> set (tbl_thumbnails w')" if "t \<in> set (tbl_thumbnails w)" "thumb_key t = media_key m" for t
    using any that key by (simp only: not_False_eq_True)
  ultimately show ?thesis using any m assms(5) by blast
qed

text \<open>
  C1: whatever happens during a purge (a failing statement, a failing datastore, an error
  half-way), a stored file is removed only if every media and thumbnail row that uses it
  belongs to a record being purged, and no row of any other media is deleted.  In
  particular pinned media, and with \<open>IncludeQuarantined\<close> unset quarantined media, keep
  their rows and their files (\<open>pinned_survives_purge\<close>), and so does media that shares its file
  with a quarantined record being purged (\<open>shared_file_survives_purge\<close>).  This is what the code
  does; \<^verbatim>\<open>docs/admin.md\<close> says otherwise in both respects: that a pinned purpose prevents media
  from being quarantined \<open>but not purged\<close> (line 11), and that the file of a quarantined record is
  deleted even if it is duplicated in multiple records (line 29).
\<close>

theorem doPurge_no_collateral:
  assumes "media_inv w" "slash_free w" "set records \<subseteq> set (tbl_media w)"
    and "doPurge ctx records config w = (res, w')"
    and "m \<in> set (tbl_media w)" "m \<notin> set records \<or> \<not> purgeable (tbl_attributes w) config m"
  shows "m \<in> set (tbl_media w') \<and> objects w' (loc_of m) = objects w (loc_of m) \<and>
     (\<forall>t \<in> set (tbl_thumbnails w). thumb_key t = media_key m \<longrightarrow>
        t \<in> set (tbl_thumbnails w') \<and> objects w' (loc_of t) = objects w (loc_of t))"
  using assms by (rule doPurge_outsider)

lemma pinned_survives_purge:
  assumes "media_inv w" "slash_free w" "set records \<subseteq> set (tbl_media w)"
    and "doPurge ctx records config w = (res, w')" and "m \<in> set (tbl_media w)"
    and "find_attrs (m_Origin m) (m_MediaId m) (tbl_attributes w) = Some a" "a_Purpose a = PurposePinned"
  shows "m \<in> set (tbl_media w') \<and> objects w' (loc_of m) = objects w (loc_of m)"
  using doPurge_outsider [OF assms(1-5)] assms(6,7) by (simp add: purgeable_def)

lemma shared_file_survives_purge:
  assumes "media_inv w" "slash_free w" "set records \<subseteq> set (tbl_media w)"
    and "doPurge ctx records config w = (res, w')" and "m \<in> set (tbl_media w)" "m \<notin> set records"
    and "r \<in> set records" "m_Quarantined r" "loc_of r = loc_of m"
  shows "objects w' (loc_of r) = objects w (loc_of r)"
  using doPurge_outsider [OF assms(1-5)] assms(6,9) by simp

lemma demo_slash_free [simp]: "slash_free demo_world"
  by (simp add: slash_free_def demo_simps)

lemma demo_purge_run:
  "doPurge demo_ctx [demo_m1] \<lparr>IncludeQuarantined = True\<rparr> demo_world = (Inr [''mxc://a.org/one''], snd (doPurge demo_ctx [demo_m1] \<lparr>IncludeQuarantined = True\<rparr> demo_world))"
  by (rule prod_eqI) (code_simp, simp)

theorem doPurge_no_collateral_witness:
  "demo_m2 \<in> set (tbl_media (snd (doPurge demo_ctx [demo_m1] \<lparr>IncludeQuarantined = True\<rparr> demo_world))) \<and>
   objects (snd (doPurge demo_ctx [demo_m1] \<lparr>IncludeQuarantined = True\<rparr> demo_world)) (''fs'', ''l1'') = Some ''abc''"
  using doPurge_no_collateral [OF demo_media_inv demo_slash_free _ demo_purge_run, of demo_m2]
  by (simp add: demo_simps)

lemma doPurge_effect:
  assumes "media_inv w" "slash_free w" "set records \<subseteq> set (tbl_media w)"
    and run: "doPurge ctx records config w = (Inr mxcs, w')"
    and rs: "rs = filter (purgeable (tbl_attributes w) config) records"
  shows "mxcs = map media_mxc rs \<and>
     tbl_media w' = filter (\<lambda>m. m_Quarantined m \<or> m \<notin> set rs) (tbl_media w) \<and>
     tbl_thumbnails w' = filter (\<lambda>t. thumb_key t \<notin> media_key ` set rs) (tbl_thumbnails w) \<and>
     (\<forall>r \<in> set rs. IsServerOurs (doms w) (m_Origin r) \<longrightarrow> is_reserved (m_Origin r) (m_MediaId r) (tbl_reserved w')) \<and>
     (\<forall>k. objects w' k = (if only_used_by w rs k then None else objects w k))"
proof -
  have uniq: "distinct (map media_key (tbl_media w))" using assms(1) by (rule media_inv_unique)
  have rows: "set rs \<subseteq> set (tbl_media w)" using assms(3) rs by auto
  from hoareD_Inr [OF doPurge_spec [OF assms(2) uniq assms(3) _ rs, where q = False] purge_base_refl run]
  obtain dels where st: "purge_st False w (media_mxc ` set rs) (media_key ` {r \<in> set rs. \<not> m_Quarantined r}) (purged_thumbs w rs) w'"
    and dn: "purge_done w (media_mxc ` set rs) (purged_locs w rs) dels (media_key ` {r \<in> set rs. IsServerOurs (doms w) (m_Origin r)}) w'"
    and mx: "mxcs = map media_mxc rs" by blast
  have "media_key m \<notin> media_key ` {r \<in> set rs. \<not> m_Quarantined r} \<longleftrightarrow> m_Quarantined m \<or> m \<notin> set rs"
    if m: "m \<in> set (tbl_media w)" for m
  proof
    show "m_Quarantined m \<or> m \<notin> set rs" if "media_key m \<notin> media_key ` {r \<in> set rs. \<not> m_Quarantined r}"
      using that by blast
    show "media_key m \<notin> media_key ` {r \<in> set rs. \<not> m_Quarantined r}" if keep: "m_Quarantined m \<or> m \<notin> set rs"
    proof
      assume "media_key m \<in> media_key ` {r \<in> set rs. \<not> m_Quarantined r}"
      then obtain r where r: "r \<in> set rs" "\<not> m_Quarantined r" "media_key m = media_key r" by blast
      then show False using distinct_key_unique [OF uniq m _ r(3)] rows keep by auto
    qed
  qed
  then have "tbl_media w' = filter (\<lambda>m. m_Quarantined m \<or> m \<notin> set rs) (tbl_media w)"
    using st by (auto simp: purge_st_def intro!: filter_cong)
  moreover have "tbl_thumbnails w' = filter (\<lambda>t. thumb_key t \<notin> media_key ` set rs) (tbl_thumbnails w)"
    using st by (auto simp: purge_st_def thumbs_of_mem intro!: filter_cong)
  moreover have "is_reserved (m_Origin r) (m_MediaId r) (tbl_reserved w')"
    if "r \<in> set rs" "IsServerOurs (doms w) (m_Origin r)" for r
    using dn that by (auto simp: purge_done_def)
  moreover have "objects w' k = (if only_used_by w rs k then None else objects w k)" for k
  proof -
    have "objects w' k = objects w k \<or> (objects w' k = None \<and> only_used_by w rs k)"
      using st file_safe_only_used [OF assms(2) uniq rows, of k] unfolding purge_st_def by blast
    moreover have "objects w' k = None" if "only_used_by w rs k"
      using that dn file_safe_only_used [OF assms(2) uniq rows, of k]
      by (auto simp: purge_done_def only_used_by_def)
    ultimately show ?thesis by auto
  qed
  ultimately show ?thesis using mx by blast
qed

text \<open>
  C2: a purge that reports success has done all of its work and nothing else: it returns
  the MXC URIs of the records it kept after its pre-filter, the media table has lost
  exactly those of them that are not quarantined, the thumbnail table exactly the
  thumbnails of all of them, the identifiers of local ones are reserved, and a file they
  or their thumbnails used is gone exactly when nothing else uses it.  The pre-filter drops
  pinned records, and a quarantined record is no exception to the rule on shared files, although
  \<^verbatim>\<open>docs/admin.md\<close> (lines 11 and 29) documents both differently.
\<close>

theorem doPurge_complete:
  assumes "media_inv w" "slash_free w" "set records \<subseteq> set (tbl_media w)"
    and run: "doPurge ctx records config w = (Inr mxcs, w')"
    and rs: "rs = filter (purgeable (tbl_attributes w) config) records"
  shows "mxcs = map media_mxc rs \<and>
     tbl_media w' = filter (\<lambda>m. m_Quarantined m \<or> m \<notin> set rs) (tbl_media w) \<and>
     tbl_thumbnails w' = filter (\<lambda>t. thumb_key t \<notin> media_key ` set rs) (tbl_thumbnails w) \<and>
     (\<forall>r \<in> set rs. IsServerOurs (doms w) (m_Origin r) \<longrightarrow> is_reserved (m_Origin r) (m_MediaId r) (tbl_reserved w')) \<and>
     (\<forall>k. objects w' k = (if only_used_by w rs k then None else objects w k))"
  using assms by (rule doPurge_effect)

theorem doPurge_complete_witness:
  "tbl_media (snd (doPurge demo_ctx [demo_m1] \<lparr>IncludeQuarantined = True\<rparr> demo_world)) = [demo_m2, demo_m3]"
  using doPurge_complete [OF demo_media_inv demo_slash_free _ demo_purge_run refl]
  by (simp add: demo_simps purgeable_def find_attrs_def)

text \<open>Every media and thumbnail row has its file.\<close>

definition files_present :: "world \<Rightarrow> bool" where
  "files_present w \<longleftrightarrow>
     (\<forall>m \<in> set (tbl_media w). objects w (loc_of m) \<noteq> None) \<and>
     (\<forall>t \<in> set (tbl_thumbnails w). objects w (loc_of t) \<noteq> None)"

text \<open>
  C3: a completed purge leaves no dangling reference: if every row had its file before,
  then afterwards every thumbnail row and every media row has its file, except the
  quarantined rows that were purged, which are kept on purpose to remember the
  quarantine.  It holds because the code does not do what line 29 of \<^verbatim>\<open>docs/admin.md\<close> describes:
  deleting the file of a quarantined record although other records use it would leave those
  records without their file.
\<close>

theorem doPurge_no_dangling:
  assumes "media_inv w" "slash_free w" "set records \<subseteq> set (tbl_media w)" "files_present w"
    and run: "doPurge ctx records config w = (Inr mxcs, w')"
  shows "(\<forall>t \<in> set (tbl_thumbnails w'). objects w' (loc_of t) \<noteq> None) \<and>
     (\<forall>m \<in> set (tbl_media w'). objects w' (loc_of m) = None \<longrightarrow> m_Quarantined m \<and> m \<in> set records)"
proof -
  define rs where "rs = filter (purgeable (tbl_attributes w) config) records"
  note c = doPurge_effect [OF assms(1-3) run rs_def]
  have obj: "objects w' k = (if only_used_by w rs k then None else objects w k)" for k using c by blast
  have "objects w' (loc_of t) \<noteq> None" if "t \<in> set (tbl_thumbnails w')" for t
  proof -
    have t: "t \<in> set (tbl_thumbnails w)" "thumb_key t \<notin> media_key ` set rs"
      using c that by (auto simp del: prod.inject)
    then have "\<not> only_used_by w rs (loc_of t)" unfolding only_used_by_def by blast
    then show ?thesis using obj [of "loc_of t"] t(1) assms(4) by (simp add: files_present_def)
  qed
  moreover have "m_Quarantined m \<and> m \<in> set records" if "m \<in> set (tbl_media w')" "objects w' (loc_of m) = None" for m
  proof -
    have m: "m \<in> set (tbl_media w)" "m_Quarantined m \<or> m \<notin> set rs" using c that(1) by auto
    have "only_used_by w rs (loc_of m)"
      using obj [of "loc_of m"] that(2) m(1) assms(4) by (auto simp: files_present_def split: if_splits)
    then have "m \<in> set rs" using m(1) unfolding only_used_by_def by blast
    then show ?thesis using m(2) by (auto simp: rs_def)
  qed
  ultimately show ?thesis by blast
qed

theorem doPurge_no_dangling_witness:
  "objects (snd (doPurge demo_ctx [demo_m1] \<lparr>IncludeQuarantined = True\<rparr> demo_world)) (loc_of demo_m3) \<noteq> None \<and> demo_m3 \<in> set (tbl_media (snd (doPurge demo_ctx [demo_m1] \<lparr>IncludeQuarantined = True\<rparr> demo_world)))"
proof -
  have "demo_m3 \<in> set (tbl_media (snd (doPurge demo_ctx [demo_m1] \<lparr>IncludeQuarantined = True\<rparr> demo_world)))" by code_simp
  moreover have "files_present demo_world" by (simp add: files_present_def demo_simps)
  ultimately show ?thesis
    using doPurge_no_dangling [OF demo_media_inv demo_slash_free _ _ demo_purge_run]
    by (auto simp: demo_simps)
qed

text \<open>
  C4: the purge does not fail by itself: when no external call fails and the datastores of
  the records and their thumbnails are configured, it succeeds; none of its branches
  "logic error" is reachable.
\<close>

theorem doPurge_succeeds:
  assumes "media_inv w" "slash_free w" "set records \<subseteq> set (tbl_media w)" "faults w = []"
    and "\<forall>m \<in> set (tbl_media w). known_datastore ctx (DatastoreId m)"
    and "\<forall>t \<in> set (tbl_thumbnails w). known_datastore ctx (DatastoreId t)"
  shows "\<exists>mxcs w'. doPurge ctx records config w = (Inr mxcs, w')"
proof -
  have known: "known_datastore ctx (fst k)" if "k \<in> purged_locs w records" for k
    using that assms(3,5,6) by (auto simp: thumbs_of_mem)
  obtain res w' where run: "doPurge ctx records config w = (res, w')" by fastforce
  have "\<exists>mxcs. res = Inr mxcs"
  proof (cases res)
    case (Inl e)
    from hoareD_Inl [OF doPurge_spec [OF assms(2) media_inv_unique [OF assms(1)] assms(3) known refl, where q = True]
        purge_base_refl [OF assms(4)] run [unfolded Inl]]
    show ?thesis by (simp add: purge_err_def)
  qed simp
  with run show ?thesis by blast
qed

theorem doPurge_succeeds_witness:
  "\<exists>mxcs w'. doPurge demo_ctx [demo_m1, demo_m3] \<lparr>IncludeQuarantined = True\<rparr> demo_world = (Inr mxcs, w')"
  by (rule doPurge_succeeds) (simp_all add: known_datastore_def datastores_Get_def demo_simps)

section \<open>Who may purge what\<close>

lemma resolveMedia_rows:
  assumes "resolveMedia onlyHost toHandle w = (res, w')" and "set (qt_DbMedia toHandle) \<subseteq> set (tbl_media w)"
  shows "purge_base False w w' \<and> tbl_user_stats w' = tbl_user_stats w \<and> (\<forall>rs. res = Inr rs \<longrightarrow> set rs \<subseteq> set (tbl_media w))"
proof -
  let ?P = "\<lambda>w'. purge_base False w w' \<and> tbl_user_stats w' = tbl_user_stats w"
  let ?J = "\<lambda>rs w'. purge_base False w w' \<and> tbl_user_stats w' = tbl_user_stats w \<and> set rs \<subseteq> set (tbl_media w)"
  have st: "script_stable (?J rs)" for rs by (auto simp: script_stable_def purge_base_def)
  have get: "hoare (?J rs) (media_GetById o' i) (\<lambda>r w'. ?J (case r of None \<Rightarrow> rs | Some m \<Rightarrow> rs @ [m]) w') (\<lambda>_. ?P)" for rs o' i
    unfolding media_GetById_def
    by (rule hoare_dbQuery [OF st]) (auto simp: purge_base_def split: option.split dest!: find_SomeD)
  have step: "hoare (?J rs) (bindE (media_GetById o' i) (\<lambda>r. returnE (case r of None \<Rightarrow> rs | Some m \<Rightarrow> rs @ [m]))) ?J (\<lambda>_. ?P)" for rs o' i
    by (rule hoare_bind [OF get], rule hoare_return)
  have "hoare (?J (qt_DbMedia toHandle)) (resolveMedia onlyHost toHandle) ?J (\<lambda>_. ?P)"
    unfolding resolveMedia_def
  proof (rule hoare_bind [where R = ?J])
    show "hoare (?J (qt_DbMedia toHandle)) (case qt_Single toHandle of
         None \<Rightarrow> returnE (qt_DbMedia toHandle)
       | Some s \<Rightarrow>
           if onlyHost = [] \<or> qrec_Origin s = onlyHost then
             bindE (media_GetById (qrec_Origin s) (qrec_MediaId s)) (\<lambda>r.
               returnE (case r of None \<Rightarrow> qt_DbMedia toHandle | Some m \<Rightarrow> qt_DbMedia toHandle @ [m]))
           else returnE (qt_DbMedia toHandle)) ?J (\<lambda>_. ?P)"
      by (auto split: option.split intro!: hoare_return step)
  next
    fix rs
    show "hoare (?J rs) (foldE (resolve_mxc onlyHost) (qt_MxcUris toHandle) rs) ?J (\<lambda>_. ?P)"
    proof (rule hoare_fold [where J = ?J])
      fix mxc rs
      show "hoare (?J rs) (resolve_mxc onlyHost mxc rs) ?J (\<lambda>_. ?P)"
        by (cases "SplitMxc mxc") (auto simp: resolve_mxc_def Let_def intro!: hoare_return hoare_throw step)
    qed
  qed
  moreover have "?J (qt_DbMedia toHandle) w" using assms(2) by (simp add: purge_base_def)
  ultimately show ?thesis using assms(1)
    by (cases res) (auto dest: hoareD_Inr hoareD_Inl)
qed

lemma purge_base_views:
  assumes "purge_base False w w1" "tbl_user_stats w1 = tbl_user_stats w"
  shows "media_inv w1 = media_inv w" "slash_free w1 = slash_free w"
  using assms by (simp_all add: purge_base_def media_inv_def slash_free_def)

lemma PurgeMedia_canAffect:
  assumes "media_inv w" "slash_free w" "set (qt_DbMedia toHandle) \<subseteq> set (tbl_media w)"
    and run: "PurgeMedia ctx authContext toHandle w = (res, w')"
  shows "(\<forall>m \<in> set (tbl_media w). \<not> canAffect authContext m \<longrightarrow>
            m \<in> set (tbl_media w') \<and> objects w' (loc_of m) = objects w (loc_of m)) \<and>
     (\<forall>records w1. resolveMedia [] toHandle w = (Inr records, w1) \<and> list_ex (\<lambda>r. \<not> canAffect authContext r) records \<longrightarrow>
        res = Inl ErrWrongUser \<and> tbl_media w' = tbl_media w \<and> tbl_thumbnails w' = tbl_thumbnails w \<and> objects w' = objects w)"
proof -
  obtain rr w1 where r1: "resolveMedia [] toHandle w = (rr, w1)" by fastforce
  note base = resolveMedia_rows [OF r1 assms(3)]
  then have same: "tbl_media w1 = tbl_media w" "tbl_thumbnails w1 = tbl_thumbnails w" "objects w1 = objects w"
    by (auto simp: purge_base_def)
  show ?thesis
  proof (cases rr)
    case (Inl e)
    then have "w' = w1" using run r1 by (simp add: PurgeMedia_def io_simps)
    then show ?thesis using same r1 Inl by auto
  next
    case (Inr records)
    show ?thesis
    proof (cases "list_ex (\<lambda>r. \<not> canAffect authContext r) records")
      case True
      then have "w' = w1" "res = Inl ErrWrongUser" using run r1 Inr by (auto simp: PurgeMedia_def io_simps)
      then show ?thesis using same r1 Inr by auto
    next
      case False
      then have go: "doPurge ctx records \<lparr>IncludeQuarantined = True\<rparr> w1 = (res, w')"
        using run r1 Inr by (simp add: PurgeMedia_def io_simps)
      have inv: "media_inv w1" "slash_free w1" "set records \<subseteq> set (tbl_media w1)"
        using assms(1,2) base Inr purge_base_views [of w w1] same by auto
      have "m \<in> set (tbl_media w') \<and> objects w' (loc_of m) = objects w (loc_of m)"
        if m: "m \<in> set (tbl_media w)" "\<not> canAffect authContext m" for m
      proof -
        have "m \<notin> set records" using False m(2) by (auto simp: list_ex_iff)
        then show ?thesis using doPurge_outsider [OF inv go, of m] m(1) same by simp
      qed
      then show ?thesis using r1 Inr False by auto
    qed
  qed
qed

text \<open>The records outside an authority, said without the code's own test.\<close>

definition foreign_to :: "PurgeAuthContext \<Rightarrow> DbMedia \<Rightarrow> bool" where
  "foreign_to a m \<longleftrightarrow>
     UploaderUserId a \<noteq> '''' \<and> m_UserId m \<noteq> UploaderUserId a \<or>
     SourceOrigin a \<noteq> '''' \<and> m_Origin m \<noteq> SourceOrigin a"

lemma foreign_canAffect: "foreign_to a m \<longleftrightarrow> \<not> canAffect a m"
  by (auto simp: foreign_to_def canAffect_def)

text \<open>
  C5: a user or server that purges media through \<open>PurgeMedia\<close> cannot delete what it has no
  authority over: if one of the resolved records is not its own, the answer is
  \<open>ErrWrongUser\<close> and neither a row nor a file changes; and on every path a media row that
  the authority does not cover stays, with its file, also when it shares that file with a
  quarantined record of the caller, which line 29 of \<^verbatim>\<open>docs/admin.md\<close> would have deleted.
\<close>

theorem PurgeMedia_authorised:
  assumes "media_inv w" "slash_free w" "set (qt_DbMedia toHandle) \<subseteq> set (tbl_media w)"
    and "PurgeMedia ctx authContext toHandle w = (res, w')"
  shows "(\<forall>m \<in> set (tbl_media w). foreign_to authContext m \<longrightarrow>
            m \<in> set (tbl_media w') \<and> objects w' (loc_of m) = objects w (loc_of m)) \<and>
     (\<forall>records w1. resolveMedia [] toHandle w = (Inr records, w1) \<and> list_ex (foreign_to authContext) records \<longrightarrow>
        res = Inl ErrWrongUser \<and> tbl_media w' = tbl_media w \<and> tbl_thumbnails w' = tbl_thumbnails w \<and> objects w' = objects w)"
  using PurgeMedia_canAffect [OF assms] by (simp add: foreign_canAffect list_ex_iff)

theorem PurgeMedia_authorised_witness:
  "fst (PurgeMedia demo_ctx \<lparr>UploaderUserId = ''@v:a.org'', SourceOrigin = ''''\<rparr>
      \<lparr>qt_MxcUris = [''mxc://a.org/one''], qt_Single = None, qt_DbMedia = []\<rparr> demo_world) = Inl ErrWrongUser \<and>
   demo_m1 \<in> set (tbl_media (snd (PurgeMedia demo_ctx \<lparr>UploaderUserId = ''@v:a.org'', SourceOrigin = ''''\<rparr>
      \<lparr>qt_MxcUris = [''mxc://a.org/one''], qt_Single = None, qt_DbMedia = []\<rparr> demo_world)))"
proof -
  let ?a = "\<lparr>UploaderUserId = ''@v:a.org'', SourceOrigin = ''''\<rparr>"
  let ?t = "\<lparr>qt_MxcUris = [''mxc://a.org/one''], qt_Single = None, qt_DbMedia = []\<rparr>"
  have "fst (PurgeMedia demo_ctx ?a ?t demo_world) = Inl ErrWrongUser" by code_simp
  moreover have "foreign_to ?a demo_m1" by (simp add: foreign_to_def demo_simps)
  ultimately show ?thesis
    using PurgeMedia_authorised [OF demo_media_inv demo_slash_free _ prod.collapse [symmetric], where toHandle = ?t and ctx = demo_ctx and authContext = ?a] by simp
qed

text \<open>
  C6: expiring remote media never touches the repository's own: a media row of one of the
  configured domains, or one created at or after the cut-off, stays with its file,
  whatever other rows share that file and whatever fails on the way.
\<close>

theorem PurgeRemoteMediaBefore_keeps_local:
  assumes "media_inv w" "slash_free w" "domains_wf (doms w)"
    and run: "PurgeRemoteMediaBefore ctx beforeTs w = (res, w')"
    and m: "m \<in> set (tbl_media w)" "IsServerOurs (doms w) (m_Origin m) \<or> m_CreationTs m \<ge> beforeTs"
  shows "m \<in> set (tbl_media w') \<and> objects w' (loc_of m) = objects w (loc_of m)"
proof -
  let ?q = "\<lambda>w. filter (old_excluding (GetOurDomains (doms w)) beforeTs (tbl_media w)) (tbl_media w)"
  obtain rr w1 where r1: "media_GetOldExcluding (GetOurDomains (doms w)) beforeTs w = (rr, w1)" by fastforce
  then obtain fs where w1: "w1 = w\<lparr>faults := fs\<rparr>"
    unfolding media_GetOldExcluding_def media_scanRows_def by (auto dest: dbQuery_state)
  show ?thesis
  proof (cases rr)
    case (Inl e)
    then have "w' = w1" using run r1 by (simp add: PurgeRemoteMediaBefore_def io_simps)
    then show ?thesis using m(1) w1 by simp
  next
    case (Inr records)
    then have recs: "records = ?q w"
      using r1 unfolding media_GetOldExcluding_def media_scanRows_def by (auto dest!: ext_getsE_result)
    obtain res2 where go: "doPurge ctx records \<lparr>IncludeQuarantined = False\<rparr> w1 = (res2, w')"
      using run r1 Inr by (auto simp: PurgeRemoteMediaBefore_def io_simps split: prod.splits sum.splits)
    have inv: "media_inv w1" "slash_free w1" "set records \<subseteq> set (tbl_media w1)"
      using assms(1,2) w1 recs by (auto simp: media_inv_def slash_free_def)
    have "m \<notin> set records"
    proof
      assume "m \<in> set records"
      then have "old_excluding (GetOurDomains (doms w)) beforeTs (tbl_media w) m" using recs by simp
      from old_excluding_not_ours [OF this m(1) m(1) refl] m(2) show False
        using IsServerOurs_iff [OF assms(3)] by auto
    qed
    then show ?thesis using doPurge_outsider [OF inv go, of m] m(1) w1 by simp
  qed
qed

theorem PurgeRemoteMediaBefore_keeps_local_witness:
  "demo_m1 \<in> set (tbl_media (snd (PurgeRemoteMediaBefore demo_ctx 150 demo_world))) \<and>
   fst (PurgeRemoteMediaBefore demo_ctx 150 demo_world) = Inr 1"
proof -
  have "fst (PurgeRemoteMediaBefore demo_ctx 150 demo_world) = Inr 1" by code_simp
  then show ?thesis
    using PurgeRemoteMediaBefore_keeps_local [OF demo_media_inv demo_slash_free _ prod.collapse [symmetric], of demo_m1 150 demo_ctx]
    by (simp add: domains_wf_def IsServerOurs_def GetDomain_def demo_simps)
qed

end
