(* ===== verification/ThumbPurge.thy ===== *)
theory ThumbPurge
  imports Purge "HOL-Library.Multiset"
begin

text \<open>
  The expiry of old thumbnails (\<^verbatim>\<open>tasks/task_runner/purge_thumbnails.go\<close>).

  The Go interfaces \<open>thumbnailStore\<close> and \<open>mediaStore\<close> are records of functions, and
  \<open>purgeThumbnailBatch\<close> takes them as arguments as the code does.  The locale
  \<open>thumbnail_stores\<close> states what the batch relies on; it is interpreted on the database
  and the datastores.  Go's \<open>range\<close> over the map \<open>touchedLocations\<close> has no fixed order:
  \<open>ord n\<close> is the order in which the iteration with \<open>n\<close> units of fuel left visits it.
\<close>

section \<open>purge\_thumbnails.go\<close>

definition thumbnailPurgeBatchSize :: nat where
  "thumbnailPurgeBatchSize = 1000"

record thumbnailLocation =
  tl_datastoreId :: string
  tl_location :: string

record 's thumbnailStore =
  GetByLocation :: "string \<Rightarrow> string \<Rightarrow> ('s, DbThumbnail list) io"
  DeleteThumb :: "DbThumbnail \<Rightarrow> ('s, unit) io"

record 's mediaStore =
  LocationExists :: "string \<Rightarrow> string \<Rightarrow> ('s, bool) io"

type_synonym 's thumbnailObjectRemover = "string \<Rightarrow> string \<Rightarrow> ('s, unit) io"

definition location_of :: "DbThumbnail \<Rightarrow> thumbnailLocation" where
  "location_of t = \<lparr>tl_datastoreId = DatastoreId t, tl_location = Location t\<rparr>"

type_synonym touchedMap = "(thumbnailLocation \<times> DbThumbnail) list"

fun touch_locations :: "DbThumbnail list \<Rightarrow> touchedMap \<Rightarrow> touchedMap" where
  "touch_locations [] m = m"
| "touch_locations (t # ts) m =
     (let loc = location_of t in
      touch_locations ts (if map_of m loc = None then m @ [(loc, t)] else m))"

definition delete_old ::
  "('s, 'x) thumbnailStore_scheme \<Rightarrow> DbThumbnail \<Rightarrow> int \<Rightarrow> ('s, int) io" where
  "delete_old thumbsDb oldThumb deletedCount =
     bindE (tryE (DeleteThumb thumbsDb oldThumb)) (\<lambda>r.
       case r of Inl _ \<Rightarrow> returnE deletedCount | Inr _ \<Rightarrow> returnE (deletedCount + 1))"

definition purge_location ::
  "('s, 'x) thumbnailStore_scheme \<Rightarrow> ('s, 'y) mediaStore_scheme \<Rightarrow> 's thumbnailObjectRemover \<Rightarrow> int \<Rightarrow>
   thumbnailLocation \<times> DbThumbnail \<Rightarrow> int \<times> thumbnailLocation list \<Rightarrow> ('s, int \<times> thumbnailLocation list) io" where
  "purge_location thumbsDb mediaDb removeObject beforeTs entry acc =
     (let (loc, thumb) = entry; (deletedCount, deletedLocations) = acc in
      if loc \<in> set deletedLocations then returnE acc
      else bindE (tryE (LocationExists mediaDb (DatastoreId thumb) (Location thumb))) (\<lambda>r1. case r1 of
        Inl _ \<Rightarrow> returnE acc
      | Inr mediaExists \<Rightarrow>
          bindE (tryE (GetByLocation thumbsDb (DatastoreId thumb) (Location thumb))) (\<lambda>r2. case r2 of
            Inl _ \<Rightarrow> returnE acc
          | Inr locationThumbs \<Rightarrow>
              let oldThumbs = filter (\<lambda>t. t_CreationTs t < beforeTs) locationThumbs;
                  hasNewerThumb = list_ex (\<lambda>t. \<not> t_CreationTs t < beforeTs) locationThumbs;
                  deleteRecords = (\<lambda>locs. bindE (foldE (delete_old thumbsDb) oldThumbs deletedCount) (\<lambda>n. returnE (n, locs)))
              in if oldThumbs = [] then returnE acc
                 else if \<not> mediaExists \<and> \<not> hasNewerThumb then
                   bindE (tryE (removeObject (DatastoreId thumb) (Location thumb))) (\<lambda>r3. case r3 of
                     Inl _ \<Rightarrow> returnE acc
                   | Inr _ \<Rightarrow> deleteRecords (loc # deletedLocations))
                 else deleteRecords deletedLocations)))"

definition purgeThumbnailBatch ::
  "(touchedMap \<Rightarrow> touchedMap) \<Rightarrow> ('s, 'x) thumbnailStore_scheme \<Rightarrow> ('s, 'y) mediaStore_scheme \<Rightarrow>
   's thumbnailObjectRemover \<Rightarrow> DbThumbnail list \<Rightarrow> thumbnailLocation list \<Rightarrow> int \<Rightarrow>
   ('s, int \<times> thumbnailLocation list) io" where
  "purgeThumbnailBatch ord thumbsDb mediaDb removeObject thumbs deletedLocations beforeTs =
     foldE (purge_location thumbsDb mediaDb removeObject beforeTs) (ord (touch_locations thumbs [])) (0, deletedLocations)"

definition dbThumbnailStore :: "world thumbnailStore" where
  "dbThumbnailStore = \<lparr>GetByLocation = thumbnails_GetByLocation, DeleteThumb = thumbnails_Delete\<rparr>"

definition dbMediaStore :: "world mediaStore" where
  "dbMediaStore = \<lparr>LocationExists = media_LocationExists\<rparr>"

definition doPurgeThumbnails ::
  "(touchedMap \<Rightarrow> touchedMap) \<Rightarrow> RequestContext \<Rightarrow> DbThumbnail list \<Rightarrow> thumbnailLocation list \<Rightarrow> int \<Rightarrow>
   (world, int \<times> thumbnailLocation list) io" where
  "doPurgeThumbnails ord ctx thumbs deletedLocations beforeTs =
     purgeThumbnailBatch ord dbThumbnailStore dbMediaStore (RemoveWithDsId ctx) thumbs deletedLocations beforeTs"

text \<open>The \<open>for\<close> loop; the result \<open>None\<close> means that the fuel did not suffice.\<close>

fun PurgeThumbnails_loop ::
  "(nat \<Rightarrow> touchedMap \<Rightarrow> touchedMap) \<Rightarrow> nat \<Rightarrow> RequestContext \<Rightarrow> int \<Rightarrow> thumbnailLocation list \<Rightarrow> DbThumbnail option \<Rightarrow>
   (world, unit option) io" where
  "PurgeThumbnails_loop ord 0 ctx beforeTs deletedLocations after = returnE None"
| "PurgeThumbnails_loop ord (Suc n) ctx beforeTs deletedLocations after =
     bindE (tryE (thumbnails_GetOlderThanBatchAfter beforeTs thumbnailPurgeBatchSize after)) (\<lambda>r. case r of
       Inl _ \<Rightarrow> returnE (Some ())
     | Inr old \<Rightarrow>
         if length old = 0 then returnE (Some ())
         else bindE (doPurgeThumbnails (ord n) ctx old deletedLocations beforeTs) (\<lambda>(deleted, deletedLocations).
           if deleted = 0 then PurgeThumbnails_loop ord n ctx beforeTs deletedLocations (Some (last old))
           else PurgeThumbnails_loop ord n ctx beforeTs deletedLocations None))"

definition PurgeThumbnails ::
  "(nat \<Rightarrow> touchedMap \<Rightarrow> touchedMap) \<Rightarrow> nat \<Rightarrow> RequestContext \<Rightarrow> (world, unit option) io" where
  "PurgeThumbnails ord fuel ctx =
     bindE (getsE (\<lambda>w. mth_ExpireDays (MainThumbnails (cfg w)))) (\<lambda>expireDays.
     if expireDays \<le> 0 then returnE (Some ())
     else bindE NowMillis (\<lambda>n.
       PurgeThumbnails_loop ord fuel ctx (int64 (n - days_ms expireDays)) [] None))"

section \<open>What the batch relies on\<close>

lemma touch_locations_key:
  "list_all (\<lambda>e. fst e = location_of (snd e)) m \<Longrightarrow> list_all (\<lambda>e. fst e = location_of (snd e)) (touch_locations ts m)"
  by (induction ts m rule: touch_locations.induct) (auto simp: Let_def)

lemma touch_locations_mono: "fst ` set m \<subseteq> fst ` set (touch_locations ts m)"
  by (induction ts m rule: touch_locations.induct) (auto simp: Let_def split: if_splits)

lemma touch_locations_dom: "location_of ` set ts \<subseteq> fst ` set (touch_locations ts m)"
proof (induction ts m rule: touch_locations.induct)
  case (2 t ts m)
  let ?m = "if map_of m (location_of t) = None then m @ [(location_of t, t)] else m"
  have "location_of t \<in> fst ` set ?m" by (auto simp: map_of_eq_None_iff)
  then have "location_of t \<in> fst ` set (touch_locations ts ?m)"
    using touch_locations_mono [of ?m ts] by blast
  with 2 show ?case by (simp add: Let_def)
qed simp

lemma touch_locations_place:
  assumes "t \<in> set ts"
  shows "(DatastoreId t, Location t) \<in> (\<lambda>r. (DatastoreId r, Location r)) ` snd ` set (touch_locations ts [])"
proof -
  have "location_of t \<in> fst ` set (touch_locations ts [])"
    using touch_locations_dom [of ts "[]"] assms by blast
  then obtain u where u: "(location_of t, u) \<in> set (touch_locations ts [])" by auto
  then have "location_of t = location_of u"
    using touch_locations_key [of "[]" ts] by (auto simp: list_all_iff)
  then have "(DatastoreId t, Location t) = (DatastoreId u, Location u)" by (simp add: location_of_def)
  with u show ?thesis by (metis (no_types, lifting) image_eqI snd_conv)
qed

lemma length_filter_neq:
  "distinct xs \<Longrightarrow> x \<in> set xs \<Longrightarrow> int (length (filter (\<lambda>y. y \<noteq> x) xs)) = int (length xs) - 1"
proof (induction xs)
  case (Cons a xs)
  then show ?case by (cases "a = x") (auto intro!: arg_cong [where f = length] filter_True)
qed simp

text \<open>The part of a state that the batch reads and changes.\<close>

record thumb_view =
  tv_rows :: "DbThumbnail list"
  tv_media :: "string \<times> string \<Rightarrow> bool"
  tv_objects :: "string \<times> string \<Rightarrow> bytes option"

locale thumbnail_stores =
  fixes view :: "'s \<Rightarrow> thumb_view"
    and healthy :: "'s \<Rightarrow> bool"
    and thumbsDb :: "('s, 'x) thumbnailStore_scheme"
    and mediaDb :: "('s, 'y) mediaStore_scheme"
    and removeObject :: "'s thumbnailObjectRemover"
  assumes get_ok: "GetByLocation thumbsDb d l w = (Inr ts, w') \<Longrightarrow>
        ts = filter (\<lambda>t. place t = (d, l)) (tv_rows (view w)) \<and> view w' = view w \<and> (healthy w \<longrightarrow> healthy w')"
    and get_fail: "GetByLocation thumbsDb d l w = (Inl e, w') \<Longrightarrow> \<not> is_panic e \<and> view w' = view w \<and> \<not> healthy w"
    and exists_ok: "LocationExists mediaDb d l w = (Inr b, w') \<Longrightarrow>
        b = tv_media (view w) (d, l) \<and> view w' = view w \<and> (healthy w \<longrightarrow> healthy w')"
    and exists_fail: "LocationExists mediaDb d l w = (Inl e, w') \<Longrightarrow> \<not> is_panic e \<and> view w' = view w \<and> \<not> healthy w"
    and delete_ok: "DeleteThumb thumbsDb t w = (Inr u, w') \<Longrightarrow>
        view w' = (view w)\<lparr>tv_rows := filter (\<lambda>r. r \<noteq> t) (tv_rows (view w))\<rparr> \<and> (healthy w \<longrightarrow> healthy w')"
    and delete_fail: "DeleteThumb thumbsDb t w = (Inl e, w') \<Longrightarrow> \<not> is_panic e \<and> view w' = view w \<and> \<not> healthy w"
    and remove_ok: "removeObject d l w = (Inr u, w') \<Longrightarrow>
        view w' = (view w)\<lparr>tv_objects := (tv_objects (view w))((d, l) := None)\<rparr> \<and> (healthy w \<longrightarrow> healthy w')"
    and remove_fail: "removeObject d l w = (Inl e, w') \<Longrightarrow> \<not> is_panic e \<and> view w' = view w \<and>
        \<not> (healthy w \<and> (\<exists>t \<in> set (tv_rows (view w)). place t = (d, l)))"
begin

text \<open>
  A file may go when no media uses it and all the thumbnails at its place are old.
\<close>

definition removable :: "thumb_view \<Rightarrow> int \<Rightarrow> string \<times> string \<Rightarrow> bool" where
  "removable v beforeTs k \<longleftrightarrow> \<not> tv_media v k \<and>
     (\<exists>t \<in> set (tv_rows v). place t = k) \<and>
     (\<forall>t \<in> set (tv_rows v). place t = k \<longrightarrow> t_CreationTs t < beforeTs)"

definition batch_inv :: "thumb_view \<Rightarrow> int \<Rightarrow> int \<Rightarrow> 's \<Rightarrow> bool" where
  "batch_inv v beforeTs n w \<longleftrightarrow>
     tv_media (view w) = tv_media v \<and>
     distinct (tv_rows (view w)) \<and>
     set (tv_rows (view w)) \<subseteq> set (tv_rows v) \<and>
     (\<forall>t \<in> set (tv_rows v). t_CreationTs t \<ge> beforeTs \<longrightarrow> t \<in> set (tv_rows (view w))) \<and>
     n = int (length (tv_rows v)) - int (length (tv_rows (view w))) \<and>
     (\<forall>k. tv_objects (view w) k = tv_objects v k \<or> tv_objects (view w) k = None \<and> removable v beforeTs k)"

lemma batch_inv_start: "distinct (tv_rows (view w)) \<Longrightarrow> batch_inv (view w) beforeTs 0 w"
  by (simp add: batch_inv_def)

lemma batch_inv_view: "batch_inv v beforeTs n w \<Longrightarrow> view w' = view w \<Longrightarrow> batch_inv v beforeTs n w'"
  by (simp add: batch_inv_def)

lemma removable_back:
  assumes "batch_inv v beforeTs n w" "removable (view w) beforeTs k"
  shows "removable v beforeTs k"
  using assms unfolding batch_inv_def removable_def by (metis linorder_not_less subsetD)

lemma batch_inv_remove:
  assumes "batch_inv v beforeTs n w" "removable (view w) beforeTs k"
    and "view w' = (view w)\<lparr>tv_objects := (tv_objects (view w))(k := None)\<rparr>"
  shows "batch_inv v beforeTs n w'"
  using assms removable_back [OF assms(1,2)] by (auto simp: batch_inv_def)

lemma batch_inv_delete:
  assumes inv: "batch_inv v beforeTs n w" and t: "t \<in> set (tv_rows (view w))" "t_CreationTs t < beforeTs"
    and w': "view w' = (view w)\<lparr>tv_rows := filter (\<lambda>r. r \<noteq> t) (tv_rows (view w))\<rparr>"
  shows "batch_inv v beforeTs (n + 1) w'"
  using assms by (auto simp: batch_inv_def length_filter_neq)

text \<open>
  \<open>S\<close> are the rows that are left, and \<open>K\<close> are places whose file is known to be gone if
  it may go.  When nothing fails (\<open>H\<close>), no row leaves before its file.
\<close>

definition freed :: "thumb_view \<Rightarrow> int \<Rightarrow> thumb_view \<Rightarrow> string \<times> string \<Rightarrow> bool" where
  "freed v b u k \<longleftrightarrow> (removable v b k \<longrightarrow> tv_objects u k = None)"

lemma freed_rows [simp]: "freed v b (u\<lparr>tv_rows := rs\<rparr>) k = freed v b u k"
  by (simp add: freed_def)

definition batch_st :: "bool \<Rightarrow> thumb_view \<Rightarrow> int \<Rightarrow> DbThumbnail set \<Rightarrow> (string \<times> string) set \<Rightarrow> int \<Rightarrow> 's \<Rightarrow> bool" where
  "batch_st H v b S K n w \<longleftrightarrow> batch_inv v b n w \<and> set (tv_rows (view w)) = S \<and>
     (H \<longrightarrow> healthy w \<and> (\<forall>k \<in> K \<union> place ` (set (tv_rows v) - S). freed v b (view w) k))"

lemma batch_st_less: "batch_st H v b S K n w \<Longrightarrow> K' \<subseteq> K \<Longrightarrow> batch_st H v b S K' n w"
  by (auto simp: batch_st_def)

lemma try_spec:
  assumes "\<And>w x w'. P w \<Longrightarrow> m w = (Inr x, w') \<Longrightarrow> Q (Inr x) w'"
    and "\<And>w e w'. P w \<Longrightarrow> m w = (Inl e, w') \<Longrightarrow> \<not> is_panic e \<and> Q (Inl e) w'"
  shows "hoare P (tryE m) Q (\<lambda>_ _. False)"
proof (rule hoare_try, rule hoareI)
  fix w e w' assume "P w" "m w = (Inl e, w')"
  with assms(2) [of w e w'] show "if is_panic e then False else Q (Inl e) w'" by simp
qed (use assms(1) in blast)

lemma delete_old_spec:
  assumes "t \<in> S" "t_CreationTs t < b" "place t \<in> K"
  shows "hoare (batch_st H v b S K n) (delete_old thumbsDb t n)
     (\<lambda>n' w. batch_st H v b S K n' w \<and> \<not> H \<or> batch_st H v b (S - {t}) K n' w) (\<lambda>_ _. False)"
  unfolding delete_old_def
proof (rule hoare_bind [OF try_spec])
  fix w x w' assume w: "batch_st H v b S K n w" and ok: "DeleteThumb thumbsDb t w = (Inr x, w')"
  have "view w' = (view w)\<lparr>tv_rows := filter (\<lambda>r. r \<noteq> t) (tv_rows (view w))\<rparr>" "healthy w \<longrightarrow> healthy w'"
    using delete_ok [OF ok] by auto
  moreover from this have "batch_inv v b (n + 1) w'"
    using w assms by (intro batch_inv_delete) (auto simp: batch_st_def)
  ultimately show "(\<lambda>r w. (case r of Inl _ \<Rightarrow> batch_st H v b S K n w \<and> \<not> H | Inr _ \<Rightarrow> batch_st H v b (S - {t}) K (n + 1) w)) (Inr x) w'"
    using w assms(3) by (auto simp: batch_st_def)
next
  fix w e w' assume w: "batch_st H v b S K n w" and fail: "DeleteThumb thumbsDb t w = (Inl e, w')"
  then show "\<not> is_panic e \<and> (\<lambda>r w. (case r of Inl _ \<Rightarrow> batch_st H v b S K n w \<and> \<not> H | Inr _ \<Rightarrow> batch_st H v b (S - {t}) K (n + 1) w)) (Inl e) w'"
    using delete_fail [OF fail] by (auto simp: batch_st_def intro: batch_inv_view)
qed (auto split: sum.split intro: hoare_return)

lemma delete_loop_spec:
  assumes "distinct olds" "set olds \<subseteq> S" "\<And>t. t \<in> set olds \<Longrightarrow> t_CreationTs t < b \<and> place t \<in> K"
  shows "hoare (batch_st H v b S K n) (foldE (delete_old thumbsDb) olds n)
     (\<lambda>n' w. \<exists>S' \<subseteq> S. batch_st H v b S' K n' w \<and> (H \<longrightarrow> S' = S - set olds)) (\<lambda>_ _. False)"
  using assms
proof (induction olds arbitrary: S n)
  case Nil
  then show ?case by (auto intro: hoare_return)
next
  case (Cons t olds)
  have rest: "hoare (batch_st H v b S1 K m) (foldE (delete_old thumbsDb) olds m)
     (\<lambda>n' w. \<exists>S' \<subseteq> S1. batch_st H v b S' K n' w \<and> (H \<longrightarrow> S' = S1 - set olds)) (\<lambda>_ _. False)"
    if "set olds \<subseteq> S1" for S1 m
    using Cons.IH [of S1 m] Cons.prems that by auto
  have sets: "set olds \<subseteq> S" "set olds \<subseteq> S - {t}" "S - {t} - set olds = S - set (t # olds)"
    using Cons.prems by auto
  have "hoare (\<lambda>w. batch_st H v b S K m w \<and> \<not> H \<or> batch_st H v b (S - {t}) K m w) (foldE (delete_old thumbsDb) olds m)
     (\<lambda>n' w. \<exists>S' \<subseteq> S. batch_st H v b S' K n' w \<and> (H \<longrightarrow> S' = S - set (t # olds))) (\<lambda>_ _. False)" for m
  proof (rule hoare_disj)
    show "hoare (\<lambda>w. batch_st H v b S K m w \<and> \<not> H) (foldE (delete_old thumbsDb) olds m)
      (\<lambda>n' w. \<exists>S' \<subseteq> S. batch_st H v b S' K n' w \<and> (H \<longrightarrow> S' = S - set (t # olds))) (\<lambda>_ _. False)"
      by (rule hoare_pure, rule hoare_weaken [OF rest [OF sets(1), of m]]) auto
    show "hoare (batch_st H v b (S - {t}) K m) (foldE (delete_old thumbsDb) olds m)
      (\<lambda>n' w. \<exists>S' \<subseteq> S. batch_st H v b S' K n' w \<and> (H \<longrightarrow> S' = S - set (t # olds))) (\<lambda>_ _. False)"
      by (rule hoare_weaken [OF rest [OF sets(2), of m]]) (use sets(3) in auto)
  qed
  note tail = this
  show ?case unfolding foldE.simps
    by (rule hoare_bind [OF delete_old_spec tail]) (use Cons.prems in auto)
qed

definition locs_clear :: "DbThumbnail set \<Rightarrow> thumbnailLocation list \<Rightarrow> bool" where
  "locs_clear S locs \<longleftrightarrow> (\<forall>t \<in> S. location_of t \<notin> set locs)"

lemma exists_spec:
  "hoare (batch_st H v b S K n) (tryE (LocationExists mediaDb d l))
     (\<lambda>r w. batch_st H v b S K n w \<and> (case r of Inl _ \<Rightarrow> \<not> H | Inr x \<Rightarrow> x = tv_media v (d, l))) (\<lambda>_ _. False)"
proof (rule try_spec)
  fix w x w' assume "batch_st H v b S K n w" "LocationExists mediaDb d l w = (Inr x, w')"
  with exists_ok [OF this(2)] show "batch_st H v b S K n w' \<and> (case Inr x of Inl _ \<Rightarrow> \<not> H | Inr x \<Rightarrow> x = tv_media v (d, l))"
    by (auto simp: batch_st_def batch_inv_def)
next
  fix w e w' assume "batch_st H v b S K n w" "LocationExists mediaDb d l w = (Inl e, w')"
  with exists_fail [OF this(2)] show "\<not> is_panic e \<and> batch_st H v b S K n w' \<and> (case Inl e of Inl _ \<Rightarrow> \<not> H | Inr x \<Rightarrow> x = tv_media v (d, l))"
    by (auto simp: batch_st_def batch_inv_def)
qed

lemma get_spec:
  "hoare (batch_st H v b S K n) (tryE (GetByLocation thumbsDb d l))
     (\<lambda>r w. batch_st H v b S K n w \<and>
        (case r of Inl _ \<Rightarrow> \<not> H | Inr ts \<Rightarrow> distinct ts \<and> set ts = {t \<in> S. place t = (d, l)})) (\<lambda>_ _. False)"
proof (rule try_spec)
  fix w ts w' assume "batch_st H v b S K n w" "GetByLocation thumbsDb d l w = (Inr ts, w')"
  with get_ok [OF this(2)] show "batch_st H v b S K n w' \<and>
      (case Inr ts of Inl _ \<Rightarrow> \<not> H | Inr ts \<Rightarrow> distinct ts \<and> set ts = {t \<in> S. place t = (d, l)})"
    by (auto simp: batch_st_def batch_inv_def)
next
  fix w e w' assume "batch_st H v b S K n w" "GetByLocation thumbsDb d l w = (Inl e, w')"
  with get_fail [OF this(2)] show "\<not> is_panic e \<and> batch_st H v b S K n w' \<and>
      (case Inl e of Inl _ \<Rightarrow> \<not> H | Inr ts \<Rightarrow> distinct ts \<and> set ts = {t \<in> S. place t = (d, l)})"
    by (auto simp: batch_st_def batch_inv_def)
qed

lemma remove_spec:
  assumes "\<not> tv_media v (d, l)" "t \<in> S" "place t = (d, l)" "\<And>t. t \<in> S \<Longrightarrow> place t = (d, l) \<Longrightarrow> t_CreationTs t < b"
  shows "hoare (batch_st H v b S {} n) (tryE (removeObject d l))
     (\<lambda>r w. case r of Inl _ \<Rightarrow> batch_st H v b S {} n w \<and> \<not> H | Inr _ \<Rightarrow> batch_st H v b S {(d, l)} n w) (\<lambda>_ _. False)"
proof (rule try_spec)
  fix w u w' assume w: "batch_st H v b S {} n w" and ok: "removeObject d l w = (Inr u, w')"
  have "removable (view w) b (d, l)"
    using w assms by (auto simp: batch_st_def batch_inv_def removable_def)
  then show "case Inr u of Inl _ \<Rightarrow> batch_st H v b S {} n w' \<and> \<not> H | Inr _ \<Rightarrow> batch_st H v b S {(d, l)} n w'"
    using w remove_ok [OF ok] by (auto simp: batch_st_def freed_def intro: batch_inv_remove)
next
  fix w e w' assume "batch_st H v b S {} n w" "removeObject d l w = (Inl e, w')"
  with remove_fail [OF this(2)] assms(2,3)
  show "\<not> is_panic e \<and> (case Inl e of Inl _ \<Rightarrow> batch_st H v b S {} n w' \<and> \<not> H | Inr _ \<Rightarrow> batch_st H v b S {(d, l)} n w')"
    by (auto simp: batch_st_def intro: batch_inv_view)
qed

lemma unremovable_freed:
  assumes "batch_st H v b S {} n w" "\<And>v'. v' = v \<Longrightarrow> S \<subseteq> set (tv_rows v) \<Longrightarrow> \<not> removable v b k"
  shows "batch_st H v b S {k} n w"
  using assms by (auto simp: batch_st_def freed_def batch_inv_def)

definition location_done :: "bool \<Rightarrow> thumb_view \<Rightarrow> int \<Rightarrow> DbThumbnail set \<Rightarrow> (string \<times> string) set \<Rightarrow> int \<times> thumbnailLocation list \<Rightarrow> 's \<Rightarrow> bool" where
  "location_done H v b S K acc w \<longleftrightarrow> (\<exists>S' \<subseteq> S. batch_st H v b S' {} (fst acc) w \<and>
     (H \<longrightarrow> locs_clear S' (snd acc) \<and> (\<forall>t \<in> S'. place t \<in> K \<longrightarrow> \<not> t_CreationTs t < b)))"

lemma location_skip:
  "(H \<Longrightarrow> locs_clear S locs \<and> (\<forall>t \<in> S. place t \<in> K \<longrightarrow> \<not> t_CreationTs t < b)) \<Longrightarrow>
     hoare (batch_st H v b S {} n) (returnE (n, locs)) (location_done H v b S K) (\<lambda>_ _. False)"
  by (rule hoare_return) (auto simp: location_done_def)

lemma delete_records_spec:
  assumes olds: "distinct olds" "set olds = {t \<in> S. place t = k \<and> t_CreationTs t < b}"
    and clear: "H \<Longrightarrow> locs_clear (S - set olds) locs"
  shows "hoare (batch_st H v b S {k} n)
     (bindE (foldE (delete_old thumbsDb) olds n) (\<lambda>m. returnE (m, locs))) (location_done H v b S {k}) (\<lambda>_ _. False)"
  by (rule hoare_bind [OF delete_loop_spec [of olds S b "{k}" H v n]], use olds in \<open>auto\<close>, rule hoare_return)
     (use clear olds in \<open>auto simp: location_done_def intro: batch_st_less\<close>)

lemma purge_location_spec:
  assumes clear: "H \<Longrightarrow> locs_clear S locs"
  shows "hoare (batch_st H v b S {} n) (purge_location thumbsDb mediaDb removeObject b (location_of t, t) (n, locs))
     (location_done H v b S {place t}) (\<lambda>_ _. False)"
proof (cases "location_of t \<in> set locs")
  case True
  then show ?thesis
    using clear by (fastforce simp: purge_location_def locs_clear_def location_of_def intro!: location_skip)
next
  case False
  have deleting: "hoare (batch_st H v b S {place t} n)
      (bindE (foldE (delete_old thumbsDb) (filter (\<lambda>t. t_CreationTs t < b) ts) n) (\<lambda>m. returnE (m, locs')))
      (location_done H v b S {place t}) (\<lambda>_ _. False)"
    if ts: "distinct ts" "set ts = {u \<in> S. place u = place t}"
      and locs': "locs' = locs \<or> locs' = location_of t # locs \<and> \<not> list_ex (\<lambda>t. \<not> t_CreationTs t < b) ts" for ts locs'
    by (rule delete_records_spec) (use that clear in \<open>auto simp: locs_clear_def location_of_def list_ex_iff\<close>)
  have handle: "hoare (batch_st H v b S {} n)
      (let oldThumbs = filter (\<lambda>t. t_CreationTs t < b) ts;
           hasNewerThumb = list_ex (\<lambda>t. \<not> t_CreationTs t < b) ts;
           deleteRecords = (\<lambda>locs. bindE (foldE (delete_old thumbsDb) oldThumbs n) (\<lambda>n. returnE (n, locs)))
       in if oldThumbs = [] then returnE (n, locs)
          else if \<not> tv_media v (place t) \<and> \<not> hasNewerThumb then
            bindE (tryE (removeObject (DatastoreId t) (Location t))) (\<lambda>r3. case r3 of
              Inl _ \<Rightarrow> returnE (n, locs)
            | Inr _ \<Rightarrow> deleteRecords (location_of t # locs))
          else deleteRecords locs)
      (location_done H v b S {place t}) (\<lambda>_ _. False)"
    if ts: "distinct ts" "set ts = {u \<in> S. place u = place t}" for ts
  proof (cases "filter (\<lambda>t. t_CreationTs t < b) ts = []")
    case True
    then show ?thesis
      using ts clear by (auto simp: filter_empty_conv intro!: location_skip)
  next
    case some_old: False
    show ?thesis
    proof (cases "\<not> tv_media v (place t) \<and> \<not> list_ex (\<lambda>t. \<not> t_CreationTs t < b) ts")
      case True
      from some_old obtain u where "u \<in> S" "place u = place t"
        using ts by (auto simp: filter_empty_conv)
      moreover have "\<And>u. u \<in> S \<Longrightarrow> place u = place t \<Longrightarrow> t_CreationTs u < b"
        using True ts by (auto simp: list_ex_iff)
      ultimately have rem: "hoare (batch_st H v b S {} n) (tryE (removeObject (DatastoreId t) (Location t)))
          (\<lambda>r w. case r of Inl _ \<Rightarrow> batch_st H v b S {} n w \<and> \<not> H | Inr _ \<Rightarrow> batch_st H v b S {place t} n w) (\<lambda>_ _. False)"
        using True by (intro remove_spec) auto
      have "hoare (batch_st H v b S {} n) (bindE (tryE (removeObject (DatastoreId t) (Location t))) (\<lambda>r3. case r3 of
              Inl _ \<Rightarrow> returnE (n, locs)
            | Inr _ \<Rightarrow> bindE (foldE (delete_old thumbsDb) (filter (\<lambda>t. t_CreationTs t < b) ts) n) (\<lambda>n. returnE (n, location_of t # locs))))
          (location_done H v b S {place t}) (\<lambda>_ _. False)"
      proof (rule hoare_bind [OF rem], goal_cases)
        case (1 r)
        show ?case
        proof (cases r)
          case (Inl e)
          show ?thesis unfolding Inl sum.case by (rule hoare_pure, rule location_skip) auto
        next
          case (Inr u)
          show ?thesis unfolding Inr sum.case by (rule deleting) (use ts True in auto)
        qed
      qed
      with True some_old show ?thesis by (simp add: Let_def)
    next
      case False
      have "hoare (batch_st H v b S {} n)
          (bindE (foldE (delete_old thumbsDb) (filter (\<lambda>t. t_CreationTs t < b) ts) n) (\<lambda>n. returnE (n, locs)))
          (location_done H v b S {place t}) (\<lambda>_ _. False)"
        by (rule hoare_weaken [OF deleting [OF ts, of locs]], simp, rule unremovable_freed)
           (use False ts in \<open>auto simp: removable_def list_ex_iff\<close>)
      with False some_old show ?thesis by (auto simp: Let_def)
    qed
  qed
  show ?thesis
    unfolding purge_location_def Let_def prod.case if_not_P [OF False]
  proof (rule hoare_bind [OF exists_spec], goal_cases)
    case (1 r1)
    show ?case
    proof (cases r1)
      case (Inr mediaExists)
      show ?thesis unfolding Inr sum.case
      proof (rule hoare_pure, rule hoare_bind [OF get_spec], goal_cases)
        case (1 r2)
        show ?case
        proof (cases r2)
          case (Inr ts)
          show ?thesis unfolding Inr sum.case 1
            by (rule hoare_pure, erule conjE) (drule (1) handle, simp only: Let_def)
        qed (auto intro!: hoare_pure location_skip)
      qed
    qed (auto intro!: hoare_pure location_skip)
  qed
qed

lemma location_done_compose:
  assumes "\<And>S1. S1 \<subseteq> S \<Longrightarrow> (H \<Longrightarrow> locs_clear S1 (snd acc)) \<Longrightarrow>
      hoare (batch_st H v b S1 {} (fst acc)) m (location_done H v b S1 K') (\<lambda>_ _. False)"
  shows "hoare (location_done H v b S K acc) m (location_done H v b S (K \<union> K')) (\<lambda>_ _. False)"
  unfolding location_done_def [of H v b S K acc]
proof (rule hoare_bex_pre, rule hoare_pure)
  fix S1 assume S1: "S1 \<subseteq> S"
    and clear: "H \<longrightarrow> locs_clear S1 (snd acc) \<and> (\<forall>t \<in> S1. place t \<in> K \<longrightarrow> \<not> t_CreationTs t < b)"
  have "location_done H v b S (K \<union> K') x w" if "location_done H v b S1 K' x w" for x w
  proof -
    from that obtain S2 where "S2 \<subseteq> S1" "batch_st H v b S2 {} (fst x) w"
      "H \<longrightarrow> locs_clear S2 (snd x) \<and> (\<forall>t \<in> S2. place t \<in> K' \<longrightarrow> \<not> t_CreationTs t < b)"
      by (auto simp: location_done_def)
    with S1 clear show ?thesis unfolding location_done_def by (intro exI [of _ S2]) blast
  qed
  moreover have "hoare (batch_st H v b S1 {} (fst acc)) m (location_done H v b S1 K') (\<lambda>_ _. False)"
    using assms S1 clear by blast
  ultimately show "hoare (batch_st H v b S1 {} (fst acc)) m (location_done H v b S (K \<union> K')) (\<lambda>_ _. False)"
    by (auto elim: hoare_weaken)
qed

lemma purge_locations_spec:
  assumes "\<And>e. e \<in> set es \<Longrightarrow> fst e = location_of (snd e)" and "H \<Longrightarrow> locs_clear S locs"
  shows "hoare (batch_st H v b S {} n) (foldE (purge_location thumbsDb mediaDb removeObject b) es (n, locs))
     (location_done H v b S (place ` snd ` set es)) (\<lambda>_ _. False)"
  using assms
proof (induction es arbitrary: S n locs)
  case Nil
  then show ?case by (auto intro!: location_skip)
next
  case (Cons e es)
  then have e: "e = (location_of (snd e), snd e)" by (metis list.set_intros(1) prod.collapse)
  have first: "hoare (batch_st H v b S {} n) (purge_location thumbsDb mediaDb removeObject b e (n, locs))
       (location_done H v b S {place (snd e)}) (\<lambda>_ _. False)"
    by (subst e, rule purge_location_spec) (use Cons.prems in auto)
  have rest: "hoare (location_done H v b S {place (snd e)} acc) (foldE (purge_location thumbsDb mediaDb removeObject b) es acc)
       (location_done H v b S ({place (snd e)} \<union> place ` snd ` set es)) (\<lambda>_ _. False)" for acc
    by (cases acc, rule location_done_compose) (use Cons in auto)
  from hoare_bind [OF first rest] show ?case by simp
qed

lemma batch_inv_trans:
  assumes "batch_inv v b m w" "batch_inv (view w) b n w'"
  shows "batch_inv v b (m + n) w'"
proof -
  have "tv_objects (view w') k = tv_objects v k \<or> tv_objects (view w') k = None \<and> removable v b k" for k
    using assms removable_back [OF assms(1), of k] unfolding batch_inv_def by metis
  with assms show ?thesis unfolding batch_inv_def by auto
qed

text \<open>
  One batch: what it keeps whatever fails, and, when nothing fails, that the thumbnails
  it was given are gone.  The count it returns is the number of rows that went.
\<close>

lemma purgeThumbnailBatch_spec:
  assumes perm: "\<And>m. mset (ord m) = mset m"
    and w: "distinct (tv_rows (view w))" "H \<Longrightarrow> healthy w \<and> locs_clear (set (tv_rows (view w))) locs"
  shows "\<exists>n locs' w'. purgeThumbnailBatch ord thumbsDb mediaDb removeObject thumbs locs b w = (Inr (n, locs'), w') \<and>
     batch_inv (view w) b n w' \<and>
     (H \<longrightarrow> healthy w' \<and> locs_clear (set (tv_rows (view w'))) locs' \<and>
        (\<forall>t \<in> set (tv_rows (view w)) - set (tv_rows (view w')). freed (view w) b (view w') (place t)) \<and>
        (\<forall>t \<in> set thumbs. t_CreationTs t < b \<longrightarrow> t \<notin> set (tv_rows (view w'))))"
proof -
  let ?es = "ord (touch_locations thumbs [])"
  have es: "set ?es = set (touch_locations thumbs [])"
    using perm [of "touch_locations thumbs []"] by (metis set_mset_mset)
  have "hoare (batch_st H (view w) b (set (tv_rows (view w))) {} 0)
      (purgeThumbnailBatch ord thumbsDb mediaDb removeObject thumbs locs b)
      (location_done H (view w) b (set (tv_rows (view w))) (place ` snd ` set ?es)) (\<lambda>_ _. False)"
    unfolding purgeThumbnailBatch_def
    by (rule purge_locations_spec) (use w es touch_locations_key [of "[]" thumbs] in \<open>auto simp: list_all_iff\<close>)
  moreover have "batch_st H (view w) b (set (tv_rows (view w))) {} 0 w"
    using w by (simp add: batch_st_def batch_inv_start)
  ultimately obtain acc w' where "purgeThumbnailBatch ord thumbsDb mediaDb removeObject thumbs locs b w = (Inr acc, w')"
    and "location_done H (view w) b (set (tv_rows (view w))) (place ` snd ` set ?es) acc w'"
    by (rule hoare_obtain)
  moreover obtain n locs' where "acc = (n, locs')" by (cases acc)
  ultimately have run: "purgeThumbnailBatch ord thumbsDb mediaDb removeObject thumbs locs b w = (Inr (n, locs'), w')"
    and post: "location_done H (view w) b (set (tv_rows (view w))) (place ` snd ` set ?es) (n, locs') w'"
    by simp_all
  have "place t \<in> place ` snd ` set ?es" if "t \<in> set thumbs" for t
    using touch_locations_place [OF that] es by simp
  with post have "batch_inv (view w) b n w'" "H \<Longrightarrow> healthy w'" "H \<Longrightarrow> locs_clear (set (tv_rows (view w'))) locs'"
    "H \<Longrightarrow> t \<in> set thumbs \<Longrightarrow> t_CreationTs t < b \<Longrightarrow> t \<notin> set (tv_rows (view w'))"
    "H \<Longrightarrow> t \<in> set (tv_rows (view w)) - set (tv_rows (view w')) \<Longrightarrow> freed (view w) b (view w') (place t)" for t
    by (auto simp: location_done_def batch_st_def)
  with run show ?thesis by blast
qed

end

section \<open>The stores that the task uses\<close>

definition world_view :: "world \<Rightarrow> thumb_view" where
  "world_view w = \<lparr>tv_rows = tbl_thumbnails w,
     tv_media = (\<lambda>(d, l). list_ex (\<lambda>m. DatastoreId m = d \<and> Location m = l) (tbl_media w)),
     tv_objects = objects w\<rparr>"

definition world_healthy :: "RequestContext \<Rightarrow> world \<Rightarrow> bool" where
  "world_healthy ctx w \<longleftrightarrow> faults w = [] \<and> (\<forall>t \<in> set (tbl_thumbnails w). known_datastore ctx (DatastoreId t))"

lemma world_view_env [simp]: "world_view (w\<lparr>faults := fs\<rparr>) = world_view w" "world_view (w\<lparr>s3clients := cs\<rparr>) = world_view w"
  by (simp_all add: world_view_def)

lemma faults_same: "faults w = [] \<Longrightarrow> w\<lparr>faults := []\<rparr> = w"
  by (cases w) simp

lemma dbQuery_run:
  "dbQuery q w = (Inr x, w') \<Longrightarrow> \<exists>fs. w' = w\<lparr>faults := fs\<rparr> \<and> x = q w' \<and> (faults w = [] \<longrightarrow> w' = w)"
  "dbQuery q w = (Inl e, w') \<Longrightarrow> (\<exists>fs. w' = w\<lparr>faults := fs\<rparr>) \<and> \<not> is_panic e \<and> faults w \<noteq> []"
  by (auto simp: dbQuery_def ext_def io_simps faults_same split: list.splits option.splits intro: exI [of _ "[]"])

lemma dbExec_run:
  "dbExec f w = (Inr x, w') \<Longrightarrow> \<exists>fs. w' = f (w\<lparr>faults := fs\<rparr>) \<and> (faults w = [] \<longrightarrow> w' = f w)"
  "dbExec f w = (Inl e, w') \<Longrightarrow> (\<exists>fs. w' = w\<lparr>faults := fs\<rparr>) \<and> \<not> is_panic e \<and> faults w \<noteq> []"
  by (auto simp: dbExec_def ext_def io_simps faults_same split: list.splits option.splits intro: exI [of _ "[]"])

lemma getS3_run:
  "getS3 ds w = (Inr x, w') \<Longrightarrow> world_view w' = world_view w \<and> tbl_thumbnails w' = tbl_thumbnails w \<and> (faults w = [] \<longrightarrow> faults w' = [])"
  "getS3 ds w = (Inl e, w') \<Longrightarrow> world_view w' = world_view w \<and> \<not> is_panic e \<and> faults w \<noteq> []"
  by (auto simp: getS3_def ext_def io_simps split: list.splits option.splits)

lemma RemoveWithDsId_ok:
  assumes "RemoveWithDsId ctx d l w = (Inr u, w')"
  shows "world_view w' = (world_view w)\<lparr>tv_objects := (objects w)((d, l) := None)\<rparr> \<and>
    tbl_thumbnails w' = tbl_thumbnails w \<and> (faults w = [] \<longrightarrow> faults w' = [])"
  using assms
  by (auto simp: RemoveWithDsId_def Remove_def getS3_def ext_def io_simps world_view_def
    split: list.splits option.splits if_splits prod.splits sum.splits dest!: datastores_Get_Some)

lemma RemoveWithDsId_fail:
  assumes "RemoveWithDsId ctx d l w = (Inl e, w')"
  shows "world_view w' = world_view w \<and> \<not> is_panic e \<and> (faults w \<noteq> [] \<or> \<not> known_datastore ctx d)"
  using assms
  by (auto simp: RemoveWithDsId_def Remove_def getS3_def ext_def io_simps world_view_def known_datastore_def
    split: list.splits option.splits if_splits prod.splits sum.splits dest!: datastores_Get_Some)

interpretation db_thumbs: thumbnail_stores world_view "world_healthy ctx" dbThumbnailStore dbMediaStore "RemoveWithDsId ctx"
proof unfold_locales
  fix d l w u w' e
  show "RemoveWithDsId ctx d l w = (Inr u, w') \<Longrightarrow>
      world_view w' = (world_view w)\<lparr>tv_objects := (tv_objects (world_view w))((d, l) := None)\<rparr> \<and>
      (world_healthy ctx w \<longrightarrow> world_healthy ctx w')"
    using RemoveWithDsId_ok [of ctx d l w u w'] by (simp add: world_healthy_def world_view_def)
  show "RemoveWithDsId ctx d l w = (Inl e, w') \<Longrightarrow> \<not> is_panic e \<and> world_view w' = world_view w \<and>
      \<not> (world_healthy ctx w \<and> (\<exists>t \<in> set (tv_rows (world_view w)). place t = (d, l)))"
    using RemoveWithDsId_fail [of ctx d l w e w'] by (auto simp: world_healthy_def world_view_def)
qed (auto simp: dbThumbnailStore_def dbMediaStore_def thumbnails_GetByLocation_def thumbnails_scanRows_def
    thumbnails_Delete_def media_LocationExists_def world_healthy_def world_view_def
    dest!: dbQuery_run dbExec_run)

section \<open>The loop over batches\<close>

definition candidates :: "world \<Rightarrow> int \<Rightarrow> DbThumbnail option \<Rightarrow> DbThumbnail set" where
  "candidates w b after = {t \<in> set (tbl_thumbnails w). t_CreationTs t < b \<and>
     (case after of None \<Rightarrow> True | Some a \<Rightarrow> oldThumbnailsOrder a < oldThumbnailsOrder t)}"

lemma take_empty: "0 < n \<Longrightarrow> take n xs = [] \<longleftrightarrow> xs = []"
  by (cases xs; cases n) auto

lemma next_batch:
  assumes "thumbnails_GetOlderThanBatchAfter b thumbnailPurgeBatchSize after w = (Inr old, w')"
  shows "set old \<subseteq> candidates w b after \<and> (old = [] \<longrightarrow> candidates w b after = {}) \<and>
    world_view w' = world_view w \<and> tbl_thumbnails w' = tbl_thumbnails w \<and> (world_healthy ctx w \<longrightarrow> world_healthy ctx w')"
proof -
  let ?P = "\<lambda>t. t_CreationTs t < b \<and> (case after of None \<Rightarrow> True | Some a \<Rightarrow> oldThumbnailsOrder a < oldThumbnailsOrder t)"
  have cand: "set (sort_key oldThumbnailsOrder (filter ?P (tbl_thumbnails w))) = candidates w b after"
    by (simp add: candidates_def)
  have old: "old = take thumbnailPurgeBatchSize (sort_key oldThumbnailsOrder (filter ?P (tbl_thumbnails w)))"
    and w': "\<exists>fs. w' = w\<lparr>faults := fs\<rparr> \<and> (faults w = [] \<longrightarrow> w' = w)"
    using assms by (auto simp: thumbnails_GetOlderThanBatchAfter_def thumbnails_GetOlderThanBatch_def thumbnails_scanRows_def
        older_batch_def older_batch_after_def dest!: dbQuery_run split: option.splits)
  have "set old \<subseteq> candidates w b after"
    unfolding old cand [symmetric] by (rule set_take_subset)
  moreover have "candidates w b after = {}" if "old = []"
    using that unfolding old cand [symmetric] by (subst (asm) take_empty) (simp_all add: thumbnailPurgeBatchSize_def)
  moreover have "world_view w' = world_view w" "tbl_thumbnails w' = tbl_thumbnails w" "world_healthy ctx w \<longrightarrow> world_healthy ctx w'"
    using w' by (auto simp: world_healthy_def)
  ultimately show ?thesis by blast
qed

lemma next_batch_fail:
  assumes "thumbnails_GetOlderThanBatchAfter b n after w = (Inl e, w')"
  shows "\<not> is_panic e \<and> world_view w' = world_view w \<and> \<not> world_healthy ctx w"
  using assms by (auto simp: thumbnails_GetOlderThanBatchAfter_def thumbnails_GetOlderThanBatch_def thumbnails_scanRows_def
      world_healthy_def dest!: dbQuery_run split: option.splits)

text \<open>
  Every iteration that goes on either deletes a row or moves the cursor past a row:
  this measure decreases.
\<close>

definition purge_measure :: "world \<Rightarrow> int \<Rightarrow> DbThumbnail option \<Rightarrow> nat" where
  "purge_measure w b after =
     card (set (tbl_thumbnails w)) * (card (set (tbl_thumbnails w)) + 1) + card (candidates w b after)"

lemma candidates_finite [simp]: "finite (candidates w b after)"
  by (simp add: candidates_def)

lemma candidates_le: "card (candidates w b after) \<le> card (set (tbl_thumbnails w))"
  by (rule card_mono) (auto simp: candidates_def)

lemma measure_deleted:
  assumes "card (set (tbl_thumbnails w')) < card (set (tbl_thumbnails w))"
  shows "purge_measure w' b None < purge_measure w b after"
proof -
  let ?n = "card (set (tbl_thumbnails w))" and ?n' = "card (set (tbl_thumbnails w'))"
  have "purge_measure w' b None \<le> ?n' * (?n' + 1) + ?n'"
    using candidates_le [of w' b None] by (simp add: purge_measure_def)
  also have "\<dots> < (?n' + 1) * (?n' + 1)" by simp
  also have "\<dots> \<le> ?n * (?n + 1)" using assms by (intro mult_le_mono) auto
  finally show ?thesis by (simp add: purge_measure_def)
qed

lemma measure_advanced:
  assumes "set (tbl_thumbnails w') = set (tbl_thumbnails w)" and "t \<in> candidates w b after"
  shows "purge_measure w' b (Some t) < purge_measure w b after"
proof -
  have "candidates w' b (Some t) \<subset> candidates w b after"
    using assms by (auto simp: candidates_def split: option.splits)
  then have "card (candidates w' b (Some t)) < card (candidates w b after)"
    by (rule psubset_card_mono [rotated]) simp
  with assms(1) show ?thesis by (simp add: purge_measure_def)
qed

text \<open>The state of the loop: what has happened since the view \<open>v\<close>.\<close>

definition loop_st :: "bool \<Rightarrow> RequestContext \<Rightarrow> thumb_view \<Rightarrow> int \<Rightarrow> thumbnailLocation list \<Rightarrow> DbThumbnail option \<Rightarrow> world \<Rightarrow> bool" where
  "loop_st H ctx v b locs after w \<longleftrightarrow> (\<exists>m. db_thumbs.batch_inv v b m w) \<and>
     (H \<longrightarrow> world_healthy ctx w \<and> after = None \<and> db_thumbs.locs_clear (set (tbl_thumbnails w)) locs \<and>
        (\<forall>t \<in> set (tv_rows v) - set (tbl_thumbnails w). db_thumbs.freed v b (world_view w) (place t)))"

lemma freed_step:
  assumes inv: "db_thumbs.batch_inv v b m w" "db_thumbs.batch_inv (world_view w) b n w'"
    and t: "t \<in> set (tv_rows v) - set (tbl_thumbnails w')"
    and before: "t \<notin> set (tbl_thumbnails w) \<Longrightarrow> db_thumbs.freed v b (world_view w) (place t)"
    and batch: "t \<in> set (tbl_thumbnails w) \<Longrightarrow> db_thumbs.freed (world_view w) b (world_view w') (place t)"
  shows "db_thumbs.freed v b (world_view w') (place t)"
proof (cases "t \<in> set (tbl_thumbnails w)")
  case True
  have "db_thumbs.removable (world_view w) b (place t)" if "db_thumbs.removable v b (place t)"
    using that True inv(1)
    unfolding db_thumbs.removable_def db_thumbs.batch_inv_def by (auto simp: world_view_def)
  with batch [OF True] show ?thesis by (auto simp: db_thumbs.freed_def)
next
  case False
  have "tv_objects (world_view w') k = tv_objects (world_view w) k \<or> tv_objects (world_view w') k = None" for k
    using inv(2) unfolding db_thumbs.batch_inv_def by (elim conjE) (drule spec [of _ k], auto)
  from this [of "place t"] before [OF False] show ?thesis by (auto simp: db_thumbs.freed_def)
qed

lemma rows_shrink:
  assumes "db_thumbs.batch_inv (world_view w) b n w'" "distinct (tbl_thumbnails w)"
  shows "if n = 0 then set (tbl_thumbnails w') = set (tbl_thumbnails w)
         else card (set (tbl_thumbnails w')) < card (set (tbl_thumbnails w))"
proof -
  have sub: "set (tbl_thumbnails w') \<subseteq> set (tbl_thumbnails w)"
    and len: "n = int (length (tbl_thumbnails w)) - int (length (tbl_thumbnails w'))" and "distinct (tbl_thumbnails w')"
    using assms(1) by (auto simp: db_thumbs.batch_inv_def world_view_def)
  then have n: "n = int (card (set (tbl_thumbnails w))) - int (card (set (tbl_thumbnails w')))"
    using assms(2) by (simp add: distinct_card)
  moreover have "card (set (tbl_thumbnails w')) \<le> card (set (tbl_thumbnails w))"
    using sub by (intro card_mono) auto
  ultimately show ?thesis
    using sub card_subset_eq [of "set (tbl_thumbnails w)" "set (tbl_thumbnails w')"] by auto
qed

lemma loop_step:
  assumes perm: "\<And>m. mset (ord m) = mset m"
    and st: "loop_st H ctx v b locs after w"
    and old: "set old \<subseteq> candidates w b after" "old \<noteq> []"
  obtains n locs' w' where "doPurgeThumbnails ord ctx old locs b w = (Inr (n, locs'), w')"
    and "loop_st H ctx v b locs' (if n = 0 then Some (last old) else None) w'"
    and "purge_measure w' b (if n = 0 then Some (last old) else None) < purge_measure w b after"
proof -
  obtain m where inv: "db_thumbs.batch_inv v b m w"
    and quiet: "H \<longrightarrow> world_healthy ctx w \<and> after = None \<and> db_thumbs.locs_clear (set (tbl_thumbnails w)) locs \<and>
        (\<forall>t \<in> set (tv_rows v) - set (tbl_thumbnails w). db_thumbs.freed v b (world_view w) (place t))"
    using st by (auto simp: loop_st_def)
  have rows: "tv_rows (world_view x) = tbl_thumbnails x" for x by (simp add: world_view_def)
  have dist: "distinct (tbl_thumbnails w)" using inv by (simp add: db_thumbs.batch_inv_def rows)
  then obtain n locs' w' where run: "doPurgeThumbnails ord ctx old locs b w = (Inr (n, locs'), w')"
    and step: "db_thumbs.batch_inv (world_view w) b n w'"
    and done': "H \<longrightarrow> world_healthy ctx w' \<and> db_thumbs.locs_clear (set (tbl_thumbnails w')) locs' \<and>
        (\<forall>t \<in> set (tbl_thumbnails w) - set (tbl_thumbnails w'). db_thumbs.freed (world_view w) b (world_view w') (place t)) \<and>
        (\<forall>t \<in> set old. t_CreationTs t < b \<longrightarrow> t \<notin> set (tbl_thumbnails w'))"
    using db_thumbs.purgeThumbnailBatch_spec [of ord w H ctx locs old b] perm quiet
    unfolding doPurgeThumbnails_def rows by blast
  note shrink = rows_shrink [OF step dist]
  have last: "last old \<in> candidates w b after" using old by auto
  have "n \<noteq> 0" if H
    using that shrink done' last old(2) by (auto simp: candidates_def)
  moreover have "db_thumbs.freed v b (world_view w') (place t)" if H "t \<in> set (tv_rows v) - set (tbl_thumbnails w')" for t
    by (rule freed_step [OF inv step that(2)]) (use quiet done' that in auto)
  ultimately have "loop_st H ctx v b locs' (if n = 0 then Some (last old) else None) w'"
    using db_thumbs.batch_inv_trans [OF inv step] done' unfolding loop_st_def by auto
  moreover have "purge_measure w' b (if n = 0 then Some (last old) else None) < purge_measure w b after"
    using shrink measure_deleted measure_advanced [OF _ last] by auto
  ultimately show thesis using run that by blast
qed

lemma loop_st_view:
  assumes "loop_st H ctx v b locs after w" "world_view w' = world_view w" "world_healthy ctx w \<longrightarrow> world_healthy ctx w'"
  shows "loop_st H ctx v b locs after w'"
proof -
  have "tbl_thumbnails w' = tbl_thumbnails w" using assms(2) by (simp add: world_view_def)
  with assms show ?thesis by (auto simp: loop_st_def intro: db_thumbs.batch_inv_view)
qed

lemma PurgeThumbnails_loop_spec:
  assumes perm: "\<And>n m. mset (ord n m) = mset m"
    and "loop_st H ctx v b locs after w" and "purge_measure w b after < fuel"
  shows "\<exists>w' locs' after'. PurgeThumbnails_loop ord fuel ctx b locs after w = (Inr (Some ()), w') \<and>
    loop_st H ctx v b locs' after' w' \<and> (H \<longrightarrow> candidates w' b None = {})"
  using assms(2,3)
proof (induction fuel arbitrary: locs after w)
  case (Suc n)
  let ?get = "thumbnails_GetOlderThanBatchAfter b thumbnailPurgeBatchSize after"
  obtain r w1 where r: "?get w = (r, w1)" by (cases "?get w")
  show ?case
  proof (cases r)
    case (Inl e)
    with r have "\<not> is_panic e" "world_view w1 = world_view w" "\<not> world_healthy ctx w"
      using next_batch_fail by auto
    with Suc.prems(1) r Inl loop_st_view [OF Suc.prems(1), of w1] show ?thesis
      by (auto simp: io_simps loop_st_def)
  next
    case (Inr old)
    note batch = next_batch [OF r [unfolded Inr], where ctx = ctx]
    have st1: "loop_st H ctx v b locs after w1"
      using loop_st_view [OF Suc.prems(1)] batch by blast
    have cand: "candidates w1 b x = candidates w b x" "purge_measure w1 b x = purge_measure w b x" for x
      using batch by (simp_all add: candidates_def purge_measure_def)
    show ?thesis
    proof (cases "old = []")
      case True
      with st1 batch cand r Inr show ?thesis by (auto simp: io_simps loop_st_def)
    next
      case False
      with batch cand obtain k locs' w2 where "doPurgeThumbnails (ord n) ctx old locs b w1 = (Inr (k, locs'), w2)"
        and "loop_st H ctx v b locs' (if k = 0 then Some (last old) else None) w2"
        and "purge_measure w2 b (if k = 0 then Some (last old) else None) < purge_measure w1 b after"
        using loop_step [where ord = "ord n" and old = old, OF perm st1] by blast
      with Suc.IH [of locs' "if k = 0 then Some (last old) else None" w2] Suc.prems(2) cand False r Inr
      show ?thesis by (auto simp: io_simps split: if_splits)
    qed
  qed
qed simp

lemma preserves_PurgeThumbnails_loop:
  assumes I: "env_stable I" "\<And>w k. I w \<Longrightarrow> I (w\<lparr>objects := (objects w)(k := None)\<rparr>)"
    "\<And>w ts. I w \<Longrightarrow> I (w\<lparr>tbl_thumbnails := ts\<rparr>)"
  shows "preserves I (PurgeThumbnails_loop ord fuel ctx b locs after)"
proof -
  have loc: "preserves I (purge_location dbThumbnailStore dbMediaStore (RemoveWithDsId ctx) b e acc)" for e acc
    unfolding purge_location_def Let_def dbThumbnailStore_def dbMediaStore_def delete_old_def thumbnailStore.simps mediaStore.simps
      thumbnails_GetByLocation_def thumbnails_scanRows_def thumbnails_Delete_def media_LocationExists_def
    by (intro hoare_intros I)
  show ?thesis
  proof (induction fuel arbitrary: locs after)
    case (Suc fuel)
    show ?case
      unfolding PurgeThumbnails_loop.simps doPurgeThumbnails_def purgeThumbnailBatch_def
        thumbnails_GetOlderThanBatchAfter_def thumbnails_GetOlderThanBatch_def thumbnails_scanRows_def
      by (intro hoare_intros I loc Suc.IH)
  qed (simp add: preserves_return)
qed

lemma loop_start:
  assumes "distinct (tbl_thumbnails w)" "NowMillis w = (Inr n, w1)" "H \<Longrightarrow> world_healthy ctx w"
  shows "loop_st H ctx (world_view w) b [] None w1"
proof -
  have v: "world_view w1 = world_view w" "faults w1 = faults w" "tbl_thumbnails w1 = tbl_thumbnails w"
    using assms(2) by (auto simp: NowMillis_def world_view_def split: list.splits)
  have "db_thumbs.batch_inv (world_view w1) b 0 w1"
    by (rule db_thumbs.batch_inv_start) (use assms v in \<open>simp add: world_view_def\<close>)
  with assms(3) v show ?thesis
    by (auto simp: loop_st_def db_thumbs.locs_clear_def world_healthy_def world_view_def)
qed

lemma fuel_enough:
  assumes "(length (tbl_thumbnails w) + 1)\<^sup>2 \<le> fuel" "NowMillis w = (Inr n, w1)"
  shows "purge_measure w1 b None < fuel"
proof -
  let ?n = "card (set (tbl_thumbnails w1))"
  have n: "?n \<le> length (tbl_thumbnails w)"
    using assms(2) card_length by (auto simp: NowMillis_def split: list.splits)
  have "purge_measure w1 b None \<le> ?n * (?n + 1) + ?n"
    using candidates_le [of w1 b None] by (simp add: purge_measure_def)
  also have "\<dots> < (?n + 1)\<^sup>2" by (simp add: power2_eq_square)
  also have "\<dots> \<le> (length (tbl_thumbnails w) + 1)\<^sup>2" using n by (intro power_mono) auto
  finally show ?thesis using assms(1) by simp
qed

lemma PurgeThumbnails_run:
  assumes perm: "\<And>n m. mset (ord n m) = mset m" and dist: "distinct (tbl_thumbnails w)"
    and fuel: "(length (tbl_thumbnails w) + 1)\<^sup>2 \<le> fuel" and clock: "NowMillis w = (Inr n, w1)"
    and b: "b = int64 (n - days_ms (mth_ExpireDays (MainThumbnails (cfg w))))"
    and H: "H \<Longrightarrow> world_healthy ctx w" and days: "0 < mth_ExpireDays (MainThumbnails (cfg w))"
  shows "\<exists>w' locs after. PurgeThumbnails ord fuel ctx w = (Inr (Some ()), w') \<and> tbl_media w' = tbl_media w \<and>
    loop_st H ctx (world_view w) b locs after w' \<and> (H \<longrightarrow> candidates w' b None = {})"
proof -
  obtain w' locs after where run: "PurgeThumbnails_loop ord fuel ctx b [] None w1 = (Inr (Some ()), w')"
    and st: "loop_st H ctx (world_view w) b locs after w'" "H \<longrightarrow> candidates w' b None = {}"
    using PurgeThumbnails_loop_spec [of ord H ctx "world_view w" b "[]" None w1 fuel] perm
      loop_start [OF dist clock, of H ctx b] H fuel_enough [OF fuel clock, of b] by blast
  have "preserves (\<lambda>w. tbl_media w = tbl_media w1) (PurgeThumbnails_loop ord fuel ctx b [] None)"
    by (rule preserves_PurgeThumbnails_loop) (auto intro: env_stableI)
  from preservesD' [OF this _ run] have "tbl_media w' = tbl_media w"
    using clock by (auto simp: NowMillis_def split: list.splits)
  with run st days clock b show ?thesis by (auto simp: PurgeThumbnails_def io_simps)
qed

text \<open>
  C9: The expiry of thumbnails ends whatever fails, for any order in which Go visits its
  map, after at most \<open>(n + 1)\<^sup>2\<close> batches for \<open>n\<close> thumbnails.  It changes no media row, deletes only
  thumbnail rows older than the limit, and the only files it removes are those that no
  media uses and all of whose thumbnails are that old.
\<close>

theorem PurgeThumbnails_safe:
  assumes "\<And>n m. mset (ord n m) = mset m" and "distinct (tbl_thumbnails w)"
    and "(length (tbl_thumbnails w) + 1)\<^sup>2 \<le> fuel" and "NowMillis w = (Inr n, w1)"
    and "b = int64 (n - days_ms (mth_ExpireDays (MainThumbnails (cfg w))))"
  shows "\<exists>w'. PurgeThumbnails ord fuel ctx w = (Inr (Some ()), w') \<and>
    tbl_media w' = tbl_media w \<and>
    set (tbl_thumbnails w') \<subseteq> set (tbl_thumbnails w) \<and>
    (\<forall>t \<in> set (tbl_thumbnails w). t_CreationTs t \<ge> b \<longrightarrow> t \<in> set (tbl_thumbnails w')) \<and>
    (\<forall>k. objects w' k \<noteq> objects w k \<longrightarrow>
       objects w' k = None \<and> k \<notin> place ` set (tbl_media w) \<and> k \<in> place ` set (tbl_thumbnails w) \<and>
       (\<forall>t \<in> set (tbl_thumbnails w). place t = k \<longrightarrow> t_CreationTs t < b))"
proof (cases "0 < mth_ExpireDays (MainThumbnails (cfg w))")
  case True
  then obtain w' m where run: "PurgeThumbnails ord fuel ctx w = (Inr (Some ()), w')" "tbl_media w' = tbl_media w"
    and inv: "db_thumbs.batch_inv (world_view w) b m w'"
    using PurgeThumbnails_run [where ord = ord and H = False and ctx = ctx, OF assms] by (auto simp: loop_st_def)
  have "objects w' k = objects w k \<or> objects w' k = None \<and> db_thumbs.removable (world_view w) b k" for k
    using inv by (cases k) (simp add: db_thumbs.batch_inv_def, simp add: world_view_def)
  then have "objects w' k = None \<and> k \<notin> place ` set (tbl_media w) \<and> k \<in> place ` set (tbl_thumbnails w) \<and>
       (\<forall>t \<in> set (tbl_thumbnails w). place t = k \<longrightarrow> t_CreationTs t < b)" if "objects w' k \<noteq> objects w k" for k
    using that by (cases k) (fastforce simp: db_thumbs.removable_def world_view_def list_ex_iff)
  moreover have "set (tbl_thumbnails w') \<subseteq> set (tbl_thumbnails w)"
    "\<And>t. t \<in> set (tbl_thumbnails w) \<Longrightarrow> t_CreationTs t \<ge> b \<Longrightarrow> t \<in> set (tbl_thumbnails w')"
    using inv by (auto simp: db_thumbs.batch_inv_def world_view_def)
  ultimately show ?thesis using run by blast
qed (auto simp: PurgeThumbnails_def io_simps)

definition expiry_world :: world where
  "expiry_world = demo_world\<lparr>now := 100000000,
     cfg := (cfg demo_world)\<lparr>MainThumbnails := (MainThumbnails (cfg demo_world))\<lparr>mth_ExpireDays := 1\<rparr>\<rparr>\<rparr>"

lemma expiry_world_simps:
  "NowMillis expiry_world = (Inr 100000000, expiry_world)" "tbl_thumbnails expiry_world = [demo_t1]"
  "mth_ExpireDays (MainThumbnails (cfg expiry_world)) = 1" "days_ms 1 = 86400000" "int64 13600000 = 13600000"
  "world_healthy demo_ctx expiry_world" "tbl_media expiry_world = [demo_m1, demo_m2, demo_m3]"
  by (simp_all add: expiry_world_def NowMillis_def days_ms_def int64_def world_healthy_def known_datastore_def
      datastores_Get_def demo_simps)

theorem PurgeThumbnails_safe_witness:
  "\<exists>w'. PurgeThumbnails (\<lambda>n m. rev m) 4 demo_ctx expiry_world = (Inr (Some ()), w') \<and>
    tbl_media w' = [demo_m1, demo_m2, demo_m3] \<and>
    objects w' (''fs'', ''l1'') = objects expiry_world (''fs'', ''l1'')"
  using PurgeThumbnails_safe [of "\<lambda>n m. rev m" expiry_world 4 100000000 expiry_world 13600000 demo_ctx]
  by (fastforce simp: expiry_world_simps power2_eq_square demo_simps)

text \<open>
  When no call fails and the datastores of the thumbnails are configured, the
  expiry leaves exactly the thumbnail rows that are not older than the limit, and every
  file that no media uses and all of whose thumbnails are older is gone.
\<close>

theorem PurgeThumbnails_complete:
  assumes "\<And>n m. mset (ord n m) = mset m" and "distinct (tbl_thumbnails w)"
    and "(length (tbl_thumbnails w) + 1)\<^sup>2 \<le> fuel" and "NowMillis w = (Inr n, w1)"
    and "b = int64 (n - days_ms (mth_ExpireDays (MainThumbnails (cfg w))))"
    and "0 < mth_ExpireDays (MainThumbnails (cfg w))"
    and "faults w = []" and "\<forall>t \<in> set (tbl_thumbnails w). known_datastore ctx (DatastoreId t)"
  shows "\<exists>w'. PurgeThumbnails ord fuel ctx w = (Inr (Some ()), w') \<and>
    set (tbl_thumbnails w') = {t \<in> set (tbl_thumbnails w). t_CreationTs t \<ge> b} \<and>
    (\<forall>t \<in> set (tbl_thumbnails w). place t \<notin> place ` set (tbl_media w) \<and>
       (\<forall>u \<in> set (tbl_thumbnails w). place u = place t \<longrightarrow> t_CreationTs u < b) \<longrightarrow> objects w' (place t) = None)"
proof -
  obtain w' m where run: "PurgeThumbnails ord fuel ctx w = (Inr (Some ()), w')"
    and inv: "db_thumbs.batch_inv (world_view w) b m w'" and empty: "candidates w' b None = {}"
    and gone: "\<forall>t \<in> set (tbl_thumbnails w) - set (tbl_thumbnails w'). db_thumbs.freed (world_view w) b (world_view w') (place t)"
    using PurgeThumbnails_run [where ord = ord and H = True and ctx = ctx, OF assms(1-5) _ assms(6)] assms(7,8)
    by (auto simp: loop_st_def world_healthy_def world_view_def)
  have rows: "set (tbl_thumbnails w') = {t \<in> set (tbl_thumbnails w). t_CreationTs t \<ge> b}"
    using inv empty by (auto simp: db_thumbs.batch_inv_def world_view_def candidates_def)
  moreover have "objects w' (place t) = None"
    if t: "t \<in> set (tbl_thumbnails w)" "place t \<notin> place ` set (tbl_media w)"
      "\<forall>u \<in> set (tbl_thumbnails w). place u = place t \<longrightarrow> t_CreationTs u < b" for t
  proof -
    have "db_thumbs.removable (world_view w) b (place t)"
      using t by (auto simp: db_thumbs.removable_def world_view_def list_ex_iff image_iff)
    moreover have "t \<notin> set (tbl_thumbnails w')" using t rows by fastforce
    ultimately show ?thesis using gone t(1) by (auto simp: db_thumbs.freed_def world_view_def)
  qed
  ultimately show ?thesis using run by blast
qed

theorem PurgeThumbnails_complete_witness:
  "\<exists>w'. PurgeThumbnails (\<lambda>n m. rev m) 4 demo_ctx expiry_world = (Inr (Some ()), w') \<and>
    set (tbl_thumbnails w') = {} \<and> objects w' (''fs'', ''t1'') = None"
proof -
  have "known_datastore demo_ctx (DatastoreId demo_t1)" "faults expiry_world = []"
    using expiry_world_simps(6) by (simp_all add: world_healthy_def expiry_world_simps)
  then obtain w' where "PurgeThumbnails (\<lambda>n m. rev m) 4 demo_ctx expiry_world = (Inr (Some ()), w')"
    and "set (tbl_thumbnails w') = {t \<in> {demo_t1}. t_CreationTs t \<ge> 13600000}"
    and "place demo_t1 \<notin> place ` set (tbl_media expiry_world) \<Longrightarrow> t_CreationTs demo_t1 < 13600000 \<Longrightarrow>
      objects w' (place demo_t1) = None"
    using PurgeThumbnails_complete [of "\<lambda>n m. rev m" expiry_world 4 100000000 expiry_world 13600000 demo_ctx]
    by (auto simp: expiry_world_simps power2_eq_square)
  then show ?thesis
    by (intro exI [of _ w']) (simp add: expiry_world_simps demo_simps)
qed

end
