(* ===== verification/Readers.thy ===== *)
theory Readers
  imports MediaTable
begin

text \<open>
  The stream wrappers of \<^verbatim>\<open>util/readers\<close>, over Go's contract of \<open>io.Reader\<close>.

  A reader is a state with a function \<open>Read\<close> that takes the length of the caller's buffer
  and returns the bytes put there and the error, if any.  The locale \<open>io_reader\<close> is the
  contract: bytes come in order, no more than asked for, an error only at the end, and
  progress.  (Go discourages a \<open>Read\<close> that returns no bytes and no error; the contract
  excludes it.)  \<open>bytesReader\<close> is a source that delivers its bytes in pieces of arbitrary
  sizes and may report the end along with the last piece.
\<close>

type_synonym 'r Read = "'r \<Rightarrow> nat \<Rightarrow> (bytes \<times> goerr option) \<times> 'r"

section \<open>Sources and copying\<close>

record bytesReader =
  br_data :: bytes
  br_pieces :: "nat list"
  br_end :: goerr
  br_eager :: bool

definition br_Read :: "bytesReader Read" where
  "br_Read r len =
     (if br_data r = [] then (([], Some (br_end r)), r)
      else if len = 0 then (([], None), r)
      else
        let k = (case br_pieces r of [] \<Rightarrow> len | n # _ \<Rightarrow> min (Suc n) len);
            r' = r\<lparr>br_data := drop k (br_data r), br_pieces := tl (br_pieces r)\<rparr>
        in ((take k (br_data r), if br_eager r \<and> br_data r' = [] then Some (br_end r) else None), r'))"

text \<open>
  \<open>io.Copy\<close>: reads into a buffer until an error, which is not reported when it is \<open>EOF\<close>.
  The result \<open>None\<close> means that the fuel did not suffice.
\<close>

definition copyBufferSize :: nat where
  "copyBufferSize = 32 * 1024"

fun io_Copy :: "nat \<Rightarrow> 'r Read \<Rightarrow> nat \<Rightarrow> 'r \<Rightarrow> (bytes \<times> goerr option) option" where
  "io_Copy 0 Read' size' r = None"
| "io_Copy (Suc fuel) Read' size' r =
     (case Read' r size' of ((chunk, err), r') \<Rightarrow>
        case err of
          Some e \<Rightarrow> Some (chunk, if e = ErrEOF then None else Some e)
        | None \<Rightarrow> map_option (\<lambda>(out, e). (chunk @ out, e)) (io_Copy fuel Read' size' r'))"

section \<open>error\_limit\_reader.go\<close>

record 'r limitedReader =
  lr_r :: 'r
  lr_n :: int

definition LimitReaderWithOverrunError :: "'r \<Rightarrow> int \<Rightarrow> 'r limitedReader" where
  "LimitReaderWithOverrunError r n = \<lparr>lr_r = r, lr_n = n\<rparr>"

definition limitedReader_Read :: "'r Read \<Rightarrow> 'r limitedReader Read" where
  "limitedReader_Read Read' r len =
     (if lr_n r \<le> 0 then
        (case Read' (lr_r r) 1 of ((b, err), r') \<Rightarrow>
           ((if len = 0 then ([], Some (Panic ''index out of range''))
             else if err \<noteq> None then (b, Some ErrEOF)
             else if length b > 0 then (b, Some ErrMediaTooLarge)
             else (b, Some ErrEOF)), r\<lparr>lr_r := r'\<rparr>))
      else
        (case Read' (lr_r r) len of ((b, err), r') \<Rightarrow>
           ((b, err), \<lparr>lr_r = r', lr_n = lr_n r - int (length b)\<rparr>)))"

section \<open>buffer\_reads\_reader.go\<close>

text \<open>
  \<open>io.MultiReader(b, original)\<close> with its first reader a \<open>bytes.Buffer\<close>, which is dropped
  (\<open>None\<close>) once it reports its end.
\<close>

record 'r multiReader =
  mr_first :: "bytes option"
  mr_second :: 'r

definition multiReader_Read :: "'r Read \<Rightarrow> 'r multiReader Read" where
  "multiReader_Read Read' m len =
     (case mr_first m of
        Some (c # b) \<Rightarrow> ((take len (c # b), None), m\<lparr>mr_first := Some (drop len (c # b))\<rparr>)
      | _ \<Rightarrow>
          if mr_first m = Some [] \<and> len = 0 then (([], None), m)
          else (case Read' (mr_second m) len of (res, r') \<Rightarrow> (res, \<lparr>mr_first = None, mr_second = r'\<rparr>)))"

record 'r BufferReadsReader =
  brr_original :: 'r
  brr_b :: bytes
  brr_pr :: bool

definition NewBufferReadsReader :: "'r \<Rightarrow> 'r BufferReadsReader" where
  "NewBufferReadsReader r = \<lparr>brr_original = r, brr_b = [], brr_pr = False\<rparr>"

definition BufferReadsReader_Read :: "'r Read \<Rightarrow> 'r BufferReadsReader Read" where
  "BufferReadsReader_Read Read' r len =
     (if brr_pr r
      then (([], Some (ErrOther ''cannot read from this stream anymore - use the created prefixed reader'')), r)
      else (case Read' (brr_original r) len of ((b, err), o') \<Rightarrow>
              ((b, err), r\<lparr>brr_original := o', brr_b := brr_b r @ b\<rparr>)))"

definition MakeRewoundReader :: "'r BufferReadsReader \<Rightarrow> (goerr + 'r multiReader) \<times> 'r BufferReadsReader" where
  "MakeRewoundReader r =
     (if brr_pr r then (Inl (ErrOther ''prefixed reader already created from this reader''), r)
      else (Inr \<lparr>mr_first = Some (brr_b r), mr_second = brr_original r\<rparr>, r\<lparr>brr_pr := True\<rparr>))"

section \<open>rewind\_reader.go\<close>

record seeker =
  sk_data :: bytes
  sk_pos :: nat

definition seeker_Read :: "seeker Read" where
  "seeker_Read s len =
     (if sk_pos s \<ge> length (sk_data s) then (([], Some ErrEOF), s)
      else ((take len (drop (sk_pos s) (sk_data s)), None), s\<lparr>sk_pos := min (sk_pos s + len) (length (sk_data s))\<rparr>))"

record RewindReader =
  rw_r :: seeker

definition NewRewindReader :: "seeker \<Rightarrow> RewindReader" where
  "NewRewindReader r = \<lparr>rw_r = r\<rparr>"

definition RewindReader_Read :: "RewindReader Read" where
  "RewindReader_Read r len = (case seeker_Read (rw_r r) len of (res, s) \<Rightarrow> (res, r\<lparr>rw_r := s\<rparr>))"

definition RewindReader_Close :: "RewindReader \<Rightarrow> RewindReader" where
  "RewindReader_Close r = r\<lparr>rw_r := (rw_r r)\<lparr>sk_pos := 0\<rparr>\<rparr>"

section \<open>The contract\<close>

locale io_reader =
  fixes Read' :: "'r Read"
    and rest :: "'r \<Rightarrow> bytes"
    and final :: "'r \<Rightarrow> goerr"
    and valid :: "'r \<Rightarrow> bool"
  assumes valid_read: "valid r \<Longrightarrow> Read' r len = (res, r') \<Longrightarrow> valid r'"
    and read_bytes: "valid r \<Longrightarrow> Read' r len = ((b, err), r') \<Longrightarrow> rest r = b @ rest r' \<and> length b \<le> len"
    and read_err: "valid r \<Longrightarrow> Read' r len = ((b, Some e), r') \<Longrightarrow> rest r' = [] \<and> e = final r"
    and read_final: "valid r \<Longrightarrow> Read' r len = ((b, err), r') \<Longrightarrow> final r' = final r"
    and read_progress: "valid r \<Longrightarrow> Read' r len = ((b, None), r') \<Longrightarrow> 0 < len \<Longrightarrow> b \<noteq> []"
begin

text \<open>Copying delivers everything, whatever the sizes of the pieces.\<close>

lemma Copy_all:
  assumes "valid r" "length (rest r) < fuel" "0 < size'"
  shows "io_Copy fuel Read' size' r = Some (rest r, if final r = ErrEOF then None else Some (final r))"
  using assms
proof (induction fuel arbitrary: r)
  case (Suc fuel)
  obtain b err r' where read: "Read' r size' = ((b, err), r')" by (metis prod.collapse)
  show ?case
  proof (cases err)
    case None
    with read Suc.prems have "b \<noteq> []" "rest r = b @ rest r'" "valid r'" "final r' = final r"
      using read_progress read_bytes valid_read read_final by blast+
    with None read Suc show ?thesis by (cases b) auto
  next
    case (Some e)
    with read Suc.prems show ?thesis using read_err [of r size' b e r'] read_bytes [of r size' b err r'] by auto
  qed
qed simp

text \<open>The overrun reader: it never cuts a stream short, and lets less than a buffer too much through.\<close>

lemma limited_Copy:
  assumes "valid r" "length (rest r) < fuel" "0 < size'" and eof: "final r = ErrEOF"
  shows "\<exists>out err. io_Copy (Suc fuel) (limitedReader_Read Read') size' \<lparr>lr_r = r, lr_n = n\<rparr> = Some (out, err) \<and>
    (err = None \<and> out = rest r \<and> (int (length (rest r)) \<le> n + int size' \<or> length (rest r) \<le> 1) \<or>
     err = Some ErrMediaTooLarge \<and> n < int (length (rest r)))"
  using assms
proof (induction fuel arbitrary: r n)
  case (Suc fuel)
  show ?case
  proof (cases "n \<le> 0")
    case True
    obtain b err r' where read: "Read' r 1 = ((b, err), r')" by (metis prod.collapse)
    then have "rest r = b @ rest r'" "length b \<le> 1" using read_bytes Suc.prems by auto
    then show ?thesis
      using True read Suc.prems read_err [of r 1 b _ r'] read_progress [of r 1 b r']
      by (cases err; cases b) (auto simp: limitedReader_Read_def)
  next
    case False
    obtain b err r' where read: "Read' r size' = ((b, err), r')" by (metis prod.collapse)
    then have b: "rest r = b @ rest r'" "length b \<le> size'" using read_bytes Suc.prems by auto
    show ?thesis
    proof (cases err)
      case (Some e)
      then have "rest r' = []" "e = ErrEOF" using read Suc.prems read_err [of r size' b e r'] by auto
      with Some False read b show ?thesis by (subst io_Copy.simps(2)) (auto simp: limitedReader_Read_def)
    next
      case None
      then have "b \<noteq> []" "valid r'" "final r' = ErrEOF"
        using read Suc.prems read_progress [of r size' b r'] valid_read read_final [of r size' b err r'] by auto
      moreover have "length (rest r') < fuel" using b Suc.prems(2) \<open>b \<noteq> []\<close> by (cases b) auto
      ultimately obtain out err' where "io_Copy (Suc fuel) (limitedReader_Read Read') size' \<lparr>lr_r = r', lr_n = n - int (length b)\<rparr> = Some (out, err')"
        and "err' = None \<and> out = rest r' \<and> (int (length (rest r')) \<le> n - int (length b) + int size' \<or> length (rest r') \<le> 1) \<or>
             err' = Some ErrMediaTooLarge \<and> n - int (length b) < int (length (rest r'))"
        using Suc.IH [of r' "n - int (length b)"] Suc.prems(3) by blast
      moreover have "limitedReader_Read Read' \<lparr>lr_r = r, lr_n = n\<rparr> size' = ((b, None), \<lparr>lr_r = r', lr_n = n - int (length b)\<rparr>)"
        using None False read by (simp add: limitedReader_Read_def)
      ultimately show ?thesis
        using False b by (subst io_Copy.simps(2)) (auto simp del: io_Copy.simps)
    qed
  qed
qed simp

end

section \<open>Readers that keep the contract\<close>

interpretation source: io_reader br_Read br_data br_end "\<lambda>r. True"
  by unfold_locales (auto simp: br_Read_def Let_def split: if_splits list.splits)

interpretation rewound: io_reader "multiReader_Read br_Read" "\<lambda>m. (case mr_first m of None \<Rightarrow> [] | Some b \<Rightarrow> b) @ br_data (mr_second m)"
  "\<lambda>m. br_end (mr_second m)" "\<lambda>m. True"
proof unfold_locales
  fix m :: "bytesReader multiReader" and len b err m'
  assume "multiReader_Read br_Read m len = ((b, err), m')"
  then show "(case mr_first m of None \<Rightarrow> [] | Some b \<Rightarrow> b) @ br_data (mr_second m) =
      b @ (case mr_first m' of None \<Rightarrow> [] | Some b \<Rightarrow> b) @ br_data (mr_second m') \<and> length b \<le> len"
    by (auto simp: multiReader_Read_def split: option.splits list.splits prod.splits if_splits dest: source.read_bytes [OF TrueI])
next
  fix m :: "bytesReader multiReader" and len b e m'
  assume "multiReader_Read br_Read m len = ((b, Some e), m')"
  then show "(case mr_first m' of None \<Rightarrow> [] | Some b \<Rightarrow> b) @ br_data (mr_second m') = [] \<and> e = br_end (mr_second m)"
    by (auto simp: multiReader_Read_def split: option.splits list.splits prod.splits if_splits dest: source.read_err [OF TrueI])
next
  fix m :: "bytesReader multiReader" and len b err m'
  assume "multiReader_Read br_Read m len = ((b, err), m')"
  then show "br_end (mr_second m') = br_end (mr_second m)"
    by (auto simp: multiReader_Read_def split: option.splits list.splits prod.splits if_splits dest: source.read_final [OF TrueI])
next
  fix m :: "bytesReader multiReader" and len b m'
  assume "multiReader_Read br_Read m len = ((b, None), m')" "0 < len"
  then show "b \<noteq> []"
    by (auto simp: multiReader_Read_def split: option.splits list.splits prod.splits if_splits dest: source.read_progress [OF TrueI])
qed simp

lemma split_seek: "drop p d = take len (drop p d) @ drop (p + len) d"
  by (metis append_take_drop_id drop_drop add.commute)

interpretation seek: io_reader seeker_Read "\<lambda>s. drop (sk_pos s) (sk_data s)" "\<lambda>s. ErrEOF" "\<lambda>s. True"
  by unfold_locales (auto simp: seeker_Read_def min_def split_seek split: if_splits)

interpretation buffering: io_reader "BufferReadsReader_Read br_Read" "\<lambda>r. br_data (brr_original r)"
  "\<lambda>r. br_end (brr_original r)" "\<lambda>r. \<not> brr_pr r"
  by unfold_locales
     (auto simp: BufferReadsReader_Read_def split: prod.splits
        dest: source.read_bytes [OF TrueI] source.read_err [OF TrueI] source.read_final [OF TrueI] source.read_progress [OF TrueI])

text \<open>
  Copying through the overrun reader either delivers the whole stream, which is then
  longer than the limit by at most one copy buffer, or fails with the too-large error,
  and then the stream is longer than the limit.  A stream within the limit always passes.
\<close>

theorem LimitReader_bound:
  assumes "br_end r = ErrEOF" and "0 < n" and "length (br_data r) < fuel"
  shows "\<exists>out err. io_Copy (Suc fuel) (limitedReader_Read br_Read) copyBufferSize (LimitReaderWithOverrunError r n) = Some (out, err) \<and>
    (err = None \<and> out = br_data r \<and> int (length (br_data r)) \<le> n + int copyBufferSize \<or>
     err = Some ErrMediaTooLarge \<and> n < int (length (br_data r)))"
  using source.limited_Copy [of r fuel copyBufferSize n] assms
  by (fastforce simp: LimitReaderWithOverrunError_def copyBufferSize_def)

theorem LimitReader_bound_witness:
  "\<exists>out err. io_Copy 5 (limitedReader_Read br_Read) copyBufferSize
      (LimitReaderWithOverrunError \<lparr>br_data = ''abc'', br_pieces = [0, 0], br_end = ErrEOF, br_eager = False\<rparr> 1) = Some (out, err) \<and>
    (err = None \<and> out = ''abc'' \<and> 3 \<le> 1 + int copyBufferSize \<or> err = Some ErrMediaTooLarge \<and> (1 :: int) < 3)"
  using LimitReader_bound [of "\<lparr>br_data = ''abc'', br_pieces = [0, 0], br_end = ErrEOF, br_eager = False\<rparr>" 1 4] by simp

text \<open>
  The limit is not exact: a source that fills the copy buffer in one \<open>Read\<close> passes the
  overrun reader although it is longer than the limit.
\<close>

theorem LimitReader_overrun:
  assumes "0 < n" and "n < int (length d)" and "length d \<le> copyBufferSize"
  shows "io_Copy 2 (limitedReader_Read br_Read) copyBufferSize
     (LimitReaderWithOverrunError \<lparr>br_data = d, br_pieces = [], br_end = ErrEOF, br_eager = False\<rparr> n) = Some (d, None)"
  using assms
  by (cases d) (auto simp: numeral_2_eq_2 LimitReaderWithOverrunError_def limitedReader_Read_def br_Read_def Let_def copyBufferSize_def)

theorem LimitReader_overrun_witness:
  "io_Copy 2 (limitedReader_Read br_Read) copyBufferSize
     (LimitReaderWithOverrunError \<lparr>br_data = ''abc'', br_pieces = [], br_end = ErrEOF, br_eager = False\<rparr> 1) = Some (''abc'', None)"
  using LimitReader_overrun [of 1 "''abc''"] by (simp add: copyBufferSize_def)

lemma BufferReads_reads:
  assumes "\<not> brr_pr b"
  shows "let b' = foldl (\<lambda>b len. snd (BufferReadsReader_Read br_Read b len)) b lens in
    \<not> brr_pr b' \<and> brr_b b' @ br_data (brr_original b') = brr_b b @ br_data (brr_original b) \<and>
    br_end (brr_original b') = br_end (brr_original b)"
  using assms
proof (induction lens arbitrary: b)
  case (Cons len lens)
  let ?b = "snd (BufferReadsReader_Read br_Read b len)"
  obtain c err o' where "br_Read (brr_original b) len = ((c, err), o')" by (metis prod.collapse)
  then have "\<not> brr_pr ?b" "brr_b ?b @ br_data (brr_original ?b) = brr_b b @ br_data (brr_original b)"
    "br_end (brr_original ?b) = br_end (brr_original b)"
    using Cons.prems source.read_bytes [of "brr_original b" len c err o'] source.read_final [of "brr_original b" len c err o']
    by (auto simp: BufferReadsReader_Read_def)
  with Cons.IH [of ?b] show ?case by (simp add: Let_def)
qed simp

text \<open>
  Whatever has been read through a \<open>BufferReadsReader\<close>, the rewound reader delivers
  the stream from its beginning.
\<close>

theorem BufferReads_rewound:
  assumes "br_end r = ErrEOF" and "length (br_data r) < fuel" and "0 < size'"
  shows "\<exists>m b'. MakeRewoundReader (foldl (\<lambda>b len. snd (BufferReadsReader_Read br_Read b len)) (NewBufferReadsReader r) lens) = (Inr m, b') \<and>
    io_Copy fuel (multiReader_Read br_Read) size' m = Some (br_data r, None)"
  using BufferReads_reads [of "NewBufferReadsReader r" lens] assms
  by (auto simp: NewBufferReadsReader_def MakeRewoundReader_def Let_def rewound.Copy_all)

theorem BufferReads_rewound_witness:
  "\<exists>m b'. MakeRewoundReader (foldl (\<lambda>b len. snd (BufferReadsReader_Read br_Read b len))
      (NewBufferReadsReader \<lparr>br_data = ''hello'', br_pieces = [1], br_end = ErrEOF, br_eager = True\<rparr>) [4, 1]) = (Inr m, b') \<and>
    io_Copy 6 (multiReader_Read br_Read) 2 m = Some (''hello'', None)"
  using BufferReads_rewound [of "\<lparr>br_data = ''hello'', br_pieces = [1], br_end = ErrEOF, br_eager = True\<rparr>" 6 2 "[4, 1]"] by simp

lemma RewindReader_rewinds:
  "io_Copy (Suc (length (sk_data s))) seeker_Read (Suc n)
     (rw_r (RewindReader_Close (foldl (\<lambda>r len. snd (RewindReader_Read r len)) (NewRewindReader s) lens))) = Some (sk_data s, None)"
proof -
  have "sk_data (rw_r (foldl (\<lambda>r len. snd (RewindReader_Read r len)) r lens)) = sk_data (rw_r r)" for r
    by (induction lens arbitrary: r) (auto simp: RewindReader_Read_def seeker_Read_def)
  then show ?thesis
    by (subst seek.Copy_all) (simp_all add: RewindReader_Close_def NewRewindReader_def)
qed

end
