(* ===== verification/Quota.thy ===== *)
theory Quota
  imports Tables
begin

text \<open>
  Upload quotas (\<^verbatim>\<open>pipelines/_steps/quota/check.go\<close>).  Glob matching is the parameter
  \<open>glob\<close> (\<^verbatim>\<open>github.com/ryanuber/go-glob\<close>).  The type of a quota is an integer, as in the
  code, so that the branches for unknown types exist.
\<close>

type_synonym QuotaType = int

definition MaxBytes :: QuotaType where "MaxBytes = 0"
definition MaxPending :: QuotaType where "MaxPending = 1"
definition MaxCount :: QuotaType where "MaxCount = 2"

lemma quota_types:
  "MaxBytes \<noteq> MaxPending" "MaxBytes \<noteq> MaxCount" "MaxPending \<noteq> MaxCount"
  "MaxPending \<noteq> MaxBytes" "MaxCount \<noteq> MaxBytes" "MaxCount \<noteq> MaxPending"
  by (simp_all add: MaxBytes_def MaxPending_def MaxCount_def)

definition defaultLimit :: "RequestContext \<Rightarrow> QuotaType \<Rightarrow> goerr + int" where
  "defaultLimit ctx quotaType =
     (if quotaType = MaxBytes then Inr (- 1)
      else if quotaType = MaxPending then Inr (up_MaxPending (Uploads (ctx_Config ctx)))
      else if quotaType = MaxCount then Inr 0
      else Inl (ErrOther ''no default for quota type - contact developer''))"

fun glob_limit :: "(string \<Rightarrow> string \<Rightarrow> bool) \<Rightarrow> string \<Rightarrow> QuotaType \<Rightarrow> QuotaUserConfig list \<Rightarrow> (goerr + int) option" where
  "glob_limit glob userId quotaType [] = None"
| "glob_limit glob userId quotaType (q # qs) =
     (if glob (quota_Glob q) userId then
        Some (if quotaType = MaxBytes then Inr (quota_MaxBytes q)
              else if quotaType = MaxPending then Inr (quota_MaxPending q)
              else if quotaType = MaxCount then Inr (quota_MaxFiles q)
              else Inl (ErrOther ''missing glob switch for quota type - contact developer''))
      else glob_limit glob userId quotaType qs)"

definition Limit :: "(string \<Rightarrow> string \<Rightarrow> bool) \<Rightarrow> RequestContext \<Rightarrow> string \<Rightarrow> QuotaType \<Rightarrow> goerr + int" where
  "Limit glob ctx userId quotaType =
     (let quota = up_Quota (Uploads (ctx_Config ctx)) in
      if \<not> quotas_Enabled quota then defaultLimit ctx quotaType
      else case glob_limit glob userId quotaType (quotas_UserQuotas quota) of
        Some r \<Rightarrow> r
      | None \<Rightarrow> defaultLimit ctx quotaType)"

definition lift_result :: "goerr + 'a \<Rightarrow> ('s, 'a) io" where
  "lift_result r = (case r of Inl e \<Rightarrow> throwE e | Inr x \<Rightarrow> returnE x)"

definition Current :: "string \<Rightarrow> QuotaType \<Rightarrow> (world, int) io" where
  "Current userId quotaType =
     (if quotaType = MaxBytes then userStats_UserUploadedBytes userId
      else if quotaType = MaxPending then expiring_ByUserCount userId
      else if quotaType = MaxCount then media_ByUserCount userId
      else throwE (ErrOther ''missing current count for quota type - contact developer''))"

definition quota_Check :: "(string \<Rightarrow> string \<Rightarrow> bool) \<Rightarrow> RequestContext \<Rightarrow> string \<Rightarrow> QuotaType \<Rightarrow> (world, unit) io" where
  "quota_Check glob ctx userId quotaType =
     bindE (lift_result (Limit glob ctx userId quotaType)) (\<lambda>limit.
     if (quotaType = MaxBytes \<or> quotaType = MaxCount \<or> quotaType = MaxPending) \<and> limit \<le> 0 then returnE ()
     else bindE (Current userId quotaType) (\<lambda>count.
       if count < limit then returnE () else throwE ErrQuotaExceeded))"

definition CanUpload :: "(string \<Rightarrow> string \<Rightarrow> bool) \<Rightarrow> RequestContext \<Rightarrow> string \<Rightarrow> int \<Rightarrow> (world, unit) io" where
  "CanUpload glob ctx userId bytes' =
     bindE (lift_result (Limit glob ctx userId MaxBytes)) (\<lambda>limit.
     if limit < 0 then returnE ()
     else bindE (Current userId MaxBytes) (\<lambda>count.
       if int64 (count + bytes') > limit then throwE ErrQuotaExceeded
       else quota_Check glob ctx userId MaxCount))"

section \<open>Facts\<close>

lemma lift_result_run [io_simps]: "lift_result r s = (r, s)"
  by (cases r) (auto simp: lift_result_def io_simps)

lemma preserves_lift_result [hoare_intros]: "preserves I (lift_result r)"
  by (rule preservesI) (simp add: io_simps)

lemma preserves_Current [hoare_intros]: "env_stable I \<Longrightarrow> preserves I (Current userId quotaType)"
  unfolding Current_def userStats_UserUploadedBytes_def expiring_ByUserCount_def media_ByUserCount_def
  by (intro hoare_intros)

lemma preserves_quota_Check [hoare_intros]: "env_stable I \<Longrightarrow> preserves I (quota_Check glob ctx userId quotaType)"
  unfolding quota_Check_def by (intro hoare_intros)

lemma preserves_CanUpload [hoare_intros]: "env_stable I \<Longrightarrow> preserves I (CanUpload glob ctx userId n)"
  unfolding CanUpload_def by (intro hoare_intros)

text \<open>The limit of a user: the first matching entry, or the default.\<close>

definition limit_of :: "(string \<Rightarrow> string \<Rightarrow> bool) \<Rightarrow> RequestContext \<Rightarrow> string \<Rightarrow> (QuotaUserConfig \<Rightarrow> int) \<Rightarrow> int \<Rightarrow> int" where
  "limit_of glob ctx userId field dflt =
     (let quota = up_Quota (Uploads (ctx_Config ctx)) in
      case List.find (\<lambda>q. quotas_Enabled quota \<and> glob (quota_Glob q) userId) (quotas_UserQuotas quota) of
        None \<Rightarrow> dflt | Some q \<Rightarrow> field q)"

lemma glob_limit_find:
  "glob_limit glob userId quotaType qs = map_option (\<lambda>q.
     if quotaType = MaxBytes then Inr (quota_MaxBytes q)
     else if quotaType = MaxPending then Inr (quota_MaxPending q)
     else if quotaType = MaxCount then Inr (quota_MaxFiles q)
     else Inl (ErrOther ''missing glob switch for quota type - contact developer''))
    (List.find (\<lambda>q. glob (quota_Glob q) userId) qs)"
  by (induction glob userId quotaType qs rule: glob_limit.induct) auto

lemma find_False [simp]: "List.find (\<lambda>x. False) xs = None"
  by (induction xs) auto

lemma Limit_limit_of:
  "Limit glob ctx userId MaxBytes = Inr (limit_of glob ctx userId quota_MaxBytes (- 1))"
  "Limit glob ctx userId MaxPending = Inr (limit_of glob ctx userId quota_MaxPending (up_MaxPending (Uploads (ctx_Config ctx))))"
  "Limit glob ctx userId MaxCount = Inr (limit_of glob ctx userId quota_MaxFiles 0)"
  by (auto simp: Limit_def limit_of_def defaultLimit_def glob_limit_find quota_types Let_def split: option.split)

lemma CanUpload_ok:
  assumes "CanUpload glob ctx userId n w = (Inr (), w')" and "limit_of glob ctx userId quota_MaxBytes (- 1) \<ge> 0"
  shows "int64 (stats_of userId (tbl_user_stats w) + n) \<le> limit_of glob ctx userId quota_MaxBytes (- 1)"
proof -
  obtain count w1 where "userStats_UserUploadedBytes userId w = (Inr count, w1)"
    and "int64 (count + n) \<le> limit_of glob ctx userId quota_MaxBytes (- 1)"
    using assms by (auto simp: CanUpload_def Limit_limit_of Current_def quota_types io_simps split: prod.splits sum.splits if_splits)
  then show ?thesis
    by (auto simp: userStats_UserUploadedBytes_def dest!: ext_getsE_result)
qed

text \<open>
  C12: When no query fails, an upload of \<open>n\<close> bytes is let through exactly when the byte
  limit of the user is negative, whatever the number of files, or the bytes stay within it and
  the number of files is below its limit (a limit of zero files or less is no limit).  A byte
  limit of zero is a limit: it forbids every upload that is not empty, although
  \<^verbatim>\<open>config.sample.yaml\<close> documents zero as no limit.
\<close>

theorem CanUpload_iff:
  assumes "faults w = []" and "in_int64 (stats_of userId (tbl_user_stats w) + n)"
  shows "CanUpload glob ctx userId n w =
    ((let bytes' = limit_of glob ctx userId quota_MaxBytes (- 1); files = limit_of glob ctx userId quota_MaxFiles 0 in
      if bytes' < 0 \<or> stats_of userId (tbl_user_stats w) + n \<le> bytes' \<and>
           (files \<le> 0 \<or> int (length (filter (\<lambda>m. m_UserId m = userId) (tbl_media w))) < files)
      then Inr () else Inl ErrQuotaExceeded), w)"
  using assms
  by (auto simp: CanUpload_def quota_Check_def Limit_limit_of Current_def quota_types io_simps Let_def
      userStats_UserUploadedBytes_def media_ByUserCount_def)

definition quota_ctx :: RequestContext where
  "quota_ctx = demo_ctx\<lparr>ctx_Config := demo_domain\<lparr>Uploads := (Uploads demo_domain)\<lparr>up_Quota :=
     \<lparr>quotas_Enabled = True, quotas_UserQuotas =
        [\<lparr>quota_Glob = ''@u:*'', quota_MaxBytes = 5, quota_MaxPending = 1, quota_MaxFiles = 2\<rparr>]\<rparr>\<rparr>\<rparr>\<rparr>"

theorem CanUpload_iff_witness:
  "CanUpload (\<lambda>g u. g = ''@u:*'' \<and> u = ''@u:a.org'') quota_ctx ''@u:a.org'' 2 demo_world = (Inr (), demo_world) \<and>
   CanUpload (\<lambda>g u. g = ''@u:*'' \<and> u = ''@u:a.org'') quota_ctx ''@u:a.org'' 3 demo_world = (Inl ErrQuotaExceeded, demo_world)"
  using CanUpload_iff [of demo_world "''@u:a.org''" 2 "\<lambda>g u. g = ''@u:*'' \<and> u = ''@u:a.org''" quota_ctx]
    CanUpload_iff [of demo_world "''@u:a.org''" 3 "\<lambda>g u. g = ''@u:*'' \<and> u = ''@u:a.org''" quota_ctx]
  by (simp add: limit_of_def quota_ctx_def stats_of_def in_int64_def demo_simps)

end
