(* ===== verification/Upload.thy ===== *)
theory Upload
  imports Quarantine Readers Quota
begin

text \<open>
  The upload pipelines (\<^verbatim>\<open>pipelines/pipeline_upload\<close>, \<^verbatim>\<open>pipelines/pipeline_create\<close>) with
  their steps (\<^verbatim>\<open>pipelines/_steps/upload\<close>, \<^verbatim>\<open>pipelines/_steps/meta\<close>), the restrictions
  (\<^verbatim>\<open>restrictions/auth.go\<close>), the media cache (\<^verbatim>\<open>redislib/cache.go\<close>) and the spam check of the
  plugins (\<^verbatim>\<open>plugins/manager.go\<close>).

  The goroutines of an upload (spam check, cache population) only share the stream with
  it and are joined before the upload goes on, so they are run in place: the spam check
  after the buffering, the cache population after the datastore upload.  A pointer that
  may be nil is an option.  What is outside the repository is collected in \<open>externals\<close>:
  SHA-256, the S3 client's \<open>PutObject\<close>, glob matching, the loaded plugins, and whether the
  process is an import process.
\<close>

section \<open>Parameters\<close>

type_synonym antispam = "string \<Rightarrow> string \<Rightarrow> string \<Rightarrow> string \<Rightarrow> string \<Rightarrow> string \<Rightarrow> goerr + bool"

record mmrPlugin =
  Antispam :: "goerr + antispam"

record externals =
  xt_sha :: "bytes \<Rightarrow> string"
  xt_PutObject :: "bytes \<Rightarrow> int \<Rightarrow> goerr + bytes"
  xt_glob :: "string \<Rightarrow> string \<Rightarrow> bool"
  xt_plugins :: "mmrPlugin list"
  xt_IsImportProcess :: bool

section \<open>plugins/manager.go\<close>

definition base64_chars :: string where
  "base64_chars = ''ABCDEFGHIJKLMNOPQRSTUVWXYZabcdefghijklmnopqrstuvwxyz0123456789+/''"

definition b64 :: "nat \<Rightarrow> char" where
  "b64 n = base64_chars ! (n mod 64)"

fun base64_EncodeToString :: "bytes \<Rightarrow> string" where
  "base64_EncodeToString [] = []"
| "base64_EncodeToString [a] =
     (let x = of_char a :: nat in [b64 (x div 4), b64 (x * 16), CHR ''='', CHR ''=''])"
| "base64_EncodeToString [a, b] =
     (let x = of_char a :: nat; y = of_char b in [b64 (x div 4), b64 (x * 16 + y div 16), b64 (y * 4), CHR ''=''])"
| "base64_EncodeToString (a # b # c # rest) =
     (let x = of_char a :: nat; y = of_char b; z = of_char c in
      b64 (x div 4) # b64 (x * 16 + y div 16) # b64 (y * 4 + z div 64) # b64 z # base64_EncodeToString rest)"

fun CheckForSpam ::
  "mmrPlugin list \<Rightarrow> bytes \<Rightarrow> string \<Rightarrow> string \<Rightarrow> string \<Rightarrow> string \<Rightarrow> string \<Rightarrow> goerr + bool" where
  "CheckForSpam [] b filename contentType userId origin mediaId = Inr False"
| "CheckForSpam (pl # pls) b filename contentType userId origin mediaId =
     (case Antispam pl of
        Inl _ \<Rightarrow> CheckForSpam pls b filename contentType userId origin mediaId
      | Inr check \<Rightarrow>
          (case check (base64_EncodeToString b) filename contentType userId origin mediaId of
             Inl err \<Rightarrow> Inl err
           | Inr spam \<Rightarrow> if spam then Inr True else CheckForSpam pls b filename contentType userId origin mediaId))"

section \<open>redislib/cache.go\<close>

definition appendBufferSize :: nat where "appendBufferSize = 32 * 1024"
definition redisMaxValueSize :: int where "redisMaxValueSize = 512 * 1024 * 1024"

function pieces :: "nat \<Rightarrow> 'a list \<Rightarrow> 'a list list" where
  "pieces n xs = (if xs = [] \<or> n = 0 then [] else take n xs # pieces n (drop n xs))"
  by auto
termination by (relation "measure (\<lambda>(n, xs). length xs)") auto

definition cache_append :: "string \<Rightarrow> bytes \<Rightarrow> (world, unit) io" where
  "cache_append hash chunk = ext (modifyE (\<lambda>w. w\<lparr>redis_media := (redis_media w)
     (hash \<mapsto> (case redis_media w hash of None \<Rightarrow> [] | Some b \<Rightarrow> b) @ chunk)\<rparr>))"

fun store_loop :: "string \<Rightarrow> bytes list \<Rightarrow> goerr option \<Rightarrow> (world, unit) io" where
  "store_loop hash [] None = returnE ()"
| "store_loop hash [] (Some err) = thenE (tryE (redis_DeleteMedia hash)) (throwE err)"
| "store_loop hash (c # cs) fin =
     bindE (tryE (cache_append hash c)) (\<lambda>r. case r of
       Inl err \<Rightarrow> thenE (tryE (redis_DeleteMedia hash)) (throwE err)
     | Inr _ \<Rightarrow> store_loop hash cs fin)"

definition StoreMedia :: "string \<Rightarrow> stream \<Rightarrow> int \<Rightarrow> (world, unit) io" where
  "StoreMedia hash content size' =
     bindE (getsE (\<lambda>w. redis_Enabled (Redis (cfg w)))) (\<lambda>ring.
     if \<not> ring \<or> size' \<ge> redisMaxValueSize then returnE ()
     else bindE (tryE (ext (modifyE (\<lambda>w. w\<lparr>redis_media := (redis_media w)(hash \<mapsto> [])\<rparr>)))) (\<lambda>r. case r of
       Inl err \<Rightarrow> thenE (tryE (redis_DeleteMedia hash)) (throwE err)
     | Inr _ \<Rightarrow> store_loop hash (pieces appendBufferSize (fst content)) (snd content)))"

definition TryGetMedia :: "string \<Rightarrow> (world, bytes option) io" where
  "TryGetMedia hash =
     bindE (getsE (\<lambda>w. redis_Enabled (Redis (cfg w)))) (\<lambda>ring.
     if \<not> ring then returnE None else ext (getsE (\<lambda>w. redis_media w hash)))"

section \<open>Steps\<close>

definition PopulateCacheAsync :: "stream \<Rightarrow> int \<Rightarrow> string \<Rightarrow> (world, unit) io" where
  "PopulateCacheAsync reader size' sha256hash = bindE (tryE (StoreMedia sha256hash reader size')) (\<lambda>_. returnE ())"

fun GenerateMediaId_loop :: "nat \<Rightarrow> string \<Rightarrow> (world, string) io" where
  "GenerateMediaId_loop 0 origin = throwE (ErrOther ''internal limit reached: unable to generate media ID'')"
| "GenerateMediaId_loop (Suc attempts) origin =
     bindE (tryE NewUniqueId) (\<lambda>r.
     let mediaId = (case r of Inl _ \<Rightarrow> [] | Inr u \<Rightarrow> u) in
     thenE (held_TryInsert origin mediaId ForCreateHeldReason)
    (bindE (media_IdExists origin mediaId) (\<lambda>exists.
     if exists then GenerateMediaId_loop attempts origin
     else bindE (reserved_IdExists origin mediaId) (\<lambda>exists.
       if exists then GenerateMediaId_loop attempts origin
       else returnE mediaId))))"

definition GenerateMediaId :: "bool \<Rightarrow> string \<Rightarrow> (world, string) io" where
  "GenerateMediaId isImport origin =
     (if isImport then throwE (ErrOther ''media IDs should not be generated from import processes'')
      else GenerateMediaId_loop 10 origin)"

text \<open>The comparison of content types compares the record with itself, as the code does.\<close>

fun find_record :: "string \<Rightarrow> string \<Rightarrow> string \<Rightarrow> DbMedia list \<Rightarrow> DbMedia option \<Rightarrow> DbMedia option \<times> bool" where
  "find_record userId contentType fileName [] hashMatch = (hashMatch, False)"
| "find_record userId contentType fileName (r # records) hashMatch =
     (if m_UserId r = userId \<and> m_ContentType r = m_ContentType r \<and> m_UploadName r = fileName then (Some r, True)
      else find_record userId contentType fileName records (if hashMatch = None then Some r else hashMatch))"

definition FindRecord :: "string \<Rightarrow> string \<Rightarrow> string \<Rightarrow> string \<Rightarrow> (world, DbMedia option \<times> bool) io" where
  "FindRecord hash userId contentType fileName =
     bindE (media_GetByHash hash) (\<lambda>records. returnE (find_record userId contentType fileName records None))"

definition LimitStream :: "RequestContext \<Rightarrow> bytesReader \<Rightarrow> bytesReader limitedReader + bytesReader" where
  "LimitStream ctx r =
     (if up_MaxSizeBytes (Uploads (ctx_Config ctx)) > 0
      then Inl (LimitReaderWithOverrunError r (up_MaxSizeBytes (Uploads (ctx_Config ctx))))
      else Inr r)"

text \<open>What copying the reader of an upload gives; enough fuel is given for any reader.\<close>

definition drain :: "bytesReader limitedReader + bytesReader \<Rightarrow> stream" where
  "drain r = (case (case r of
       Inl l \<Rightarrow> io_Copy (length (br_data (lr_r l)) + 2) (limitedReader_Read br_Read) copyBufferSize l
     | Inr b \<Rightarrow> io_Copy (length (br_data b) + 2) br_Read copyBufferSize b) of
     None \<Rightarrow> ([], Some (Panic ''not enough fuel'')) | Some s \<Rightarrow> s)"

definition CheckQuarantineStatus :: "string \<Rightarrow> (world, unit) io" where
  "CheckQuarantineStatus hash = bindE (media_IsHashQuarantined hash) (\<lambda>q.
     if q then throwE ErrMediaQuarantined else returnE ())"

text \<open>
  The lock: each attempt asks whether the request was cancelled and tries to lock; a
  failed attempt is repeated for thirty seconds.  An attempt succeeds once the script
  of failures is used up, which bounds the number of attempts.
\<close>

definition maxLockAttemptTime :: int where "maxLockAttemptTime = 30 * 1000"

fun lock_loop :: "nat \<Rightarrow> int \<Rightarrow> (world, unit) io" where
  "lock_loop 0 attemptDoneAt = throwE (ErrOther ''failed to acquire upload lock: timeout'')"
| "lock_loop (Suc n) attemptDoneAt =
     thenE (ext (returnE ()))
    (bindE (tryE (ext (returnE ()))) (\<lambda>r. case r of
       Inr _ \<Rightarrow> returnE ()
     | Inl err \<Rightarrow> bindE NowMillis (\<lambda>n'.
         if n' > attemptDoneAt then throwE (ErrOther (''failed to acquire upload lock: '' @ err_text err))
         else lock_loop n attemptDoneAt)))"

definition LockForUpload :: "string \<Rightarrow> (world, (world, unit) io) io" where
  "LockForUpload hash =
     bindE (getsE (\<lambda>w. redis_Enabled (Redis (cfg w)))) (\<lambda>ring.
     if \<not> ring then returnE (returnE ())
     else bindE NowMillis (\<lambda>n.
       bindE (getsE (\<lambda>w. length (faults w))) (\<lambda>k.
       thenE (lock_loop (Suc k) (n + maxLockAttemptTime)) (returnE (ext (returnE ()))))))"

definition deferred :: "(world, unit) io \<Rightarrow> (world, 'a) io \<Rightarrow> (world, 'a) io" where
  "deferred f m = bindE (tryE m) (\<lambda>r. thenE (tryE f) (lift_result r))"

definition FlagAccess :: "string \<Rightarrow> int \<Rightarrow> (world, unit) io" where
  "FlagAccess sha256hash uploadTime =
     thenE (if uploadTime > 0 then bindE NowMillis (\<lambda>_. returnE ()) else returnE ())
    (bindE NowMillis (\<lambda>n. bindE (tryE (lastAccess_Upsert sha256hash n)) (\<lambda>_. returnE ())))"

section \<open>restrictions/auth.go\<close>

fun auth_restriction :: "DbRestrictedMedia list \<Rightarrow> bool" where
  "auth_restriction [] = False"
| "auth_restriction (r # rs) =
     (if rm_Condition r = RestrictedRequiresAuth then rm_ConditionValue r = ''true'' else auth_restriction rs)"

definition DoesMediaRequireAuth :: "string \<Rightarrow> string \<Rightarrow> (world, bool) io" where
  "DoesMediaRequireAuth origin mediaId =
     bindE (restricted_GetAllForId origin mediaId) (\<lambda>restrictions. returnE (auth_restriction restrictions))"

definition SetMediaRequiresAuth :: "string \<Rightarrow> string \<Rightarrow> (world, unit) io" where
  "SetMediaRequiresAuth origin mediaId = restricted_Insert origin mediaId RestrictedRequiresAuth ''true''"

section \<open>pipeline\_upload\<close>

text \<open>
  \<open>notifier.UploadDone\<close> tells the waiters of this process, which are not part of this
  state, and publishes to redis.
\<close>

definition uploadDone :: "DbMedia \<Rightarrow> (world, unit) io" where
  "uploadDone record =
     thenE (FlagAccess (Sha256Hash record) 0)
    (bindE (getsE (\<lambda>w. redis_Enabled (Redis (cfg w)))) (\<lambda>ring.
     if \<not> ring then returnE () else bindE (tryE (ext (returnE ()))) (\<lambda>_. returnE ())))"

definition restrict_new :: "DbMedia \<Rightarrow> (world, unit) io" where
  "restrict_new record = bindE (getsE (\<lambda>w. gen_FreezeUnauthenticatedMedia (General (cfg w)))) (\<lambda>freeze.
     whenE freeze (SetMediaRequiresAuth (m_Origin record) (m_MediaId record)))"

text \<open>What follows a successful insertion, in both branches that insert.\<close>

definition finish_upload :: "DbMedia \<Rightarrow> (world, DbMedia option) io" where
  "finish_upload record = thenE (restrict_new record) (thenE (uploadDone record) (returnE (Some record)))"

text \<open>Steps 9 to 14, which run under the lock.\<close>

definition upload_store ::
  "externals \<Rightarrow> DatastoreConfig \<Rightarrow> string \<Rightarrow> string \<Rightarrow> bool \<Rightarrow> string \<Rightarrow> string \<Rightarrow> string \<Rightarrow>
   string \<times> int \<times> bytes \<Rightarrow> (world, DbMedia option) io" where
  "upload_store xt dsConf origin mediaId mustUseMediaId contentType fileName userId buffered =
     (let (sha256hash, sizeBytes, data) = buffered in
      bindE NowMillis (\<lambda>creationTs.
      let newRecord = \<lparr>Sha256Hash = sha256hash, DatastoreId = '''', Location = '''', m_Origin = origin, m_MediaId = mediaId,
            m_UploadName = fileName, m_ContentType = contentType, m_UserId = userId, m_SizeBytes = sizeBytes,
            m_CreationTs = creationTs, m_Quarantined = False\<rparr> in
      bindE (FindRecord sha256hash userId contentType fileName) (\<lambda>(record', perfect).
      case record' of
        Some record \<Rightarrow>
          if perfect \<and> \<not> mustUseMediaId then returnE (Some record)
          else
            let newRecord = newRecord\<lparr>m_Quarantined := m_Quarantined record, DatastoreId := DatastoreId record,
                  Location := Location record\<rparr> in
            thenE (media_Insert newRecord) (finish_upload newRecord)
      | None \<Rightarrow>
          bindE (tryE (datastores_Upload (xt_sha xt) (xt_PutObject xt) dsConf data sizeBytes sha256hash)) (\<lambda>up. case up of
            Inl err \<Rightarrow>
              thenE (PopulateCacheAsync (data, Some (ErrOther ''failed to finish write'')) sizeBytes sha256hash) (throwE err)
          | Inr dsLocation \<Rightarrow>
              thenE (PopulateCacheAsync (data, None) sizeBytes sha256hash)
             (let newRecord = newRecord\<lparr>DatastoreId := ds_Id dsConf, Location := dsLocation\<rparr> in
              bindE (tryE (media_Insert newRecord)) (\<lambda>ins. case ins of
                Inl err \<Rightarrow> thenE (tryE (Remove dsConf dsLocation)) (throwE err)
              | Inr _ \<Rightarrow> finish_upload newRecord))))))"

text \<open>
  A failing spam check makes the code return its variable \<open>err\<close>, which is nil there:
  the result is neither a record nor an error (\<open>None\<close>).
\<close>

definition upload_Execute ::
  "externals \<Rightarrow> RequestContext \<Rightarrow> string \<Rightarrow> string \<Rightarrow> bytesReader \<Rightarrow> string \<Rightarrow> string \<Rightarrow> string \<Rightarrow> Kind \<Rightarrow>
   (world, DbMedia option) io" where
  "upload_Execute xt ctx origin mediaId0 r contentType fileName userId kind =
     (let r' = (if kind = LocalMediaKind then LimitStream ctx r else Inr r) in
      bindE (if mediaId0 = [] then GenerateMediaId (xt_IsImportProcess xt) origin else returnE mediaId0) (\<lambda>mediaId.
      bindE (Pick ctx kind) (\<lambda>dsConf.
      bindE (BufferTemp (xt_sha xt) dsConf (drain r')) (\<lambda>(sha256hash, sizeBytes, data).
      case CheckForSpam (xt_plugins xt) data fileName contentType userId origin mediaId of
        Inl _ \<Rightarrow> returnE None
      | Inr isSpam \<Rightarrow>
          if isSpam then throwE ErrMediaQuarantined
          else
            thenE (CheckQuarantineStatus sha256hash)
           (thenE (whenE (userId \<noteq> [] \<and> \<not> xt_IsImportProcess xt) (CanUpload (xt_glob xt) ctx userId sizeBytes))
           (bindE (LockForUpload sha256hash) (\<lambda>unlockFn.
            deferred unlockFn
              (upload_store xt dsConf origin mediaId (mediaId0 \<noteq> []) contentType fileName userId (sha256hash, sizeBytes, data)))))))))"

definition upload_ExecutePut ::
  "externals \<Rightarrow> RequestContext \<Rightarrow> string \<Rightarrow> string \<Rightarrow> bytesReader \<Rightarrow> string \<Rightarrow> string \<Rightarrow> string \<Rightarrow>
   (world, DbMedia option) io" where
  "upload_ExecutePut xt ctx origin mediaId r contentType fileName userId =
     bindE (media_GetById origin mediaId) (\<lambda>mediaRecord.
     if mediaRecord \<noteq> None then throwE ErrAlreadyUploaded
     else bindE (expiring_Get origin mediaId) (\<lambda>record.
       case record of
         None \<Rightarrow> throwE ErrExpired
       | Some rec \<Rightarrow>
           bindE (IsExpired rec) (\<lambda>expired.
           if expired then throwE ErrExpired
           else if e_UserId rec \<noteq> userId then throwE ErrWrongUser
           else bindE (upload_Execute xt ctx origin mediaId r contentType fileName userId LocalMediaKind) (\<lambda>newRecord.
             thenE (tryE (expiring_Delete origin mediaId)) (returnE newRecord)))))"

section \<open>pipeline\_create\<close>

definition DefaultExpirationTime :: int where "DefaultExpirationTime = 0"

definition create_Execute ::
  "externals \<Rightarrow> RequestContext \<Rightarrow> string \<Rightarrow> string \<Rightarrow> int \<Rightarrow> (world, DbExpiringMedia) io" where
  "create_Execute xt ctx origin userId expirationTime0 =
     thenE (quota_Check (xt_glob xt) ctx userId MaxPending)
    (bindE (GenerateMediaId (xt_IsImportProcess xt) origin) (\<lambda>mediaId.
     let expirationTime = (if expirationTime0 = DefaultExpirationTime
           then int64 (up_MaxAgeSeconds (Uploads (ctx_Config ctx)) * 1000) else expirationTime0) in
     bindE NowMillis (\<lambda>n.
     let expiresTs = int64 (n + expirationTime) in
     thenE (expiring_Insert origin mediaId userId expiresTs)
    (returnE \<lparr>e_Origin = origin, e_MediaId = mediaId, e_UserId = userId, e_ExpiresTs = expiresTs\<rparr>))))"

end
