(* ===== verification/UploadFrame.thy ===== *)
theory UploadFrame
  imports Upload
begin

text \<open>
  What \<open>datastores.Upload\<close> does to the rest of the world: it adds one object at a place that
  held none and changes nothing else but the script, the clock and the S3 clients.  The
  archives and the migration between datastores rest on this.
\<close>

section \<open>Names of objects\<close>

definition strip :: "string \<Rightarrow> string" where
  "strip l = filter (\<lambda>c. c \<noteq> CHR ''/'') l"

text \<open>
  The random source has not produced its coming identifiers before: they differ, and no
  object has a name made from one of them (a name is the identifier with a suffix and
  slashes between its parts).
\<close>

definition ids_fresh :: "world \<Rightarrow> bool" where
  "ids_fresh w \<longleftrightarrow> distinct (map strip (uniq w)) \<and>
     (\<forall>u \<in> set (uniq w). \<forall>d l. strip l = strip (u @ ''idv2fmt'') \<longrightarrow> objects w (d, l) = None)"

lemma strip_append [simp]: "strip (a @ b) = strip a @ strip b"
  by (simp add: strip_def)

lemma strip_slash [simp]: "strip (CHR ''/'' # a) = strip a"
  by (simp add: strip_def)

lemma strip_path: "strip (take 2 n @ ''/'' @ take 2 (drop 2 n) @ ''/'' @ drop 4 n) = strip n"
proof -
  have "drop 4 n = drop 2 (drop 2 n)" by simp
  then have "take 2 n @ take 2 (drop 2 n) @ drop 4 n = n" by (simp only: append_take_drop_id)
  moreover have "strip (take 2 n @ ''/'' @ take 2 (drop 2 n) @ ''/'' @ drop 4 n) = strip (take 2 n @ take 2 (drop 2 n) @ drop 4 n)"
    by simp
  ultimately show ?thesis by simp
qed

section \<open>Uploads\<close>

text \<open>The part of the world that storing and opening objects leaves alone.\<close>

definition rest :: "world \<Rightarrow> world" where
  "rest w = w\<lparr>faults := [], now := 0, ticks := [], uniq := [], s3clients := [], objects := Map.empty\<rparr>"

lemma rest_simps [simp]:
  "rest (w\<lparr>faults := fs\<rparr>) = rest w" "rest (w\<lparr>now := n, ticks := ts\<rparr>) = rest w" "rest (w\<lparr>uniq := us\<rparr>) = rest w"
  "rest (w\<lparr>s3clients := cs\<rparr>) = rest w" "rest (w\<lparr>objects := ob\<rparr>) = rest w"
  by (simp_all add: rest_def)

lemma rest_fields:
  assumes "rest w = rest w0"
  shows "tbl_media w = tbl_media w0" "tbl_thumbnails w = tbl_thumbnails w0" "tbl_export_parts w = tbl_export_parts w0"
    "tbl_exports w = tbl_exports w0" "tbl_tasks w = tbl_tasks w0" "cfg w = cfg w0" "doms w = doms w0"
    "tbl_last_access w = tbl_last_access w0" "tbl_user_stats w = tbl_user_stats w0" "process w = process w0"
proof -
  have "f (rest w) = f (rest w0)" for f :: "world \<Rightarrow> 'a" using assms by simp
  from this [of tbl_media] show "tbl_media w = tbl_media w0" by (simp add: rest_def)
  show "tbl_thumbnails w = tbl_thumbnails w0" "tbl_export_parts w = tbl_export_parts w0"
    "tbl_exports w = tbl_exports w0" "tbl_tasks w = tbl_tasks w0" "cfg w = cfg w0" "doms w = doms w0"
    "tbl_last_access w = tbl_last_access w0" "tbl_user_stats w = tbl_user_stats w0" "process w = process w0"
    using arg_cong [OF assms, of tbl_thumbnails] arg_cong [OF assms, of tbl_export_parts] arg_cong [OF assms, of tbl_exports]
      arg_cong [OF assms, of tbl_tasks] arg_cong [OF assms, of cfg] arg_cong [OF assms, of doms]
      arg_cong [OF assms, of tbl_last_access] arg_cong [OF assms, of tbl_user_stats] arg_cong [OF assms, of process]
    by (simp_all add: rest_def)
qed

text \<open>A name made from one of the coming identifiers.\<close>

definition named :: "world \<Rightarrow> string \<Rightarrow> bool" where
  "named w0 l \<longleftrightarrow> (\<exists>u \<in> set (uniq w0). strip l = strip (u @ ''idv2fmt''))"

definition uniq_left :: "world \<Rightarrow> world \<Rightarrow> bool" where
  "uniq_left w0 w \<longleftrightarrow> set (uniq w) \<subseteq> set (uniq w0)"

definition same_as :: "world \<Rightarrow> world \<Rightarrow> bool" where
  "same_as w0 w \<longleftrightarrow> ids_fresh w \<and> uniq_left w0 w \<and> rest w = rest w0 \<and> objects w = objects w0"

definition place_for :: "world \<Rightarrow> string \<Rightarrow> world \<Rightarrow> bool" where
  "place_for w0 u w \<longleftrightarrow> same_as w0 w \<and> u \<in> set (uniq w0) \<and> strip u \<notin> strip ` set (uniq w) \<and>
     (\<forall>d l. strip l = strip (u @ ''idv2fmt'') \<longrightarrow> objects w0 (d, l) = None)"

definition added :: "world \<Rightarrow> string \<times> string \<Rightarrow> bytes \<Rightarrow> world \<Rightarrow> bool" where
  "added w0 k b w \<longleftrightarrow> ids_fresh w \<and> uniq_left w0 w \<and> rest w = rest w0 \<and> objects w0 k = None \<and> named w0 (snd k) \<and> objects w = (objects w0)(k \<mapsto> b)"

definition grown :: "world \<Rightarrow> world \<Rightarrow> bool" where
  "grown w0 w \<longleftrightarrow> ids_fresh w \<and> uniq_left w0 w \<and> rest w = rest w0 \<and> objects w0 \<subseteq>\<^sub>m objects w \<and>
     (\<forall>k. objects w0 k = None \<and> objects w k \<noteq> None \<longrightarrow> named w0 (snd k))"

lemma ids_fresh_env [simp]:
  "ids_fresh (w\<lparr>faults := fs\<rparr>) = ids_fresh w" "ids_fresh (w\<lparr>now := n, ticks := ts\<rparr>) = ids_fresh w"
  "ids_fresh (w\<lparr>s3clients := cs\<rparr>) = ids_fresh w"
  by (simp_all add: ids_fresh_def)

lemma ids_fresh_tl: "ids_fresh w \<Longrightarrow> ids_fresh (w\<lparr>uniq := tl (uniq w)\<rparr>)"
  by (cases "uniq w") (auto simp: ids_fresh_def)

lemma uniq_left_simps [simp]:
  "uniq_left w0 (w\<lparr>faults := fs\<rparr>) = uniq_left w0 w" "uniq_left w0 (w\<lparr>now := n, ticks := ts\<rparr>) = uniq_left w0 w"
  "uniq_left w0 (w\<lparr>s3clients := cs\<rparr>) = uniq_left w0 w" "uniq_left w0 (w\<lparr>objects := ob\<rparr>) = uniq_left w0 w"
  by (simp_all add: uniq_left_def)

lemma uniq_left_tl: "uniq_left w0 w \<Longrightarrow> uniq_left w0 (w\<lparr>uniq := tl (uniq w)\<rparr>)"
  by (cases "uniq w") (auto simp: uniq_left_def)

lemma frame_stable:
  "env_stable (same_as w0)" "env_stable (place_for w0 u)" "env_stable (added w0 k b)" "env_stable (grown w0)"
proof -
  have "set (tl us) \<subseteq> set us" for us :: "string list" by (cases us) auto
  then show "env_stable (place_for w0 u)"
    unfolding env_stable_def by (auto simp: same_as_def place_for_def ids_fresh_tl uniq_left_tl)
qed (simp_all add: env_stable_def same_as_def added_def grown_def ids_fresh_tl uniq_left_tl)

lemma grownI: "same_as w0 w \<Longrightarrow> grown w0 w" "place_for w0 u w \<Longrightarrow> grown w0 w" "added w0 k b w \<Longrightarrow> grown w0 w"
  by (auto simp: same_as_def place_for_def added_def grown_def map_le_def)

lemma frame_NewUniqueId: "hoare (same_as w0) NewUniqueId (place_for w0) (\<lambda>_. grown w0)"
  unfolding NewUniqueId_def
proof (rule hoare_ext [OF frame_stable(1)])
  show "hoare (same_as w0) (\<lambda>w. case uniq w of [] \<Rightarrow> (Inl (ErrOther ''no entropy''), w) | u # us \<Rightarrow> (Inr u, w\<lparr>uniq := us\<rparr>))
     (place_for w0) (\<lambda>_. grown w0)"
    unfolding hoare_def
    by (auto split: list.split simp: grownI) (auto simp: place_for_def same_as_def ids_fresh_def uniq_left_def)
qed (rule grownI)

lemma added_put:
  assumes "place_for w0 u w" "strip l = strip (u @ ''idv2fmt'')"
  shows "added w0 (d, l) b (w\<lparr>objects := (objects w)((d, l) \<mapsto> b)\<rparr>)"
proof -
  have "strip v \<noteq> strip u" if "v \<in> set (uniq w)" for v
    using assms(1) imageI [OF that, of strip] by (metis place_for_def)
  then show ?thesis
    using assms by (auto simp: added_def place_for_def same_as_def ids_fresh_def named_def)
qed

lemma frame_put_file:
  "hoare (place_for w0 u) (put_file ds (u @ ''idv2fmt'') data)
     (\<lambda>(name, sent) w. added w0 (ds_Id ds, name) sent w \<and> sent = data) (\<lambda>_. grown w0)"
proof -
  let ?n = "u @ ''idv2fmt''"
  let ?l = "take 2 ?n @ ''/'' @ take 2 (drop 2 ?n) @ ''/'' @ drop 4 ?n"
  let ?store = "\<lambda>w. w\<lparr>objects := (objects w)((ds_Id ds, ?l) \<mapsto> overwrite data (objects w (ds_Id ds, ?l)))\<rparr>"
  have l: "strip ?l = strip ?n" by (rule strip_path)
  have put: "hoare (place_for w0 u) (ext (modifyE ?store)) (\<lambda>_. added w0 (ds_Id ds, ?l) data) (\<lambda>_. grown w0)"
  proof (rule hoare_ext [OF frame_stable(2)])
    show "hoare (place_for w0 u) (modifyE ?store) (\<lambda>_. added w0 (ds_Id ds, ?l) data) (\<lambda>_. grown w0)"
      unfolding hoare_def
    proof (intro allI impI)
      fix w assume w: "place_for w0 u w"
      then have "objects w (ds_Id ds, ?l) = None" using l by (simp add: place_for_def same_as_def)
      with added_put [OF w l, of "ds_Id ds" data]
      show "case modifyE ?store w of (Inl e, w') \<Rightarrow> grown w0 w' | (Inr x, w') \<Rightarrow> added w0 (ds_Id ds, ?l) data w'"
        by (simp add: overwrite_def)
    qed
  qed (rule grownI)
  show ?thesis unfolding put_file_def Let_def
    by (intro hoare_step [OF frame_stable(2)] hoare_then [OF put] hoare_step [OF frame_stable(3)] hoare_return)
       (auto intro: grownI)
qed

lemma frame_put_at:
  assumes "strip name = strip (u @ ''idv2fmt'')"
  shows "hoare (place_for w0 u) (ext (\<lambda>w. case PutObject data size' of
            Inl e \<Rightarrow> (Inl e, w)
          | Inr stored \<Rightarrow> (Inr (name, stored), w\<lparr>objects := (objects w)((ds_Id ds, name) \<mapsto> stored)\<rparr>)))
      (\<lambda>(name, sent) w. added w0 (ds_Id ds, name) sent w \<and> PutObject data size' = Inr sent) (\<lambda>_. grown w0)"
  by (rule hoare_ext [OF frame_stable(2)])
     (auto simp: hoare_def grownI added_put [OF _ assms] split: sum.split)

lemma frame_put_s3:
  "hoare (place_for w0 u) (put_s3 PutObject ds (u @ ''idv2fmt'') data size')
     (\<lambda>(name, sent) w. added w0 (ds_Id ds, name) sent w \<and> PutObject data size' = Inr sent) (\<lambda>_. grown w0)"
  unfolding put_s3_def
proof (rule hoare_bind [where R = "\<lambda>_. place_for w0 u"])
  show "hoare (place_for w0 u) (getS3 ds) (\<lambda>_. place_for w0 u) (\<lambda>_. grown w0)"
    by (rule hoare_preserves [OF preserves_getS3 [OF frame_stable(2)]]) (rule grownI)
next
  fix s3c
  let ?n = "u @ ''idv2fmt''"
  let ?name = "if s3_prefixLength s3c > 0 then take (nat (s3_prefixLength s3c)) ?n @ ''/'' @ drop (nat (s3_prefixLength s3c)) ?n else ?n"
  have "strip (take k ?n @ ''/'' @ drop k ?n) = strip ?n" for k
    by (metis append_Cons append_Nil append_take_drop_id strip_append strip_slash)
  then have name: "strip ?name = strip ?n" by simp
  note put = frame_put_at [OF name, where PutObject = PutObject and data = data and size' = size' and ds = ds and ?w0.0 = w0]
  show "hoare (place_for w0 u) (if s3_prefixLength s3c > int (length ?n) then throwE (Panic ''slice bounds out of range'')
      else let n = nat (s3_prefixLength s3c); name = (if s3_prefixLength s3c > 0 then take n ?n @ ''/'' @ drop n ?n else ?n)
       in ext (\<lambda>w. case PutObject data size' of
            Inl e \<Rightarrow> (Inl e, w)
          | Inr stored \<Rightarrow> (Inr (name, stored), w\<lparr>objects := (objects w)((ds_Id ds, name) \<mapsto> stored)\<rparr>)))
     (\<lambda>(name, sent) w. added w0 (ds_Id ds, name) sent w \<and> PutObject data size' = Inr sent) (\<lambda>_. grown w0)"
    unfolding Let_def using put
    by (cases "s3_prefixLength s3c > int (length ?n)") (simp_all only: if_True if_False hoare_throw grownI not_True_eq_False)
qed

lemma ids_fresh_remove: "ids_fresh w \<Longrightarrow> ids_fresh (w\<lparr>objects := (objects w)(k := None)\<rparr>)"
  by (simp add: ids_fresh_def)

lemma grown_remove: "added w0 k b w \<Longrightarrow> grown w0 (w\<lparr>objects := (objects w)(k := None)\<rparr>)"
  using ids_fresh_remove [of w k] by (auto simp: added_def grown_def map_le_def)

lemma frame_Remove: "hoare (added w0 (ds_Id ds, name) b) (tryE (Remove ds name)) (\<lambda>_. grown w0) (\<lambda>_. grown w0)"
proof -
  let ?P = "\<lambda>w. grown w0 w \<and> objects w0 (ds_Id ds, name) = None"
  have "preserves ?P (Remove ds name)"
    using frame_stable(4) ids_fresh_remove by (intro preserves_Remove) (auto simp: env_stable_def grown_def map_le_def)
  then have "hoare ?P (tryE (Remove ds name)) (\<lambda>_. ?P) (\<lambda>_. ?P)"
    using preserves_try preserves_def by blast
  then show ?thesis by (rule hoare_weaken) (use grownI(3) added_def in blast)+
qed

text \<open>
  An upload that succeeds has added one object with the announced hash and length; one that
  fails leaves at most a stray object at a place that held none.
\<close>

lemma frame_Upload:
  "hoare (same_as w0) (datastores_Upload sha PutObject ds data size' hash)
     (\<lambda>name w. \<exists>b. added w0 (ds_Id ds, name) b w \<and> sha b = hash \<and> int (length b) = size' \<and>
        (b = data \<or> PutObject data size' = Inr b)) (\<lambda>_. grown w0)"
  unfolding datastores_Upload_def Let_def
proof (rule hoare_bind [OF frame_NewUniqueId], rule hoare_bind)
  fix u
  let ?R = "\<lambda>(name, sent) w. added w0 (ds_Id ds, name) sent w \<and> (sent = data \<or> PutObject data size' = Inr sent)"
  show "hoare (place_for w0 u)
     (if ds_Type ds = ''s3'' then put_s3 PutObject ds (u @ ''idv2fmt'') data size'
      else if ds_Type ds = ''file'' then put_file ds (u @ ''idv2fmt'') data
      else throwE (ErrOther ''unknown datastore type - contact developer'')) ?R (\<lambda>_. grown w0)"
    by (auto intro: hoare_weaken [OF frame_put_s3] hoare_weaken [OF frame_put_file] hoare_throw grownI)
next
  fix u and p :: "string \<times> bytes"
  obtain name sent where p: "p = (name, sent)" by (cases p)
  let ?R = "\<lambda>w. added w0 (ds_Id ds, name) sent w \<and> (sent = data \<or> PutObject data size' = Inr sent)"
  have fail: "hoare ?R (thenE (tryE (Remove ds name)) (throwE (ErrOther msg))) Q (\<lambda>_. grown w0)"
    for msg and Q :: "string \<Rightarrow> world \<Rightarrow> bool"
    by (rule hoare_weaken [OF hoare_then [OF frame_Remove [where b = sent] hoare_throw]]) auto
  show "hoare (case p of (name, sent) \<Rightarrow> \<lambda>w. added w0 (ds_Id ds, name) sent w \<and> (sent = data \<or> PutObject data size' = Inr sent))
     (case p of (name, sent) \<Rightarrow>
        if int (length sent) \<noteq> size' then thenE (tryE (Remove ds name)) (throwE (ErrOther ''upload size mismatch''))
        else if sha sent \<noteq> hash then thenE (tryE (Remove ds name)) (throwE (ErrOther ''upload hash mismatch''))
        else returnE name)
     (\<lambda>name w. \<exists>b. added w0 (ds_Id ds, name) b w \<and> sha b = hash \<and> int (length b) = size' \<and>
        (b = data \<or> PutObject data size' = Inr b)) (\<lambda>_. grown w0)"
    using fail by (auto simp: p intro!: hoare_return)
qed

end
