(* ===== verification/UploadProofs.thy ===== *)
theory UploadProofs
  imports UploadFrame
begin

text \<open>
  What the upload pipelines guarantee: the database invariant and the integrity of the
  stored files are kept whatever fails, and an accepted upload has passed every check.
\<close>

section \<open>What the steps leave alone\<close>

text \<open>
  A condition that looks neither at the environment nor at the held identifiers, the
  cache and the access times, which every upload may change.
\<close>

definition upload_stable :: "(world \<Rightarrow> bool) \<Rightarrow> bool" where
  "upload_stable I \<longleftrightarrow> env_stable I \<and>
     (\<forall>w hs. I w \<longrightarrow> I (w\<lparr>tbl_held := hs\<rparr>)) \<and>
     (\<forall>w c. I w \<longrightarrow> I (w\<lparr>redis_media := c\<rparr>)) \<and>
     (\<forall>w la. I w \<longrightarrow> I (w\<lparr>tbl_last_access := la\<rparr>))"

lemma upload_stableI:
  assumes "env_stable I" "\<And>w hs. I (w\<lparr>tbl_held := hs\<rparr>) = I w" "\<And>w c. I (w\<lparr>redis_media := c\<rparr>) = I w"
    "\<And>w la. I (w\<lparr>tbl_last_access := la\<rparr>) = I w"
  shows "upload_stable I"
  using assms by (simp add: upload_stable_def)

lemma upload_stable_env: "upload_stable I \<Longrightarrow> env_stable I"
  by (simp add: upload_stable_def)

lemma preserves_wrap_err [hoare_intros]: "preserves I m \<Longrightarrow> preserves I (wrap_err msg m)"
  unfolding wrap_err_def by (intro hoare_intros)

lemma preserves_BufferTemp [hoare_intros]: "env_stable I \<Longrightarrow> preserves I (BufferTemp sha ds s)"
  unfolding BufferTemp_def buffer_target_def buffer_finish_def io_copy_def by (intro hoare_intros)

lemma preserves_Pick_loop [hoare_intros]: "env_stable I \<Longrightarrow> preserves I (Pick_loop i usable dsSize idx)"
  by (induction i usable dsSize idx rule: Pick_loop.induct)
     (auto simp: metadata_EstimateDatastoreSize_def intro!: hoare_intros)

lemma preserves_Pick [hoare_intros]: "env_stable I \<Longrightarrow> preserves I (Pick ctx kind)"
  unfolding Pick_def Let_def by (intro hoare_intros)

lemma preserves_GenerateMediaId_loop:
  assumes "upload_stable I"
  shows "preserves I (GenerateMediaId_loop n origin)"
  using assms upload_stable_env [OF assms]
  by (induction n)
     (auto simp: Let_def held_TryInsert_def media_IdExists_def reserved_IdExists_def upload_stable_def intro!: hoare_intros)

lemma preserves_GenerateMediaId [hoare_intros]: "upload_stable I \<Longrightarrow> preserves I (GenerateMediaId isImport origin)"
  unfolding GenerateMediaId_def by (intro hoare_intros preserves_GenerateMediaId_loop)

lemma preserves_FlagAccess [hoare_intros]: "upload_stable I \<Longrightarrow> preserves I (FlagAccess h t)"
  unfolding FlagAccess_def lastAccess_Upsert_def
  by (frule upload_stable_env) (intro hoare_intros, auto simp: upload_stable_def)

lemma preserves_uploadDone [hoare_intros]: "upload_stable I \<Longrightarrow> preserves I (uploadDone record)"
  unfolding uploadDone_def by (frule upload_stable_env) (intro hoare_intros)

lemma preserves_redis_Delete [hoare_intros]: "upload_stable I \<Longrightarrow> preserves I (redis_DeleteMedia h)"
  unfolding redis_DeleteMedia_def
  by (frule upload_stable_env) (intro hoare_intros, auto simp: upload_stable_def)

lemma preserves_store_loop: "upload_stable I \<Longrightarrow> preserves I (store_loop h cs fin)"
proof (induction h cs fin rule: store_loop.induct)
  case (3 h c cs fin)
  from 3(2) have "env_stable I" by (rule upload_stable_env)
  with 3 show ?case
    by (auto simp: cache_append_def upload_stable_def intro!: hoare_intros)
qed (auto intro!: hoare_intros)

lemma preserves_PopulateCache [hoare_intros]: "upload_stable I \<Longrightarrow> preserves I (PopulateCacheAsync s n h)"
  unfolding PopulateCacheAsync_def StoreMedia_def
  by (frule upload_stable_env) (intro hoare_intros preserves_store_loop, auto simp: upload_stable_def)

lemma preserves_lock_loop: "env_stable I \<Longrightarrow> preserves I (lock_loop n t)"
  by (induction n) (auto intro!: hoare_intros)

lemma preserves_LockForUpload [hoare_intros]: "env_stable I \<Longrightarrow> preserves I (LockForUpload h)"
  unfolding LockForUpload_def by (intro hoare_intros preserves_lock_loop)

lemma preserves_CheckQuarantine [hoare_intros]: "env_stable I \<Longrightarrow> preserves I (CheckQuarantineStatus h)"
  unfolding CheckQuarantineStatus_def media_IsHashQuarantined_def by (intro hoare_intros)

lemma preserves_FindRecord [hoare_intros]: "env_stable I \<Longrightarrow> preserves I (FindRecord h u c f)"
  unfolding FindRecord_def media_GetByHash_def media_scanRows_def by (intro hoare_intros)

lemma preserves_deferred [hoare_intros]: "preserves I f \<Longrightarrow> preserves I m \<Longrightarrow> preserves I (deferred f m)"
  unfolding deferred_def by (intro hoare_intros)

text \<open>The function that releases the lock only talks to redis.\<close>

definition release_fn :: "(world, unit) io \<Rightarrow> bool" where
  "release_fn f \<longleftrightarrow> f = returnE () \<or> f = ext (returnE ())"

lemma LockForUpload_release: "LockForUpload h w = (Inr f, w') \<Longrightarrow> release_fn f"
  by (auto simp: LockForUpload_def release_fn_def io_simps split: if_splits prod.splits sum.splits)

lemma preserves_release: "release_fn f \<Longrightarrow> env_stable I \<Longrightarrow> preserves I f"
  by (auto simp: release_fn_def intro!: hoare_intros)

lemma lock_then:
  assumes "env_stable P" and "\<And>e s. P s \<Longrightarrow> E e s" and "\<And>f. release_fn f \<Longrightarrow> hoare P (k f) Q E"
  shows "hoare P (bindE (LockForUpload h) k) Q E"
proof (rule hoare_bind [where R = "\<lambda>f s. P s \<and> release_fn f"])
  show "hoare P (LockForUpload h) (\<lambda>f s. P s \<and> release_fn f) E"
    by (rule hoareI) (use assms(2) preservesD' [OF preserves_LockForUpload [OF assms(1)]] LockForUpload_release in blast)+
qed (use assms(3) in \<open>auto intro: hoare_pure\<close>)

section \<open>The files of the records\<close>

definition files_ok :: "(bytes \<Rightarrow> string) \<Rightarrow> world \<Rightarrow> bool" where
  "files_ok sha w \<longleftrightarrow> (\<forall>m \<in> set (tbl_media w). \<exists>b. objects w (place m) = Some b \<and> sha b = Sha256Hash m)"

definition stored_inv :: "(bytes \<Rightarrow> string) \<Rightarrow> world \<Rightarrow> bool" where
  "stored_inv sha w \<longleftrightarrow> files_ok sha w \<and> ids_fresh w"

lemma stored_inv_env [simp]:
  "stored_inv sha (w\<lparr>faults := fs\<rparr>) = stored_inv sha w" "stored_inv sha (w\<lparr>now := n, ticks := ts\<rparr>) = stored_inv sha w"
  "stored_inv sha (w\<lparr>s3clients := cs\<rparr>) = stored_inv sha w" "stored_inv sha (w\<lparr>tbl_held := hs\<rparr>) = stored_inv sha w"
  "stored_inv sha (w\<lparr>redis_media := c\<rparr>) = stored_inv sha w" "stored_inv sha (w\<lparr>tbl_last_access := la\<rparr>) = stored_inv sha w"
  "stored_inv sha (w\<lparr>tbl_restricted := rs\<rparr>) = stored_inv sha w" "stored_inv sha (w\<lparr>tbl_expiring := es\<rparr>) = stored_inv sha w"
  "stored_inv sha (w\<lparr>tbl_user_stats := us\<rparr>) = stored_inv sha w"
  by (simp_all add: stored_inv_def files_ok_def ids_fresh_def)

lemma stored_inv_tl: "stored_inv sha w \<Longrightarrow> stored_inv sha (w\<lparr>uniq := tl (uniq w)\<rparr>)"
  by (cases "uniq w") (auto simp: stored_inv_def files_ok_def ids_fresh_def)

lemma stored_inv_stable: "upload_stable (stored_inv sha)"
  by (simp add: upload_stable_def env_stable_def stored_inv_tl)

text \<open>A new place: no row points to the object.\<close>

definition written :: "(bytes \<Rightarrow> string) \<Rightarrow> string \<times> string \<Rightarrow> bytes \<Rightarrow> world \<Rightarrow> bool" where
  "written sha k b w \<longleftrightarrow> stored_inv sha w \<and> objects w k = Some b \<and> k \<notin> place ` set (tbl_media w)"

lemma written_stable: "upload_stable (written sha k b)"
  unfolding upload_stable_def env_stable_def written_def by (auto simp: stored_inv_tl)

lemma stored_inv_unlink:
  assumes "stored_inv sha w" "k \<notin> place ` set (tbl_media w)"
  shows "stored_inv sha (w\<lparr>objects := (objects w)(k := None)\<rparr>)"
  using assms by (auto simp: stored_inv_def files_ok_def ids_fresh_def)

lemma written_inv: "written sha k b w \<Longrightarrow> stored_inv sha w"
  by (simp add: written_def)

lemma stored_inv_grown:
  assumes "stored_inv sha w0" "grown w0 w"
  shows "stored_inv sha w"
proof -
  have "objects w k = Some b" if "objects w0 k = Some b" for k b
    using assms(2) that by (metis domI grown_def map_le_def)
  moreover have "tbl_media w = tbl_media w0" using assms(2) by (auto simp: grown_def dest: rest_fields)
  ultimately show ?thesis using assms unfolding stored_inv_def files_ok_def by (metis grown_def)
qed

lemma written_added:
  assumes "stored_inv sha w0" "added w0 k b w"
  shows "written sha k b w"
proof -
  have "tbl_media w = tbl_media w0" using assms(2) by (auto simp: added_def dest: rest_fields)
  then have "k \<notin> place ` set (tbl_media w)"
    using assms by (auto simp: added_def stored_inv_def files_ok_def)
  with stored_inv_grown [OF assms(1) grownI(3) [OF assms(2)]] assms(2) show ?thesis
    by (simp add: written_def added_def)
qed

lemma hoare_Remove_written:
  "hoare (written sha (ds_Id ds, name) b) (tryE (Remove ds name)) (\<lambda>_. stored_inv sha) (\<lambda>_. stored_inv sha)"
proof -
  let ?P = "\<lambda>w. stored_inv sha w \<and> (ds_Id ds, name) \<notin> place ` set (tbl_media w)"
  have "preserves ?P (Remove ds name)"
  proof (rule preserves_Remove)
    show "env_stable ?P" unfolding env_stable_def by (auto simp: stored_inv_tl)
  qed (simp add: stored_inv_unlink)
  then have "hoare ?P (tryE (Remove ds name)) (\<lambda>_. ?P) (\<lambda>_. ?P)"
    using preserves_try preserves_def by blast
  then show ?thesis by (rule hoare_weaken) (auto simp: written_def)
qed

lemma hoare_Upload:
  "hoare (stored_inv sha) (datastores_Upload sha PutObject ds data size' hash)
     (\<lambda>name w. \<exists>b. written sha (ds_Id ds, name) b w \<and> sha b = hash) (\<lambda>_. stored_inv sha)"
proof (rule hoareI)
  fix s name s' assume s: "stored_inv sha s" "datastores_Upload sha PutObject ds data size' hash s = (Inr name, s')"
  then have "same_as s s" by (simp add: same_as_def stored_inv_def uniq_left_def)
  from hoareD_Inr [OF frame_Upload this s(2)] written_added [OF s(1)]
  show "\<exists>b. written sha (ds_Id ds, name) b s' \<and> sha b = hash" by blast
next
  fix s e s' assume s: "stored_inv sha s" "datastores_Upload sha PutObject ds data size' hash s = (Inl e, s')"
  then have "same_as s s" by (simp add: same_as_def stored_inv_def uniq_left_def)
  from hoareD_Inl [OF frame_Upload this s(2)] stored_inv_grown [OF s(1)]
  show "stored_inv sha s'" by blast
qed

lemma find_record_match:
  "find_record userId contentType fileName records hashMatch = (Some m, perfect) \<Longrightarrow>
     m \<in> set records \<or> hashMatch = Some m"
  by (induction userId contentType fileName records hashMatch rule: find_record.induct) (auto split: if_splits)

definition match_ok :: "string \<Rightarrow> DbMedia option \<Rightarrow> DbMedia list \<Rightarrow> bool" where
  "match_ok h r ms \<longleftrightarrow> (case r of None \<Rightarrow> True | Some m \<Rightarrow> m \<in> set ms \<and> Sha256Hash m = h)"

lemma hoare_FindRecord:
  assumes "env_stable P" and "\<And>w e. P w \<Longrightarrow> E (ErrOther e) w"
  shows "hoare P (FindRecord h u c f) (\<lambda>r w. P w \<and> match_ok h (fst r) (tbl_media w)) E"
  unfolding FindRecord_def media_GetByHash_def media_scanRows_def
proof (rule hoare_bind [where R = "\<lambda>rs w. P w \<and> rs = filter (\<lambda>m. Sha256Hash m = h) (tbl_media w)"])
  show "hoare P (dbQuery (\<lambda>w. filter (\<lambda>m. Sha256Hash m = h) (tbl_media w)))
      (\<lambda>rs w. P w \<and> rs = filter (\<lambda>m. Sha256Hash m = h) (tbl_media w)) E"
    by (rule hoare_dbQuery [OF env_script_stable]) (use assms in auto)
next
  fix rs
  show "hoare (\<lambda>w. P w \<and> rs = filter (\<lambda>m. Sha256Hash m = h) (tbl_media w)) (returnE (find_record u c f rs None))
      (\<lambda>r w. P w \<and> match_ok h (fst r) (tbl_media w)) E"
  proof (rule hoare_return)
    fix w assume w: "P w \<and> rs = filter (\<lambda>m. Sha256Hash m = h) (tbl_media w)"
    obtain r perfect where r: "find_record u c f rs None = (r, perfect)" by (cases "find_record u c f rs None")
    with w show "P w \<and> match_ok h (fst (find_record u c f rs None)) (tbl_media w)"
      using find_record_match [of u c f rs None _ perfect] by (auto simp: match_ok_def split: option.split)
  qed
qed

lemma preserves_restrict_new:
  assumes "env_stable I" and "\<And>w rs. I w \<Longrightarrow> I (w\<lparr>tbl_restricted := rs\<rparr>)"
  shows "preserves I (restrict_new record)"
  unfolding restrict_new_def SetMediaRequiresAuth_def restricted_Insert_def
  using assms by (intro hoare_intros) auto

lemma preserves_finish:
  assumes "upload_stable I" and "\<And>w rs. I w \<Longrightarrow> I (w\<lparr>tbl_restricted := rs\<rparr>)"
  shows "preserves I (finish_upload record)"
  unfolding finish_upload_def using assms
  by (intro hoare_intros preserves_restrict_new upload_stable_env)

lemma stored_inv_insert:
  assumes "stored_inv sha w" "objects w (place m) = Some b" "sha b = Sha256Hash m"
  shows "stored_inv sha (w\<lparr>tbl_media := tbl_media w @ [m]\<rparr>)"
  using assms by (auto simp: stored_inv_def files_ok_def ids_fresh_def)

lemma hoare_finish_stored: "hoare (stored_inv sha) (finish_upload m) (\<lambda>_. stored_inv sha) (\<lambda>_. stored_inv sha)"
  using preserves_finish [OF stored_inv_stable [of sha]] unfolding preserves_def by simp

lemma hoare_duplicate_stored:
  assumes "place m = place r" "Sha256Hash m = h"
  shows "hoare (\<lambda>w. stored_inv sha w \<and> match_ok h (Some r) (tbl_media w)) (thenE (media_Insert m) (finish_upload m))
      (\<lambda>_. stored_inv sha) (\<lambda>_. stored_inv sha)"
  unfolding media_Insert_def
proof (rule hoare_then [OF hoare_dbInsert hoare_finish_stored])
  show "env_stable (\<lambda>w. stored_inv sha w \<and> match_ok h (Some r) (tbl_media w))"
    by (rule env_stable_conj [OF upload_stable_env [OF stored_inv_stable]]) (rule env_stableI, simp_all)
next
  fix w assume w: "stored_inv sha w \<and> match_ok h (Some r) (tbl_media w)"
  then obtain b where "objects w (place r) = Some b" "sha b = h"
    by (auto simp: stored_inv_def files_ok_def match_ok_def)
  with w assms show "stored_inv sha (w\<lparr>tbl_media := tbl_media w @ [m], tbl_user_stats := stats_add (m_UserId m) (m_SizeBytes m) (tbl_user_stats w)\<rparr>)"
    by (auto intro: stored_inv_insert [where b = b])
qed simp

lemma hoare_insert_written:
  assumes "sha b = Sha256Hash m"
  shows "hoare (written sha (place m) b) (tryE (media_Insert m))
     (\<lambda>ins. case ins of Inl err \<Rightarrow> written sha (place m) b | Inr _ \<Rightarrow> stored_inv sha) (\<lambda>_. stored_inv sha)"
proof (rule hoare_try)
  show "hoare (written sha (place m) b) (media_Insert m)
     (\<lambda>x. case Inr x of Inl err \<Rightarrow> written sha (place m) b | Inr _ \<Rightarrow> stored_inv sha)
     (\<lambda>e s. if is_panic e then stored_inv sha s else (case Inl e of Inl err \<Rightarrow> written sha (place m) b | Inr _ \<Rightarrow> stored_inv sha) s)"
    unfolding media_Insert_def
    by (rule hoare_dbInsert [OF upload_stable_env [OF written_stable]])
       (use assms in \<open>auto simp: written_def intro: stored_inv_insert\<close>)
qed

lemma hoare_new_stored:
  assumes "DatastoreId m = ds_Id ds" "Location m = l" "sha b = Sha256Hash m"
  shows "hoare (written sha (ds_Id ds, l) b)
      (thenE (PopulateCacheAsync st n h) (bindE (tryE (media_Insert m)) (\<lambda>ins. case ins of
           Inl err \<Rightarrow> thenE (tryE (Remove ds l)) (throwE err)
         | Inr _ \<Rightarrow> finish_upload m))) (\<lambda>_. stored_inv sha) (\<lambda>_. stored_inv sha)"
proof (rule hoare_then [OF hoare_preserves [OF preserves_PopulateCache [OF written_stable]] hoare_bind])
  show "hoare (written sha (ds_Id ds, l) b) (tryE (media_Insert m))
     (\<lambda>ins. case ins of Inl err \<Rightarrow> written sha (ds_Id ds, l) b | Inr _ \<Rightarrow> stored_inv sha) (\<lambda>_. stored_inv sha)"
    using hoare_insert_written [of sha b m] assms by simp
next
  fix ins :: "goerr + unit"
  show "hoare (case ins of Inl err \<Rightarrow> written sha (ds_Id ds, l) b | Inr _ \<Rightarrow> stored_inv sha)
     (case ins of Inl err \<Rightarrow> thenE (tryE (Remove ds l)) (throwE err) | Inr _ \<Rightarrow> finish_upload m)
     (\<lambda>_. stored_inv sha) (\<lambda>_. stored_inv sha)"
    by (cases ins) (auto intro!: hoare_throw hoare_finish_stored hoare_then [OF hoare_Remove_written])
qed (auto simp: written_def)

lemma hoare_upload_store:
  assumes sha: "xt_sha xt = sha"
  shows "hoare (stored_inv sha)
     (upload_store xt ds origin mediaId must contentType fileName userId (h, n, data)) (\<lambda>_. stored_inv sha) (\<lambda>_. stored_inv sha)"
proof -
  note env = upload_stable_env [OF stored_inv_stable [of sha]]
  have clock: "hoare (stored_inv sha) NowMillis (\<lambda>_. stored_inv sha) (\<lambda>_. stored_inv sha)"
    using preserves_NowMillis [OF env] unfolding preserves_def .
  have failed: "hoare (stored_inv sha) (thenE (PopulateCacheAsync st n h) (throwE e)) (Q :: DbMedia option \<Rightarrow> _) (\<lambda>_. stored_inv sha)" for st e Q
    by (rule hoare_then [OF hoare_preserves [OF preserves_PopulateCache [OF stored_inv_stable]]]) (auto intro: hoare_throw)
  have up: "hoare (stored_inv sha) (tryE (datastores_Upload sha (xt_PutObject xt) ds data n h))
     (\<lambda>r w. case r of Inl _ \<Rightarrow> stored_inv sha w | Inr l \<Rightarrow> \<exists>b. sha b = h \<and> written sha (ds_Id ds, l) b w) (\<lambda>_. stored_inv sha)"
    by (rule hoare_try, rule hoare_weaken [OF hoare_Upload]) auto
  show ?thesis unfolding upload_store_def Let_def prod.case sha
    apply (rule hoare_bind [OF clock])
    apply (rule hoare_bind [OF hoare_FindRecord [OF env]], assumption)
    subgoal for ts r
      apply (cases r)
      subgoal for rec perfect
        apply (cases rec)
         apply (simp add: match_ok_def)
         apply (rule hoare_bind [OF up])
        subgoal for u
          by (cases u) (auto intro!: failed hoare_bex_pre hoare_new_stored)
        by (auto intro!: hoare_return hoare_duplicate_stored)
      done
    done
qed

section \<open>The pipeline up to the store\<close>

lemma hoare_deferred:
  assumes "release_fn f" and "\<And>x. env_stable (Q x)" and "\<And>e. env_stable (E e)" and "hoare P m Q E"
  shows "hoare P (deferred f m) Q E"
  unfolding deferred_def
proof (rule hoare_bind [where R = "\<lambda>r. case r of Inl e \<Rightarrow> E e | Inr x \<Rightarrow> Q x"])
  show "hoare P (tryE m) (\<lambda>r. case r of Inl e \<Rightarrow> E e | Inr x \<Rightarrow> Q x) E"
    by (rule hoare_try, rule hoare_weaken [OF assms(4)]) auto
next
  fix r :: "goerr + 'a"
  let ?Z = "case r of Inl e \<Rightarrow> E e | Inr x \<Rightarrow> Q x"
  have "env_stable ?Z" using assms(2,3) by (cases r) simp_all
  then have f: "preserves ?Z (tryE f)"
    by (intro hoare_intros preserves_release [OF assms(1)])
  have never: "tryE f w = (Inl e, w') \<Longrightarrow> False" for w e w'
    using assms(1) by (auto simp: release_fn_def ext_def io_simps split: list.splits option.splits)
  show "hoare ?Z (thenE (tryE f) (lift_result r)) Q E"
  proof (rule hoare_then [where R = ?Z])
    show "hoare ?Z (tryE f) (\<lambda>_. ?Z) E"
      by (rule hoareI) (use never preservesD' [OF f] in blast)+
  qed (auto simp: hoare_def io_simps split: sum.split)
qed

lemma hoare_BufferTemp:
  assumes "env_stable P" and "\<And>e s. P s \<Longrightarrow> E e s"
  shows "hoare P (BufferTemp sha ds c) (\<lambda>x s. P s \<and> c = (snd (snd x), None) \<and> x = (sha (snd (snd x)), int (length (snd (snd x))), snd (snd x))) E"
proof (rule hoareI)
  fix s x s' assume s: "P s" and run: "BufferTemp sha ds c s = (Inr x, s')"
  from preservesD' [OF preserves_BufferTemp [OF assms(1)] s run]
  have "P s'" .
  moreover have "io_copy c s1 = (Inr b, s2) \<Longrightarrow> c = (b, None)" for s1 b s2
    by (auto simp: io_copy_def ext_def io_simps split: prod.splits option.splits list.splits)
  then have "\<exists>b. c = (b, None) \<and> x = (sha b, int (length b), b)"
    using run by (auto simp: BufferTemp_def buffer_finish_def bindE_run thenE_run returnE_run split: prod.splits sum.splits)
  ultimately show "P s' \<and> c = (snd (snd x), None) \<and> x = (sha (snd (snd x)), int (length (snd (snd x))), snd (snd x))"
    by auto
qed (use assms(2) preservesD' [OF preserves_BufferTemp [OF assms(1)]] in blast)

text \<open>What an upload has been checked for when it reaches the store.\<close>

definition within_quota :: "externals \<Rightarrow> RequestContext \<Rightarrow> string \<Rightarrow> DbUserStats list \<Rightarrow> int \<Rightarrow> bool" where
  "within_quota xt ctx userId stats n \<longleftrightarrow>
     userId = [] \<or> xt_IsImportProcess xt \<or> limit_of (xt_glob xt) ctx userId quota_MaxBytes (- 1) < 0 \<or>
     int64 (stats_of userId stats + n) \<le> limit_of (xt_glob xt) ctx userId quota_MaxBytes (- 1)"

definition quarantined_hash :: "string \<Rightarrow> DbMedia list \<Rightarrow> bool" where
  "quarantined_hash h ms \<longleftrightarrow> (\<exists>m \<in> set ms. m_Quarantined m \<and> Sha256Hash m = h)"

definition input_of :: "RequestContext \<Rightarrow> Kind \<Rightarrow> bytesReader \<Rightarrow> stream" where
  "input_of ctx kind r = drain (if kind = LocalMediaKind then LimitStream ctx r else Inr r)"

lemma hoare_CheckQuarantine:
  assumes "env_stable P" and "\<And>e s. P s \<Longrightarrow> E e s"
  shows "hoare P (CheckQuarantineStatus h) (\<lambda>_ s. P s \<and> \<not> quarantined_hash h (tbl_media s)) E"
  unfolding CheckQuarantineStatus_def media_IsHashQuarantined_def
proof (rule hoare_bind [where R = "\<lambda>q s. P s \<and> (q \<longleftrightarrow> quarantined_hash h (tbl_media s))"])
  have found: "(case first_row (\<lambda>m. m_Quarantined m \<and> Sha256Hash m = h) ms of None \<Rightarrow> False | Some m \<Rightarrow> m_Quarantined m)
      = quarantined_hash h ms" for ms
    by (induction ms) (auto simp: quarantined_hash_def)
  show "hoare P (dbQuery (\<lambda>w. case first_row (\<lambda>m. m_Quarantined m \<and> Sha256Hash m = h) (tbl_media w) of None \<Rightarrow> False | Some m \<Rightarrow> m_Quarantined m))
     (\<lambda>q s. P s \<and> (q \<longleftrightarrow> quarantined_hash h (tbl_media s))) E"
    unfolding found by (rule hoare_dbQuery [OF env_script_stable]) (use assms in auto)
qed (use assms(2) in \<open>auto intro!: hoare_return hoare_throw\<close>)

lemma hoare_quota_step:
  assumes "env_stable P" and "\<And>e s. P s \<Longrightarrow> E e s" and U: "\<And>s. P s \<Longrightarrow> tbl_user_stats s = U"
  shows "hoare P (whenE (userId \<noteq> [] \<and> \<not> xt_IsImportProcess xt) (CanUpload (xt_glob xt) ctx userId n))
     (\<lambda>_ s. P s \<and> within_quota xt ctx userId U n) E"
proof (rule hoareI)
  let ?m = "whenE (userId \<noteq> [] \<and> \<not> xt_IsImportProcess xt) (CanUpload (xt_glob xt) ctx userId n)"
  have pres: "preserves P ?m" using assms(1) by (intro hoare_intros)
  fix s x s' assume s: "P s" and run: "?m s = (Inr x, s')"
  then have "within_quota xt ctx userId U n"
    using CanUpload_ok [of "xt_glob xt" ctx userId n s s'] U [OF s]
    by (cases "limit_of (xt_glob xt) ctx userId quota_MaxBytes (- 1) \<ge> 0") (auto simp: within_quota_def whenE_run split: if_splits)
  with preservesD' [OF pres s run] show "P s' \<and> within_quota xt ctx userId U n" by simp
next
  fix s e s' assume "P s" "whenE (userId \<noteq> [] \<and> \<not> xt_IsImportProcess xt) (CanUpload (xt_glob xt) ctx userId n) s = (Inl e, s')"
  then show "E e s'"
    using preservesD' [of P "whenE (userId \<noteq> [] \<and> \<not> xt_IsImportProcess xt) (CanUpload (xt_glob xt) ctx userId n)" s "Inl e" s'] assms(1,2)
    by (auto intro!: hoare_intros)
qed

lemma hoare_upload_Execute:
  assumes st: "upload_stable P" and PU: "\<And>s. P s \<Longrightarrow> tbl_media s = M \<and> tbl_user_stats s = U"
    and E: "\<And>e s. P s \<Longrightarrow> E e s" "\<And>e. env_stable (E e)"
    and Q: "\<And>s. P s \<Longrightarrow> Q None s" "\<And>x. env_stable (Q x)"
    and store: "\<And>ds mediaId h n data. input_of ctx kind r = (data, None) \<Longrightarrow> h = xt_sha xt data \<Longrightarrow> n = int (length data) \<Longrightarrow>
        CheckForSpam (xt_plugins xt) data fileName contentType userId origin mediaId = Inr False \<Longrightarrow>
        \<not> quarantined_hash h M \<Longrightarrow> within_quota xt ctx userId U n \<Longrightarrow> (mediaId0 \<noteq> [] \<Longrightarrow> mediaId = mediaId0) \<Longrightarrow>
        hoare P (upload_store xt ds origin mediaId (mediaId0 \<noteq> []) contentType fileName userId (h, n, data)) Q E"
  shows "hoare P (upload_Execute xt ctx origin mediaId0 r contentType fileName userId kind) Q E"
proof -
  note env = upload_stable_env [OF st]
  have gen: "hoare P (if mediaId0 = [] then GenerateMediaId (xt_IsImportProcess xt) origin else returnE mediaId0)
     (\<lambda>mediaId s. P s \<and> (mediaId0 \<noteq> [] \<longrightarrow> mediaId = mediaId0)) E"
    using hoare_preserves [OF preserves_GenerateMediaId [OF st]] E(1) by (auto intro: hoare_return)
  have pick: "hoare P (Pick ctx kind) (\<lambda>_. P) E"
    by (rule hoare_preserves [OF preserves_Pick [OF env]]) (rule E(1))
  have locked: "hoare P (bindE (LockForUpload h) (\<lambda>f. deferred f (upload_store xt ds origin mediaId (mediaId0 \<noteq> []) contentType fileName userId (h, n, data)))) Q E"
    if "hoare P (upload_store xt ds origin mediaId (mediaId0 \<noteq> []) contentType fileName userId (h, n, data)) Q E" for h n data ds mediaId
    by (rule lock_then [OF env E(1)]) (use that in \<open>auto intro!: hoare_deferred Q E\<close>)
  have tail: "hoare P (case CheckForSpam (xt_plugins xt) data fileName contentType userId origin mediaId of
        Inl _ \<Rightarrow> returnE None
      | Inr isSpam \<Rightarrow>
          if isSpam then throwE ErrMediaQuarantined
          else
            thenE (CheckQuarantineStatus h)
           (thenE (whenE (userId \<noteq> [] \<and> \<not> xt_IsImportProcess xt) (CanUpload (xt_glob xt) ctx userId n))
           (bindE (LockForUpload h) (\<lambda>f. deferred f
              (upload_store xt ds origin mediaId (mediaId0 \<noteq> []) contentType fileName userId (h, n, data)))))) Q E"
    if x: "input_of ctx kind r = (data, None)" "h = xt_sha xt data" "n = int (length data)" "mediaId0 \<noteq> [] \<longrightarrow> mediaId = mediaId0" for mediaId data h n ds
  proof (cases "CheckForSpam (xt_plugins xt) data fileName contentType userId origin mediaId")
    case (Inl e)
    then show ?thesis using Q(1) by (auto intro: hoare_return)
  next
    case (Inr spam)
    have "hoare P (thenE (CheckQuarantineStatus h)
           (thenE (whenE (userId \<noteq> [] \<and> \<not> xt_IsImportProcess xt) (CanUpload (xt_glob xt) ctx userId n))
           (bindE (LockForUpload h) (\<lambda>f. deferred f
              (upload_store xt ds origin mediaId (mediaId0 \<noteq> []) contentType fileName userId (h, n, data)))))) Q E" if "\<not> spam"
    proof (rule hoare_then [where R = "\<lambda>s. P s \<and> \<not> quarantined_hash h M"])
      show "hoare P (CheckQuarantineStatus h) (\<lambda>_ s. P s \<and> \<not> quarantined_hash h M) E"
        by (rule hoare_weaken [OF hoare_CheckQuarantine [OF env, where E = E]]) (use PU E(1) in auto)
    next
      show "hoare (\<lambda>s. P s \<and> \<not> quarantined_hash h M)
          (thenE (whenE (userId \<noteq> [] \<and> \<not> xt_IsImportProcess xt) (CanUpload (xt_glob xt) ctx userId n))
          (bindE (LockForUpload h) (\<lambda>f. deferred f
              (upload_store xt ds origin mediaId (mediaId0 \<noteq> []) contentType fileName userId (h, n, data))))) Q E"
      proof (rule hoare_pure, rule hoare_then [OF hoare_quota_step [OF env E(1)]])
        assume q: "\<not> quarantined_hash h M"
        show "hoare (\<lambda>s. P s \<and> within_quota xt ctx userId U n) (bindE (LockForUpload h) (\<lambda>f. deferred f
            (upload_store xt ds origin mediaId (mediaId0 \<noteq> []) contentType fileName userId (h, n, data)))) Q E"
          by (rule hoare_pure, rule locked, rule store) (use x q Inr that in auto)
      qed (use PU in auto)
    qed
    with Inr E(1) show ?thesis by (auto intro: hoare_throw)
  qed
  have buffer: "hoare (\<lambda>s. P s \<and> (mediaId0 \<noteq> [] \<longrightarrow> mediaId = mediaId0)) (Pick ctx kind) (\<lambda>_ s. P s \<and> (mediaId0 \<noteq> [] \<longrightarrow> mediaId = mediaId0)) E" for mediaId
    by (rule hoare_pure, rule hoare_pure_post [OF pick])
  show ?thesis
    unfolding upload_Execute_def Let_def input_of_def [symmetric]
    apply (rule hoare_bind [OF gen])
    apply (rule hoare_bind [OF buffer])
    apply (rule hoare_pure)
    apply (rule hoare_bind [OF hoare_BufferTemp [OF env E(1)]], assumption)
    subgoal for mediaId ds x
      by (cases x) (simp only: prod.case, rule hoare_pure, rule tail, simp_all)
    done
qed

section \<open>What an upload stores\<close>

definition rows_are :: "DbMedia list \<Rightarrow> MainRepoConfig \<Rightarrow> world \<Rightarrow> bool" where
  "rows_are ms c s \<longleftrightarrow> tbl_media s = ms \<and> cfg s = c"

lemma rows_are_stable: "upload_stable (rows_are ms c)"
  by (rule upload_stableI [OF env_stableI]) (simp_all add: rows_are_def)

text \<open>The record that an accepted upload returns: an old one of the same user and name, or a new row.\<close>

definition is_duplicate :: "string \<Rightarrow> string \<Rightarrow> string \<Rightarrow> DbMedia list \<Rightarrow> DbMedia \<Rightarrow> bool" where
  "is_duplicate h userId fileName ms rec \<longleftrightarrow>
     rec \<in> set ms \<and> Sha256Hash rec = h \<and> m_UserId rec = userId \<and> m_UploadName rec = fileName"

definition is_new :: "string \<Rightarrow> int \<Rightarrow> string \<Rightarrow> string \<Rightarrow> string \<Rightarrow> string \<Rightarrow> string \<Rightarrow> DbMedia \<Rightarrow> bool" where
  "is_new h n origin mediaId contentType fileName userId rec \<longleftrightarrow>
     Sha256Hash rec = h \<and> m_SizeBytes rec = n \<and> m_Origin rec = origin \<and> m_MediaId rec = mediaId \<and>
     m_ContentType rec = contentType \<and> m_UploadName rec = fileName \<and> m_UserId rec = userId \<and> \<not> m_Quarantined rec"

definition restricted_in :: "MainRepoConfig \<Rightarrow> DbMedia \<Rightarrow> world \<Rightarrow> bool" where
  "restricted_in c rec s \<longleftrightarrow> (gen_FreezeUnauthenticatedMedia (General c) \<longrightarrow>
     auth_restriction (restrictions_for (m_Origin rec) (m_MediaId rec) (tbl_restricted s)))"

definition stored_as :: "DbMedia list \<Rightarrow> MainRepoConfig \<Rightarrow> DbMedia \<Rightarrow> world \<Rightarrow> bool" where
  "stored_as ms c rec s \<longleftrightarrow> rows_are (ms @ [rec]) c s \<and> media_key rec \<notin> media_key ` set ms \<and> restricted_in c rec s"

lemma restricted_in_stable: "upload_stable (restricted_in c rec)"
  by (rule upload_stableI [OF env_stableI]) (simp_all add: restricted_in_def)

lemma upload_stable_conj: "upload_stable I \<Longrightarrow> upload_stable J \<Longrightarrow> upload_stable (\<lambda>w. I w \<and> J w)"
  by (auto simp: upload_stable_def)

lemma stored_as_stable: "upload_stable (stored_as ms c rec)"
  unfolding stored_as_def
  by (intro upload_stable_conj rows_are_stable restricted_in_stable upload_stableI env_stableI) simp_all

text \<open>On an error at most the new row is left.\<close>

definition at_most_new :: "DbMedia list \<Rightarrow> world \<Rightarrow> bool" where
  "at_most_new ms s \<longleftrightarrow> tbl_media s = ms \<or> (\<exists>rec. tbl_media s = ms @ [rec])"

lemma at_most_new_stable: "upload_stable (at_most_new ms)"
  by (rule upload_stableI [OF env_stableI]) (simp_all add: at_most_new_def)

lemma auth_restriction_new:
  "(o', i) \<notin> restricted_key ` set rs \<Longrightarrow>
     auth_restriction (restrictions_for o' i (rs @ [\<lparr>rm_Origin = o', rm_MediaId = i, rm_Condition = RestrictedRequiresAuth, rm_ConditionValue = ''true''\<rparr>]))"
proof -
  assume "(o', i) \<notin> restricted_key ` set rs"
  then have "restrictions_for o' i rs = []" by (auto simp: restrictions_for_def filter_empty_conv)
  then show ?thesis by (simp add: restrictions_for_def)
qed

lemma hoare_finish:
  assumes "media_key rec \<notin> media_key ` set ms"
  shows "hoare (rows_are (ms @ [rec]) c) (finish_upload rec) (\<lambda>r s. r = Some rec \<and> stored_as ms c rec s) (\<lambda>_. at_most_new ms)"
proof -
  note env = upload_stable_env [OF rows_are_stable [of "ms @ [rec]" c]]
  have any: "rows_are (ms @ [rec]) c s \<Longrightarrow> at_most_new ms s" for s by (auto simp: rows_are_def at_most_new_def)
  have "hoare (rows_are (ms @ [rec]) c) (SetMediaRequiresAuth (m_Origin rec) (m_MediaId rec)) (\<lambda>_. stored_as ms c rec) (\<lambda>_. at_most_new ms)"
    unfolding SetMediaRequiresAuth_def restricted_Insert_def
    by (rule hoare_dbInsert [OF env])
       (use assms any in \<open>auto simp: stored_as_def rows_are_def restricted_in_def intro!: auth_restriction_new\<close>)
  then have "hoare (rows_are (ms @ [rec]) c) (restrict_new rec) (\<lambda>_. stored_as ms c rec) (\<lambda>_. at_most_new ms)"
    unfolding restrict_new_def whenE_def
    by (intro hoare_bind_val [where v = "gen_FreezeUnauthenticatedMedia (General c)" and R = "rows_are (ms @ [rec]) c"])
       (use assms in \<open>auto simp: hoare_def [of _ "getsE _"] rows_are_def stored_as_def restricted_in_def intro!: hoare_return\<close>)
  moreover have "hoare (stored_as ms c rec) (uploadDone rec) (\<lambda>_. stored_as ms c rec) (\<lambda>_. at_most_new ms)"
    by (rule hoare_preserves [OF preserves_uploadDone [OF stored_as_stable]]) (auto simp: stored_as_def intro: any)
  ultimately show ?thesis unfolding finish_upload_def
    by (intro hoare_then hoare_return) auto
qed

lemma hoare_insert_row:
  assumes "\<And>s e. rows_are ms c s \<Longrightarrow> E e s"
  shows "hoare (rows_are ms c) (media_Insert rec) (\<lambda>_ s. rows_are (ms @ [rec]) c s \<and> media_key rec \<notin> media_key ` set ms) E"
  unfolding media_Insert_def
  by (rule hoare_dbInsert [OF upload_stable_env [OF rows_are_stable]]) (use assms in \<open>auto simp: rows_are_def\<close>)

lemma preserves_Upload:
  assumes "env_stable I" and "\<And>w f. I w \<Longrightarrow> I (w\<lparr>objects := f\<rparr>)"
  shows "preserves I (datastores_Upload sha PutObject ds data n h)"
proof -
  have s3: "preserves I (put_s3 PutObject ds name data n)" for name
    unfolding put_s3_def Let_def using assms
    by (intro hoare_intros preservesI) (auto split: sum.split)
  have pf: "preserves I (put_file ds name data)" for name
    unfolding put_file_def Let_def using assms by (intro hoare_intros) auto
  show ?thesis unfolding datastores_Upload_def Let_def
    using assms by (intro hoare_intros s3 pf) auto
qed

lemma find_record_perfect:
  "find_record userId contentType fileName records hashMatch = (Some m, True) \<Longrightarrow>
     m_UserId m = userId \<and> m_UploadName m = fileName"
  by (induction userId contentType fileName records hashMatch rule: find_record.induct) (auto split: if_splits)

lemma FindRecord_perfect:
  "FindRecord h u c f s = (Inr (Some m, True), s') \<Longrightarrow> m_UserId m = u \<and> m_UploadName m = f"
  by (auto simp: FindRecord_def io_simps split: prod.splits sum.splits dest: find_record_perfect)

lemma hoare_FindRecord_rows:
  "hoare (rows_are ms c) (FindRecord h u ct f)
     (\<lambda>r s. rows_are ms c s \<and> match_ok h (fst r) ms \<and> (\<forall>m. r = (Some m, True) \<longrightarrow> is_duplicate h u f ms m)) (\<lambda>_. rows_are ms c)"
proof (rule hoareI)
  note find = hoare_FindRecord [OF upload_stable_env [OF rows_are_stable], where E = "\<lambda>_. rows_are ms c"]
  fix s r s' assume s: "rows_are ms c s" and run: "FindRecord h u ct f s = (Inr r, s')"
  from hoareD_Inr [OF find s run] have r: "rows_are ms c s'" "match_ok h (fst r) ms" by (auto simp: rows_are_def)
  moreover have "is_duplicate h u f ms m" if "r = (Some m, True)" for m
    using r that FindRecord_perfect [of h u ct f s m s'] run by (auto simp: is_duplicate_def match_ok_def)
  ultimately show "rows_are ms c s' \<and> match_ok h (fst r) ms \<and> (\<forall>m. r = (Some m, True) \<longrightarrow> is_duplicate h u f ms m)" by blast
next
  fix s e s' assume s: "rows_are ms c s" and run: "FindRecord h u ct f s = (Inl e, s')"
  show "rows_are ms c s'"
    by (rule preservesD' [OF preserves_FindRecord [OF upload_stable_env [OF rows_are_stable]] s run])
qed

definition upload_result :: "bool \<Rightarrow> string \<Rightarrow> int \<Rightarrow> string \<Rightarrow> string \<Rightarrow> string \<Rightarrow> string \<Rightarrow> string \<Rightarrow> DbMedia list \<Rightarrow> MainRepoConfig \<Rightarrow>
    DbMedia option \<Rightarrow> world \<Rightarrow> bool" where
  "upload_result must h n origin mediaId contentType fileName userId ms c r s \<longleftrightarrow> (\<exists>rec. r = Some rec \<and>
     (\<not> must \<and> rows_are ms c s \<and> is_duplicate h userId fileName ms rec \<or>
      is_new h n origin mediaId contentType fileName userId rec \<and> stored_as ms c rec s))"

lemma hoare_insert_finish:
  assumes "is_new h n origin mediaId contentType fileName userId rec"
  shows "hoare (rows_are ms c) (thenE (media_Insert rec) (finish_upload rec))
     (upload_result must h n origin mediaId contentType fileName userId ms c) (\<lambda>_. at_most_new ms)"
proof (rule hoare_then [OF hoare_insert_row])
  show "hoare (\<lambda>s. rows_are (ms @ [rec]) c s \<and> media_key rec \<notin> media_key ` set ms) (finish_upload rec)
     (upload_result must h n origin mediaId contentType fileName userId ms c) (\<lambda>_. at_most_new ms)"
    by (rule hoare_pure, rule hoare_weaken [OF hoare_finish]) (use assms in \<open>auto simp: upload_result_def\<close>)
qed (auto simp: rows_are_def at_most_new_def)

lemma hoare_insert_or_remove:
  assumes "is_new h n origin mediaId contentType fileName userId rec"
  shows "hoare (rows_are ms c) (bindE (tryE (media_Insert rec)) (\<lambda>ins. case ins of
       Inl err \<Rightarrow> thenE (tryE (Remove ds l)) (throwE err)
     | Inr _ \<Rightarrow> finish_upload rec))
     (upload_result must h n origin mediaId contentType fileName userId ms c) (\<lambda>_. at_most_new ms)"
proof (rule hoare_bind [where R = "\<lambda>ins s. case ins of Inl _ \<Rightarrow> rows_are ms c s
      | Inr _ \<Rightarrow> rows_are (ms @ [rec]) c s \<and> media_key rec \<notin> media_key ` set ms"])
  show "hoare (rows_are ms c) (tryE (media_Insert rec)) (\<lambda>ins s. case ins of Inl _ \<Rightarrow> rows_are ms c s
      | Inr _ \<Rightarrow> rows_are (ms @ [rec]) c s \<and> media_key rec \<notin> media_key ` set ms) (\<lambda>_. at_most_new ms)"
    by (rule hoare_try, rule hoare_weaken [OF hoare_insert_row [where E = "\<lambda>_. rows_are ms c"]])
       (auto simp: rows_are_def at_most_new_def)
next
  fix ins :: "goerr + unit"
  have rem: "preserves (rows_are ms c) (tryE (Remove ds l))"
    by (intro hoare_intros upload_stable_env [OF rows_are_stable]) (auto simp: rows_are_def)
  show "hoare (\<lambda>s. case ins of Inl _ \<Rightarrow> rows_are ms c s | Inr _ \<Rightarrow> rows_are (ms @ [rec]) c s \<and> media_key rec \<notin> media_key ` set ms)
     (case ins of Inl err \<Rightarrow> thenE (tryE (Remove ds l)) (throwE err) | Inr _ \<Rightarrow> finish_upload rec)
     (upload_result must h n origin mediaId contentType fileName userId ms c) (\<lambda>_. at_most_new ms)"
  proof (cases ins)
    case (Inl err)
    show ?thesis unfolding Inl sum.case
      by (rule hoare_then [OF hoare_preserves [OF rem]]) (auto simp: rows_are_def at_most_new_def intro!: hoare_throw)
  next
    case (Inr u)
    show ?thesis unfolding Inr sum.case
      by (rule hoare_pure, rule hoare_weaken [OF hoare_finish]) (use assms in \<open>auto simp: upload_result_def\<close>)
  qed
qed

lemma hoare_store_rows:
  assumes "\<not> quarantined_hash h ms"
  shows "hoare (rows_are ms c) (upload_store xt ds origin mediaId must contentType fileName userId (h, n, data))
     (upload_result must h n origin mediaId contentType fileName userId ms c) (\<lambda>_. at_most_new ms)"
proof -
  note env = upload_stable_env [OF rows_are_stable [of ms c]]
  have any: "rows_are ms c s \<Longrightarrow> at_most_new ms s" for s by (auto simp: rows_are_def at_most_new_def)
  have keep: "hoare (rows_are ms c) m (\<lambda>_. rows_are ms c) (\<lambda>_. at_most_new ms)" if "preserves (rows_are ms c) m" for m :: "(world, 'x) io"
    by (rule hoare_preserves [OF that any])
  have clock: "preserves (rows_are ms c) NowMillis" by (rule preserves_NowMillis [OF env])
  have up: "preserves (rows_are ms c) (tryE (datastores_Upload (xt_sha xt) (xt_PutObject xt) ds data n h))"
    by (intro hoare_intros preserves_Upload env) (simp add: rows_are_def)
  have cache: "preserves (rows_are ms c) (PopulateCacheAsync st n h)" for st
    by (rule preserves_PopulateCache [OF rows_are_stable])
  have find: "hoare (rows_are ms c) (FindRecord h userId contentType fileName)
     (\<lambda>r s. rows_are ms c s \<and> match_ok h (fst r) ms \<and> (\<forall>m. r = (Some m, True) \<longrightarrow> is_duplicate h userId fileName ms m)) (\<lambda>_. at_most_new ms)"
    by (rule hoare_weaken [OF hoare_FindRecord_rows]) (auto intro: any)
  show ?thesis unfolding upload_store_def Let_def prod.case
    apply (rule hoare_bind [OF keep [OF clock]])
    apply (rule hoare_bind [OF find])
    apply (rule hoare_pure)
    subgoal for ts r
      apply (cases r)
      subgoal for rec perfect
        apply (cases rec)
        subgoal
          apply (simp only: prod.case option.case)
          apply (rule hoare_bind [OF keep [OF up]])
          subgoal for u
            apply (cases u)
            subgoal by (simp only: sum.case, rule hoare_then [OF keep [OF cache]]) (auto intro: hoare_throw any)
            subgoal by (simp only: sum.case, rule hoare_then [OF keep [OF cache] hoare_insert_or_remove]) (simp add: is_new_def)
            done
          done
        subgoal for m
          apply (cases "perfect \<and> \<not> must")
          subgoal by (auto simp: upload_result_def intro!: hoare_return)
          subgoal
            apply (simp only: prod.case option.case if_False)
            apply (rule hoare_insert_finish)
            using assms by (auto simp: is_new_def match_ok_def quarantined_hash_def)
          done
        done
      done
    done
qed

section \<open>The guarantees of an upload\<close>

text \<open>An accepted upload: what was checked in the state \<open>w\<close>, and what is stored in \<open>s\<close>.\<close>

definition accepted ::
  "externals \<Rightarrow> RequestContext \<Rightarrow> string \<Rightarrow> string \<Rightarrow> bytesReader \<Rightarrow> string \<Rightarrow> string \<Rightarrow> string \<Rightarrow> Kind \<Rightarrow>
   world \<Rightarrow> DbMedia \<Rightarrow> string \<Rightarrow> bytes \<Rightarrow> world \<Rightarrow> bool" where
  "accepted xt ctx origin mediaId0 r contentType fileName userId kind w rec mediaId data s \<longleftrightarrow>
     (mediaId0 \<noteq> [] \<longrightarrow> mediaId = mediaId0) \<and>
     input_of ctx kind r = (data, None) \<and>
     CheckForSpam (xt_plugins xt) data fileName contentType userId origin mediaId = Inr False \<and>
     \<not> quarantined_hash (xt_sha xt data) (tbl_media w) \<and>
     within_quota xt ctx userId (tbl_user_stats w) (int (length data)) \<and>
     upload_result (mediaId0 \<noteq> []) (xt_sha xt data) (int (length data)) origin mediaId contentType fileName userId
       (tbl_media w) (cfg w) (Some rec) s"

lemma accepted_env: "env_stable (accepted xt ctx origin mediaId0 r contentType fileName userId kind w rec mediaId data)"
  by (rule env_stableI) (simp_all add: accepted_def upload_result_def stored_as_def rows_are_def restricted_in_def)

lemma env_stable_ex: "(\<And>x. env_stable (P x)) \<Longrightarrow> env_stable (\<lambda>s. \<exists>x. P x s)"
  unfolding env_stable_def by blast

definition upload_post ::
  "externals \<Rightarrow> RequestContext \<Rightarrow> string \<Rightarrow> string \<Rightarrow> bytesReader \<Rightarrow> string \<Rightarrow> string \<Rightarrow> string \<Rightarrow> Kind \<Rightarrow>
   world \<Rightarrow> DbMedia option \<Rightarrow> world \<Rightarrow> bool" where
  "upload_post xt ctx origin mediaId0 r contentType fileName userId kind w res s =
     (case res of None \<Rightarrow> tbl_media s = tbl_media w
      | Some rec \<Rightarrow> \<exists>mediaId data. accepted xt ctx origin mediaId0 r contentType fileName userId kind w rec mediaId data s)"

lemma upload_post_env: "env_stable (upload_post xt ctx origin mediaId0 r contentType fileName userId kind w res)"
proof (cases res)
  case None
  then show ?thesis unfolding upload_post_def by (auto intro: env_stableI)
next
  case (Some rec)
  show ?thesis unfolding upload_post_def Some option.case by (intro env_stable_ex accepted_env)
qed

lemma hoare_upload_run:
  "hoare (\<lambda>s. rows_are (tbl_media w) (cfg w) s \<and> tbl_user_stats s = tbl_user_stats w)
     (upload_Execute xt ctx origin mediaId0 r contentType fileName userId kind)
     (upload_post xt ctx origin mediaId0 r contentType fileName userId kind w) (\<lambda>_. at_most_new (tbl_media w))"
proof (rule hoare_upload_Execute)
  show "upload_stable (\<lambda>s. rows_are (tbl_media w) (cfg w) s \<and> tbl_user_stats s = tbl_user_stats w)"
    by (intro upload_stable_conj rows_are_stable upload_stableI env_stableI) simp_all
next
  fix ds mediaId h n data
  assume *: "input_of ctx kind r = (data, None)" "h = xt_sha xt data" "n = int (length data)"
    "CheckForSpam (xt_plugins xt) data fileName contentType userId origin mediaId = Inr False"
    "\<not> quarantined_hash h (tbl_media w)" "within_quota xt ctx userId (tbl_user_stats w) n" "mediaId0 \<noteq> [] \<Longrightarrow> mediaId = mediaId0"
  have "upload_post xt ctx origin mediaId0 r contentType fileName userId kind w res s"
    if "upload_result (mediaId0 \<noteq> []) h n origin mediaId contentType fileName userId (tbl_media w) (cfg w) res s" for res s
  proof -
    from that obtain rec where rec: "res = Some rec" by (auto simp: upload_result_def)
    have "accepted xt ctx origin mediaId0 r contentType fileName userId kind w rec mediaId data s"
      using * that unfolding accepted_def rec by simp
    then show ?thesis unfolding upload_post_def rec by auto
  qed
  then show "hoare (\<lambda>s. rows_are (tbl_media w) (cfg w) s \<and> tbl_user_stats s = tbl_user_stats w)
      (upload_store xt ds origin mediaId (mediaId0 \<noteq> []) contentType fileName userId (h, n, data))
      (upload_post xt ctx origin mediaId0 r contentType fileName userId kind w) (\<lambda>_. at_most_new (tbl_media w))"
    by (intro hoare_weaken [OF hoare_store_rows [OF *(5), of "cfg w"]]) simp_all
qed (auto simp: rows_are_def at_most_new_def upload_post_def intro: upload_post_env upload_stable_env [OF at_most_new_stable])

lemma upload_run:
  assumes "upload_Execute xt ctx origin mediaId0 r contentType fileName userId kind w = (Inr res, w')"
  shows "upload_post xt ctx origin mediaId0 r contentType fileName userId kind w res w'"
  by (rule hoareD_Inr [OF hoare_upload_run _ assms]) (simp add: rows_are_def)

lemma upload_run_error:
  assumes "upload_Execute xt ctx origin mediaId0 r contentType fileName userId kind w = (Inl e, w')"
  shows "at_most_new (tbl_media w) w'"
  by (rule hoareD_Inl [OF hoare_upload_run _ assms]) (simp add: rows_are_def)

text \<open>
  For evaluation: a buffer larger than what is left to read behaves like any other such
  buffer, so a short stream need not be copied with the full buffer size.
\<close>

lemma br_Read_large: "length (br_data r) < n \<Longrightarrow> length (br_data r) < m \<Longrightarrow> br_Read r n = br_Read r m"
  by (auto simp: br_Read_def Let_def min_def split: list.splits)

lemma br_Read_shorter: "br_Read r n = (x, r') \<Longrightarrow> length (br_data r') \<le> length (br_data r)"
  using source.read_bytes [of r n "fst x" "snd x" r'] by simp

lemma io_Copy_large:
  "length (br_data r) < n \<Longrightarrow> length (br_data r) < m \<Longrightarrow> io_Copy fuel br_Read n r = io_Copy fuel br_Read m r"
proof (induction fuel arbitrary: r)
  case (Suc fuel)
  have IH: "io_Copy fuel br_Read n r' = io_Copy fuel br_Read m r'" if "br_Read r m = (x, r')" for x r'
    using Suc.IH [of r'] Suc.prems br_Read_shorter [OF that] by simp
  show ?case
    using IH by (simp add: br_Read_large [OF Suc.prems] split: prod.split option.split)
qed simp

lemma io_Copy_limited_large:
  "length (br_data (lr_r l)) < n \<Longrightarrow> length (br_data (lr_r l)) < m \<Longrightarrow>
     io_Copy fuel (limitedReader_Read br_Read) n l = io_Copy fuel (limitedReader_Read br_Read) m l"
proof (induction fuel arbitrary: l)
  case (Suc fuel)
  have same: "limitedReader_Read br_Read l n = limitedReader_Read br_Read l m"
    using Suc.prems by (auto simp: limitedReader_Read_def br_Read_large [OF Suc.prems])
  have IH: "io_Copy fuel (limitedReader_Read br_Read) n l' = io_Copy fuel (limitedReader_Read br_Read) m l'"
    if "limitedReader_Read br_Read l m = (x, l')" for x l'
  proof -
    have "length (br_data (lr_r l')) \<le> length (br_data (lr_r l))"
      using that br_Read_shorter [of "lr_r l"] by (auto simp: limitedReader_Read_def split: if_splits prod.splits)
    with Suc.IH [of l'] Suc.prems show ?thesis by simp
  qed
  show ?case using IH by (simp add: same split: prod.split option.split)
qed simp

definition buffer_for :: "bytesReader \<Rightarrow> nat" where
  "buffer_for r = (if int (length (br_data r)) < 32768 then Suc (length (br_data r)) else copyBufferSize)"

lemma drain_code [code]:
  "drain r = (case (case r of
       Inl l \<Rightarrow> io_Copy (length (br_data (lr_r l)) + 2) (limitedReader_Read br_Read) (buffer_for (lr_r l)) l
     | Inr b \<Rightarrow> io_Copy (length (br_data b) + 2) br_Read (buffer_for b) b) of
     None \<Rightarrow> ([], Some (Panic ''not enough fuel'')) | Some s \<Rightarrow> s)"
proof -
  have len: "int (length (br_data b)) < 32768 \<Longrightarrow> length (br_data b) < copyBufferSize" for b
    by (simp add: copyBufferSize_def)
  have "io_Copy k br_Read copyBufferSize b = io_Copy k br_Read (buffer_for b) b" for k b
    unfolding buffer_for_def using len [of b] io_Copy_large [of b copyBufferSize "Suc (length (br_data b))" k] by auto
  moreover have "io_Copy k (limitedReader_Read br_Read) copyBufferSize l = io_Copy k (limitedReader_Read br_Read) (buffer_for (lr_r l)) l" for k l
    unfolding buffer_for_def using len [of "lr_r l"] io_Copy_limited_large [of l copyBufferSize "Suc (length (br_data (lr_r l)))" k]
    by auto
  ultimately show ?thesis unfolding drain_def by (simp only:)
qed

definition demo_xt :: externals where
  "demo_xt = \<lparr>xt_sha = (\<lambda>b. if b = ''abc'' then ''h1'' else if b = ''de'' then ''h3'' else b), xt_PutObject = (\<lambda>b n. Inr b),
     xt_glob = (\<lambda>g u. False), xt_plugins = [], xt_IsImportProcess = False\<rparr>"

definition demo_reader :: bytesReader where
  "demo_reader = \<lparr>br_data = ''xy'', br_pieces = [], br_end = ErrEOF, br_eager = False\<rparr>"

lemma demo_stored_inv: "stored_inv (xt_sha demo_xt) demo_world"
  by (auto simp: stored_inv_def files_ok_def ids_fresh_def strip_def demo_xt_def demo_world_def empty_world_def demo_simps
      split: if_splits)

lemma stored_inv_upload:
  assumes "stored_inv (xt_sha xt) w"
    and "upload_Execute xt ctx origin mediaId r contentType fileName userId kind w = (res, w')"
  shows "stored_inv (xt_sha xt) w'"
proof -
  let ?P = "\<lambda>s. stored_inv (xt_sha xt) s \<and> tbl_media s = tbl_media w \<and> tbl_user_stats s = tbl_user_stats w"
  note env = upload_stable_env [OF stored_inv_stable]
  have "hoare ?P (upload_Execute xt ctx origin mediaId r contentType fileName userId kind)
      (\<lambda>_. stored_inv (xt_sha xt)) (\<lambda>_. stored_inv (xt_sha xt))"
  proof (rule hoare_upload_Execute [where M = "tbl_media w" and U = "tbl_user_stats w"])
    show "upload_stable ?P"
      by (intro upload_stable_conj stored_inv_stable upload_stableI env_stableI) simp_all
    show "hoare ?P (upload_store xt ds origin i must contentType fileName userId (h, n, data))
        (\<lambda>_. stored_inv (xt_sha xt)) (\<lambda>_. stored_inv (xt_sha xt))" for ds i must h n data
      by (rule hoare_weaken [OF hoare_upload_store [OF refl]]) auto
  qed (auto intro: env)
  then show ?thesis
    using assms by (cases res) (auto dest: hoareD_Inr hoareD_Inl)
qed

text \<open>
  C10: Whatever fails during an upload, every media record keeps pointing to a file
  with the record's hash, provided the identifiers of the random source are new.
\<close>

theorem upload_keeps_files:
  assumes "stored_inv (xt_sha xt) w"
    and "upload_Execute xt ctx origin mediaId r contentType fileName userId kind w = (res, w')"
  shows "stored_inv (xt_sha xt) w'"
  by (rule stored_inv_upload [OF assms])

theorem upload_keeps_files_witness:
  "stored_inv (xt_sha demo_xt) (snd (upload_Execute demo_xt demo_ctx ''a.org'' '''' demo_reader ''text/plain'' ''n'' ''@u:a.org'' LocalMediaKind demo_world))"
  by (rule upload_keeps_files [OF demo_stored_inv prod.collapse [symmetric]])

text \<open>
  C11: An upload that returns a record has read its whole input without error, passed the
  spam check, has a hash that is not quarantined and fits the user's byte quota.  The
  record is a row with that hash: either one that the same user had uploaded under the same
  name, and only when no identifier was prescribed, or a new row with the given
  attributes under an unused identifier, restricted when the configuration asks for it.
\<close>

theorem upload_accepted:
  assumes "upload_Execute xt ctx origin mediaId0 r contentType fileName userId kind w = (Inr (Some rec), w')"
  shows "\<exists>mediaId data. input_of ctx kind r = (data, None) \<and> Sha256Hash rec = xt_sha xt data \<and>
    (mediaId0 \<noteq> [] \<longrightarrow> mediaId = mediaId0) \<and>
    CheckForSpam (xt_plugins xt) data fileName contentType userId origin mediaId = Inr False \<and>
    (\<forall>m \<in> set (tbl_media w). Sha256Hash m = Sha256Hash rec \<longrightarrow> \<not> m_Quarantined m) \<and>
    within_quota xt ctx userId (tbl_user_stats w) (int (length data)) \<and>
    m_UserId rec = userId \<and> m_UploadName rec = fileName \<and>
    (mediaId0 = [] \<and> tbl_media w' = tbl_media w \<and> rec \<in> set (tbl_media w) \<or>
     tbl_media w' = tbl_media w @ [rec] \<and> media_key rec = (origin, mediaId) \<and>
     (origin, mediaId) \<notin> media_key ` set (tbl_media w) \<and>
     m_ContentType rec = contentType \<and> m_SizeBytes rec = int (length data) \<and> \<not> m_Quarantined rec \<and>
     (gen_FreezeUnauthenticatedMedia (General (cfg w)) \<longrightarrow>
        auth_restriction (restrictions_for origin mediaId (tbl_restricted w'))))"
proof -
  obtain mediaId data where "accepted xt ctx origin mediaId0 r contentType fileName userId kind w rec mediaId data w'"
    using upload_run [OF assms] by (auto simp: upload_post_def)
  then show ?thesis
    unfolding accepted_def upload_result_def stored_as_def rows_are_def is_new_def is_duplicate_def restricted_in_def quarantined_hash_def
    by (intro exI [of _ mediaId] exI [of _ data]) auto
qed

lemma demo_upload_run:
  "case upload_Execute demo_xt demo_ctx ''a.org'' '''' demo_reader ''text/plain'' ''n'' ''@u:a.org'' LocalMediaKind demo_world of
     (Inr (Some rec), w') \<Rightarrow> m_MediaId rec = ''aabbccdd'' \<and> length (tbl_media w') = 4 | _ \<Rightarrow> False"
  by code_simp

theorem upload_accepted_witness:
  "\<exists>rec w' data. upload_Execute demo_xt demo_ctx ''a.org'' '''' demo_reader ''text/plain'' ''n'' ''@u:a.org'' LocalMediaKind demo_world = (Inr (Some rec), w') \<and>
     m_UserId rec = ''@u:a.org'' \<and> input_of demo_ctx LocalMediaKind demo_reader = (data, None) \<and> tbl_media w' = tbl_media demo_world @ [rec]"
proof -
  obtain rec w' where run: "upload_Execute demo_xt demo_ctx ''a.org'' '''' demo_reader ''text/plain'' ''n'' ''@u:a.org'' LocalMediaKind demo_world = (Inr (Some rec), w')"
    and "length (tbl_media w') = 4" using demo_upload_run by (auto split: prod.splits sum.splits option.splits)
  with upload_accepted [OF run] show ?thesis by fastforce
qed

end
