(* ===== verification/UploadClaims.thy ===== *)
theory UploadClaims
  imports UploadProofs
begin

text \<open>
  Further guarantees of the upload pipelines: the database invariant, quotas, fresh
  identifiers, and the guards of asynchronous uploads.
\<close>

section \<open>The database invariant\<close>

lemma media_inv_upload_stable: "upload_stable media_inv"
  by (rule upload_stableI [OF media_inv_stable]) (simp_all add: media_inv_def)

lemma media_inv_finish: "preserves media_inv (finish_upload rec)"
  by (rule preserves_finish [OF media_inv_upload_stable]) (simp add: media_inv_def)

lemma media_inv_upload_store: "preserves media_inv (upload_store xt ds origin mediaId must contentType fileName userId buffered)"
proof -
  have "preserves media_inv (datastores_Upload sha PutObject ds data n h)" for sha PutObject data n h
    by (rule preserves_Upload [OF media_inv_stable]) (simp add: media_inv_def)
  then show ?thesis
    unfolding upload_store_def Let_def
    by (intro hoare_intros media_inv_stable media_inv_upload_stable media_inv_finish) (simp_all add: media_inv_def)
qed

lemma media_inv_upload:
  assumes "media_inv w" and "upload_Execute xt ctx origin mediaId0 r contentType fileName userId kind w = (res, w')"
  shows "media_inv w'"
proof -
  let ?P = "\<lambda>s. media_inv s \<and> tbl_media s = tbl_media w \<and> tbl_user_stats s = tbl_user_stats w"
  have "hoare ?P (upload_Execute xt ctx origin mediaId0 r contentType fileName userId kind) (\<lambda>_. media_inv) (\<lambda>_. media_inv)"
  proof (rule hoare_upload_Execute [where M = "tbl_media w" and U = "tbl_user_stats w"])
    show "upload_stable ?P"
      by (intro upload_stable_conj media_inv_upload_stable upload_stableI env_stableI) simp_all
    show "hoare ?P (upload_store xt ds origin i must contentType fileName userId x) (\<lambda>_. media_inv) (\<lambda>_. media_inv)" for ds i must x
      by (rule hoare_weaken [OF media_inv_upload_store [unfolded preserves_def]]) auto
  qed auto
  then show ?thesis
    using assms by (cases res) (auto dest: hoareD_Inr hoareD_Inl)
qed

text \<open>
  An upload keeps the database invariant (unique identifiers, and statistics that are
  the sums of the sizes) on every path, and changes the media table at most by one new
  row at its end.
\<close>

theorem upload_appends:
  assumes "media_inv w"
    and "upload_Execute xt ctx origin mediaId r contentType fileName userId kind w = (res, w')"
  shows "media_inv w' \<and> (tbl_media w' = tbl_media w \<or> (\<exists>rec. tbl_media w' = tbl_media w @ [rec]))"
proof
  show "media_inv w'" by (rule media_inv_upload [OF assms])
  show "tbl_media w' = tbl_media w \<or> (\<exists>rec. tbl_media w' = tbl_media w @ [rec])"
  proof (cases res)
    case (Inl e)
    with upload_run_error assms(2) show ?thesis by (auto simp: at_most_new_def)
  next
    case (Inr x)
    with upload_run assms(2) have "upload_post xt ctx origin mediaId r contentType fileName userId kind w x w'" by blast
    then show ?thesis
      by (auto simp: upload_post_def accepted_def upload_result_def stored_as_def rows_are_def split: option.splits)
  qed
qed

theorem upload_appends_witness:
  "media_inv (snd (upload_Execute demo_xt demo_ctx ''a.org'' '''' demo_reader ''text/plain'' ''n'' ''@u:a.org'' LocalMediaKind demo_world))"
  using upload_appends [OF demo_media_inv prod.collapse [symmetric]] by blast

section \<open>Quotas\<close>

text \<open>
  C13: After an upload that stored a new row, the bytes of the user's uploads are within
  the limit of the user's quota, when there is one.
\<close>

theorem upload_within_quota:
  assumes "media_inv w" and "userId \<noteq> ''''" and "\<not> xt_IsImportProcess xt"
    and "0 \<le> limit_of (xt_glob xt) ctx userId quota_MaxBytes (- 1)"
    and "upload_Execute xt ctx origin mediaId0 r contentType fileName userId kind w = (Inr (Some rec), w')"
    and "tbl_media w' = tbl_media w @ [rec]" and "in_int64 (uploaded_bytes userId (tbl_media w'))"
  shows "uploaded_bytes userId (tbl_media w') \<le> limit_of (xt_glob xt) ctx userId quota_MaxBytes (- 1)"
proof -
  obtain mediaId data where acc: "accepted xt ctx origin mediaId0 r contentType fileName userId kind w rec mediaId data w'"
    using upload_run [OF assms(5)] by (auto simp: upload_post_def)
  then have rec: "m_UserId rec = userId" "m_SizeBytes rec = int (length data)"
    using assms(6) by (auto simp: accepted_def upload_result_def is_new_def is_duplicate_def rows_are_def)
  then have "uploaded_bytes userId (tbl_media w') = stats_of userId (tbl_user_stats w) + int (length data)"
    using assms(1,6) by (simp add: media_inv_def uploaded_bytes_append, simp add: uploaded_bytes_def)
  with acc assms(2-4,7) show ?thesis by (auto simp: accepted_def within_quota_def)
qed

definition quota_xt :: externals where
  "quota_xt = demo_xt\<lparr>xt_glob := \<lambda>g u. u = ''@u:a.org''\<rparr>"

lemma quota_upload_run:
  "case upload_Execute quota_xt quota_ctx ''a.org'' '''' demo_reader ''text/plain'' ''n'' ''@u:a.org'' LocalMediaKind demo_world of
     (Inr (Some rec), w') \<Rightarrow> m_SizeBytes rec = 2 \<and> length (tbl_media w') = 4 | _ \<Rightarrow> False"
  by code_simp

theorem upload_within_quota_witness:
  "\<exists>rec w'. upload_Execute quota_xt quota_ctx ''a.org'' '''' demo_reader ''text/plain'' ''n'' ''@u:a.org'' LocalMediaKind demo_world = (Inr (Some rec), w') \<and>
     uploaded_bytes ''@u:a.org'' (tbl_media w') \<le> limit_of (xt_glob quota_xt) quota_ctx ''@u:a.org'' quota_MaxBytes (- 1)"
proof -
  obtain rec w' where run: "upload_Execute quota_xt quota_ctx ''a.org'' '''' demo_reader ''text/plain'' ''n'' ''@u:a.org'' LocalMediaKind demo_world = (Inr (Some rec), w')"
    and len: "m_SizeBytes rec = 2" "length (tbl_media w') = 4"
    using quota_upload_run by (auto split: prod.splits sum.splits option.splits)
  have rows: "tbl_media w' = tbl_media demo_world @ [rec]"
    using upload_run [OF run] len(2)
    by (auto simp: upload_post_def accepted_def upload_result_def stored_as_def rows_are_def)
  have "uploaded_bytes ''@u:a.org'' (tbl_media w') \<le> limit_of (xt_glob quota_xt) quota_ctx ''@u:a.org'' quota_MaxBytes (- 1)"
    by (rule upload_within_quota [OF demo_media_inv _ _ _ run rows])
       (simp_all add: rows len(1) uploaded_bytes_def quota_xt_def demo_xt_def limit_of_def quota_ctx_def in_int64_def demo_simps)
  with run show ?thesis by blast
qed

section \<open>Fresh identifiers\<close>

definition held_keys :: "world \<Rightarrow> (string \<times> string) set" where
  "held_keys w = (\<lambda>r. (h_Origin r, h_MediaId r)) ` set (tbl_held w)"

definition gen_st :: "(string \<times> string) set \<Rightarrow> DbMedia list \<Rightarrow> DbReservedMedia list \<Rightarrow> DbExpiringMedia list \<Rightarrow> world \<Rightarrow> bool" where
  "gen_st H M R X s \<longleftrightarrow> H \<subseteq> held_keys s \<and> tbl_media s = M \<and> tbl_reserved s = R \<and> tbl_expiring s = X"

lemma gen_st_stable: "env_stable (gen_st H M R X)"
  by (rule env_stableI) (simp_all add: gen_st_def held_keys_def)

lemma hoare_held_TryInsert:
  "hoare (gen_st H M R X) (held_TryInsert origin i reason)
     (\<lambda>_ s. gen_st H M R X s \<and> (origin, i) \<notin> H \<and> (origin, i) \<in> held_keys s) (\<lambda>_. gen_st H M R X)"
  unfolding held_TryInsert_def
proof (rule hoare_bind [where R = "\<lambda>_. gen_st H M R X"])
  show "hoare (gen_st H M R X) NowMillis (\<lambda>_. gen_st H M R X) (\<lambda>_. gen_st H M R X)"
    by (rule hoare_preserves [OF preserves_NowMillis [OF gen_st_stable]])
qed (rule hoare_dbInsert [OF gen_st_stable], auto simp: gen_st_def held_keys_def)

lemma hoare_exists_query:
  assumes "env_stable P" and "\<And>s. P s \<Longrightarrow> q s = v"
  shows "hoare P (dbQuery q) (\<lambda>x s. P s \<and> x = v) (\<lambda>_. P)"
  by (rule hoare_dbQuery [OF env_script_stable]) (use assms in auto)

lemma hoare_GenerateMediaId_loop:
  "hoare (gen_st H M R X) (GenerateMediaId_loop n origin)
     (\<lambda>i s. gen_st H M R X s \<and> (origin, i) \<notin> H \<and> (origin, i) \<in> held_keys s \<and>
        (origin, i) \<notin> media_key ` set M \<and> \<not> is_reserved origin i R) (\<lambda>_. gen_st H M R X)"
proof (induction n)
  case (Suc n)
  let ?Q = "\<lambda>i s. gen_st H M R X s \<and> (origin, i) \<notin> H \<and> (origin, i) \<in> held_keys s \<and>
        (origin, i) \<notin> media_key ` set M \<and> \<not> is_reserved origin i R"
  have id: "hoare (gen_st H M R X) (tryE NewUniqueId) (\<lambda>_. gen_st H M R X) (\<lambda>_. gen_st H M R X)"
    by (rule hoare_preserves [OF preserves_try [OF preserves_NewUniqueId [OF gen_st_stable]]])
  have again: "hoare (\<lambda>s. gen_st H M R X s \<and> A s) (GenerateMediaId_loop n origin) ?Q (\<lambda>_. gen_st H M R X)" for A
    by (rule hoare_weaken [OF Suc.IH]) auto
  let ?P = "\<lambda>i s. gen_st H M R X s \<and> (origin, i) \<notin> H \<and> (origin, i) \<in> held_keys s"
  have stab: "env_stable (?P i)" for i
    by (rule env_stable_conj [OF gen_st_stable]) (rule env_stableI, simp_all add: held_keys_def)
  have media: "hoare (?P i) (media_IdExists origin i) (\<lambda>x s. ?P i s \<and> x = ((origin, i) \<in> media_key ` set M)) (\<lambda>_. gen_st H M R X)" for i
    unfolding media_IdExists_def
    by (rule hoare_weaken [OF hoare_exists_query [OF stab [of i]]]) (auto simp: gen_st_def list_ex_iff)
  have reserved: "hoare (?P i) (reserved_IdExists origin i) (\<lambda>x s. ?P i s \<and> x = is_reserved origin i R) (\<lambda>_. gen_st H M R X)" for i
    unfolding reserved_IdExists_def
    by (rule hoare_weaken [OF hoare_exists_query [OF stab [of i]]]) (auto simp: gen_st_def)
  have check: "hoare (?P i) (bindE (media_IdExists origin i) (\<lambda>exists.
       if exists then GenerateMediaId_loop n origin
       else bindE (reserved_IdExists origin i) (\<lambda>exists.
         if exists then GenerateMediaId_loop n origin else returnE i))) ?Q (\<lambda>_. gen_st H M R X)" for i
    by (rule hoare_bind [OF media], rule hoare_pure)
       (auto intro!: again hoare_bind [OF reserved] hoare_pure hoare_return)
  show ?case unfolding GenerateMediaId_loop.simps Let_def
    by (rule hoare_bind [OF id], rule hoare_then [OF hoare_held_TryInsert check])
qed (auto intro: hoare_throw)

lemma hoare_GenerateMediaId:
  "hoare (gen_st H M R X) (GenerateMediaId isImport origin)
     (\<lambda>i s. gen_st H M R X s \<and> (origin, i) \<notin> H \<and> (origin, i) \<in> held_keys s \<and>
        (origin, i) \<notin> media_key ` set M \<and> \<not> is_reserved origin i R) (\<lambda>_. gen_st H M R X)"
  unfolding GenerateMediaId_def by (auto intro: hoare_throw hoare_GenerateMediaId_loop)

text \<open>
  A generated media identifier was not held before and is held afterwards, and
  neither a media row nor a reservation has it.
\<close>

theorem GenerateMediaId_fresh:
  assumes "GenerateMediaId isImport origin w = (Inr i, w')"
  shows "(origin, i) \<notin> held_keys w \<and> (origin, i) \<in> held_keys w' \<and> (origin, i) \<notin> media_key ` set (tbl_media w') \<and>
    \<not> is_reserved origin i (tbl_reserved w') \<and> held_keys w \<subseteq> held_keys w'"
  using hoareD_Inr [OF hoare_GenerateMediaId [of "held_keys w" "tbl_media w" "tbl_reserved w" "tbl_expiring w"] _ assms]
  by (auto simp: gen_st_def)

theorem GenerateMediaId_fresh_witness:
  "(''a.org'', ''aabbccdd'') \<notin> media_key ` set (tbl_media (snd (GenerateMediaId False ''a.org'' demo_world)))"
proof -
  have "fst (GenerateMediaId False ''a.org'' demo_world) = Inr ''aabbccdd''" by code_simp
  then obtain w' where run: "GenerateMediaId False ''a.org'' demo_world = (Inr ''aabbccdd'', w')"
    by (cases "GenerateMediaId False ''a.org'' demo_world") auto
  from GenerateMediaId_fresh [OF this] show ?thesis unfolding run snd_conv by blast
qed

section \<open>Asynchronous uploads\<close>

lemma IsExpired_no_ticks: "ticks w = [] \<Longrightarrow> IsExpired r w = (Inr (e_ExpiresTs r < now w), w)"
  by (simp add: IsExpired_def NowMillis_def io_simps)

section \<open>Creating identifiers\<close>

lemma create_run:
  assumes "create_Execute xt ctx origin userId period w = (Inr rec, w')"
  shows "\<exists>i X. rec = \<lparr>e_Origin = origin, e_MediaId = i, e_UserId = userId,
      e_ExpiresTs = int64 (now w' + (if period = 0 then int64 (up_MaxAgeSeconds (Uploads (ctx_Config ctx)) * 1000) else period))\<rparr> \<and>
    (origin, i) \<notin> media_key ` set (tbl_media w') \<and> \<not> is_reserved origin i (tbl_reserved w') \<and>
    tbl_expiring w' = tbl_expiring w @ [rec] \<and> (origin, i) \<notin> expiring_key ` set (tbl_expiring w) \<and> tbl_media w' = tbl_media w"
proof -
  obtain w1 where q: "quota_Check (xt_glob xt) ctx userId MaxPending w = (Inr (), w1)"
    and "bindE (GenerateMediaId (xt_IsImportProcess xt) origin) (\<lambda>mediaId.
     let expirationTime = (if period = DefaultExpirationTime
           then int64 (up_MaxAgeSeconds (Uploads (ctx_Config ctx)) * 1000) else period) in
     bindE NowMillis (\<lambda>n. let expiresTs = int64 (n + expirationTime) in
     thenE (expiring_Insert origin mediaId userId expiresTs)
    (returnE \<lparr>e_Origin = origin, e_MediaId = mediaId, e_UserId = userId, e_ExpiresTs = expiresTs\<rparr>))) w1 = (Inr rec, w')"
    using assms by (auto simp: create_Execute_def thenE_run split: prod.splits sum.splits)
  then obtain i w2 n w3 expires where g: "GenerateMediaId (xt_IsImportProcess xt) origin w1 = (Inr i, w2)"
    and t: "NowMillis w2 = (Inr n, w3)"
    and e: "expires = int64 (n + (if period = 0 then int64 (up_MaxAgeSeconds (Uploads (ctx_Config ctx)) * 1000) else period))"
    and ins: "expiring_Insert origin i userId expires w3 = (Inr (), w')"
    and rec: "rec = \<lparr>e_Origin = origin, e_MediaId = i, e_UserId = userId, e_ExpiresTs = expires\<rparr>"
    by (auto simp: bindE_run thenE_run returnE_run Let_def DefaultExpirationTime_def split: prod.splits sum.splits)
  have "preserves (gen_st {} (tbl_media w) (tbl_reserved w) (tbl_expiring w)) (quota_Check (xt_glob xt) ctx userId MaxPending)"
    by (rule preserves_quota_Check [OF gen_st_stable])
  from preservesD' [OF this _ q] have "gen_st {} (tbl_media w) (tbl_reserved w) (tbl_expiring w) w1"
    by (simp add: gen_st_def)
  from hoareD_Inr [OF hoare_GenerateMediaId this g]
  have w2: "tbl_media w2 = tbl_media w" "tbl_expiring w2 = tbl_expiring w" "(origin, i) \<notin> media_key ` set (tbl_media w)"
    "\<not> is_reserved origin i (tbl_reserved w2)"
    by (auto simp: gen_st_def)
  have w3: "now w3 = n" "tbl_media w3 = tbl_media w2" "tbl_expiring w3 = tbl_expiring w2" "tbl_reserved w3 = tbl_reserved w2"
    using t by (auto simp: NowMillis_def split: list.splits)
  have "w' = w3\<lparr>faults := faults w', tbl_expiring := tbl_expiring w3 @ [rec]\<rparr> \<and> (origin, i) \<notin> expiring_key ` set (tbl_expiring w3)"
    using ins unfolding expiring_Insert_def rec by (auto dest!: dbInsert_result)
  then have "tbl_expiring w' = tbl_expiring w3 @ [rec]" "now w' = now w3" "tbl_media w' = tbl_media w3" "tbl_reserved w' = tbl_reserved w3"
    "(origin, i) \<notin> expiring_key ` set (tbl_expiring w3)"
    by (cases w', cases w3, simp)+
  with w2 w3 rec e show ?thesis by (intro exI [of _ i]) auto
qed

text \<open>
  A created identifier can be used: no media row has it, and an upload for it by
  the same user, before the clock moves past the expiry, passes every guard and is carried out.
\<close>

theorem create_then_put:
  assumes "create_Execute xt ctx origin userId period w = (Inr rec, w')"
    and "faults w' = []" and "ticks w' = []" and "now w' \<le> e_ExpiresTs rec"
  shows "upload_ExecutePut xt ctx origin (e_MediaId rec) r contentType fileName userId w' =
    bindE (upload_Execute xt ctx origin (e_MediaId rec) r contentType fileName userId LocalMediaKind)
      (\<lambda>new. thenE (tryE (expiring_Delete origin (e_MediaId rec))) (returnE new)) w'"
proof -
  note run = create_run [OF assms(1)]
  let ?i = "e_MediaId rec"
  have rec: "e_Origin rec = origin" "e_UserId rec = userId" and new: "(origin, ?i) \<notin> media_key ` set (tbl_media w')"
    and rows: "tbl_expiring w' = tbl_expiring w @ [rec]" "(origin, ?i) \<notin> expiring_key ` set (tbl_expiring w)"
    using run by auto
  have "List.find (\<lambda>e. e_Origin e = origin \<and> e_MediaId e = ?i) (tbl_expiring w) = None"
    using rows(2) by (auto simp: find_None_iff)
  then have found: "List.find (\<lambda>e. e_Origin e = origin \<and> e_MediaId e = ?i) (tbl_expiring w') = Some rec"
    using rows(1) rec by (simp add: find_append)
  have "List.find (\<lambda>m. m_Origin m = origin \<and> m_MediaId m = ?i) (tbl_media w') = None"
    using new by (auto simp: find_None_iff)
  with found assms(2-4) rec show ?thesis
    by (simp add: upload_ExecutePut_def media_GetById_def expiring_Get_def IsExpired_no_ticks bindE_run)
qed

lemma demo_create_run:
  "case create_Execute demo_xt demo_ctx ''a.org'' ''@u:a.org'' 0 demo_world of
     (Inr rec, w') \<Rightarrow> faults w' = [] \<and> ticks w' = [] \<and> now w' \<le> e_ExpiresTs rec \<and> e_MediaId rec = ''aabbccdd'' | _ \<Rightarrow> False"
  by code_simp

theorem create_then_put_witness:
  "\<exists>rec w'. create_Execute demo_xt demo_ctx ''a.org'' ''@u:a.org'' 0 demo_world = (Inr rec, w') \<and>
     upload_ExecutePut demo_xt demo_ctx ''a.org'' (e_MediaId rec) demo_reader ''text/plain'' ''n'' ''@u:a.org'' w' =
     bindE (upload_Execute demo_xt demo_ctx ''a.org'' (e_MediaId rec) demo_reader ''text/plain'' ''n'' ''@u:a.org'' LocalMediaKind)
       (\<lambda>new. thenE (tryE (expiring_Delete ''a.org'' (e_MediaId rec))) (returnE new)) w'"
proof -
  obtain rec w' where run: "create_Execute demo_xt demo_ctx ''a.org'' ''@u:a.org'' 0 demo_world = (Inr rec, w')"
    and "faults w' = []" "ticks w' = []" "now w' \<le> e_ExpiresTs rec"
    using demo_create_run by (auto split: prod.splits sum.splits)
  with create_then_put [OF run] show ?thesis by blast
qed

end
