(* ===== verification/Quiet.thy ===== *)
theory Quiet
  imports UploadClaims
begin

text \<open>
  Facts on uploads for the proofs on URL previews: without a failure to come none comes up
  on the way, and the cached previews are left alone.
\<close>

section \<open>Computations that need no failure\<close>

text \<open>An upload leaves a script of failures that is used up as it is.\<close>

abbreviation quiet :: "world \<Rightarrow> bool" where
  "quiet w \<equiv> faults w = []"

lemma quiet_ext: "preserves quiet m \<Longrightarrow> preserves quiet (ext m)"
  by (rule preservesI) (auto dest: preservesD)

lemma quiet_calls: "preserves quiet (dbQuery q)" "preserves quiet NowMillis"
  by (rule preservesI, auto simp: NowMillis_def split: list.split)+

lemma quiet_dbExec: "(\<And>w. quiet w \<Longrightarrow> quiet (f w)) \<Longrightarrow> preserves quiet (dbExec f)"
  by (rule preservesI) auto

lemma quiet_dbInsert: "(\<And>w. quiet w \<Longrightarrow> quiet (f w)) \<Longrightarrow> preserves quiet (dbInsert dup f)"
  by (rule preservesI) auto

lemmas quiet_intros =
  preserves_return preserves_throw preserves_gets preserves_modify preserves_bind preserves_then preserves_try
  preserves_when preserves_if preserves_case_option preserves_case_sum preserves_case_prod preserves_lift_result
  preserves_deferred preserves_wrap_err quiet_ext quiet_calls quiet_dbExec quiet_dbInsert

lemma quiet_getS3: "preserves quiet (getS3 ds)"
  unfolding getS3_def by (intro quiet_intros) auto

lemma quiet_Remove: "preserves quiet (Remove ds location)"
  unfolding Remove_def by (intro quiet_intros quiet_getS3) auto

lemma quiet_NewUniqueId: "preserves quiet NewUniqueId"
  unfolding NewUniqueId_def by (intro quiet_intros preservesI) (auto split: list.split)

lemma quiet_Pick_loop: "preserves quiet (Pick_loop i usable dsSize idx)"
  by (induction i usable dsSize idx rule: Pick_loop.induct)
    (auto simp: metadata_EstimateDatastoreSize_def intro!: quiet_intros)

lemma quiet_GenerateMediaId_loop: "preserves quiet (GenerateMediaId_loop n origin)"
proof (induction n)
  case (Suc n)
  show ?case unfolding GenerateMediaId_loop.simps Let_def held_TryInsert_def media_IdExists_def reserved_IdExists_def
    by (intro quiet_intros quiet_NewUniqueId Suc.IH) simp
qed (simp add: preserves_throw)

lemma quiet_GenerateMediaId: "preserves quiet (GenerateMediaId isImport origin)"
  unfolding GenerateMediaId_def by (intro quiet_intros quiet_GenerateMediaId_loop)

lemma quiet_store_loop: "preserves quiet (store_loop h cs fin)"
  by (induction h cs fin rule: store_loop.induct)
    (auto simp: cache_append_def redis_DeleteMedia_def intro!: quiet_intros)

lemma quiet_PopulateCache: "preserves quiet (PopulateCacheAsync s n h)"
  unfolding PopulateCacheAsync_def StoreMedia_def redis_DeleteMedia_def
  by (intro quiet_intros quiet_store_loop) simp_all

lemma quiet_lock_loop: "preserves quiet (lock_loop n t)"
  by (induction n) (auto intro!: quiet_intros)

lemma quiet_finish_upload: "preserves quiet (finish_upload record)"
  unfolding finish_upload_def restrict_new_def SetMediaRequiresAuth_def restricted_Insert_def uploadDone_def
    FlagAccess_def lastAccess_Upsert_def
  by (intro quiet_intros) auto

lemma quiet_Upload: "preserves quiet (datastores_Upload sha PutObject ds data n h)"
proof -
  have "preserves quiet (put_s3 PutObject ds name data n)" for name
    unfolding put_s3_def Let_def by (intro quiet_intros quiet_getS3 preservesI) (auto split: sum.split)
  moreover have "preserves quiet (put_file ds name data)" for name
    unfolding put_file_def Let_def by (intro quiet_intros) auto
  ultimately show ?thesis unfolding datastores_Upload_def Let_def
    by (intro quiet_intros quiet_Remove quiet_NewUniqueId) auto
qed


lemma quiet_upload_store: "preserves quiet (upload_store xt ds origin mediaId must contentType fileName userId buffered)"
  unfolding upload_store_def Let_def FindRecord_def media_GetByHash_def media_scanRows_def media_Insert_def
  by (intro quiet_intros quiet_finish_upload quiet_Upload quiet_PopulateCache quiet_Remove) simp_all

lemma preserves_locked:
  assumes "preserves I (LockForUpload h)" and "\<And>f. release_fn f \<Longrightarrow> preserves I (k f)"
  shows "preserves I (bindE (LockForUpload h) k)"
proof (rule preservesI)
  fix s assume s: "I s"
  obtain r s' where run: "LockForUpload h s = (r, s')" by (metis prod.collapse)
  show "I (snd (bindE (LockForUpload h) k s))"
    using preservesD' [OF assms(1) s run] preservesD [OF assms(2)] LockForUpload_release [of h s] run
    by (cases r) (auto simp: bindE_run)
qed

lemma quiet_upload: "preserves quiet (upload_Execute xt ctx origin mediaId0 r contentType fileName userId kind)"
proof -
  have lock: "preserves quiet (LockForUpload h)" for h
    unfolding LockForUpload_def by (intro quiet_intros quiet_lock_loop)
  have locked: "preserves quiet (bindE (LockForUpload h) (\<lambda>f. deferred f
      (upload_store xt ds origin mediaId must contentType fileName userId x)))" for h ds mediaId must x
    by (intro preserves_locked lock preserves_deferred quiet_upload_store) (auto simp: release_fn_def intro!: quiet_intros)
  show ?thesis
    unfolding upload_Execute_def Let_def Pick_def BufferTemp_def buffer_target_def buffer_finish_def io_copy_def
      CheckQuarantineStatus_def media_IsHashQuarantined_def CanUpload_def quota_Check_def Current_def
      userStats_UserUploadedBytes_def expiring_ByUserCount_def media_ByUserCount_def
    by (intro quiet_intros quiet_GenerateMediaId quiet_Pick_loop locked)
qed

text \<open>An upload does not touch the cached previews.\<close>

abbreviation previews_are :: "DbUrlPreview list \<Rightarrow> world \<Rightarrow> bool" where
  "previews_are P w \<equiv> tbl_previews w = P"

lemma previews_are_stable: "upload_stable (previews_are P)"
  by (rule upload_stableI [OF env_stableI]) simp_all

lemma previews_upload: "preserves (previews_are P) (upload_Execute xt ctx origin mediaId0 r contentType fileName userId kind)"
proof -
  note st = previews_are_stable [of P] and env = upload_stable_env [OF previews_are_stable [of P]]
  have up: "preserves (previews_are P) (datastores_Upload sha PutObject ds data n h)" for sha PutObject ds data n h
    by (rule preserves_Upload [OF env]) simp
  have ins: "preserves (previews_are P) (media_Insert m)" for m
    unfolding media_Insert_def by (intro hoare_intros env) simp
  have "preserves (previews_are P) (upload_store xt ds origin mediaId must contentType fileName userId x)" for ds mediaId must x
    unfolding upload_store_def Let_def
    by (intro hoare_intros st env up ins preserves_finish preserves_Remove) simp_all
  then have locked: "preserves (previews_are P) (bindE (LockForUpload h) (\<lambda>f. deferred f
      (upload_store xt ds origin mediaId must contentType fileName userId x)))" for h ds mediaId must x
    by (intro preserves_locked preserves_LockForUpload preserves_deferred preserves_release env)
  show ?thesis unfolding upload_Execute_def Let_def
    by (intro hoare_intros st env locked)
qed

end
