(* ===== verification/PutProofs.thy ===== *)
theory PutProofs
  imports Quiet
begin

text \<open>
  What the upload of content for a created identifier guarantees (\<open>ExecutePut\<close> of
  \<^verbatim>\<open>pipelines/pipeline_upload/pipeline2.go\<close>): only the holder of an unexpired reservation gets
  through, once, and whoever does not leaves the repository as it was.
\<close>

section \<open>Reservations\<close>


text \<open>Calls that only read: the failures and readings of the clock they met are all that differs.\<close>

definition only_read :: "world \<Rightarrow> world \<Rightarrow> bool" where
  "only_read w w' \<longleftrightarrow> w' = w\<lparr>faults := faults w', ticks := ticks w', now := now w'\<rparr>"

lemma only_read_refl [simp]: "only_read w w" and only_read_faults [simp]: "only_read w (w\<lparr>faults := fs\<rparr>)"
  by (simp_all add: only_read_def)








section \<open>Content for a created identifier\<close>







end
