(* ===== verification/Refinement.thy ===== *)
theory Refinement
  imports Main
begin

text \<open>
  Refinement between a program whose steps can go wrong and a specification, both given
  as functions from an event to what the event does: \<open>None\<close> when it is not possible.
  The interfaces with such a specification are interpretations of this locale.
\<close>

primrec cruns :: "('e \<Rightarrow> 's \<Rightarrow> ('x + 's) option) \<Rightarrow> 'e list \<Rightarrow> 's \<Rightarrow> ('x + 's) option" where
  "cruns ex [] s = Some (Inr s)"
| "cruns ex (e # es) s = (case ex e s of
     None \<Rightarrow> None
   | Some (Inl x) \<Rightarrow> Some (Inl x)
   | Some (Inr s') \<Rightarrow> cruns ex es s')"

primrec aruns :: "('e \<Rightarrow> 'a \<Rightarrow> 'a option) \<Rightarrow> 'e list \<Rightarrow> 'a \<Rightarrow> 'a option" where
  "aruns ex [] a = Some a"
| "aruns ex (e # es) a = Option.bind (ex e a) (aruns ex es)"

locale event_refinement =
  fixes cexec :: "'e \<Rightarrow> 's \<Rightarrow> ('x + 's) option"
    and aexec :: "'e \<Rightarrow> 'a \<Rightarrow> 'a option"
    and abs :: "'s \<Rightarrow> 'a"
    and inv :: "'s \<Rightarrow> bool"
  assumes simulates: "inv s \<Longrightarrow> cexec e s = Some res \<Longrightarrow> \<exists>s'. res = Inr s' \<and> inv s' \<and> aexec e (abs s) = Some (abs s')"
begin

lemma runs_refine:
  assumes "inv s" and "cruns cexec es s = Some res"
  shows "\<exists>s'. res = Inr s' \<and> inv s' \<and> aruns aexec es (abs s) = Some (abs s')"
  using assms
proof (induction es arbitrary: s)
  case (Cons e es)
  then obtain r where r: "cexec e s = Some r" by (cases "cexec e s") auto
  then obtain s' where "r = Inr s'" "inv s'" "aexec e (abs s) = Some (abs s')"
    using simulates [OF Cons.prems(1)] by blast
  with r Cons show ?case by auto
qed auto

end

end
