(* ===== verification/Notifier.thy ===== *)
theory Notifier
  imports MediaTable Demo Refinement
begin

text \<open>
  Waiting for asynchronous uploads: \<^verbatim>\<open>notifier/uploads.go\<close> and
  \<^verbatim>\<open>pipelines/_steps/download/wait.go\<close>.

  Every section of this code that touches the shared map runs under one mutex, so the
  concurrent program is an interleaving of atomic steps: a request registers a channel,
  an upload starts a goroutine that notifies, such a goroutine runs, a waiting request
  receives or is cancelled, and its deferred function unregisters the channel.  A step
  can go wrong in the ways Go's channels do: sending on a closed channel and closing a
  closed channel panic, and sending on a full channel blocks, here for ever, since the
  sender holds the mutex.  The theory shows that none of this happens, by a refinement
  of a specification that has no channels at all.
\<close>

section \<open>Channels\<close>

datatype stuck = SendOnClosed | SendBlocks | CloseOfClosed

text \<open>The channels are made with capacity 1; they are named by their position.\<close>

record gochan =
  ch_buf :: "DbMedia list"
  ch_closed :: bool

definition chan_make :: gochan where
  "chan_make = \<lparr>ch_buf = [], ch_closed = False\<rparr>"

definition chan_send :: "nat \<Rightarrow> DbMedia \<Rightarrow> gochan list \<Rightarrow> stuck + gochan list" where
  "chan_send k r cs =
     (if ch_closed (cs ! k) then Inl SendOnClosed
      else if 1 \<le> length (ch_buf (cs ! k)) then Inl SendBlocks
      else Inr (cs[k := (cs ! k)\<lparr>ch_buf := ch_buf (cs ! k) @ [r]\<rparr>]))"

definition chan_close :: "nat \<Rightarrow> gochan list \<Rightarrow> stuck + gochan list" where
  "chan_close k cs =
     (if ch_closed (cs ! k) then Inl CloseOfClosed
      else Inr (cs[k := (cs ! k)\<lparr>ch_closed := True\<rparr>]))"

section \<open>The state\<close>

text \<open>
  A request in \<open>WaitForAsyncMedia\<close> is in its \<open>select\<close>, or has left it with a result and
  has its deferred function still to run, or has returned.  A receive from a closed
  channel would give nil, the result \<open>Inr None\<close>.
\<close>

datatype wait_state =
    Selecting
  | Returning "goerr + DbMedia option"
  | Returned "goerr + DbMedia option"

record waiter =
  wt_mxc :: string
  wt_ch :: nat
  wt_state :: wait_state

record notifier =
  localUploadWaiters :: "string \<rightharpoonup> nat list"
  chans :: "gochan list"
  waiters :: "waiter list"
  notifying :: "DbMedia list"

definition notifier_start :: notifier where
  "notifier_start = \<lparr>localUploadWaiters = Map.empty, chans = [], waiters = [], notifying = []\<rparr>"

section \<open>The operations\<close>

definition GetUploadWaitChannel :: "string \<Rightarrow> string \<Rightarrow> notifier \<Rightarrow> nat \<times> notifier" where
  "GetUploadWaitChannel origin mediaId s =
     (let mxc = MxcUri origin mediaId;
          ws = (if localUploadWaiters s mxc = None then (localUploadWaiters s)(mxc \<mapsto> []) else localUploadWaiters s);
          ch = length (chans s)
      in (ch, s\<lparr>localUploadWaiters := ws(mxc \<mapsto> the (ws mxc) @ [ch]), chans := chans s @ [chan_make]\<rparr>))"

definition finishFn :: "string \<Rightarrow> nat \<Rightarrow> notifier \<Rightarrow> stuck + notifier" where
  "finishFn mxc ch s =
     (let ws = (case localUploadWaiters s mxc of
                  Some arr \<Rightarrow> (localUploadWaiters s)(mxc \<mapsto> filter (\<lambda>xch. xch \<noteq> ch) arr)
                | None \<Rightarrow> localUploadWaiters s)
      in map_sum id (\<lambda>cs. s\<lparr>localUploadWaiters := ws, chans := cs\<rparr>) (chan_close ch (chans s)))"

primrec send_all :: "DbMedia \<Rightarrow> nat list \<Rightarrow> gochan list \<Rightarrow> stuck + gochan list" where
  "send_all r [] cs = Inr cs"
| "send_all r (k # ks) cs = (case chan_send k r cs of Inl e \<Rightarrow> Inl e | Inr cs' \<Rightarrow> send_all r ks cs')"

definition noRelayNotifyUpload :: "DbMedia \<Rightarrow> notifier \<Rightarrow> notifier" where
  "noRelayNotifyUpload r s = s\<lparr>notifying := notifying s @ [r]\<rparr>"

text \<open>The body of the goroutine that \<open>noRelayNotifyUpload\<close> starts.\<close>

definition notify_body :: "DbMedia \<Rightarrow> notifier \<Rightarrow> stuck + notifier" where
  "notify_body r s =
     (let mxc = MxcUri (m_Origin r) (m_MediaId r) in
      case localUploadWaiters s mxc of
        None \<Rightarrow> Inr s
      | Some arr \<Rightarrow>
          map_sum id (\<lambda>cs. s\<lparr>localUploadWaiters := (localUploadWaiters s)(mxc := None), chans := cs\<rparr>)
            (send_all r arr (chans s)))"

text \<open>
  One turn of the loop in \<open>subscribeRedisUploads\<close>: \<open>res\<close> is what the database answers to
  the lookup of the media that the message names.
\<close>

definition receive_upload :: "string \<Rightarrow> goerr + DbMedia option \<Rightarrow> notifier \<Rightarrow> notifier" where
  "receive_upload val res s =
     (case SplitMxc val of
        Inl _ \<Rightarrow> s
      | Inr _ \<Rightarrow> (case res of
          Inl _ \<Rightarrow> s
        | Inr None \<Rightarrow> s
        | Inr (Some r) \<Rightarrow> noRelayNotifyUpload r s))"

section \<open>The steps\<close>

datatype nevent =
    Wait string string
  | UploadDone DbMedia
  | Message string "goerr + DbMedia option"
  | Notify nat
  | Receive nat
  | Cancel nat
  | Finish nat

definition set_wait :: "nat \<Rightarrow> wait_state \<Rightarrow> notifier \<Rightarrow> notifier" where
  "set_wait k x s = s\<lparr>waiters := (waiters s)[k := (waiters s ! k)\<lparr>wt_state := x\<rparr>]\<rparr>"

text \<open>
  \<open>nexec e s\<close> is \<open>None\<close> when the step \<open>e\<close> is not possible in \<open>s\<close>, and otherwise what it
  does.  \<open>WaitForAsyncMedia\<close> is \<open>Wait\<close>, after its guards, then \<open>Receive\<close> or \<open>Cancel\<close>, then
  \<open>Finish\<close>.
\<close>

fun nexec :: "nevent \<Rightarrow> notifier \<Rightarrow> (stuck + notifier) option" where
  "nexec (Wait origin mediaId) s =
     (let (ch, s1) = GetUploadWaitChannel origin mediaId s in
      Some (Inr (s1\<lparr>waiters := waiters s1 @ [\<lparr>wt_mxc = MxcUri origin mediaId, wt_ch = ch, wt_state = Selecting\<rparr>]\<rparr>)))"
| "nexec (UploadDone r) s = Some (Inr (noRelayNotifyUpload r s))"
| "nexec (Message val res) s = Some (Inr (receive_upload val res s))"
| "nexec (Notify i) s =
     (if i < length (notifying s)
      then Some (notify_body (notifying s ! i) (s\<lparr>notifying := take i (notifying s) @ drop (Suc i) (notifying s)\<rparr>))
      else None)"
| "nexec (Receive k) s =
     (if k < length (waiters s) \<and> wt_state (waiters s ! k) = Selecting
      then let ch = wt_ch (waiters s ! k) in
           case ch_buf (chans s ! ch) of
             r # rs \<Rightarrow> Some (Inr (set_wait k (Returning (Inr (Some r)))
                          (s\<lparr>chans := (chans s)[ch := (chans s ! ch)\<lparr>ch_buf := rs\<rparr>]\<rparr>)))
           | [] \<Rightarrow> if ch_closed (chans s ! ch) then Some (Inr (set_wait k (Returning (Inr None)) s)) else None
      else None)"
| "nexec (Cancel k) s =
     (if k < length (waiters s) \<and> wt_state (waiters s ! k) = Selecting
      then Some (Inr (set_wait k (Returning (Inl ErrMediaNotYetUploaded)) s)) else None)"
| "nexec (Finish k) s =
     (if k < length (waiters s)
      then case wt_state (waiters s ! k) of
             Returning x \<Rightarrow> Some (map_sum id (set_wait k (Returned x)) (finishFn (wt_mxc (waiters s ! k)) (wt_ch (waiters s ! k)) s))
           | _ \<Rightarrow> None
      else None)"

inductive nreachable :: "notifier \<Rightarrow> bool" where
  start: "nreachable notifier_start"
| step: "nreachable s \<Longrightarrow> nexec e s = Some (Inr s') \<Longrightarrow> nreachable s'"

section \<open>The specification\<close>

text \<open>
  What the notifier promises: every request has a promise for a media URI, which the first
  notification for that URI after the request makes ready; a ready promise can be taken,
  and until it is taken the request can be cancelled.
\<close>

datatype promise = Pending | Ready DbMedia | Answered "goerr + DbMedia option"

record nspec =
  promises :: "(string \<times> promise) list"
  uploads_done :: "DbMedia list"

definition fulfil :: "DbMedia \<Rightarrow> string \<times> promise \<Rightarrow> string \<times> promise" where
  "fulfil r p = (if p = (MxcUri (m_Origin r) (m_MediaId r), Pending) then (fst p, Ready r) else p)"

fun aexec :: "nevent \<Rightarrow> nspec \<Rightarrow> nspec option" where
  "aexec (Wait origin mediaId) a = Some (a\<lparr>promises := promises a @ [(MxcUri origin mediaId, Pending)]\<rparr>)"
| "aexec (UploadDone r) a = Some (a\<lparr>uploads_done := uploads_done a @ [r]\<rparr>)"
| "aexec (Message val res) a =
     Some (case (SplitMxc val, res) of
             (Inr _, Inr (Some r)) \<Rightarrow> a\<lparr>uploads_done := uploads_done a @ [r]\<rparr>
           | _ \<Rightarrow> a)"
| "aexec (Notify i) a =
     (if i < length (uploads_done a)
      then Some \<lparr>promises = map (fulfil (uploads_done a ! i)) (promises a),
                 uploads_done = take i (uploads_done a) @ drop (Suc i) (uploads_done a)\<rparr>
      else None)"
| "aexec (Receive k) a =
     (if k < length (promises a)
      then case promises a ! k of
             (mxc, Ready r) \<Rightarrow> Some (a\<lparr>promises := (promises a)[k := (mxc, Answered (Inr (Some r)))]\<rparr>)
           | _ \<Rightarrow> None
      else None)"
| "aexec (Cancel k) a =
     (if k < length (promises a)
      then case promises a ! k of
             (mxc, Answered _) \<Rightarrow> None
           | (mxc, _) \<Rightarrow> Some (a\<lparr>promises := (promises a)[k := (mxc, Answered (Inl ErrMediaNotYetUploaded))]\<rparr>)
      else None)"
| "aexec (Finish k) a =
     (if k < length (promises a)
      then case promises a ! k of (_, Answered _) \<Rightarrow> Some a | _ \<Rightarrow> None
      else None)"

definition promise_of :: "gochan list \<Rightarrow> waiter \<Rightarrow> string \<times> promise" where
  "promise_of cs w = (wt_mxc w, case wt_state w of
      Selecting \<Rightarrow> (case ch_buf (cs ! wt_ch w) of [] \<Rightarrow> Pending | r # _ \<Rightarrow> Ready r)
    | Returning x \<Rightarrow> Answered x
    | Returned x \<Rightarrow> Answered x)"

definition nabs :: "notifier \<Rightarrow> nspec" where
  "nabs s = \<lparr>promises = map (promise_of (chans s)) (waiters s), uploads_done = notifying s\<rparr>"

section \<open>The invariant\<close>

definition registered :: "notifier \<Rightarrow> nat \<Rightarrow> bool" where
  "registered s k \<longleftrightarrow> (\<exists>ks. localUploadWaiters s (wt_mxc (waiters s ! k)) = Some ks \<and> k \<in> set ks)"

definition answer_ok :: "string \<Rightarrow> goerr + DbMedia option \<Rightarrow> bool" where
  "answer_ok mxc x \<longleftrightarrow> x = Inl ErrMediaNotYetUploaded \<or> (\<exists>r. x = Inr (Some r) \<and> MxcUri (m_Origin r) (m_MediaId r) = mxc)"

definition waiter_ok :: "bool \<Rightarrow> gochan \<Rightarrow> waiter \<Rightarrow> bool" where
  "waiter_ok reg c w = (case wt_state w of
      Selecting \<Rightarrow> \<not> ch_closed c \<and>
        (if reg then ch_buf c = [] else \<exists>r. ch_buf c = [r] \<and> MxcUri (m_Origin r) (m_MediaId r) = wt_mxc w)
    | Returning x \<Rightarrow> \<not> ch_closed c \<and> (reg \<longrightarrow> ch_buf c = []) \<and> answer_ok (wt_mxc w) x
    | Returned x \<Rightarrow> \<not> reg \<and> answer_ok (wt_mxc w) x)"

definition ninv :: "notifier \<Rightarrow> bool" where
  "ninv s \<longleftrightarrow> length (chans s) = length (waiters s) \<and>
     (\<forall>k < length (waiters s). wt_ch (waiters s ! k) = k \<and> waiter_ok (registered s k) (chans s ! k) (waiters s ! k)) \<and>
     (\<forall>mxc ks. localUploadWaiters s mxc = Some ks \<longrightarrow>
        distinct ks \<and> (\<forall>k \<in> set ks. k < length (waiters s) \<and> wt_mxc (waiters s ! k) = mxc))"

lemma ninv_waiter:
  assumes "ninv s" and "k < length (waiters s)"
  shows "wt_ch (waiters s ! k) = k" "waiter_ok (registered s k) (chans s ! k) (waiters s ! k)" "k < length (chans s)"
  using assms by (auto simp: ninv_def)

lemma ninv_registered:
  assumes "ninv s" and "localUploadWaiters s mxc = Some ks"
  shows "distinct ks" and "k \<in> set ks \<Longrightarrow> k < length (waiters s) \<and> wt_mxc (waiters s ! k) = mxc \<and> registered s k"
  using assms by (simp_all add: ninv_def registered_def)

lemma registered_chan:
  assumes "ninv s" and "k < length (waiters s)" and "registered s k"
  shows "\<not> ch_closed (chans s ! k) \<and> ch_buf (chans s ! k) = []"
  using ninv_waiter(2) [OF assms(1,2)] assms(3) by (auto simp: waiter_ok_def split: wait_state.splits)

lemma ninv_start: "ninv notifier_start"
  by (simp add: ninv_def notifier_start_def)

subsection \<open>Sending\<close>

definition deliver :: "DbMedia \<Rightarrow> nat set \<Rightarrow> gochan list \<Rightarrow> gochan list" where
  "deliver r K cs = map (\<lambda>(k, c). if k \<in> K then c\<lparr>ch_buf := [r]\<rparr> else c) (zip [0..<length cs] cs)"

lemma deliver_nth [simp]:
  "k < length cs \<Longrightarrow> deliver r K cs ! k = (if k \<in> K then (cs ! k)\<lparr>ch_buf := [r]\<rparr> else cs ! k)"
  "length (deliver r K cs) = length cs"
  by (simp_all add: deliver_def)

lemma send_all_deliver:
  assumes "distinct ks" and "\<And>k. k \<in> set ks \<Longrightarrow> k < length cs \<and> \<not> ch_closed (cs ! k) \<and> ch_buf (cs ! k) = []"
  shows "send_all r ks cs = Inr (deliver r (set ks) cs)"
  using assms
proof (induction ks arbitrary: cs)
  case Nil
  then show ?case by (auto simp: intro!: nth_equalityI)
next
  case (Cons k ks)
  let ?cs = "cs[k := (cs ! k)\<lparr>ch_buf := [r]\<rparr>]"
  have "send_all r ks ?cs = Inr (deliver r (set ks) ?cs)"
    using Cons.prems by (intro Cons.IH) (auto simp: nth_list_update)
  moreover have "deliver r (set ks) ?cs = deliver r (set (k # ks)) cs"
    using Cons.prems by (intro nth_equalityI) (auto simp: nth_list_update)
  ultimately show ?case using Cons.prems by (simp add: chan_send_def)
qed

subsection \<open>Each step keeps the invariant and refines the specification\<close>

definition nsim :: "nevent \<Rightarrow> notifier \<Rightarrow> bool" where
  "nsim e s \<longleftrightarrow> (\<forall>res. nexec e s = Some res \<longrightarrow>
     (\<exists>s'. res = Inr s' \<and> ninv s' \<and> aexec e (nabs s) = Some (nabs s')))"

lemma nsimI:
  assumes "nexec e s = Some (Inr s')" and "ninv s'" and "aexec e (nabs s) = Some (nabs s')"
  shows "nsim e s"
  unfolding nsim_def assms(1) using assms(2,3) by blast

lemma nabs_nth [simp]:
  "k < length (waiters s) \<Longrightarrow> promises (nabs s) ! k = promise_of (chans s) (waiters s ! k)"
  "length (promises (nabs s)) = length (waiters s)" "uploads_done (nabs s) = notifying s"
  by (simp_all add: nabs_def)

lemma nabs_eqI: "ps = promises (nabs s) \<Longrightarrow> us = notifying s \<Longrightarrow> \<lparr>promises = ps, uploads_done = us\<rparr> = nabs s"
  by (simp add: nabs_def)

lemma promise_pending:
  assumes "ninv s" and "k < length (waiters s)"
  shows "promise_of (chans s) (waiters s ! k) = (mxc, Pending) \<longleftrightarrow>
    wt_state (waiters s ! k) = Selecting \<and> registered s k \<and> wt_mxc (waiters s ! k) = mxc"
  using ninv_waiter [OF assms] by (auto simp: promise_of_def waiter_ok_def split: wait_state.splits if_splits list.splits)

lemma ninvI:
  assumes "length (chans s) = length (waiters s)"
    and "\<And>k. k < length (waiters s) \<Longrightarrow> wt_ch (waiters s ! k) = k"
    and "\<And>k. k < length (waiters s) \<Longrightarrow> waiter_ok (registered s k) (chans s ! k) (waiters s ! k)"
    and "\<And>mxc ks. localUploadWaiters s mxc = Some ks \<Longrightarrow> distinct ks"
    and "\<And>mxc ks k. localUploadWaiters s mxc = Some ks \<Longrightarrow> k \<in> set ks \<Longrightarrow> k < length (waiters s) \<and> wt_mxc (waiters s ! k) = mxc"
  shows "ninv s"
  unfolding ninv_def using assms by blast

lemma nsim_Wait:
  assumes inv: "ninv s" shows "nsim (Wait origin mediaId) s"
proof -
  let ?mxc = "MxcUri origin mediaId"
  have len: "length (chans s) = length (waiters s)" using inv by (simp add: ninv_def)
  define ks where "ks = (case localUploadWaiters s ?mxc of None \<Rightarrow> [] | Some ks \<Rightarrow> ks)"
  have ks: "distinct ks" "\<And>k. k \<in> set ks \<Longrightarrow> k < length (waiters s) \<and> wt_mxc (waiters s ! k) = ?mxc"
    using ninv_registered [OF inv, of ?mxc] by (cases "localUploadWaiters s ?mxc"; simp add: ks_def)+
  let ?s = "s\<lparr>localUploadWaiters := (localUploadWaiters s)(?mxc \<mapsto> ks @ [length (waiters s)]), chans := chans s @ [chan_make],
      waiters := waiters s @ [\<lparr>wt_mxc = ?mxc, wt_ch = length (waiters s), wt_state = Selecting\<rparr>]\<rparr>"
  have run: "nexec (Wait origin mediaId) s = Some (Inr ?s)"
    by (simp add: GetUploadWaitChannel_def Let_def ks_def len split: option.splits)
  have reg: "registered ?s k \<longleftrightarrow> (if k < length (waiters s) then registered s k else True)" if "k < Suc (length (waiters s))" for k
    using that ks(2) by (cases "localUploadWaiters s ?mxc") (auto simp: registered_def nth_append ks_def)
  have "ninv ?s"
  proof (rule ninvI)
    fix k assume "k < length (waiters ?s)"
    then show "waiter_ok (registered ?s k) (chans ?s ! k) (waiters ?s ! k)"
      using ninv_waiter(2) [OF inv, of k] reg [of k]
      by (cases "k < length (waiters s)") (auto simp: nth_append len less_Suc_eq waiter_ok_def chan_make_def split: wait_state.splits if_splits)
  qed (use len ninv_waiter(1) [OF inv] ninv_registered [OF inv] ks in
      \<open>force simp: nth_append less_Suc_eq split: if_splits\<close>)+
  moreover have "aexec (Wait origin mediaId) (nabs s) = Some (nabs ?s)"
    using ninv_waiter [OF inv] len
    by (auto simp: nabs_def promise_of_def nth_append chan_make_def in_set_conv_nth split: wait_state.splits)
  ultimately show ?thesis by (rule nsimI [OF run])
qed

lemma ninv_notifying: "ninv (s\<lparr>notifying := x\<rparr>) = ninv s"
  by (simp add: ninv_def registered_def)

lemma nsim_spawn:
  assumes "ninv s" shows "nsim (UploadDone r) s" "nsim (Message val res) s"
  using assms
  by (auto simp: nsim_def noRelayNotifyUpload_def receive_upload_def ninv_notifying nabs_def split: sum.splits option.splits)


lemma nsim_Notify:
  assumes inv: "ninv s" shows "nsim (Notify i) s"
proof (cases "i < length (notifying s)")
  case True
  let ?r = "notifying s ! i" and ?rest = "take i (notifying s) @ drop (Suc i) (notifying s)"
  let ?mxc = "MxcUri (m_Origin ?r) (m_MediaId ?r)" and ?s0 = "s\<lparr>notifying := ?rest\<rparr>"
  have len: "length (chans s) = length (waiters s)" using inv by (simp add: ninv_def)
  show ?thesis
  proof (cases "localUploadWaiters s ?mxc")
    case None
    have "\<not> registered s k" if "wt_mxc (waiters s ! k) = ?mxc" for k
      using None that by (simp add: registered_def)
    then have "map (fulfil ?r) (promises (nabs s)) = promises (nabs s)"
      by (intro nth_equalityI) (auto simp: fulfil_def promise_pending [OF inv])
    then show ?thesis
      using True inv None by (simp add: nsim_def notify_body_def ninv_notifying) (simp add: nabs_def)
  next
    case (Some ks)
    note ks = ninv_registered [OF inv Some]
    let ?cs = "deliver ?r (set ks) (chans s)"
    let ?s = "?s0\<lparr>localUploadWaiters := (localUploadWaiters s)(?mxc := None), chans := ?cs\<rparr>"
    have mem: "k \<in> set ks \<longleftrightarrow> registered s k \<and> wt_mxc (waiters s ! k) = ?mxc" if "k < length (waiters s)" for k
      using that ks(2) Some by (auto simp: registered_def)
    have "send_all ?r ks (chans s) = Inr ?cs"
      using ks registered_chan [OF inv] len by (intro send_all_deliver) auto
    then have run: "nexec (Notify i) s = Some (Inr ?s)"
      using True Some by (simp add: notify_body_def)
    have reg: "registered ?s k \<longleftrightarrow> registered s k \<and> k \<notin> set ks" if "k < length (waiters s)" for k
      using ks(2) [of k] by (cases "wt_mxc (waiters s ! k) = ?mxc") (auto simp: registered_def Some)
    have "ninv ?s"
    proof (rule ninvI)
      fix k assume "k < length (waiters ?s)"
      then show "waiter_ok (registered ?s k) (chans ?s ! k) (waiters ?s ! k)"
        using ninv_waiter(2) [OF inv, of k] mem [of k] reg [of k] len
        by (auto simp: waiter_ok_def split: wait_state.splits if_splits)
    next
      fix mxc js assume "localUploadWaiters ?s mxc = Some js"
      then have js: "localUploadWaiters s mxc = Some js" by (simp split: if_splits)
      show "distinct js" by (rule ninv_registered(1) [OF inv js])
      show "k < length (waiters ?s) \<and> wt_mxc (waiters ?s ! k) = mxc" if "k \<in> set js" for k
        using ninv_registered(2) [OF inv js that] by simp
    qed (use len ninv_waiter(1) [OF inv] in simp_all)
    have prom: "map (fulfil ?r) (promises (nabs s)) = promises (nabs ?s)"
    proof (rule nth_equalityI)
      fix k assume k: "k < length (map (fulfil ?r) (promises (nabs s)))"
      then show "map (fulfil ?r) (promises (nabs s)) ! k = promises (nabs ?s) ! k"
        using ninv_waiter [OF inv, of k] mem [of k] len
        by (auto simp: fulfil_def promise_of_def waiter_ok_def split: wait_state.splits list.splits if_splits)
    qed simp
    have "aexec (Notify i) (nabs s) = Some (nabs ?s)"
      by (simp add: True prom nabs_eqI)
    with \<open>ninv ?s\<close> show ?thesis by (rule nsimI [OF run])
  qed
qed (simp add: nsim_def)


lemma set_wait_simps [simp]:
  "chans (set_wait k x s) = chans s" "localUploadWaiters (set_wait k x s) = localUploadWaiters s"
  "notifying (set_wait k x s) = notifying s" "length (waiters (set_wait k x s)) = length (waiters s)"
  "k < length (waiters s) \<Longrightarrow> waiters (set_wait k x s) ! j = (if j = k then (waiters s ! k)\<lparr>wt_state := x\<rparr> else waiters s ! j)"
  by (simp_all add: set_wait_def nth_list_update)

lemma registered_set_wait [simp]:
  assumes "k < length (waiters s)"
  shows "registered (set_wait k x s) j = registered s j"
  using assms by (simp add: registered_def)

text \<open>A step of one request changes its own state and its own channel only.\<close>

lemma ninv_set_wait:
  assumes inv: "ninv s" and k: "k < length (waiters s)" and cs: "length cs = length (chans s)"
    and others: "\<And>j. j < length cs \<Longrightarrow> j \<noteq> k \<Longrightarrow> cs ! j = chans s ! j"
    and own: "waiter_ok (registered s k) (cs ! k) ((waiters s ! k)\<lparr>wt_state := x\<rparr>)"
  shows "ninv (set_wait k x (s\<lparr>chans := cs\<rparr>))" and "promises (nabs (set_wait k x (s\<lparr>chans := cs\<rparr>))) =
    (promises (nabs s))[k := promise_of cs ((waiters s ! k)\<lparr>wt_state := x\<rparr>)]"
proof -
  let ?s = "s\<lparr>chans := cs\<rparr>"
  have reg: "registered ?s = registered s" by (simp add: registered_def fun_eq_iff)
  have kw: "k < length (waiters ?s)" using k by simp
  show "ninv (set_wait k x ?s)"
    using inv k cs others own by (auto simp: ninv_def reg registered_set_wait [OF kw])
  show "promises (nabs (set_wait k x ?s)) = (promises (nabs s))[k := promise_of cs ((waiters s ! k)\<lparr>wt_state := x\<rparr>)]"
    using ninv_waiter [OF inv] k cs others
    by (intro nth_equalityI) (auto simp: nth_list_update promise_of_def split: wait_state.splits)
qed

lemma chans_self [simp]: "s\<lparr>chans := chans s\<rparr> = (s :: notifier)"
  by simp

lemma nsim_Cancel:
  assumes inv: "ninv s" shows "nsim (Cancel k) s"
proof (cases "k < length (waiters s) \<and> wt_state (waiters s ! k) = Selecting")
  case True
  let ?x = "Returning (Inl ErrMediaNotYetUploaded)"
  have "waiter_ok (registered s k) (chans s ! k) ((waiters s ! k)\<lparr>wt_state := ?x\<rparr>)"
    using ninv_waiter(2) [OF inv, of k] True by (auto simp: waiter_ok_def answer_ok_def)
  note upd = ninv_set_wait [OF inv conjunct1 [OF True] refl refl this]
  have "aexec (Cancel k) (nabs s) = Some (nabs (set_wait k ?x s))"
    using True upd(2) by (auto simp: promise_of_def intro!: nabs_eqI split: list.splits)
  moreover have "nexec (Cancel k) s = Some (Inr (set_wait k ?x s))" using True by simp
  ultimately show ?thesis using upd(1) by (intro nsimI) simp_all
qed (auto simp: nsim_def)

lemma nsim_Receive:
  assumes inv: "ninv s" shows "nsim (Receive k) s"
proof (cases "k < length (waiters s) \<and> wt_state (waiters s ! k) = Selecting \<and> \<not> registered s k")
  case True
  then obtain r where r: "ch_buf (chans s ! k) = [r]" "MxcUri (m_Origin r) (m_MediaId r) = wt_mxc (waiters s ! k)"
    using ninv_waiter(2) [OF inv, of k] by (auto simp: waiter_ok_def)
  let ?x = "Returning (Inr (Some r))" and ?cs = "(chans s)[k := (chans s ! k)\<lparr>ch_buf := []\<rparr>]"
  have k: "k < length (waiters s)" "k < length (chans s)" "wt_ch (waiters s ! k) = k"
    using ninv_waiter [OF inv, of k] True by auto
  have "waiter_ok (registered s k) (?cs ! k) ((waiters s ! k)\<lparr>wt_state := ?x\<rparr>)"
    using ninv_waiter(2) [OF inv k(1)] True k(2) r by (auto simp: waiter_ok_def answer_ok_def)
  note upd = ninv_set_wait [OF inv k(1) _ _ this]
  have "aexec (Receive k) (nabs s) = Some (nabs (set_wait k ?x (s\<lparr>chans := ?cs\<rparr>)))"
    using True k r upd(2) by (simp add: promise_of_def nabs_eqI)
  moreover have "nexec (Receive k) s = Some (Inr (set_wait k ?x (s\<lparr>chans := ?cs\<rparr>)))" using True k r by simp
  ultimately show ?thesis using upd(1) by (intro nsimI) simp_all
next
  case False
  then have "nexec (Receive k) s = None"
    using ninv_waiter [OF inv, of k] registered_chan [OF inv, of k] by auto
  then show ?thesis by (simp add: nsim_def)
qed

lemma nsim_Finish:
  assumes inv: "ninv s" shows "nsim (Finish k) s"
proof (cases "\<exists>x. k < length (waiters s) \<and> wt_state (waiters s ! k) = Returning x")
  case True
  then obtain x where k: "k < length (waiters s)" and x: "wt_state (waiters s ! k) = Returning x" by auto
  let ?mxc = "wt_mxc (waiters s ! k)" and ?cs = "(chans s)[k := (chans s ! k)\<lparr>ch_closed := True\<rparr>]"
  let ?ws = "case localUploadWaiters s ?mxc of
      Some arr \<Rightarrow> (localUploadWaiters s)(?mxc \<mapsto> filter (\<lambda>xch. xch \<noteq> k) arr) | None \<Rightarrow> localUploadWaiters s"
  let ?s1 = "s\<lparr>localUploadWaiters := ?ws, chans := chans s\<rparr>"
  have len: "length (chans s) = length (waiters s)" using inv by (simp add: ninv_def)
  note wk = ninv_waiter [OF inv k]
  have reg: "registered ?s1 j \<longleftrightarrow> registered s j \<and> j \<noteq> k" if "j < length (waiters s)" for j
    using ninv_registered(2) [OF inv, of ?mxc] that
    by (cases "wt_mxc (waiters s ! j) = ?mxc") (auto simp: registered_def split: option.splits)
  have "ninv ?s1"
  proof (rule ninvI)
    show "waiter_ok (registered ?s1 j) (chans ?s1 ! j) (waiters ?s1 ! j)" if "j < length (waiters ?s1)" for j
      using that reg [of j] ninv_waiter(2) [OF inv, of j] x by (cases "j = k") (simp_all add: waiter_ok_def)
  next
    fix mxc ks assume ks: "localUploadWaiters ?s1 mxc = Some ks"
    then obtain js where js: "localUploadWaiters s mxc = Some js" and sub: "ks = js \<or> ks = filter (\<lambda>xch. xch \<noteq> k) js"
      by (auto split: option.splits if_splits)
    show "distinct ks" using ninv_registered(1) [OF inv js] sub by auto
    show "j < length (waiters ?s1) \<and> wt_mxc (waiters ?s1 ! j) = mxc" if "j \<in> set ks" for j
      using ninv_registered(2) [OF inv js, of j] sub that by auto
  qed (use len ninv_waiter(1) [OF inv] in simp_all)
  moreover have "waiter_ok (registered ?s1 k) (?cs ! k) ((waiters ?s1 ! k)\<lparr>wt_state := Returned x\<rparr>)"
    using reg [OF k] wk x by (simp add: waiter_ok_def)
  ultimately have upd: "ninv (set_wait k (Returned x) (?s1\<lparr>chans := ?cs\<rparr>))"
    "promises (nabs (set_wait k (Returned x) (?s1\<lparr>chans := ?cs\<rparr>))) =
     (promises (nabs ?s1))[k := promise_of ?cs ((waiters s ! k)\<lparr>wt_state := Returned x\<rparr>)]"
    using ninv_set_wait [of ?s1 k ?cs "Returned x"] k by simp_all
  have "finishFn ?mxc k s = Inr (?s1\<lparr>chans := ?cs\<rparr>)"
    using wk x by (simp add: finishFn_def chan_close_def waiter_ok_def Let_def)
  then have run: "nexec (Finish k) s = Some (Inr (set_wait k (Returned x) (?s1\<lparr>chans := ?cs\<rparr>)))"
    using k x wk by simp
  have "promises (nabs ?s1) = promises (nabs s)" by (simp add: nabs_def)
  moreover have "promise_of ?cs ((waiters s ! k)\<lparr>wt_state := Returned x\<rparr>) = promises (nabs s) ! k"
    using k x by (simp add: promise_of_def)
  ultimately have "nabs (set_wait k (Returned x) (?s1\<lparr>chans := ?cs\<rparr>)) = nabs s"
    using upd(2) by (intro nspec.equality) simp_all
  then have "aexec (Finish k) (nabs s) = Some (nabs (set_wait k (Returned x) (?s1\<lparr>chans := ?cs\<rparr>)))"
    using k x by (simp add: promise_of_def)
  with upd(1) show ?thesis by (rule nsimI [OF run])
qed (auto simp: nsim_def split: wait_state.splits)

lemma ninv_nsim:
  assumes "ninv s" shows "nsim e s"
  by (cases e) (simp_all add: assms nsim_Wait nsim_spawn nsim_Notify nsim_Cancel nsim_Receive nsim_Finish)

interpretation notify: event_refinement nexec aexec nabs ninv
  using ninv_nsim by unfold_locales (auto simp: nsim_def)

lemma ninv_reachable: "nreachable s \<Longrightarrow> ninv s"
  by (induction rule: nreachable.induct) (use ninv_start notify.simulates in blast)+

section \<open>What the notifier guarantees\<close>

lemma nexec_possible:
  assumes "ninv s" and "aexec e (nabs s) = Some a" and "\<And>k. e \<noteq> Finish k"
  shows "nexec e s \<noteq> None"
proof (cases e)
  case (Receive k)
  with assms(2) ninv_waiter [OF assms(1), of k] show ?thesis
    by (auto simp: promise_of_def split: if_splits wait_state.splits list.splits prod.splits)
next
  case (Cancel k)
  with assms(2) show ?thesis
    by (auto simp: promise_of_def split: if_splits wait_state.splits)
qed (use assms in \<open>auto simp: GetUploadWaitChannel_def Let_def split: if_splits\<close>)

text \<open>
  C15: Whatever the interleaving of requests, uploads, messages from Redis, notifying
  goroutines and cancellations, no step of the notifier panics or blocks with the mutex
  held, and it behaves as a list of promises: a run of the program is a run of the
  specification, and every step the specification allows is possible in the program,
  except that a request runs its deferred function once only.
\<close>

theorem notifier_refines:
  assumes "cruns nexec es notifier_start = Some res"
  shows "\<exists>s. res = Inr s \<and> aruns aexec es \<lparr>promises = [], uploads_done = []\<rparr> = Some (nabs s) \<and>
    (\<forall>e. aexec e (nabs s) \<noteq> None \<longrightarrow> nexec e s \<noteq> None \<or> (\<exists>k. e = Finish k))"
proof -
  have "nabs notifier_start = \<lparr>promises = [], uploads_done = []\<rparr>"
    by (simp add: nabs_def notifier_start_def)
  with notify.runs_refine [OF ninv_start assms] show ?thesis
    using nexec_possible by fastforce
qed

definition demo_events :: "nevent list" where
  "demo_events = [Wait (m_Origin demo_m1) (m_MediaId demo_m1), Wait ''b.org'' ''x'', UploadDone demo_m1,
     UploadDone demo_m1, Notify 1, Receive 0, Notify 0, Cancel 1, Finish 0, Finish 1]"

theorem notifier_refines_witness:
  "\<exists>s. cruns nexec demo_events notifier_start = Some (Inr s) \<and>
     aruns aexec demo_events \<lparr>promises = [], uploads_done = []\<rparr> = Some (nabs s)"
proof -
  have "cruns nexec demo_events notifier_start \<noteq> None" by code_simp
  then obtain res where "cruns nexec demo_events notifier_start = Some res" by blast
  with notifier_refines [OF this] show ?thesis by blast
qed

text \<open>
  C16: A request that waits is answered: once an upload of its media has a notifying
  goroutine, that goroutine can run, and afterwards the request receives a record of the
  media it asked for, whether this goroutine or an earlier one delivered it.
\<close>

theorem wait_is_answered:
  assumes "nreachable s" and "k < length (waiters s)" and "wt_state (waiters s ! k) = Selecting"
    and "i < length (notifying s)"
    and "MxcUri (m_Origin (notifying s ! i)) (m_MediaId (notifying s ! i)) = wt_mxc (waiters s ! k)"
  shows "\<exists>s1 s2 r. nexec (Notify i) s = Some (Inr s1) \<and> nexec (Receive k) s1 = Some (Inr s2) \<and>
    wt_state (waiters s2 ! k) = Returning (Inr (Some r)) \<and> MxcUri (m_Origin r) (m_MediaId r) = wt_mxc (waiters s ! k)"
proof -
  note inv = ninv_reachable [OF assms(1)]
  obtain s1 where s1: "nexec (Notify i) s = Some (Inr s1)" "ninv s1" "aexec (Notify i) (nabs s) = Some (nabs s1)"
    using notify.simulates [OF inv, of "Notify i"] assms(4) by auto
  have same: "waiters s1 = waiters s"
    using s1(1) assms(4) by (auto simp: notify_body_def map_sum_def Let_def split: option.splits sum.splits)
  have "promises (nabs s1) = map (fulfil (notifying s ! i)) (promises (nabs s))"
    using s1(3) assms(4) by (simp, metis nspec.select_convs(1))
  then have "promise_of (chans s1) (waiters s ! k) = fulfil (notifying s ! i) (promise_of (chans s) (waiters s ! k))"
    using nabs_nth(1) [of k s1] assms(2) by (simp add: same)
  then have "\<not> registered s1 k"
    using promise_pending [OF s1(2), of k "wt_mxc (waiters s ! k)"] assms(2,3,5) same
    by (auto simp: fulfil_def promise_of_def split: if_splits)
  then obtain r where r: "ch_buf (chans s1 ! k) = [r]" "MxcUri (m_Origin r) (m_MediaId r) = wt_mxc (waiters s ! k)"
    using ninv_waiter(2) [OF s1(2), of k] assms(2,3) same by (auto simp: waiter_ok_def)
  with s1(1) ninv_waiter(1) [OF s1(2), of k] assms(2,3) same show ?thesis by simp
qed

theorem wait_is_answered_witness:
  "\<exists>s s1 s2 r. nreachable s \<and> nexec (Notify 0) s = Some (Inr s1) \<and> nexec (Receive 0) s1 = Some (Inr s2) \<and>
     wt_state (waiters s2 ! 0) = Returning (Inr (Some r)) \<and> MxcUri (m_Origin r) (m_MediaId r) = ''mxc://a.org/one''"
proof -
  let ?e = "Wait (m_Origin demo_m1) (m_MediaId demo_m1)"
  obtain s1 where s1: "nexec ?e notifier_start = Some (Inr s1)" by (simp add: GetUploadWaitChannel_def Let_def)
  let ?s = "noRelayNotifyUpload demo_m1 s1"
  have "nreachable ?s"
    by (rule nreachable.step [OF nreachable.step [OF nreachable.start s1], of "UploadDone demo_m1"]) simp
  moreover have "waiters ?s = [\<lparr>wt_mxc = ''mxc://a.org/one'', wt_ch = 0, wt_state = Selecting\<rparr>]" "notifying ?s = [demo_m1]"
    using s1 by (auto simp: GetUploadWaitChannel_def Let_def noRelayNotifyUpload_def notifier_start_def demo_m1_def MxcUri_def)
  moreover have "MxcUri (m_Origin demo_m1) (m_MediaId demo_m1) = ''mxc://a.org/one''"
    by (simp add: demo_m1_def MxcUri_def)
  ultimately show ?thesis using wait_is_answered [of ?s 0 0] by (simp del: nexec.simps) blast
qed

end
