(* ===== verification/Download.thy ===== *)
theory Download
  imports Upload Notifier
begin

text \<open>
  Serving media: the download pipeline (\<^verbatim>\<open>pipelines/pipeline_download\<close>) with its steps
  (\<^verbatim>\<open>pipelines/_steps/download\<close>, \<^verbatim>\<open>pipelines/_steps/datastore_op\<close>), the cache of failed
  downloads (\<^verbatim>\<open>errcache\<close>), the record cache (\<^verbatim>\<open>util/sfcache\<close>) and the download buckets
  (\<^verbatim>\<open>limits/bucket.go\<close>).

  The single-flight groups let concurrent requests share one run; for a single request
  they run the function.  What is outside the repository, or belongs to the federation
  client, is collected in \<open>dl_externals\<close>: the leaky buckets and the expiry of the error
  cache (libraries), HTTP requests, the JSON, MIME and multipart parsers, and the answer a
  request gets from the notifier, whose guarantee is \<open>answer_ok\<close>.
\<close>

section \<open>Parameters\<close>

datatype bucket_err = ErrBucketFull | BucketError string

record http_response =
  rsp_StatusCode :: int
  rsp_Header :: "string \<Rightarrow> string"
  rsp_Body :: bytesReader

record http_part =
  part_Header :: "string \<Rightarrow> string"
  part_Body :: stream

type_synonym body = "bytesReader limitedReader + bytesReader"

record dl_externals =
  xd_NewBucket :: "int \<Rightarrow> int \<Rightarrow> goerr + leaky_Bucket"
  xd_Add :: "int \<Rightarrow> int \<Rightarrow> leaky_Bucket \<Rightarrow> bucket_err + leaky_Bucket"
  xd_Drain :: "int \<Rightarrow> int \<Rightarrow> leaky_Bucket \<Rightarrow> bucket_err + leaky_Bucket"
  xd_live :: "int \<Rightarrow> int \<Rightarrow> bool"
  xd_wait :: "string \<Rightarrow> string \<Rightarrow> goerr + DbMedia option"
  xd_GetServerApiUrl :: "string \<Rightarrow> goerr + string \<times> string"
  xd_FederatedGet :: "string \<Rightarrow> string \<Rightarrow> string \<Rightarrow> string \<Rightarrow> bool \<Rightarrow> goerr + http_response"
  xd_Get :: "string \<Rightarrow> goerr + http_response"
  xd_errcode :: "bytesReader \<Rightarrow> string option"
  xd_ParseMediaType :: "string \<Rightarrow> goerr + (string \<Rightarrow> string)"
  xd_parts :: "string \<Rightarrow> body \<Rightarrow> http_part list \<times> goerr"
  xd_json :: "stream \<Rightarrow> goerr option"
  xd_MakeThumbnail :: "RequestContext \<Rightarrow> int \<Rightarrow> int \<Rightarrow> goerr + bytes"

text \<open>The request a download is for: its \<open>Host\<close> and the address of the client.\<close>

type_synonym request_info = "(string \<times> string) option"

section \<open>errcache\<close>

definition ErrCache_Get :: "dl_externals \<Rightarrow> string \<Rightarrow> (world, goerr option) io" where
  "ErrCache_Get xd key = getsE (\<lambda>w. case DownloadErrors (process w) key of
      Some (err, t) \<Rightarrow> if xd_live xd t (now w) then Some err else None
    | None \<Rightarrow> None)"

definition ErrCache_Set :: "string \<Rightarrow> goerr \<Rightarrow> (world, unit) io" where
  "ErrCache_Set key err = modifyE (\<lambda>w. w\<lparr>process := (process w)
     \<lparr>DownloadErrors := (DownloadErrors (process w))(key := Some (err, now w))\<rparr>\<rparr>)"

section \<open>util/sfcache\<close>

type_synonym 'v sfcache = "(process \<Rightarrow> string \<Rightarrow> 'v option option) \<times> ((string \<Rightarrow> 'v option option) \<Rightarrow> process \<Rightarrow> process)"

definition recordCache :: "DbMedia sfcache" where
  "recordCache = (recordSf, \<lambda>f p. p\<lparr>recordSf := f\<rparr>)"

definition thumbCache :: "DbThumbnail sfcache" where
  "thumbCache = (thumbSf, \<lambda>f p. p\<lparr>thumbSf := f\<rparr>)"

definition sf_Store :: "'v sfcache \<Rightarrow> string \<Rightarrow> 'v option option \<Rightarrow> (world, unit) io" where
  "sf_Store c key v = modifyE (\<lambda>w. w\<lparr>process := snd c ((fst c (process w))(key := v)) (process w)\<rparr>)"

definition SingleflightCache_Do :: "'v sfcache \<Rightarrow> string \<Rightarrow> (world, 'v option) io \<Rightarrow> (world, 'v option) io" where
  "SingleflightCache_Do c key fn =
     bindE (getsE (\<lambda>w. fst c (process w) key)) (\<lambda>cached. case cached of
       Some v \<Rightarrow> returnE v
     | None \<Rightarrow> bindE fn (\<lambda>v. thenE (whenE (v \<noteq> None) (sf_Store c key (Some v))) (returnE v)))"

definition OverwriteCacheKey :: "'v sfcache \<Rightarrow> string \<Rightarrow> 'v option \<Rightarrow> (world, unit) io" where
  "OverwriteCacheKey c key v = sf_Store c key (Some v)"

definition ForgetCacheKey :: "'v sfcache \<Rightarrow> string \<Rightarrow> (world, unit) io" where
  "ForgetCacheKey c key = sf_Store c key None"

section \<open>limits/bucket.go\<close>

definition GetBucket :: "dl_externals \<Rightarrow> string \<Rightarrow> (world, unit) io" where
  "GetBucket xd subject = (\<lambda>w. case buckets (process w) subject of
      Some _ \<Rightarrow> (Inr (), w)
    | None \<Rightarrow>
        let conf = buckets_Downloads (rl_Buckets (RateLimit (cfg w))) in
        (case xd_NewBucket xd (bucket_DrainBytesPerMinute conf) (bucket_CapacityBytes conf) of
           Inl err \<Rightarrow> (Inl err, w)
         | Inr b \<Rightarrow> (Inr (), w\<lparr>process := (process w)\<lparr>buckets := (buckets (process w))
              (subject \<mapsto> b\<lparr>bk_OverflowLimit := bucket_OverflowLimitBytes conf\<rparr>)\<rparr>\<rparr>)))"

definition ExpandBuckets :: "(world, unit) io" where
  "ExpandBuckets = modifyE (\<lambda>w. let conf = buckets_Downloads (rl_Buckets (RateLimit (cfg w))) in
     w\<lparr>process := (process w)\<lparr>buckets := (\<lambda>s. map_option (\<lambda>b. b\<lparr>bk_Capacity := bucket_CapacityBytes conf,
       bk_DrainBy := bucket_DrainBytesPerMinute conf\<rparr>) (buckets (process w) s))\<rparr>\<rparr>)"

text \<open>A call of \<open>Add\<close> or \<open>Drain\<close> on a client's bucket, and the error the pipelines make of its errors.\<close>

definition bucket_call ::
  "(int \<Rightarrow> int \<Rightarrow> leaky_Bucket \<Rightarrow> bucket_err + leaky_Bucket) \<Rightarrow> string \<Rightarrow> int \<Rightarrow> (world, unit) io" where
  "bucket_call f subject amount = (\<lambda>w. case buckets (process w) subject of
      None \<Rightarrow> (Inl (Panic ''nil bucket''), w)
    | Some b \<Rightarrow> (case f (now w) amount b of
        Inl ErrBucketFull \<Rightarrow> (Inl ErrRateLimitExceeded, w)
      | Inl (BucketError s) \<Rightarrow> (Inl (ErrOther s), w)
      | Inr b' \<Rightarrow> (Inr (), w\<lparr>process := (process w)\<lparr>buckets := (buckets (process w))(subject \<mapsto> b')\<rparr>\<rparr>)))"

definition request_bucket :: "dl_externals \<Rightarrow> request_info \<Rightarrow> (world, string option) io" where
  "request_bucket xd req =
     bindE (getsE (\<lambda>w. rl_Enabled (RateLimit (cfg w)))) (\<lambda>enabled.
     case req of
       Some (host, ip) \<Rightarrow> if enabled then thenE (GetBucket xd ip) (returnE (Some ip)) else returnE None
     | None \<Rightarrow> returnE None)"

section \<open>\_steps/download/open\_stream.go\<close>

definition doOpenStream :: "RequestContext \<Rightarrow> 'a Locatable_scheme \<Rightarrow> bool \<Rightarrow> (world, bytes option \<times> DatastoreConfig option) io" where
  "doOpenStream ctx media canRedirect =
     (case datastores_Get ctx (DatastoreId media) of
        None \<Rightarrow> throwE (ErrOther ''unable to locate datastore for media'')
      | Some ds \<Rightarrow>
          bindE (tryE (WouldRedirectWhenCached ds)) (\<lambda>r.
          let redirectWhenCached = (case r of Inl _ \<Rightarrow> False | Inr b \<Rightarrow> b) in
          if \<not> redirectWhenCached \<or> \<not> canRedirect
          then bindE (TryGetMedia (Sha256Hash media)) (\<lambda>reader.
            if reader \<noteq> None then returnE (reader, None) else returnE (None, Some ds))
          else returnE (None, Some ds)))"

definition OpenStream :: "RequestContext \<Rightarrow> 'a Locatable_scheme \<Rightarrow> (world, bytes) io" where
  "OpenStream ctx media =
     bindE (doOpenStream ctx media False) (\<lambda>(reader, ds).
     case reader of
       Some b \<Rightarrow> returnE b
     | None \<Rightarrow> datastores_Download (the ds) (Location media))"

definition OpenOrRedirect :: "RequestContext \<Rightarrow> 'a Locatable_scheme \<Rightarrow> (world, opened) io" where
  "OpenOrRedirect ctx media =
     bindE (doOpenStream ctx media True) (\<lambda>(reader, ds).
     case reader of
       Some b \<Rightarrow> returnE (Contents b)
     | None \<Rightarrow> DownloadOrRedirect (the ds) (Location media))"

section \<open>\_steps/download/wait.go\<close>

definition WaitForAsyncMedia :: "dl_externals \<Rightarrow> string \<Rightarrow> string \<Rightarrow> (world, DbMedia option) io" where
  "WaitForAsyncMedia xd origin mediaId =
     bindE (expiring_Get origin mediaId) (\<lambda>record.
     case record of
       None \<Rightarrow> returnE None
     | Some rec \<Rightarrow> bindE (IsExpired rec) (\<lambda>expired.
         if expired then returnE None else lift_result (xd_wait xd origin mediaId)))"

section \<open>\_steps/datastore\_op/put\_and\_return\_stream.go\<close>

text \<open>
  The upload reads the input through a tee whose other end, a pipe, is buffered.  The
  buffering is run first.  When it stops before the end of the pipe, nothing reads the
  pipe any more, so that an upload which starts to read a non-empty input never returns:
  its reader is then one whose first \<open>Read\<close> is the \<open>Panic\<close> of a blocked goroutine.
\<close>

definition reader_of :: "stream \<Rightarrow> bytesReader" where
  "reader_of s = \<lparr>br_data = fst s, br_pieces = [], br_end = (case snd s of None \<Rightarrow> ErrEOF | Some e \<Rightarrow> e), br_eager = False\<rparr>"

definition blockedReader :: bytesReader where
  "blockedReader = \<lparr>br_data = [], br_pieces = [], br_end = Panic ''blocked writing to the pipe'', br_eager = False\<rparr>"

definition PutAndReturnStream ::
  "externals \<Rightarrow> RequestContext \<Rightarrow> string \<Rightarrow> string \<Rightarrow> stream \<Rightarrow> string \<Rightarrow> string \<Rightarrow> Kind \<Rightarrow>
   (world, DbMedia option \<times> bytes) io" where
  "PutAndReturnStream xt ctx origin mediaId input contentType fileName kind =
     bindE (Pick ctx kind) (\<lambda>dsConf.
     bindE (tryE (bindE (buffer_target dsConf) (\<lambda>fpath.
            bindE (io_copy (fst input, None)) (\<lambda>b. returnE (fpath, b))))) (\<lambda>copied.
     case copied of
       Inl err \<Rightarrow>
         thenE (tryE (upload_Execute xt ctx origin mediaId
             (if fst input = [] then reader_of input else blockedReader) contentType fileName '''' kind))
        (throwE err)
     | Inr (fpath, b) \<Rightarrow>
         bindE (tryE (upload_Execute xt ctx origin mediaId (reader_of input) contentType fileName '''' kind)) (\<lambda>uploadRes.
         bindE (buffer_finish (xt_sha xt) fpath b) (\<lambda>(_, _, r).
         bindE (lift_result uploadRes) (\<lambda>m. returnE (m, r))))))"

section \<open>\_steps/download/try\_download.go\<close>

definition path_safe :: "char \<Rightarrow> bool" where
  "path_safe c \<longleftrightarrow> is_digit c \<or> c \<in> set ''abcdefghijklmnopqrstuvwxyzABCDEFGHIJKLMNOPQRSTUVWXYZ-_.~$&+:=@''"

definition hex_upper :: "nat \<Rightarrow> char" where
  "hex_upper n = ''0123456789ABCDEF'' ! (n mod 16)"

definition PathEscape :: "string \<Rightarrow> string" where
  "PathEscape s = concat (map (\<lambda>c. if path_safe c then [c]
     else [CHR ''%'', hex_upper (of_char c div 16), hex_upper (of_char c)]) s)"

record downloadResult =
  dr_r :: stream
  dr_filename :: string
  dr_contentType :: string

text \<open>The authenticated request; \<open>None\<close> asks for the fallback, the flag is \<open>usesMultipartFormat\<close>.\<close>

definition signed_request ::
  "dl_externals \<Rightarrow> RequestContext \<Rightarrow> string \<Rightarrow> string \<Rightarrow> string \<Rightarrow> string \<Rightarrow> string \<Rightarrow> (world, http_response option \<times> bool) io" where
  "signed_request xd ctx requestHost baseUrl realHost origin mediaId =
     (let keyPath = hs_SigningKeyPath (Homeserver (ctx_Config ctx)) in
      if keyPath = [] then returnE (None, False)
      else
        bindE (ext (lift_result (xd_FederatedGet xd (baseUrl @ ''/_matrix/federation/v1/media/download/'' @ PathEscape mediaId)
                 realHost origin keyPath False))) (\<lambda>resp.
        if rsp_StatusCode resp = 403 \<or> rsp_StatusCode resp = 401 then throwE (ServerNotAllowedError requestHost)
        else if rsp_StatusCode resp = 404 then
          (case xd_errcode xd (rsp_Body resp) of
             None \<Rightarrow> returnE (None, False)
           | Some code \<Rightarrow> if code = ''M_UNRECOGNIZED'' then returnE (None, False) else returnE (Some resp, False))
        else returnE (Some resp, rsp_StatusCode resp = 200)))"

definition fallback_request ::
  "dl_externals \<Rightarrow> string \<Rightarrow> string \<Rightarrow> string \<Rightarrow> string \<Rightarrow> (world, http_response) io" where
  "fallback_request xd baseUrl realHost origin mediaId =
     ext (lift_result (xd_FederatedGet xd (baseUrl @ ''/_matrix/media/v3/download/'' @ PathEscape origin @ ''/'' @
       PathEscape mediaId @ ''?allow_remote=false&allow_redirect=true'') realHost origin '''' True))"

definition checked_length :: "RequestContext \<Rightarrow> http_response \<Rightarrow> goerr + unit" where
  "checked_length ctx resp =
     (let maxSize = dl_MaxSizeBytes (Downloads (ctx_Config ctx)) in
      if rsp_Header resp ''Content-Length'' = [] then Inr ()
      else case Atoi (rsp_Header resp ''Content-Length'') of
        Inl err \<Rightarrow> Inl err
      | Inr contentLength \<Rightarrow>
          if contentLength \<noteq> 0 \<and> maxSize > 0 \<and> contentLength > maxSize then Inl ErrMediaTooLarge else Inr ())"

definition limited_body :: "RequestContext \<Rightarrow> http_response \<Rightarrow> body" where
  "limited_body ctx resp =
     (let maxSize = dl_MaxSizeBytes (Downloads (ctx_Config ctx)) in
      if maxSize > 0 then Inl (LimitReaderWithOverrunError (rsp_Body resp) maxSize) else Inr (rsp_Body resp))"

text \<open>
  The multipart response: its JSON part, then the media part, which may redirect to a URL.
  The body behind such a redirect is not limited.
\<close>

definition multipart_media :: "dl_externals \<Rightarrow> string \<Rightarrow> body \<Rightarrow> (world, http_part) io" where
  "multipart_media xd contentType body =
     (if \<not> HasPrefix contentType ''multipart/mixed;'' then throwE (ErrOther (''expected multipart/mixed, got '' @ contentType))
      else bindE (lift_result (xd_ParseMediaType xd contentType)) (\<lambda>params.
      case xd_parts xd (params ''boundary'') body of
        ([], err) \<Rightarrow> throwE err
      | (jsonPart # parts, err) \<Rightarrow>
          let partType = part_Header jsonPart ''Content-Type'' in
          if partType = '''' \<or> partType = ''application/json''
          then (case xd_json xd (part_Body jsonPart) of
              Some err \<Rightarrow> throwE err
            | None \<Rightarrow> (case parts of
                [] \<Rightarrow> throwE err
              | bodyPart # _ \<Rightarrow>
                  let location = part_Header bodyPart ''Location'' in
                  if location = [] then returnE bodyPart
                  else bindE (ext (lift_result (xd_Get xd location))) (\<lambda>resp.
                    returnE \<lparr>part_Header = rsp_Header resp, part_Body = drain (Inr (rsp_Body resp))\<rparr>)))
          else throwE (ErrOther (''expected application/json as the first part, got '' @ partType @ '' instead''))))"

definition download_fetch ::
  "dl_externals \<Rightarrow> RequestContext \<Rightarrow> request_info \<Rightarrow> string \<Rightarrow> string \<Rightarrow> (world, downloadResult) io" where
  "download_fetch xd ctx req origin mediaId =
     bindE (ext (lift_result (xd_GetServerApiUrl xd origin))) (\<lambda>(baseUrl, realHost).
     let requestHost = (case req of None \<Rightarrow> '''' | Some (host, _) \<Rightarrow> host) in
     bindE (signed_request xd ctx requestHost baseUrl realHost origin mediaId) (\<lambda>(resp0, usesMultipartFormat).
     bindE (case resp0 of Some resp \<Rightarrow> returnE resp | None \<Rightarrow> fallback_request xd baseUrl realHost origin mediaId) (\<lambda>resp.
     if rsp_StatusCode resp = 404 then throwE ErrMediaNotFound
     else if rsp_StatusCode resp \<noteq> 200 then throwE (ErrOther (''unexpected status code '' @ Itoa (rsp_StatusCode resp)))
     else thenE (lift_result (checked_length ctx resp))
    (bindE (if usesMultipartFormat then multipart_media xd (rsp_Header resp ''Content-Type'') (limited_body ctx resp)
            else returnE \<lparr>part_Header = rsp_Header resp, part_Body = drain (limited_body ctx resp)\<rparr>) (\<lambda>mediaPart.
     let contentType = part_Header mediaPart ''Content-Type'';
         fileName = (case xd_ParseMediaType xd (part_Header mediaPart ''Content-Disposition'') of
            Inr params \<Rightarrow> if params ''filename'' \<noteq> [] then params ''filename'' else ''download''
          | Inl _ \<Rightarrow> ''download'')
     in returnE \<lparr>dr_r = part_Body mediaPart, dr_filename = fileName,
          dr_contentType = (if contentType = [] then ''application/octet-stream'' else contentType)\<rparr>)))))"

text \<open>\<open>errFn\<close>: an error of the fetch is remembered.\<close>

definition remember_error :: "string \<Rightarrow> (world, 'a) io \<Rightarrow> (world, 'a) io" where
  "remember_error cacheKey m = bindE (tryE m) (\<lambda>r. case r of
      Inl err \<Rightarrow> thenE (ErrCache_Set cacheKey err) (throwE err)
    | Inr x \<Rightarrow> returnE x)"

definition TryDownload ::
  "externals \<Rightarrow> dl_externals \<Rightarrow> RequestContext \<Rightarrow> request_info \<Rightarrow> string \<Rightarrow> string \<Rightarrow> (world, DbMedia option \<times> bytes) io" where
  "TryDownload xt xd ctx req origin mediaId =
     bindE (getsE (\<lambda>w. IsServerOurs (doms w) origin)) (\<lambda>ours.
     if ours then throwE ErrMediaNotFound
     else
       let cacheKey = origin @ ''/'' @ mediaId in
       thenE (ext (returnE ()))
      (bindE (ErrCache_Get xd cacheKey) (\<lambda>cached. case cached of
         Some err \<Rightarrow> throwE err
       | None \<Rightarrow> bindE (remember_error cacheKey (download_fetch xd ctx req origin mediaId)) (\<lambda>res.
           PutAndReturnStream xt ctx origin mediaId (dr_r res) (dr_contentType res) (dr_filename res) RemoteMediaKind))))"

section \<open>pipeline\_download\<close>

text \<open>\<open>time.Duration.String\<close>, for the key of the caches.\<close>

fun strip_zeros :: "int \<Rightarrow> nat \<Rightarrow> string \<Rightarrow> string" where
  "strip_zeros v 0 acc = acc"
| "strip_zeros v (Suc prec) acc =
     (if acc = [] \<and> v mod 10 = 0 then strip_zeros (v div 10) prec []
      else strip_zeros (v div 10) prec (char_of (48 + v mod 10) # acc))"

definition fmtFrac :: "int \<Rightarrow> nat \<Rightarrow> string" where
  "fmtFrac v prec = (let ds = strip_zeros v prec [] in if ds = [] then [] else CHR ''.'' # ds)"

definition Duration_String :: "int \<Rightarrow> string" where
  "Duration_String d =
     (let u = \<bar>d\<bar>; s = u div 1000000000;
          body = (if u = 0 then ''0s''
            else if u < 1000 then Itoa u @ ''ns''
            else if u < 1000000 then Itoa (u div 1000) @ fmtFrac u 3 @ [CHR 0xC2, CHR 0xB5, CHR ''s'']
            else if u < 1000000000 then Itoa (u div 1000000) @ fmtFrac u 6 @ ''ms''
            else (if s div 60 > 0 then (if s div 3600 > 0 then Itoa (s div 3600) @ ''h'' else []) @ Itoa (s div 60 mod 60) @ ''m'' else [])
              @ Itoa (s mod 60) @ fmtFrac u 9 @ ''s'')
      in if d < 0 then CHR ''-'' # body else body)"

definition FormatBool :: "bool \<Rightarrow> string" where
  "FormatBool b = (if b then ''true'' else ''false'')"

record DownloadOpts =
  FetchRemoteIfNeeded :: bool
  BlockForReadUntil :: int
  RecordOnly :: bool
  CanRedirect :: bool
  AuthProvided :: bool

definition DownloadOpts_String :: "'a DownloadOpts_scheme \<Rightarrow> string" where
  "DownloadOpts_String o' = ''f='' @ FormatBool (FetchRemoteIfNeeded o') @ '',b='' @ Duration_String (BlockForReadUntil o') @
     '',r='' @ FormatBool (RecordOnly o') @ '',d='' @ FormatBool (CanRedirect o')"

text \<open>
  A successful run serves a record with a stream (none for \<open>RecordOnly\<close>), or ends with the
  \<open>RedirectError\<close> of the datastore.
\<close>

datatype 'rec served = Served 'rec "bytes option" | Redirected string

definition fetchRecord :: "dl_externals \<Rightarrow> string \<Rightarrow> string \<Rightarrow> (world, DbMedia option) io" where
  "fetchRecord xd origin mediaId =
     bindE (media_GetById origin mediaId) (\<lambda>record.
     case record of None \<Rightarrow> WaitForAsyncMedia xd origin mediaId | Some rec \<Rightarrow> returnE (Some rec))"

text \<open>The rate limit before the stream is opened; the result is \<open>didBucketMaxSize\<close>.\<close>

definition charge_download ::
  "dl_externals \<Rightarrow> RequestContext \<Rightarrow> DownloadOpts \<Rightarrow> string option \<Rightarrow> DbMedia option \<Rightarrow> (world, bool) io" where
  "charge_download xd ctx opts limitBucket record =
     (case limitBucket of
        None \<Rightarrow> returnE False
      | Some subject \<Rightarrow> (case record of
          None \<Rightarrow>
            if FetchRemoteIfNeeded opts
            then thenE (bucket_call (xd_Add xd) subject (dl_MaxSizeBytes (Downloads (ctx_Config ctx)))) (returnE True)
            else returnE False
        | Some rec \<Rightarrow>
            if \<not> RecordOnly opts \<and> \<not> m_Quarantined rec
            then thenE (bucket_call (xd_Add xd) subject (m_SizeBytes rec)) (returnE False)
            else returnE False))"

definition open_media :: "RequestContext \<Rightarrow> bool \<Rightarrow> 'a Locatable_scheme \<Rightarrow> (world, opened option) io" where
  "open_media ctx canRedirect media =
     (if canRedirect then bindE (OpenOrRedirect ctx media) (\<lambda>x. returnE (Some x))
      else bindE (OpenStream ctx media) (\<lambda>b. returnE (Some (Contents b))))"

definition quarantined_media :: "dl_externals \<Rightarrow> RequestContext \<Rightarrow> bool \<Rightarrow> bool \<Rightarrow> int \<Rightarrow> int \<Rightarrow> (world, opened option) io" where
  "quarantined_media xd ctx isDownload recordOnly width height =
     bindE (ext (lift_result (ReturnAppropriateThing (xd_MakeThumbnail xd) ctx isDownload recordOnly width height)))
       (\<lambda>b. returnE (Some (Contents b)))"

definition download_stream ::
  "externals \<Rightarrow> dl_externals \<Rightarrow> RequestContext \<Rightarrow> request_info \<Rightarrow> string \<Rightarrow> string \<Rightarrow> DownloadOpts \<Rightarrow> string \<Rightarrow>
   DbMedia option \<Rightarrow> (world, opened option) io" where
  "download_stream xt xd ctx req origin mediaId opts sfKey record =
     (case record of
        Some rec \<Rightarrow>
          if m_Quarantined rec then quarantined_media xd ctx True (RecordOnly opts) 512 512
          else thenE (FlagAccess (Sha256Hash rec) (m_CreationTs rec))
              (if RecordOnly opts then returnE None else open_media ctx (CanRedirect opts) rec)
      | None \<Rightarrow>
          if \<not> FetchRemoteIfNeeded opts then throwE ErrMediaNotFound
          else bindE (TryDownload xt xd ctx req origin mediaId) (\<lambda>(record', r).
            thenE (OverwriteCacheKey recordCache sfKey record')
           (case record' of
              None \<Rightarrow> throwE (Panic ''nil record'')
            | Some rec \<Rightarrow>
                if m_Quarantined rec then quarantined_media xd ctx True (RecordOnly opts) 512 512
                else thenE (FlagAccess (Sha256Hash rec) (m_CreationTs rec))
                    (if RecordOnly opts then returnE None else returnE (Some (Contents r))))))"

text \<open>
  The retry after a \<open>ServerNotAllowedError\<close> for another server is not reachable and left
  out: it looks for a pointer to that type with \<open>errors.As\<close>, while the only error of the
  type, made by \<open>MakeServerNotAllowedError\<close>, is a plain value.
\<close>

definition download_run ::
  "externals \<Rightarrow> dl_externals \<Rightarrow> RequestContext \<Rightarrow> request_info \<Rightarrow> string \<Rightarrow> string \<Rightarrow> DownloadOpts \<Rightarrow> string \<Rightarrow>
   DbMedia option \<Rightarrow> (world, DbMedia served) io" where
  "download_run xt xd ctx req origin mediaId opts sfKey record0 =
     bindE (request_bucket xd req) (\<lambda>limitBucket.
     bindE (charge_download xd ctx opts limitBucket record0) (\<lambda>didBucketMaxSize.
     bindE (download_stream xt xd ctx req origin mediaId opts sfKey record0) (\<lambda>r.
     case r of
       Some (Redirect url) \<Rightarrow> returnE (Redirected url)
     | _ \<Rightarrow>
         bindE (if record0 = None then SingleflightCache_Do recordCache sfKey (fetchRecord xd origin mediaId) else returnE record0)
          (\<lambda>record'. case record' of
             None \<Rightarrow> throwE (ErrOther ''unexpected error: no viable record and no error condition'')
           | Some rec \<Rightarrow>
               thenE (case limitBucket of
                  Some subject \<Rightarrow> whenE didBucketMaxSize
                    (bucket_call (xd_Drain xd) subject (int64 (dl_MaxSizeBytes (Downloads (ctx_Config ctx)) - m_SizeBytes rec)))
                | None \<Rightarrow> returnE ())
              (if RecordOnly opts then returnE (Served rec None)
               else returnE (Served rec (case r of Some (Contents b) \<Rightarrow> Some b | _ \<Rightarrow> None)))))))"

definition download_Execute ::
  "externals \<Rightarrow> dl_externals \<Rightarrow> RequestContext \<Rightarrow> request_info \<Rightarrow> string \<Rightarrow> string \<Rightarrow> DownloadOpts \<Rightarrow>
   (world, DbMedia served) io" where
  "download_Execute xt xd ctx req origin mediaId opts =
     bindE (DoesMediaRequireAuth origin mediaId) (\<lambda>requiresAuth.
     if requiresAuth \<and> \<not> AuthProvided opts then throwE ErrRestrictedAuth
     else
       let sfKey = origin @ ''/'' @ mediaId @ ''?'' @ DownloadOpts_String opts in
       deferred (ForgetCacheKey recordCache sfKey)
         (bindE (SingleflightCache_Do recordCache sfKey (fetchRecord xd origin mediaId))
           (download_run xt xd ctx req origin mediaId opts sfKey)))"

end
