(* ===== verification/DownloadProofs.thy ===== *)
theory DownloadProofs
  imports Download UploadClaims
begin

text \<open>
  What the download pipeline guarantees: restricted media is not served without
  authentication, quarantined media is never served, an uploaded file can be downloaded,
  and whatever fails, the database and the stored files stay sound.
\<close>

section \<open>What a download leaves alone\<close>

definition download_stable :: "(world \<Rightarrow> bool) \<Rightarrow> bool" where
  "download_stable I \<longleftrightarrow> upload_stable I \<and> (\<forall>w p. I w \<longrightarrow> I (w\<lparr>process := p\<rparr>))"

lemma download_stableI:
  assumes "upload_stable I" and "\<And>w p. I (w\<lparr>process := p\<rparr>) = I w"
  shows "download_stable I"
  using assms by (simp add: download_stable_def)

lemma download_stableD: "download_stable I \<Longrightarrow> upload_stable I" "download_stable I \<Longrightarrow> env_stable I"
  by (auto simp: download_stable_def upload_stable_def)

lemma download_stable_process: "download_stable I \<Longrightarrow> I w \<Longrightarrow> I (w\<lparr>process := p\<rparr>)"
  by (simp add: download_stable_def)

lemma preserves_process [hoare_intros]:
  assumes "download_stable I"
  shows "preserves I (ErrCache_Set key err)" "preserves I (sf_Store c key v)" "preserves I (GetBucket xd subject)"
    "preserves I (bucket_call f subject amount)"
  using download_stable_process [OF assms]
  by (auto simp: ErrCache_Set_def sf_Store_def GetBucket_def bucket_call_def Let_def intro!: preservesI
      split: option.split sum.split bucket_err.split)

lemma preserves_Do [hoare_intros]:
  assumes "download_stable I" and "preserves I fn"
  shows "preserves I (SingleflightCache_Do c key fn)"
  unfolding SingleflightCache_Do_def by (intro hoare_intros assms)

lemma preserves_open [hoare_intros]:
  assumes "env_stable I"
  shows "preserves I (datastores_Download ds l)" "preserves I (DownloadOrRedirect ds l)"
    "preserves I (WouldRedirectWhenCached ds)" "preserves I (TryGetMedia h)"
  using assms
  by (auto simp: datastores_Download_def DownloadOrRedirect_def WouldRedirectWhenCached_def TryGetMedia_def intro!: hoare_intros)

lemma preserves_open_media [hoare_intros]: "env_stable I \<Longrightarrow> preserves I (open_media ctx redirect media)"
  unfolding open_media_def OpenStream_def OpenOrRedirect_def doOpenStream_def Let_def by (intro hoare_intros)

lemma preserves_fetchRecord [hoare_intros]: "env_stable I \<Longrightarrow> preserves I (fetchRecord xd origin mediaId)"
  unfolding fetchRecord_def WaitForAsyncMedia_def media_GetById_def expiring_Get_def IsExpired_def by (intro hoare_intros)

lemma preserves_quarantined_media [hoare_intros]: "env_stable I \<Longrightarrow> preserves I (quarantined_media xd ctx d r a b)"
  unfolding quarantined_media_def by (intro hoare_intros)

lemma preserves_download_fetch [hoare_intros]: "env_stable I \<Longrightarrow> preserves I (download_fetch xd ctx req origin mediaId)"
  unfolding download_fetch_def signed_request_def fallback_request_def multipart_media_def Let_def
  by (auto intro!: hoare_intros split: option.split list.split)

lemma preserves_DoesMediaRequireAuth [hoare_intros]: "env_stable I \<Longrightarrow> preserves I (DoesMediaRequireAuth origin mediaId)"
  unfolding DoesMediaRequireAuth_def restricted_GetAllForId_def by (intro hoare_intros)


lemma preserves_PutAndReturnStream [hoare_intros]:
  assumes "env_stable I" and "\<And>r. preserves I (upload_Execute xt ctx origin mediaId r contentType fileName '''' kind)"
  shows "preserves I (PutAndReturnStream xt ctx origin mediaId input contentType fileName kind)"
  unfolding PutAndReturnStream_def buffer_target_def buffer_finish_def io_copy_def
  by (auto intro!: hoare_intros assms split: sum.split)

lemma preserves_TryDownload [hoare_intros]:
  assumes "download_stable I"
    and "\<And>i r ct fn. preserves I (upload_Execute xt ctx origin i r ct fn '''' RemoteMediaKind)"
  shows "preserves I (TryDownload xt xd ctx req origin mediaId)"
  unfolding TryDownload_def remember_error_def ErrCache_Get_def Let_def
  by (intro hoare_intros assms download_stableD(2))

lemma preserves_download:
  assumes st: "download_stable I"
    and "\<And>i r ct fn. preserves I (upload_Execute xt ctx origin i r ct fn '''' RemoteMediaKind)"
  shows "preserves I (download_Execute xt xd ctx req origin mediaId opts)"
proof -
  note env = download_stableD(2) [OF st] and up = download_stableD(1) [OF st]
  have bucket: "preserves I (request_bucket xd req)" "preserves I (charge_download xd ctx opts b rec)" for b rec
    unfolding request_bucket_def charge_download_def by (auto intro!: hoare_intros st split: option.split prod.split)
  have stream: "preserves I (download_stream xt xd ctx req origin mediaId opts key rec)" for key rec
    unfolding download_stream_def OverwriteCacheKey_def by (intro hoare_intros st env up assms(2))
  have "preserves I (download_run xt xd ctx req origin mediaId opts key rec)" for key rec
    unfolding download_run_def
    by (intro preserves_bind bucket stream) (auto intro!: hoare_intros st env split: option.split opened.split)
  then show ?thesis
    unfolding download_Execute_def Let_def ForgetCacheKey_def by (intro hoare_intros st env)
qed

lemma preserves_runI: "(\<And>s r s'. I s \<Longrightarrow> m s = (r, s') \<Longrightarrow> I s') \<Longrightarrow> preserves I m"
  by (rule preservesI) (metis prod.collapse)

lemma stored_inv_process [simp]: "stored_inv sha (w\<lparr>process := p\<rparr>) = stored_inv sha w"
  by (simp add: stored_inv_def files_ok_def ids_fresh_def)

lemma media_inv_process [simp]: "media_inv (w\<lparr>process := p\<rparr>) = media_inv w"
  by (simp add: media_inv_def)

text \<open>
  C17: On every path of a download, failures included, the database invariant holds
  afterwards and every media record still points to a file with its hash.
\<close>

theorem download_keeps_files:
  assumes "stored_inv (xt_sha xt) w" and "media_inv w"
    and "download_Execute xt xd ctx req origin mediaId opts w = (res, w')"
  shows "stored_inv (xt_sha xt) w' \<and> media_inv w'"
proof
  have "preserves (stored_inv (xt_sha xt)) (upload_Execute xt ctx origin i r ct fn u k)" for i r ct fn u k
    by (rule preserves_runI) (rule stored_inv_upload)
  then have "preserves (stored_inv (xt_sha xt)) (download_Execute xt xd ctx req origin mediaId opts)"
    by (intro preserves_download download_stableI stored_inv_stable) simp_all
  with assms show "stored_inv (xt_sha xt) w'" by (auto dest: preservesD')
  have "preserves media_inv (upload_Execute xt ctx origin i r ct fn u k)" for i r ct fn u k
    by (rule preserves_runI) (rule media_inv_upload)
  then have "preserves media_inv (download_Execute xt xd ctx req origin mediaId opts)"
    by (intro preserves_download download_stableI media_inv_upload_stable) simp_all
  with assms show "media_inv w'" by (auto dest: preservesD')
qed

definition demo_xd :: dl_externals where
  "demo_xd = \<lparr>xd_NewBucket = (\<lambda>d c. Inr \<lparr>bk_Capacity = c, bk_DrainBy = d, bk_OverflowLimit = 0, bk_level = [0]\<rparr>),
     xd_Add = (\<lambda>n a b. if hd (bk_level b) + a > bk_Capacity b then Inl ErrBucketFull else Inr (b\<lparr>bk_level := [hd (bk_level b) + a]\<rparr>)),
     xd_Drain = (\<lambda>n a b. Inr (b\<lparr>bk_level := [hd (bk_level b) - a]\<rparr>)),
     xd_live = (\<lambda>t n. n \<le> t + 1000), xd_wait = (\<lambda>o' i. Inl ErrMediaNotYetUploaded),
     xd_GetServerApiUrl = (\<lambda>s. Inr (''https://'' @ s, s)),
     xd_FederatedGet = (\<lambda>url host dest key follow. Inr \<lparr>rsp_StatusCode = 404, rsp_Header = (\<lambda>_. ''''),
        rsp_Body = \<lparr>br_data = ''no'', br_pieces = [], br_end = ErrEOF, br_eager = True\<rparr>\<rparr>),
     xd_Get = (\<lambda>url. Inl (ErrOther ''unreachable'')), xd_errcode = (\<lambda>b. None),
     xd_ParseMediaType = (\<lambda>s. Inl (ErrOther ''mime: no media type'')), xd_parts = (\<lambda>b s. ([], ErrEOF)),
     xd_json = (\<lambda>s. None), xd_MakeThumbnail = (\<lambda>ctx a b. Inr ''placeholder'')\<rparr>"

definition demo_opts :: DownloadOpts where
  "demo_opts = \<lparr>FetchRemoteIfNeeded = True, BlockForReadUntil = 0, RecordOnly = False, CanRedirect = False, AuthProvided = True\<rparr>"

theorem download_keeps_files_witness:
  "stored_inv (xt_sha demo_xt) (snd (download_Execute demo_xt demo_xd demo_ctx None ''a.org'' ''one'' demo_opts demo_world)) \<and>
   media_inv (snd (download_Execute demo_xt demo_xd demo_ctx None ''a.org'' ''one'' demo_opts demo_world))"
  by (rule download_keeps_files [OF demo_stored_inv demo_media_inv prod.collapse [symmetric]])

section \<open>Restricted media\<close>

text \<open>
  C18: Media with an authentication restriction is refused to a request without
  authentication, and the request changes nothing (the script of failures apart).
\<close>

theorem download_restricted:
  assumes "auth_restriction (restrictions_for origin mediaId (tbl_restricted w))" and "\<not> AuthProvided opts"
    and "download_Execute xt xd ctx req origin mediaId opts w = (res, w')"
  shows "(\<exists>e. res = Inl e \<and> (e = ErrRestrictedAuth \<or> (\<exists>s. e = ErrOther s))) \<and> (\<exists>fs. w' = w\<lparr>faults := fs\<rparr>)"
  using assms
  by (cases "getsE (\<lambda>w :: world. restrictions_for origin mediaId (tbl_restricted w))" w rule: ext_cases)
     (auto simp: download_Execute_def DoesMediaRequireAuth_def restricted_GetAllForId_def dbQuery_def bindE_run
       returnE_run throwE_run)

definition restricted_world :: world where
  "restricted_world = demo_world\<lparr>tbl_restricted := [\<lparr>rm_Origin = ''a.org'', rm_MediaId = ''one'',
     rm_Condition = RestrictedRequiresAuth, rm_ConditionValue = ''true''\<rparr>]\<rparr>"

theorem download_restricted_witness:
  "\<exists>e. fst (download_Execute demo_xt demo_xd demo_ctx None ''a.org'' ''one'' (demo_opts\<lparr>AuthProvided := False\<rparr>) restricted_world) = Inl e"
proof -
  have "auth_restriction (restrictions_for ''a.org'' ''one'' (tbl_restricted restricted_world))"
    by (simp add: restricted_world_def restrictions_for_def)
  from download_restricted [OF this _ prod.collapse [symmetric], of "demo_opts\<lparr>AuthProvided := False\<rparr>"]
  show ?thesis by fastforce
qed

section \<open>Quarantined media\<close>

definition row_is :: "string \<Rightarrow> string \<Rightarrow> DbMedia \<Rightarrow> world \<Rightarrow> bool" where
  "row_is origin mediaId r w \<longleftrightarrow>
     List.find (\<lambda>m. m_Origin m = origin \<and> m_MediaId m = mediaId) (tbl_media w) = Some r"

definition uncached :: "string \<Rightarrow> world \<Rightarrow> bool" where
  "uncached key w \<longleftrightarrow> recordSf (process w) key = None"

lemma row_is_stable: "download_stable (row_is origin mediaId r)"
  by (rule download_stableI [OF upload_stableI [OF env_stableI]]) (simp_all add: row_is_def)

lemma uncached_env: "env_stable (uncached key)"
  by (rule env_stableI) (simp_all add: uncached_def)

text \<open>The first lookup of a download finds the row of the media.\<close>

lemma hoare_lookup:
  "hoare (\<lambda>s. row_is origin mediaId r s \<and> uncached key s) (SingleflightCache_Do recordCache key (fetchRecord xd origin mediaId))
     (\<lambda>x s. row_is origin mediaId r s \<and> x = Some r) (\<lambda>_ _. True)"
proof (rule hoareI)
  fix s x s' assume s: "row_is origin mediaId r s \<and> uncached key s"
    and run: "SingleflightCache_Do recordCache key (fetchRecord xd origin mediaId) s = (Inr x, s')"
  from run s show "row_is origin mediaId r s' \<and> x = Some r"
    by (cases "getsE (\<lambda>w :: world. first_row (\<lambda>m. m_Origin m = origin \<and> m_MediaId m = mediaId) (tbl_media w))" s rule: ext_cases)
       (auto simp: SingleflightCache_Do_def recordCache_def uncached_def fetchRecord_def media_GetById_def dbQuery_def
         sf_Store_def row_is_def bindE_run thenE_run returnE_run whenE_run)
qed simp

lemma quarantined_media_result:
  assumes "quarantined_media xd ctx True recordOnly 512 512 s = (Inr x, s')"
  shows "\<not> recordOnly \<and> (\<exists>b. x = Some (Contents b) \<and> xd_MakeThumbnail xd ctx 512 512 = Inr b)"
  using assms
  by (cases "lift_result (ReturnAppropriateThing (xd_MakeThumbnail xd) ctx True recordOnly 512 512) :: (world, bytes) io" s rule: ext_cases)
     (auto simp: quarantined_media_def bindE_run returnE_run lift_result_def throwE_run ReturnAppropriateThing_def Let_def
       split: sum.splits if_splits)

text \<open>
  C19: Quarantined media is never served: a successful download of a quarantined record
  delivers the placeholder image, and only when the configuration replaces downloads; a
  request for the record alone is refused.
\<close>

theorem download_quarantined:
  assumes "row_is origin mediaId r w" and "m_Quarantined r"
    and "uncached (origin @ ''/'' @ mediaId @ ''?'' @ DownloadOpts_String opts) w"
    and "download_Execute xt xd ctx req origin mediaId opts w = (Inr x, w')"
  shows "\<not> RecordOnly opts \<and> (\<exists>b. x = Served r (Some b) \<and> xd_MakeThumbnail xd ctx 512 512 = Inr b)"
proof -
  let ?key = "origin @ ''/'' @ mediaId @ ''?'' @ DownloadOpts_String opts"
  obtain w1 b where "DoesMediaRequireAuth origin mediaId w = (Inr b, w1)"
    and run1: "deferred (ForgetCacheKey recordCache ?key)
         (bindE (SingleflightCache_Do recordCache ?key (fetchRecord xd origin mediaId))
           (download_run xt xd ctx req origin mediaId opts ?key)) w1 = (Inr x, w')"
    using assms(4)
    by (auto simp: download_Execute_def bindE_run [of "DoesMediaRequireAuth origin mediaId"] throwE_run Let_def
        split: prod.splits sum.splits if_splits)
  then have "row_is origin mediaId r w1 \<and> uncached ?key w1"
    using assms(1,3) preserves_DoesMediaRequireAuth [OF env_stable_conj [OF download_stableD(2) [OF row_is_stable] uncached_env]]
    by (fastforce dest: preservesD')
  moreover from run1 obtain w2 where "bindE (SingleflightCache_Do recordCache ?key (fetchRecord xd origin mediaId))
           (download_run xt xd ctx req origin mediaId opts ?key) w1 = (Inr x, w2)"
    by (auto simp: deferred_def bindE_run [of "tryE _"] thenE_run tryE_run lift_result_def returnE_run throwE_run
        split: prod.splits sum.splits if_splits)
  ultimately obtain w3 where "download_run xt xd ctx req origin mediaId opts ?key (Some r) w3 = (Inr x, w2)"
    using hoareD_Inr [OF hoare_lookup] by (fastforce simp: bindE_run [of "SingleflightCache_Do _ _ _"] split: prod.splits sum.splits)
  then obtain s s' y where stream: "quarantined_media xd ctx True (RecordOnly opts) 512 512 s = (Inr y, s')"
    and x: "x = Served r (case y of Some (Contents b) \<Rightarrow> Some b | _ \<Rightarrow> None) \<or> x = Served r None \<and> RecordOnly opts \<or> (\<exists>u. y = Some (Redirect u))"
    using assms(2)
    by (auto simp: download_run_def download_stream_def bindE_run thenE_run returnE_run throwE_run
        split: prod.splits sum.splits option.splits opened.splits if_splits)
  from quarantined_media_result [OF stream] x show ?thesis by auto
qed

definition quarantined_world :: world where
  "quarantined_world = demo_world\<lparr>tbl_media := [demo_m1\<lparr>m_Quarantined := True\<rparr>]\<rparr>"

definition replacing_ctx :: RequestContext where
  "replacing_ctx = demo_ctx\<lparr>ctx_Config := (ctx_Config demo_ctx)\<lparr>Quarantine := (Quarantine (ctx_Config demo_ctx))\<lparr>qr_ReplaceDownloads := True\<rparr>\<rparr>\<rparr>"

lemma quarantined_world_run:
  "case download_Execute demo_xt demo_xd replacing_ctx None ''a.org'' ''one'' demo_opts quarantined_world of
     (Inr x, w') \<Rightarrow> True | _ \<Rightarrow> False"
  by code_simp

theorem download_quarantined_witness:
  "\<exists>w'. download_Execute demo_xt demo_xd replacing_ctx None ''a.org'' ''one'' demo_opts quarantined_world =
     (Inr (Served (demo_m1\<lparr>m_Quarantined := True\<rparr>) (Some ''placeholder'')), w')"
proof -
  obtain x w' where run: "download_Execute demo_xt demo_xd replacing_ctx None ''a.org'' ''one'' demo_opts quarantined_world = (Inr x, w')"
    using quarantined_world_run by (auto split: prod.splits sum.splits)
  have "row_is ''a.org'' ''one'' (demo_m1\<lparr>m_Quarantined := True\<rparr>) quarantined_world"
    by (simp add: row_is_def quarantined_world_def demo_m1_def)
  moreover have "uncached k quarantined_world" for k
    by (simp add: uncached_def quarantined_world_def demo_world_def empty_world_def)
  ultimately have "x = Served (demo_m1\<lparr>m_Quarantined := True\<rparr>) (Some ''placeholder'')"
    using download_quarantined [OF _ _ _ run] by (simp add: demo_xd_def)
  with run show ?thesis by blast
qed

section \<open>Serving a stored file\<close>

lemma find_distinct_key:
  assumes "distinct (map media_key ms)" and "rec \<in> set ms"
  shows "List.find (\<lambda>m. m_Origin m = m_Origin rec \<and> m_MediaId m = m_MediaId rec) ms = Some rec"
  using assms by (induction ms) (auto simp: image_iff)

lemma NowMillis_run: "\<exists>n ts. NowMillis w = (Inr n, w\<lparr>now := n, ticks := ts\<rparr>)"
proof (cases "ticks w")
  case Nil
  have "w = w\<lparr>now := now w, ticks := ticks w\<rparr>" by simp
  with Nil show ?thesis unfolding NowMillis_def by (metis list.simps(4))
qed (auto simp: NowMillis_def)

lemma FlagAccess_run:
  assumes "faults w = []"
  shows "\<exists>n ts la. FlagAccess h t w = (Inr (), w\<lparr>now := n, ticks := ts, tbl_last_access := la\<rparr>)"
proof -
  obtain n ts where 1: "NowMillis w = (Inr n, w\<lparr>now := n, ticks := ts\<rparr>)" using NowMillis_run by blast
  obtain n' ts' where 2: "NowMillis (w\<lparr>now := n, ticks := ts\<rparr>) = (Inr n', w\<lparr>now := n', ticks := ts'\<rparr>)"
    using NowMillis_run [of "w\<lparr>now := n, ticks := ts\<rparr>"] by auto
  show ?thesis
    using assms 1 2 by (auto simp: FlagAccess_def lastAccess_Upsert_def bindE_run thenE_run tryE_run returnE_run)
qed

text \<open>Opening the file of a record when nothing fails and the cache is off.\<close>

lemma OpenStream_run:
  assumes "faults w = []" and "\<not> redis_Enabled (Redis (cfg w))"
    and "datastores_Get ctx (DatastoreId r) = Some ds" and "ds_Type ds = ''file'' \<or> ds_Type ds = ''s3''"
    and "objects w (place r) = Some b"
  shows "\<exists>cs. OpenStream ctx r w = (Inr b, w\<lparr>s3clients := cs\<rparr>)"
proof -
  have ds: "ds_Id ds = DatastoreId r" using assms(3) by (auto simp: datastores_Get_def find_Some_iff)
  have s3: "\<exists>c cs. getS3 ds s = (Inr c, s\<lparr>s3clients := cs\<rparr>)" if "faults s = []" for s
  proof (cases "map_of (s3clients s) (ds_Id ds)")
    case (Some c)
    then have "getS3 ds s = (Inr c, s\<lparr>s3clients := s3clients s\<rparr>)" by (simp add: getS3_def bindE_run returnE_run)
    then show ?thesis by blast
  qed (use that in \<open>auto simp: getS3_def bindE_run thenE_run returnE_run\<close>)
  have same: "w = w\<lparr>s3clients := s3clients w\<rparr>" by simp
  from assms(4) show ?thesis
  proof
    assume "ds_Type ds = ''file''"
    then have "OpenStream ctx r w = (Inr b, w)"
      using assms ds by (simp add: OpenStream_def doOpenStream_def WouldRedirectWhenCached_def TryGetMedia_def
          datastores_Download_def read_object_def bindE_run tryE_run returnE_run)
    then show ?thesis using same by metis
  next
    assume t: "ds_Type ds = ''s3''"
    obtain c cs where 1: "getS3 ds w = (Inr c, w\<lparr>s3clients := cs\<rparr>)" using s3 assms(1) by blast
    obtain c' cs' where 2: "getS3 ds (w\<lparr>s3clients := cs\<rparr>) = (Inr c', w\<lparr>s3clients := cs'\<rparr>)"
      using s3 [of "w\<lparr>s3clients := cs\<rparr>"] assms(1) by auto
    show ?thesis
      using assms ds t 1 2 by (simp add: OpenStream_def doOpenStream_def WouldRedirectWhenCached_def TryGetMedia_def
          datastores_Download_def read_object_def bindE_run thenE_run tryE_run returnE_run) blast
  qed
qed

text \<open>
  C20: An uploaded file can be downloaded: when nothing fails, an authenticated download
  of the identifier that an upload returned serves the record of the upload and a file
  with the hash of the uploaded bytes.
\<close>

theorem upload_download:
  assumes "stored_inv (xt_sha xt) w" and "media_inv w"
    and "upload_Execute xt ctx origin mediaId r contentType fileName userId kind w = (Inr (Some rec), w')"
    and "faults w' = []" and "\<not> redis_Enabled (Redis (cfg w'))"
    and "uncached (m_Origin rec @ ''/'' @ m_MediaId rec @ ''?'' @ DownloadOpts_String opts) w'"
    and "datastores_Get ctx' (DatastoreId rec) = Some ds" and "ds_Type ds = ''file'' \<or> ds_Type ds = ''s3''"
    and "AuthProvided opts" and "\<not> RecordOnly opts" and "\<not> CanRedirect opts"
  shows "\<exists>b w''. download_Execute xt xd ctx' None (m_Origin rec) (m_MediaId rec) opts w' = (Inr (Served rec (Some b)), w'') \<and>
    xt_sha xt b = Sha256Hash rec \<and> Sha256Hash rec = xt_sha xt (fst (input_of ctx kind r))"
proof -
  obtain i data where acc: "accepted xt ctx origin mediaId r contentType fileName userId kind w rec i data w'"
    using upload_run [OF assms(3)] by (auto simp: upload_post_def)
  then have rec: "rec \<in> set (tbl_media w')" "Sha256Hash rec = xt_sha xt (fst (input_of ctx kind r))" "\<not> m_Quarantined rec"
    by (auto simp: accepted_def upload_result_def is_new_def is_duplicate_def rows_are_def stored_as_def quarantined_hash_def)
  obtain b where b: "objects w' (place rec) = Some b" "xt_sha xt b = Sha256Hash rec"
    using stored_inv_upload [OF assms(1,3)] rec(1) by (auto simp: stored_inv_def files_ok_def)
  have "distinct (map media_key (tbl_media w'))"
    using media_inv_upload [OF assms(2,3)] by (simp add: media_inv_def)
  then have found: "List.find (\<lambda>m. m_Origin m = m_Origin rec \<and> m_MediaId m = m_MediaId rec) (tbl_media w') = Some rec"
    using rec(1) find_distinct_key by blast
  let ?key = "m_Origin rec @ ''/'' @ m_MediaId rec @ ''?'' @ DownloadOpts_String opts"
  define w1 where "w1 = w'\<lparr>process := (process w')\<lparr>recordSf := (recordSf (process w'))(?key := Some (Some rec))\<rparr>\<rparr>"
  have look: "SingleflightCache_Do recordCache ?key (fetchRecord xd (m_Origin rec) (m_MediaId rec)) w' = (Inr (Some rec), w1)"
    using assms(4,6) found
    by (simp add: SingleflightCache_Do_def recordCache_def fetchRecord_def media_GetById_def sf_Store_def w1_def uncached_def io_simps)
  have quiet: "faults w1 = []" using assms(4) by (simp add: w1_def)
  obtain n ts la where flag: "FlagAccess (Sha256Hash rec) (m_CreationTs rec) w1 = (Inr (), w1\<lparr>now := n, ticks := ts, tbl_last_access := la\<rparr>)"
    using FlagAccess_run [OF quiet] by blast
  let ?w2 = "w1\<lparr>now := n, ticks := ts, tbl_last_access := la\<rparr>"
  obtain cs where op: "OpenStream ctx' rec ?w2 = (Inr b, ?w2\<lparr>s3clients := cs\<rparr>)"
    using OpenStream_run [of ?w2 ctx' rec ds b] assms(4,5,7,8) b(1) by (auto simp: w1_def)
  have "download_run xt xd ctx' None (m_Origin rec) (m_MediaId rec) opts ?key (Some rec) w1 =
      (Inr (Served rec (Some b)), ?w2\<lparr>s3clients := cs\<rparr>)"
    using rec(3) assms(10,11) flag op
    by (simp add: download_run_def request_bucket_def charge_download_def download_stream_def open_media_def io_simps)
  then have "\<exists>w''. download_Execute xt xd ctx' None (m_Origin rec) (m_MediaId rec) opts w' = (Inr (Served rec (Some b)), w'')"
    using assms(4,9) look
    by (simp add: download_Execute_def DoesMediaRequireAuth_def restricted_GetAllForId_def deferred_def ForgetCacheKey_def
        sf_Store_def lift_result_def Let_def io_simps)
  with b rec(2) show ?thesis by blast
qed

lemma demo_upload_facts:
  "case upload_Execute demo_xt demo_ctx ''a.org'' '''' demo_reader ''text/plain'' ''n'' ''@u:a.org'' LocalMediaKind demo_world of
     (Inr (Some rec), w') \<Rightarrow> faults w' = [] \<and> \<not> redis_Enabled (Redis (cfg w')) \<and>
       uncached (m_Origin rec @ ''/'' @ m_MediaId rec @ ''?'' @ DownloadOpts_String demo_opts) w' \<and>
       datastores_Get demo_ctx (DatastoreId rec) = Some demo_ds | _ \<Rightarrow> False"
  by code_simp

theorem upload_download_witness:
  "\<exists>rec w' b w''. upload_Execute demo_xt demo_ctx ''a.org'' '''' demo_reader ''text/plain'' ''n'' ''@u:a.org'' LocalMediaKind demo_world
       = (Inr (Some rec), w') \<and>
     download_Execute demo_xt demo_xd demo_ctx None (m_Origin rec) (m_MediaId rec) demo_opts w' = (Inr (Served rec (Some b)), w'') \<and>
     xt_sha demo_xt b = Sha256Hash rec"
proof -
  obtain rec w' where run: "upload_Execute demo_xt demo_ctx ''a.org'' '''' demo_reader ''text/plain'' ''n'' ''@u:a.org'' LocalMediaKind demo_world
       = (Inr (Some rec), w')"
    and hyps: "faults w' = []" "\<not> redis_Enabled (Redis (cfg w'))"
      "uncached (m_Origin rec @ ''/'' @ m_MediaId rec @ ''?'' @ DownloadOpts_String demo_opts) w'"
      "datastores_Get demo_ctx (DatastoreId rec) = Some demo_ds"
    using demo_upload_facts by (auto split: prod.splits sum.splits option.splits)
  from upload_download [OF demo_stored_inv demo_media_inv run hyps, of demo_xd] run show ?thesis
    by (fastforce simp: demo_ds_def demo_opts_def)
qed

section \<open>Failed downloads\<close>

text \<open>
  C21: A failed fetch of remote media is remembered: as long as the error cache keeps the
  error, every further attempt, on behalf of whatever request, returns the same error
  without contacting the server, storing or changing anything.
\<close>

theorem failed_download_remembered:
  assumes "\<not> IsServerOurs (doms w) origin" and "faults w = []"
    and "ErrCache_Get xd (origin @ ''/'' @ mediaId) w = (Inr None, w)"
    and "download_fetch xd ctx req origin mediaId w = (Inl e, w1)" and "\<not> is_panic e"
  shows "\<exists>w2. TryDownload xt xd ctx req origin mediaId w = (Inl e, w2) \<and>
    (\<forall>ctx' req' w3. process w3 = process w2 \<and> doms w3 = doms w \<and> faults w3 = [] \<and> xd_live xd (now w1) (now w3) \<longrightarrow>
       TryDownload xt xd ctx' req' origin mediaId w3 = (Inl e, w3))"
proof -
  let ?key = "origin @ ''/'' @ mediaId"
  let ?w2 = "w1\<lparr>process := (process w1)\<lparr>DownloadErrors := (DownloadErrors (process w1))(?key := Some (e, now w1))\<rparr>\<rparr>"
  have "TryDownload xt xd ctx req origin mediaId w = (Inl e, ?w2)"
    using assms by (simp add: TryDownload_def remember_error_def ErrCache_Set_def Let_def io_simps)
  moreover have "TryDownload xt xd ctx' req' origin mediaId w3 = (Inl e, w3)"
    if "process w3 = process ?w2" "doms w3 = doms w" "faults w3 = []" "xd_live xd (now w1) (now w3)" for ctx' req' w3
    using that assms(1) by (simp add: TryDownload_def ErrCache_Get_def Let_def io_simps)
  ultimately show ?thesis by blast
qed

theorem failed_download_remembered_witness:
  "\<exists>w2. TryDownload demo_xt demo_xd demo_ctx None ''c.org'' ''x'' demo_world = (Inl ErrMediaNotFound, w2) \<and>
     TryDownload demo_xt demo_xd demo_ctx (Some (''a.org'', ''ip'')) ''c.org'' ''x'' (demo_world\<lparr>process := process w2\<rparr>) =
       (Inl ErrMediaNotFound, demo_world\<lparr>process := process w2\<rparr>)"
proof -
  have "download_fetch demo_xd demo_ctx None ''c.org'' ''x'' demo_world = (Inl ErrMediaNotFound, demo_world)"
    by (simp add: download_fetch_def signed_request_def fallback_request_def demo_xd_def demo_world_def empty_world_def
        demo_ctx_def demo_domain_def lift_result_def io_simps)
  moreover have "\<not> IsServerOurs (doms demo_world) ''c.org''" "faults demo_world = []"
    "ErrCache_Get demo_xd (''c.org'' @ ''/'' @ ''x'') demo_world = (Inr None, demo_world)"
    by (simp_all add: IsServerOurs_def GetDomain_def ErrCache_Get_def demo_world_def empty_world_def)
  ultimately show ?thesis
    using failed_download_remembered [of demo_world "''c.org''" demo_xd "''x''" demo_ctx None ErrMediaNotFound demo_world demo_xt]
    by (fastforce simp: demo_xd_def demo_world_def empty_world_def)
qed

end
