(* ===== verification/Net.thy ===== *)
theory Net
  imports GoStd
begin

text \<open>
  What \<^verbatim>\<open>matrix/http.go\<close> and \<^verbatim>\<open>matrix/server_discovery.go\<close> use of Go's package \<^verbatim>\<open>net\<close>:
  addresses, CIDR blocks and host:port pairs.

  A \<open>net.IP\<close> that \<open>ParseIP\<close> returns has 16 bytes: a 128-bit word, where an IPv4 address
  is \<open>::ffff:a.b.c.d\<close>.  Zones are refused by both parsers, and no zone is a hexadecimal
  digit, so they need no case of their own.
\<close>

unbundle bit_operations_syntax

section \<open>Addresses\<close>

definition parse_octet :: "string \<Rightarrow> int option" where
  "parse_octet s =
     (if s = [] \<or> \<not> list_all is_digit s \<or> (length s > 1 \<and> hd s = CHR ''0'') \<or> digits_val s > 255 then None
      else Some (digits_val s))"

definition parseIPv4 :: "string \<Rightarrow> int option" where
  "parseIPv4 s =
     (case map parse_octet (str_split (CHR ''.'') s) of
        [Some a, Some b, Some c, Some d] \<Rightarrow> Some (((a * 256 + b) * 256 + c) * 256 + d)
      | _ \<Rightarrow> None)"

definition hex_digit_val :: "char \<Rightarrow> int option" where
  "hex_digit_val c =
     (let n = int (of_char c) in
      if 48 \<le> n \<and> n \<le> 57 then Some (n - 48)
      else if 97 \<le> n \<and> n \<le> 102 then Some (n - 87)
      else if 65 \<le> n \<and> n \<le> 70 then Some (n - 55)
      else None)"

definition hex_val :: "string \<Rightarrow> int" where
  "hex_val s = foldl (\<lambda>a c. a * 16 + the (hex_digit_val c)) 0 s"

text \<open>The 16-bit groups of an IPv6 address, the place of the ellipsis and what is left of the text.\<close>

fun v6_groups :: "nat \<Rightarrow> string \<Rightarrow> int list \<Rightarrow> nat option \<Rightarrow> (int list \<times> nat option \<times> string) option" where
  "v6_groups 0 s gs e = Some (gs, e, s)"
| "v6_groups (Suc n) s gs e =
     (let ds = takeWhile (\<lambda>c. hex_digit_val c \<noteq> None) s; rest = drop (length ds) s; gs' = gs @ [hex_val ds] in
      if ds = [] \<or> length ds > 4 then None
      else case rest of
        [] \<Rightarrow> Some (gs', e, [])
      | c # rest' \<Rightarrow>
          if c = CHR ''.'' then
            (if (e = None \<and> length gs \<noteq> 6) \<or> n = 0 then None
             else case parseIPv4 s of None \<Rightarrow> None | Some v \<Rightarrow> Some (gs @ [v div 65536, v mod 65536], e, []))
          else if c \<noteq> CHR '':'' \<or> rest' = [] then None
          else if hd rest' \<noteq> CHR '':'' then v6_groups n rest' gs' e
          else if e \<noteq> None then None
          else if tl rest' = [] then Some (gs', Some (length gs'), [])
          else v6_groups n (tl rest') gs' (Some (length gs')))"

definition v6_value :: "int list \<Rightarrow> int" where
  "v6_value gs = foldl (\<lambda>a g. a * 65536 + g) 0 gs"

definition parseIPv6 :: "string \<Rightarrow> int option" where
  "parseIPv6 s =
     (if s = ''::'' then Some 0
      else case (if HasPrefix s ''::'' then v6_groups 8 (drop 2 s) [] (Some 0) else v6_groups 8 s [] None) of
        None \<Rightarrow> None
      | Some (gs, e, rest) \<Rightarrow>
          if rest \<noteq> [] then None
          else case e of
            None \<Rightarrow> if length gs < 8 then None else Some (v6_value gs)
          | Some i \<Rightarrow> if length gs < 8 then Some (v6_value (take i gs @ replicate (8 - length gs) 0 @ drop i gs)) else None)"

text \<open>\<open>netip.ParseAddr\<close>: the number of bits of the address and its 16 bytes.\<close>

definition v4_in_v6 :: "int \<Rightarrow> 128 word" where
  "v4_in_v6 v = word_of_int (65535 * 2 ^ 32 + v)"

definition ParseAddr :: "string \<Rightarrow> (nat \<times> 128 word) option" where
  "ParseAddr s =
     (case dropWhile (\<lambda>c. c \<notin> set ''.:%'') s of
        [] \<Rightarrow> None
      | c # _ \<Rightarrow>
          if c = CHR ''.'' then map_option (\<lambda>v. (32, v4_in_v6 v)) (parseIPv4 s)
          else if c = CHR '':'' then map_option (\<lambda>v. (128, word_of_int v)) (parseIPv6 s)
          else None)"

definition ParseIP :: "string \<Rightarrow> (128 word) option" where
  "ParseIP s = map_option snd (ParseAddr s)"

definition To4 :: "128 word \<Rightarrow> (32 word) option" where
  "To4 ip = (if drop_bit 32 ip = 65535 then Some (ucast ip) else None)"

section \<open>CIDR blocks\<close>

text \<open>An \<open>IPNet\<close>: the network number has the 4 or 16 bytes of the mask it was made with.\<close>

datatype IPNet = Net4 "32 word" "32 word" | Net16 "128 word" "128 word"

definition CIDRMask :: "nat \<Rightarrow> 'l::len word" where
  "CIDRMask n = NOT (mask (LENGTH('l) - n))"

text \<open>The decimal number after the slash, at most \<open>0xFFFFFF - 1\<close>.\<close>

definition dtoi :: "string \<Rightarrow> int option" where
  "dtoi s = (if s = [] \<or> \<not> list_all is_digit s \<or> digits_val s \<ge> 16777215 then None else Some (digits_val s))"

definition ParseCIDR :: "string \<Rightarrow> IPNet option" where
  "ParseCIDR s =
     (if CHR ''/'' \<notin> set s then None
      else
        let addr = takeWhile (\<lambda>c. c \<noteq> CHR ''/'') s; m = drop (Suc (length addr)) s in
        case ParseAddr addr of
          None \<Rightarrow> None
        | Some (bits, ip) \<Rightarrow> (case dtoi m of
            None \<Rightarrow> None
          | Some n \<Rightarrow>
              if n > int bits then None
              else if bits = 32 then Some (Net4 (ucast ip AND CIDRMask (nat n)) (CIDRMask (nat n)))
              else Some (Net16 (ip AND CIDRMask (nat n)) (CIDRMask (nat n)))))"

text \<open>A network number of 16 bytes that is an IPv4 address counts as one, with the end of the mask.\<close>

definition Contains :: "IPNet \<Rightarrow> 128 word \<Rightarrow> bool" where
  "Contains net ip =
     (case (case net of
              Net4 nn m \<Rightarrow> Net4 nn m
            | Net16 nn m \<Rightarrow> (case To4 nn of Some nn4 \<Rightarrow> Net4 nn4 (ucast m) | None \<Rightarrow> Net16 nn m)) of
        Net4 nn m \<Rightarrow> (case To4 ip of Some ip4 \<Rightarrow> nn AND m = ip4 AND m | None \<Rightarrow> False)
      | Net16 nn m \<Rightarrow> (case To4 ip of Some ip4 \<Rightarrow> False | None \<Rightarrow> nn AND m = ip AND m))"

section \<open>Hosts and ports\<close>

definition missingPort :: string where "missingPort = ''missing port in address''"
definition tooManyColons :: string where "tooManyColons = ''too many colons in address''"

definition addrErr :: "string \<Rightarrow> string \<Rightarrow> string + 'a" where
  "addrErr addr why = Inl (if addr = [] then why else ''address '' @ addr @ '': '' @ why)"

text \<open>\<open>net.SplitHostPort\<close>: the text of its error, or host and port.\<close>

definition split_last :: "char \<Rightarrow> string \<Rightarrow> string \<times> string" where
  "split_last c s = (let p = rev (takeWhile (\<lambda>d. d \<noteq> c) (rev s)) in (take (length s - Suc (length p)) s, p))"

definition SplitHostPort :: "string \<Rightarrow> string + string \<times> string" where
  "SplitHostPort hp =
     (if CHR '':'' \<notin> set hp then addrErr hp missingPort
      else
        let (front, port) = split_last (CHR '':'') hp in
        if hd hp = CHR ''['' then
          (if CHR '']'' \<notin> set hp then addrErr hp ''missing ']' in address''
           else
             let host = takeWhile (\<lambda>c. c \<noteq> CHR '']'') hp; rest = drop (Suc (length host)) hp in
             if rest = [] then addrErr hp missingPort
             else if Suc (length host) \<noteq> length front
             then addrErr hp (if hd rest = CHR '':'' then tooManyColons else missingPort)
             else if CHR ''['' \<in> set (tl hp) then addrErr hp ''unexpected '[' in address''
             else if CHR '']'' \<in> set rest then addrErr hp ''unexpected ']' in address''
             else Inr (tl host, port))
        else if CHR '':'' \<in> set front then addrErr hp tooManyColons
        else if CHR ''['' \<in> set hp then addrErr hp ''unexpected '[' in address''
        else if CHR '']'' \<in> set hp then addrErr hp ''unexpected ']' in address''
        else Inr (front, port))"

definition JoinHostPort :: "string \<Rightarrow> string \<Rightarrow> string" where
  "JoinHostPort host port =
     (if CHR '':'' \<in> set host then ''['' @ host @ '']:'' @ port else host @ '':'' @ port)"

end
