(* ===== verification/Http.thy ===== *)
theory Http
  imports Upload Net
begin

text \<open>
  Requests and responses: \<^verbatim>\<open>util/http.go\<close>, \<^verbatim>\<open>api/_responses\<close>, \<^verbatim>\<open>common/errorcodes.go\<close>
  and the first routers of \<^verbatim>\<open>api/_routers\<close> (parameters, headers, host detection).

  A request is what the handlers read of \<open>http.Request\<close>: header names are looked up in
  lower case (Go's canonical form ignores the case), query values are decoded.
\<close>

section \<open>Requests\<close>

record http_request =
  rq_Method :: string
  rq_Host :: string
  rq_RemoteAddr :: string
  rq_RequestURI :: string
  rq_Headers :: "string \<Rightarrow> string list"
  rq_Query :: "string \<Rightarrow> string list"
  rq_Params :: "(string \<times> string) list"
  rq_Body :: bytesReader
  rq_ContentLength :: int
  rq_ignoreHost :: bool

definition first_or_empty :: "string list \<Rightarrow> string" where
  "first_or_empty vs = (case vs of [] \<Rightarrow> '''' | v # _ \<Rightarrow> v)"

definition Header_Values :: "http_request \<Rightarrow> string \<Rightarrow> string list" where
  "Header_Values r name = rq_Headers r (ToLower name)"

definition Header_Get :: "http_request \<Rightarrow> string \<Rightarrow> string" where
  "Header_Get r name = first_or_empty (Header_Values r name)"

definition Query_Get :: "http_request \<Rightarrow> string \<Rightarrow> string" where
  "Query_Get r name = first_or_empty (rq_Query r name)"

section \<open>util/http.go\<close>

definition GetAccessTokenFromRequest :: "http_request \<Rightarrow> string" where
  "GetAccessTokenFromRequest r =
     (let token = Header_Get r ''Authorization'' in
      if token \<noteq> [] then (if \<not> HasPrefix token ''Bearer '' then '''' else drop 7 token)
      else Query_Get r ''access_token'')"

definition GetAppserviceUserIdFromRequest :: "http_request \<Rightarrow> string" where
  "GetAppserviceUserIdFromRequest r = Query_Get r ''user_id''"

record XMatrixAuth =
  xm_Origin :: string
  xm_Destination :: string
  xm_KeyId :: string
  xm_Signature :: bytes

definition str_trim_char :: "char \<Rightarrow> string \<Rightarrow> string" where
  "str_trim_char c s = str_trim (\<lambda>x. x = c) s"

fun parse_pairs :: "string list \<Rightarrow> (string \<times> string) list \<Rightarrow> goerr + (string \<times> string) list" where
  "parse_pairs [] params = Inr params"
| "parse_pairs (pair # pairs) params =
     (case str_split2 (CHR ''='') pair of
        [k, v] \<Rightarrow>
          let key = TrimSpace (ToLower k); val = str_trim_char (CHR 0x22) (TrimSpace v) in
          if map_of params key \<noteq> None then Inl (ErrOther (''duplicate auth param: '' @ key))
          else parse_pairs pairs ((key, val) # params)
      | _ \<Rightarrow> Inl (ErrOther (''invalid auth param pair: '' @ pair)))"

definition param :: "(string \<times> string) list \<Rightarrow> string \<Rightarrow> string" where
  "param params key = (case map_of params key of None \<Rightarrow> '''' | Some v \<Rightarrow> v)"

text \<open>Unpadded base64 decoding is a parameter: the \<open>encoding/base64\<close> decoder.\<close>

fun GetXMatrixAuth :: "(string \<Rightarrow> goerr + bytes) \<Rightarrow> string list \<Rightarrow> goerr + XMatrixAuth list" where
  "GetXMatrixAuth decode [] = Inr []"
| "GetXMatrixAuth decode (h # headers) =
     (if \<not> HasPrefix h ''X-Matrix '' then GetXMatrixAuth decode headers
      else case parse_pairs (str_split (CHR '','') (drop 9 h)) [] of
        Inl err \<Rightarrow> Inl err
      | Inr params \<Rightarrow> (case decode (param params ''sig'') of
          Inl err \<Rightarrow> Inl err
        | Inr sig \<Rightarrow>
            let auth = \<lparr>xm_Origin = param params ''origin'', xm_Destination = param params ''destination'',
                  xm_KeyId = param params ''key'', xm_Signature = sig\<rparr> in
            (case GetXMatrixAuth decode headers of
               Inl err \<Rightarrow> Inl err
             | Inr auths \<Rightarrow>
                 Inr (if xm_Origin auth = [] \<or> xm_KeyId auth = [] \<or> xm_Signature auth = [] then auths else auth # auths))))"

section \<open>Responses\<close>

datatype json = JNull | JBool bool | JInt int | JStr string | JArr "json list" | JObj "(string \<times> json) list"

datatype response =
    ErrorResponse (resp_Code: string) (resp_Message: string) (resp_InternalCode: string)
  | EmptyResponse
  | HtmlResponse string
  | DownloadResponse (dres_ContentType: string) (dres_Filename: string) (dres_SizeBytes: int) (dres_Data: "bytes option")
      (dres_TargetDisposition: string)
  | RedirectResponse string
  | JsonResponse json
  | DoNotCacheResponse response

definition ErrCodeNotFound :: string where "ErrCodeNotFound = ''M_NOT_FOUND''"
definition ErrCodeUnknownToken :: string where "ErrCodeUnknownToken = ''M_UNKNOWN_TOKEN''"
definition ErrCodeNoGuests :: string where "ErrCodeNoGuests = ''M_GUEST_ACCESS_FORBIDDEN''"
definition ErrCodeMissingToken :: string where "ErrCodeMissingToken = ''M_MISSING_TOKEN''"
definition ErrCodeMediaTooLarge :: string where "ErrCodeMediaTooLarge = ''M_MEDIA_TOO_LARGE''"
definition ErrCodeMediaTooSmall :: string where "ErrCodeMediaTooSmall = ''M_MEDIA_TOO_SMALL''"
definition ErrCodeTooLarge :: string where "ErrCodeTooLarge = ''M_TOO_LARGE''"
definition ErrCodeMethodNotAllowed :: string where "ErrCodeMethodNotAllowed = ''M_METHOD_NOT_ALLOWED''"
definition ErrCodeBadRequest :: string where "ErrCodeBadRequest = ''M_BAD_REQUEST''"
definition ErrCodeRateLimitExceeded :: string where "ErrCodeRateLimitExceeded = ''M_LIMIT_EXCEEDED''"
definition ErrCodeUnknown :: string where "ErrCodeUnknown = ''M_UNKNOWN''"
definition ErrCodeForbidden :: string where "ErrCodeForbidden = ''M_FORBIDDEN''"
definition ErrCodeUnauthorized :: string where "ErrCodeUnauthorized = ''M_UNAUTHORIZED''"
definition ErrCodeQuotaExceeded :: string where "ErrCodeQuotaExceeded = ''M_QUOTA_EXCEEDED''"
definition ErrCodeCannotOverwrite :: string where "ErrCodeCannotOverwrite = ''M_CANNOT_OVERWRITE_MEDIA''"
definition ErrCodeNotYetUploaded :: string where "ErrCodeNotYetUploaded = ''M_NOT_YET_UPLOADED''"

definition InternalServerError :: "string \<Rightarrow> response" where
  "InternalServerError message = ErrorResponse ErrCodeUnknown message ErrCodeUnknown"
definition BadGatewayError :: "string \<Rightarrow> response" where
  "BadGatewayError message = ErrorResponse ErrCodeUnknown message ErrCodeUnknown"
definition MethodNotAllowed :: response where
  "MethodNotAllowed = ErrorResponse ErrCodeUnknown ''Method Not Allowed'' ErrCodeMethodNotAllowed"
definition RateLimitReached :: response where
  "RateLimitReached = ErrorResponse ErrCodeRateLimitExceeded ''Rate Limited'' ErrCodeRateLimitExceeded"
definition NotFoundError :: response where
  "NotFoundError = ErrorResponse ErrCodeNotFound ''Not found'' ErrCodeNotFound"
definition RequestTooLarge :: response where
  "RequestTooLarge = ErrorResponse ErrCodeTooLarge ''Too Large'' ErrCodeMediaTooLarge"
definition RequestTooSmall :: response where
  "RequestTooSmall = ErrorResponse ErrCodeUnknown ''Body too small or not provided'' ErrCodeMediaTooSmall"
definition AuthFailed :: response where
  "AuthFailed = ErrorResponse ErrCodeUnknownToken ''Authentication Failed'' ErrCodeUnknownToken"
definition MediaBlocked :: response where
  "MediaBlocked = ErrorResponse ErrCodeNotFound ''Media blocked or not found'' ErrCodeForbidden"
definition GuestAuthFailed :: response where
  "GuestAuthFailed = ErrorResponse ErrCodeNoGuests ''Guests cannot use this endpoint'' ErrCodeNoGuests"
definition BadRequest :: "string \<Rightarrow> response" where
  "BadRequest message = ErrorResponse ErrCodeUnknown message ErrCodeBadRequest"
definition QuotaExceeded :: response where
  "QuotaExceeded = ErrorResponse ErrCodeForbidden ''Quota Exceeded'' ErrCodeQuotaExceeded"
definition NotYetUploaded :: response where
  "NotYetUploaded = ErrorResponse ErrCodeNotYetUploaded ''Media not yet uploaded'' ErrCodeNotYetUploaded"

definition MakeQuarantinedImageResponse :: "bytes \<Rightarrow> response" where
  "MakeQuarantinedImageResponse stream = DownloadResponse ''image/png'' ''not_allowed.png'' (- 1) (Some stream) ''inline''"

section \<open>api/\_routers: parameters and hosts\<close>

definition GetParam :: "string \<Rightarrow> http_request \<Rightarrow> string" where
  "GetParam name r = (case map_of (rq_Params r) name of None \<Rightarrow> '''' | Some v \<Rightarrow> v)"

text \<open>The loop assigns to its own copy of a parameter that is already set, so that its value stays.\<close>

definition ForceSetParam :: "string \<Rightarrow> string \<Rightarrow> http_request \<Rightarrow> http_request" where
  "ForceSetParam name val r =
     (if list_ex (\<lambda>p. fst p = name) (rq_Params r) then r else r\<lparr>rq_Params := rq_Params r @ [(name, val)]\<rparr>)"

definition NextId :: "64 word \<Rightarrow> string \<times> 64 word" where
  "NextId lastId = (''REQ-'' @ nat_dec (unat lastId), lastId + 1)"

type_synonym headers = "string \<Rightarrow> string"

definition install_headers :: "headers \<Rightarrow> headers" where
  "install_headers h =
     (let h1 = (if h ''Allow'' \<noteq> [] then h(''Access-Control-Allow-Methods'' := h ''Allow'') else h) in
      h1(''Access-Control-Allow-Headers'' := ''Origin, X-Requested-With, Content-Type, Accept, Authorization'',
        ''Access-Control-Allow-Origin'' := ''*'',
        ''Content-Security-Policy'' := ''sandbox; default-src 'none'; script-src 'none'; plugin-types application/pdf; style-src 'unsafe-inline'; media-src 'self'; object-src 'self';'',
        ''Cross-Origin-Resource-Policy'' := ''cross-origin'',
        ''X-Content-Security-Policy'' := ''sandbox;'',
        ''X-Robots-Tag'' := ''noindex, nofollow, noarchive, noimageindex'',
        ''Server'' := ''matrix-media-repo''))"

text \<open>\<open>xff\<close> stands for \<open>xff.GetRemoteAddr\<close>, a library.\<close>

definition GetRemoteAddr :: "(http_request \<Rightarrow> string) \<Rightarrow> MainRepoConfig \<Rightarrow> http_request \<Rightarrow> string" where
  "GetRemoteAddr xff c r =
     (if gen_TrustAnyForward (General c) then Header_Get r ''X-Forwarded-For''
      else
        let raddr = (if xff r = [] then rq_RemoteAddr r else xff r) in
        (case SplitHostPort raddr of Inl _ \<Rightarrow> raddr | Inr (host, _) \<Rightarrow> host))"

text \<open>The host router: a request for an unknown host is refused with status 502.\<close>

definition HostRouter_ServeHTTP ::
  "(http_request \<Rightarrow> string) \<Rightarrow> MainRepoConfig \<Rightarrow> domains \<Rightarrow> http_request \<Rightarrow> response + http_request \<times> DomainRepoConfig option" where
  "HostRouter_ServeHTTP xff c ds r =
     (let host0 = (if Header_Get r ''X-Forwarded-Host'' \<noteq> [] \<and> gen_UseForwardedHost (General c)
                   then Header_Get r ''X-Forwarded-Host'' else rq_Host r);
          r1 = r\<lparr>rq_Host := hd (str_split (CHR '':'') host0)\<rparr>;
          r2 = r1\<lparr>rq_RemoteAddr := GetRemoteAddr xff c r1\<rparr>
      in if \<not> rq_ignoreHost r2 \<and> \<not> IsServerOurs ds (rq_Host r2) then Inl (BadGatewayError ''Review server logs to continue'')
         else Inr (r2, if rq_ignoreHost r2 then Some (DomainConfigFrom c) else GetDomain ds (rq_Host r2)))"

section \<open>api/branched\_route.go\<close>

definition set_segments :: "string list \<Rightarrow> string list \<Rightarrow> http_request \<Rightarrow> http_request" where
  "set_segments segments params r =
     foldl (\<lambda>r (s, v). if HasPrefix s '':'' then ForceSetParam (tl s) v r else r) r (zip segments params)"

fun find_branch :: "(string list \<times> 'h) list \<Rightarrow> string list \<Rightarrow> http_request \<Rightarrow> ('h \<times> http_request) option" where
  "find_branch [] params r = None"
| "find_branch ((segments, h) # branches) params r =
     (if (HasPrefix (hd segments) '':'' \<or> hd segments = hd params) \<and> length segments = length params
      then Some (h, set_segments segments params r)
      else find_branch branches params r)"

text \<open>
  The handler for the request, with the parameters of the branch set; \<open>None\<close> is
  \<open>notFoundFn\<close>.  The router guarantees that the \<open>branch\<close> parameter is not empty.
\<close>

definition branchedRoute :: "(string \<times> 'h) list \<Rightarrow> http_request \<Rightarrow> ('h \<times> http_request) option" where
  "branchedRoute branches r =
     (let catchAll = GetParam ''branch'' r;
          params = str_split (CHR ''/'') (if HasPrefix catchAll ''/'' then tl catchAll else catchAll)
      in find_branch (map (\<lambda>(path, h). (str_split (CHR ''/'') path, h)) branches) params r)"

end
