(* ===== verification/Auth.thy ===== *)
theory Auth
  imports Http Demo
begin

text \<open>
  Authentication: the token cache (\<^verbatim>\<open>api/_auth_cache\<close>), the users and servers of a request
  (\<^verbatim>\<open>api/_apimeta\<close>), the routers that require them (\<^verbatim>\<open>api/_routers/97-*\<close>) and the X-Matrix
  signatures of servers (\<^verbatim>\<open>matrix/xmatrix.go\<close>).

  The homeserver's answers, regular expressions, the expiry of the token cache, Ed25519 and
  the JSON encoder are parameters.
\<close>

record auth_externals =
  xa_whoami :: "string \<Rightarrow> string \<Rightarrow> string \<Rightarrow> string \<Rightarrow> goerr + string \<times> bool"
  xa_logout :: "string \<Rightarrow> string \<Rightarrow> string \<Rightarrow> string \<Rightarrow> bool \<Rightarrow> goerr + unit"
  xa_isAdmin :: "string \<Rightarrow> string \<Rightarrow> string \<Rightarrow> goerr + bool"
  xa_regex :: "string \<Rightarrow> (string \<Rightarrow> bool) option"
  xa_live :: "int \<Rightarrow> int \<Rightarrow> int \<Rightarrow> bool"
  xa_keys :: "string \<Rightarrow> goerr + (string \<Rightarrow> string option)"
  xa_canonical :: "(string \<times> string) list \<Rightarrow> goerr + bytes"
  xa_verify :: "string \<Rightarrow> bytes \<Rightarrow> bytes \<Rightarrow> bool"
  xa_decode :: "string \<Rightarrow> goerr + bytes"

section \<open>api/\_auth\_cache\<close>

definition cacheKey :: "string \<Rightarrow> string \<Rightarrow> string" where
  "cacheKey accessToken appserviceUserId =
     (if appserviceUserId \<noteq> [] then ''@@'' @ accessToken @ ''@@'' @ appserviceUserId
      else ''@@'' @ accessToken @ ''@@__NOOP__'')"

definition set_tokens :: "((string \<Rightarrow> (cachedToken \<times> int \<times> int) option) \<Rightarrow> string \<Rightarrow> (cachedToken \<times> int \<times> int) option) \<Rightarrow> (world, unit) io" where
  "set_tokens f = modifyE (\<lambda>w. w\<lparr>process := (process w)\<lparr>tokenCache := f (tokenCache (process w))\<rparr>\<rparr>)"

definition FlushCache :: "(world, unit) io" where
  "FlushCache = set_tokens (\<lambda>_ _. None)"

definition InvalidateToken :: "auth_externals \<Rightarrow> http_request option \<Rightarrow> string \<Rightarrow> string \<Rightarrow> (world, unit) io" where
  "InvalidateToken xa request accessToken appserviceUserId =
     (case request of
        None \<Rightarrow> throwE (ErrOther ''invalid context - missing request'')
      | Some r \<Rightarrow>
          thenE (ext (lift_result (xa_logout xa (rq_Host r) accessToken appserviceUserId (rq_RemoteAddr r) False)))
            (set_tokens (\<lambda>c. c(cacheKey accessToken appserviceUserId := None, cacheKey accessToken '''' := None))))"

definition InvalidateAllTokens :: "auth_externals \<Rightarrow> http_request option \<Rightarrow> string \<Rightarrow> string \<Rightarrow> (world, unit) io" where
  "InvalidateAllTokens xa request accessToken appserviceUserId =
     (case request of
        None \<Rightarrow> throwE (ErrOther ''invalid context - missing request'')
      | Some r \<Rightarrow>
          thenE (ext (lift_result (xa_logout xa (rq_Host r) accessToken appserviceUserId (rq_RemoteAddr r) True)))
            FlushCache)"

definition cacheToken :: "RequestContext \<Rightarrow> string \<Rightarrow> string \<Rightarrow> goerr + string \<times> bool \<Rightarrow> (world, unit) io" where
  "cacheToken ctx accessToken appserviceUserId res =
     bindE (getsE now) (\<lambda>t.
     let v = (case res of
           Inl err \<Rightarrow> \<lparr>ct_userId = '''', ct_isGuest = False, ct_err = Some err\<rparr>
         | Inr (userId, isGuest) \<Rightarrow> \<lparr>ct_userId = userId, ct_isGuest = isGuest, ct_err = None\<rparr>)
     in set_tokens (\<lambda>c. c(cacheKey accessToken appserviceUserId :=
          Some (v, t, at_MaxCacheTimeSeconds (AccessTokens (ctx_Config ctx))))))"

definition checkTokenWithHomeserver ::
  "auth_externals \<Rightarrow> http_request \<Rightarrow> RequestContext \<Rightarrow> string \<Rightarrow> string \<Rightarrow> bool \<Rightarrow> (world, string \<times> bool) io" where
  "checkTokenWithHomeserver xa r ctx accessToken appserviceUserId withCache =
     bindE (tryE (ext (lift_result (xa_whoami xa (rq_Host r) accessToken appserviceUserId (rq_RemoteAddr r))))) (\<lambda>res.
     thenE (whenE withCache (cacheToken ctx accessToken appserviceUserId res)) (lift_result res))"

text \<open>The user of an appservice token: \<open>Inl\<close> is the panic of a malformed expression.\<close>

fun match_namespace :: "auth_externals \<Rightarrow> AppserviceUserNamespaceConfig list \<Rightarrow> string \<Rightarrow> goerr + bool" where
  "match_namespace xa [] userId = Inr False"
| "match_namespace xa (n # ns) userId =
     (case xa_regex xa (asns_Regex n) of
        None \<Rightarrow> Inl (Panic ''regexp: Compile'')
      | Some matches \<Rightarrow> if matches userId then Inr True else match_namespace xa ns userId)"

fun appservice_user :: "auth_externals \<Rightarrow> AppserviceConfig list \<Rightarrow> string \<Rightarrow> string \<Rightarrow> goerr + string option" where
  "appservice_user xa [] accessToken userId = Inr None"
| "appservice_user xa (a # as) accessToken userId =
     (if as_AppserviceToken a \<noteq> accessToken then appservice_user xa as accessToken userId
      else if as_SenderUserId a \<noteq> [] \<and> (as_SenderUserId a = userId \<or> userId = []) then Inr (Some (as_SenderUserId a))
      else case match_namespace xa (as_UserNamespaces a) userId of
        Inl err \<Rightarrow> Inl err
      | Inr True \<Rightarrow> Inr (Some userId)
      | Inr False \<Rightarrow> appservice_user xa as accessToken userId)"

definition GetUserId ::
  "auth_externals \<Rightarrow> http_request option \<Rightarrow> RequestContext \<Rightarrow> string \<Rightarrow> string \<Rightarrow> (world, string \<times> bool) io" where
  "GetUserId xa request ctx accessToken appserviceUserId =
     (case request of
        None \<Rightarrow> throwE (ErrOther ''invalid context - missing request'')
      | Some r \<Rightarrow>
          if accessToken = [] then throwE ErrInvalidToken
          else if at_MaxCacheTimeSeconds (AccessTokens (ctx_Config ctx)) \<le> 0
          then checkTokenWithHomeserver xa r ctx accessToken appserviceUserId False
          else bindE (getsE (\<lambda>w. case tokenCache (process w) (cacheKey accessToken appserviceUserId) of
              Some (token, t, life) \<Rightarrow> if xa_live xa t life (now w) then Some token else None
            | None \<Rightarrow> None)) (\<lambda>record.
          case record of
            Some token \<Rightarrow> (case ct_err token of
                Some err \<Rightarrow> throwE err
              | None \<Rightarrow> returnE (ct_userId token, ct_isGuest token))
          | None \<Rightarrow>
              if \<not> at_UseAppservices (AccessTokens (ctx_Config ctx))
              then checkTokenWithHomeserver xa r ctx accessToken appserviceUserId True
              else bindE (lift_result (appservice_user xa (at_Appservices (AccessTokens (ctx_Config ctx))) accessToken appserviceUserId))
                (\<lambda>found. case found of
                   Some userId \<Rightarrow>
                     thenE (cacheToken ctx accessToken appserviceUserId (Inr (userId, False))) (returnE (userId, False))
                 | None \<Rightarrow> checkTokenWithHomeserver xa r ctx accessToken appserviceUserId True)))"

section \<open>api/\_apimeta\<close>

record UserInfo =
  u_UserId :: string
  u_AccessToken :: string
  u_IsShared :: bool
  u_IsTrustedHeaderAdmin :: bool

record ServerInfo =
  s_ServerName :: string

record AuthContext =
  ac_User :: UserInfo
  ac_Server :: ServerInfo

definition no_user :: UserInfo where
  "no_user = \<lparr>u_UserId = '''', u_AccessToken = '''', u_IsShared = False, u_IsTrustedHeaderAdmin = False\<rparr>"

definition IsAuthenticated :: "AuthContext \<Rightarrow> bool" where
  "IsAuthenticated a \<longleftrightarrow> u_UserId (ac_User a) \<noteq> [] \<or> s_ServerName (ac_Server a) \<noteq> []"

definition IsRepoAdmin :: "MainRepoConfig \<Rightarrow> UserInfo \<Rightarrow> bool" where
  "IsRepoAdmin c u \<longleftrightarrow> u_IsShared u \<or> IsGlobalAdmin c (u_UserId u) \<or> (u_UserId u \<noteq> [] \<and> u_IsTrustedHeaderAdmin u)"

definition RequestClaimsRepoAdmin :: "MainRepoConfig \<Rightarrow> http_request \<Rightarrow> bool" where
  "RequestClaimsRepoAdmin c r =
     (let h = TrustedAdminHeader c in
      if \<not> tah_Enabled h \<or> tah_Header h = [] \<or> tah_Value h = [] then False
      else Header_Get r (tah_Header h) = tah_Value h)"

definition GetRequestUserAdminStatus :: "auth_externals \<Rightarrow> http_request \<Rightarrow> UserInfo \<Rightarrow> (world, bool \<times> bool) io" where
  "GetRequestUserAdminStatus xa r user =
     bindE (getsE (\<lambda>w. IsRepoAdmin (cfg w) user)) (\<lambda>isGlobalAdmin.
     if isGlobalAdmin then returnE (True, False)
     else bindE (tryE (ext (lift_result (xa_isAdmin xa (rq_Host r) (u_AccessToken user) (rq_RemoteAddr r))))) (\<lambda>res.
       case res of Inl _ \<Rightarrow> returnE (isGlobalAdmin, False) | Inr isLocalAdmin \<Rightarrow> returnE (isGlobalAdmin, isLocalAdmin)))"

section \<open>api/\_routers/97-*\<close>

type_synonym generator = "http_request \<Rightarrow> RequestContext \<Rightarrow> (world, response) io"
type_synonym user_generator = "http_request \<Rightarrow> RequestContext \<Rightarrow> UserInfo \<Rightarrow> (world, response) io"

definition applyTrustedRepoAdminHeader :: "MainRepoConfig \<Rightarrow> http_request \<Rightarrow> UserInfo \<Rightarrow> UserInfo" where
  "applyTrustedRepoAdminHeader c r user =
     (if RequestClaimsRepoAdmin c r then user\<lparr>u_IsTrustedHeaderAdmin := True\<rparr> else user)"

definition shared_user :: "string \<Rightarrow> UserInfo" where
  "shared_user accessToken = no_user\<lparr>u_UserId := ''@sharedsecret'', u_AccessToken := accessToken, u_IsShared := True\<rparr>"

definition token_user :: "string \<Rightarrow> string \<Rightarrow> UserInfo" where
  "token_user userId accessToken = no_user\<lparr>u_UserId := userId, u_AccessToken := accessToken\<rparr>"

definition is_shared_secret :: "MainRepoConfig \<Rightarrow> string \<Rightarrow> bool" where
  "is_shared_secret c accessToken \<longleftrightarrow> ss_Enabled (SharedSecret c) \<and> accessToken = ss_Token (SharedSecret c)"

definition OptionalAccessToken :: "auth_externals \<Rightarrow> user_generator \<Rightarrow> generator" where
  "OptionalAccessToken xa gen r ctx =
     (let accessToken = GetAccessTokenFromRequest r in
      if accessToken = [] then gen r ctx no_user
      else bindE (getsE cfg) (\<lambda>c.
        if is_shared_secret c accessToken then gen r ctx (applyTrustedRepoAdminHeader c r (shared_user accessToken))
        else bindE (tryE (GetUserId xa (Some r) ctx accessToken (GetAppserviceUserIdFromRequest r))) (\<lambda>res.
          case res of
            Inr (userId, isGuest) \<Rightarrow>
              if isGuest then returnE GuestAuthFailed
              else
                let user = token_user userId accessToken in
                gen r ctx (if userId \<noteq> [] then applyTrustedRepoAdminHeader c r user else user)
          | Inl err \<Rightarrow>
              if err \<noteq> ErrInvalidToken then returnE (InternalServerError ''unexpected error validating access token'')
              else gen r ctx (token_user '''' accessToken))))"

definition RequireAccessToken :: "auth_externals \<Rightarrow> user_generator \<Rightarrow> bool \<Rightarrow> generator" where
  "RequireAccessToken xa gen allowGuests r ctx =
     (let accessToken = GetAccessTokenFromRequest r in
      if accessToken = [] then returnE (ErrorResponse ErrCodeMissingToken ''no token provided (required)'' ErrCodeMissingToken)
      else bindE (getsE cfg) (\<lambda>c.
        if is_shared_secret c accessToken then gen r ctx (applyTrustedRepoAdminHeader c r (shared_user accessToken))
        else bindE (tryE (GetUserId xa (Some r) ctx accessToken (GetAppserviceUserIdFromRequest r))) (\<lambda>res.
          case res of
            Inr (userId, isGuest) \<Rightarrow>
              if isGuest \<and> \<not> allowGuests then returnE GuestAuthFailed
              else if userId = [] then returnE AuthFailed
              else gen r ctx (applyTrustedRepoAdminHeader c r (token_user userId accessToken))
          | Inl err \<Rightarrow>
              if err \<noteq> ErrInvalidToken then returnE (InternalServerError ''unexpected error validating access token'')
              else returnE AuthFailed)))"

definition RequireRepoAdmin :: "auth_externals \<Rightarrow> user_generator \<Rightarrow> generator" where
  "RequireRepoAdmin xa gen r ctx =
     RequireAccessToken xa (\<lambda>r ctx user.
       if u_UserId user = [] then throwE (Panic ''safety check failed: Repo admin access check received empty user ID'')
       else bindE (getsE cfg) (\<lambda>c. if \<not> IsRepoAdmin c user then returnE AuthFailed else gen r ctx user)) False r ctx"

section \<open>matrix/xmatrix.go\<close>

fun check_auths ::
  "auth_externals \<Rightarrow> domains \<Rightarrow> string \<Rightarrow> string \<Rightarrow> bytes \<Rightarrow> (string \<Rightarrow> string option) \<Rightarrow> string \<Rightarrow> XMatrixAuth list \<Rightarrow> goerr + unit" where
  "check_auths xa ds origin destination canonical keys host [] = Inr ()"
| "check_auths xa ds origin destination canonical keys host (h # hs) =
     (if xm_Origin h \<noteq> origin then Inl (ErrOther ''auth is from multiple servers'')
      else if xm_Destination h \<noteq> destination then Inl (ErrOther ''auth is for multiple servers'')
      else if xm_Destination h \<noteq> [] \<and> (\<not> IsServerOurs ds (xm_Destination h) \<or> host \<noteq> xm_Destination h) then Inl ErrWrongDestination
      else case keys (xm_KeyId h) of
        None \<Rightarrow> Inl (ErrOther (''unknown key '' @ xm_KeyId h))
      | Some key \<Rightarrow>
          if \<not> xa_verify xa key canonical (xm_Signature h) then Inl (ErrOther (''failed signatures on '' @ xm_KeyId h))
          else check_auths xa ds origin destination canonical keys host hs)"

definition ValidateXMatrixAuthHeader ::
  "auth_externals \<Rightarrow> domains \<Rightarrow> string \<Rightarrow> string \<Rightarrow> XMatrixAuth list \<Rightarrow> (string \<Rightarrow> string option) \<Rightarrow> string \<Rightarrow> goerr + unit" where
  "ValidateXMatrixAuthHeader xa ds mthd uri headers originKeys destinationHost =
     (case headers of
        [] \<Rightarrow> Inl ErrNoXMatrixAuth
      | h # _ \<Rightarrow>
          (case xa_canonical xa [(''method'', mthd), (''uri'', uri), (''origin'', xm_Origin h), (''destination'', xm_Destination h)] of
             Inl err \<Rightarrow> Inl err
           | Inr canonical \<Rightarrow> check_auths xa ds (xm_Origin h) (xm_Destination h) canonical originKeys destinationHost headers))"

definition ValidateXMatrixAuth :: "auth_externals \<Rightarrow> http_request \<Rightarrow> (world, string) io" where
  "ValidateXMatrixAuth xa r =
     bindE (lift_result (GetXMatrixAuth (xa_decode xa) (Header_Values r ''Authorization''))) (\<lambda>auths.
     case auths of
       [] \<Rightarrow> throwE ErrNoXMatrixAuth
     | a # _ \<Rightarrow>
         bindE (ext (lift_result (xa_keys xa (xm_Origin a)))) (\<lambda>keys.
         bindE (getsE doms) (\<lambda>ds.
         let uri = (if HasSuffix (rq_RequestURI r) ''?'' then butlast (rq_RequestURI r) else rq_RequestURI r) in
         thenE (lift_result (ValidateXMatrixAuthHeader xa ds (rq_Method r) uri auths keys (rq_Host r)))
           (returnE (xm_Origin a)))))"

definition RequireServerAuth :: "auth_externals \<Rightarrow> (http_request \<Rightarrow> RequestContext \<Rightarrow> ServerInfo \<Rightarrow> (world, response) io) \<Rightarrow> generator" where
  "RequireServerAuth xa gen r ctx =
     bindE (tryE (ValidateXMatrixAuth xa r)) (\<lambda>res. case res of
       Inl err \<Rightarrow>
         if err = ErrNoXMatrixAuth then returnE (ErrorResponse ErrCodeUnauthorized ''no auth provided (required)'' ErrCodeMissingToken)
         else if err = ErrWrongDestination
         then returnE (ErrorResponse ErrCodeUnauthorized ''no auth provided for this destination (required)'' ErrCodeBadRequest)
         else returnE (ErrorResponse ErrCodeForbidden ''invalid auth provided (required)'' ErrCodeBadRequest)
     | Inr serverName \<Rightarrow> gen r ctx \<lparr>s_ServerName = serverName\<rparr>)"

section \<open>What the routers guarantee\<close>

lemma process_config: "preserves (\<lambda>w. cfg w = c \<and> doms w = d) (set_tokens f)"
  by (rule preservesI) (simp add: set_tokens_def)

lemma config_env: "env_stable (\<lambda>w. cfg w = c \<and> doms w = d)"
  by (rule env_stableI) simp_all

lemma GetUserId_config: "preserves (\<lambda>w. cfg w = c \<and> doms w = d) (GetUserId xa r ctx token user)"
proof -
  have cache: "preserves (\<lambda>w. cfg w = c \<and> doms w = d) (cacheToken ctx token user res)" for res
    unfolding cacheToken_def Let_def by (intro preserves_bind preserves_gets process_config)
  then have "preserves (\<lambda>w. cfg w = c \<and> doms w = d) (checkTokenWithHomeserver xa r' ctx token user b)" for r' b
    unfolding checkTokenWithHomeserver_def by (intro hoare_intros config_env)
  with cache show ?thesis
    unfolding GetUserId_def by (intro hoare_intros)
qed

lemma GetUserId_cfg: "GetUserId xa r ctx token user w = (res, w') \<Longrightarrow> cfg w' = cfg w"
  using preservesD' [OF GetUserId_config [of "cfg w" "doms w"]] by blast

text \<open>The user that a router hands to a handler, for the request \<open>r\<close> in state \<open>w\<close>; \<open>w'\<close> is the state after the check.\<close>

definition authenticated_as :: "auth_externals \<Rightarrow> http_request \<Rightarrow> RequestContext \<Rightarrow> UserInfo \<Rightarrow> world \<Rightarrow> world \<Rightarrow> bool" where
  "authenticated_as xa r ctx user w w' \<longleftrightarrow>
     (let token = GetAccessTokenFromRequest r in
      u_UserId user \<noteq> [] \<and> u_AccessToken user = token \<and> token \<noteq> [] \<and>
      (u_IsTrustedHeaderAdmin user \<longrightarrow> RequestClaimsRepoAdmin (cfg w) r) \<and>
      (if u_IsShared user then is_shared_secret (cfg w) token \<and> w' = w
       else \<exists>guest. GetUserId xa (Some r) ctx token (GetAppserviceUserIdFromRequest r) w = (Inr (u_UserId user, guest), w')))"

lemma applyTrusted_simps [simp]:
  "u_UserId (applyTrustedRepoAdminHeader c r u) = u_UserId u" "u_AccessToken (applyTrustedRepoAdminHeader c r u) = u_AccessToken u"
  "u_IsShared (applyTrustedRepoAdminHeader c r u) = u_IsShared u"
  "u_IsTrustedHeaderAdmin (applyTrustedRepoAdminHeader c r u) \<longleftrightarrow> u_IsTrustedHeaderAdmin u \<or> RequestClaimsRepoAdmin c r"
  by (simp_all add: applyTrustedRepoAdminHeader_def)

lemma token_user_simps [simp]:
  "u_UserId (token_user i t) = i" "u_AccessToken (token_user i t) = t" "\<not> u_IsShared (token_user i t)"
  "\<not> u_IsTrustedHeaderAdmin (token_user i t)"
  "u_UserId (shared_user t) = ''@sharedsecret''" "u_AccessToken (shared_user t) = t" "u_IsShared (shared_user t)"
  "\<not> u_IsTrustedHeaderAdmin (shared_user t)"
  by (simp_all add: token_user_def shared_user_def no_user_def)

lemma RequireAccessToken_run:
  assumes "RequireAccessToken xa gen allowGuests r ctx w = (res, w')"
  shows "(\<exists>user w1. authenticated_as xa r ctx user w w1 \<and> cfg w1 = cfg w \<and> gen r ctx user w1 = (res, w')) \<or>
    (\<exists>c m i. res = Inr (ErrorResponse c m i)) \<or> (\<exists>p. res = Inl (Panic p))"
proof (cases "GetAccessTokenFromRequest r = [] \<or> is_shared_secret (cfg w) (GetAccessTokenFromRequest r)")
  case True
  let ?user = "applyTrustedRepoAdminHeader (cfg w) r (shared_user (GetAccessTokenFromRequest r))"
  have "authenticated_as xa r ctx ?user w w" if "GetAccessTokenFromRequest r \<noteq> []"
    using True that by (simp add: authenticated_as_def Let_def)
  moreover have "gen r ctx ?user w = (res, w') \<or> (\<exists>c m i. res = Inr (ErrorResponse c m i))"
    "GetAccessTokenFromRequest r = [] \<longrightarrow> (\<exists>c m i. res = Inr (ErrorResponse c m i))"
    using assms True by (auto simp: RequireAccessToken_def Let_def bindE_run returnE_run split: if_splits)
  ultimately show ?thesis by blast
next
  case False
  obtain r1 w1 where get: "GetUserId xa (Some r) ctx (GetAccessTokenFromRequest r) (GetAppserviceUserIdFromRequest r) w = (r1, w1)"
    by (cases "GetUserId xa (Some r) ctx (GetAccessTokenFromRequest r) (GetAppserviceUserIdFromRequest r) w")
  have panic: "is_panic e \<Longrightarrow> \<exists>p. e = Panic p" for e by (cases e) auto
  show ?thesis
  proof (cases r1)
    case (Inl e)
    with assms False get panic [of e] show ?thesis
      by (auto simp: RequireAccessToken_def Let_def bindE_run tryE_run returnE_run InternalServerError_def AuthFailed_def split: if_splits)
  next
    case (Inr x)
    obtain userId guest where x: "x = (userId, guest)" by (cases x)
    let ?user = "applyTrustedRepoAdminHeader (cfg w) r (token_user userId (GetAccessTokenFromRequest r))"
    have "authenticated_as xa r ctx ?user w w1" if "userId \<noteq> []"
      using that False get Inr x by (auto simp: authenticated_as_def Let_def)
    moreover have "gen r ctx ?user w1 = (res, w') \<or> (\<exists>c m i. res = Inr (ErrorResponse c m i))" "userId = [] \<longrightarrow> (\<exists>c m i. res = Inr (ErrorResponse c m i))"
      using assms False get Inr x
      by (auto simp: RequireAccessToken_def Let_def bindE_run tryE_run returnE_run GuestAuthFailed_def AuthFailed_def split: if_splits)
    ultimately show ?thesis using GetUserId_cfg [OF get] by blast
  qed
qed

text \<open>
  C22: The handler behind the admin router runs only for a caller who proved to be an
  administrator: with the shared secret, as a user whom the homeserver or the appservices
  vouch for and who is listed as an admin, or as such a user with the trusted header.
  Every other request ends with an error response.
\<close>

theorem RequireRepoAdmin_only_admins:
  assumes "RequireRepoAdmin xa gen r ctx w = (res, w')"
  shows "(\<exists>user w1. authenticated_as xa r ctx user w w1 \<and> gen r ctx user w1 = (res, w') \<and>
       (is_shared_secret (cfg w) (GetAccessTokenFromRequest r) \<or> u_UserId user \<in> set (Admins (cfg w)) \<or> RequestClaimsRepoAdmin (cfg w) r)) \<or>
    (\<exists>c m i. res = Inr (ErrorResponse c m i)) \<or> (\<exists>p. res = Inl (Panic p))"
  using RequireAccessToken_run [OF assms [unfolded RequireRepoAdmin_def]]
proof (elim disjE exE conjE)
  fix user w1 assume auth: "authenticated_as xa r ctx user w w1" and cfg: "cfg w1 = cfg w"
    and run: "(if u_UserId user = [] then throwE (Panic ''safety check failed: Repo admin access check received empty user ID'')
       else bindE (getsE cfg) (\<lambda>c. if \<not> IsRepoAdmin c user then returnE AuthFailed else gen r ctx user)) w1 = (res, w')"
  have "u_UserId user \<noteq> []" using auth by (simp add: authenticated_as_def Let_def)
  with run cfg have "IsRepoAdmin (cfg w) user \<and> gen r ctx user w1 = (res, w') \<or> res = Inr AuthFailed"
    by (auto simp: bindE_run returnE_run split: if_splits)
  moreover have "IsRepoAdmin (cfg w) user \<Longrightarrow>
      is_shared_secret (cfg w) (GetAccessTokenFromRequest r) \<or> u_UserId user \<in> set (Admins (cfg w)) \<or> RequestClaimsRepoAdmin (cfg w) r"
    using auth by (auto simp: IsRepoAdmin_def IsGlobalAdmin_def list_ex_iff authenticated_as_def Let_def split: if_splits)
  ultimately show ?thesis using auth unfolding AuthFailed_def by blast
qed blast+

definition demo_xa :: auth_externals where
  "demo_xa = \<lparr>xa_whoami = (\<lambda>host token user ip. if token = ''tok'' then Inr (''@u:a.org'', False) else Inl ErrInvalidToken),
     xa_logout = (\<lambda>host token user ip every. Inr ()), xa_isAdmin = (\<lambda>host token ip. Inr False),
     xa_regex = (\<lambda>e. Some (\<lambda>s. s = e)), xa_live = (\<lambda>t life n. n \<le> t + life * 1000),
     xa_keys = (\<lambda>server. Inr (\<lambda>k. if k = ''ed25519:1'' then Some server else None)),
     xa_canonical = (\<lambda>obj. Inr (concat (map snd obj))), xa_verify = (\<lambda>key m sig. sig = key @ m), xa_decode = (\<lambda>s. Inr s)\<rparr>"

definition demo_request :: http_request where
  "demo_request = \<lparr>rq_Method = ''GET'', rq_Host = ''a.org'', rq_RemoteAddr = ''ip'', rq_RequestURI = ''/x'',
     rq_Headers = (\<lambda>n. if n = ''authorization'' then [''Bearer tok''] else []), rq_Query = (\<lambda>n. []), rq_Params = [],
     rq_Body = \<lparr>br_data = [], br_pieces = [], br_end = ErrEOF, br_eager = True\<rparr>, rq_ContentLength = 0, rq_ignoreHost = False\<rparr>"

definition admin_world :: world where
  "admin_world = demo_world\<lparr>cfg := (cfg demo_world)\<lparr>Admins := [''@u:a.org'']\<rparr>\<rparr>"

theorem RequireRepoAdmin_only_admins_witness:
  "\<exists>user w1 w'. RequireRepoAdmin demo_xa (\<lambda>r ctx user. returnE EmptyResponse) demo_request demo_ctx admin_world = (Inr EmptyResponse, w') \<and>
     authenticated_as demo_xa demo_request demo_ctx user admin_world w1"
proof -
  have "fst (RequireRepoAdmin demo_xa (\<lambda>r ctx user. returnE EmptyResponse) demo_request demo_ctx admin_world) = Inr EmptyResponse"
    by code_simp
  then obtain w' where run: "RequireRepoAdmin demo_xa (\<lambda>r ctx user. returnE EmptyResponse) demo_request demo_ctx admin_world = (Inr EmptyResponse, w')"
    by (metis prod.collapse)
  from RequireRepoAdmin_only_admins [OF run] run show ?thesis by blast
qed

text \<open>
  With an optional token the handler runs for nobody (an empty user without any
  privilege, also when the token is invalid) or for an authenticated user; the trusted
  header never helps a caller whose token was not accepted.
\<close>

theorem OptionalAccessToken_user:
  assumes "OptionalAccessToken xa gen r ctx w = (res, w')"
  shows "(\<exists>user w1. authenticated_as xa r ctx user w w1 \<and> gen r ctx user w1 = (res, w')) \<or>
    (\<exists>user w1. u_UserId user = [] \<and> \<not> u_IsShared user \<and> \<not> u_IsTrustedHeaderAdmin user \<and> gen r ctx user w1 = (res, w')) \<or>
    (\<exists>c m i. res = Inr (ErrorResponse c m i)) \<or> (\<exists>p. res = Inl (Panic p))"
proof (cases "GetAccessTokenFromRequest r = [] \<or> is_shared_secret (cfg w) (GetAccessTokenFromRequest r)")
  case True
  let ?user = "applyTrustedRepoAdminHeader (cfg w) r (shared_user (GetAccessTokenFromRequest r))"
  have "authenticated_as xa r ctx ?user w w" if "GetAccessTokenFromRequest r \<noteq> []"
    using True that by (simp add: authenticated_as_def Let_def)
  moreover have "gen r ctx no_user w = (res, w')" if "GetAccessTokenFromRequest r = []"
    using assms that by (simp add: OptionalAccessToken_def Let_def)
  moreover have "gen r ctx ?user w = (res, w')" if "GetAccessTokenFromRequest r \<noteq> []"
    using assms True that by (simp add: OptionalAccessToken_def Let_def bindE_run)
  moreover have "u_UserId no_user = []" "\<not> u_IsShared no_user" "\<not> u_IsTrustedHeaderAdmin no_user" by (simp_all add: no_user_def)
  ultimately show ?thesis by blast
next
  case False
  obtain r1 w1 where get: "GetUserId xa (Some r) ctx (GetAccessTokenFromRequest r) (GetAppserviceUserIdFromRequest r) w = (r1, w1)"
    by (cases "GetUserId xa (Some r) ctx (GetAccessTokenFromRequest r) (GetAppserviceUserIdFromRequest r) w")
  let ?anon = "token_user '''' (GetAccessTokenFromRequest r)"
  have anon: "u_UserId ?anon = []" "\<not> u_IsShared ?anon" "\<not> u_IsTrustedHeaderAdmin ?anon" by simp_all
  have panic: "is_panic e \<Longrightarrow> \<exists>p. e = Panic p" for e by (cases e) auto
  show ?thesis
  proof (cases r1)
    case (Inl e)
    with assms False get have "gen r ctx ?anon w1 = (res, w') \<or> (\<exists>c m i. res = Inr (ErrorResponse c m i)) \<or> res = Inl e \<and> is_panic e"
      by (auto simp: OptionalAccessToken_def Let_def bindE_run tryE_run returnE_run InternalServerError_def split: if_splits)
    with anon panic show ?thesis by blast
  next
    case (Inr x)
    obtain userId guest where x: "x = (userId, guest)" by (cases x)
    let ?user = "applyTrustedRepoAdminHeader (cfg w) r (token_user userId (GetAccessTokenFromRequest r))"
    have "authenticated_as xa r ctx ?user w w1" if "userId \<noteq> []"
      using that False get Inr x by (auto simp: authenticated_as_def Let_def)
    moreover have "userId \<noteq> [] \<and> gen r ctx ?user w1 = (res, w') \<or> gen r ctx ?anon w1 = (res, w') \<or> (\<exists>c m i. res = Inr (ErrorResponse c m i))"
      using assms False get Inr x
      by (auto simp: OptionalAccessToken_def Let_def bindE_run tryE_run returnE_run GuestAuthFailed_def split: if_splits)
    ultimately show ?thesis using anon by blast
  qed
qed

definition bad_token_request :: http_request where
  "bad_token_request = demo_request\<lparr>rq_Headers := (\<lambda>n. if n = ''authorization'' then [''Bearer bad''] else [''true''])\<rparr>"

theorem OptionalAccessToken_user_witness:
  "\<exists>w' (user :: UserInfo) w1. OptionalAccessToken demo_xa (\<lambda>r ctx user. returnE (JsonResponse (JStr (u_UserId user)))) bad_token_request demo_ctx demo_world
       = (Inr (JsonResponse (JStr [])), w') \<and>
     u_UserId user = [] \<and> \<not> u_IsTrustedHeaderAdmin user \<and>
     (\<lambda>r ctx user. returnE (JsonResponse (JStr (u_UserId user)))) bad_token_request demo_ctx user w1 = (Inr (JsonResponse (JStr [])), w')"
proof -
  let ?gen = "\<lambda>r ctx user. returnE (JsonResponse (JStr (u_UserId user)))"
  have "fst (OptionalAccessToken demo_xa ?gen bad_token_request demo_ctx demo_world) = Inr (JsonResponse (JStr []))"
    by code_simp
  then obtain w' where run: "OptionalAccessToken demo_xa ?gen bad_token_request demo_ctx demo_world = (Inr (JsonResponse (JStr [])), w')"
    by (metis prod.collapse)
  from OptionalAccessToken_user [OF run] run show ?thesis
    by (auto simp: authenticated_as_def Let_def returnE_run)
qed

section \<open>Servers\<close>

lemma HasSuffix_butlast: "HasSuffix s [c] \<Longrightarrow> s = butlast s @ [c]"
  unfolding HasSuffix_def HasPrefix_iff by (metis append_Cons append_Nil butlast_snoc rev.simps(2) rev_rev_ident rev_singleton_conv)

lemma check_auths_ok:
  "check_auths xa ds origin destination canonical keys host hs = Inr () \<longleftrightarrow>
    (\<forall>h \<in> set hs. xm_Origin h = origin \<and> xm_Destination h = destination \<and>
       (destination \<noteq> [] \<longrightarrow> IsServerOurs ds destination \<and> host = destination) \<and>
       (\<exists>key. keys (xm_KeyId h) = Some key \<and> xa_verify xa key canonical (xm_Signature h)))"
  by (induction hs) (auto split: option.splits)

text \<open>
  C23: A handler behind server authentication runs for the server \<open>s\<close> only when the request
  has an X-Matrix header, every such header names \<open>s\<close> and the same destination, which is
  absent or the requested host and one of our own, and the signature of each one is valid
  for the method, URI, origin and destination of the request under a key of \<open>s\<close>.  An absent
  destination is signed as the empty string, so that such a request is not bound to this host:
  it passes at any other server that accepts it as well.
\<close>

theorem RequireServerAuth_signed:
  assumes "RequireServerAuth xa gen r ctx w = (res, w')"
  shows "(\<exists>s auths keys dest canonical uri w1. gen r ctx \<lparr>s_ServerName = s\<rparr> w1 = (res, w') \<and>
       GetXMatrixAuth (xa_decode xa) (Header_Values r ''Authorization'') = Inr auths \<and> auths \<noteq> [] \<and>
       xa_keys xa s = Inr keys \<and> (uri = rq_RequestURI r \<or> rq_RequestURI r = uri @ ''?'') \<and>
       xa_canonical xa [(''method'', rq_Method r), (''uri'', uri), (''origin'', s), (''destination'', dest)] = Inr canonical \<and>
       (dest = [] \<or> IsServerOurs (doms w) dest \<and> rq_Host r = dest) \<and>
       (\<forall>h \<in> set auths. xm_Origin h = s \<and> xm_Destination h = dest \<and>
          (\<exists>key. keys (xm_KeyId h) = Some key \<and> xa_verify xa key canonical (xm_Signature h)))) \<or>
    (\<exists>c m i. res = Inr (ErrorResponse c m i)) \<or> (\<exists>p. res = Inl (Panic p))"
proof -
  obtain v w1 where val: "ValidateXMatrixAuth xa r w = (v, w1)" by (cases "ValidateXMatrixAuth xa r w")
  show ?thesis
  proof (cases v)
    case (Inl e)
    have "is_panic e \<Longrightarrow> \<exists>p. e = Panic p" by (cases e) auto
    with assms val Inl show ?thesis
      by (auto simp: RequireServerAuth_def bindE_run tryE_run returnE_run split: if_splits)
  next
    case (Inr s)
    then obtain a as keys w2 uri where auths: "GetXMatrixAuth (xa_decode xa) (Header_Values r ''Authorization'') = Inr (a # as)"
      and s: "s = xm_Origin a" and keys: "ext (lift_result (xa_keys xa (xm_Origin a))) w = (Inr keys, w2)"
      and uri: "uri = (if HasSuffix (rq_RequestURI r) ''?'' then butlast (rq_RequestURI r) else rq_RequestURI r)"
      and ok: "ValidateXMatrixAuthHeader xa (doms w2) (rq_Method r) uri (a # as) keys (rq_Host r) = Inr ()"
      using val
      by (auto simp: ValidateXMatrixAuth_def bindE_run [of "lift_result _"] bindE_run [of "ext _"] bindE_run [of "getsE _"]
          thenE_run lift_result_def returnE_run throwE_run Let_def split: sum.splits list.splits prod.splits)
    have w2: "doms w2 = doms w \<and> xa_keys xa s = Inr keys"
      using keys s by (cases "lift_result (xa_keys xa (xm_Origin a)) :: (world, string \<Rightarrow> string option) io" w rule: ext_cases)
        (auto simp: lift_result_def returnE_run throwE_run split: sum.splits)
    have u: "uri = rq_RequestURI r \<or> rq_RequestURI r = uri @ ''?''"
      using uri HasSuffix_butlast [of "rq_RequestURI r" "CHR ''?''"] by auto
    obtain canonical where
      can: "xa_canonical xa [(''method'', rq_Method r), (''uri'', uri), (''origin'', s), (''destination'', xm_Destination a)] = Inr canonical"
      and chk: "check_auths xa (doms w2) s (xm_Destination a) canonical keys (rq_Host r) (a # as) = Inr ()"
      using ok s by (auto simp: ValidateXMatrixAuthHeader_def split: sum.splits)
    have g: "gen r ctx \<lparr>s_ServerName = s\<rparr> w1 = (res, w')"
      using assms val Inr by (simp add: RequireServerAuth_def bindE_run tryE_run)
    have all: "\<forall>h \<in> set (a # as). xm_Origin h = s \<and> xm_Destination h = xm_Destination a \<and>
          (\<exists>key. keys (xm_KeyId h) = Some key \<and> xa_verify xa key canonical (xm_Signature h))"
      and dest: "xm_Destination a = [] \<or> IsServerOurs (doms w) (xm_Destination a) \<and> rq_Host r = xm_Destination a"
      using chk w2 unfolding check_auths_ok by auto
    show ?thesis
      by (rule disjI1, intro exI conjI, rule g, rule auths, simp, rule conjunct2 [OF w2], rule u, rule can, rule dest, rule all)
  qed
qed

definition signed_request_header :: string where
  "signed_request_header = ''X-Matrix origin=b.org,destination=a.org,key=ed25519:1,sig=b.orgGET/xb.orga.org''"

theorem RequireServerAuth_signed_witness:
  "\<exists>w' s. RequireServerAuth demo_xa (\<lambda>r ctx server. returnE (JsonResponse (JStr (s_ServerName server))))
       (demo_request\<lparr>rq_Headers := (\<lambda>n. if n = ''authorization'' then [signed_request_header] else [])\<rparr>) demo_ctx demo_world
     = (Inr (JsonResponse (JStr s)), w') \<and> s = ''b.org''"
proof -
  let ?gen = "\<lambda>r ctx server. returnE (JsonResponse (JStr (s_ServerName server)))"
  let ?r = "demo_request\<lparr>rq_Headers := (\<lambda>n. if n = ''authorization'' then [signed_request_header] else [])\<rparr>"
  have "fst (RequireServerAuth demo_xa ?gen ?r demo_ctx demo_world) = Inr (JsonResponse (JStr ''b.org''))"
    by code_simp
  then obtain w' where run: "RequireServerAuth demo_xa ?gen ?r demo_ctx demo_world = (Inr (JsonResponse (JStr ''b.org'')), w')"
    by (metis prod.collapse)
  from RequireServerAuth_signed [OF run] run show ?thesis by (auto simp: returnE_run)
qed

end
