(* ===== verification/Respond.thy ===== *)
theory Respond
  imports Http Demo
begin

text \<open>
  Writing the response: \<^verbatim>\<open>api/_routers/98-use-rcontext.go\<close>, from the value a handler
  returned to status, headers and body.

  Range headers, MIME types, file extensions and JSON are handled by libraries, which are
  the parameters in \<open>reply_externals\<close>.
\<close>

datatype range_err = RangeInvalid | RangeNoOverlap | RangeOther

record reply_externals =
  xr_ParseRange :: "string \<Rightarrow> int \<Rightarrow> int \<Rightarrow> range_err + (int \<times> int) list"
  xr_ContentRange :: "int \<times> int \<Rightarrow> int \<Rightarrow> string"
  xr_ExtensionsByType :: "string \<Rightarrow> string list"
  xr_isASCII :: "string \<Rightarrow> bool"
  xr_ParseMediaType :: "string \<Rightarrow> (string \<times> (string \<times> string) list) option"
  xr_FormatMediaType :: "string \<Rightarrow> (string \<times> string) list \<Rightarrow> string"
  xr_json :: "response \<Rightarrow> bytes"

record http_reply =
  rep_Status :: int
  rep_Headers :: headers
  rep_Body :: bytes
  rep_panic :: "goerr option"

section \<open>Status codes\<close>

definition error_status :: "string \<Rightarrow> int" where
  "error_status code =
     (if code = ErrCodeMissingToken then 401
      else if code = ErrCodeUnknownToken then 401
      else if code = ErrCodeNotFound then 404
      else if code = ErrCodeMediaTooLarge then 413
      else if code = ErrCodeBadRequest then 400
      else if code = ErrCodeMethodNotAllowed then 405
      else if code = ErrCodeForbidden then 403
      else if code = ErrCodeNoGuests then 403
      else if code = ErrCodeCannotOverwrite then 409
      else if code = ErrCodeNotYetUploaded then 504
      else 500)"

section \<open>Downloads\<close>

definition query_safe :: "char \<Rightarrow> bool" where
  "query_safe c \<longleftrightarrow> is_digit c \<or> c \<in> set ''abcdefghijklmnopqrstuvwxyzABCDEFGHIJKLMNOPQRSTUVWXYZ-_.~''"

definition hex_digit :: "nat \<Rightarrow> char" where
  "hex_digit n = ''0123456789ABCDEF'' ! (n mod 16)"

definition QueryEscape :: "string \<Rightarrow> string" where
  "QueryEscape s = concat (map (\<lambda>c. if c = CHR '' '' then ''+'' else if query_safe c then [c]
     else [CHR ''%'', hex_digit (of_char c div 16), hex_digit (of_char c)]) s)"

definition disposition :: "string \<Rightarrow> string \<Rightarrow> string" where
  "disposition target contentType =
     (if target = [] then ''attachment''
      else if target = ''infer'' then (if CanInline contentType then ''inline'' else ''attachment'')
      else target)"

definition file_name :: "reply_externals \<Rightarrow> string \<Rightarrow> string \<Rightarrow> string" where
  "file_name xr contentType name =
     (if name = [] then ''file'' @ (case xr_ExtensionsByType xr contentType of [] \<Rightarrow> '''' | e # _ \<Rightarrow> e) else name)"

definition Content_Disposition :: "reply_externals \<Rightarrow> string \<Rightarrow> string \<Rightarrow> string" where
  "Content_Disposition xr disp fname =
     (if xr_isASCII xr fname then disp @ ''; filename='' @ QueryEscape fname
      else disp @ ''; filename*=utf-8'' @ [CHR 0x27, CHR 0x27] @ QueryEscape fname)"

text \<open>The range to serve: an error response with status 416, or at most one range.\<close>

definition requested_range :: "reply_externals \<Rightarrow> int \<Rightarrow> http_request \<Rightarrow> int \<Rightarrow> response + (int \<times> int) option" where
  "requested_range xr chunk r size' =
     (if size' > 0 then
        (case xr_ParseRange xr (Header_Get r ''Range'') size' chunk of
           Inl RangeInvalid \<Rightarrow> Inl (BadRequest ''invalid range header'')
         | Inl RangeNoOverlap \<Rightarrow> Inl (BadRequest ''out of range'')
         | Inl RangeOther \<Rightarrow> Inr None
         | Inr [] \<Rightarrow> Inr None
         | Inr [rg] \<Rightarrow> Inr (Some rg)
         | Inr _ \<Rightarrow> Inl (BadRequest ''only 1 range is supported''))
      else Inr None)"

section \<open>ServeHTTP\<close>

text \<open>
  The end of \<open>ServeHTTP\<close>: the content type is normalised, the length is set when it is
  known, and the stream is copied.  A stream of another length than announced panics,
  after what it had was written.
\<close>

definition write_stream ::
  "reply_externals \<Rightarrow> headers \<Rightarrow> int \<Rightarrow> string \<Rightarrow> int \<Rightarrow> bytes \<Rightarrow> http_reply" where
  "write_stream xr h status contentType expectedBytes stream =
     (let ct = (case xr_ParseMediaType xr contentType of
            None \<Rightarrow> contentType
          | Some (mediaType, params) \<Rightarrow>
              xr_FormatMediaType xr mediaType
                (if \<not> HasPrefix mediaType ''text/'' \<and> mediaType \<noteq> ''application/json''
                 then filter (\<lambda>p. fst p \<noteq> ''charset'') params else params));
          h1 = h(''Content-Type'' := ct);
          h2 = (if expectedBytes > 0 then h1(''Content-Length'' := Itoa expectedBytes) else h1)
      in \<lparr>rep_Status = status, rep_Headers = h2, rep_Body = stream,
          rep_panic = (if expectedBytes > 0 \<and> int (length stream) \<noteq> expectedBytes
             then Some (Panic ''mismatch transfer size'') else None)\<rparr>)"

definition write_json :: "reply_externals \<Rightarrow> headers \<Rightarrow> int \<Rightarrow> response \<Rightarrow> http_reply" where
  "write_json xr h status res =
     (let status' = (case res of ErrorResponse _ _ code \<Rightarrow> if status = 200 then error_status code else status | _ \<Rightarrow> status);
          b = xr_json xr res
      in write_stream xr h status' ''application/json'' (int (length b)) b)"

text \<open>
  \<open>seekable\<close> says whether the stream of a download can seek.  A download without a stream
  (the answer to a \<open>HEAD\<close> request) falls through to the JSON encoding of the response itself.
\<close>

definition write_download ::
  "reply_externals \<Rightarrow> RequestContext \<Rightarrow> headers \<Rightarrow> http_request \<Rightarrow> bool \<Rightarrow> bool \<Rightarrow> string \<Rightarrow> string \<Rightarrow> int \<Rightarrow> bytes option \<Rightarrow> string \<Rightarrow> http_reply" where
  "write_download xr ctx h r seekable shouldCache contentType0 name size' data target =
     (case requested_range xr (dl_DefaultRangeChunkSizeBytes (Downloads (ctx_Config ctx))) r size' of
        Inl err \<Rightarrow> write_json xr h 416 err
      | Inr rg \<Rightarrow>
          let contentType = (if contentType0 = [] then ''application/octet-stream'' else contentType0);
              h1 = (if shouldCache then h(''Cache-Control'' := ''private, max-age=259200'') else h);
              h2 = (if size' > 0 then h1(''Accept-Ranges'' := ''bytes'') else h1);
              h3 = h2(''Content-Disposition'' := Content_Disposition xr (disposition target contentType) (file_name xr contentType name))
          in (case data of
                None \<Rightarrow> write_json xr h3 200 (DownloadResponse contentType0 name size' None target)
              | Some stream \<Rightarrow> (case rg of
                  Some (start, len) \<Rightarrow>
                    if seekable \<and> start \<ge> 0
                    then write_stream xr (h3(''Content-Range'' := xr_ContentRange xr (start, len) size')) 206 contentType len
                           (take (nat len) (drop (nat start) stream))
                    else write_stream xr h3 200 contentType size' stream
                | None \<Rightarrow> write_stream xr h3 200 contentType size' stream)))"

definition RContextRouter_reply ::
  "reply_externals \<Rightarrow> RequestContext \<Rightarrow> headers \<Rightarrow> http_request \<Rightarrow> bool \<Rightarrow> response \<Rightarrow> http_reply" where
  "RContextRouter_reply xr ctx h r seekable res0 =
     (let shouldCache = (case res0 of DoNotCacheResponse _ \<Rightarrow> False | _ \<Rightarrow> True);
          res = (case res0 of DoNotCacheResponse payload \<Rightarrow> payload | _ \<Rightarrow> res0)
      in case res of
           RedirectResponse url \<Rightarrow> \<lparr>rep_Status = 307, rep_Headers = h(''Location'' := url), rep_Body = [], rep_panic = None\<rparr>
         | HtmlResponse html \<Rightarrow>
             \<lparr>rep_Status = 200,
              rep_Headers = (if shouldCache then h(''Cache-Control'' := ''private, max-age=259200'') else h)
                (''Content-Type'' := ''text/html; charset=UTF-8'', ''Content-Security-Policy'' := '''', ''X-Content-Security-Policy'' := ''''),
              rep_Body = html, rep_panic = None\<rparr>
         | DownloadResponse contentType name size' data target \<Rightarrow>
             write_download xr ctx h r seekable shouldCache contentType name size' data target
         | _ \<Rightarrow> write_json xr h 200 res)"

section \<open>What is sent\<close>

lemma write_stream_simps [simp]:
  "rep_Status (write_stream xr h status ct n b) = status" "rep_Body (write_stream xr h status ct n b) = b"
  "rep_panic (write_stream xr h status ct n b) = (if n > 0 \<and> int (length b) \<noteq> n then Some (Panic ''mismatch transfer size'') else None)"
  "n > 0 \<Longrightarrow> rep_Headers (write_stream xr h status ct n b) ''Content-Length'' = Itoa n"
  "k \<noteq> ''Content-Type'' \<Longrightarrow> k \<noteq> ''Content-Length'' \<Longrightarrow> rep_Headers (write_stream xr h status ct n b) k = h k"
  by (simp_all add: write_stream_def Let_def)

text \<open>
  C24: A download of a file whose size is known is sent completely, or as the requested
  part: with a range inside the file the status is 206 and the body is exactly that slice,
  without a range it is 200 and the whole file; the announced length is the length sent
  and nothing panics.
\<close>

theorem download_reply:
  assumes "size' = int (length data)" and "data \<noteq> []"
    and "requested_range xr (dl_DefaultRangeChunkSizeBytes (Downloads (ctx_Config ctx))) r size' = Inr rg"
    and "\<And>start len. rg = Some (start, len) \<Longrightarrow> 0 \<le> start \<and> 0 < len \<and> start + len \<le> size'"
  shows "let rep = RContextRouter_reply xr ctx h r True (DownloadResponse contentType name size' (Some data) target) in
    rep_panic rep = None \<and> rep_Headers rep ''Content-Length'' = Itoa (int (length (rep_Body rep))) \<and>
    (case rg of
       None \<Rightarrow> rep_Status rep = 200 \<and> rep_Body rep = data
     | Some (start, len) \<Rightarrow> rep_Status rep = 206 \<and> rep_Body rep = take (nat len) (drop (nat start) data) \<and>
         rep_Headers rep ''Content-Range'' = xr_ContentRange xr (start, len) size')"
proof (cases rg)
  case None
  with assms show ?thesis by (simp add: RContextRouter_reply_def write_download_def Let_def)
next
  case (Some p)
  obtain start len where p: "p = (start, len)" by (cases p)
  with assms(4) Some have "0 \<le> start" "0 < len" "start + len \<le> size'" by auto
  then have "int (length (take (nat len) (drop (nat start) data))) = len"
    using assms(1) by auto
  with assms Some p \<open>0 \<le> start\<close> \<open>0 < len\<close> show ?thesis
    by (simp add: RContextRouter_reply_def write_download_def Let_def)
qed

definition demo_xr :: reply_externals where
  "demo_xr = \<lparr>xr_ParseRange = (\<lambda>s n c. if s = ''bytes=1-2'' then Inr [(1, 2)] else if s = '''' then Inr [] else Inl RangeInvalid),
     xr_ContentRange = (\<lambda>(a, l) n. ''bytes '' @ Itoa a @ ''-'' @ Itoa (a + l - 1) @ ''/'' @ Itoa n),
     xr_ExtensionsByType = (\<lambda>t. []), xr_isASCII = (\<lambda>s. True), xr_ParseMediaType = (\<lambda>s. Some (s, [])),
     xr_FormatMediaType = (\<lambda>t ps. t), xr_json = (\<lambda>res. ''{}'')\<rparr>"

definition range_request :: http_request where
  "range_request = \<lparr>rq_Method = ''GET'', rq_Host = ''a.org'', rq_RemoteAddr = ''ip'', rq_RequestURI = ''/x'',
     rq_Headers = (\<lambda>n. if n = ''range'' then [''bytes=1-2''] else []), rq_Query = (\<lambda>n. []), rq_Params = [],
     rq_Body = \<lparr>br_data = [], br_pieces = [], br_end = ErrEOF, br_eager = True\<rparr>, rq_ContentLength = 0, rq_ignoreHost = False\<rparr>"

lemma demo_range: "requested_range demo_xr n range_request 4 = Inr (Some (1, 2))"
proof -
  have "Header_Get range_request ''Range'' = ''bytes=1-2''" by code_simp
  then show ?thesis by (simp add: requested_range_def demo_xr_def)
qed

theorem download_reply_witness:
  "rep_Body (RContextRouter_reply demo_xr demo_ctx (install_headers (\<lambda>_. '''')) range_request True
     (DownloadResponse ''image/png'' ''x.png'' 4 (Some ''abcd'') ''infer'')) = ''bc''"
  using download_reply [OF _ _ demo_range, of "''abcd''" demo_ctx "install_headers (\<lambda>_. '''')" "''image/png''" "''x.png''" "''infer''"]
  by (simp add: Let_def numeral_2_eq_2)

definition is_page :: "response \<Rightarrow> bool" where
  "is_page res = (case res of HtmlResponse _ \<Rightarrow> True | DoNotCacheResponse (HtmlResponse _) \<Rightarrow> True | _ \<Rightarrow> False)"

lemma write_json_header:
  "k \<noteq> ''Content-Type'' \<Longrightarrow> k \<noteq> ''Content-Length'' \<Longrightarrow> rep_Headers (write_json xr h st x) k = h k"
  by (simp add: write_json_def Let_def)

lemma write_download_header:
  assumes "k \<notin> {''Content-Type'', ''Content-Length'', ''Cache-Control'', ''Accept-Ranges'', ''Content-Disposition'', ''Content-Range''}"
  shows "rep_Headers (write_download xr ctx h r seekable cache ct nm n b d) k = h k"
  using assms by (simp add: write_download_def Let_def write_json_header split: sum.split option.split)

lemma reply_headers:
  assumes "\<not> is_page res"
    and "k \<notin> {''Content-Type'', ''Content-Length'', ''Cache-Control'', ''Accept-Ranges'', ''Content-Disposition'', ''Content-Range'', ''Location''}"
  shows "rep_Headers (RContextRouter_reply xr ctx h r seekable res) k = h k"
proof (cases res)
  case (DoNotCacheResponse x)
  then show ?thesis
    using assms
    by (cases x) (simp_all add: RContextRouter_reply_def is_page_def write_json_header write_download_header)
qed (use assms in \<open>simp_all add: RContextRouter_reply_def is_page_def write_json_header write_download_header\<close>)

lemma installed:
  "HasPrefix (install_headers (\<lambda>_. '''') ''Content-Security-Policy'') ''sandbox;''"
  "install_headers (\<lambda>_. '''') ''X-Content-Security-Policy'' = ''sandbox;''"
  "install_headers (\<lambda>_. '''') ''Content-Disposition'' = ''''"
  by code_simp+

text \<open>
  C25: The browser is never invited to run what users uploaded: every response that is
  not one of the repository's own HTML pages carries the sandboxing security policies, and
  a download whose disposition is to be inferred is sent inline only when its content type
  is on the list of safe types.
\<close>

theorem reply_sandboxed:
  assumes "\<not> is_page res" and "h = install_headers (\<lambda>_. '''')"
    and "rep = RContextRouter_reply xr ctx h r seekable res"
  shows "HasPrefix (rep_Headers rep ''Content-Security-Policy'') ''sandbox;'' \<and>
    rep_Headers rep ''X-Content-Security-Policy'' = ''sandbox;'' \<and>
    (\<forall>contentType name n data. res = DownloadResponse contentType name n data ''infer'' \<and> contentType \<noteq> [] \<and>
       HasPrefix (rep_Headers rep ''Content-Disposition'') ''inline'' \<longrightarrow> CanInline contentType)"
proof (intro conjI allI impI)
  show "HasPrefix (rep_Headers rep ''Content-Security-Policy'') ''sandbox;''"
    using reply_headers [OF assms(1), of "''Content-Security-Policy''"] assms(2,3) installed(1) by simp
  show "rep_Headers rep ''X-Content-Security-Policy'' = ''sandbox;''"
    using reply_headers [OF assms(1), of "''X-Content-Security-Policy''"] assms(2,3) installed(2) by simp
next
  fix contentType name n data
  assume "res = DownloadResponse contentType name n data ''infer'' \<and> contentType \<noteq> [] \<and>
    HasPrefix (rep_Headers rep ''Content-Disposition'') ''inline''"
  then have res: "res = DownloadResponse contentType name n data ''infer''" "contentType \<noteq> []"
    and inl: "HasPrefix (rep_Headers rep ''Content-Disposition'') ''inline''" by auto
  have "rep_Headers rep ''Content-Disposition'' = '''' \<or>
      rep_Headers rep ''Content-Disposition'' = Content_Disposition xr (disposition ''infer'' contentType) (file_name xr contentType name)"
    using res assms(2,3)
    by (auto simp: RContextRouter_reply_def write_download_def write_json_header installed Let_def split: sum.split option.split)
  moreover have "\<not> HasPrefix (Content_Disposition xr ''attachment'' f) ''inline''" for f
    by (simp add: Content_Disposition_def HasPrefix_def)
  ultimately show "CanInline contentType"
    using inl by (auto simp: disposition_def HasPrefix_def split: if_splits)
qed

theorem reply_sandboxed_witness:
  "rep_Headers (RContextRouter_reply demo_xr demo_ctx (install_headers (\<lambda>_. '''')) range_request True
     (DownloadResponse ''text/html'' ''x.html'' 4 (Some ''abcd'') ''infer'')) ''X-Content-Security-Policy'' = ''sandbox;''"
  using reply_sandboxed [OF _ refl refl, of "DownloadResponse ''text/html'' ''x.html'' 4 (Some ''abcd'') ''infer''"]
  by (simp add: is_page_def)

text \<open>
  The status of an error response: of the errors the handlers make, those for bad
  requests, authentication, guests, missing or blocked media and too large bodies get
  their client error status, a pending upload gets 504, and everything else is reported
  as a server error, among them an exceeded rate limit, an exceeded quota and an empty body.
\<close>

theorem error_statuses:
  "rep_Status (RContextRouter_reply xr ctx h r seekable (ErrorResponse code message internal)) = error_status internal \<and>
   map (\<lambda>e. error_status (resp_InternalCode e))
     [BadRequest m, AuthFailed, GuestAuthFailed, NotFoundError, MediaBlocked, RequestTooLarge, MethodNotAllowed, NotYetUploaded,
      RateLimitReached, QuotaExceeded, RequestTooSmall, InternalServerError m] =
     [400, 401, 403, 404, 403, 413, 405, 504, 500, 500, 500, 500]"
  by (simp add: RContextRouter_reply_def write_json_def Let_def error_status_def BadRequest_def AuthFailed_def GuestAuthFailed_def
      NotFoundError_def MediaBlocked_def RequestTooLarge_def MethodNotAllowed_def NotYetUploaded_def RateLimitReached_def
      QuotaExceeded_def RequestTooSmall_def InternalServerError_def ErrCodeMissingToken_def ErrCodeUnknownToken_def
      ErrCodeNotFound_def ErrCodeMediaTooLarge_def ErrCodeBadRequest_def ErrCodeMethodNotAllowed_def ErrCodeForbidden_def
      ErrCodeNoGuests_def ErrCodeCannotOverwrite_def ErrCodeNotYetUploaded_def ErrCodeRateLimitExceeded_def
      ErrCodeQuotaExceeded_def ErrCodeMediaTooSmall_def ErrCodeUnknown_def)

end
