(* ===== verification/ThumbPipeline.thy ===== *)
theory ThumbPipeline
  imports Download
begin

text \<open>
  Thumbnails: the choice of a size (\<^verbatim>\<open>pipelines/_steps/thumbnails/pick_dimensions.go\<close>), the
  choice of a generator and its checks (\<^verbatim>\<open>thumbnailing/thumbnail.go\<close>,
  \<^verbatim>\<open>thumbnailing/i/01-factories.go\<close>, \<^verbatim>\<open>thumbnailing/u/dimensions.go\<close>), storing a thumbnail
  (\<^verbatim>\<open>pipelines/_steps/thumbnails/generate.go\<close>) and the pipeline
  (\<^verbatim>\<open>pipelines/pipeline_thumbnail\<close>).

  The generators themselves draw images with libraries; each is a record of the functions
  of the Go interface \<open>Generator\<close>.
\<close>

section \<open>float32\<close>

text \<open>
  The arithmetic of \<open>float32\<close> on the non-negative numbers that occur: a result is rounded
  to 24 significant bits, ties to even.  Quotients and products of \<open>int\<close> values stay far
  from the limits of the exponent.
\<close>

fun log2_floor :: "nat \<Rightarrow> rat \<Rightarrow> int" where
  "log2_floor 0 x = 0"
| "log2_floor (Suc n) x =
     (if x \<ge> 2 then 1 + log2_floor n (x / 2) else if x < 1 then log2_floor n (2 * x) - 1 else 0)"

definition pow2 :: "int \<Rightarrow> rat" where
  "pow2 e = (if e \<ge> 0 then 2 ^ nat e else 1 / 2 ^ nat (- e))"

definition round_even :: "rat \<Rightarrow> int" where
  "round_even x =
     (let f = \<lfloor>x\<rfloor>; d = x - of_int f in
      if d < 1 / 2 then f else if d > 1 / 2 then f + 1 else if even f then f else f + 1)"

definition f32 :: "rat \<Rightarrow> rat" where
  "f32 x = (if x \<le> 0 then 0 else let e = log2_floor 200 x - 23 in of_int (round_even (x / pow2 e)) * pow2 e)"

text \<open>
  A division by zero gives an infinity, or no number for \<open>0/0\<close>; a comparison with \<open>NaN\<close>
  is false.
\<close>

datatype float32 = Finite rat | PosInf | NaN

definition f32_ratio :: "int \<Rightarrow> int \<Rightarrow> float32" where
  "f32_ratio a b =
     (if b \<noteq> 0 then Finite (f32 (f32 (of_int a) / f32 (of_int b))) else if a = 0 then NaN else PosInf)"

definition f32_eq :: "float32 \<Rightarrow> float32 \<Rightarrow> bool" where
  "f32_eq x y \<longleftrightarrow> x \<noteq> NaN \<and> x = y"

definition MinFloat32 :: "rat \<Rightarrow> rat \<Rightarrow> rat" where
  "MinFloat32 a b = (if a < b then a else b)"

section \<open>pick\_dimensions.go\<close>

fun pick_loop ::
  "ThumbnailSize list \<Rightarrow> int \<Rightarrow> int \<Rightarrow> (int \<times> int) option \<Rightarrow> int \<Rightarrow> int \<Rightarrow> (int \<times> int) + (int \<times> int) option \<times> int \<times> int" where
  "pick_loop [] w h found largestWidth largestHeight = Inr (found, largestWidth, largestHeight)"
| "pick_loop (s # sizes) w h found largestWidth largestHeight =
     (let lw = MaxInt largestWidth (size_Width s); lh = MaxInt largestHeight (size_Height s) in
      if w = size_Width s \<and> h = size_Height s then Inl (size_Width s, size_Height s)
      else
        pick_loop sizes w h
          (if w \<le> size_Width s \<and> h \<le> size_Height s then
             (case found of
                None \<Rightarrow> Some (size_Width s, size_Height s)
              | Some (tw, th) \<Rightarrow> if tw > size_Width s \<and> th > size_Height s then Some (size_Width s, size_Height s) else found)
           else found) lw lh)"

definition crop_dimensions :: "int \<Rightarrow> int \<Rightarrow> int \<Rightarrow> int \<Rightarrow> int \<times> int" where
  "crop_dimensions w h tw th =
     (if \<not> f32_eq (f32_ratio tw th) (f32_ratio w h) then
        let ratio = MinFloat32 (f32 (f32 (of_int tw) / f32 (of_int w))) (f32 (f32 (of_int th) / f32 (of_int h))) in
        (\<lfloor>f32 (f32 (of_int w) * ratio)\<rfloor>, \<lfloor>f32 (f32 (of_int h) * ratio)\<rfloor>)
      else (tw, th))"

definition PickNewDimensions :: "RequestContext \<Rightarrow> int \<Rightarrow> int \<Rightarrow> string \<Rightarrow> goerr + int \<times> int \<times> string" where
  "PickNewDimensions ctx w h mthd =
     (let conf = Thumbnails (ctx_Config ctx) in
      if w \<le> 0 then Inl (ErrOther ''width must be positive'')
      else if h \<le> 0 then Inl (ErrOther ''height must be positive'')
      else if mthd \<noteq> ''crop'' \<and> mthd \<noteq> ''scale'' then Inl (ErrOther ''method must be crop or scale'')
      else case pick_loop (th_Sizes conf) w h None 0 0 of
        Inl (tw, th) \<Rightarrow> Inr (tw, th, mthd)
      | Inr (found, largestWidth, largestHeight) \<Rightarrow>
          if th_DynamicSizing conf then Inr (MinInt largestWidth w, MinInt largestHeight h, mthd)
          else
            let (tw, th) = (case found of None \<Rightarrow> (largestWidth, largestHeight) | Some t \<Rightarrow> t);
                (tw', th') = (if mthd = ''crop'' then crop_dimensions w h tw th else (tw, th))
            in Inr (tw', th', mthd))"

section \<open>thumbnailing\<close>

record Thumbnail =
  tn_Animated :: bool
  tn_ContentType :: string
  tn_Reader :: bytes

text \<open>\<open>matches\<close> also tells how many bytes it read of the stream that the next generator continues.\<close>

record Generator =
  gi_supportedContentTypes :: "string list"
  gi_supportsAnimation :: bool
  gi_matches :: "bytes \<Rightarrow> string \<Rightarrow> bool \<times> nat"
  gi_GetOriginDimensions :: "bytes \<Rightarrow> string \<Rightarrow> goerr + bool \<times> int \<times> int"
  gi_GenerateThumbnail :: "bytes \<Rightarrow> string \<Rightarrow> int \<Rightarrow> int \<Rightarrow> string \<Rightarrow> bool \<Rightarrow> goerr + Thumbnail option"

fun find_generator :: "Generator list \<Rightarrow> bytes \<Rightarrow> string \<Rightarrow> bool \<Rightarrow> Generator option" where
  "find_generator [] img contentType needsAnimation = None"
| "find_generator (g # gs) img contentType needsAnimation =
     (if needsAnimation \<and> \<not> gi_supportsAnimation g then find_generator gs img contentType needsAnimation
      else case gi_matches g img contentType of
        (True, _) \<Rightarrow> Some g
      | (False, n) \<Rightarrow> find_generator gs (drop n img) contentType needsAnimation)"

definition GetGenerator :: "Generator list \<Rightarrow> bytes \<Rightarrow> string \<Rightarrow> bool \<Rightarrow> Generator option" where
  "GetGenerator gens img contentType needsAnimation =
     (case find_generator gens img contentType needsAnimation of
        Some g \<Rightarrow> Some g
      | None \<Rightarrow> if needsAnimation then find_generator gens img contentType False else None)"

definition AdjustProperties :: "int \<Rightarrow> int \<Rightarrow> int \<Rightarrow> int \<Rightarrow> bool \<Rightarrow> string \<Rightarrow> bool \<times> int \<times> int \<times> string" where
  "AdjustProperties srcWidth srcHeight desiredWidth desiredHeight wantAnimated mthd =
     (let mthd' = (if f32_eq (f32_ratio srcHeight srcWidth) (f32_ratio desiredHeight desiredWidth) then ''scale'' else mthd) in
      if srcWidth \<le> desiredWidth \<and> srcHeight \<le> desiredHeight then
        (if wantAnimated then (True, srcWidth, srcHeight, mthd') else (False, desiredWidth, desiredHeight, mthd'))
      else (True, desiredWidth, desiredHeight, mthd'))"

definition ErrUnsupported :: goerr where "ErrUnsupported = ErrOther ''unsupported thumbnail type''"

definition GenerateThumbnail ::
  "Generator list \<Rightarrow> RequestContext \<Rightarrow> bytes \<Rightarrow> string \<Rightarrow> int \<Rightarrow> int \<Rightarrow> string \<Rightarrow> bool \<Rightarrow> goerr + Thumbnail option" where
  "GenerateThumbnail gens ctx img contentType width height mthd animated =
     (if \<not> ArrayContains (concat (map gi_supportedContentTypes gens)) contentType then Inl ErrUnsupported
      else if \<not> ArrayContains (th_Types (Thumbnails (ctx_Config ctx))) contentType then Inl ErrUnsupported
      else case GetGenerator gens img contentType animated of
        None \<Rightarrow> Inl ErrUnsupported
      | Some g \<Rightarrow> (case gi_GetOriginDimensions g img contentType of
          Inl err \<Rightarrow> Inl (ErrOther (''error getting dimensions: '' @ err_text err))
        | Inr (dimensional, w, h) \<Rightarrow>
            if dimensional then
              (if int64 (w * h) \<ge> th_MaxPixels (Thumbnails (ctx_Config ctx)) then Inl ErrMediaTooLarge
               else case AdjustProperties w h width height animated mthd of
                 (shouldThumbnail, width', height', mthd') \<Rightarrow>
                   if \<not> shouldThumbnail then Inl ErrMediaDimensionsTooSmall
                   else gi_GenerateThumbnail g img contentType width' height' mthd' animated)
            else gi_GenerateThumbnail g img contentType width height mthd animated))"

section \<open>generate.go\<close>

record thumb_externals = dl_externals +
  xh_generators :: "Generator list"
  xh_DetectMimeType :: "bytes \<Rightarrow> goerr + string"

definition generate_image ::
  "thumb_externals \<Rightarrow> RequestContext \<Rightarrow> DbMedia \<Rightarrow> int \<Rightarrow> int \<Rightarrow> string \<Rightarrow> bool \<Rightarrow> (world, Thumbnail) io" where
  "generate_image xh ctx mediaRecord width height mthd animated =
     thenE (ext (returnE ()))
    (bindE (OpenStream ctx mediaRecord) (\<lambda>mediaStream.
     bindE (lift_result (xh_DetectMimeType xh mediaStream)) (\<lambda>fixedContentType.
     bindE (lift_result (GenerateThumbnail (xh_generators xh) ctx mediaStream fixedContentType width height mthd animated)) (\<lambda>i.
     case i of None \<Rightarrow> throwE ErrMediaNotFound | Some t \<Rightarrow> returnE t))))"

text \<open>
  The thumbnail is uploaded as media of the host that was asked for; the request is
  dereferenced without a check.
\<close>

definition store_thumbnail ::
  "externals \<Rightarrow> RequestContext \<Rightarrow> request_info \<Rightarrow> DbMedia \<Rightarrow> int \<Rightarrow> int \<Rightarrow> string \<Rightarrow> Thumbnail \<Rightarrow> (world, DbThumbnail \<times> bytes) io" where
  "store_thumbnail xt ctx req mediaRecord width height mthd i =
     (case req of
        None \<Rightarrow> throwE (Panic ''nil request'')
      | Some (host, _) \<Rightarrow>
          bindE (PutAndReturnStream xt ctx host '''' (tn_Reader i, None) (tn_ContentType i) '''' ThumbnailsKind) (\<lambda>(m, thumbStream).
          case m of
            None \<Rightarrow> throwE (Panic ''nil record'')
          | Some thumbMediaRecord \<Rightarrow>
              let newRecord = \<lparr>Sha256Hash = Sha256Hash thumbMediaRecord, DatastoreId = DatastoreId thumbMediaRecord,
                    Location = Location thumbMediaRecord, t_Origin = m_Origin mediaRecord, t_MediaId = m_MediaId mediaRecord,
                    t_ContentType = m_ContentType thumbMediaRecord, t_Width = width, t_Height = height, t_Method = mthd,
                    t_Animated = tn_Animated i, t_SizeBytes = m_SizeBytes thumbMediaRecord,
                    t_CreationTs = m_CreationTs thumbMediaRecord\<rparr> in
              thenE (thumbnails_Insert newRecord) (returnE (newRecord, thumbStream))))"

definition thumbnails_Generate ::
  "externals \<Rightarrow> thumb_externals \<Rightarrow> RequestContext \<Rightarrow> request_info \<Rightarrow> DbMedia \<Rightarrow> int \<Rightarrow> int \<Rightarrow> string \<Rightarrow> bool \<Rightarrow>
   (world, DbThumbnail \<times> bytes) io" where
  "thumbnails_Generate xt xh ctx req mediaRecord width height mthd animated =
     bindE (generate_image xh ctx mediaRecord width height mthd animated) (\<lambda>i.
     bindE (if tn_Animated i \<noteq> animated
            then thumbnails_GetByParams (m_Origin mediaRecord) (m_MediaId mediaRecord) width height mthd (tn_Animated i)
            else returnE None) (\<lambda>existing.
     case existing of
       Some existingRecord \<Rightarrow>
         let existingRecord' = (if \<not> tn_Animated i then existingRecord\<lparr>t_Animated := True\<rparr> else existingRecord) in
         thenE (whenE (\<not> tn_Animated i) (bindE (tryE (thumbnails_Insert existingRecord')) (\<lambda>_. returnE ())))
        (bindE (OpenStream ctx existingRecord') (\<lambda>rsc. returnE (existingRecord', rsc)))
     | None \<Rightarrow> store_thumbnail xt ctx req mediaRecord width height mthd i))"

section \<open>pipeline\_thumbnail\<close>

record ThumbnailOpts = DownloadOpts +
  to_Width :: int
  to_Height :: int
  to_Method :: string
  to_Animated :: bool

definition ThumbnailOpts_String :: "ThumbnailOpts \<Rightarrow> string" where
  "ThumbnailOpts_String o' = DownloadOpts_String o' @ '',w='' @ Itoa (to_Width o') @ '',h='' @ Itoa (to_Height o') @
     '',m='' @ to_Method o' @ '',a='' @ FormatBool (to_Animated o')"

definition ImpliedDownloadOpts :: "ThumbnailOpts \<Rightarrow> DownloadOpts" where
  "ImpliedDownloadOpts o' = \<lparr>FetchRemoteIfNeeded = FetchRemoteIfNeeded o', BlockForReadUntil = BlockForReadUntil o',
     RecordOnly = True, CanRedirect = False, AuthProvided = AuthProvided o'\<rparr>"

text \<open>
  What the single-flight function of the pipeline returns: a stream (or none), or the
  stream of the original file together with \<open>ErrMediaDimensionsTooSmall\<close>.  The record is the
  captured variable of the pipeline, which the function may set.
\<close>

datatype thumb_stream = ThumbStream "opened option" | OriginalStream bytes

definition thumb_stream ::
  "externals \<Rightarrow> thumb_externals \<Rightarrow> RequestContext \<Rightarrow> request_info \<Rightarrow> string \<Rightarrow> string \<Rightarrow> ThumbnailOpts \<Rightarrow> string \<Rightarrow>
   DbThumbnail option \<Rightarrow> (world, DbThumbnail option \<times> thumb_stream) io" where
  "thumb_stream xt xh ctx req origin mediaId opts sfKey record0 =
     (let fetch = thumbnails_GetByParams origin mediaId (to_Width opts) (to_Height opts) (to_Method opts) (to_Animated opts);
          xd = dl_externals.truncate xh in
      bindE (tryE (download_Execute xt xd ctx req origin mediaId (ImpliedDownloadOpts opts))) (\<lambda>media.
      case media of
        Inl err \<Rightarrow>
          if err = ErrMediaQuarantined then
            thenE (OverwriteCacheKey thumbCache sfKey None)
           (bindE (quarantined_media xd ctx False (RecordOnly opts) (to_Width opts) (to_Height opts)) (\<lambda>r.
            returnE (record0, ThumbStream r)))
          else throwE err
      | Inr (Redirected _) \<Rightarrow> throwE ErrMediaNotFound
      | Inr (Served mediaRecord _) \<Rightarrow>
          bindE (if record0 = None then SingleflightCache_Do thumbCache sfKey fetch else returnE record0) (\<lambda>record.
          case record of
            Some rec \<Rightarrow>
              if RecordOnly opts then returnE (record, ThumbStream None)
              else bindE (open_media ctx (CanRedirect opts) rec) (\<lambda>r. returnE (record, ThumbStream r))
          | None \<Rightarrow>
              bindE (tryE (thumbnails_Generate xt xh ctx req mediaRecord (to_Width opts) (to_Height opts) (to_Method opts) (to_Animated opts)))
              (\<lambda>gen. case gen of
                 Inl err \<Rightarrow>
                   if \<not> RecordOnly opts \<and> err = ErrMediaDimensionsTooSmall then
                     bindE (open_media ctx (CanRedirect opts) mediaRecord) (\<lambda>d. case d of
                       Some (Contents b) \<Rightarrow> returnE (record, OriginalStream b)
                     | d' \<Rightarrow> returnE (record, ThumbStream d'))
                   else throwE err
               | Inr (newRecord, r) \<Rightarrow>
                   thenE (OverwriteCacheKey thumbCache sfKey (Some newRecord))
                  (returnE (record, ThumbStream (if RecordOnly opts then None else Some (Contents r))))))))"

datatype thumb_served = ThumbServed DbThumbnail "bytes option" | ThumbRedirected string | ThumbTooSmall bytes

text \<open>
  After a quarantine or size error without a stream the pipeline gives back to the bucket
  the size of \<open>record\<close>, which may be nil.
\<close>

definition refund_thumbnail :: "thumb_externals \<Rightarrow> string option \<Rightarrow> DbThumbnail option \<Rightarrow> (world, unit) io" where
  "refund_thumbnail xh limitBucket record =
     (case limitBucket of
        None \<Rightarrow> returnE ()
      | Some subject \<Rightarrow> (case record of
          None \<Rightarrow> throwE (Panic ''nil record'')
        | Some rec \<Rightarrow> bindE (tryE (bucket_call (xd_Drain xh) subject (t_SizeBytes rec))) (\<lambda>_. returnE ())))"

definition thumbnail_run ::
  "externals \<Rightarrow> thumb_externals \<Rightarrow> RequestContext \<Rightarrow> request_info \<Rightarrow> string \<Rightarrow> string \<Rightarrow> ThumbnailOpts \<Rightarrow> string \<Rightarrow>
   DbThumbnail option \<Rightarrow> (world, thumb_served) io" where
  "thumbnail_run xt xh ctx req origin mediaId opts sfKey record0 =
     bindE (request_bucket (dl_externals.truncate xh) req) (\<lambda>limitBucket.
     thenE (case (limitBucket, record0) of
         (Some subject, Some rec) \<Rightarrow> whenE (\<not> RecordOnly opts) (bucket_call (xd_Add xh) subject (t_SizeBytes rec))
       | _ \<Rightarrow> returnE ())
    (bindE (tryE (thumb_stream xt xh ctx req origin mediaId opts sfKey record0)) (\<lambda>res.
     case res of
       Inl err \<Rightarrow>
         if err = ErrMediaQuarantined \<or> err = ErrMediaDimensionsTooSmall
         then thenE (refund_thumbnail xh limitBucket record0) (throwE err)
         else throwE err
     | Inr (_, OriginalStream b) \<Rightarrow> returnE (ThumbTooSmall b)
     | Inr (_, ThumbStream (Some (Redirect url))) \<Rightarrow> returnE (ThumbRedirected url)
     | Inr (record1, ThumbStream r) \<Rightarrow>
         bindE (if record1 = None
                then SingleflightCache_Do thumbCache sfKey
                  (thumbnails_GetByParams origin mediaId (to_Width opts) (to_Height opts) (to_Method opts) (to_Animated opts))
                else returnE record1) (\<lambda>record. case record of
            None \<Rightarrow> throwE (ErrOther ''unexpected error: no viable record and no error condition'')
          | Some rec \<Rightarrow>
              if RecordOnly opts then returnE (ThumbServed rec None)
              else returnE (ThumbServed rec (case r of Some (Contents b) \<Rightarrow> Some b | _ \<Rightarrow> None))))))"

definition thumbnail_Execute ::
  "externals \<Rightarrow> thumb_externals \<Rightarrow> RequestContext \<Rightarrow> request_info \<Rightarrow> string \<Rightarrow> string \<Rightarrow> ThumbnailOpts \<Rightarrow>
   (world, thumb_served) io" where
  "thumbnail_Execute xt xh ctx req origin mediaId opts0 =
     bindE (DoesMediaRequireAuth origin mediaId) (\<lambda>requiresAuth.
     if requiresAuth \<and> \<not> AuthProvided opts0 then throwE ErrRestrictedAuth
     else bindE (lift_result (PickNewDimensions ctx (to_Width opts0) (to_Height opts0) (to_Method opts0))) (\<lambda>(w, h, mthd).
       let opts = opts0\<lparr>to_Width := w, to_Height := h, to_Method := mthd\<rparr>;
           sfKey = origin @ ''/'' @ mediaId @ ''?'' @ ThumbnailOpts_String opts in
       deferred (ForgetCacheKey thumbCache sfKey)
         (bindE (SingleflightCache_Do thumbCache sfKey
            (thumbnails_GetByParams origin mediaId (to_Width opts) (to_Height opts) (to_Method opts) (to_Animated opts)))
           (thumbnail_run xt xh ctx req origin mediaId opts sfKey))))"

end
