(* ===== verification/Api.thy ===== *)
theory Api
  imports ThumbPipeline Auth Respond
begin

text \<open>
  The handlers of the media endpoints: \<^verbatim>\<open>api/r0\<close> (download, thumbnail, the two uploads),
  \<^verbatim>\<open>api/v1\<close> (create, the authenticated and the federation downloads and thumbnails) and
  \<^verbatim>\<open>api/unstable/local_copy.go\<close>.  Each is a computation that returns the response the
  router writes; a panic of the handler is the error of the computation.
\<close>

record api_externals =
  xp_upload :: externals
  xp_thumb :: thumb_externals
  xp_auth :: auth_externals
  xp_reply :: reply_externals
  xp_requestIP :: "http_request \<Rightarrow> string"
  xp_ListMedia :: "string \<Rightarrow> string \<Rightarrow> string \<Rightarrow> string \<Rightarrow> goerr + string list \<times> string list"
  xp_decodePurpose :: "bytesReader \<Rightarrow> goerr + Purpose option"

abbreviation xp_download :: "api_externals \<Rightarrow> dl_externals" where
  "xp_download xp \<equiv> dl_externals.truncate (xp_thumb xp)"

section \<open>Shared pieces\<close>

text \<open>
  \<open>ServerNameRegex\<close> is \<open>[a-zA-Z0-9.:\-_]+\<close> without anchors: it matches when one character of
  the class occurs.
\<close>

definition server_char :: "char \<Rightarrow> bool" where
  "server_char c =
     (let n = (of_char c :: nat) in
      (97 \<le> n \<and> n \<le> 122) \<or> (65 \<le> n \<and> n \<le> 90) \<or> (48 \<le> n \<and> n \<le> 57) \<or> c \<in> set ''.:-_'')"

definition ServerNameRegex :: "string \<Rightarrow> bool" where
  "ServerNameRegex s = list_ex server_char s"

definition optional_bool :: "bool \<Rightarrow> string \<Rightarrow> goerr + bool" where
  "optional_bool d s = (if s \<noteq> [] then ParseBool s else Inr d)"

definition request_of :: "api_externals \<Rightarrow> http_request \<Rightarrow> request_info" where
  "request_of xp r = Some (rq_Host r, xp_requestIP xp r)"

definition ignored_for :: "MainRepoConfig \<Rightarrow> string \<Rightarrow> AuthContext \<Rightarrow> bool" where
  "ignored_for c server auth \<longleftrightarrow>
     IsHostIgnored c server \<and> (u_UserId (ac_User auth) = [] \<or> \<not> IsGlobalAdmin c (u_UserId (ac_User auth)))"

text \<open>
  The parameters that the download and the thumbnail endpoint share:
  \<open>(server, mediaId, downloadRemote, canRedirect, blockFor)\<close>, or the response that refuses them.
\<close>

definition media_params :: "http_request \<Rightarrow> response + string \<times> string \<times> bool \<times> bool \<times> int" where
  "media_params r =
     (let server = GetParam ''server'' r; mediaId = GetParam ''mediaId'' r in
      if \<not> ServerNameRegex server then Inl (BadRequest ''invalid server ID'')
      else case optional_bool True (Query_Get r ''allow_remote'') of
        Inl _ \<Rightarrow> Inl (BadRequest ''allow_remote flag does not appear to be a boolean'')
      | Inr downloadRemote \<Rightarrow> (case optional_bool False (Query_Get r ''allow_redirect'') of
          Inl _ \<Rightarrow> Inl (BadRequest ''allow_redirect flag does not appear to be a boolean'')
        | Inr canRedirect \<Rightarrow> (case CalcBlockForDuration (Query_Get r ''timeout_ms'') of
            Inl _ \<Rightarrow> Inl (BadRequest ''timeout_ms does not appear to be an integer'')
          | Inr blockFor \<Rightarrow> Inr (server, mediaId, downloadRemote, canRedirect, blockFor))))"

text \<open>
  The response to an error of the pipelines.  They return a quarantine error without a
  stream, so the branch that serves the placeholder image is not taken.
\<close>

definition media_error :: "goerr \<Rightarrow> response" where
  "media_error err =
     (if err = ErrMediaNotFound then NotFoundError
      else if err = ErrRestrictedAuth then
        ErrorResponse ErrCodeNotFound ''authentication is required to download this media'' ErrCodeNotFound
      else if err = ErrMediaTooLarge then RequestTooLarge
      else if err = ErrRateLimitExceeded then RateLimitReached
      else if err = ErrMediaQuarantined then NotFoundError
      else if err = ErrMediaNotYetUploaded then NotYetUploaded
      else InternalServerError ''Unexpected Error'')"

section \<open>r0/download.go\<close>

definition DownloadMedia :: "api_externals \<Rightarrow> http_request \<Rightarrow> RequestContext \<Rightarrow> AuthContext \<Rightarrow> (world, response) io" where
  "DownloadMedia xp r ctx auth =
     (case media_params r of
        Inl res \<Rightarrow> returnE res
      | Inr (server, mediaId, downloadRemote, canRedirect, blockFor) \<Rightarrow>
          bindE (getsE (\<lambda>w. ignored_for (cfg w) server auth)) (\<lambda>blocked.
          if blocked then returnE MediaBlocked
          else bindE (tryE (download_Execute (xp_upload xp) (xp_download xp) ctx (request_of xp r) server mediaId
              \<lparr>FetchRemoteIfNeeded = downloadRemote, BlockForReadUntil = blockFor, RecordOnly = (rq_Method r = ''HEAD''),
               CanRedirect = canRedirect, AuthProvided = IsAuthenticated auth\<rparr>)) (\<lambda>res.
            case res of
              Inl err \<Rightarrow> returnE (media_error err)
            | Inr (Redirected url) \<Rightarrow> returnE (RedirectResponse url)
            | Inr (Served media stream) \<Rightarrow>
                let filename = GetParam ''filename'' r in
                returnE (DownloadResponse (m_ContentType media) (if filename = [] then m_UploadName media else filename)
                  (m_SizeBytes media) stream ''infer''))))"

definition user_auth :: "UserInfo \<Rightarrow> AuthContext" where
  "user_auth user = \<lparr>ac_User = user, ac_Server = \<lparr>s_ServerName = ''''\<rparr>\<rparr>"

definition server_auth :: "ServerInfo \<Rightarrow> AuthContext" where
  "server_auth server = \<lparr>ac_User = no_user, ac_Server = server\<rparr>"

definition DownloadMediaUser :: "api_externals \<Rightarrow> user_generator" where
  "DownloadMediaUser xp r ctx user = DownloadMedia xp r ctx (user_auth user)"

section \<open>r0/thumbnail.go\<close>

text \<open>\<open>(width, height, method, animated)\<close> of a thumbnail request.\<close>

definition thumbnail_params :: "RequestContext \<Rightarrow> http_request \<Rightarrow> response + int \<times> int \<times> string \<times> bool" where
  "thumbnail_params ctx r =
     (let widthStr = Query_Get r ''width''; heightStr = Query_Get r ''height''; mthd = Query_Get r ''method'';
          animatedStr = (if Query_Get r ''animated'' = [] then Query_Get r ''org.matrix.msc2705.animated'' else Query_Get r ''animated'');
          conf = Thumbnails (ctx_Config ctx) in
      if widthStr = [] \<or> heightStr = [] then Inl (BadRequest ''Width and height are required'')
      else case Atoi widthStr of
        Inl _ \<Rightarrow> Inl (BadRequest ''Width does not appear to be an integer'')
      | Inr width \<Rightarrow> (case Atoi heightStr of
          Inl _ \<Rightarrow> Inl (BadRequest ''Height does not appear to be an integer'')
        | Inr height \<Rightarrow> (case optional_bool (th_AllowAnimated conf \<and> th_DefaultAnimated conf) animatedStr of
            Inl _ \<Rightarrow> Inl (BadRequest ''Animated flag does not appear to be a boolean'')
          | Inr animated \<Rightarrow>
              if width \<le> 0 \<or> height \<le> 0 then Inl (BadRequest ''Width and height must be greater than zero'')
              else Inr (width, height, if mthd = [] then ''scale'' else mthd, animated))))"

definition original_response :: "string \<Rightarrow> string \<Rightarrow> bytes \<Rightarrow> (world, response) io" where
  "original_response server mediaId stream =
     bindE (tryE (media_GetById server mediaId)) (\<lambda>res.
     case res of
       Inl _ \<Rightarrow> returnE (InternalServerError ''Unexpected Error'')
     | Inr None \<Rightarrow> throwE (Panic ''nil record'')
     | Inr (Some record) \<Rightarrow>
         returnE (DownloadResponse (m_ContentType record) (m_UploadName record) (m_SizeBytes record) (Some stream) ''infer''))"

definition ThumbnailMedia :: "api_externals \<Rightarrow> http_request \<Rightarrow> RequestContext \<Rightarrow> AuthContext \<Rightarrow> (world, response) io" where
  "ThumbnailMedia xp r ctx auth =
     (case media_params r of
        Inl res \<Rightarrow> returnE res
      | Inr (server, mediaId, downloadRemote, canRedirect, blockFor) \<Rightarrow>
          bindE (getsE (\<lambda>w. ignored_for (cfg w) server auth)) (\<lambda>blocked.
          if blocked then returnE MediaBlocked
          else case thumbnail_params ctx r of
            Inl res \<Rightarrow> returnE res
          | Inr (width, height, mthd, animated) \<Rightarrow>
              bindE (tryE (thumbnail_Execute (xp_upload xp) (xp_thumb xp) ctx (request_of xp r) server mediaId
                \<lparr>FetchRemoteIfNeeded = downloadRemote, BlockForReadUntil = blockFor, RecordOnly = False,
                 CanRedirect = canRedirect, AuthProvided = IsAuthenticated auth,
                 to_Width = width, to_Height = height, to_Method = mthd, to_Animated = animated\<rparr>)) (\<lambda>res.
              case res of
                Inl err \<Rightarrow> returnE (if err = ErrMediaDimensionsTooSmall then NotFoundError else media_error err)
              | Inr (ThumbRedirected url) \<Rightarrow> returnE (RedirectResponse url)
              | Inr (ThumbTooSmall stream) \<Rightarrow> original_response server mediaId stream
              | Inr (ThumbServed thumbnail stream) \<Rightarrow>
                  returnE (DownloadResponse (t_ContentType thumbnail)
                    (''thumbnail'' @ ExtensionForContentType (xr_ExtensionsByType (xp_reply xp)) (t_ContentType thumbnail))
                    (t_SizeBytes thumbnail) stream ''infer''))))"

definition ThumbnailMediaUser :: "api_externals \<Rightarrow> user_generator" where
  "ThumbnailMediaUser xp r ctx user = ThumbnailMedia xp r ctx (user_auth user)"


section \<open>r0/upload\_sync.go, r0/upload\_async.go\<close>

text \<open>\<open>filepath.Base\<close> on a system with slashes.\<close>

definition filepath_Base :: "string \<Rightarrow> string" where
  "filepath_Base path =
     (let p = rev (dropWhile (\<lambda>c. c = CHR ''/'') (rev path)) in
      if path = [] then ''.'' else if p = [] then ''/'' else rev (takeWhile (\<lambda>c. c \<noteq> CHR ''/'') (rev p)))"

definition uploadRequestSizeCheck :: "RequestContext \<Rightarrow> http_request \<Rightarrow> response option" where
  "uploadRequestSizeCheck ctx r =
     (let maxSize = up_MaxSizeBytes (Uploads (ctx_Config ctx)); minSize = up_MinSizeBytes (Uploads (ctx_Config ctx));
          check = (\<lambda>n. if maxSize > 0 \<and> maxSize < n then Some RequestTooLarge
                      else if minSize > 0 \<and> minSize > n then Some RequestTooSmall else None);
          header = Header_Get r ''Content-Length''
      in if maxSize > 0 \<or> minSize > 0 then
           (if rq_ContentLength r > 0 then check (rq_ContentLength r)
            else if header \<noteq> [] then check (Atoi_value header) else None)
         else None)"

definition content_type :: "http_request \<Rightarrow> string" where
  "content_type r = (let ct = Header_Get r ''Content-Type'' in if ct = [] then ''application/octet-stream'' else ct)"

text \<open>The field of \<open>MediaUploadedResponse\<close> is left out when it is empty.\<close>

definition MediaUploadedResponse :: "string \<Rightarrow> response" where
  "MediaUploadedResponse uri = JsonResponse (JObj (if uri = [] then [] else [(''content_uri'', JStr uri)]))"

definition uploaded_response :: "goerr + DbMedia option \<Rightarrow> (world, response) io" where
  "uploaded_response res =
     (case res of
        Inl err \<Rightarrow> returnE (if err = ErrQuotaExceeded then QuotaExceeded else InternalServerError ''Unexpected Error'')
      | Inr None \<Rightarrow> throwE (Panic ''nil record'')
      | Inr (Some media) \<Rightarrow> returnE (MediaUploadedResponse (MxcUri (m_Origin media) (m_MediaId media))))"

definition UploadMediaSync :: "api_externals \<Rightarrow> user_generator" where
  "UploadMediaSync xp r ctx user =
     (let filename = filepath_Base (Query_Get r ''filename'') in
      case uploadRequestSizeCheck ctx r of
        Some res \<Rightarrow> returnE res
      | None \<Rightarrow>
          bindE (tryE (upload_Execute (xp_upload xp) ctx (rq_Host r) '''' (rq_Body r) (content_type r) filename
            (u_UserId user) LocalMediaKind)) uploaded_response)"

definition put_error :: "goerr \<Rightarrow> response" where
  "put_error err =
     (if err = ErrQuotaExceeded then QuotaExceeded
      else if err = ErrAlreadyUploaded then
        ErrorResponse ErrCodeCannotOverwrite ''This media has already been uploaded.'' ErrCodeCannotOverwrite
      else if err = ErrWrongUser then
        ErrorResponse ErrCodeForbidden ''You do not have permission to upload this media.'' ErrCodeForbidden
      else if err = ErrExpired then ErrorResponse ErrCodeNotFound ''Media expired or not found.'' ErrCodeNotFound
      else InternalServerError ''Unexpected Error'')"

definition UploadMediaAsync :: "api_externals \<Rightarrow> user_generator" where
  "UploadMediaAsync xp r ctx user =
     (let server = GetParam ''server'' r; mediaId = GetParam ''mediaId'' r;
          filename = filepath_Base (Query_Get r ''filename'') in
      if rq_Host r \<noteq> server then
        returnE (ErrorResponse ErrCodeNotFound ''Upload request is for another domain.'' ErrCodeForbidden)
      else case uploadRequestSizeCheck ctx r of
        Some res \<Rightarrow> returnE res
      | None \<Rightarrow>
          bindE (tryE (upload_ExecutePut (xp_upload xp) ctx server mediaId (rq_Body r) (content_type r) filename (u_UserId user)))
          (\<lambda>res. case res of
             Inl err \<Rightarrow> returnE (put_error err)
           | Inr _ \<Rightarrow> returnE (MediaUploadedResponse '''')))"

section \<open>v1/create.go\<close>

definition CreateMedia :: "api_externals \<Rightarrow> user_generator" where
  "CreateMedia xp r ctx user =
     bindE (tryE (create_Execute (xp_upload xp) ctx (rq_Host r) (u_UserId user) DefaultExpirationTime)) (\<lambda>res.
     case res of
       Inl _ \<Rightarrow> returnE (InternalServerError ''unexpected error'')
     | Inr i \<Rightarrow> returnE (JsonResponse (JObj [(''content_uri'', JStr (MxcUri (e_Origin i) (e_MediaId i))),
                                           (''unused_expires_at'', JInt (e_ExpiresTs i))])))"

section \<open>util/readers/multipart\_reader.go, v1/download.go, v1/thumbnail.go\<close>

record MultipartPart =
  mp_ContentType :: string
  mp_FileName :: string
  mp_Location :: string
  mp_Reader :: bytes

definition crlf :: string where "crlf = [CHR 0x0D, CHR 0x0A]"

text \<open>
  \<open>multipart.Writer\<close>: a part starts with its boundary (after a line break unless it is the
  first) and its headers in alphabetical order.
\<close>

definition part_headers :: "reply_externals \<Rightarrow> MultipartPart \<Rightarrow> (string \<times> string) list" where
  "part_headers xr p =
     (if mp_FileName p \<noteq> [] then [(''Content-Disposition'', Content_Disposition xr ''attachment'' (mp_FileName p))] else []) @
     (if mp_ContentType p \<noteq> [] then [(''Content-Type'', mp_ContentType p)] else []) @
     (if mp_Location p \<noteq> [] then [(''Location'', mp_Location p)] else [])"

definition CreatePart :: "string \<Rightarrow> bool \<Rightarrow> (string \<times> string) list \<Rightarrow> bytes" where
  "CreatePart boundary isFirst hs =
     (if isFirst then [] else crlf) @ ''--'' @ boundary @ crlf @ concat (map (\<lambda>(k, v). k @ '': '' @ v @ crlf) hs) @ crlf"

definition write_part :: "reply_externals \<Rightarrow> string \<Rightarrow> bool \<Rightarrow> MultipartPart \<Rightarrow> bytes" where
  "write_part xr boundary isFirst p =
     CreatePart boundary isFirst (part_headers xr p) @ (if mp_Location p \<noteq> [] then [] else mp_Reader p)"

definition NewMultipartReader :: "reply_externals \<Rightarrow> string \<Rightarrow> MultipartPart list \<Rightarrow> bytes" where
  "NewMultipartReader xr boundary parts =
     (case parts of
        [] \<Rightarrow> []
      | p # ps \<Rightarrow> write_part xr boundary True p @ concat (map (write_part xr boundary False) ps)) @
     crlf @ ''--'' @ boundary @ ''--'' @ crlf"

definition json_part :: MultipartPart where
  "json_part = \<lparr>mp_ContentType = ''application/json'', mp_FileName = '''', mp_Location = '''', mp_Reader = ''{}''\<rparr>"

text \<open>
  The federation endpoints wrap a download or a redirect into two parts.  A download
  without a stream would make the goroutine that writes the parts dereference nil.
\<close>

definition federation_response :: "reply_externals \<Rightarrow> string \<Rightarrow> response \<Rightarrow> (world, response) io" where
  "federation_response xr boundary res =
     (let multi = (\<lambda>p. DownloadResponse (''multipart/mixed; boundary='' @ boundary) '''' 0
                         (Some (NewMultipartReader xr boundary [json_part, p])) ''attachment'') in
      case res of
        DownloadResponse contentType filename _ stream _ \<Rightarrow>
          (case stream of
             None \<Rightarrow> throwE (Panic ''nil reader'')
           | Some b \<Rightarrow> returnE (multi \<lparr>mp_ContentType = contentType, mp_FileName = filename, mp_Location = '''', mp_Reader = b\<rparr>))
      | RedirectResponse url \<Rightarrow>
          returnE (multi \<lparr>mp_ContentType = '''', mp_FileName = '''', mp_Location = url, mp_Reader = []\<rparr>)
      | _ \<Rightarrow> returnE res)"

definition set_query :: "string \<Rightarrow> string \<Rightarrow> http_request \<Rightarrow> http_request" where
  "set_query name val r = r\<lparr>rq_Query := (rq_Query r)(name := [val])\<rparr>"

definition client_query :: "http_request \<Rightarrow> http_request" where
  "client_query r = set_query ''allow_redirect'' ''true'' (set_query ''allow_remote'' ''true'' r)"

definition federation_query :: "http_request \<Rightarrow> http_request" where
  "federation_query r =
     ForceSetParam ''server'' (rq_Host r) (set_query ''allow_redirect'' ''true'' (set_query ''allow_remote'' ''false'' r))"

definition ClientDownloadMedia :: "api_externals \<Rightarrow> user_generator" where
  "ClientDownloadMedia xp r ctx user = DownloadMedia xp (client_query r) ctx (user_auth user)"

definition FederationDownloadMedia ::
  "api_externals \<Rightarrow> http_request \<Rightarrow> RequestContext \<Rightarrow> ServerInfo \<Rightarrow> (world, response) io" where
  "FederationDownloadMedia xp r ctx server =
     bindE (DownloadMedia xp (federation_query r) ctx (server_auth server)) (\<lambda>res.
     bindE (tryE NewUniqueId) (\<lambda>boundary.
     case boundary of
       Inl _ \<Rightarrow> returnE (InternalServerError ''unable to generate boundary'')
     | Inr b \<Rightarrow> federation_response (xp_reply xp) b res))"

definition ClientThumbnailMedia :: "api_externals \<Rightarrow> user_generator" where
  "ClientThumbnailMedia xp r ctx user = ThumbnailMedia xp (client_query r) ctx (user_auth user)"

definition FederationThumbnailMedia ::
  "api_externals \<Rightarrow> http_request \<Rightarrow> RequestContext \<Rightarrow> ServerInfo \<Rightarrow> (world, response) io" where
  "FederationThumbnailMedia xp r ctx server =
     bindE (ThumbnailMedia xp (federation_query r) ctx (server_auth server)) (\<lambda>res.
     bindE (tryE NewUniqueId) (\<lambda>boundary.
     case boundary of
       Inl _ \<Rightarrow> returnE (InternalServerError ''unable to generate boundary'')
     | Inr b \<Rightarrow> federation_response (xp_reply xp) b res))"

section \<open>unstable/local\_copy.go\<close>

text \<open>The copy is uploaded under the identifier it was downloaded from.\<close>

definition LocalCopy :: "api_externals \<Rightarrow> user_generator" where
  "LocalCopy xp r ctx user =
     (let server = GetParam ''server'' r; mediaId = GetParam ''mediaId'' r in
      if \<not> ServerNameRegex server then returnE (BadRequest ''invalid server ID'')
      else case optional_bool True (Query_Get r ''allow_remote'') of
        Inl _ \<Rightarrow> returnE (InternalServerError ''allow_remote flag does not appear to be a boolean'')
      | Inr downloadRemote \<Rightarrow>
          bindE (getsE (\<lambda>w. IsHostIgnored (cfg w) server \<and> \<not> IsGlobalAdmin (cfg w) (u_UserId user))) (\<lambda>blocked.
          if blocked then returnE MediaBlocked
          else if rq_Host r = server then returnE (BadRequest ''Attempted to clone media to the same origin'')
          else bindE (tryE (download_Execute (xp_upload xp) (xp_download xp) ctx (request_of xp r) server mediaId
              \<lparr>FetchRemoteIfNeeded = downloadRemote, BlockForReadUntil = 30 * second, RecordOnly = False,
               CanRedirect = False, AuthProvided = False\<rparr>)) (\<lambda>res.
            case res of
              Inr (Served record (Some b)) \<Rightarrow>
                bindE (tryE (upload_Execute (xp_upload xp) ctx server mediaId
                  \<lparr>br_data = b, br_pieces = [], br_end = ErrEOF, br_eager = True\<rparr> (m_ContentType record) (m_UploadName record)
                  (u_UserId user) LocalMediaKind)) uploaded_response
            | Inr (Served record None) \<Rightarrow> throwE (Panic ''nil reader'')
            | Inr (Redirected _) \<Rightarrow> returnE (InternalServerError ''Unexpected Error'')
            | Inl err \<Rightarrow>
                returnE (if err = ErrMediaNotFound then NotFoundError
                         else if err = ErrMediaTooLarge then RequestTooLarge
                         else if err = ErrMediaQuarantined then NotFoundError
                         else if err = ErrMediaNotYetUploaded then NotYetUploaded
                         else InternalServerError ''Unexpected Error''))))"

end
