(* ===== verification/Archive.thy ===== *)
theory Archive
  imports Download "HOL-Library.AList"
begin

text \<open>
  Exports and imports of media: the archive writer and reader (\<^verbatim>\<open>archival/v2archive\<close>) and the
  export of a user or a server (\<^verbatim>\<open>archival/entity_export.go\<close>).

  A part of an archive is a gzipped tar file; the two formats, the JSON of the manifest, the
  HTML of the index and the detection of MIME types are the parameters \<open>archive_externals\<close>.
  The methods of the writer and of the reader are computations on the pair of the world and
  the object, so that what a failed call leaves behind is part of the model.
\<close>

section \<open>Computations on the world and an object\<close>

definition on_world :: "(world, 'a) io \<Rightarrow> (world \<times> 's, 'a) io" where
  "on_world m = (\<lambda>(w, s). case m w of (r, w') \<Rightarrow> (r, (w', s)))"

definition getsS :: "('s \<Rightarrow> 'a) \<Rightarrow> (world \<times> 's, 'a) io" where
  "getsS f = getsE (\<lambda>(w, s). f s)"

definition modifyS :: "('s \<Rightarrow> 's) \<Rightarrow> (world \<times> 's, unit) io" where
  "modifyS f = modifyE (\<lambda>(w, s). (w, f s))"

text \<open>A deferred call runs after an error and after a panic too; its own error is dropped.\<close>

definition deferE :: "('s, unit) io \<Rightarrow> ('s, 'a) io \<Rightarrow> ('s, 'a) io" where
  "deferE d m = (\<lambda>s. case m s of (r, s') \<Rightarrow>
     (case d s' of (Inl e, s'') \<Rightarrow> (if is_panic e then Inl e else r, s'') | (Inr _, s'') \<Rightarrow> (r, s'')))"

lemma on_world_run [io_simps]: "on_world m (w, s) = (case m w of (r, w') \<Rightarrow> (r, (w', s)))"
  by (simp add: on_world_def)

lemma getsS_run [simp, io_simps]: "getsS f (w, s) = (Inr (f s), (w, s))"
  by (simp add: getsS_def)

lemma modifyS_run [simp, io_simps]: "modifyS f (w, s) = (Inr (), (w, f s))"
  by (simp add: modifyS_def)

section \<open>manifest.go\<close>

definition ManifestVersionV1 :: int where "ManifestVersionV1 = 1"
definition ManifestVersionV2 :: int where "ManifestVersionV2 = 2"
definition ManifestVersion :: int where "ManifestVersion = ManifestVersionV2"

record ManifestRecord =
  mr_FileName :: string
  mr_ArchivedName :: string
  mr_SizeBytes :: int
  mr_ContentType :: string
  mr_S3Url :: string
  mr_Sha256 :: string
  mr_Origin :: string
  mr_MediaId :: string
  mr_CreatedTs :: int
  mr_Uploader :: string

text \<open>\<open>Media\<close> is a Go map: an association list without repeated keys, \<open>None\<close> for nil.\<close>

record Manifest =
  mf_Version :: int
  mf_EntityId :: string
  mf_CreatedTs :: int
  mf_Media :: "(string \<times> ManifestRecord) list option"
  mf_UserId :: string

record MediaInfo =
  mi_Origin :: string
  mi_MediaId :: string
  mi_FileName :: string
  mi_ContentType :: string
  mi_CreationTs :: int
  mi_S3Url :: string
  mi_UserId :: string

record archive_entry =
  ae_Name :: string
  ae_Regular :: bool
  ae_Content :: bytes

text \<open>
  \<open>xv_pack name entries truncated\<close> is the compressed tar file; \<open>xv_unpack\<close> gives the entries
  that can be read and the error that ended the reading.  \<open>xv_decode\<close> of the JSON \<open>null\<close> is
  \<open>None\<close>.
\<close>

record archive_externals =
  xv_pack :: "string \<Rightarrow> archive_entry list \<Rightarrow> bool \<Rightarrow> bytes"
  xv_unpack :: "bytes \<Rightarrow> archive_entry list \<times> goerr option"
  xv_encode :: "Manifest \<Rightarrow> bytes"
  xv_decode :: "bytes \<Rightarrow> goerr + Manifest option"
  xv_index :: "string \<Rightarrow> string \<Rightarrow> (MediaInfo \<times> string \<times> int \<times> string) list \<Rightarrow> stream"
  xv_Detect :: "stream \<Rightarrow> goerr + string"
  xv_sha :: "bytes \<Rightarrow> string"
  xv_urlOf :: "s3 \<Rightarrow> string"
  xv_hostOf :: "s3 \<Rightarrow> string"

section \<open>writer.go\<close>

type_synonym PartPersister = "int \<Rightarrow> string \<Rightarrow> bytes \<Rightarrow> (world, unit) io"

text \<open>
  The temporary tar file of the current part: its complete entries, whether the tar writer
  still accepts entries, whether the last entry was cut off, and whether the file is open.
\<close>

record tarFile =
  tar_Entries :: "archive_entry list"
  tar_Usable :: bool
  tar_Truncated :: bool
  tar_Open :: bool

definition newTar :: tarFile where
  "newTar = \<lparr>tar_Entries = [], tar_Usable = True, tar_Truncated = False, tar_Open = True\<rparr>"

record ArchiveWriter =
  aw_exportId :: string
  aw_entity :: string
  aw_index :: "(MediaInfo \<times> string \<times> int \<times> string) list"
  aw_mediaManifest :: "(string \<times> ManifestRecord) list"
  aw_partSize :: int
  aw_currentPart :: int
  aw_currentTar :: tarFile
  aw_currentSize :: int
  aw_writingManifest :: bool

type_synonym 'a writer_io = "(world \<times> ArchiveWriter, 'a) io"

definition initialWriter :: "string \<Rightarrow> string \<Rightarrow> int \<Rightarrow> ArchiveWriter" where
  "initialWriter exportId entity partSize = \<lparr>aw_exportId = exportId, aw_entity = entity, aw_index = [], aw_mediaManifest = [],
     aw_partSize = partSize, aw_currentPart = 0,
     aw_currentTar = \<lparr>tar_Entries = [], tar_Usable = False, tar_Truncated = False, tar_Open = False\<rparr>,
     aw_currentSize = 0, aw_writingManifest = False\<rparr>"

definition beginTar :: "unit writer_io" where
  "beginTar =
     thenE (modifyS (\<lambda>a. a\<lparr>aw_currentSize := 0, aw_currentPart := aw_currentPart a + 1\<rparr>))
    (thenE (on_world (ext (returnE ())))
    (modifyS (\<lambda>a. a\<lparr>aw_currentTar := newTar\<rparr>)))"

definition part_name :: "ArchiveWriter \<Rightarrow> string" where
  "part_name a = (if aw_writingManifest a then ''export-manifest'' else ''export-part-'' @ Itoa (aw_currentPart a))"

definition set_tar :: "(tarFile \<Rightarrow> tarFile) \<Rightarrow> unit writer_io" where
  "set_tar f = modifyS (\<lambda>a. a\<lparr>aw_currentTar := f (aw_currentTar a)\<rparr>)"

definition writeTar :: "archive_externals \<Rightarrow> PartPersister \<Rightarrow> unit writer_io" where
  "writeTar xv writeFn =
     bindE (getsS (\<lambda>a. tar_Open (aw_currentTar a))) (\<lambda>open'.
     thenE (set_tar (\<lambda>t. t\<lparr>tar_Usable := False, tar_Open := False\<rparr>))
    (if \<not> open' then throwE (ErrOther ''file already closed'')
     else thenE (on_world (ext (returnE ())))
    (thenE (on_world (ext (returnE ())))
    (bindE (getsS id) (\<lambda>a.
     on_world (writeFn (aw_currentPart a) (part_name a @ ''.tgz'')
       (xv_pack xv (part_name a @ ''.tar'') (tar_Entries (aw_currentTar a)) (tar_Truncated (aw_currentTar a)))))))))"

definition rotateTar :: "archive_externals \<Rightarrow> PartPersister \<Rightarrow> unit writer_io" where
  "rotateTar xv writeFn =
     bindE (getsS aw_currentPart) (\<lambda>part.
     thenE (whenE (part > 0) (writeTar xv writeFn)) beginTar)"

text \<open>A failed write to the tar writer makes it refuse everything that follows.\<close>

definition tar_write :: "bool \<Rightarrow> unit writer_io" where
  "tar_write content =
     bindE (tryE (on_world (ext (returnE ())))) (\<lambda>res. case res of
       Inr _ \<Rightarrow> returnE ()
     | Inl e \<Rightarrow> thenE (set_tar (\<lambda>t. t\<lparr>tar_Usable := False, tar_Truncated := tar_Truncated t \<or> content\<rparr>)) (throwE e))"

definition putFile :: "archive_externals \<Rightarrow> stream \<Rightarrow> string \<Rightarrow> (int \<times> string) writer_io" where
  "putFile xv r name =
     thenE (on_world (ext (returnE ())))
    (bindE (on_world (io_copy r)) (\<lambda>b.
     thenE (on_world (ext (returnE ())))
    (bindE (getsS (\<lambda>a. tar_Usable (aw_currentTar a))) (\<lambda>usable.
     if \<not> usable then throwE (ErrOther ''archive/tar: write after close'')
     else thenE (tar_write False)
    (thenE (tar_write True)
    (thenE (set_tar (\<lambda>t. t\<lparr>tar_Entries := tar_Entries t @ [\<lparr>ae_Name = name, ae_Regular = True, ae_Content = b\<rparr>]\<rparr>))
    (thenE (modifyS (\<lambda>a. a\<lparr>aw_currentSize := int64 (aw_currentSize a + int (length b))\<rparr>))
    (returnE (int (length b), xv_sha xv b)))))))))"

definition internalName :: "MediaInfo \<Rightarrow> string \<Rightarrow> string" where
  "internalName info extension = mi_Origin info @ ''__'' @ mi_MediaId info @ extension"

definition manifest_record :: "MediaInfo \<Rightarrow> string \<Rightarrow> int \<Rightarrow> string \<Rightarrow> ManifestRecord" where
  "manifest_record info name size' hash = \<lparr>mr_FileName = mi_FileName info, mr_ArchivedName = name, mr_SizeBytes = size',
     mr_ContentType = mi_ContentType info, mr_S3Url = mi_S3Url info, mr_Sha256 = hash, mr_Origin = mi_Origin info,
     mr_MediaId = mi_MediaId info, mr_CreatedTs = mi_CreationTs info, mr_Uploader = mi_UserId info\<rparr>"

definition AppendMedia :: "archive_externals \<Rightarrow> PartPersister \<Rightarrow> stream \<Rightarrow> MediaInfo \<Rightarrow> string writer_io" where
  "AppendMedia xv writeFn file info =
     (case xv_Detect xv file of
        Inl err \<Rightarrow> throwE err
      | Inr extension \<Rightarrow>
          let name = internalName info extension in
          bindE (putFile xv file name) (\<lambda>(size', hash).
          thenE (modifyS (\<lambda>a. a\<lparr>
             aw_mediaManifest := AList.update (MxcUri (mi_Origin info) (mi_MediaId info)) (manifest_record info name size' hash) (aw_mediaManifest a),
             aw_index := aw_index a @ [(info, name, size', hash)]\<rparr>))
         (bindE (getsS (\<lambda>a. aw_currentSize a \<ge> aw_partSize a)) (\<lambda>full.
          thenE (whenE full (rotateTar xv writeFn)) (returnE hash)))))"

definition manifest_of :: "ArchiveWriter \<Rightarrow> int \<Rightarrow> Manifest" where
  "manifest_of a ts = \<lparr>mf_Version = ManifestVersion, mf_EntityId = aw_entity a, mf_CreatedTs = ts,
     mf_Media = Some (aw_mediaManifest a), mf_UserId = ''''\<rparr>"

definition Finish :: "archive_externals \<Rightarrow> PartPersister \<Rightarrow> unit writer_io" where
  "Finish xv writeFn =
     thenE (rotateTar xv writeFn)
    (thenE (modifyS (\<lambda>a. a\<lparr>aw_writingManifest := True\<rparr>))
    (deferE (modifyS (\<lambda>a. a\<lparr>aw_writingManifest := False\<rparr>))
     (bindE (on_world NowMillis) (\<lambda>ts.
      bindE (getsS (\<lambda>a. xv_encode xv (manifest_of a ts))) (\<lambda>json.
      bindE (putFile xv (json, None) ''manifest.json'') (\<lambda>_.
      thenE (on_world (ext (returnE ())))
     (bindE (getsS (\<lambda>a. xv_index xv (aw_exportId a) (aw_entity a) (aw_index a))) (\<lambda>html.
      bindE (putFile xv html ''index.html'') (\<lambda>_.
      writeTar xv writeFn)))))))))"

section \<open>reader.go\<close>

record ArchiveReader =
  ar_manifest :: "Manifest option"
  ar_uploaded :: "(string \<times> bool) list"
  ar_fileNamesToMxcs :: "(string \<times> string list) list"

definition NewReader :: ArchiveReader where
  "NewReader = \<lparr>ar_manifest = None, ar_uploaded = [], ar_fileNamesToMxcs = []\<rparr>"

type_synonym 'a reader_io = "(world \<times> ArchiveReader, 'a) io"

text \<open>\<open>ProcessFunction\<close> returns what it left unread of the stream.\<close>

record ProcessOpts =
  po_LockedEntityId :: string
  po_CheckUploadedOnly :: bool
  po_ProcessFunction :: "(ManifestRecord \<Rightarrow> bytes \<Rightarrow> (world, bytes) io) option"

definition readArchive :: "archive_externals \<Rightarrow> bytes \<Rightarrow> (archive_entry \<Rightarrow> unit reader_io) \<Rightarrow> unit reader_io" where
  "readArchive xv file workFn =
     (case xv_unpack xv file of (entries, err) \<Rightarrow>
        thenE (foreachE workFn (filter ae_Regular entries))
          (case err of None \<Rightarrow> returnE () | Some e \<Rightarrow> throwE e))"

definition HasManifest :: "ArchiveReader \<Rightarrow> bool" where
  "HasManifest r \<longleftrightarrow> ar_manifest r \<noteq> None"

definition GetEntityId :: "ArchiveReader \<Rightarrow> string" where
  "GetEntityId r = (case ar_manifest r of None \<Rightarrow> '''' | Some m \<Rightarrow> mf_EntityId m)"

definition GetNotUploadedMxcUris :: "ArchiveReader \<Rightarrow> string list" where
  "GetNotUploadedMxcUris r = map fst (filter (\<lambda>(k, v). \<not> v) (ar_uploaded r))"

definition is_uploaded :: "ArchiveReader \<Rightarrow> string \<Rightarrow> bool" where
  "is_uploaded r mxc \<longleftrightarrow> map_of (ar_uploaded r) mxc = Some True"

definition names_of :: "ArchiveReader \<Rightarrow> string \<Rightarrow> string list" where
  "names_of r fileName = (case map_of (ar_fileNamesToMxcs r) fileName of None \<Rightarrow> [] | Some mxcs \<Rightarrow> mxcs)"

definition register :: "string \<times> ManifestRecord \<Rightarrow> ArchiveReader \<Rightarrow> ArchiveReader" where
  "register = (\<lambda>(k, v) r. r\<lparr>ar_uploaded := AList.update k False (ar_uploaded r),
     ar_fileNamesToMxcs := AList.update (mr_ArchivedName v) (names_of r (mr_ArchivedName v) @ [k]) (ar_fileNamesToMxcs r)\<rparr>)"

definition upgraded :: "Manifest \<Rightarrow> Manifest" where
  "upgraded m = (if mf_Version m = ManifestVersionV1 then m\<lparr>mf_EntityId := mf_UserId m, mf_Version := ManifestVersionV2\<rparr> else m)"

definition use_manifest :: "Manifest option \<Rightarrow> unit reader_io" where
  "use_manifest decoded =
     (case decoded of
        None \<Rightarrow> throwE (Panic ''nil manifest'')
      | Some m0 \<Rightarrow>
          let m = upgraded m0 in
          if mf_Version m \<noteq> ManifestVersionV2 then throwE (ErrOther ''unsupported manifest version'')
          else if mf_EntityId m = [] then throwE (ErrOther ''invalid manifest: no entity'')
          else case mf_Media m of
            None \<Rightarrow> throwE (ErrOther ''invalid manifest: no media'')
          | Some media \<Rightarrow> modifyS (\<lambda>r. fold register media (r\<lparr>ar_manifest := Some m\<rparr>)))"

definition TryGetManifestFrom :: "archive_externals \<Rightarrow> bytes \<Rightarrow> bool reader_io" where
  "TryGetManifestFrom xv file =
     bindE (getsS HasManifest) (\<lambda>has.
     if has then throwE (ErrOther ''manifest already discovered'')
     else thenE (readArchive xv file (\<lambda>e.
         if ae_Name e = ''manifest.json'' then
           (case xv_decode xv (ae_Content e) of Inl err \<Rightarrow> throwE err | Inr m \<Rightarrow> use_manifest m)
         else returnE ()))
       (getsS HasManifest))"

definition metadata_of :: "ArchiveReader \<Rightarrow> string \<Rightarrow> ManifestRecord option" where
  "metadata_of r mxc = (case ar_manifest r of None \<Rightarrow> None | Some m \<Rightarrow>
     (case mf_Media m of None \<Rightarrow> None | Some media \<Rightarrow> map_of media mxc))"

definition clear_uploader :: "string \<Rightarrow> ArchiveReader \<Rightarrow> ArchiveReader" where
  "clear_uploader mxc r = r\<lparr>ar_manifest := map_option (\<lambda>m. m\<lparr>mf_Media := map_option
     (map (\<lambda>(k, v). if k = mxc then (k, v\<lparr>mr_Uploader := ''''\<rparr>) else (k, v))) (mf_Media m)\<rparr>) (ar_manifest r)\<rparr>"

definition mark_uploaded :: "string \<Rightarrow> unit reader_io" where
  "mark_uploaded mxc = modifyS (\<lambda>r. r\<lparr>ar_uploaded := AList.update mxc True (ar_uploaded r)\<rparr>)"

text \<open>Whether the media belongs to the entity the import is locked to.\<close>

definition outside_lock :: "string \<Rightarrow> ManifestRecord \<Rightarrow> bool" where
  "outside_lock lock md \<longleftrightarrow> lock \<noteq> [] \<and>
     (HasPrefix lock ''@'' \<and> mr_Uploader md \<noteq> lock \<or> \<not> HasPrefix lock ''@'' \<and> mr_Origin md \<noteq> lock)"

definition import_server :: "string \<Rightarrow> ManifestRecord \<Rightarrow> string" where
  "import_server entity md =
     (let userId = mr_Uploader md in
      if userId = [] \<or> \<not> HasPrefix userId ''@'' then entity
      else case SplitUserId userId of Inl _ \<Rightarrow> '''' | Inr (_, s) \<Rightarrow> s)"

definition plain_reader :: "bytes \<Rightarrow> bytesReader" where
  "plain_reader b = \<lparr>br_data = b, br_pieces = [], br_end = ErrEOF, br_eager = True\<rparr>"

text \<open>The end of the loop body: the record is looked up, and uploaded when it is missing.\<close>

definition import_record ::
  "externals \<Rightarrow> RequestContext \<Rightarrow> ProcessOpts \<Rightarrow> string \<Rightarrow> ManifestRecord \<Rightarrow> bytes \<Rightarrow> bytes reader_io" where
  "import_record xt ctx opts mxc md rest =
     (case po_ProcessFunction opts of
        Some f \<Rightarrow> bindE (on_world (f md rest)) (\<lambda>rest'. thenE (mark_uploaded mxc) (returnE rest'))
      | None \<Rightarrow>
          bindE (on_world (media_GetById (mr_Origin md) (mr_MediaId md))) (\<lambda>record.
          if record \<noteq> None then thenE (mark_uploaded mxc) (returnE rest)
          else if po_CheckUploadedOnly opts then returnE rest
          else bindE (getsS (\<lambda>r. import_server (GetEntityId r) md)) (\<lambda>serverName.
               bindE (on_world (getsE (\<lambda>w. IsServerOurs (doms w) serverName))) (\<lambda>ours.
               thenE (on_world (thenE (upload_Execute xt ctx (mr_Origin md) (mr_MediaId md) (plain_reader rest) (mr_ContentType md)
                   (mr_FileName md) (mr_Uploader md) (if ours then LocalMediaKind else RemoteMediaKind)) (returnE ())))
              (thenE (mark_uploaded mxc) (returnE []))))))"

definition import_one ::
  "externals \<Rightarrow> RequestContext \<Rightarrow> ProcessOpts \<Rightarrow> string \<Rightarrow> bytes \<Rightarrow> bytes reader_io" where
  "import_one xt ctx opts mxc rest =
     bindE (getsS id) (\<lambda>r.
     if is_uploaded r mxc then returnE rest
     else case metadata_of r mxc of
       None \<Rightarrow> throwE (Panic ''nil record'')
     | Some md \<Rightarrow>
         if MxcUri (mr_Origin md) (mr_MediaId md) \<noteq> mxc then returnE rest
         else (case (if mr_Uploader md = [] then Inr None else map_sum id (Some \<circ> snd) (SplitUserId (mr_Uploader md))) of
             Inl _ \<Rightarrow>
               let md' = md\<lparr>mr_Uploader := ''''\<rparr> in
               thenE (modifyS (clear_uploader mxc))
                 (if outside_lock (po_LockedEntityId opts) md' then returnE rest else import_record xt ctx opts mxc md' rest)
           | Inr server \<Rightarrow>
               if (case server of None \<Rightarrow> False | Some s \<Rightarrow> s \<noteq> mr_Origin md) then returnE rest
               else if outside_lock (po_LockedEntityId opts) md then returnE rest
               else import_record xt ctx opts mxc md rest))"

text \<open>The stream is shared by all media that were archived under the file name.\<close>

definition importFileFromStream :: "externals \<Rightarrow> RequestContext \<Rightarrow> ProcessOpts \<Rightarrow> string \<Rightarrow> bytes \<Rightarrow> unit reader_io" where
  "importFileFromStream xt ctx opts fileName f =
     bindE (getsS (\<lambda>r. names_of r fileName)) (\<lambda>mxcs.
     thenE (foldE (import_one xt ctx opts) mxcs f) (returnE ()))"

definition ProcessFile :: "archive_externals \<Rightarrow> externals \<Rightarrow> RequestContext \<Rightarrow> bytes \<Rightarrow> ProcessOpts \<Rightarrow> unit reader_io" where
  "ProcessFile xv xt ctx file opts =
     bindE (getsS HasManifest) (\<lambda>has.
     if \<not> has then throwE (ErrOther ''missing manifest'')
     else readArchive xv file (\<lambda>e. importFileFromStream xt ctx opts (ae_Name e) (ae_Content e)))"

text \<open>The file of an S3 URL is looked up under the name it was uploaded with.\<close>

definition ProcessS3Files :: "archive_externals \<Rightarrow> externals \<Rightarrow> RequestContext \<Rightarrow> ProcessOpts \<Rightarrow> unit reader_io" where
  "ProcessS3Files xv xt ctx opts =
     bindE (getsS id) (\<lambda>r.
     if \<not> HasManifest r then throwE (ErrOther ''missing manifest'')
     else foreachE (\<lambda>mxc.
       bindE (getsS (\<lambda>r. metadata_of r mxc)) (\<lambda>md. case md of
         None \<Rightarrow> throwE (Panic ''nil record'')
       | Some metadata \<Rightarrow>
           if mr_S3Url metadata = [] then returnE ()
           else bindE (tryE (on_world (bindE (ParseS3Url (xv_hostOf xv) (mr_S3Url metadata)) (\<lambda>(dsConf, location).
               datastores_Download dsConf location)))) (\<lambda>f. case f of
                 Inl _ \<Rightarrow> returnE ()
               | Inr b \<Rightarrow> importFileFromStream xt ctx opts (mr_FileName metadata) b)))
       (GetNotUploadedMxcUris r))"

section \<open>entity\_export.go\<close>

definition export_url :: "archive_externals \<Rightarrow> RequestContext \<Rightarrow> DbMedia \<Rightarrow> (world, string) io" where
  "export_url xv ctx media =
     (case datastores_Get ctx (DatastoreId media) of
        None \<Rightarrow> returnE ''''
      | Some dsConf \<Rightarrow>
          bindE (tryE (GetS3Url (xv_urlOf xv) dsConf (Location media))) (\<lambda>url.
          case url of Inl _ \<Rightarrow> returnE '''' | Inr u \<Rightarrow> returnE u))"

definition export_opts :: DownloadOpts where
  "export_opts = \<lparr>FetchRemoteIfNeeded = False, BlockForReadUntil = 10 * 60 * second, RecordOnly = False,
     CanRedirect = False, AuthProvided = True\<rparr>"

definition export_media ::
  "archive_externals \<Rightarrow> externals \<Rightarrow> dl_externals \<Rightarrow> RequestContext \<Rightarrow> bool \<Rightarrow> PartPersister \<Rightarrow> DbMedia \<Rightarrow> unit writer_io" where
  "export_media xv xt xd ctx exportS3Urls writeFn media =
     bindE (tryE (on_world (download_Execute xt xd ctx None (m_Origin media) (m_MediaId media) export_opts))) (\<lambda>res.
     case res of
       Inl err \<Rightarrow> if err = ErrMediaQuarantined \<or> err = ErrMediaNotYetUploaded then returnE () else throwE err
     | Inr (Redirected url) \<Rightarrow> throwE (ErrOther ''redirect'')
     | Inr (Served _ None) \<Rightarrow> throwE (Panic ''nil reader'')
     | Inr (Served _ (Some b)) \<Rightarrow>
         bindE (if exportS3Urls then on_world (export_url xv ctx media) else returnE '''') (\<lambda>s3url.
         bindE (AppendMedia xv writeFn (b, None) \<lparr>mi_Origin = m_Origin media, mi_MediaId = m_MediaId media,
             mi_FileName = m_UploadName media, mi_ContentType = m_ContentType media, mi_CreationTs = m_CreationTs media,
             mi_S3Url = s3url, mi_UserId = m_UserId media\<rparr>) (\<lambda>_. returnE ())))"

definition ExportEntityData ::
  "archive_externals \<Rightarrow> externals \<Rightarrow> dl_externals \<Rightarrow> RequestContext \<Rightarrow> string \<Rightarrow> string \<Rightarrow> bool \<Rightarrow> PartPersister \<Rightarrow> (world, unit) io" where
  "ExportEntityData xv xt xd ctx exportId entityId exportS3Urls writeFn = (\<lambda>w.
     case beginTar (w, initialWriter exportId entityId (arch_TargetBytesPerPart (Archiving (ctx_Config ctx)))) of
       (Inl err, (w', _)) \<Rightarrow> (Inl err, w')
     | (Inr _, s) \<Rightarrow>
         (case deferE (Finish xv writeFn)
            (if entityId = [] then throwE (Panic ''index out of range'')
             else bindE (on_world (if HasPrefix entityId ''@'' then media_GetByUserId entityId else media_GetByOrigin entityId))
               (foreachE (export_media xv xt xd ctx exportS3Urls writeFn))) s of
            (r, (w', _)) \<Rightarrow> (r, w')))"

end
