(* ===== verification/Tasks.thy ===== *)
theory Tasks
  imports Archive Demo
begin

text \<open>
  Background tasks: scheduling and starting them (\<^verbatim>\<open>tasks/schedule.go\<close>, \<^verbatim>\<open>tasks/exec.go\<close>), the
  migration between datastores, the export and the import (\<^verbatim>\<open>tasks/task_runner\<close>).

  The machine's identifier is a parameter of the process.  A task runs in place when the
  queue accepts it; the timers that try again later are a result of the attempt.
\<close>

section \<open>00-internal.go\<close>

definition markDone :: "DbTask \<Rightarrow> (world, unit) io" where
  "markDone task =
     bindE NowMillis (\<lambda>n. bindE (tryE (tasks_SetEndTime (task_TaskId task) n)) (\<lambda>_. returnE ()))"

definition markError :: "DbTask \<Rightarrow> string \<Rightarrow> (world, unit) io" where
  "markError task errVal = bindE (tryE (tasks_SetError (task_TaskId task) errVal)) (\<lambda>_. returnE ())"

text \<open>\<open>errors.Join\<close> puts a line break between the texts.\<close>

definition joined :: "string \<Rightarrow> goerr \<Rightarrow> string" where
  "joined msg err = msg @ [CHR 0x0A] @ err_text err"

definition task_param :: "DbTask \<Rightarrow> string \<Rightarrow> string" where
  "task_param task k = (case map_of (task_Params task) k of None \<Rightarrow> '''' | Some v \<Rightarrow> v)"

text \<open>A missing number is 0, as in every JSON object.\<close>

definition int_param :: "DbTask \<Rightarrow> string \<Rightarrow> goerr + int" where
  "int_param task k = (case map_of (task_Params task) k of None \<Rightarrow> Inr 0 | Some v \<Rightarrow> Atoi v)"

section \<open>datastore\_migrate.go\<close>

definition doneId :: "VirtLastAccess \<Rightarrow> string" where
  "doneId r = DatastoreId r @ ''/'' @ Location r"

text \<open>One record; the result tells whether it was moved.\<close>

definition move_object :: "externals \<Rightarrow> DatastoreConfig \<Rightarrow> DatastoreConfig \<Rightarrow> VirtLastAccess \<Rightarrow> (world, unit) io" where
  "move_object xt sourceDs targetDs record =
     bindE (datastores_Download sourceDs (Location record)) (\<lambda>sourceStream.
     bindE (datastores_Upload (xt_sha xt) (xt_PutObject xt) targetDs sourceStream (v_SizeBytes record) (Sha256Hash record)) (\<lambda>newLocation.
     thenE (media_UpdateLocation (DatastoreId record) (Location record) (ds_Id targetDs) newLocation)
    (thenE (thumbnails_UpdateLocation (DatastoreId record) (Location record) (ds_Id targetDs) newLocation)
    (Remove sourceDs (Location record)))))"

definition move_step ::
  "externals \<Rightarrow> DatastoreConfig \<Rightarrow> DatastoreConfig \<Rightarrow> VirtLastAccess \<Rightarrow> string list \<Rightarrow> (world, string list) io" where
  "move_step xt sourceDs targetDs record done' =
     (if doneId record \<in> set done' then returnE done'
      else bindE (tryE (move_object xt sourceDs targetDs record)) (\<lambda>res.
        case res of Inl _ \<Rightarrow> returnE done' | Inr _ \<Rightarrow> returnE (doneId record # done')))"

definition moveDatastoreObjects ::
  "externals \<Rightarrow> VirtLastAccess list \<Rightarrow> DatastoreConfig \<Rightarrow> DatastoreConfig \<Rightarrow> (world, unit) io" where
  "moveDatastoreObjects xt records sourceDs targetDs =
     thenE (foldE (move_step xt sourceDs targetDs) records []) (returnE ())"

definition migrate_run ::
  "externals \<Rightarrow> DbTask \<Rightarrow> string \<Rightarrow> int \<Rightarrow> DatastoreConfig \<Rightarrow> DatastoreConfig \<Rightarrow> (world, unit) io" where
  "migrate_run xt task source beforeTs sourceDs targetDs =
     bindE (tryE (metadata_GetMediaForDatastoreByLastAccess source beforeTs)) (\<lambda>res.
     case res of
       Inl err \<Rightarrow> markError task (joined ''error in locate'' err)
     | Inr records \<Rightarrow>
         thenE (moveDatastoreObjects xt records sourceDs targetDs)
        (bindE (tryE (metadata_GetThumbnailsForDatastoreByLastAccess source beforeTs)) (\<lambda>res.
         case res of
           Inl err \<Rightarrow> markError task (joined ''error in thumbnails'' err)
         | Inr records \<Rightarrow> moveDatastoreObjects xt records sourceDs targetDs)))"

definition DatastoreMigrate :: "externals \<Rightarrow> RequestContext \<Rightarrow> DbTask \<Rightarrow> (world, unit) io" where
  "DatastoreMigrate xt ctx task =
     deferE (markDone task)
       (case int_param task ''before_ts'' of
          Inl err \<Rightarrow> markError task (joined ''error in decode'' err)
        | Inr beforeTs \<Rightarrow>
            let source = task_param task ''source_datastore_id''; target = task_param task ''target_datastore_id'' in
            if source = target then markError task ''source and target are the same''
            else case datastores_Get ctx source of
              None \<Rightarrow> markError task ''missing source''
            | Some sourceDs \<Rightarrow> (case datastores_Get ctx target of
                None \<Rightarrow> markError task ''missing target''
              | Some targetDs \<Rightarrow> migrate_run xt task source beforeTs sourceDs targetDs))"

section \<open>export\_data.go\<close>

definition persistPart :: "externals \<Rightarrow> RequestContext \<Rightarrow> string \<Rightarrow> PartPersister" where
  "persistPart xt ctx exportId partNum fileName data =
     bindE (Pick ctx ArchivesKind) (\<lambda>dsConf.
     bindE (BufferTemp (xt_sha xt) dsConf (data, None)) (\<lambda>(sha256hash, sizeBytes, reader).
     bindE (datastores_Upload (xt_sha xt) (xt_PutObject xt) dsConf reader sizeBytes sha256hash) (\<lambda>dsLocation.
     exportParts_Insert \<lparr>x_ExportId = exportId, x_PartNum = partNum, x_SizeBytes = sizeBytes, x_FileName = fileName,
       x_DatastoreId = ds_Id dsConf, x_Location = dsLocation\<rparr>)))"

definition export_start ::
  "archive_externals \<Rightarrow> externals \<Rightarrow> dl_externals \<Rightarrow> RequestContext \<Rightarrow> DbTask \<Rightarrow> string \<Rightarrow> string \<Rightarrow> bool \<Rightarrow> (world, unit) io" where
  "export_start xv xt xd ctx task exportId entityId includeS3Urls =
     bindE (tryE (exports_Insert exportId entityId)) (\<lambda>res.
     case res of
       Inl err \<Rightarrow> markError task (joined ''error in persist'' err)
     | Inr _ \<Rightarrow>
         bindE (tryE (ExportEntityData xv xt xd ctx exportId entityId includeS3Urls (persistPart xt ctx exportId))) (\<lambda>res.
         case res of
           Inl err \<Rightarrow> markError task (joined ''error in archival'' err)
         | Inr _ \<Rightarrow> returnE ()))"

definition ExportData :: "archive_externals \<Rightarrow> externals \<Rightarrow> dl_externals \<Rightarrow> RequestContext \<Rightarrow> DbTask \<Rightarrow> (world, unit) io" where
  "ExportData xv xt xd ctx task =
     deferE (markDone task)
       (let exportId = task_param task ''export_id''; userId = task_param task ''user_id'';
            entityId = (if userId \<noteq> [] then userId else task_param task ''server_name'') in
        if exportId = [] then markError task ''missing export id''
        else bindE (tryE (exports_GetEntity exportId)) (\<lambda>res.
          case res of
            Inl err \<Rightarrow> markError task (joined ''error in validate'' err)
          | Inr existingEntity \<Rightarrow>
              if existingEntity \<noteq> [] then markError task ''export id already in use''
              else if userId \<noteq> [] \<and> \<not> HasPrefix userId ''@'' then markError task ''invalid user id''
              else if entityId = [] then markError task ''no entity provided''
              else export_start xv xt xd ctx task exportId entityId (task_param task ''include_s3_urls'' = ''true'')))"

section \<open>import\_data.go\<close>

text \<open>
  An import engine: the files it was given, each with a flag that its handle is closed, and
  the archive reader.  The engine's goroutine takes one file at a time from the channel;
  a file is on the list before it is in the channel.
\<close>

record importEngine =
  ie_files :: "(bytes \<times> bool) list"
  ie_archiver :: ArchiveReader

type_synonym 'a engine_io = "(world \<times> importEngine, 'a) io"

definition new_engine :: importEngine where
  "new_engine = \<lparr>ie_files = [], ie_archiver = NewReader\<rparr>"

definition on_archiver :: "'a reader_io \<Rightarrow> 'a engine_io" where
  "on_archiver m = (\<lambda>(w, e). case m (w, ie_archiver e) of (r, (w', a)) \<Rightarrow> (r, (w', e\<lparr>ie_archiver := a\<rparr>)))"

definition appendFile :: "stream \<Rightarrow> unit engine_io" where
  "appendFile data =
     thenE (on_world (ext (returnE ())))
    (bindE (on_world (io_copy data)) (\<lambda>b.
     thenE (on_world (ext (returnE ())))
    (thenE (on_world (ext (returnE ())))
    (modifyS (\<lambda>e. e\<lparr>ie_files := ie_files e @ [(b, False)]\<rparr>)))))"

definition engine_finish :: "DbTask \<Rightarrow> string option \<Rightarrow> unit engine_io" where
  "engine_finish task err =
     thenE (case err of None \<Rightarrow> returnE () | Some e \<Rightarrow> on_world (markError task e)) (on_world (markDone task))"

definition import_opts :: ProcessOpts where
  "import_opts = \<lparr>po_LockedEntityId = '''', po_CheckUploadedOnly = False, po_ProcessFunction = None\<rparr>"

text \<open>\<open>ProcessFile\<close> closes the file it is given.\<close>

definition process_file :: "archive_externals \<Rightarrow> externals \<Rightarrow> RequestContext \<Rightarrow> nat \<Rightarrow> unit engine_io" where
  "process_file xv xt ctx i =
     bindE (getsS (\<lambda>e. ie_files e ! i)) (\<lambda>(b, closed).
     thenE (modifyS (\<lambda>e. e\<lparr>ie_files := (ie_files e)[i := (b, True)]\<rparr>))
     (if closed then throwE (ErrOther ''file already closed'')
      else on_archiver (ProcessFile xv xt ctx b import_opts)))"

text \<open>The result tells whether the engine has stopped.\<close>

definition engine_receive :: "archive_externals \<Rightarrow> externals \<Rightarrow> RequestContext \<Rightarrow> DbTask \<Rightarrow> nat \<Rightarrow> bool engine_io" where
  "engine_receive xv xt ctx task i =
     (let check = bindE (getsS (\<lambda>e. HasManifest (ie_archiver e) \<and> GetNotUploadedMxcUris (ie_archiver e) = [])) (\<lambda>finished.
            if finished then thenE (engine_finish task None) (returnE True) else returnE False) in
      bindE (getsS (\<lambda>e. HasManifest (ie_archiver e))) (\<lambda>has.
      if \<not> has then
        bindE (getsS (\<lambda>e. fst (ie_files e ! i))) (\<lambda>b.
        bindE (tryE (on_archiver (TryGetManifestFrom xv b))) (\<lambda>res.
        case res of
          Inl err \<Rightarrow> thenE (engine_finish task (Some (joined ''error in search'' err))) (returnE True)
        | Inr False \<Rightarrow> check
        | Inr True \<Rightarrow>
            bindE (getsS (\<lambda>e. length (ie_files e))) (\<lambda>n.
            bindE (tryE (foreachE (process_file xv xt ctx) [0..<n])) (\<lambda>res.
            case res of
              Inl err \<Rightarrow> thenE (engine_finish task (Some (joined ''error in processing'' err))) (returnE True)
            | Inr _ \<Rightarrow> check))))
      else
        bindE (tryE (process_file xv xt ctx i)) (\<lambda>res.
        case res of
          Inl err \<Rightarrow> thenE (engine_finish task (Some (joined ''error in processing2'' err))) (returnE True)
        | Inr _ \<Rightarrow> check)))"

text \<open>
  Creating an engine; \<open>engines\<close> are the identifiers of the imports in progress.  The JSON
  field of the identifier is called \<open>export_id\<close>.
\<close>

definition createEngine :: "string list \<Rightarrow> DbTask \<Rightarrow> goerr + string list" where
  "createEngine engines task =
     (let importId = task_param task ''export_id'' in
      if importId = [] then Inl (ErrOther ''no import ID specified'')
      else if importId \<in> set engines then Inl (ErrOther ''import already in progress'')
      else Inr (importId # engines))"

definition ImportData :: "string list \<Rightarrow> DbTask \<Rightarrow> (world, string list) io" where
  "ImportData engines task =
     (case createEngine engines task of
        Inl _ \<Rightarrow> thenE (markDone task) (returnE engines)
      | Inr engines' \<Rightarrow> returnE engines')"

section \<open>exec.go\<close>

definition TaskDatastoreMigrate :: string where "TaskDatastoreMigrate = ''storage_migration''"
definition TaskExportData :: string where "TaskExportData = ''export_data''"
definition TaskImportData :: string where "TaskImportData = ''import_data''"
definition ExecutingMachineId :: int where "ExecutingMachineId = 0"

text \<open>How an attempt ended: nothing to do, the task ran, or another attempt is due after so many seconds.\<close>

datatype attempt = Skipped | Ran "string list" | Again int

definition run_task ::
  "archive_externals \<Rightarrow> externals \<Rightarrow> dl_externals \<Rightarrow> string list \<Rightarrow> RequestContext \<Rightarrow> DbTask \<Rightarrow> (world, string list) io" where
  "run_task xv xt xd engines ctx task =
     (if task_Name task = TaskDatastoreMigrate then thenE (DatastoreMigrate xt ctx task) (returnE engines)
      else if task_Name task = TaskExportData then thenE (ExportData xv xt xd ctx task) (returnE engines)
      else if task_Name task = TaskImportData then ImportData engines task
      else returnE engines)"

definition beginTask ::
  "archive_externals \<Rightarrow> externals \<Rightarrow> dl_externals \<Rightarrow> string list \<Rightarrow> DbTask \<Rightarrow> (world, attempt) io" where
  "beginTask xv xt xd engines task =
     (if task_EndTs task > 0 then returnE Skipped
      else bindE (getsE (\<lambda>w. rcontext_Initial (cfg w))) (\<lambda>runnerCtx.
        bindE NowMillis (\<lambda>n.
        let oneHourAgo = int64 (n - 60 * 60 * 1000) in
        if task_StartTs task < oneHourAgo then returnE Skipped
        else bindE (tryE (ext (returnE ()))) (\<lambda>scheduled.
          case scheduled of
            Inl _ \<Rightarrow> returnE (Again 15)
          | Inr _ \<Rightarrow> bindE (run_task xv xt xd engines runnerCtx task) (\<lambda>es. returnE (Ran es))))))"

text \<open>A task that was deleted in the meantime is nil, and \<open>beginTask\<close> dereferences it.\<close>

definition tryBeginTask ::
  "archive_externals \<Rightarrow> externals \<Rightarrow> dl_externals \<Rightarrow> string list \<Rightarrow> int \<Rightarrow> bool \<Rightarrow> (world, attempt) io" where
  "tryBeginTask xv xt xd engines i recur =
     bindE (tryE (tasks_Get i)) (\<lambda>res.
     case res of
       Inl _ \<Rightarrow> returnE (if recur then Again 30 else Skipped)
     | Inr None \<Rightarrow> throwE (Panic ''nil task'')
     | Inr (Some t) \<Rightarrow> beginTask xv xt xd engines t)"

section \<open>schedule.go\<close>

definition TaskScheduled :: "DbTask \<Rightarrow> (world, unit) io" where
  "TaskScheduled task =
     bindE (getsE (\<lambda>w. redis_Enabled (Redis (cfg w)))) (\<lambda>enabled. whenE enabled (ext (returnE ())))"

definition scheduleTask ::
  "archive_externals \<Rightarrow> externals \<Rightarrow> dl_externals \<Rightarrow> int \<Rightarrow> string list \<Rightarrow> string \<Rightarrow> AnonymousJson \<Rightarrow> (world, DbTask \<times> attempt) io" where
  "scheduleTask xv xt xd machineId engines name params =
     bindE NowMillis (\<lambda>n.
     bindE (tasks_Insert name params n) (\<lambda>r.
     if machineId = ExecutingMachineId then bindE (beginTask xv xt xd engines r) (\<lambda>a. returnE (r, a))
     else thenE (TaskScheduled r) (returnE (r, Skipped))))"

definition migrate_params :: "string \<Rightarrow> string \<Rightarrow> int \<Rightarrow> AnonymousJson" where
  "migrate_params sourceDsId targetDsId beforeTs =
     [(''source_datastore_id'', sourceDsId), (''target_datastore_id'', targetDsId), (''before_ts'', Itoa beforeTs)]"

definition RunDatastoreMigration ::
  "archive_externals \<Rightarrow> externals \<Rightarrow> dl_externals \<Rightarrow> int \<Rightarrow> string list \<Rightarrow> string \<Rightarrow> string \<Rightarrow> int \<Rightarrow> (world, DbTask \<times> attempt) io" where
  "RunDatastoreMigration xv xt xd machineId engines sourceDsId targetDsId beforeTs =
     scheduleTask xv xt xd machineId engines TaskDatastoreMigrate (migrate_params sourceDsId targetDsId beforeTs)"

text \<open>Fields with \<open>omitempty\<close> are left out when they are empty.\<close>

definition omit_empty :: "string \<Rightarrow> string \<Rightarrow> AnonymousJson" where
  "omit_empty k v = (if v = [] then [] else [(k, v)])"

definition runExport ::
  "archive_externals \<Rightarrow> externals \<Rightarrow> dl_externals \<Rightarrow> int \<Rightarrow> string list \<Rightarrow> string \<Rightarrow> string \<Rightarrow> bool \<Rightarrow>
   (world, (DbTask \<times> attempt) \<times> string) io" where
  "runExport xv xt xd machineId engines userId serverName includeS3Urls =
     bindE NewUniqueId (\<lambda>exportId.
     bindE (scheduleTask xv xt xd machineId engines TaskExportData
       (omit_empty ''user_id'' userId @ omit_empty ''server_name'' serverName @
        [(''export_id'', exportId), (''include_s3_urls'', if includeS3Urls then ''true'' else ''false'')])) (\<lambda>t.
     returnE (t, exportId)))"

definition RunUserExport where
  "RunUserExport xv xt xd machineId engines userId includeS3Urls =
     runExport xv xt xd machineId engines userId '''' includeS3Urls"

definition RunServerExport where
  "RunServerExport xv xt xd machineId engines serverName includeS3Urls =
     runExport xv xt xd machineId engines '''' serverName includeS3Urls"

definition RunImport ::
  "archive_externals \<Rightarrow> externals \<Rightarrow> dl_externals \<Rightarrow> int \<Rightarrow> string list \<Rightarrow> (world, (DbTask \<times> attempt) \<times> string) io" where
  "RunImport xv xt xd machineId engines =
     bindE NewUniqueId (\<lambda>importId.
     bindE (scheduleTask xv xt xd machineId engines TaskImportData [(''export_id'', importId)]) (\<lambda>t.
     returnE (t, importId)))"

text \<open>Starting up: every task without an end is begun again.\<close>

definition scheduleUnfinished ::
  "archive_externals \<Rightarrow> externals \<Rightarrow> dl_externals \<Rightarrow> int \<Rightarrow> string list \<Rightarrow> (world, string list) io" where
  "scheduleUnfinished xv xt xd machineId engines =
     (if machineId \<noteq> ExecutingMachineId then returnE engines
      else bindE (tasks_GetAll False) (\<lambda>tasks.
        foldE (\<lambda>task es. bindE (beginTask xv xt xd es task) (\<lambda>a.
          returnE (case a of Ran es' \<Rightarrow> es' | _ \<Rightarrow> es))) tasks engines))"

end
