(* ===== verification/MigrateProofs.thy ===== *)
theory MigrateProofs
  imports Tasks UploadFrame UploadClaims
begin

text \<open>
  The migration of files between datastores (\<^verbatim>\<open>tasks/task_runner/datastore_migrate.go\<close>) loses
  nothing: whatever call fails, every media and thumbnail row points to a stored file with
  its hash, and no row changes but for its place.
\<close>

section \<open>The invariant\<close>

definition located :: "(bytes \<Rightarrow> string) \<Rightarrow> world \<Rightarrow> 'a Locatable_scheme \<Rightarrow> bool" where
  "located sha w r \<longleftrightarrow> (\<exists>b. objects w (place r) = Some b \<and> sha b = Sha256Hash r)"

definition all_stored :: "(bytes \<Rightarrow> string) \<Rightarrow> world \<Rightarrow> bool" where
  "all_stored sha w \<longleftrightarrow> ids_fresh w \<and> (\<forall>m \<in> set (tbl_media w). located sha w m) \<and>
     (\<forall>t \<in> set (tbl_thumbnails w). located sha w t)"

definition unplaced :: "'a Locatable_scheme \<Rightarrow> 'a Locatable_scheme" where
  "unplaced r = r\<lparr>DatastoreId := '''', Location := ''''\<rparr>"

text \<open>The rows of a world up to their places.\<close>

definition same_rows :: "world \<Rightarrow> world \<Rightarrow> bool" where
  "same_rows w0 w \<longleftrightarrow> map unplaced (tbl_media w) = map unplaced (tbl_media w0) \<and>
     map unplaced (tbl_thumbnails w) = map unplaced (tbl_thumbnails w0)"

text \<open>
  A record that is still to be moved: its file, if there is one, has its hash, and its name
  is not one of the names to come.
\<close>

definition movable :: "(bytes \<Rightarrow> string) \<Rightarrow> world \<Rightarrow> VirtLastAccess \<Rightarrow> bool" where
  "movable sha w r \<longleftrightarrow> (\<forall>b. objects w (place r) = Some b \<longrightarrow> sha b = Sha256Hash r) \<and> \<not> named w (Location r)"

definition mig_inv :: "(bytes \<Rightarrow> string) \<Rightarrow> world \<Rightarrow> VirtLastAccess list \<Rightarrow> world \<Rightarrow> bool" where
  "mig_inv sha w0 records w \<longleftrightarrow> all_stored sha w \<and> same_rows w0 w \<and> (\<forall>r \<in> set records. movable sha w r)"

lemma located_env [simp]:
  "located sha (w\<lparr>faults := fs\<rparr>) r = located sha w r" "located sha (w\<lparr>now := n, ticks := ts\<rparr>) r = located sha w r"
  "located sha (w\<lparr>uniq := us\<rparr>) r = located sha w r" "located sha (w\<lparr>s3clients := cs\<rparr>) r = located sha w r"
  "located sha (w\<lparr>tbl_tasks := tt\<rparr>) r = located sha w r"
  by (simp_all add: located_def)

lemma named_env [simp]:
  "named (w\<lparr>faults := fs\<rparr>) l = named w l" "named (w\<lparr>now := n, ticks := ts\<rparr>) l = named w l"
  "named (w\<lparr>s3clients := cs\<rparr>) l = named w l" "named (w\<lparr>objects := ob\<rparr>) l = named w l"
  by (simp_all add: named_def)

lemma named_mono: "named w l \<Longrightarrow> uniq_left w0 w \<Longrightarrow> named w0 l"
  by (auto simp: named_def uniq_left_def)

lemma named_tl: "named (w\<lparr>uniq := tl (uniq w)\<rparr>) l \<Longrightarrow> named w l"
  by (cases "uniq w") (auto simp: named_def)

lemma mig_inv_stable: "env_stable (mig_inv sha w0 records)"
proof -
  have "mig_inv sha w0 records (w\<lparr>uniq := tl (uniq w)\<rparr>)" if "mig_inv sha w0 records w" for w
    using that ids_fresh_tl named_tl by (auto simp: mig_inv_def all_stored_def movable_def same_rows_def)
  then show ?thesis
    unfolding env_stable_def by (auto simp: mig_inv_def all_stored_def movable_def same_rows_def)
qed

lemma unplaced_relocate [simp]: "unplaced (relocate a b c d r) = unplaced r"
  by (simp add: unplaced_def relocate_def)

lemma unplaced_relocated [simp]: "unplaced \<circ> relocate a b c d = unplaced"
  by (rule ext) simp

lemma located_objects: "objects w' = objects w \<Longrightarrow> located sha w' r = located sha w r"
  by (simp add: located_def)

lemma located_unlink: "place r \<noteq> k \<Longrightarrow> located sha (w\<lparr>objects := (objects w)(k := None)\<rparr>) r = located sha w r"
  by (simp add: located_def)

lemma not_imageD: "x \<notin> f ` A \<Longrightarrow> y \<in> A \<Longrightarrow> f y \<noteq> x"
  by auto

lemma located_movable:
  assumes "all_stored sha w" "located sha w r" "Sha256Hash v = Sha256Hash r" "place v = place r"
  shows "movable sha w v"
proof -
  have "\<not> named w (Location r)"
    using assms(1,2) by (auto simp: named_def located_def all_stored_def ids_fresh_def)
  with assms show ?thesis by (auto simp: movable_def located_def)
qed

section \<open>Moving one object\<close>

lemma mig_inv_grown:
  assumes "mig_inv sha w0 records s" "grown s w"
  shows "mig_inv sha w0 records w"
proof -
  have keep: "objects w k = Some b" if "objects s k = Some b" for k b
    using assms(2) that by (metis domI grown_def map_le_def)
  have new: "named s (snd k)" if "objects s k = None" "objects w k \<noteq> None" for k
    using assms(2) that unfolding grown_def by blast
  have tables: "tbl_media w = tbl_media s" "tbl_thumbnails w = tbl_thumbnails s" "uniq_left s w" "ids_fresh w"
    using assms(2) by (auto simp: grown_def dest: rest_fields)
  have "movable sha w r" if r: "r \<in> set records" for r
  proof -
    have old: "movable sha s r" using assms(1) r by (simp add: mig_inv_def)
    then have "objects w (place r) = Some b \<Longrightarrow> objects s (place r) = Some b" for b
      using keep new [of "place r"] by (cases "objects s (place r)") (auto simp: movable_def)
    with old named_mono [OF _ tables(3)] show ?thesis by (auto simp: movable_def)
  qed
  with assms(1) tables keep show ?thesis
    unfolding mig_inv_def all_stored_def same_rows_def located_def by (auto; metis)
qed

text \<open>After the upload: the copy is stored under a place that no record to be moved has.\<close>

definition copied :: "(bytes \<Rightarrow> string) \<Rightarrow> world \<Rightarrow> VirtLastAccess list \<Rightarrow> VirtLastAccess \<Rightarrow> string \<times> string \<Rightarrow> world \<Rightarrow> bool" where
  "copied sha w0 records r k w \<longleftrightarrow> mig_inv sha w0 records w \<and> k \<noteq> place r \<and>
     (\<exists>b. objects w k = Some b \<and> sha b = Sha256Hash r)"

lemma copied_stable: "env_stable (copied sha w0 records r k)"
  using mig_inv_stable [of sha w0 records] by (auto simp: env_stable_def copied_def)

lemma hoare_copy:
  assumes "r \<in> set records"
  shows "hoare (mig_inv sha w0 records) (datastores_Upload sha PutObject ds data n (Sha256Hash r))
     (\<lambda>name. copied sha w0 records r (ds_Id ds, name)) (\<lambda>_. mig_inv sha w0 records)"
proof (rule hoareI)
  fix s name s' assume s: "mig_inv sha w0 records s" "datastores_Upload sha PutObject ds data n (Sha256Hash r) s = (Inr name, s')"
  then have "same_as s s" by (simp add: same_as_def mig_inv_def all_stored_def uniq_left_def)
  from hoareD_Inr [OF frame_Upload this s(2)] obtain b where b: "added s (ds_Id ds, name) b s'" "sha b = Sha256Hash r" by blast
  then have "named s name" "objects s' (ds_Id ds, name) = Some b" by (auto simp: added_def)
  moreover have "\<not> named s (Location r)" using s(1) assms by (simp add: mig_inv_def movable_def)
  ultimately show "copied sha w0 records r (ds_Id ds, name) s'"
    using mig_inv_grown [OF s(1) grownI(3) [OF b(1)]] b(2) by (auto simp: copied_def)
next
  fix s e s' assume s: "mig_inv sha w0 records s" "datastores_Upload sha PutObject ds data n (Sha256Hash r) s = (Inl e, s')"
  then have "same_as s s" by (simp add: same_as_def mig_inv_def all_stored_def uniq_left_def)
  from mig_inv_grown [OF s(1) hoareD_Inl [OF frame_Upload this s(2)]] show "mig_inv sha w0 records s'" .
qed

lemma located_relocate:
  assumes "located sha w r" "movable sha w v" "objects w (d, l) = Some b" "sha b = Sha256Hash v"
  shows "located sha w (relocate (DatastoreId v) (Location v) d l r)"
  using assms by (auto simp: relocate_def located_def movable_def)

lemma relocate_away:
  "(d, l) \<noteq> place r \<Longrightarrow> place r \<notin> place ` set (map (relocate (DatastoreId r) (Location r) d l) xs)"
  by (auto simp: relocate_def)

lemma hoare_update_media:
  assumes "r \<in> set records"
  shows "hoare (copied sha w0 records r (d, l)) (media_UpdateLocation (DatastoreId r) (Location r) d l)
     (\<lambda>_ w. copied sha w0 records r (d, l) w \<and> place r \<notin> place ` set (tbl_media w)) (\<lambda>_. mig_inv sha w0 records)"
  unfolding media_UpdateLocation_def dbExec_def
proof (rule hoare_ext [OF copied_stable])
  let ?f = "\<lambda>w. let hit = filter (\<lambda>m. DatastoreId m = DatastoreId r \<and> Location m = Location r) (tbl_media w) in
     w\<lparr>tbl_media := map (relocate (DatastoreId r) (Location r) d l) (tbl_media w),
       tbl_user_stats := fold (\<lambda>m. stats_add (m_UserId m) 0) hit (tbl_user_stats w)\<rparr>"
  show "hoare (copied sha w0 records r (d, l)) (modifyE ?f)
     (\<lambda>_ w. copied sha w0 records r (d, l) w \<and> place r \<notin> place ` set (tbl_media w)) (\<lambda>_. mig_inv sha w0 records)"
  proof (rule hoareI)
    fix s x s' assume s: "copied sha w0 records r (d, l) s" "modifyE ?f s = (Inr x, s')"
    let ?g = "relocate (DatastoreId r) (Location r) d l"
    have s': "tbl_media s' = map ?g (tbl_media s)" "objects s' = objects s" "tbl_thumbnails s' = tbl_thumbnails s" "uniq s' = uniq s"
      using s(2) by (auto simp: Let_def)
    obtain b where b: "objects s (d, l) = Some b" "sha b = Sha256Hash r" and inv: "mig_inv sha w0 records s" and ne: "(d, l) \<noteq> place r"
      using s(1) by (auto simp: copied_def)
    have mov: "movable sha s r" using inv assms by (simp add: mig_inv_def)
    have "mig_inv sha w0 records s'"
      using inv by (simp add: mig_inv_def all_stored_def same_rows_def movable_def named_def ids_fresh_def s'
        located_relocate [OF _ mov b] located_objects [OF s'(2)])
    with b ne show "copied sha w0 records r (d, l) s' \<and> place r \<notin> place ` set (tbl_media s')"
      by (simp add: copied_def s' relocate_away del: set_map)
  qed simp
qed (simp add: copied_def)

lemma hoare_update_thumbs:
  assumes "r \<in> set records"
  shows "hoare (\<lambda>w. copied sha w0 records r (d, l) w \<and> place r \<notin> place ` set (tbl_media w))
     (thumbnails_UpdateLocation (DatastoreId r) (Location r) d l)
     (\<lambda>_ w. mig_inv sha w0 records w \<and> place r \<notin> place ` set (tbl_media w) \<union> place ` set (tbl_thumbnails w))
     (\<lambda>_. mig_inv sha w0 records)"
  unfolding thumbnails_UpdateLocation_def dbExec_def
proof (rule hoare_ext)
  let ?P = "\<lambda>w. copied sha w0 records r (d, l) w \<and> place r \<notin> place ` set (tbl_media w)"
  show "env_stable ?P" using copied_stable [of sha w0 records r "(d, l)"] by (simp add: env_stable_def)
  let ?g = "relocate (DatastoreId r) (Location r) d l"
  show "hoare ?P (modifyE (\<lambda>w. w\<lparr>tbl_thumbnails := map ?g (tbl_thumbnails w)\<rparr>))
     (\<lambda>_ w. mig_inv sha w0 records w \<and> place r \<notin> place ` set (tbl_media w) \<union> place ` set (tbl_thumbnails w))
     (\<lambda>_. mig_inv sha w0 records)"
  proof (rule hoareI)
    fix s x s' assume s: "?P s" "modifyE (\<lambda>w. w\<lparr>tbl_thumbnails := map ?g (tbl_thumbnails w)\<rparr>) s = (Inr x, s')"
    have s': "tbl_thumbnails s' = map ?g (tbl_thumbnails s)" "objects s' = objects s" "tbl_media s' = tbl_media s" "uniq s' = uniq s"
      using s(2) by auto
    obtain b where b: "objects s (d, l) = Some b" "sha b = Sha256Hash r" and inv: "mig_inv sha w0 records s" and ne: "(d, l) \<noteq> place r"
      using s(1) by (auto simp: copied_def)
    have mov: "movable sha s r" using inv assms by (simp add: mig_inv_def)
    have "mig_inv sha w0 records s'"
      using inv by (simp add: mig_inv_def all_stored_def same_rows_def movable_def named_def ids_fresh_def s'
        located_relocate [OF _ mov b] located_objects [OF s'(2)])
    with s(1) ne show "mig_inv sha w0 records s' \<and> place r \<notin> place ` set (tbl_media s') \<union> place ` set (tbl_thumbnails s')"
      by (simp add: s' relocate_away del: set_map)
  qed simp
qed (simp add: copied_def)

lemma hoare_move_object:
  assumes "r \<in> set records" and "DatastoreId r = ds_Id sourceDs"
  shows "preserves (mig_inv sha w0 records) (move_object (xt\<lparr>xt_sha := sha\<rparr>) sourceDs targetDs r)"
proof -
  let ?I = "mig_inv sha w0 records"
  let ?J = "\<lambda>w. ?I w \<and> place r \<notin> place ` set (tbl_media w) \<union> place ` set (tbl_thumbnails w)"
  have "preserves ?J (Remove sourceDs (Location r))"
  proof (rule preserves_Remove)
    show "env_stable ?J" using mig_inv_stable [of sha w0 records] by (simp add: env_stable_def)
    fix w assume J: "?J w"
    let ?w' = "w\<lparr>objects := (objects w)((ds_Id sourceDs, Location r) := None)\<rparr>"
    have "place m \<noteq> place r" if "m \<in> set (tbl_media w)" for m using J that not_imageD [of "place r" place "set (tbl_media w)" m] by blast
    moreover have "place t \<noteq> place r" if "t \<in> set (tbl_thumbnails w)" for t using J that not_imageD [of "place r" place "set (tbl_thumbnails w)" t] by blast
    ultimately show "?J ?w'"
      using J by (simp add: mig_inv_def all_stored_def same_rows_def movable_def ids_fresh_remove located_unlink assms(2) [symmetric])
  qed
  then have "hoare ?J (Remove sourceDs (Location r)) (\<lambda>_. ?I) (\<lambda>_. ?I)"
    unfolding preserves_def by (rule hoare_weaken) auto
  moreover have "hoare ?I (datastores_Download sourceDs (Location r)) (\<lambda>_. ?I) (\<lambda>_. ?I)"
    using preserves_Download [OF mig_inv_stable] unfolding preserves_def .
  ultimately show ?thesis
    unfolding move_object_def preserves_def
    by (auto intro!: hoare_bind hoare_then hoare_copy [OF assms(1)] hoare_update_media [OF assms(1)] hoare_update_thumbs [OF assms(1)])
qed

section \<open>The task\<close>

lemma preserves_move_step [hoare_intros]:
  assumes "r \<in> set records" and "DatastoreId r = ds_Id sourceDs" and "xt_sha xt = sha"
  shows "preserves (mig_inv sha w0 records) (move_step xt sourceDs targetDs r done')"
proof -
  have "xt\<lparr>xt_sha := sha\<rparr> = xt" using assms(3) by simp
  with hoare_move_object [OF assms(1,2), of sha w0 xt targetDs]
  have "preserves (mig_inv sha w0 records) (move_object xt sourceDs targetDs r)" by simp
  then show ?thesis unfolding move_step_def by (intro hoare_intros)
qed

lemma preserves_moveDatastoreObjects:
  assumes "\<forall>r \<in> set records. DatastoreId r = ds_Id sourceDs" and "xt_sha xt = sha"
  shows "preserves (mig_inv sha w0 records) (moveDatastoreObjects xt records sourceDs targetDs)"
  unfolding moveDatastoreObjects_def using assms by (intro hoare_intros) auto

lemma preserves_deferE: "preserves I d \<Longrightarrow> preserves I m \<Longrightarrow> preserves I (deferE d m)"
  by (rule preservesI) (auto simp: deferE_def dest: preservesD' split: prod.split sum.split)

text \<open>Between the loops only the rows matter.\<close>

definition mig_rows :: "(bytes \<Rightarrow> string) \<Rightarrow> world \<Rightarrow> world \<Rightarrow> bool" where
  "mig_rows sha w0 w \<longleftrightarrow> all_stored sha w \<and> same_rows w0 w"

lemma mig_rows_inv: "mig_inv sha w0 records w \<Longrightarrow> mig_rows sha w0 w"
  by (simp add: mig_inv_def mig_rows_def)

lemma mig_rows_stable: "env_stable (mig_rows sha w0)"
  using mig_inv_stable [of sha w0 "[]"] unfolding mig_inv_def mig_rows_def by simp

lemma mig_rows_tasks: "mig_rows sha w0 (w\<lparr>tbl_tasks := ts\<rparr>) = mig_rows sha w0 w"
  by (simp add: mig_rows_def all_stored_def same_rows_def ids_fresh_def)

lemma preserves_mark:
  "preserves (mig_rows sha w0) (markDone task)" "preserves (mig_rows sha w0) (markError task e)"
  unfolding markDone_def markError_def tasks_SetEndTime_def tasks_SetError_def
  by (intro hoare_intros mig_rows_stable; simp add: mig_rows_tasks)+

lemma join_movable:
  assumes "all_stored sha w" and "\<forall>r \<in> set rs. located sha w r"
    and "\<And>r. Sha256Hash (mk r) = Sha256Hash r \<and> place (mk r) = place r"
    and "v \<in> set (join_access mk dsId ts rs las)"
  shows "movable sha w v \<and> DatastoreId v = dsId"
proof -
  obtain r and a :: DbLastAccess where r: "r \<in> set rs" "v = (mk r)\<lparr>v_LastAccessTs := la_LastAccessTs a\<rparr>" "DatastoreId r = dsId"
    using assms(4) unfolding join_access_def by auto
  with assms(2,3) located_movable [OF assms(1), of r v] show ?thesis by auto
qed

lemma hoare_moves:
  assumes "xt_sha xt = sha" and "ds_Id sourceDs = dsId"
  shows "hoare (\<lambda>w. mig_inv sha w0 records w \<and> (\<forall>v \<in> set records. DatastoreId v = dsId))
      (moveDatastoreObjects xt records sourceDs targetDs) (\<lambda>_. mig_rows sha w0) (\<lambda>_. mig_rows sha w0)"
proof (rule hoare_pure)
  assume "\<forall>v \<in> set records. DatastoreId v = dsId"
  with preserves_moveDatastoreObjects [OF _ assms(1)] assms(2)
  have "preserves (mig_inv sha w0 records) (moveDatastoreObjects xt records sourceDs targetDs)" by blast
  then show "hoare (mig_inv sha w0 records) (moveDatastoreObjects xt records sourceDs targetDs) (\<lambda>_. mig_rows sha w0) (\<lambda>_. mig_rows sha w0)"
    unfolding preserves_def by (rule hoare_weaken) (auto intro: mig_rows_inv)
qed

lemma preserves_queried:
  assumes "\<And>w. mig_rows sha w0 w \<Longrightarrow> \<forall>v \<in> set (q w). movable sha w v \<and> DatastoreId v = dsId"
    and "\<And>records. hoare (\<lambda>w. mig_inv sha w0 records w \<and> (\<forall>v \<in> set records. DatastoreId v = dsId)) (k records)
           (\<lambda>_. mig_rows sha w0) (\<lambda>_. mig_rows sha w0)"
    and "\<And>err. preserves (mig_rows sha w0) (fail err)"
  shows "preserves (mig_rows sha w0) (bindE (tryE (dbQuery q)) (\<lambda>res. case res of Inl err \<Rightarrow> fail err | Inr records \<Rightarrow> k records))"
proof -
  let ?I = "mig_rows sha w0"
  have "hoare ?I (dbQuery q) (\<lambda>records w. mig_inv sha w0 records w \<and> (\<forall>v \<in> set records. DatastoreId v = dsId)) (\<lambda>_. ?I)"
  proof (rule hoareI)
    fix s records s' assume s: "?I s" "dbQuery q s = (Inr records, s')"
    then have "?I s'" using preservesD' [OF preserves_dbQuery [OF mig_rows_stable]] by blast
    with assms(1) [of s'] dbQuery_Inr [OF s(2)]
    show "mig_inv sha w0 records s' \<and> (\<forall>v \<in> set records. DatastoreId v = dsId)"
      by (auto simp: mig_inv_def mig_rows_def)
  next
    fix s e s' assume "?I s" "dbQuery q s = (Inl e, s')"
    then show "?I s'" using preservesD' [OF preserves_dbQuery [OF mig_rows_stable]] by blast
  qed
  then have "hoare ?I (tryE (dbQuery q)) (\<lambda>res w. case res of Inl _ \<Rightarrow> ?I w
      | Inr records \<Rightarrow> mig_inv sha w0 records w \<and> (\<forall>v \<in> set records. DatastoreId v = dsId)) (\<lambda>_. ?I)"
    by (intro hoare_try) (auto elim!: hoare_weaken)
  then show ?thesis
    unfolding preserves_def
    by (rule hoare_bind) (use assms(2,3) in \<open>auto simp: preserves_def split: sum.split\<close>)
qed

text \<open>
  C26: The migration of a datastore keeps every file: whatever call fails, and whether the
  task ends with an error or not, every media and thumbnail row still points to a stored
  file with its hash, and the rows are those from before except for their places.
\<close>

theorem migrate_keeps_files:
  assumes "all_stored (xt_sha xt) w" and "DatastoreMigrate xt ctx task w = (res, w')"
  shows "all_stored (xt_sha xt) w' \<and> same_rows w w'"
proof -
  let ?I = "mig_rows (xt_sha xt) w"
  have start: "?I w" using assms(1) by (simp add: mig_rows_def same_rows_def)
  have media: "\<forall>v \<in> set (join_access access_of_media dsId ts (tbl_media s) (tbl_last_access s)). movable (xt_sha xt) s v \<and> DatastoreId v = dsId"
    if "?I s" for s dsId ts
    using that join_movable [of _ s "tbl_media s" access_of_media]
    by (auto simp: mig_rows_def all_stored_def access_of_media_def)
  have thumbs: "\<forall>v \<in> set (join_access access_of_thumbnail dsId ts (tbl_thumbnails s) (tbl_last_access s)). movable (xt_sha xt) s v \<and> DatastoreId v = dsId"
    if "?I s" for s dsId ts
    using that join_movable [of _ s "tbl_thumbnails s" access_of_thumbnail]
    by (auto simp: mig_rows_def all_stored_def access_of_thumbnail_def)
  have run: "preserves ?I (migrate_run xt task dsId ts ds targetDs)" if "ds_Id ds = dsId" for ds targetDs ts dsId
    unfolding migrate_run_def metadata_GetMediaForDatastoreByLastAccess_def metadata_GetThumbnailsForDatastoreByLastAccess_def
    by (rule preserves_queried [OF media hoare_then [OF hoare_moves [OF refl that]] preserves_mark(2)], assumption)
       (rule preserves_queried [unfolded preserves_def, OF thumbs hoare_moves [OF refl that] preserves_mark(2) [unfolded preserves_def]], assumption)
  have "preserves ?I (case int_param task ''before_ts'' of
          Inl err \<Rightarrow> markError task (joined ''error in decode'' err)
        | Inr beforeTs \<Rightarrow>
            let source = task_param task ''source_datastore_id''; target = task_param task ''target_datastore_id'' in
            if source = target then markError task ''source and target are the same''
            else case datastores_Get ctx source of
              None \<Rightarrow> markError task ''missing source''
            | Some sourceDs \<Rightarrow> (case datastores_Get ctx target of
                None \<Rightarrow> markError task ''missing target''
              | Some targetDs \<Rightarrow> migrate_run xt task source beforeTs sourceDs targetDs))"
    using run by (auto simp: Let_def preserves_mark dest!: datastores_Get_Some split: sum.split option.split)
  from preservesD' [OF preserves_deferE [OF preserves_mark(1) this] start assms(2) [unfolded DatastoreMigrate_def]]
  show ?thesis by (simp add: mig_rows_def)
qed

text \<open>The demonstration repository with a second datastore, to which the shared file goes.\<close>

definition migrate_ctx :: RequestContext where
  "migrate_ctx = \<lparr>ctx_Config = demo_domain\<lparr>DataStores := [demo_ds, demo_ds\<lparr>ds_Id := ''fs2'', ds_Options := [(''path'', ''/n'')]\<rparr>]\<rparr>\<rparr>"

definition migrate_world :: world where
  "migrate_world = demo_world\<lparr>tbl_thumbnails := [demo_t1\<lparr>Sha256Hash := ''t''\<rparr>],
     tbl_last_access := [\<lparr>la_Sha256Hash = ''h1'', la_LastAccessTs = 10\<rparr>, \<lparr>la_Sha256Hash = ''h3'', la_LastAccessTs = 700\<rparr>]\<rparr>"

definition migrate_task :: DbTask where
  "migrate_task = \<lparr>task_TaskId = 1, task_Name = ''storage_migration'', task_Params =
     [(''source_datastore_id'', ''fs''), (''target_datastore_id'', ''fs2''), (''before_ts'', ''500'')],
     task_StartTs = 0, task_EndTs = 0, task_Error = ''''\<rparr>"

lemma migrate_example:
  "map DatastoreId (tbl_media (snd (DatastoreMigrate demo_xt migrate_ctx migrate_task migrate_world))) = [''fs2'', ''fs2'', ''fs'']"
  by code_simp

theorem migrate_keeps_files_witness:
  "all_stored (xt_sha demo_xt) (snd (DatastoreMigrate demo_xt migrate_ctx migrate_task migrate_world)) \<and>
   same_rows migrate_world (snd (DatastoreMigrate demo_xt migrate_ctx migrate_task migrate_world))"
proof (rule migrate_keeps_files [OF _ prod.collapse [symmetric]])
  show "all_stored (xt_sha demo_xt) migrate_world"
    using demo_stored_inv
    by (simp add: all_stored_def stored_inv_def located_def migrate_world_def ids_fresh_def demo_xt_def demo_simps)
qed

end
