(* ===== verification/Admin.thy ===== *)
theory Admin
  imports Api Tasks Purge
begin

text \<open>
  The administration endpoints: \<^verbatim>\<open>api/custom/*.go\<close>, \<^verbatim>\<open>api/r0/logout.go\<close>,
  \<^verbatim>\<open>api/r0/public_config.go\<close>, \<^verbatim>\<open>api/r0/versions.go\<close>, \<^verbatim>\<open>api/unstable/public_usage.go\<close> and
  \<^verbatim>\<open>api/unstable/info.go\<close>, with the operations of \<^verbatim>\<open>tasks/task_runner/import_data.go\<close> that
  the import endpoints call.

  Go encodes a map with its keys in order, and a struct with its fields as declared.
\<close>

record admin_externals =
  xq_api :: api_externals
  xq_archive :: archive_externals
  xq_machineId :: int
  xq_Error :: "goerr \<Rightarrow> string"
  xq_Path :: "http_request \<Rightarrow> string"
  xq_params :: "AnonymousJson \<Rightarrow> json"
  xq_viewExport :: "string \<Rightarrow> string \<Rightarrow> DbExportPart list \<Rightarrow> goerr + string"
  xq_serverUrl :: "string \<Rightarrow> goerr + string \<times> string"
  xq_federationVersion :: "string \<Rightarrow> string \<Rightarrow> string \<Rightarrow> goerr + json option"
  xq_clientVersions :: "string \<Rightarrow> string \<Rightarrow> string \<Rightarrow> string \<Rightarrow> goerr + string list option \<times> (string \<times> bool) list"
  xq_md5 :: "string \<Rightarrow> bytes"
  xq_identicon :: "int \<Rightarrow> int \<Rightarrow> bytes \<Rightarrow> bytes"
  xq_imageSize :: "bytes \<Rightarrow> (int \<times> int) option"
  xq_audioInfo :: "string \<Rightarrow> bytes \<Rightarrow> (string \<times> json) list"

abbreviation xq_auth :: "admin_externals \<Rightarrow> auth_externals" where
  "xq_auth xq \<equiv> xp_auth (xq_api xq)"

definition json_map :: "('a \<Rightarrow> json) \<Rightarrow> (string \<times> 'a) list \<Rightarrow> json" where
  "json_map f kvs = JObj (map (\<lambda>(k, v). (k, f v)) (sort_key fst kvs))"

definition no_cache :: "json \<Rightarrow> response" where
  "no_cache j = DoNotCacheResponse (JsonResponse j)"

section \<open>Pieces that the handlers share\<close>

text \<open>The parameter \<open>before_ts\<close>; the clock is read before it is parsed.\<close>

definition parse_ts :: "admin_externals \<Rightarrow> string \<Rightarrow> response + int" where
  "parse_ts xq s = (case Atoi s of
      Inl err \<Rightarrow> Inl (BadRequest (''Error parsing before_ts: '' @ xq_Error xq err)) | Inr v \<Rightarrow> Inr v)"

definition with_before_ts ::
  "admin_externals \<Rightarrow> http_request \<Rightarrow> (int \<Rightarrow> (world, response) io) \<Rightarrow> (world, response) io" where
  "with_before_ts xq r k =
     bindE NowMillis (\<lambda>n.
       let s = Query_Get r ''before_ts'' in
       case (if s = [] then Inr n else parse_ts xq s) of Inl res \<Rightarrow> returnE res | Inr ts \<Rightarrow> k ts)"

text \<open>A call of \<open>matrix.IsUserAdmin\<close>.\<close>

definition IsUserAdmin :: "admin_externals \<Rightarrow> string \<Rightarrow> UserInfo \<Rightarrow> http_request \<Rightarrow> (world, bool) io" where
  "IsUserAdmin xq server user r = ext (lift_result (xa_isAdmin (xq_auth xq) server (u_AccessToken user) (rq_RemoteAddr r)))"

text \<open>A call of \<open>matrix.ListMedia\<close>: the local and the remote MXC URIs of a room.\<close>

definition ListMedia :: "admin_externals \<Rightarrow> http_request \<Rightarrow> UserInfo \<Rightarrow> string \<Rightarrow> (world, string list \<times> string list) io" where
  "ListMedia xq r user roomId =
     ext (lift_result (xp_ListMedia (xq_api xq) (rq_Host r) (u_AccessToken user) roomId (rq_RemoteAddr r)))"

text \<open>A database call whose error is answered with a message.\<close>

definition or_fail :: "(world, 'a) io \<Rightarrow> string \<Rightarrow> ('a \<Rightarrow> (world, response) io) \<Rightarrow> (world, response) io" where
  "or_fail m message k = bindE (tryE m) (\<lambda>res. case res of Inl _ \<Rightarrow> returnE (InternalServerError message) | Inr x \<Rightarrow> k x)"

section \<open>custom/purge.go\<close>

definition getPurgeAuthContext ::
  "admin_externals \<Rightarrow> http_request \<Rightarrow> UserInfo \<Rightarrow> (world, PurgeAuthContext \<times> bool \<times> bool) io" where
  "getPurgeAuthContext xq r user =
     bindE (GetRequestUserAdminStatus (xq_auth xq) r user) (\<lambda>(globalAdmin, localAdmin).
     returnE (if globalAdmin then (\<lparr>UploaderUserId = '''', SourceOrigin = ''''\<rparr>, True, localAdmin)
              else if localAdmin then (\<lparr>UploaderUserId = '''', SourceOrigin = rq_Host r\<rparr>, False, True)
              else (\<lparr>UploaderUserId = u_UserId user, SourceOrigin = ''''\<rparr>, False, False)))"

definition purge_error :: "goerr \<Rightarrow> response" where
  "purge_error err = (if err = ErrWrongUser then AuthFailed else InternalServerError ''unexpected error'')"

definition purged_response :: "goerr + string list \<Rightarrow> response" where
  "purged_response res =
     (case res of
        Inl err \<Rightarrow> purge_error err
      | Inr mxcs \<Rightarrow> no_cache (JObj [(''affected'', JArr (map JStr mxcs)), (''purged'', JBool True)]))"

definition purge_these :: "RequestContext \<Rightarrow> PurgeAuthContext \<Rightarrow> QuarantineThis \<Rightarrow> (world, response) io" where
  "purge_these ctx authCtx these = bindE (tryE (PurgeMedia ctx authCtx these)) (\<lambda>res. returnE (purged_response res))"

definition these_records :: "DbMedia list \<Rightarrow> QuarantineThis" where
  "these_records records = \<lparr>qt_MxcUris = [], qt_Single = None, qt_DbMedia = records\<rparr>"

definition these_mxcs :: "string list \<Rightarrow> QuarantineThis" where
  "these_mxcs mxcs = \<lparr>qt_MxcUris = mxcs, qt_Single = None, qt_DbMedia = []\<rparr>"

definition this_record :: "string \<Rightarrow> string \<Rightarrow> QuarantineThis" where
  "this_record server mediaId =
     \<lparr>qt_MxcUris = [], qt_Single = Some \<lparr>qrec_Origin = server, qrec_MediaId = mediaId\<rparr>, qt_DbMedia = []\<rparr>"

definition custom_PurgeRemoteMedia :: "admin_externals \<Rightarrow> user_generator" where
  "custom_PurgeRemoteMedia xq r ctx user =
     (let s = Query_Get r ''before_ts'' in
      if s = [] then returnE (BadRequest ''Missing before_ts argument'')
      else case parse_ts xq s of
        Inl res \<Rightarrow> returnE res
      | Inr beforeTs \<Rightarrow> or_fail (PurgeRemoteMediaBefore ctx beforeTs) ''Error purging remote media''
          (\<lambda>removed. returnE (no_cache (JObj [(''total_removed'', JInt removed)]))))"

definition PurgeIndividualRecord :: "admin_externals \<Rightarrow> user_generator" where
  "PurgeIndividualRecord xq r ctx user =
     bindE (getPurgeAuthContext xq r user) (\<lambda>(authCtx, _, _).
     let server = GetParam ''server'' r; mediaId = GetParam ''mediaId'' r in
     if \<not> ServerNameRegex server then returnE (BadRequest ''invalid server ID'')
     else bindE (tryE (PurgeMedia ctx authCtx (this_record server mediaId))) (\<lambda>res.
       returnE (case res of Inl err \<Rightarrow> purge_error err | Inr _ \<Rightarrow> no_cache (JObj [(''purged'', JBool True)]))))"

definition PurgeQuarantined :: "admin_externals \<Rightarrow> user_generator" where
  "PurgeQuarantined xq r ctx user =
     bindE (getPurgeAuthContext xq r user) (\<lambda>(authCtx, isGlobalAdmin, isLocalAdmin).
     if \<not> isGlobalAdmin \<and> \<not> isLocalAdmin then returnE AuthFailed
     else or_fail (if isGlobalAdmin then media_GetByQuarantine else media_GetByOriginQuarantine (rq_Host r))
       ''error fetching media records'' (\<lambda>affected. purge_these ctx authCtx (these_records affected)))"

definition PurgeOldMedia :: "admin_externals \<Rightarrow> user_generator" where
  "PurgeOldMedia xq r ctx user =
     with_before_ts xq r (\<lambda>beforeTs.
     case optional_bool False (Query_Get r ''include_local'') of
       Inl err \<Rightarrow> returnE (BadRequest (''Error parsing include_local: '' @ xq_Error xq err))
     | Inr includeLocal \<Rightarrow>
         bindE (getsE (\<lambda>w. if \<not> includeLocal then GetOurDomains (doms w) else [])) (\<lambda>excludeDomains.
         or_fail (media_GetOldExcluding excludeDomains beforeTs) ''error fetching media records'' (\<lambda>records.
         purge_these ctx \<lparr>UploaderUserId = '''', SourceOrigin = ''''\<rparr> (these_records records))))"

definition PurgeUserMedia :: "admin_externals \<Rightarrow> user_generator" where
  "PurgeUserMedia xq r ctx user =
     bindE (getPurgeAuthContext xq r user) (\<lambda>(authCtx, isGlobalAdmin, isLocalAdmin).
     if \<not> isGlobalAdmin \<and> \<not> isLocalAdmin then returnE AuthFailed
     else with_before_ts xq r (\<lambda>beforeTs.
       let userId = GetParam ''userId'' r in
       case SplitUserId userId of
         Inl _ \<Rightarrow> returnE (InternalServerError ''error parsing user ID'')
       | Inr (_, userDomain) \<Rightarrow>
           if \<not> isGlobalAdmin \<and> userDomain \<noteq> rq_Host r then returnE AuthFailed
           else or_fail (media_GetOldByUserId userId beforeTs) ''error fetching media records'' (\<lambda>records.
             purge_these ctx authCtx (these_records records))))"

definition on_host :: "string \<Rightarrow> string \<Rightarrow> bool" where
  "on_host host mxc = (case SplitMxc mxc of Inl _ \<Rightarrow> False | Inr (domain, _) \<Rightarrow> domain = host)"

definition PurgeRoomMedia :: "admin_externals \<Rightarrow> user_generator" where
  "PurgeRoomMedia xq r ctx user =
     bindE (getPurgeAuthContext xq r user) (\<lambda>(authCtx, isGlobalAdmin, isLocalAdmin).
     if \<not> isGlobalAdmin \<and> \<not> isLocalAdmin then returnE AuthFailed
     else with_before_ts xq r (\<lambda>beforeTs.
       or_fail (ListMedia xq r user (GetParam ''roomId'' r)) ''error retrieving media in room'' (\<lambda>(localMxcs, remoteMxcs).
       let mxcs = (if isGlobalAdmin then localMxcs @ remoteMxcs else filter (on_host (rq_Host r)) (localMxcs @ remoteMxcs)) in
       purge_these ctx authCtx (these_mxcs mxcs))))"

definition PurgeDomainMedia :: "admin_externals \<Rightarrow> user_generator" where
  "PurgeDomainMedia xq r ctx user =
     bindE (getPurgeAuthContext xq r user) (\<lambda>(authCtx, isGlobalAdmin, isLocalAdmin).
     if \<not> isGlobalAdmin \<and> \<not> isLocalAdmin then returnE AuthFailed
     else with_before_ts xq r (\<lambda>beforeTs.
       let serverName = GetParam ''serverName'' r in
       if \<not> ServerNameRegex serverName then returnE (BadRequest ''invalid server name'')
       else if \<not> isGlobalAdmin \<and> serverName \<noteq> rq_Host r then returnE AuthFailed
       else or_fail (media_GetOldByOrigin serverName beforeTs) ''error fetching media records'' (\<lambda>records.
         purge_these ctx authCtx (these_records records))))"

section \<open>custom/quarantine.go\<close>

definition performQuarantineRequest :: "RequestContext \<Rightarrow> string \<Rightarrow> bool \<Rightarrow> QuarantineThis \<Rightarrow> (world, response) io" where
  "performQuarantineRequest ctx host allowOtherHosts toQuarantine =
     bindE (QuarantineMedia (if allowOtherHosts then '''' else host) toQuarantine) (\<lambda>(total', err).
     returnE (if err \<noteq> None then InternalServerError ''error quarantining media''
              else no_cache (JObj [(''num_quarantined'', JInt total')])))"

text \<open>\<open>(canQuarantine, allowOtherHosts, isLocalAdmin)\<close>.\<close>

definition getQuarantineRequestInfo ::
  "admin_externals \<Rightarrow> http_request \<Rightarrow> RequestContext \<Rightarrow> UserInfo \<Rightarrow> (world, bool \<times> bool \<times> bool) io" where
  "getQuarantineRequestInfo xq r ctx user =
     bindE (getsE (\<lambda>w. IsRepoAdmin (cfg w) user)) (\<lambda>isGlobalAdmin.
     if isGlobalAdmin then returnE (True, True, False)
     else if \<not> qr_AllowLocalAdmins (Quarantine (ctx_Config ctx)) then returnE (False, False, False)
     else bindE (tryE (IsUserAdmin xq (rq_Host r) user r)) (\<lambda>res.
       returnE (case res of Inl _ \<Rightarrow> (False, False, False) | Inr isLocalAdmin \<Rightarrow> (isLocalAdmin, False, isLocalAdmin))))"

definition with_quarantine_info ::
  "admin_externals \<Rightarrow> http_request \<Rightarrow> RequestContext \<Rightarrow> UserInfo \<Rightarrow> (bool \<Rightarrow> (world, response) io) \<Rightarrow> (world, response) io" where
  "with_quarantine_info xq r ctx user k =
     bindE (getQuarantineRequestInfo xq r ctx user) (\<lambda>(canQuarantine, allowOtherHosts, _).
     if \<not> canQuarantine then returnE AuthFailed else k allowOtherHosts)"

definition QuarantineRoomMedia :: "admin_externals \<Rightarrow> user_generator" where
  "QuarantineRoomMedia xq r ctx user =
     with_quarantine_info xq r ctx user (\<lambda>allowOtherHosts.
     or_fail (ListMedia xq r user (GetParam ''roomId'' r)) ''error retrieving media in room'' (\<lambda>(localMxcs, remoteMxcs).
     performQuarantineRequest ctx (rq_Host r) allowOtherHosts
       (these_mxcs (localMxcs @ (if allowOtherHosts then remoteMxcs else [])))))"

definition QuarantineUserMedia :: "admin_externals \<Rightarrow> user_generator" where
  "QuarantineUserMedia xq r ctx user =
     with_quarantine_info xq r ctx user (\<lambda>allowOtherHosts.
     let userId = GetParam ''userId'' r in
     case SplitUserId userId of
       Inl _ \<Rightarrow> returnE (InternalServerError ''error parsing user ID'')
     | Inr (_, userDomain) \<Rightarrow>
         if \<not> allowOtherHosts \<and> userDomain \<noteq> rq_Host r then returnE AuthFailed
         else or_fail (media_GetByUserId userId) ''error retrieving media for user'' (\<lambda>userMedia.
           performQuarantineRequest ctx (rq_Host r) allowOtherHosts (these_records userMedia)))"

definition QuarantineDomainMedia :: "admin_externals \<Rightarrow> user_generator" where
  "QuarantineDomainMedia xq r ctx user =
     with_quarantine_info xq r ctx user (\<lambda>allowOtherHosts.
     let serverName = GetParam ''serverName'' r in
     if \<not> ServerNameRegex serverName then returnE (BadRequest ''invalid server name'')
     else if \<not> allowOtherHosts \<and> serverName \<noteq> rq_Host r then returnE AuthFailed
     else or_fail (media_GetByOrigin serverName) ''error retrieving media for server'' (\<lambda>domainMedia.
       performQuarantineRequest ctx (rq_Host r) allowOtherHosts (these_records domainMedia)))"

definition custom_QuarantineMedia :: "admin_externals \<Rightarrow> user_generator" where
  "custom_QuarantineMedia xq r ctx user =
     with_quarantine_info xq r ctx user (\<lambda>allowOtherHosts.
     let server = GetParam ''server'' r; mediaId = GetParam ''mediaId'' r in
     if \<not> ServerNameRegex server then returnE (BadRequest ''invalid server ID'')
     else if \<not> allowOtherHosts \<and> rq_Host r \<noteq> server
     then returnE (BadRequest ''unable to quarantine media on other homeservers'')
     else performQuarantineRequest ctx (rq_Host r) allowOtherHosts (this_record server mediaId))"

section \<open>custom/media\_attributes.go\<close>

definition canChangeAttributes :: "admin_externals \<Rightarrow> http_request \<Rightarrow> string \<Rightarrow> UserInfo \<Rightarrow> (world, bool) io" where
  "canChangeAttributes xq r origin user =
     bindE (getsE (\<lambda>w. IsRepoAdmin (cfg w) user)) (\<lambda>isGlobalAdmin.
     if isGlobalAdmin then returnE True
     else bindE (tryE (IsUserAdmin xq origin user r)) (\<lambda>res.
       returnE (case res of Inl _ \<Rightarrow> False | Inr isLocalAdmin \<Rightarrow> isLocalAdmin)))"

definition json_purpose :: "Purpose \<Rightarrow> response" where
  "json_purpose p = no_cache (JObj [(''purpose'', JStr p)])"

definition GetAttributes :: "admin_externals \<Rightarrow> user_generator" where
  "GetAttributes xq r ctx user =
     (let origin = GetParam ''server'' r; mediaId = GetParam ''mediaId'' r in
      if \<not> ServerNameRegex origin then returnE (BadRequest ''invalid origin'')
      else bindE (canChangeAttributes xq r origin user) (\<lambda>can.
        if \<not> can then returnE AuthFailed
        else or_fail (media_GetById origin mediaId) ''failed to get media record'' (\<lambda>media.
          if media = None then returnE NotFoundError
          else or_fail (attributes_Get origin mediaId) ''failed to get attributes record'' (\<lambda>attrs.
            returnE (json_purpose (case attrs of None \<Rightarrow> PurposeNone | Some a \<Rightarrow> a_Purpose a))))))"

text \<open>A body that is the JSON \<open>null\<close> leaves a nil pointer, which is dereferenced.\<close>

definition SetAttributes :: "admin_externals \<Rightarrow> user_generator" where
  "SetAttributes xq r ctx user =
     (let origin = GetParam ''server'' r; mediaId = GetParam ''mediaId'' r in
      if \<not> ServerNameRegex origin then returnE (BadRequest ''invalid origin'')
      else bindE (canChangeAttributes xq r origin user) (\<lambda>can.
        if \<not> can then returnE AuthFailed
        else case xp_decodePurpose (xq_api xq) (rq_Body r) of
          Inl _ \<Rightarrow> returnE (InternalServerError ''failed to read attributes'')
        | Inr new \<Rightarrow> or_fail (attributes_Get origin mediaId) ''failed to get attributes'' (\<lambda>attrs.
            case new of
              None \<Rightarrow> throwE (Panic ''nil attributes'')
            | Some p \<Rightarrow>
                if map_option a_Purpose attrs = Some p then returnE (json_purpose p)
                else if \<not> IsPurpose p then returnE (BadRequest ''unknown purpose'')
                else or_fail (attributes_UpsertPurpose origin mediaId p) ''failed to update attributes: purpose''
                  (\<lambda>_. returnE (json_purpose p)))))"

section \<open>custom/tasks.go\<close>

definition task_status :: "admin_externals \<Rightarrow> DbTask \<Rightarrow> json" where
  "task_status xq t = JObj [(''task_id'', JInt (task_TaskId t)), (''task_name'', JStr (task_Name t)),
     (''params'', xq_params xq (task_Params t)), (''start_ts'', JInt (task_StartTs t)), (''end_ts'', JInt (task_EndTs t)),
     (''is_finished'', JBool (task_EndTs t > 0)), (''error_message'', JStr (task_Error t))]"

definition GetTask :: "admin_externals \<Rightarrow> user_generator" where
  "GetTask xq r ctx user =
     (case Atoi (GetParam ''taskId'' r) of
        Inl _ \<Rightarrow> returnE (BadRequest ''invalid task ID'')
      | Inr taskId \<Rightarrow> or_fail (tasks_Get taskId) ''failed to get task information'' (\<lambda>task.
          returnE (case task of None \<Rightarrow> NotFoundError | Some t \<Rightarrow> no_cache (task_status xq t))))"

definition list_tasks :: "admin_externals \<Rightarrow> bool \<Rightarrow> (world, response) io" where
  "list_tasks xq includingFinished =
     or_fail (tasks_GetAll includingFinished) ''Failed to get background tasks''
       (\<lambda>tasks. returnE (no_cache (JArr (map (task_status xq) tasks))))"

definition ListAllTasks :: "admin_externals \<Rightarrow> user_generator" where
  "ListAllTasks xq r ctx user = list_tasks xq True"

definition ListUnfinishedTasks :: "admin_externals \<Rightarrow> user_generator" where
  "ListUnfinishedTasks xq r ctx user = list_tasks xq False"

section \<open>r0/logout.go\<close>

definition logged_out :: "(world, unit) io \<Rightarrow> (world, response) io" where
  "logged_out m = or_fail m ''unable to logout'' (\<lambda>_. returnE EmptyResponse)"

definition Logout :: "admin_externals \<Rightarrow> user_generator" where
  "Logout xq r ctx user = logged_out (InvalidateToken (xq_auth xq) (Some r) (u_AccessToken user) (u_UserId user))"

definition LogoutAll :: "admin_externals \<Rightarrow> user_generator" where
  "LogoutAll xq r ctx user = logged_out (InvalidateAllTokens (xq_auth xq) (Some r) (u_AccessToken user) (u_UserId user))"

section \<open>custom/usage.go\<close>

definition usage_json :: "int \<Rightarrow> int \<Rightarrow> json" where
  "usage_json media thumbs =
     JObj [(''total'', JInt (int64 (media + thumbs))), (''media'', JInt media), (''thumbnails'', JInt thumbs)]"

definition with_server_name :: "http_request \<Rightarrow> (string \<Rightarrow> (world, response) io) \<Rightarrow> (world, response) io" where
  "with_server_name r k =
     (let serverName = GetParam ''serverName'' r in
      if \<not> ServerNameRegex serverName then returnE (BadRequest ''invalid server name'') else k serverName)"

definition GetDomainUsage :: "admin_externals \<Rightarrow> user_generator" where
  "GetDomainUsage xq r ctx user =
     with_server_name r (\<lambda>serverName.
     or_fail (metadata_ByteUsageForServer serverName) ''Failed to get byte usage for server'' (\<lambda>(mediaBytes, thumbBytes).
     or_fail (metadata_CountUsageForServer serverName) ''Failed to get count usage for server'' (\<lambda>(mediaCount, thumbCount).
     returnE (no_cache (JObj [(''raw_bytes'', usage_json mediaBytes thumbBytes), (''raw_counts'', usage_json mediaCount thumbCount)])))))"

record UserUsageEntry =
  ue_Bytes :: int
  ue_Count :: int
  ue_UploadedMxcs :: "string list"

definition count_usage :: "DbMedia \<Rightarrow> (string \<times> UserUsageEntry) list \<Rightarrow> (string \<times> UserUsageEntry) list" where
  "count_usage media parsed =
     (let entry = (case map_of parsed (m_UserId media) of
          None \<Rightarrow> \<lparr>ue_Bytes = 0, ue_Count = 0, ue_UploadedMxcs = []\<rparr> | Some e \<Rightarrow> e) in
      AList.update (m_UserId media)
        \<lparr>ue_Bytes = int64 (ue_Bytes entry + m_SizeBytes media), ue_Count = int64 (ue_Count entry + 1),
         ue_UploadedMxcs = ue_UploadedMxcs entry @ [media_mxc media]\<rparr> parsed)"

definition user_usage_json :: "UserUsageEntry \<Rightarrow> json" where
  "user_usage_json e =
     (let minimal = (\<lambda>n. JObj [(''total'', JInt n), (''media'', JInt n)]) in
      JObj [(''raw_bytes'', minimal (ue_Bytes e)), (''raw_counts'', minimal (ue_Count e)),
            (''uploaded'', JArr (map JStr (ue_UploadedMxcs e)))])"

definition GetUserUsage :: "admin_externals \<Rightarrow> user_generator" where
  "GetUserUsage xq r ctx user =
     (let userIds = rq_Query r ''user_id'' in
      with_server_name r (\<lambda>serverName.
      or_fail (if userIds = [] then media_GetByOrigin serverName else media_GetByOriginUsers serverName userIds)
        ''Failed to get media records for users'' (\<lambda>records.
      returnE (no_cache (json_map user_usage_json (fold count_usage records []))))))"

text \<open>The media identifiers of the MXC URIs of a query, which must be of one server.\<close>

fun split_mxcs :: "string \<Rightarrow> string list \<Rightarrow> response + string list" where
  "split_mxcs serverName [] = Inr []"
| "split_mxcs serverName (mxc # mxcs) =
     (case SplitMxc mxc of
        Inl _ \<Rightarrow> Inl (InternalServerError (''Error parsing MXC '' @ mxc))
      | Inr (o', i) \<Rightarrow>
          if o' \<noteq> serverName then Inl (BadRequest ''MXC URIs must match the requested server'')
          else map_sum id ((#) i) (split_mxcs serverName mxcs))"

definition media_usage_json :: "DbMedia \<Rightarrow> json" where
  "media_usage_json m = JObj [(''size_bytes'', JInt (m_SizeBytes m)), (''uploaded_by'', JStr (m_UserId m)),
     (''datastore_id'', JStr (DatastoreId m)), (''datastore_location'', JStr (Location m)), (''sha256_hash'', JStr (Sha256Hash m)),
     (''quarantined'', JBool (m_Quarantined m)), (''upload_name'', JStr (m_UploadName m)),
     (''content_type'', JStr (m_ContentType m)), (''created_ts'', JInt (m_CreationTs m))]"

definition GetUploadsUsage :: "admin_externals \<Rightarrow> user_generator" where
  "GetUploadsUsage xq r ctx user =
     (let mxcs = rq_Query r ''mxc'' in
      with_server_name r (\<lambda>serverName.
      case split_mxcs serverName mxcs of
        Inl res \<Rightarrow> returnE res
      | Inr split \<Rightarrow>
          or_fail (if mxcs = [] then media_GetByOrigin serverName else media_GetByIds serverName split)
            ''Failed to get media records for users'' (\<lambda>records.
          returnE (no_cache (json_map media_usage_json (fold (\<lambda>m. AList.update (media_mxc m) m) records []))))))"

subsection \<open>Synapse's statistics of users\<close>

definition PrefixAdminApi :: string where "PrefixAdminApi = ''/_synapse/admin''"

definition quoted :: "string \<Rightarrow> string" where
  "quoted s = CHR 0x27 # s @ [CHR 0x27]"

definition query_error :: "string \<Rightarrow> string \<Rightarrow> response" where
  "query_error name rest = BadRequest (''Query parameter '' @ quoted name @ rest)"

definition nonneg_param :: "http_request \<Rightarrow> string \<Rightarrow> int \<Rightarrow> response + int" where
  "nonneg_param r name d =
     (if rq_Query r name = [] then Inr d
      else case Atoi (Query_Get r name) of
        Inl _ \<Rightarrow> Inl (query_error name '' must be a non-negative integer'')
      | Inr v \<Rightarrow> if v < 0 then Inl (query_error name '' must be a non-negative integer'') else Inr v)"

text \<open>
  \<open>(start, limit, fromTS, untilTS)\<close>.  An \<open>until_ts\<close> is compared with \<open>from_ts\<close> only when it
  is given.
\<close>

definition page_params :: "http_request \<Rightarrow> response + int \<times> int \<times> int \<times> int" where
  "page_params r =
     (case nonneg_param r ''from'' 0 of Inl res \<Rightarrow> Inl res
      | Inr start \<Rightarrow> (case nonneg_param r ''limit'' 100 of Inl res \<Rightarrow> Inl res
      | Inr limit \<Rightarrow> (case nonneg_param r ''from_ts'' (- 1) of Inl res \<Rightarrow> Inl res
      | Inr fromTS \<Rightarrow> (case nonneg_param r ''until_ts'' (- 1) of Inl res \<Rightarrow> Inl res
      | Inr untilTS \<Rightarrow>
          if rq_Query r ''until_ts'' \<noteq> [] \<and> untilTS \<le> fromTS
          then Inl (query_error ''until_ts'' ('' must be greater than '' @ quoted ''from_ts''))
          else Inr (start, if limit > 50 then 50 else limit, fromTS, untilTS)))))"

definition syn_record_json :: "DbSynUserStat \<Rightarrow> json" where
  "syn_record_json s = JObj [(''displayname'', JStr (syn_UserId s)), (''user_id'', JStr (syn_UserId s)),
     (''media_count'', JInt (syn_MediaCount s)), (''media_length'', JInt (syn_MediaLength s))]"

definition syn_response :: "int \<Rightarrow> int \<Rightarrow> DbSynUserStat list \<Rightarrow> int \<Rightarrow> response" where
  "syn_response start limit stats totalCount =
     (let nextToken = (if int64 (start + limit) < totalCount then int64 (start + int (length stats)) else 0) in
      no_cache (JObj ([(''users'', JArr (map syn_record_json stats))] @
        (if nextToken = 0 then [] else [(''next_token'', JInt nextToken)]) @ [(''total'', JInt totalCount)])))"

definition SynGetUsersMediaStats :: "admin_externals \<Rightarrow> user_generator" where
  "SynGetUsersMediaStats xq r ctx user =
     (let name = GetParam ''serverName'' r;
          serverName = (if name = [] \<and> HasPrefix (xq_Path xq r) PrefixAdminApi then rq_Host r else name) in
      if \<not> ServerNameRegex serverName then returnE (BadRequest ''invalid server name'')
      else bindE (GetRequestUserAdminStatus (xq_auth xq) r user) (\<lambda>(isGlobalAdmin, isLocalAdmin).
        let orderBy = (if rq_Query r ''order_by'' = [] then ''user_id'' else Query_Get r ''order_by'');
            searchTerm = Query_Get r ''search_term'' in
        if \<not> isGlobalAdmin \<and> (serverName \<noteq> rq_Host r \<or> \<not> isLocalAdmin) then returnE AuthFailed
        else if \<not> IsSynStatUserOrderBy orderBy
        then returnE (query_error ''order_by'' '' must be one of the accepted values'')
        else case page_params r of
          Inl res \<Rightarrow> returnE res
        | Inr (start, limit, fromTS, untilTS) \<Rightarrow>
            if searchTerm = [] \<and> rq_Query r ''search_term'' \<noteq> []
            then returnE (query_error ''search_term'' '' cannot be an empty string'')
            else if \<not> (Query_Get r ''dir'' = ''b'' \<and> rq_Query r ''dir'' \<noteq> [])
            then returnE (query_error ''dir'' ('' must be one of ['' @ quoted ''f'' @ '', '' @ quoted ''b'' @ '']''))
            else or_fail (metadata_UnoptimizedSynapseUserStatsPage serverName orderBy start limit fromTS untilTS searchTerm False)
              (''Failed to get users'' @ CHR 0x27 # '' usage stats on specified server'')
              (\<lambda>(stats, totalCount). returnE (syn_response start limit stats totalCount))))"

section \<open>custom/datastores.go\<close>

definition GetDatastores :: "admin_externals \<Rightarrow> user_generator" where
  "GetDatastores xq r ctx user =
     bindE (getsE (\<lambda>w. UniqueDatastores (cfg w) (doms w))) (\<lambda>dss.
     or_fail (foldE (\<lambda>ds response. bindE (GetUri (xv_hostOf (xq_archive xq)) ds) (\<lambda>uri.
         returnE (AList.update (ds_Id ds) (ds_Type ds, uri) response))) dss [])
       ''unexpected error getting datastore information'' (\<lambda>response.
     returnE (no_cache (json_map (\<lambda>(t, uri). JObj [(''type'', JStr t), (''uri'', JStr uri)]) response))))"

definition estimate_json :: "SizeEstimate \<Rightarrow> (string \<times> json) list" where
  "estimate_json e =
     [(''thumbnails_affected'', JInt (ThumbnailsAffected e)), (''thumbnail_hashes_affected'', JInt (ThumbnailHashesAffected e)),
      (''thumbnail_bytes'', JInt (ThumbnailBytes e)), (''media_affected'', JInt (MediaAffected e)),
      (''media_hashes_affected'', JInt (MediaHashesAffected e)), (''media_bytes'', JInt (MediaBytes e)),
      (''total_hashes_affected'', JInt (TotalHashesAffected e)), (''total_bytes'', JInt (TotalBytes e))]"

definition MigrateBetweenDatastores :: "admin_externals \<Rightarrow> string list \<Rightarrow> user_generator" where
  "MigrateBetweenDatastores xq engines r ctx user =
     with_before_ts xq r (\<lambda>beforeTs.
     let sourceDsId = GetParam ''sourceDsId'' r; targetDsId = GetParam ''targetDsId'' r in
     if sourceDsId = targetDsId then returnE (BadRequest ''Source and target datastore cannot be the same'')
     else if datastores_Get ctx sourceDsId = None then returnE (BadRequest ''Source datastore does not appear to exist'')
     else if datastores_Get ctx targetDsId = None then returnE (BadRequest ''Target datastore does not appear to exist'')
     else or_fail (SizeOfDsIdWithAge sourceDsId beforeTs) ''Unexpected error getting storage estimate'' (\<lambda>estimate.
       or_fail (RunDatastoreMigration (xq_archive xq) (xp_upload (xq_api xq)) (xp_download (xq_api xq)) (xq_machineId xq) engines
           sourceDsId targetDsId beforeTs) ''Unexpected error starting migration'' (\<lambda>(task, _).
       returnE (no_cache (JObj (estimate_json estimate @ [(''task_id'', JInt (task_TaskId task))]))))))"

definition GetDatastoreStorageEstimate :: "admin_externals \<Rightarrow> user_generator" where
  "GetDatastoreStorageEstimate xq r ctx user =
     with_before_ts xq r (\<lambda>beforeTs.
     or_fail (SizeOfDsIdWithAge (GetParam ''datastoreId'' r) beforeTs) ''Unexpected error getting storage estimate''
       (\<lambda>result. returnE (no_cache (JObj (estimate_json result)))))"

section \<open>custom/exports.go\<close>

definition export_started :: "(DbTask \<times> attempt) \<times> string \<Rightarrow> response" where
  "export_started = (\<lambda>((task, _), exportId). no_cache (JObj [(''export_id'', JStr exportId), (''task_id'', JInt (task_TaskId task))]))"

definition with_archiving :: "RequestContext \<Rightarrow> ('s, response) io \<Rightarrow> ('s, response) io" where
  "with_archiving ctx k =
     (if \<not> arch_Enabled (Archiving (ctx_Config ctx)) then returnE (BadRequest ''archiving is not enabled'') else k)"

definition ExportUserData :: "admin_externals \<Rightarrow> string list \<Rightarrow> user_generator" where
  "ExportUserData xq engines r ctx user = with_archiving ctx
     (bindE (getsE (\<lambda>w. IsRepoAdmin (cfg w) user)) (\<lambda>isAdmin.
      let s3urls = (Query_Get r ''s3_urls'' \<noteq> ''false''); userId = GetParam ''userId'' r in
      if \<not> arch_SelfService (Archiving (ctx_Config ctx)) \<and> \<not> isAdmin then returnE AuthFailed
      else if \<not> isAdmin \<and> u_UserId user \<noteq> userId then returnE (BadRequest ''cannot export data for another user'')
      else or_fail (RunUserExport (xq_archive xq) (xp_upload (xq_api xq)) (xp_download (xq_api xq)) (xq_machineId xq) engines userId s3urls)
        ''fatal error starting export'' (\<lambda>t. returnE (export_started t))))"

definition ExportServerData :: "admin_externals \<Rightarrow> string list \<Rightarrow> user_generator" where
  "ExportServerData xq engines r ctx user = with_archiving ctx
     (bindE (getsE (\<lambda>w. IsRepoAdmin (cfg w) user)) (\<lambda>isAdmin.
      let s3urls = (Query_Get r ''s3_urls'' \<noteq> ''false''); serverName = GetParam ''serverName'' r;
          run = or_fail (RunServerExport (xq_archive xq) (xp_upload (xq_api xq)) (xp_download (xq_api xq)) (xq_machineId xq) engines serverName s3urls)
            ''fatal error starting export'' (\<lambda>t. returnE (export_started t));
          refused = BadRequest ''cannot export data for another server'' in
      if \<not> arch_SelfService (Archiving (ctx_Config ctx)) \<and> \<not> isAdmin then returnE AuthFailed
      else if isAdmin then run
      else bindE (getsE (\<lambda>w. IsServerOurs (doms w) serverName)) (\<lambda>ours.
        if \<not> ours then returnE refused
        else bindE (tryE (IsUserAdmin xq serverName user r)) (\<lambda>res.
          case res of Inr isLocalAdmin \<Rightarrow> if isLocalAdmin then run else returnE refused | Inl _ \<Rightarrow> returnE refused))))"

text \<open>The check of the export identifier builds its response and drops it.\<close>

definition ViewExport :: "admin_externals \<Rightarrow> user_generator" where
  "ViewExport xq r ctx user = with_archiving ctx
     (let exportId = GetParam ''exportId'' r in
      or_fail (exports_GetEntity exportId) ''failed to get entity for export ID'' (\<lambda>entityId.
      if entityId = [] then returnE NotFoundError
      else or_fail (exportParts_GetForExport exportId) ''failed to get export parts'' (\<lambda>parts.
        returnE (case xq_viewExport xq exportId entityId parts of
          Inl _ \<Rightarrow> InternalServerError ''failed to render template''
        | Inr html \<Rightarrow> HtmlResponse html))))"

definition part_json :: "DbExportPart \<Rightarrow> json" where
  "part_json p = JObj [(''index'', JInt (x_PartNum p)), (''size'', JInt (x_SizeBytes p)), (''name'', JStr (x_FileName p))]"

definition GetExportMetadata :: "admin_externals \<Rightarrow> user_generator" where
  "GetExportMetadata xq r ctx user = with_archiving ctx
     (let exportId = GetParam ''exportId'' r in
      or_fail (exports_GetEntity exportId) ''failed to get entity for export ID'' (\<lambda>entityId.
      or_fail (exportParts_GetForExport exportId) ''failed to get export parts'' (\<lambda>parts.
      returnE (no_cache (JObj [(''entity'', JStr entityId), (''parts'', JArr (map part_json parts))])))))"

definition DownloadExportPart :: "admin_externals \<Rightarrow> user_generator" where
  "DownloadExportPart xq r ctx user = with_archiving ctx
     (case Atoi (GetParam ''partId'' r) of
        Inl _ \<Rightarrow> returnE (BadRequest ''invalid part index'')
      | Inr partId \<Rightarrow>
          or_fail (exportParts_Get (GetParam ''exportId'' r) partId) ''failed to get part'' (\<lambda>part.
          case part of
            None \<Rightarrow> returnE NotFoundError
          | Some p \<Rightarrow> (case datastores_Get ctx (x_DatastoreId p) of
              None \<Rightarrow> returnE (InternalServerError ''failed to locate datastore'')
            | Some dsConf \<Rightarrow> or_fail (datastores_Download dsConf (x_Location p)) ''failed to start download'' (\<lambda>s.
                returnE (DownloadResponse ''application/gzip'' (x_FileName p) (x_SizeBytes p) (Some s) ''attachment'')))))"

definition DeleteExport :: "admin_externals \<Rightarrow> user_generator" where
  "DeleteExport xq r ctx user = with_archiving ctx
     (let exportId = GetParam ''exportId'' r in
      or_fail (exportParts_GetForExport exportId) ''failed to get export parts'' (\<lambda>parts.
      or_fail (foreachE (\<lambda>p. RemoveWithDsId ctx (x_DatastoreId p) (x_Location p)) parts) ''failed to delete export part'' (\<lambda>_.
      or_fail (exportParts_DeleteForExport exportId) ''failed to delete export parts'' (\<lambda>_.
      or_fail (exports_Delete exportId) ''failed to delete export record'' (\<lambda>_. returnE EmptyResponse)))))"

section \<open>custom/imports.go\<close>

text \<open>
  The imports in progress, with their tasks and engines.  \<open>AppendImportFile\<close> looks for the
  engine five times, in case the import is just starting; here nothing happens in between.
\<close>

type_synonym import_table = "(string \<times> DbTask \<times> importEngine) list"
type_synonym import_generator = "http_request \<Rightarrow> RequestContext \<Rightarrow> UserInfo \<Rightarrow> (world \<times> import_table, response) io"

definition on_engine :: "string \<Rightarrow> (DbTask \<Rightarrow> 'a engine_io) \<Rightarrow> (world \<times> import_table, 'a) io" where
  "on_engine importId m = (\<lambda>(w, es).
     case map_of es importId of
       None \<Rightarrow> (Inl ErrMediaNotFound, (w, es))
     | Some (task, e) \<Rightarrow> (case m task (w, e) of (res, (w', e')) \<Rightarrow> (res, (w', AList.update importId (task, e') es))))"

definition AppendImportFile :: "string \<Rightarrow> bytesReader \<Rightarrow> (world \<times> import_table, unit) io" where
  "AppendImportFile importId body = on_engine importId (\<lambda>_. appendFile (drain (Inr body)))"

definition FinishImport :: "string \<Rightarrow> (world \<times> import_table, unit) io" where
  "FinishImport importId =
     thenE (on_engine importId (\<lambda>task. engine_finish task None)) (modifyS (AList.delete importId))"

definition with_worker :: "admin_externals \<Rightarrow> RequestContext \<Rightarrow> (world \<times> import_table, response) io \<Rightarrow> (world \<times> import_table, response) io" where
  "with_worker xq ctx k = with_archiving ctx
     (if xq_machineId xq \<noteq> ExecutingMachineId
      then returnE (BadRequest ''archival import can only be done on the background tasks worker'') else k)"

definition started :: "DbTask \<Rightarrow> attempt \<Rightarrow> string \<Rightarrow> import_table \<Rightarrow> import_table" where
  "started task a importId es =
     (case a of Ran ids \<Rightarrow> (if importId \<in> set ids then AList.update importId (task, new_engine) es else es) | _ \<Rightarrow> es)"

definition StartImport :: "admin_externals \<Rightarrow> import_generator" where
  "StartImport xq r ctx user = with_worker xq ctx
     (bindE (getsS (map fst)) (\<lambda>engines.
      bindE (tryE (on_world (RunImport (xq_archive xq) (xp_upload (xq_api xq)) (xp_download (xq_api xq)) (xq_machineId xq) engines))) (\<lambda>res.
      case res of
        Inl _ \<Rightarrow> returnE (InternalServerError ''fatal error starting import'')
      | Inr ((task, a), importId) \<Rightarrow>
          thenE (modifyS (started task a importId))
          (bindE (tryE (AppendImportFile importId (rq_Body r))) (\<lambda>res.
           returnE (case res of
             Inl _ \<Rightarrow> InternalServerError ''error appending first file to import''
           | Inr _ \<Rightarrow> no_cache (JObj [(''import_id'', JStr importId), (''task_id'', JInt (task_TaskId task))])))))))"

definition import_call :: "(string \<Rightarrow> (world \<times> import_table, unit) io) \<Rightarrow> string \<Rightarrow> http_request \<Rightarrow> (world \<times> import_table, response) io" where
  "import_call m message r =
     (let importId = GetParam ''importId'' r in
      if \<not> ServerNameRegex importId then returnE (BadRequest ''invalid import ID'')
      else bindE (tryE (m importId)) (\<lambda>res.
        returnE (case res of
          Inl err \<Rightarrow> if err = ErrMediaNotFound then NotFoundError else InternalServerError message
        | Inr _ \<Rightarrow> DoNotCacheResponse EmptyResponse)))"

definition AppendToImport :: "admin_externals \<Rightarrow> import_generator" where
  "AppendToImport xq r ctx user = with_worker xq ctx
     (import_call (\<lambda>importId. AppendImportFile importId (rq_Body r)) ''error appending to import'' r)"

definition StopImport :: "admin_externals \<Rightarrow> import_generator" where
  "StopImport xq r ctx user = with_worker xq ctx (import_call FinishImport ''error stopping import'' r)"

section \<open>custom/federation.go, custom/health.go\<close>

definition GetFederationInfo :: "admin_externals \<Rightarrow> user_generator" where
  "GetFederationInfo xq r ctx user =
     with_server_name r (\<lambda>serverName.
     returnE (case xq_serverUrl xq serverName of
       Inl err \<Rightarrow> InternalServerError (xq_Error xq err)
     | Inr (url, hostname) \<Rightarrow> (case xq_federationVersion xq (url @ ''/_matrix/federation/v1/version'') hostname serverName of
         Inl err \<Rightarrow> InternalServerError (xq_Error xq err)
       | Inr None \<Rightarrow> InternalServerError ''version not found''
       | Inr (Some out) \<Rightarrow> no_cache (JObj [(''base_url'', JStr url), (''hostname'', JStr hostname), (''versions_response'', out)]))))"

definition GetHealthz :: user_generator where
  "GetHealthz r ctx user = returnE (no_cache (JObj [(''ok'', JBool True), (''status'', JStr ''Probably not dead'')]))"

section \<open>r0/public\_config.go, unstable/public\_usage.go, r0/versions.go, r0/identicon.go\<close>

definition omit_zero :: "string \<Rightarrow> int \<Rightarrow> (string \<times> json) list" where
  "omit_zero k n = (if n = 0 then [] else [(k, JInt n)])"

definition PublicConfig :: "admin_externals \<Rightarrow> user_generator" where
  "PublicConfig xq r ctx user =
     (let conf = Uploads (ctx_Config ctx);
          uploadSize = (if up_ReportedMaxSizeBytes conf = 0 then up_MaxSizeBytes conf else up_ReportedMaxSizeBytes conf);
          limit = (\<lambda>t. case Limit (xt_glob (xp_upload (xq_api xq))) ctx (u_UserId user) t of Inl _ \<Rightarrow> 0 | Inr n \<Rightarrow> n) in
      returnE (JsonResponse (JObj (omit_zero ''m.upload.size'' (max 0 uploadSize) @
        omit_zero ''org.matrix.msc4034.storage.size'' (max 0 (limit MaxBytes)) @
        omit_zero ''org.matrix.msc4034.storage.max_files'' (limit MaxCount)))))"

definition PublicUsage :: "admin_externals \<Rightarrow> user_generator" where
  "PublicUsage xq r ctx user =
     bindE (tryE (Current (u_UserId user) MaxBytes)) (\<lambda>used.
     bindE (tryE (Current (u_UserId user) MaxCount)) (\<lambda>files.
     let value' = (\<lambda>res. case res of Inl _ \<Rightarrow> 0 | Inr n \<Rightarrow> n) in
     returnE (JsonResponse (JObj (omit_zero ''org.matrix.msc4034.storage.used'' (value' used) @
       omit_zero ''org.matrix.msc4034.storage.files'' (value' files))))))"

text \<open>
  The second argument of \<open>xq_clientVersions\<close> is the access token and the third one the user
  of an appservice; the handler passes them in the other order.  A response without a list
  of versions gets a list of one empty version.
\<close>

definition ClientVersions :: "admin_externals \<Rightarrow> user_generator" where
  "ClientVersions xq r ctx user =
     returnE (case xq_clientVersions xq (rq_Host r) (u_UserId user) (u_AccessToken user) (rq_RemoteAddr r) of
       Inl _ \<Rightarrow> InternalServerError ''unable to get versions''
     | Inr (vs, features) \<Rightarrow>
         let versions = (case vs of None \<Rightarrow> [''''] | Some l \<Rightarrow> l) in
         JsonResponse (JObj [(''versions'', JArr (map JStr (if ''v1.11'' \<in> set versions then versions else versions @ [''v1.11'']))),
           (''unstable_features'', json_map JBool features)]))"

definition identicon_size :: "string \<Rightarrow> string \<Rightarrow> (string \<times> goerr) + int \<times> int" where
  "identicon_size widthStr heightStr =
     (let clamp = (\<lambda>v. if v > 512 then 512 else if v < 96 then 96 else v) in
      case (if widthStr = [] then Inr 96 else Atoi widthStr) of
        Inl err \<Rightarrow> Inl (''width'', err)
      | Inr width \<Rightarrow> (case (if heightStr = [] then Inr width else Atoi heightStr) of
          Inl err \<Rightarrow> Inl (''height'', err)
        | Inr height \<Rightarrow> Inr (clamp width, clamp height)))"

definition Identicon :: "admin_externals \<Rightarrow> user_generator" where
  "Identicon xq r ctx user =
     returnE (if \<not> ic_Enabled (Identicons (ctx_Config ctx)) then NotFoundError
       else case identicon_size (Query_Get r ''width'') (Query_Get r ''height'') of
         Inl (name, err) \<Rightarrow> InternalServerError (''Error parsing '' @ name @ '': '' @ xq_Error xq err)
       | Inr (width, height) \<Rightarrow>
           let hashed = xq_md5 xq (GetParam ''seed'' r) in
           DownloadResponse ''image/png'' (hashed @ ''.png'') 0 (Some (xq_identicon xq width height hashed)) ''inline'')"

section \<open>unstable/info.go\<close>

text \<open>As in \<open>LocalCopy\<close>, the request counts as unauthenticated.\<close>

definition info_error :: "goerr \<Rightarrow> response" where
  "info_error err =
     (if err = ErrMediaNotFound then NotFoundError
      else if err = ErrMediaTooLarge then RequestTooLarge
      else if err = ErrMediaQuarantined then NotFoundError
      else if err = ErrMediaNotYetUploaded then NotYetUploaded
      else InternalServerError ''Unexpected Error'')"

definition info_thumbnail :: "DbThumbnail \<Rightarrow> json" where
  "info_thumbnail t = JObj ([(''width'', JInt (t_Width t)), (''height'', JInt (t_Height t)), (''ready'', JBool True)] @
     (if t_ContentType t = [] then [] else [(''content_type'', JStr (t_ContentType t))]) @ omit_zero ''size'' (t_SizeBytes t))"

definition info_json :: "admin_externals \<Rightarrow> DbMedia \<Rightarrow> bytes \<Rightarrow> DbThumbnail list \<Rightarrow> json" where
  "info_json xq record' stream thumbs =
     (let ct = m_ContentType record';
          (width, height) = (if HasPrefix ct ''image/'' then (case xq_imageSize xq stream of None \<Rightarrow> (0, 0) | Some s \<Rightarrow> s) else (0, 0));
          audio = (if HasPrefix ct ''audio/'' then xq_audioInfo xq ct stream else []) in
      JObj ([(''content_uri'', JStr (media_mxc record')), (''content_type'', JStr ct)] @
        omit_zero ''width'' width @ omit_zero ''height'' height @
        [(''size'', JInt (m_SizeBytes record')), (''hashes'', JObj [(''sha256'', JStr (Sha256Hash record'))])] @
        (if thumbs = [] then [] else [(''thumbnails'', JArr (map info_thumbnail thumbs))]) @ audio))"

definition MediaInfo :: "admin_externals \<Rightarrow> user_generator" where
  "MediaInfo xq r ctx user =
     (let server = GetParam ''server'' r; mediaId = GetParam ''mediaId'' r; xp = xq_api xq in
      if \<not> ServerNameRegex server then returnE (BadRequest ''invalid server ID'')
      else case optional_bool True (Query_Get r ''allow_remote'') of
        Inl _ \<Rightarrow> returnE (InternalServerError ''allow_remote flag does not appear to be a boolean'')
      | Inr downloadRemote \<Rightarrow>
          bindE (getsE (\<lambda>w. IsHostIgnored (cfg w) server \<and> \<not> IsGlobalAdmin (cfg w) (u_UserId user))) (\<lambda>blocked.
          if blocked then returnE MediaBlocked
          else bindE (tryE (download_Execute (xp_upload xp) (xp_download xp) ctx (request_of xp r) server mediaId
              \<lparr>FetchRemoteIfNeeded = downloadRemote, BlockForReadUntil = 30 * second, RecordOnly = False,
               CanRedirect = False, AuthProvided = False\<rparr>)) (\<lambda>res.
            case res of
              Inl err \<Rightarrow> returnE (info_error err)
            | Inr (Redirected _) \<Rightarrow> returnE (InternalServerError ''Unexpected Error'')
            | Inr (Served _ None) \<Rightarrow> throwE (Panic ''nil reader'')
            | Inr (Served media (Some stream)) \<Rightarrow>
                or_fail (thumbnails_GetForMedia (m_Origin media) (m_MediaId media)) ''Unexpected Error'' (\<lambda>thumbs.
                returnE (JsonResponse (info_json xq media stream thumbs))))))"

end
