(* ===== verification/AdminProofs.thy ===== *)
theory AdminProofs
  imports Admin PurgeProofs DownloadProofs
begin

text \<open>
  Who may remove or quarantine what through the endpoints of \<^verbatim>\<open>api/custom\<close>, from the request
  to the rows: the routers' check of the token, the handlers' authority, and the tasks.
\<close>

section \<open>Handlers that guard the rows\<close>

text \<open>What a handler reads before it acts: the rows, the files and the configuration are as before.\<close>

definition seen :: "world \<Rightarrow> world \<Rightarrow> bool" where
  "seen w0 w \<longleftrightarrow> purge_base False w0 w \<and> tbl_user_stats w = tbl_user_stats w0 \<and> cfg w = cfg w0"

definition sound :: "world \<Rightarrow> bool" where
  "sound w \<longleftrightarrow> media_inv w \<and> slash_free w \<and> in_int64 (int (length (tbl_media w)))"

definition kept :: "world \<Rightarrow> world \<Rightarrow> DbMedia \<Rightarrow> bool" where
  "kept w w' m \<longleftrightarrow> m \<in> set (tbl_media w') \<and> objects w' (loc_of m) = objects w (loc_of m)"

definition keeps :: "(DbMedia \<Rightarrow> bool) \<Rightarrow> world \<Rightarrow> world \<Rightarrow> bool" where
  "keeps may w w' \<longleftrightarrow> (\<forall>m \<in> set (tbl_media w). \<not> may m \<longrightarrow> kept w w' m)"

lemma seen_refl [simp]: "seen w w"
  by (simp add: seen_def purge_base_def)

lemma seen_stable [simp]: "env_stable (seen w0)"
  by (rule env_stableI) (simp_all add: seen_def purge_base_def)

lemma seen_keeps: "seen w0 w \<Longrightarrow> keeps may w0 w"
  by (simp add: seen_def purge_base_def keeps_def kept_def)

lemma seen_sound: "seen w0 w \<Longrightarrow> sound w0 \<Longrightarrow> sound w"
  by (simp add: seen_def purge_base_def sound_def media_inv_def slash_free_def)

lemma seen_trans: "seen w0 w1 \<Longrightarrow> seen w1 w \<Longrightarrow> seen w0 w"
  by (simp add: seen_def purge_base_def)

lemma keeps_seen: "seen w0 w1 \<Longrightarrow> keeps may w1 w \<Longrightarrow> keeps may w0 w"
  by (simp add: seen_def purge_base_def keeps_def kept_def)

lemma GetUserId_preserves:
  assumes "env_stable I" and "\<And>w p. I w \<Longrightarrow> I (w\<lparr>process := p\<rparr>)"
  shows "preserves I (GetUserId xa r ctx token user)"
proof -
  have "preserves I (set_tokens f)" for f
    using assms(2) unfolding set_tokens_def by (intro hoare_intros)
  then have cache: "preserves I (cacheToken ctx token user res)" for res
    unfolding cacheToken_def Let_def by (intro preserves_bind preserves_gets)
  then have "preserves I (checkTokenWithHomeserver xa r' ctx token user b)" for r' b
    unfolding checkTokenWithHomeserver_def using assms(1) by (intro hoare_intros)
  with cache show ?thesis
    unfolding GetUserId_def by (intro hoare_intros)
qed

text \<open>Behind \<open>RequireAccessToken\<close>: the handler runs with the authenticated user, or nothing changes.\<close>

lemma RequireAccessToken_seen:
  assumes "RequireAccessToken xa gen allowGuests r ctx w = (res, w')"
  shows "(\<exists>user w1. authenticated_as xa r ctx user w w1 \<and> seen w w1 \<and> gen r ctx user w1 = (res, w')) \<or> seen w w'"
proof (cases "GetAccessTokenFromRequest r = [] \<or> is_shared_secret (cfg w) (GetAccessTokenFromRequest r)")
  case True
  let ?user = "applyTrustedRepoAdminHeader (cfg w) r (shared_user (GetAccessTokenFromRequest r))"
  have "authenticated_as xa r ctx ?user w w" if "GetAccessTokenFromRequest r \<noteq> []"
    using True that by (simp add: authenticated_as_def Let_def)
  moreover have "gen r ctx ?user w = (res, w')" if "GetAccessTokenFromRequest r \<noteq> []"
    using assms True that by (simp add: RequireAccessToken_def Let_def bindE_run)
  moreover have "w' = w" if "GetAccessTokenFromRequest r = []"
    using assms that by (simp add: RequireAccessToken_def Let_def returnE_run)
  ultimately show ?thesis using seen_refl by metis
next
  case False
  obtain r1 w1 where get: "GetUserId xa (Some r) ctx (GetAccessTokenFromRequest r) (GetAppserviceUserIdFromRequest r) w = (r1, w1)"
    by (cases "GetUserId xa (Some r) ctx (GetAccessTokenFromRequest r) (GetAppserviceUserIdFromRequest r) w")
  have "seen w w1"
    by (rule preservesD' [OF GetUserId_preserves _ get]) (simp_all add: seen_def purge_base_def env_stableI)
  show ?thesis
  proof (cases "\<exists>userId guest. r1 = Inr (userId, guest) \<and> userId \<noteq> [] \<and> (guest \<longrightarrow> allowGuests)")
    case True
    then obtain userId guest where x: "r1 = Inr (userId, guest)" "userId \<noteq> []" "guest \<longrightarrow> allowGuests" by blast
    let ?user = "applyTrustedRepoAdminHeader (cfg w) r (token_user userId (GetAccessTokenFromRequest r))"
    have "authenticated_as xa r ctx ?user w w1" using x False get by (auto simp: authenticated_as_def Let_def)
    moreover have "gen r ctx ?user w1 = (res, w')"
      using x False get assms by (auto simp: RequireAccessToken_def Let_def bindE_run tryE_run)
    ultimately show ?thesis using \<open>seen w w1\<close> by blast
  next
    case False2: False
    have "w' = w1"
    proof (cases r1)
      case (Inl e)
      with False get assms show ?thesis
        by (auto simp: RequireAccessToken_def Let_def bindE_run tryE_run returnE_run split: if_splits)
    next
      case (Inr x)
      obtain userId guest where x: "x = (userId, guest)" by (cases x)
      then have "userId = [] \<or> guest \<and> \<not> allowGuests" using False2 Inr by blast
      with False get assms Inr x show ?thesis
        by (elim disjE) (simp_all add: RequireAccessToken_def Let_def bindE_run tryE_run returnE_run split: if_splits)
    qed
    with \<open>seen w w1\<close> show ?thesis by blast
  qed
qed

text \<open>
  A family of handlers that change or remove a row only when \<open>may\<close> allows it for the user
  the router gave them.
\<close>

locale guarded_handlers =
  fixes gens :: "user_generator set"
    and may :: "http_request \<Rightarrow> RequestContext \<Rightarrow> UserInfo \<Rightarrow> world \<Rightarrow> DbMedia \<Rightarrow> bool"
  assumes guarded: "gen \<in> gens \<Longrightarrow> sound w \<Longrightarrow> rq_Host r \<noteq> [] \<Longrightarrow> gen r ctx user w = (res, w') \<Longrightarrow> keeps (may r ctx user w) w w'"
    and reads: "seen w0 w \<Longrightarrow> may r ctx user w m = may r ctx user w0 m"
begin

lemma only_authorised:
  assumes "gen \<in> gens" "sound w" "rq_Host r \<noteq> []"
    and "RequireAccessToken xa gen allowGuests r ctx w = (res, w')"
    and "m \<in> set (tbl_media w)" "\<not> kept w w' m"
  shows "\<exists>user w1. authenticated_as xa r ctx user w w1 \<and> may r ctx user w m"
proof -
  have "\<not> seen w w'" using assms(5,6) seen_keeps [of w w' "\<lambda>_. False"] by (auto simp: keeps_def)
  with RequireAccessToken_seen [OF assms(4)] obtain user w1
    where user: "authenticated_as xa r ctx user w w1" "seen w w1" "gen r ctx user w1 = (res, w')" by blast
  from keeps_seen [OF user(2) guarded [OF assms(1) seen_sound [OF user(2) assms(2)] assms(3) user(3)]] assms(5,6)
  have "may r ctx user w1 m" by (auto simp: keeps_def)
  with user reads [OF user(2)] show ?thesis by blast
qed

end

section \<open>What the handlers read\<close>

lemma hoare_or_fail:
  assumes "hoare (seen w0) m (\<lambda>x w. seen w0 w \<and> R x) (\<lambda>_. seen w0)"
    and "\<And>x. R x \<Longrightarrow> hoare (seen w0) (k x) (\<lambda>_. K) (\<lambda>_. K)" and "\<And>w. seen w0 w \<Longrightarrow> K w"
  shows "hoare (seen w0) (or_fail m message k) (\<lambda>_. K) (\<lambda>_. K)"
  unfolding or_fail_def
proof (rule hoare_bind)
  show "hoare (seen w0) (tryE m) (\<lambda>res w. seen w0 w \<and> (\<forall>x. res = Inr x \<longrightarrow> R x)) (\<lambda>_. K)"
    by (rule hoare_try, rule hoare_weaken [OF assms(1)]) (use assms(3) in auto)
  show "hoare (\<lambda>w. seen w0 w \<and> (\<forall>x. res = Inr x \<longrightarrow> R x))
      (case res of Inl _ \<Rightarrow> returnE (InternalServerError message) | Inr x \<Rightarrow> k x) (\<lambda>_. K) (\<lambda>_. K)" for res
    by (rule hoare_pure) (use assms(2,3) in \<open>auto split: sum.split intro: hoare_return\<close>)
qed

lemma hoare_seen_preserves:
  "preserves (seen w0) m \<Longrightarrow> hoare (seen w0) m (\<lambda>_ w. seen w0 w \<and> True) (\<lambda>_. seen w0)"
  by (simp add: preserves_def)

lemma hoare_scanRows:
  "hoare (seen w0) (media_scanRows P) (\<lambda>rs w. seen w0 w \<and> set rs \<subseteq> set (tbl_media w0)) (\<lambda>_. seen w0)"
  unfolding media_scanRows_def
  by (rule hoare_dbQuery [OF env_script_stable]) (auto simp: seen_def purge_base_def)

lemma hoare_before_ts:
  assumes "\<And>ts. hoare (seen w0) (k ts) (\<lambda>_. K) (\<lambda>_. K)" and "\<And>w. seen w0 w \<Longrightarrow> K w"
  shows "hoare (seen w0) (with_before_ts xq r k) (\<lambda>_. K) (\<lambda>_. K)"
  unfolding with_before_ts_def Let_def
proof (rule hoare_bind [where R = "\<lambda>_. seen w0"])
  show "hoare (seen w0) NowMillis (\<lambda>_. seen w0) (\<lambda>_. K)"
    by (rule hoare_preserves) (use assms(2) in \<open>auto intro: preserves_NowMillis\<close>)
qed (use assms in \<open>auto split: sum.split intro: hoare_return\<close>)

lemma ListMedia_seen: "preserves (seen w0) (ListMedia xq r user room)"
  unfolding ListMedia_def by (intro hoare_intros seen_stable)

lemma IsUserAdmin_seen: "preserves (seen w0) (IsUserAdmin xq server user r)"
  unfolding IsUserAdmin_def by (intro hoare_intros seen_stable)

text \<open>The homeserver of \<open>server\<close> says that the user is its administrator.\<close>

definition local_admin :: "admin_externals \<Rightarrow> string \<Rightarrow> UserInfo \<Rightarrow> http_request \<Rightarrow> bool" where
  "local_admin xq server user r \<longleftrightarrow> xa_isAdmin (xq_auth xq) server (u_AccessToken user) (rq_RemoteAddr r) = Inr True"

lemma hoare_lift_ext:
  "hoare (seen w0) (ext (lift_result x)) (\<lambda>v w. seen w0 w \<and> x = Inr v) (\<lambda>_. seen w0)"
  by (rule hoare_ext) (auto simp: lift_result_def split: sum.split intro: hoare_return hoare_throw)

section \<open>Purging\<close>

definition may_purge :: "admin_externals \<Rightarrow> http_request \<Rightarrow> RequestContext \<Rightarrow> UserInfo \<Rightarrow> world \<Rightarrow> DbMedia \<Rightarrow> bool" where
  "may_purge xq r ctx user w m \<longleftrightarrow>
     IsRepoAdmin (cfg w) user \<or>
     local_admin xq (rq_Host r) user r \<and> m_Origin m = rq_Host r \<or>
     u_UserId user = [] \<or> m_UserId m = u_UserId user"

definition covered :: "(DbMedia \<Rightarrow> bool) \<Rightarrow> PurgeAuthContext \<Rightarrow> bool" where
  "covered may a \<longleftrightarrow> (\<forall>m. canAffect a m \<longrightarrow> may m)"

lemma hoare_admin_status:
  "hoare (seen w0) (GetRequestUserAdminStatus (xq_auth xq) r user)
     (\<lambda>p w. seen w0 w \<and> (fst p \<longrightarrow> IsRepoAdmin (cfg w0) user) \<and> (snd p \<longrightarrow> local_admin xq (rq_Host r) user r)) (\<lambda>_. seen w0)"
  unfolding GetRequestUserAdminStatus_def
proof (rule hoare_bind_val)
  show "hoare (seen w0) (getsE (\<lambda>w. IsRepoAdmin (cfg w) user)) (\<lambda>x s. seen w0 s \<and> x = IsRepoAdmin (cfg w0) user) (\<lambda>_. seen w0)"
    by (auto simp: hoare_def seen_def)
  let ?ask = "ext (lift_result (xa_isAdmin (xq_auth xq) (rq_Host r) (u_AccessToken user) (rq_RemoteAddr r))) :: (world, bool) io"
  have ask: "hoare (seen w0) (tryE ?ask) (\<lambda>res w. seen w0 w \<and> (res = Inr True \<longrightarrow> local_admin xq (rq_Host r) user r)) (\<lambda>_. seen w0)"
    by (rule hoare_try, rule hoare_weaken [OF hoare_lift_ext]) (auto simp: local_admin_def)
  show "hoare (seen w0) (if IsRepoAdmin (cfg w0) user then returnE (True, False)
     else bindE (tryE ?ask) (\<lambda>res.
       case res of Inl _ \<Rightarrow> returnE (IsRepoAdmin (cfg w0) user, False)
       | Inr isLocalAdmin \<Rightarrow> returnE (IsRepoAdmin (cfg w0) user, isLocalAdmin)))
     (\<lambda>p w. seen w0 w \<and> (fst p \<longrightarrow> IsRepoAdmin (cfg w0) user) \<and> (snd p \<longrightarrow> local_admin xq (rq_Host r) user r)) (\<lambda>_. seen w0)"
  proof (cases "IsRepoAdmin (cfg w0) user")
    case False
    then show ?thesis
      by (simp, intro hoare_bind [OF ask]) (auto split: sum.split intro!: hoare_return)
  qed (auto intro: hoare_return)
qed

lemma hoare_getPurgeAuthContext:
  assumes "rq_Host r \<noteq> []"
  shows "hoare (seen w0) (getPurgeAuthContext xq r user)
     (\<lambda>p w. seen w0 w \<and> covered (may_purge xq r ctx user w0) (fst p)) (\<lambda>_. seen w0)"
  unfolding getPurgeAuthContext_def
  by (rule hoare_bind [OF hoare_admin_status])
     (auto simp: covered_def may_purge_def canAffect_def assms split: if_splits prod.split intro!: hoare_return)

lemma hoare_PurgeMedia:
  assumes "sound w0" "covered may a" "set (qt_DbMedia these) \<subseteq> set (tbl_media w0)"
  shows "hoare (seen w0) (PurgeMedia ctx a these) (\<lambda>_. keeps may w0) (\<lambda>_. keeps may w0)"
proof -
  have "keeps may w0 w'" if s: "seen w0 w" and run: "PurgeMedia ctx a these w = (res, w')" for w w' res
  proof (rule keeps_seen [OF s])
    have "sound w" "tbl_media w = tbl_media w0" using seen_sound [OF s assms(1)] s by (auto simp: seen_def purge_base_def)
    with PurgeMedia_canAffect [OF _ _ _ run] assms(2,3) show "keeps may w w'"
      by (auto simp: sound_def keeps_def kept_def covered_def)
  qed
  then show ?thesis by (auto intro: hoareI)
qed

lemma hoare_purge_these:
  assumes "sound w0" "covered may a" "set (qt_DbMedia these) \<subseteq> set (tbl_media w0)"
  shows "hoare (seen w0) (purge_these ctx a these) (\<lambda>_. keeps may w0) (\<lambda>_. keeps may w0)"
  unfolding purge_these_def
proof (rule hoare_bind)
  show "hoare (seen w0) (tryE (PurgeMedia ctx a these)) (\<lambda>_. keeps may w0) (\<lambda>_. keeps may w0)"
    by (rule hoare_try, rule hoare_weaken [OF hoare_PurgeMedia [OF assms]]) auto
qed (rule hoare_return)

lemma hoare_purge_records:
  assumes "sound w0" "covered may a"
  shows "hoare (seen w0) (or_fail (media_scanRows P) message (\<lambda>rs. purge_these ctx a (these_records rs))) (\<lambda>_. keeps may w0) (\<lambda>_. keeps may w0)"
  by (rule hoare_or_fail [OF hoare_scanRows], rule hoare_purge_these [OF assms]) (auto simp: these_records_def seen_keeps)

lemma keeps_return: "hoare (seen w0) (returnE x) (\<lambda>_. keeps may w0) (\<lambda>_. keeps may w0)"
  by (rule hoare_return) (rule seen_keeps)

lemmas scan_defs = media_GetByQuarantine_def media_GetByOriginQuarantine_def media_GetOldByUserId_def media_GetOldByOrigin_def
  media_GetByUserId_def media_GetByOrigin_def

text \<open>The handlers that ask for the purge authority first.\<close>

lemma hoare_with_authority:
  assumes "rq_Host r \<noteq> []"
    and "\<And>a g l. covered (may_purge xq r ctx user w0) a \<Longrightarrow> hoare (seen w0) (k (a, g, l)) (\<lambda>_. keeps (may_purge xq r ctx user w0) w0) (\<lambda>_. keeps (may_purge xq r ctx user w0) w0)"
  shows "hoare (seen w0) (bindE (getPurgeAuthContext xq r user) k)
     (\<lambda>_. keeps (may_purge xq r ctx user w0) w0) (\<lambda>_. keeps (may_purge xq r ctx user w0) w0)"
proof (rule hoare_bind)
  show "hoare (seen w0) (getPurgeAuthContext xq r user) (\<lambda>p w. seen w0 w \<and> covered (may_purge xq r ctx user w0) (fst p))
     (\<lambda>_. keeps (may_purge xq r ctx user w0) w0)"
    by (rule hoare_weaken [OF hoare_getPurgeAuthContext [OF assms(1)]]) (auto intro: seen_keeps)
  show "hoare (\<lambda>w. seen w0 w \<and> covered (may_purge xq r ctx user w0) (fst p)) (k p)
     (\<lambda>_. keeps (may_purge xq r ctx user w0) w0) (\<lambda>_. keeps (may_purge xq r ctx user w0) w0)" for p
    by (rule hoare_pure) (cases p, use assms(2) in auto)
qed

definition purge_handlers :: "admin_externals \<Rightarrow> user_generator set" where
  "purge_handlers xq =
     {PurgeIndividualRecord xq, PurgeQuarantined xq, PurgeUserMedia xq, PurgeRoomMedia xq, PurgeDomainMedia xq}"

lemma hoare_purge_handlers:
  assumes "gen \<in> purge_handlers xq" "sound w0" "rq_Host r \<noteq> []"
  shows "hoare (seen w0) (gen r ctx user) (\<lambda>_. keeps (may_purge xq r ctx user w0) w0) (\<lambda>_. keeps (may_purge xq r ctx user w0) w0)"
proof -
  let ?may = "may_purge xq r ctx user w0"
  let ?ok = "\<lambda>m. hoare (seen w0) m (\<lambda>_. keeps ?may w0) (\<lambda>_. keeps ?may w0)"
  note reads = hoare_purge_records [OF assms(2)] keeps_return
  have "?ok (PurgeIndividualRecord xq r ctx user)"
    unfolding PurgeIndividualRecord_def Let_def
  proof (rule hoare_with_authority [OF assms(3)], simp, intro conjI impI)
    fix a assume a: "covered ?may a"
    show "?ok (bindE (tryE (PurgeMedia ctx a (this_record (GetParam ''server'' r) (GetParam ''mediaId'' r)))) (\<lambda>res.
       returnE (case res of Inl err \<Rightarrow> purge_error err | Inr _ \<Rightarrow> no_cache (JObj [(''purged'', JBool True)]))))"
      by (rule hoare_bind [where R = "\<lambda>_. keeps ?may w0"], rule hoare_try, rule hoare_weaken [OF hoare_PurgeMedia [OF assms(2) a]])
         (auto simp: this_record_def intro: hoare_return)
  qed (rule keeps_return)
  moreover have "?ok (PurgeQuarantined xq r ctx user)"
    unfolding PurgeQuarantined_def scan_defs
    by (rule hoare_with_authority [OF assms(3)]) (auto intro: reads)
  moreover have "?ok (PurgeUserMedia xq r ctx user)"
    unfolding PurgeUserMedia_def Let_def scan_defs
    by (rule hoare_with_authority [OF assms(3)])
       (auto intro!: hoare_before_ts reads seen_keeps split: sum.split)
  moreover have "?ok (PurgeDomainMedia xq r ctx user)"
    unfolding PurgeDomainMedia_def Let_def scan_defs
    by (rule hoare_with_authority [OF assms(3)])
       (auto intro!: hoare_before_ts reads seen_keeps)
  moreover have "?ok (PurgeRoomMedia xq r ctx user)"
    unfolding PurgeRoomMedia_def Let_def
    by (rule hoare_with_authority [OF assms(3)])
       (auto intro!: hoare_before_ts hoare_or_fail [OF hoare_seen_preserves [OF ListMedia_seen]] hoare_purge_these [OF assms(2)]
          keeps_return seen_keeps simp: these_mxcs_def)
  ultimately show ?thesis using assms(1) by (auto simp: purge_handlers_def)
qed

section \<open>Quarantining\<close>

definition may_quarantine :: "admin_externals \<Rightarrow> http_request \<Rightarrow> RequestContext \<Rightarrow> UserInfo \<Rightarrow> world \<Rightarrow> DbMedia \<Rightarrow> bool" where
  "may_quarantine xq r ctx user w m \<longleftrightarrow>
     \<not> pinned (tbl_attributes w) m \<and>
     (IsRepoAdmin (cfg w) user \<or>
      qr_AllowLocalAdmins (Quarantine (ctx_Config ctx)) \<and> local_admin xq (rq_Host r) user r \<and> m_Origin m = rq_Host r)"

lemma quarantined_from_kept:
  assumes "quarantined_from may old new" "m \<in> set old" "\<not> may m"
  shows "m \<in> set new"
  using assms unfolding quarantined_from_def list_all2_conv_all_nth
  by (auto simp: in_set_conv_nth)

lemma hoare_performQuarantine:
  assumes "sound w0" "\<And>m. in_scope (if other then '''' else rq_Host r) (tbl_attributes w0) m \<Longrightarrow> may m"
  shows "hoare (seen w0) (performQuarantineRequest ctx (rq_Host r) other these) (\<lambda>_. keeps may w0) (\<lambda>_. keeps may w0)"
proof -
  have "keeps may w0 w'" if s: "seen w0 w" and run: "QuarantineMedia (if other then '''' else rq_Host r) these w = (res, w')" for w w' res
  proof -
    have "in_int64 (int (length (tbl_media w)))" using seen_sound [OF s assms(1)] by (simp add: sound_def)
    from QuarantineMedia_run [OF run this] obtain n where "quarantine_progress (if other then '''' else rq_Host r) w n w'" by blast
    with s have "quarantined_from (in_scope (if other then '''' else rq_Host r) (tbl_attributes w0)) (tbl_media w0) (tbl_media w')"
      "objects w' = objects w0"
      by (auto simp: quarantine_progress_def seen_def purge_base_def)
    with quarantined_from_kept [OF this(1)] assms(2) show ?thesis by (auto simp: keeps_def kept_def)
  qed
  then have "hoare (seen w0) (QuarantineMedia (if other then '''' else rq_Host r) these) (\<lambda>_. keeps may w0) (\<lambda>_. keeps may w0)"
    by (auto intro: hoareI)
  then show ?thesis unfolding performQuarantineRequest_def
    by (rule hoare_bind) (auto split: prod.split intro: hoare_return)
qed

lemma hoare_quarantine_info:
  "hoare (seen w0) (getQuarantineRequestInfo xq r ctx user)
     (\<lambda>p w. seen w0 w \<and> (fst p \<longrightarrow> IsRepoAdmin (cfg w0) user \<or>
        \<not> fst (snd p) \<and> qr_AllowLocalAdmins (Quarantine (ctx_Config ctx)) \<and> local_admin xq (rq_Host r) user r)) (\<lambda>_. seen w0)"
  (is "hoare _ _ ?Q _")
  unfolding getQuarantineRequestInfo_def
proof (rule hoare_bind_val)
  show "hoare (seen w0) (getsE (\<lambda>w. IsRepoAdmin (cfg w) user)) (\<lambda>x s. seen w0 s \<and> x = IsRepoAdmin (cfg w0) user) (\<lambda>_. seen w0)"
    by (auto simp: hoare_def seen_def)
  have ask: "hoare (seen w0) (tryE (IsUserAdmin xq (rq_Host r) user r))
    (\<lambda>res w. seen w0 w \<and> (res = Inr True \<longrightarrow> local_admin xq (rq_Host r) user r)) (\<lambda>_. seen w0)"
    unfolding IsUserAdmin_def
    by (rule hoare_try, rule hoare_weaken [OF hoare_lift_ext]) (auto simp: local_admin_def)
  show "hoare (seen w0) (if IsRepoAdmin (cfg w0) user then returnE (True, True, False)
     else if \<not> qr_AllowLocalAdmins (Quarantine (ctx_Config ctx)) then returnE (False, False, False)
     else bindE (tryE (IsUserAdmin xq (rq_Host r) user r)) (\<lambda>res.
       returnE (case res of Inl _ \<Rightarrow> (False, False, False) | Inr isLocalAdmin \<Rightarrow> (isLocalAdmin, False, isLocalAdmin)))) ?Q (\<lambda>_. seen w0)"
    by (cases "IsRepoAdmin (cfg w0) user"; cases "qr_AllowLocalAdmins (Quarantine (ctx_Config ctx))"; simp)
      (rule hoare_return hoare_bind [OF ask]; auto split: sum.split intro!: hoare_return)+
qed

lemma hoare_with_quarantine_info:
  assumes "sound w0" "rq_Host r \<noteq> []"
    and "\<And>other. (\<And>these. hoare (seen w0) (performQuarantineRequest ctx (rq_Host r) other these)
          (\<lambda>_. keeps (may_quarantine xq r ctx user w0) w0) (\<lambda>_. keeps (may_quarantine xq r ctx user w0) w0)) \<Longrightarrow>
        hoare (seen w0) (k other) (\<lambda>_. keeps (may_quarantine xq r ctx user w0) w0) (\<lambda>_. keeps (may_quarantine xq r ctx user w0) w0)"
  shows "hoare (seen w0) (with_quarantine_info xq r ctx user k)
     (\<lambda>_. keeps (may_quarantine xq r ctx user w0) w0) (\<lambda>_. keeps (may_quarantine xq r ctx user w0) w0)"
    (is "hoare _ _ (\<lambda>_. ?K) _")
  unfolding with_quarantine_info_def
proof (rule hoare_bind)
  let ?R = "\<lambda>p. fst p \<longrightarrow> IsRepoAdmin (cfg w0) user \<or>
        \<not> fst (snd p) \<and> qr_AllowLocalAdmins (Quarantine (ctx_Config ctx)) \<and> local_admin xq (rq_Host r) user r"
  show "hoare (seen w0) (getQuarantineRequestInfo xq r ctx user) (\<lambda>p w. seen w0 w \<and> ?R p) (\<lambda>_. ?K)"
    by (rule hoare_weaken [OF hoare_quarantine_info]) (auto intro: seen_keeps)
  fix p :: "bool \<times> bool \<times> bool"
  show "hoare (\<lambda>w. seen w0 w \<and> ?R p)
      (case p of (canQuarantine, allowOtherHosts, _) \<Rightarrow> if \<not> canQuarantine then returnE AuthFailed else k allowOtherHosts)
      (\<lambda>_. ?K) (\<lambda>_. ?K)"
  proof (rule hoare_pure)
    assume status: "fst p \<longrightarrow> IsRepoAdmin (cfg w0) user \<or>
        \<not> fst (snd p) \<and> qr_AllowLocalAdmins (Quarantine (ctx_Config ctx)) \<and> local_admin xq (rq_Host r) user r"
    show "hoare (seen w0) (case p of (canQuarantine, allowOtherHosts, _) \<Rightarrow> if \<not> canQuarantine then returnE AuthFailed else k allowOtherHosts)
      (\<lambda>_. ?K) (\<lambda>_. ?K)"
    proof (cases "fst p")
      case True
      with status have "in_scope (if fst (snd p) then '''' else rq_Host r) (tbl_attributes w0) m \<Longrightarrow> may_quarantine xq r ctx user w0 m" for m
        using assms(2) by (auto simp: in_scope_def may_quarantine_def split: if_splits)
      from assms(3) [OF hoare_performQuarantine [OF assms(1) this]] True show ?thesis by (cases p) auto
    next
      case False
      then show ?thesis by (cases p) (auto intro: keeps_return)
    qed
  qed
qed

definition quarantine_handlers :: "admin_externals \<Rightarrow> user_generator set" where
  "quarantine_handlers xq =
     {QuarantineRoomMedia xq, QuarantineUserMedia xq, QuarantineDomainMedia xq, custom_QuarantineMedia xq}"

lemma hoare_quarantine_handlers:
  assumes "gen \<in> quarantine_handlers xq" "sound w0" "rq_Host r \<noteq> []"
  shows "hoare (seen w0) (gen r ctx user) (\<lambda>_. keeps (may_quarantine xq r ctx user w0) w0) (\<lambda>_. keeps (may_quarantine xq r ctx user w0) w0)"
proof -
  let ?ok = "\<lambda>m. hoare (seen w0) m (\<lambda>_. keeps (may_quarantine xq r ctx user w0) w0) (\<lambda>_. keeps (may_quarantine xq r ctx user w0) w0)"
  note start = hoare_with_quarantine_info [OF assms(2,3)]
  have "?ok (QuarantineRoomMedia xq r ctx user)"
    unfolding QuarantineRoomMedia_def
    by (rule start, rule hoare_or_fail [OF hoare_seen_preserves [OF ListMedia_seen]]) (auto intro: seen_keeps)
  moreover have "?ok (QuarantineUserMedia xq r ctx user)"
    unfolding QuarantineUserMedia_def Let_def scan_defs
    by (rule start) (auto intro!: keeps_return hoare_or_fail [OF hoare_scanRows] seen_keeps split: sum.split)
  moreover have "?ok (QuarantineDomainMedia xq r ctx user)"
    unfolding QuarantineDomainMedia_def Let_def scan_defs
    by (rule start) (auto intro!: keeps_return hoare_or_fail [OF hoare_scanRows] seen_keeps)
  moreover have "?ok (custom_QuarantineMedia xq r ctx user)"
    unfolding custom_QuarantineMedia_def Let_def
    by (rule start) (auto intro: keeps_return)
  ultimately show ?thesis using assms(1) by (auto simp: quarantine_handlers_def)
qed

section \<open>Both families\<close>

interpretation purging: guarded_handlers "purge_handlers xq" "may_purge xq" for xq
proof unfold_locales
  fix gen :: user_generator and w w' r ctx user res
  assume "gen \<in> purge_handlers xq" "sound w" "rq_Host r \<noteq> []" "gen r ctx user w = (res, w')"
  then show "keeps (may_purge xq r ctx user w) w w'"
    by (cases res) (auto dest: hoareD_Inr [OF hoare_purge_handlers seen_refl] hoareD_Inl [OF hoare_purge_handlers seen_refl])
qed (auto simp: may_purge_def seen_def)

interpretation quarantining: guarded_handlers "quarantine_handlers xq" "may_quarantine xq" for xq
proof unfold_locales
  fix gen :: user_generator and w w' r ctx user res
  assume "gen \<in> quarantine_handlers xq" "sound w" "rq_Host r \<noteq> []" "gen r ctx user w = (res, w')"
  then show "keeps (may_quarantine xq r ctx user w) w w'"
    by (cases res) (auto dest: hoareD_Inr [OF hoare_quarantine_handlers seen_refl] hoareD_Inl [OF hoare_quarantine_handlers seen_refl])
qed (auto simp: may_quarantine_def seen_def purge_base_def)

text \<open>
  C27: From the request to the rows: when a purge endpoint or a quarantine endpoint behind
  \<open>RequireAccessToken\<close> removes a media row, changes it or takes its file away, whatever
  fails on the way, the request carried the token of an authenticated user who is an
  administrator of the repository, or whom the homeserver of the request's host names as
  its administrator while the media belongs to that host, or, for purges only, who
  uploaded the media.
\<close>

theorem moderation_authorised:
  assumes "gen \<in> purge_handlers xq \<union> quarantine_handlers xq" and "sound w" and "rq_Host r \<noteq> ''''"
    and "RequireAccessToken (xq_auth xq) gen allowGuests r ctx w = (res, w')"
    and "m \<in> set (tbl_media w)" and "m \<notin> set (tbl_media w') \<or> objects w' (loc_of m) \<noteq> objects w (loc_of m)"
  shows "\<exists>user w1. authenticated_as (xq_auth xq) r ctx user w w1 \<and>
     (IsRepoAdmin (cfg w) user \<or> local_admin xq (rq_Host r) user r \<and> m_Origin m = rq_Host r \<or>
      gen \<in> purge_handlers xq \<and> m_UserId m = u_UserId user)"
proof (cases "gen \<in> purge_handlers xq")
  case True
  have named: "u_UserId user \<noteq> []" if "authenticated_as (xq_auth xq) r ctx user w w1" for user w1
    using that by (simp add: authenticated_as_def Let_def)
  from purging.only_authorised [OF True assms(2-5)] assms(6) True named show ?thesis
    by (fastforce simp: kept_def may_purge_def)
next
  case False
  with assms(1) have "gen \<in> quarantine_handlers xq" by blast
  from quarantining.only_authorised [OF this assms(2-5)] assms(6) show ?thesis
    by (fastforce simp: kept_def may_quarantine_def)
qed

definition demo_xp :: api_externals where
  "demo_xp = \<lparr>xp_upload = demo_xt, xp_thumb = dl_externals.extend demo_xd (thumb_externals.fields [] (\<lambda>b. Inr ''image/png'')),
     xp_auth = demo_xa, xp_reply = demo_xr, xp_requestIP = (\<lambda>r. ''ip''), xp_ListMedia = (\<lambda>host token room ip. Inr ([''mxc://a.org/one''], [])),
     xp_decodePurpose = (\<lambda>b. Inr (Some PurposePinned))\<rparr>"

definition demo_xv :: archive_externals where
  "demo_xv = \<lparr>xv_pack = (\<lambda>n es t. n), xv_unpack = (\<lambda>b. ([], None)), xv_encode = (\<lambda>m. mf_EntityId m), xv_decode = (\<lambda>b. Inr None),
     xv_index = (\<lambda>i e ms. ('''', None)), xv_Detect = (\<lambda>s. Inr ''.bin''), xv_sha = (\<lambda>b. b), xv_urlOf = (\<lambda>s. ''''), xv_hostOf = (\<lambda>s. '''')\<rparr>"

definition demo_xq :: admin_externals where
  "demo_xq = \<lparr>xq_api = demo_xp, xq_archive = demo_xv, xq_machineId = 0, xq_Error = (\<lambda>e. ''error''), xq_Path = rq_RequestURI,
     xq_params = (\<lambda>p. JNull), xq_viewExport = (\<lambda>i e ps. Inr ''''), xq_serverUrl = (\<lambda>s. Inr (s, s)),
     xq_federationVersion = (\<lambda>u h s. Inr None), xq_clientVersions = (\<lambda>h t u i. Inr (None, [])), xq_md5 = id,
     xq_identicon = (\<lambda>a b h. h), xq_imageSize = (\<lambda>b. None), xq_audioInfo = (\<lambda>t b. [])\<rparr>"

definition purge_request :: http_request where
  "purge_request = demo_request\<lparr>rq_Method := ''POST'', rq_Params := [(''server'', ''a.org''), (''mediaId'', ''one'')]\<rparr>"

lemma purge_request_run:
  "fst (RequireAccessToken (xq_auth demo_xq) (PurgeIndividualRecord demo_xq) False purge_request demo_ctx demo_world) =
     Inr (no_cache (JObj [(''purged'', JBool True)]))"
  "map m_MediaId (tbl_media (snd (RequireAccessToken (xq_auth demo_xq) (PurgeIndividualRecord demo_xq) False purge_request demo_ctx demo_world))) =
     [''two'', ''three'']"
  by code_simp+

lemma demo_sound: "sound demo_world"
  by (simp add: sound_def in_int64_def)

theorem moderation_authorised_witness:
  "\<exists>user w1. authenticated_as demo_xa purge_request demo_ctx user demo_world w1 \<and>
     (IsRepoAdmin (cfg demo_world) user \<or> local_admin demo_xq ''a.org'' user purge_request \<or> u_UserId user = ''@u:a.org'')"
proof -
  let ?run = "RequireAccessToken (xq_auth demo_xq) (PurgeIndividualRecord demo_xq) False purge_request demo_ctx demo_world"
  have gone: "demo_m1 \<notin> set (tbl_media (snd ?run))"
  proof
    assume "demo_m1 \<in> set (tbl_media (snd ?run))"
    then have "m_MediaId demo_m1 \<in> set (map m_MediaId (tbl_media (snd ?run)))"
      by simp
    then show False
      by (simp add: purge_request_run(2) del: set_map) (simp add: demo_m1_def)
  qed
  note gone
  moreover have "PurgeIndividualRecord demo_xq \<in> purge_handlers demo_xq \<union> quarantine_handlers demo_xq"
    by (simp add: purge_handlers_def)
  moreover have "rq_Host purge_request = ''a.org''" "xq_auth demo_xq = demo_xa"
    by (simp_all add: purge_request_def demo_request_def demo_xq_def demo_xp_def)
  ultimately show ?thesis
    using moderation_authorised [OF _ demo_sound _ prod.collapse [symmetric], of "PurgeIndividualRecord demo_xq" demo_xq purge_request demo_m1]
    by (fastforce simp: demo_m1_def)
qed

end
