(* ===== verification/Keys.thy ===== *)
theory Keys
  imports GoStd
begin

text \<open>
  The files of signing keys that the repository and homeservers use
  (\<^verbatim>\<open>homeserver_interop/*/signing_key.go\<close>, \<^verbatim>\<open>homeserver_interop/internal\<close>): three formats,
  their encoders and decoders, and the decoder that detects the format.

  A private key is its seed followed by its public key, as in \<^verbatim>\<open>crypto/ed25519\<close>.  The public
  key of a seed, unpadded base64 and PEM are parameters; \<open>kx_pemDecode\<close> finds the next block
  of a text, as \<open>pem.Decode\<close> does, and leaves the rest.
\<close>

record pem_block =
  pem_Type :: string
  pem_Headers :: "(string \<times> string) list"
  pem_Bytes :: string

record key_externals =
  kx_public :: "string \<Rightarrow> string"
  kx_encode64 :: "string \<Rightarrow> string"
  kx_decode64 :: "string \<Rightarrow> goerr + string"
  kx_pemEncode :: "pem_block \<Rightarrow> string"
  kx_pemDecode :: "string \<Rightarrow> pem_block option \<times> string"

record SigningKey =
  key_PrivateKey :: string
  key_KeyVersion :: string

definition Seed :: "SigningKey \<Rightarrow> string" where
  "Seed k = take 32 (key_PrivateKey k)"

text \<open>\<open>ed25519.GenerateKey\<close> reads 32 bytes of its source.\<close>

definition key_from :: "key_externals \<Rightarrow> string \<Rightarrow> goerr + string" where
  "key_from kx source =
     (if length source < 32 then Inl (ErrOther ''unexpected EOF'') else Inr (take 32 source @ kx_public kx (take 32 source)))"

section \<open>signing\_key.go\<close>

text \<open>
  The random source gives a private key of 64 bytes and a version.  What is kept of the key is
  its end, which is the public key.
\<close>

definition GenerateSigningKey :: "string \<Rightarrow> string \<Rightarrow> SigningKey" where
  "GenerateSigningKey priv keyVersion = \<lparr>key_PrivateKey = drop (length priv - 32) priv, key_KeyVersion = keyVersion\<rparr>"

lemma GenerateSigningKey_public: "length pub = 32 \<Longrightarrow> Seed (GenerateSigningKey (seed @ pub) v) = pub"
  by (simp add: GenerateSigningKey_def Seed_def)

section \<open>internal/signing\_key\_encode.go\<close>

fun EncodeNewlineAppendFormattedSigningKeys :: "(SigningKey \<Rightarrow> goerr + string) \<Rightarrow> SigningKey list \<Rightarrow> goerr + string" where
  "EncodeNewlineAppendFormattedSigningKeys encodeFn [] = Inr []"
| "EncodeNewlineAppendFormattedSigningKeys encodeFn (k # ks) =
     (case encodeFn k of
        Inl err \<Rightarrow> Inl err
      | Inr b \<Rightarrow>
          if b = [] then Inl (Panic ''index out of range [-1]'')
          else case EncodeNewlineAppendFormattedSigningKeys encodeFn ks of
            Inl err \<Rightarrow> Inl err
          | Inr bs \<Rightarrow> Inr (b @ (if last b \<noteq> CHR 0x0A \<and> ks \<noteq> [] then [CHR 0x0A] else []) @ bs))"

text \<open>The first of the keys that a decoder finds; a file without keys is not an error for all of them.\<close>

definition first_key :: "goerr + SigningKey list \<Rightarrow> goerr + SigningKey" where
  "first_key res =
     (case res of
        Inl err \<Rightarrow> Inl err
      | Inr [] \<Rightarrow> Inl (Panic ''index out of range [0] with length 0'')
      | Inr (k # _) \<Rightarrow> Inr k)"

section \<open>synapse/signing\_key.go\<close>

definition synapse_EncodeSigningKey :: "key_externals \<Rightarrow> SigningKey \<Rightarrow> goerr + string" where
  "synapse_EncodeSigningKey kx k = Inr (''ed25519 '' @ key_KeyVersion k @ '' '' @ kx_encode64 kx (Seed k))"

fun synapse_lines :: "key_externals \<Rightarrow> string list \<Rightarrow> goerr + SigningKey list" where
  "synapse_lines kx [] = Inr []"
| "synapse_lines kx (line # ls) =
     (if line = [] then synapse_lines kx ls
      else case str_split (CHR '' '') line of
        [alg, keyVersion, keyB64] \<Rightarrow>
          if alg \<noteq> ''ed25519'' then Inl (ErrOther ''expected ed25519 signing key'')
          else (case kx_decode64 kx keyB64 of
            Inl err \<Rightarrow> Inl err
          | Inr keyBytes \<Rightarrow> (case key_from kx keyBytes of
              Inl err \<Rightarrow> Inl err
            | Inr priv \<Rightarrow> map_sum id (\<lambda>ks. \<lparr>key_PrivateKey = priv, key_KeyVersion = keyVersion\<rparr> # ks) (synapse_lines kx ls)))
      | _ \<Rightarrow> Inl (ErrOther ''expected 3 parts to signing key''))"

definition synapse_DecodeAllSigningKeys :: "key_externals \<Rightarrow> string \<Rightarrow> goerr + SigningKey list" where
  "synapse_DecodeAllSigningKeys kx b = synapse_lines kx (str_split (CHR 0x0A) b)"

definition synapse_EncodeAllSigningKeys :: "key_externals \<Rightarrow> SigningKey list \<Rightarrow> goerr + string" where
  "synapse_EncodeAllSigningKeys kx = EncodeNewlineAppendFormattedSigningKeys (synapse_EncodeSigningKey kx)"

definition synapse_DecodeSigningKey :: "key_externals \<Rightarrow> string \<Rightarrow> goerr + SigningKey" where
  "synapse_DecodeSigningKey kx b = first_key (synapse_DecodeAllSigningKeys kx b)"

section \<open>dendrite/signing\_key.go, mmr/signing\_key.go\<close>

definition dendrite_blockType :: string where "dendrite_blockType = ''MATRIX PRIVATE KEY''"
definition mmr_blockType :: string where "mmr_blockType = ''MMR PRIVATE KEY''"

definition dendrite_block :: "SigningKey \<Rightarrow> pem_block" where
  "dendrite_block k =
     \<lparr>pem_Type = dendrite_blockType, pem_Headers = [(''Key-ID'', ''ed25519:'' @ key_KeyVersion k)], pem_Bytes = Seed k\<rparr>"

definition mmr_block :: "SigningKey \<Rightarrow> pem_block" where
  "mmr_block k =
     \<lparr>pem_Type = mmr_blockType, pem_Headers = [(''Key-ID'', ''ed25519:'' @ key_KeyVersion k), (''Version'', ''1'')], pem_Bytes = Seed k\<rparr>"

definition dendrite_EncodeSigningKey :: "key_externals \<Rightarrow> SigningKey \<Rightarrow> goerr + string" where
  "dendrite_EncodeSigningKey kx k = Inr (kx_pemEncode kx (dendrite_block k))"

definition mmr_EncodeSigningKey :: "key_externals \<Rightarrow> SigningKey \<Rightarrow> goerr + string" where
  "mmr_EncodeSigningKey kx k = Inr (kx_pemEncode kx (mmr_block k))"

text \<open>The key of a block; a missing header reads as the empty string.\<close>

definition header :: "pem_block \<Rightarrow> string \<Rightarrow> string" where
  "header b k = (case map_of (pem_Headers b) k of None \<Rightarrow> '''' | Some v \<Rightarrow> v)"

definition block_key :: "key_externals \<Rightarrow> pem_block \<Rightarrow> goerr + SigningKey" where
  "block_key kx b =
     (let keyId = header b ''Key-ID'' in
      if keyId = [] then Inl (ErrOther ''missing Key-ID header'')
      else if \<not> HasPrefix keyId ''ed25519:'' then Inl (ErrOther (''key ID '' @ keyId @ '' does not denote an ed25519 private key''))
      else map_sum id (\<lambda>priv. \<lparr>key_PrivateKey = priv, key_KeyVersion = drop 8 keyId\<rparr>) (key_from kx (pem_Bytes b)))"

definition mmr_block_key :: "key_externals \<Rightarrow> pem_block \<Rightarrow> goerr + SigningKey" where
  "mmr_block_key kx b =
     (if header b ''Version'' \<noteq> ''1'' then Inl (ErrOther ''unsupported MMR key format version'') else block_key kx b)"

text \<open>
  The loop over the blocks of a file.  A block takes at least one byte of the text, so the
  length of the text bounds the number of rounds.
\<close>

fun pem_keys ::
  "key_externals \<Rightarrow> string \<Rightarrow> (pem_block \<Rightarrow> goerr + SigningKey) \<Rightarrow> nat \<Rightarrow> string \<Rightarrow> SigningKey list \<Rightarrow> goerr + SigningKey list" where
  "pem_keys kx type' keyFn 0 b keys = Inl (ErrOther ''out of fuel'')"
| "pem_keys kx type' keyFn (Suc n) b keys =
     (case kx_pemDecode kx b of
        (None, rest) \<Rightarrow>
          if keys = [] \<or> rest \<noteq> [] then Inl (ErrOther ''unable to read suitable block from PEM file'') else Inr keys
      | (Some block, rest) \<Rightarrow>
          if pem_Type block \<noteq> type' then pem_keys kx type' keyFn n rest keys
          else case keyFn block of Inl err \<Rightarrow> Inl err | Inr k \<Rightarrow> pem_keys kx type' keyFn n rest (keys @ [k]))"

definition dendrite_DecodeAllSigningKeys :: "key_externals \<Rightarrow> string \<Rightarrow> goerr + SigningKey list" where
  "dendrite_DecodeAllSigningKeys kx b = pem_keys kx dendrite_blockType (block_key kx) (Suc (length b)) b []"

definition mmr_DecodeAllSigningKeys :: "key_externals \<Rightarrow> string \<Rightarrow> goerr + SigningKey list" where
  "mmr_DecodeAllSigningKeys kx b = pem_keys kx mmr_blockType (mmr_block_key kx) (Suc (length b)) b []"

definition dendrite_EncodeAllSigningKeys :: "key_externals \<Rightarrow> SigningKey list \<Rightarrow> goerr + string" where
  "dendrite_EncodeAllSigningKeys kx = EncodeNewlineAppendFormattedSigningKeys (dendrite_EncodeSigningKey kx)"

definition mmr_EncodeAllSigningKeys :: "key_externals \<Rightarrow> SigningKey list \<Rightarrow> goerr + string" where
  "mmr_EncodeAllSigningKeys kx = EncodeNewlineAppendFormattedSigningKeys (mmr_EncodeSigningKey kx)"

definition dendrite_DecodeSigningKey :: "key_externals \<Rightarrow> string \<Rightarrow> goerr + SigningKey" where
  "dendrite_DecodeSigningKey kx b = first_key (dendrite_DecodeAllSigningKeys kx b)"

definition mmr_DecodeSigningKey :: "key_externals \<Rightarrow> string \<Rightarrow> goerr + SigningKey" where
  "mmr_DecodeSigningKey kx b = first_key (mmr_DecodeAllSigningKeys kx b)"

section \<open>any\_server/signing\_key.go\<close>

definition any_DecodeAllSigningKeys :: "key_externals \<Rightarrow> string \<Rightarrow> goerr + SigningKey list" where
  "any_DecodeAllSigningKeys kx b =
     (case synapse_DecodeAllSigningKeys kx b of
        Inr keys \<Rightarrow> Inr keys
      | Inl _ \<Rightarrow> (case dendrite_DecodeAllSigningKeys kx b of
          Inr keys \<Rightarrow> Inr keys
        | Inl _ \<Rightarrow> (case mmr_DecodeAllSigningKeys kx b of
            Inr keys \<Rightarrow> Inr keys
          | Inl _ \<Rightarrow> Inl (ErrOther ''unable to detect signing key format''))))"

definition any_DecodeSigningKey :: "key_externals \<Rightarrow> string \<Rightarrow> goerr + SigningKey" where
  "any_DecodeSigningKey kx b = first_key (any_DecodeAllSigningKeys kx b)"

section \<open>A file of keys is read back\<close>

text \<open>
  The contract of a format: it reads a key that it has written, alone or before other keys.
\<close>

locale key_format =
  fixes encodeFn :: "SigningKey \<Rightarrow> goerr + string"
    and decodeAll :: "string \<Rightarrow> goerr + SigningKey list"
    and valid :: "SigningKey \<Rightarrow> bool"
  assumes decode_one: "valid k \<Longrightarrow> \<exists>b. encodeFn k = Inr b \<and> b \<noteq> [] \<and> decodeAll b = Inr [k]"
    and decode_more: "valid k \<Longrightarrow> encodeFn k = Inr b \<Longrightarrow> decodeAll rest = Inr ks \<Longrightarrow> ks \<noteq> [] \<Longrightarrow>
      decodeAll (b @ (if last b \<noteq> CHR 0x0A then [CHR 0x0A] else []) @ rest) = Inr (k # ks)"
begin

lemma decode_encode_all:
  assumes "ks \<noteq> []" "\<forall>k \<in> set ks. valid k"
  shows "\<exists>b. EncodeNewlineAppendFormattedSigningKeys encodeFn ks = Inr b \<and> decodeAll b = Inr ks"
  using assms
proof (induction ks)
  case (Cons k ks)
  obtain b where b: "encodeFn k = Inr b" "b \<noteq> []" "decodeAll b = Inr [k]"
    using Cons.prems decode_one by auto
  show ?case
  proof (cases "ks = []")
    case True
    with b show ?thesis by simp
  next
    case False
    with Cons obtain bs where "EncodeNewlineAppendFormattedSigningKeys encodeFn ks = Inr bs" "decodeAll bs = Inr ks"
      by auto
    with b False Cons.prems decode_more [of k b bs ks] show ?thesis by auto
  qed
qed simp

lemma first_of_all:
  assumes "ks \<noteq> []" "\<forall>k \<in> set ks. valid k" "EncodeNewlineAppendFormattedSigningKeys encodeFn ks = Inr b"
  shows "first_key (decodeAll b) = Inr (hd ks)"
  using decode_encode_all [OF assms(1,2)] assms(1,3) by (auto simp: first_key_def neq_Nil_conv)

end

text \<open>A key as the decoders make them, whose parts the formats can write.\<close>

definition key_ok :: "key_externals \<Rightarrow> SigningKey \<Rightarrow> bool" where
  "key_ok kx k \<longleftrightarrow> length (Seed k) = 32 \<and> key_PrivateKey k = Seed k @ kx_public kx (Seed k)"

definition synapse_ok :: "key_externals \<Rightarrow> SigningKey \<Rightarrow> bool" where
  "synapse_ok kx k \<longleftrightarrow> key_ok kx k \<and> kx_decode64 kx (kx_encode64 kx (Seed k)) = Inr (Seed k) \<and>
     set (key_KeyVersion k) \<inter> {CHR '' '', CHR 0x0A} = {} \<and> set (kx_encode64 kx (Seed k)) \<inter> {CHR '' '', CHR 0x0A} = {}"

definition pem_ok :: "key_externals \<Rightarrow> pem_block \<Rightarrow> bool" where
  "pem_ok kx block \<longleftrightarrow>
     kx_pemDecode kx [] = (None, []) \<and> (\<forall>rest. kx_pemDecode kx (kx_pemEncode kx block @ rest) = (Some block, rest)) \<and>
     (\<exists>body. kx_pemEncode kx block = ''-----BEGIN '' @ pem_Type block @ ''-----'' @ [CHR 0x0A] @ body @ [CHR 0x0A])"

lemma key_eta [simp]: "\<lparr>key_PrivateKey = key_PrivateKey k, key_KeyVersion = key_KeyVersion k\<rparr> = k"
  by (cases k) simp

lemma block_types [simp]: "pem_Type (dendrite_block k) = dendrite_blockType" "pem_Type (mmr_block k) = mmr_blockType"
  by (simp_all add: dendrite_block_def mmr_block_def)

lemma key_from_seed: "key_ok kx k \<Longrightarrow> key_from kx (Seed k) = Inr (key_PrivateKey k)"
  by (simp add: key_ok_def key_from_def)

lemma block_key_dendrite: "key_ok kx k \<Longrightarrow> block_key kx (dendrite_block k) = Inr k"
  by (simp add: block_key_def header_def dendrite_block_def HasPrefix_def key_from_seed)

lemma block_key_mmr: "key_ok kx k \<Longrightarrow> mmr_block_key kx (mmr_block k) = Inr k"
  by (simp add: mmr_block_key_def block_key_def header_def mmr_block_def HasPrefix_def key_from_seed)

lemma synapse_line:
  assumes "synapse_ok kx k" "synapse_EncodeSigningKey kx k = Inr b"
  shows "CHR 0x0A \<notin> set b" "b \<noteq> []"
    and "synapse_lines kx (b # ls) = map_sum id (\<lambda>ks. k # ks) (synapse_lines kx ls)"
proof -
  have b: "b = ''ed25519'' @ CHR '' '' # key_KeyVersion k @ CHR '' '' # kx_encode64 kx (Seed k)"
    using assms(2) by (simp add: synapse_EncodeSigningKey_def)
  show "CHR 0x0A \<notin> set b" "b \<noteq> []" using assms(1) by (auto simp: b synapse_ok_def)
  have "str_split (CHR '' '') b = [''ed25519'', key_KeyVersion k, kx_encode64 kx (Seed k)]"
    unfolding b using assms(1)
    by (subst str_split_append, simp, subst str_split_append) (auto simp: synapse_ok_def str_split_no_sep)
  then show "synapse_lines kx (b # ls) = map_sum id (\<lambda>ks. k # ks) (synapse_lines kx ls)"
    using assms(1) \<open>b \<noteq> []\<close> key_from_seed [of kx k] by (simp add: synapse_ok_def)
qed

lemma last_not_in: "c \<notin> set b \<Longrightarrow> b \<noteq> [] \<Longrightarrow> last b \<noteq> c"
  by auto

interpretation synapse: key_format "synapse_EncodeSigningKey kx" "synapse_DecodeAllSigningKeys kx" "synapse_ok kx" for kx
proof
  fix k assume ok: "synapse_ok kx k"
  let ?b = "''ed25519 '' @ key_KeyVersion k @ '' '' @ kx_encode64 kx (Seed k)"
  have enc: "synapse_EncodeSigningKey kx k = Inr ?b" by (simp add: synapse_EncodeSigningKey_def)
  show "\<exists>b. synapse_EncodeSigningKey kx k = Inr b \<and> b \<noteq> [] \<and> synapse_DecodeAllSigningKeys kx b = Inr [k]"
    using synapse_line(1,2) [OF ok enc] synapse_line(3) [OF ok enc, of "[]"] enc by (simp add: synapse_DecodeAllSigningKeys_def str_split_no_sep del: synapse_lines.simps(2))
next
  fix k b rest ks
  assume "synapse_ok kx k" "synapse_EncodeSigningKey kx k = Inr b" "synapse_DecodeAllSigningKeys kx rest = Inr ks" "ks \<noteq> []"
  then show "synapse_DecodeAllSigningKeys kx (b @ (if last b \<noteq> CHR 0x0A then [CHR 0x0A] else []) @ rest) = Inr (k # ks)"
    using synapse_line(1,2) [of kx k b] synapse_line(3) [of kx k b "str_split (CHR 0x0A) rest"] last_not_in [of "CHR 0x0A" b]
    by (simp add: synapse_DecodeAllSigningKeys_def str_split_append del: synapse_lines.simps(2))
qed

text \<open>The rounds of the loop over blocks: enough fuel, and keys found before.\<close>

lemma pem_keys_more:
  "pem_keys kx t f n b acc = Inr ks \<Longrightarrow> n \<le> n' \<Longrightarrow> pem_keys kx t f n' b (pre @ acc) = Inr (pre @ ks)"
proof (induction n arbitrary: b acc n')
  case (Suc n)
  then obtain m where m: "n' = Suc m" "n \<le> m" by (metis Suc_le_D Suc_le_mono)
  obtain block rest where dec: "kx_pemDecode kx b = (block, rest)" by (cases "kx_pemDecode kx b")
  show ?case
  proof (cases block)
    case None
    with Suc.prems dec m show ?thesis by (auto split: if_splits)
  next
    case (Some x)
    with Suc.prems dec m Suc.IH [OF _ m(2), of rest acc] Suc.IH [OF _ m(2), of rest "acc @ [k]" for k]
    show ?thesis by (auto split: if_splits sum.splits)
  qed
qed simp

lemma pem_keys_block:
  assumes "pem_ok kx block" "pem_Type block = t" "f block = Inr k"
  shows "pem_keys kx t f (Suc (length (kx_pemEncode kx block))) (kx_pemEncode kx block) [] = Inr [k]"
    and "pem_keys kx t f (Suc (length rest)) rest [] = Inr ks \<Longrightarrow>
      pem_keys kx t f (Suc (length (kx_pemEncode kx block @ rest))) (kx_pemEncode kx block @ rest) [] = Inr (k # ks)"
proof -
  have dec: "kx_pemDecode kx (kx_pemEncode kx block @ r) = (Some block, r)" "kx_pemDecode kx [] = (None, [])" for r
    using assms(1) by (simp_all add: pem_ok_def)
  obtain n where n: "length (kx_pemEncode kx block) = Suc n"
    using assms(1) by (auto simp: pem_ok_def)
  show "pem_keys kx t f (Suc (length (kx_pemEncode kx block))) (kx_pemEncode kx block) [] = Inr [k]"
    using dec(1) [of "[]"] dec(2) assms n by simp
  assume "pem_keys kx t f (Suc (length rest)) rest [] = Inr ks"
  then have "pem_keys kx t f (length (kx_pemEncode kx block @ rest)) rest ([k] @ []) = Inr ([k] @ ks)"
    by (rule pem_keys_more) (simp add: n)
  then show "pem_keys kx t f (Suc (length (kx_pemEncode kx block @ rest))) (kx_pemEncode kx block @ rest) [] = Inr (k # ks)"
    using dec(1) [of rest] assms by simp
qed

lemma pem_last: "pem_ok kx block \<Longrightarrow> kx_pemEncode kx block \<noteq> [] \<and> last (kx_pemEncode kx block) = CHR 0x0A"
  by (auto simp: pem_ok_def)

lemma pem_format:
  assumes "\<And>k. valid k \<Longrightarrow> pem_ok kx (blk k) \<and> pem_Type (blk k) = t \<and> f (blk k) = Inr k"
  shows "key_format (\<lambda>k. Inr (kx_pemEncode kx (blk k))) (\<lambda>b. pem_keys kx t f (Suc (length b)) b []) valid"
proof
  fix k assume "valid k"
  with assms show "\<exists>b. Inr (kx_pemEncode kx (blk k)) = (Inr b :: goerr + string) \<and> b \<noteq> [] \<and>
      pem_keys kx t f (Suc (length b)) b [] = Inr [k]"
    using pem_keys_block(1) [of kx "blk k" t f k] pem_last [of kx "blk k"] by (auto simp del: pem_keys.simps)
next
  fix k b rest ks
  assume "valid k" "Inr (kx_pemEncode kx (blk k)) = (Inr b :: goerr + string)"
    "pem_keys kx t f (Suc (length rest)) rest [] = Inr ks"
  with assms show "pem_keys kx t f (Suc (length (b @ (if last b \<noteq> CHR 0x0A then [CHR 0x0A] else []) @ rest)))
      (b @ (if last b \<noteq> CHR 0x0A then [CHR 0x0A] else []) @ rest) [] = Inr (k # ks)"
    using pem_keys_block(2) [of kx "blk k" t f k rest ks] pem_last [of kx "blk k"] by (auto simp del: pem_keys.simps)
qed

interpretation dendrite: key_format "dendrite_EncodeSigningKey kx" "dendrite_DecodeAllSigningKeys kx"
    "\<lambda>k. key_ok kx k \<and> pem_ok kx (dendrite_block k)" for kx
  unfolding dendrite_EncodeSigningKey_def [abs_def] dendrite_DecodeAllSigningKeys_def [abs_def]
  by (rule pem_format) (simp add: block_key_dendrite)

interpretation mmr: key_format "mmr_EncodeSigningKey kx" "mmr_DecodeAllSigningKeys kx"
    "\<lambda>k. key_ok kx k \<and> pem_ok kx (mmr_block k)" for kx
  unfolding mmr_EncodeSigningKey_def [abs_def] mmr_DecodeAllSigningKeys_def [abs_def]
  by (rule pem_format) (simp add: block_key_mmr)

section \<open>The format is detected\<close>

text \<open>A PEM file is no Synapse file: the words of its first line are too many.\<close>

lemma first_line:
  assumes "pem_ok kx block" "pem_Type block \<in> {dendrite_blockType, mmr_blockType}"
  shows "\<exists>err. synapse_DecodeAllSigningKeys kx (kx_pemEncode kx block @ rest) = Inl err"
proof -
  let ?l = "''-----BEGIN '' @ pem_Type block @ ''-----''"
  obtain body where "kx_pemEncode kx block = ?l @ CHR 0x0A # body"
    using assms(1) by (auto simp: pem_ok_def)
  moreover have "str_split (CHR 0x0A) (?l @ CHR 0x0A # r) = ?l # str_split (CHR 0x0A) r" for r
    by (rule str_split_append) (use assms(2) in \<open>auto simp: dendrite_blockType_def mmr_blockType_def\<close>)
  ultimately show ?thesis
    using assms(2) by (auto simp: synapse_DecodeAllSigningKeys_def dendrite_blockType_def mmr_blockType_def)
qed

text \<open>An MMR file is no Dendrite file: it has no block of that type.\<close>

lemma no_block:
  assumes "\<forall>k \<in> set ks. pem_ok kx (mmr_block k)" "kx_pemDecode kx [] = (None, [])"
    "EncodeNewlineAppendFormattedSigningKeys (mmr_EncodeSigningKey kx) ks = Inr b"
  shows "\<exists>err. pem_keys kx dendrite_blockType f n b [] = Inl err"
  using assms(1,3)
proof (induction ks arbitrary: b n)
  case Nil
  with assms(2) show ?case by (cases n) auto
next
  case (Cons k ks)
  then obtain bs where bs: "EncodeNewlineAppendFormattedSigningKeys (mmr_EncodeSigningKey kx) ks = Inr bs"
      "b = kx_pemEncode kx (mmr_block k) @ bs"
    using pem_last [of kx "mmr_block k"] mmr_EncodeSigningKey_def [of kx k] by (auto split: sum.splits if_splits)
  moreover have "kx_pemDecode kx b = (Some (mmr_block k), bs)" "pem_Type (mmr_block k) \<noteq> dendrite_blockType"
    using Cons.prems(1) bs(2) by (simp_all add: pem_ok_def) (simp add: mmr_blockType_def dendrite_blockType_def)
  ultimately show ?case using Cons by (cases n) auto
qed

text \<open>
  C28: A list of keys that is written in one of the three formats is read back, by the decoder
  of the format and by the decoder that detects the format: neither a key nor the order is
  lost, and no format is taken for another one.  Unpadded base64 and PEM are read back as their
  specifications say, and versions have no blanks.
\<close>

theorem signing_keys_roundtrip:
  assumes "ks \<noteq> []" and "\<forall>k \<in> set ks. synapse_ok kx k \<and> pem_ok kx (dendrite_block k) \<and> pem_ok kx (mmr_block k)"
    and "(encodeAll, decodeAll) \<in> {(synapse_EncodeAllSigningKeys, synapse_DecodeAllSigningKeys),
      (dendrite_EncodeAllSigningKeys, dendrite_DecodeAllSigningKeys), (mmr_EncodeAllSigningKeys, mmr_DecodeAllSigningKeys)}"
  shows "\<exists>b. encodeAll kx ks = Inr b \<and> decodeAll kx b = Inr ks \<and> any_DecodeAllSigningKeys kx b = Inr ks \<and>
    any_DecodeSigningKey kx b = Inr (hd ks)"
proof -
  have ok: "\<forall>k \<in> set ks. key_ok kx k" using assms(2) by (simp add: synapse_ok_def)
  obtain k ks' where ks: "ks = k # ks'" using assms(1) by (cases ks) auto
  have pem: "kx_pemDecode kx [] = (None, [])" using assms(2) by (simp add: ks pem_ok_def)
  have not_synapse: "\<exists>err. synapse_DecodeAllSigningKeys kx b = Inl err"
    if "EncodeNewlineAppendFormattedSigningKeys enc ks = Inr b"
      "enc k = Inr (kx_pemEncode kx block)" "pem_ok kx block" "pem_Type block \<in> {dendrite_blockType, mmr_blockType}" for enc b block
    using that first_line [OF that(3,4)] by (auto simp: ks split: sum.splits if_splits)
  have "\<exists>b. encodeAll kx ks = Inr b \<and> decodeAll kx b = Inr ks \<and> any_DecodeAllSigningKeys kx b = Inr ks"
    using assms(3)
  proof (elim insertE)
    assume "(encodeAll, decodeAll) = (synapse_EncodeAllSigningKeys, synapse_DecodeAllSigningKeys)"
    then have [simp]: "encodeAll = synapse_EncodeAllSigningKeys" "decodeAll = synapse_DecodeAllSigningKeys" by simp_all
    show ?thesis
      using synapse.decode_encode_all [OF assms(1), of kx] assms(2)
      by (auto simp: synapse_EncodeAllSigningKeys_def any_DecodeAllSigningKeys_def)
  next
    assume "(encodeAll, decodeAll) = (dendrite_EncodeAllSigningKeys, dendrite_DecodeAllSigningKeys)"
    then have [simp]: "encodeAll = dendrite_EncodeAllSigningKeys" "decodeAll = dendrite_DecodeAllSigningKeys" by simp_all
    show ?thesis
      using dendrite.decode_encode_all [OF assms(1), of kx] assms(2) ok ks
        not_synapse [of "dendrite_EncodeSigningKey kx" _ "dendrite_block k"]
      by (fastforce simp: dendrite_EncodeAllSigningKeys_def any_DecodeAllSigningKeys_def dendrite_EncodeSigningKey_def)
  next
    assume "(encodeAll, decodeAll) = (mmr_EncodeAllSigningKeys, mmr_DecodeAllSigningKeys)"
    then have [simp]: "encodeAll = mmr_EncodeAllSigningKeys" "decodeAll = mmr_DecodeAllSigningKeys" by simp_all
    obtain b where b: "EncodeNewlineAppendFormattedSigningKeys (mmr_EncodeSigningKey kx) ks = Inr b"
        "mmr_DecodeAllSigningKeys kx b = Inr ks"
      using mmr.decode_encode_all [OF assms(1), of kx] assms(2) ok by auto
    moreover have "\<exists>err. synapse_DecodeAllSigningKeys kx b = Inl err"
      using not_synapse [OF b(1), of "mmr_block k"] assms(2) ks by (simp add: mmr_EncodeSigningKey_def)
    moreover have "\<exists>err. dendrite_DecodeAllSigningKeys kx b = Inl err"
      unfolding dendrite_DecodeAllSigningKeys_def by (rule no_block [OF _ pem b(1)]) (use assms(2) in simp)
    ultimately show ?thesis
      by (auto simp: mmr_EncodeAllSigningKeys_def any_DecodeAllSigningKeys_def)
  qed simp
  with ks show ?thesis by (auto simp: any_DecodeSigningKey_def first_key_def)
qed

text \<open>A base64 and a PEM that know one key, for the witness.\<close>

definition demo_key :: SigningKey where
  "demo_key = \<lparr>key_PrivateKey = replicate 32 (CHR ''s''), key_KeyVersion = ''a_1''\<rparr>"

definition demo_pem :: "pem_block \<Rightarrow> string" where
  "demo_pem b = ''-----BEGIN '' @ pem_Type b @ ''-----'' @ [CHR 0x0A] @ ''key'' @ [CHR 0x0A]"

definition demo_kx :: key_externals where
  "demo_kx = \<lparr>kx_public = (\<lambda>s. []), kx_encode64 = id, kx_decode64 = Inr, kx_pemEncode = demo_pem,
     kx_pemDecode = (\<lambda>s.
       if HasPrefix s (demo_pem (dendrite_block demo_key)) then (Some (dendrite_block demo_key), drop (length (demo_pem (dendrite_block demo_key))) s)
       else if HasPrefix s (demo_pem (mmr_block demo_key)) then (Some (mmr_block demo_key), drop (length (demo_pem (mmr_block demo_key))) s)
       else (None, s))\<rparr>"

theorem signing_keys_roundtrip_witness:
  "\<exists>b. mmr_EncodeAllSigningKeys demo_kx [demo_key, demo_key] = Inr b \<and> any_DecodeAllSigningKeys demo_kx b = Inr [demo_key, demo_key]"
proof -
  have "synapse_ok demo_kx demo_key"
    by (simp add: synapse_ok_def key_ok_def Seed_def demo_kx_def demo_key_def)
  moreover have "\<not> HasPrefix (demo_pem (mmr_block demo_key) @ r) (demo_pem (dendrite_block demo_key))" for r
    by (simp add: HasPrefix_def demo_pem_def mmr_blockType_def dendrite_blockType_def)
  then have "pem_ok demo_kx (dendrite_block demo_key)" "pem_ok demo_kx (mmr_block demo_key)"
    unfolding pem_ok_def by (simp_all add: demo_kx_def) (simp_all add: HasPrefix_def demo_pem_def)
  ultimately show ?thesis
    using signing_keys_roundtrip [of "[demo_key, demo_key]" demo_kx mmr_EncodeAllSigningKeys mmr_DecodeAllSigningKeys] by auto
qed

end
