(* ===== verification/Matrix.thy ===== *)
theory Matrix
  imports Auth Archive Keys
begin

text \<open>
  The repository as a client of other servers (\<^verbatim>\<open>matrix/*.go\<close>): connections that avoid the
  denied networks, the discovery of a server's address, requests to homeservers behind
  circuit breakers, and the keys that sign and verify requests between servers.

  The caches and breakers of the package are the fields of \<open>matrix_state\<close>.  The field
  \<open>dialled\<close> has no counterpart in the code: it records the addresses that connections of
  the safe client, and of the oEmbed library in \<open>Preview\<close>, were made to.  A file fetched with
  \<^verbatim>\<open>http.Get\<close> (\<open>well_known\<close>) is not recorded: it is outside of both.  The operating system's resolver, the bytes on the wire, URL
  parsing, the redirect rules of \<^verbatim>\<open>net/http\<close>, the JSON decoder, the circuit breaker, the
  go-cache and Ed25519 are parameters.  No proxy is configured in the environment.
\<close>

section \<open>State and parameters\<close>

record cachedServer =
  cs_url :: string
  cs_hostname :: string

record LocalSigningKey =
  lk_Key :: bytes
  lk_Version :: string

type_synonym ServerSigningKeys = "(string \<times> bytes) list"
type_synonym breaker = "int list"
type_synonym 'a cached = "('a \<times> int \<times> int) option"

record matrix_state =
  apiUrlCache :: "string \<Rightarrow> cachedServer cached"
  signingKeyCache :: "string \<Rightarrow> ServerSigningKeys cached"
  localSigningKeyCache :: "string \<Rightarrow> LocalSigningKey cached"
  breakers :: "string \<Rightarrow> breaker option"
  federationBreakers :: "string \<Rightarrow> breaker option"
  dialled :: "(string \<times> string) list"

type_synonym 'a matrix_io = "(world \<times> matrix_state, 'a) io"

record http_call =
  call_Method :: string
  call_Url :: string
  call_Headers :: "(string \<times> string) list"

record http_reply =
  reply_Status :: int
  reply_Header :: "(string \<times> string) list"
  reply_ContentLength :: int
  reply_Body :: bytes

record ServerKeyResult =
  sk_ServerName :: string
  sk_ValidUntilTs :: int
  sk_VerifyKeys :: "(string \<times> string) list"
  sk_Signatures :: "(string \<times> (string \<times> string) list) list"

record matrix_externals =
  mx_httpOnly :: bool
  mx_unsafe :: bool
  mx_isIP :: "string \<Rightarrow> bool"
  mx_wellKnown :: "string \<Rightarrow> goerr + http_reply"
  mx_serverAddr :: "bytes \<Rightarrow> goerr + string option"
  mx_LookupSRV :: "string \<Rightarrow> string \<Rightarrow> (string \<times> int) list"
  mx_dials :: "string \<Rightarrow> (string \<times> string) list"
  mx_connects :: "string \<times> string \<Rightarrow> bool"
  mx_exchange :: "string \<times> string \<Rightarrow> string option \<Rightarrow> http_call \<Rightarrow> goerr + http_reply"
  mx_redirect :: "http_call \<Rightarrow> http_reply \<Rightarrow> http_call option"
  mx_Scheme :: "string \<Rightarrow> string"
  mx_RequestURI :: "string \<Rightarrow> goerr + string"
  mx_homeserver :: "http_call \<Rightarrow> goerr + http_reply"
  mx_mtxError :: "bytes \<Rightarrow> (string \<times> string) option"
  mx_withQuery :: "string \<Rightarrow> (string \<times> string) list \<Rightarrow> string option"
  mx_PathEscape :: "string \<Rightarrow> string"
  mx_emptyObject :: "bytes \<Rightarrow> goerr + unit"
  mx_whoami :: "bytes \<Rightarrow> goerr + string \<times> bool \<times> bool"
  mx_versions :: "bytes \<Rightarrow> goerr + string list option \<times> (string \<times> bool) list"
  mx_mediaList :: "bytes \<Rightarrow> goerr + string list \<times> string list"
  mx_live :: "int \<Rightarrow> int \<Rightarrow> int \<Rightarrow> bool"
  mx_newBreaker :: "int \<Rightarrow> breaker"
  mx_ready :: "breaker \<Rightarrow> bool"
  mx_after :: "breaker \<Rightarrow> bool \<Rightarrow> breaker"
  mx_sign :: "bytes \<Rightarrow> bytes \<Rightarrow> bytes"
  mx_verify :: "bytes \<Rightarrow> bytes \<Rightarrow> bytes \<Rightarrow> bool"
  mx_keys :: key_externals
  mx_canonical :: "(string \<times> json) list \<Rightarrow> goerr + bytes"
  mx_readFile :: "string \<Rightarrow> goerr + bytes"
  mx_decodeObject :: "bytes \<Rightarrow> goerr + (string \<times> json) list"
  mx_keyInfo :: "(string \<times> json) list \<Rightarrow> goerr + ServerKeyResult"

definition cache_Get :: "matrix_externals \<Rightarrow> (matrix_state \<Rightarrow> string \<Rightarrow> 'a cached) \<Rightarrow> string \<Rightarrow> 'a option matrix_io" where
  "cache_Get mx c k = getsE (\<lambda>(w, s). case c s k of
      None \<Rightarrow> None | Some (v, t, life) \<Rightarrow> if mx_live mx t life (now w) then Some v else None)"

section \<open>http.go\<close>

record HttpClientConfig =
  hc_AllowUnsafeCertificate :: bool
  hc_AllowedCIDRs :: "string list option"
  hc_DeniedCIDRs :: "string list"
  hc_TLSServerName :: string
  hc_FollowRedirects :: bool

fun inRange :: "128 word \<Rightarrow> string list \<Rightarrow> bool" where
  "inRange ip [] = False"
| "inRange ip (cidr # cidrs) =
     (case ParseCIDR cidr of
        None \<Rightarrow> False
      | Some network \<Rightarrow> if Contains network ip then True else inRange ip cidrs)"

definition isAllowed :: "128 word \<Rightarrow> string list \<Rightarrow> string list \<Rightarrow> bool" where
  "isAllowed ip allowed disallowed = (if inRange ip disallowed then False else if inRange ip allowed then True else False)"

definition safeControl :: "HttpClientConfig \<Rightarrow> string \<Rightarrow> string \<Rightarrow> goerr option" where
  "safeControl conf network address =
     (if network \<noteq> ''tcp4'' \<and> network \<noteq> ''tcp6'' then Some (ErrOther (network @ '' is not a safe network type''))
      else case SplitHostPort address of
        Inl err \<Rightarrow> Some (ErrOther (address @ '' is not a valid host/port pair: '' @ err))
      | Inr (host, _) \<Rightarrow> (case ParseIP host of
          None \<Rightarrow> Some (ErrOther (host @ '' is not a valid IP address''))
        | Some ipaddress \<Rightarrow>
            if \<not> isAllowed ipaddress (case hc_AllowedCIDRs conf of None \<Rightarrow> [] | Some l \<Rightarrow> l) (hc_DeniedCIDRs conf)
            then Some (ErrOther (address @ '' is denied'')) else None))"

text \<open>The client: its configuration as amended, and the server name of its TLS configuration, if it has one.\<close>

record http_client =
  cl_Config :: HttpClientConfig
  cl_TLSClientConfig :: "string option"

definition NewHttpClient :: "HttpClientConfig \<Rightarrow> http_client" where
  "NewHttpClient conf =
     (let conf' = conf\<lparr>hc_DeniedCIDRs := hc_DeniedCIDRs conf @ [''0.0.0.0/32'', ''::/128''],
            hc_AllowedCIDRs := Some (case hc_AllowedCIDRs conf of None \<Rightarrow> [''0.0.0.0/0''] | Some l \<Rightarrow> l)\<rparr> in
      \<lparr>cl_Config = conf',
       cl_TLSClientConfig =
         (if hc_AllowUnsafeCertificate conf then Some ''''
          else if hc_TLSServerName conf \<noteq> [] then Some (hc_TLSServerName conf) else None)\<rparr>)"

text \<open>
  The function \<open>CheckRedirect\<close>, after \<open>via\<close> requests: the client for the next one.  Clearing the
  server name of a TLS configuration that was never made would panic.  With
  \<open>ForceAttemptHTTP2\<close> the transport of \<^verbatim>\<open>net/http\<close> makes the missing configuration before its first
  connection (\<open>onceSetNextProtoDefaults\<close>), so that a redirect always finds one.
\<close>

definition CheckRedirect :: "matrix_externals \<Rightarrow> http_client \<Rightarrow> http_call \<Rightarrow> nat \<Rightarrow> goerr + http_client" where
  "CheckRedirect mx c req via =
     (if \<not> hc_FollowRedirects (cl_Config c) then Inl (ErrOther ''too many redirects (1 > 0)'')
      else if via > 5 then Inl (ErrOther ''too many redirects'')
      else if mx_Scheme mx (call_Url req) \<noteq> ''https'' then Inl (ErrOther ''https downgrades are not allowed'')
      else case cl_TLSClientConfig c of
        None \<Rightarrow> Inl (Panic ''invalid memory address or nil pointer dereference'')
      | Some _ \<Rightarrow> Inr (c\<lparr>cl_TLSClientConfig := Some ''''\<rparr>))"

definition set_tls_defaults :: "http_client \<Rightarrow> http_client" where
  "set_tls_defaults c =
     (case cl_TLSClientConfig c of None \<Rightarrow> c\<lparr>cl_TLSClientConfig := Some ''''\<rparr> | Some _ \<Rightarrow> c)"

text \<open>
  The dialer tries the addresses in turn and reports the first error when none can be used.  An
  attempt that the library starts in parallel after a delay, and drops when it loses, comes in its
  turn here; \<open>safeControl\<close> is asked for each.
\<close>

fun dial :: "matrix_externals \<Rightarrow> HttpClientConfig \<Rightarrow> goerr \<Rightarrow> (string \<times> string) list \<Rightarrow> goerr + string \<times> string" where
  "dial mx conf err [] = Inl err"
| "dial mx conf err (a # as) =
     (let failed = (case safeControl conf (fst a) (snd a) of
          Some e \<Rightarrow> Some e
        | None \<Rightarrow> if mx_connects mx a then None else Some (ErrOther ''connection failed'')) in
      case failed of
        None \<Rightarrow> Inr a
      | Some e \<Rightarrow> dial mx conf (if err = ErrOther ''no such host'' then e else err) as)"

definition round_trip :: "matrix_externals \<Rightarrow> http_client \<Rightarrow> http_call \<Rightarrow> http_reply matrix_io" where
  "round_trip mx c req =
     bindE (lift_result (dial mx (cl_Config c) (ErrOther ''no such host'') (mx_dials mx (call_Url req)))) (\<lambda>a.
     thenE (modifyS (\<lambda>s. s\<lparr>dialled := a # dialled s\<rparr>))
       (on_world (ext (lift_result (mx_exchange mx a (cl_TLSClientConfig c) req)))))"

text \<open>
  The loop of the client.  It has no bound of its own: it goes on as long as a reply redirects
  it and \<open>CheckRedirect\<close> agrees, and it is the refusal of the sixth redirect that ends it.
\<close>

lemma CheckRedirect_via: "CheckRedirect mx c req via = Inr c' \<Longrightarrow> via \<le> 5"
  by (auto simp: CheckRedirect_def split: if_splits)

function client_Do :: "matrix_externals \<Rightarrow> http_client \<Rightarrow> nat \<Rightarrow> http_call \<Rightarrow> http_reply matrix_io" where
  "client_Do mx c via req =
     bindE (round_trip mx (set_tls_defaults c) req) (\<lambda>reply.
     case mx_redirect mx req reply of
       None \<Rightarrow> returnE reply
     | Some req' \<Rightarrow> (case CheckRedirect mx (set_tls_defaults c) req' (Suc via) of
         Inl err \<Rightarrow> throwE err
       | Inr c' \<Rightarrow> client_Do mx c' (Suc via) req'))"
  by pat_completeness auto

termination
  by (relation "measure (\<lambda>(mx, c, via, req). 6 - via)") (auto dest: CheckRedirect_via)

declare client_Do.simps [simp del]

section \<open>server\_discovery.go\<close>

definition api_url :: "matrix_externals \<Rightarrow> string \<Rightarrow> string \<Rightarrow> string" where
  "api_url mx host port = (if mx_httpOnly mx then ''http'' else ''https'') @ ''://'' @ JoinHostPort host port"

text \<open>Host and port, with the port 8448 and \<open>True\<close> when the name has none.\<close>

definition split_default :: "string \<Rightarrow> string + string \<times> string \<times> bool" where
  "split_default hostname =
     (case SplitHostPort hostname of
        Inr (h, p) \<Rightarrow> Inr (h, p, False)
      | Inl err \<Rightarrow>
          if HasSuffix err missingPort then map_sum id (\<lambda>(h, p). (h, p, True)) (SplitHostPort (hostname @ '':8448''))
          else Inl err)"

text \<open>The address of the first SRV record, without its final dot.\<close>

definition srv_url :: "matrix_externals \<Rightarrow> string \<times> int \<Rightarrow> goerr + string" where
  "srv_url mx = (\<lambda>(target, port).
     if target = [] then Inl (Panic ''slice bounds out of range [-1:]'')
     else Inr (api_url mx (if last target = CHR ''.'' then butlast target else target) (Itoa port)))"

text \<open>Both SRV lookups of a name; the errors of a lookup are ignored.\<close>

definition lookup_srv :: "matrix_externals \<Rightarrow> string \<Rightarrow> string \<Rightarrow> (string \<times> int) list matrix_io" where
  "lookup_srv mx service name =
     bindE (on_world (tryE (ext (returnE (mx_LookupSRV mx service name))))) (\<lambda>res.
     returnE (case res of Inl _ \<Rightarrow> [] | Inr addrs \<Rightarrow> addrs))"

definition try_srv :: "matrix_externals \<Rightarrow> string \<Rightarrow> string option matrix_io" where
  "try_srv mx name =
     bindE (lookup_srv mx ''matrix-fed'' name) (\<lambda>addrs.
     if addrs \<noteq> [] then bindE (lift_result (srv_url mx (hd addrs))) (\<lambda>url. returnE (Some url))
     else bindE (lookup_srv mx ''matrix'' name) (\<lambda>addrs.
     if addrs \<noteq> [] then bindE (lift_result (srv_url mx (hd addrs))) (\<lambda>url. returnE (Some url))
     else returnE None))"

text \<open>
  The delegated server that the well-known file names, if the file can be had, read and split.
  A file that holds the JSON \<open>null\<close> leaves a nil pointer, which is dereferenced.
\<close>

definition well_known :: "matrix_externals \<Rightarrow> string \<Rightarrow> (string \<times> string \<times> string \<times> bool) option matrix_io" where
  "well_known mx h =
     bindE (on_world (tryE (ext (lift_result (mx_wellKnown mx
       ((if mx_httpOnly mx then ''http'' else ''https'') @ ''://'' @ h @ ''/.well-known/matrix/server'')))))) (\<lambda>res.
     case res of
       Inl _ \<Rightarrow> returnE None
     | Inr r \<Rightarrow>
         if reply_Status r \<noteq> 200 then returnE None
         else case mx_serverAddr mx (take 1048576 (reply_Body r)) of
           Inl _ \<Rightarrow> returnE None
         | Inr None \<Rightarrow> throwE (Panic ''invalid memory address or nil pointer dereference'')
         | Inr (Some addr) \<Rightarrow>
             if addr = [] then returnE None
             else case split_default addr of
               Inl _ \<Rightarrow> returnE None
             | Inr (wkHost, wkPort, wkDefPort) \<Rightarrow> returnE (Some (addr, wkHost, wkPort, wkDefPort)))"

text \<open>The resolution of a name that is not in the cache.\<close>

definition discover :: "matrix_externals \<Rightarrow> string \<Rightarrow> (string \<times> string) matrix_io" where
  "discover mx hostname =
     (case split_default hostname of
        Inl err \<Rightarrow> throwE (ErrOther err)
      | Inr (h, p, defPort) \<Rightarrow>
          if mx_isIP mx h then returnE (api_url mx h p, hostname)
          else if \<not> defPort then returnE (api_url mx h p, h)
          else bindE (well_known mx h) (\<lambda>wk. case wk of
            Some (addr, wkHost, wkPort, wkDefPort) \<Rightarrow>
              if mx_isIP mx wkHost then returnE (api_url mx wkHost wkPort, addr)
              else if \<not> wkDefPort then
                returnE ((if mx_httpOnly mx then ''http'' else ''https'') @ ''://'' @ JoinHostPort wkHost wkPort, JoinHostPort wkHost wkPort)
              else bindE (try_srv mx wkHost) (\<lambda>srv.
                returnE (case srv of Some url \<Rightarrow> (url, wkHost) | None \<Rightarrow> (api_url mx wkHost wkPort, wkHost)))
          | None \<Rightarrow> bindE (try_srv mx hostname) (\<lambda>srv.
              returnE (case srv of Some url \<Rightarrow> (url, h) | None \<Rightarrow> (api_url mx h p, h)))))"

definition GetServerApiUrl :: "matrix_externals \<Rightarrow> string \<Rightarrow> (string \<times> string) matrix_io" where
  "GetServerApiUrl mx hostname =
     bindE (cache_Get mx apiUrlCache hostname) (\<lambda>found. case found of
       Some server \<Rightarrow> returnE (cs_url server, cs_hostname server)
     | None \<Rightarrow>
         bindE (discover mx hostname) (\<lambda>(url, host).
         bindE (on_world (getsE now)) (\<lambda>t.
         thenE (modifyS (\<lambda>s. s\<lparr>apiUrlCache := (apiUrlCache s)(hostname \<mapsto> (\<lparr>cs_url = url, cs_hostname = host\<rparr>, t, 3600))\<rparr>))
           (returnE (url, host)))))"

section \<open>breakers.go, errors.go\<close>

definition getBreakerAndConfig :: "matrix_externals \<Rightarrow> string \<Rightarrow> (HomeserverConfig \<times> breaker) matrix_io" where
  "getBreakerAndConfig mx serverName =
     bindE (on_world (getsE (\<lambda>w. GetDomain (doms w) serverName))) (\<lambda>dom. case dom of
       None \<Rightarrow> throwE (Panic ''invalid memory address or nil pointer dereference'')
     | Some d \<Rightarrow>
         let hs = Homeserver d in
         bindE (getsS (\<lambda>s. breakers s (hs_Name hs))) (\<lambda>b. case b of
           Some cb \<Rightarrow> returnE (hs, cb)
         | None \<Rightarrow>
             let cb = mx_newBreaker mx (if hs_BackoffAt hs \<le> 0 then 10 else hs_BackoffAt hs) in
             thenE (modifyS (\<lambda>s. s\<lparr>breakers := (breakers s)(hs_Name hs \<mapsto> cb)\<rparr>)) (returnE (hs, cb))))"

definition getFederationBreaker :: "matrix_externals \<Rightarrow> string \<Rightarrow> breaker matrix_io" where
  "getFederationBreaker mx hostname =
     bindE (getsS (\<lambda>s. federationBreakers s hostname)) (\<lambda>b. case b of
       Some cb \<Rightarrow> returnE cb
     | None \<Rightarrow>
         bindE (on_world (getsE (\<lambda>w. fed_BackoffAt (Federation (cfg w))))) (\<lambda>n.
         let cb = mx_newBreaker mx (if n \<le> 0 then 20 else n) in
         thenE (modifyS (\<lambda>s. s\<lparr>federationBreakers := (federationBreakers s)(hostname \<mapsto> cb)\<rparr>)) (returnE cb)))"

text \<open>
  \<open>CallContext\<close> runs a function whose result is an error for the breaker, or none, and a value
  for its caller: when the breaker is open the function does not run.  The time limit of the
  call is one of the errors that the function may give.
\<close>

definition CallContext ::
  "matrix_externals \<Rightarrow> breaker \<Rightarrow> (breaker \<Rightarrow> matrix_state \<Rightarrow> matrix_state) \<Rightarrow> (goerr option \<times> 'a) matrix_io \<Rightarrow> (goerr option \<times> 'a option) matrix_io" where
  "CallContext mx cb store f =
     (if \<not> mx_ready mx cb then returnE (Some (ErrOther ''breaker open''), None)
      else bindE f (\<lambda>(err, x).
        thenE (modifyS (store (mx_after mx cb (err = None)))) (returnE (err, Some x))))"

datatype call_error = MtxError string string | PlainError goerr

definition call_error_text :: "call_error \<Rightarrow> goerr" where
  "call_error_text e = (case e of MtxError c m \<Rightarrow> ErrOther (''code='' @ c @ '' message='' @ m) | PlainError g \<Rightarrow> g)"

text \<open>The error for the breaker and the error for the caller.\<close>

definition filterError :: "call_error option \<Rightarrow> goerr option \<times> goerr option" where
  "filterError err =
     (case err of
        None \<Rightarrow> (None, None)
      | Some (MtxError c m) \<Rightarrow>
          if c = ErrCodeUnknownToken then (None, Some ErrInvalidToken)
          else if c = ErrCodeNoGuests then (None, Some ErrGuestToken)
          else (Some (call_error_text (MtxError c m)), Some (call_error_text (MtxError c m)))
      | Some (PlainError g) \<Rightarrow> (Some g, Some g))"

section \<open>requests.go, requests\_auth.go, requests\_admin.go, requests\_info.go\<close>

definition request_headers :: "string \<Rightarrow> string \<Rightarrow> (string \<times> string) list" where
  "request_headers accessToken ipAddr =
     [(''User-Agent'', ''matrix-media-repo''), (''Content-Type'', ''application/json; charset=UTF-8'')] @
     (if accessToken \<noteq> [] then [(''Authorization'', ''Bearer '' @ accessToken)] else []) @
     (if ipAddr \<noteq> [] then [(''X-Forwarded-For'', ipAddr), (''X-Real-IP'', ipAddr)] else [])"

text \<open>A request with an empty body; \<open>decode\<close> is what \<open>json.Unmarshal\<close> makes of the result.\<close>

definition doRequest ::
  "matrix_externals \<Rightarrow> string \<Rightarrow> string \<Rightarrow> (bytes \<Rightarrow> goerr + 'a) \<Rightarrow> string \<Rightarrow> string \<Rightarrow> (call_error + 'a) matrix_io" where
  "doRequest mx mthd urlStr decode accessToken ipAddr =
     bindE (on_world (tryE (ext (lift_result (mx_homeserver mx
       \<lparr>call_Method = mthd, call_Url = urlStr, call_Headers = request_headers accessToken ipAddr\<rparr>))))) (\<lambda>res.
     returnE (case res of
       Inl err \<Rightarrow> Inl (PlainError err)
     | Inr r \<Rightarrow>
         if reply_Status r \<noteq> 200 then
           Inl (case mx_mtxError mx (reply_Body r) of
             Some (c, m) \<Rightarrow> if c \<noteq> [] then MtxError c m else PlainError (ErrOther (''failed to perform request: '' @ reply_Body r))
           | None \<Rightarrow> PlainError (ErrOther (''failed to perform request: '' @ reply_Body r)))
         else map_sum PlainError id (decode (reply_Body r))))"

text \<open>
  A call of the homeserver that is responsible for \<open>serverName\<close>: an error of the caller that
  the breaker does not see is returned too.
\<close>

definition on_breaker ::
  "matrix_externals \<Rightarrow> string \<Rightarrow> (HomeserverConfig \<Rightarrow> (goerr option \<times> 'a) matrix_io) \<Rightarrow> (goerr option \<times> 'a option) matrix_io" where
  "on_breaker mx serverName f =
     bindE (getBreakerAndConfig mx serverName) (\<lambda>(hs, cb).
     CallContext mx cb (\<lambda>b s. s\<lparr>breakers := (breakers s)(hs_Name hs \<mapsto> b)\<rparr>) (f hs))"

definition doBreakerRequest ::
  "matrix_externals \<Rightarrow> string \<Rightarrow> string \<Rightarrow> string \<Rightarrow> string \<Rightarrow> string \<Rightarrow> string \<Rightarrow> (bytes \<Rightarrow> goerr + 'a) \<Rightarrow> 'a matrix_io" where
  "doBreakerRequest mx serverName accessToken appserviceUserId ipAddr mthd path decode =
     bindE (on_breaker mx serverName (\<lambda>hs.
       bindE (lift_result (MakeUrl [hs_ClientServerApi hs, path])) (\<lambda>u.
       case mx_withQuery mx u (if appserviceUserId \<noteq> [] then [(''user_id'', appserviceUserId)] else []) of
         None \<Rightarrow> throwE (Panic ''invalid memory address or nil pointer dereference'')
       | Some target \<Rightarrow>
           bindE (doRequest mx mthd target decode accessToken ipAddr) (\<lambda>res.
           returnE (case res of
             Inr x \<Rightarrow> (None, (None, Some x))
           | Inl err \<Rightarrow> (case filterError (Some err) of (err', authError) \<Rightarrow> (err', (authError, None)))))))) (\<lambda>(replyError, res).
     case res of
       Some (Some authError, _) \<Rightarrow> throwE authError
     | Some (None, Some x) \<Rightarrow> (case replyError of Some e \<Rightarrow> throwE e | None \<Rightarrow> returnE x)
     | _ \<Rightarrow> throwE (case replyError of Some e \<Rightarrow> e | None \<Rightarrow> Panic ''unreachable''))"

definition GetUserIdFromToken ::
  "matrix_externals \<Rightarrow> string \<Rightarrow> string \<Rightarrow> string \<Rightarrow> string \<Rightarrow> (string \<times> bool) matrix_io" where
  "GetUserIdFromToken mx serverName accessToken appserviceUserId ipAddr =
     bindE (doBreakerRequest mx serverName accessToken appserviceUserId ipAddr ''GET'' ''/_matrix/client/v3/account/whoami'' (mx_whoami mx))
       (\<lambda>(userId, isGuest, isGuest2). returnE (userId, isGuest \<or> isGuest2))"

definition matrix_Logout :: "matrix_externals \<Rightarrow> string \<Rightarrow> string \<Rightarrow> string \<Rightarrow> string \<Rightarrow> unit matrix_io" where
  "matrix_Logout mx serverName accessToken appserviceUserId ipAddr =
     doBreakerRequest mx serverName accessToken appserviceUserId ipAddr ''POST'' ''/_matrix/client/v3/logout'' (mx_emptyObject mx)"

definition matrix_LogoutAll :: "matrix_externals \<Rightarrow> string \<Rightarrow> string \<Rightarrow> string \<Rightarrow> string \<Rightarrow> unit matrix_io" where
  "matrix_LogoutAll mx serverName accessToken appserviceUserId ipAddr =
     doBreakerRequest mx serverName accessToken appserviceUserId ipAddr ''POST'' ''/_matrix/client/v3/logout/all'' (mx_emptyObject mx)"

definition matrix_ClientVersions ::
  "matrix_externals \<Rightarrow> string \<Rightarrow> string \<Rightarrow> string \<Rightarrow> string \<Rightarrow> (string list option \<times> (string \<times> bool) list) matrix_io" where
  "matrix_ClientVersions mx serverName accessToken appserviceUserId ipAddr =
     doBreakerRequest mx serverName accessToken appserviceUserId ipAddr ''GET'' ''/_matrix/client/versions'' (mx_versions mx)"

text \<open>
  The two calls below assign the error for the caller to \<open>replyError\<close> and then assign what
  the breaker returns to it, so that an error that the breaker does not see is lost.
\<close>

definition matrix_IsUserAdmin :: "matrix_externals \<Rightarrow> string \<Rightarrow> string \<Rightarrow> string \<Rightarrow> bool matrix_io" where
  "matrix_IsUserAdmin mx serverName accessToken ipAddr =
     bindE (on_breaker mx serverName (\<lambda>hs.
       let who = mx_PathEscape mx (''@media.repo.admin.check:'' @ serverName) in
       bindE (lift_result (MakeUrl [hs_ClientServerApi hs,
         (if hs_AdminApiKind hs = ''synapse'' then ''/_synapse/admin/v1/whois/'' else ''/_matrix/client/v3/admin/whois/'') @ who])) (\<lambda>urlStr.
       bindE (doRequest mx ''GET'' urlStr (mx_emptyObject mx) accessToken ipAddr) (\<lambda>res.
       returnE (case res of Inr _ \<Rightarrow> (None, True) | Inl err \<Rightarrow> (fst (filterError (Some err)), False)))))) (\<lambda>(replyError, res).
     case replyError of
       Some e \<Rightarrow> throwE e
     | None \<Rightarrow> returnE (res = Some True))"

definition matrix_ListMedia ::
  "matrix_externals \<Rightarrow> string \<Rightarrow> string \<Rightarrow> string \<Rightarrow> string \<Rightarrow> (string list \<times> string list) matrix_io" where
  "matrix_ListMedia mx serverName accessToken roomId ipAddr =
     bindE (on_breaker mx serverName (\<lambda>hs.
       if hs_AdminApiKind hs = ''dendrite''
       then returnE (Some (ErrOther ''this function is not supported when backed by Dendrite''), ([], []))
       else if hs_AdminApiKind hs \<noteq> ''synapse''
       then returnE (Some (ErrOther ''unable to query media for homeserver: wrong or incompatible adminApiKind''), ([], []))
       else bindE (lift_result (MakeUrl [hs_ClientServerApi hs, ''/_synapse/admin/v1/room/'' @ mx_PathEscape mx roomId @ ''/media''])) (\<lambda>urlStr.
         bindE (doRequest mx ''GET'' urlStr (mx_mediaList mx) accessToken ipAddr) (\<lambda>res.
         returnE (case res of Inr l \<Rightarrow> (None, l) | Inl err \<Rightarrow> (fst (filterError (Some err)), ([], []))))))) (\<lambda>(replyError, res).
     case replyError of
       Some e \<Rightarrow> throwE e
     | None \<Rightarrow> returnE (case res of Some l \<Rightarrow> l | None \<Rightarrow> ([], [])))"

section \<open>signing\_key\_cache.go, xmatrix.go\<close>

definition FlushSigningKeyCache :: "unit matrix_io" where
  "FlushSigningKeyCache = modifyS (\<lambda>s. s\<lparr>localSigningKeyCache := (\<lambda>_. None)\<rparr>)"

definition getLocalSigningKey :: "matrix_externals \<Rightarrow> string \<Rightarrow> LocalSigningKey matrix_io" where
  "getLocalSigningKey mx fromPath =
     bindE (cache_Get mx localSigningKeyCache fromPath) (\<lambda>found. case found of
       Some sk \<Rightarrow> returnE sk
     | None \<Rightarrow>
         bindE (on_world (ext (lift_result (mx_readFile mx fromPath)))) (\<lambda>b.
         bindE (lift_result (mmr_DecodeSigningKey (mx_keys mx) b)) (\<lambda>key.
         bindE (on_world (getsE now)) (\<lambda>t.
         let sk = \<lparr>lk_Key = key_PrivateKey key, lk_Version = key_KeyVersion key\<rparr> in
         thenE (modifyS (\<lambda>s. s\<lparr>localSigningKeyCache := (localSigningKeyCache s)(fromPath \<mapsto> (sk, t, 300))\<rparr>)) (returnE sk)))))"

text \<open>The object that a server signs for a request without a body.\<close>

definition signed_object :: "string \<Rightarrow> string \<Rightarrow> string \<Rightarrow> string \<Rightarrow> (string \<times> json) list" where
  "signed_object mthd uri origin destination =
     [(''method'', JStr mthd), (''uri'', JStr uri), (''origin'', JStr origin), (''destination'', JStr destination)]"

definition quote_param :: "string \<Rightarrow> string \<Rightarrow> string" where
  "quote_param k v = k @ ''='' @ [CHR 0x22] @ v @ [CHR 0x22]"

definition CreateXMatrixHeader ::
  "matrix_externals \<Rightarrow> string \<Rightarrow> string \<Rightarrow> string \<Rightarrow> string \<Rightarrow> bytes \<Rightarrow> string \<Rightarrow> goerr + string" where
  "CreateXMatrixHeader mx origin destination requestMethod requestUri key keyVersion =
     (case mx_canonical mx (signed_object requestMethod requestUri origin destination) of
        Inl err \<Rightarrow> Inl err
      | Inr canonical \<Rightarrow>
          if length key \<noteq> 64 then Inl (Panic ''ed25519: bad private key length'')
          else Inr (''X-Matrix '' @ str_join '','' [quote_param ''origin'' origin, quote_param ''destination'' destination,
            quote_param ''key'' (''ed25519:'' @ keyVersion), quote_param ''sig'' (kx_encode64 (mx_keys mx) (mx_sign mx key canonical))]))"

section \<open>requests.go: FederatedGet\<close>

text \<open>The list of allowed networks of a configuration that has the key is not nil, even if it is empty.\<close>

definition federation_client :: "matrix_externals \<Rightarrow> MainRepoConfig \<Rightarrow> string \<Rightarrow> bool \<Rightarrow> http_client" where
  "federation_client mx c host followRedirects =
     NewHttpClient \<lparr>hc_AllowUnsafeCertificate = mx_unsafe mx,
       hc_AllowedCIDRs = Some (fed_AllowedNetworks (Federation c)), hc_DeniedCIDRs = fed_DisallowedNetworks (Federation c),
       hc_TLSServerName = host, hc_FollowRedirects = followRedirects\<rparr>"

text \<open>The host that signs is that of the context's request; a background context has none.\<close>

definition federation_auth ::
  "matrix_externals \<Rightarrow> http_request option \<Rightarrow> string \<Rightarrow> string \<Rightarrow> string \<Rightarrow> (string \<times> string) list matrix_io" where
  "federation_auth mx request reqUrl destination useSigningKeyPath =
     (if useSigningKeyPath = '''' then returnE []
      else bindE (getLocalSigningKey mx useSigningKeyPath) (\<lambda>key.
        case request of
          None \<Rightarrow> throwE (Panic ''invalid memory address or nil pointer dereference'')
        | Some r \<Rightarrow>
            bindE (lift_result (mx_RequestURI mx reqUrl)) (\<lambda>uri.
            bindE (lift_result (CreateXMatrixHeader mx (rq_Host r) destination ''GET'' uri (lk_Key key) (lk_Version key)))
              (\<lambda>auth. returnE [(''Authorization'', auth)]))))"

definition FederatedGet ::
  "matrix_externals \<Rightarrow> http_request option \<Rightarrow> string \<Rightarrow> string \<Rightarrow> string \<Rightarrow> string \<Rightarrow> bool \<Rightarrow> http_reply matrix_io" where
  "FederatedGet mx request reqUrl realHost destination useSigningKeyPath followRedirects =
     bindE (getFederationBreaker mx realHost) (\<lambda>cb.
     bindE (CallContext mx cb (\<lambda>b s. s\<lparr>federationBreakers := (federationBreakers s)(realHost \<mapsto> b)\<rparr>)
       (bindE (tryE (bindE (federation_auth mx request reqUrl destination useSigningKeyPath) (\<lambda>auth.
          bindE (on_world (getsE cfg)) (\<lambda>c.
          let host = (case SplitHostPort realHost of Inr (h, _) \<Rightarrow> h | Inl _ \<Rightarrow> realHost) in
          client_Do mx (federation_client mx c host followRedirects) 0
            \<lparr>call_Method = ''GET'', call_Url = reqUrl, call_Headers = [(''Host'', realHost), (''User-Agent'', ''matrix-media-repo'')] @ auth\<rparr>)))) (\<lambda>res.
        returnE (case res of
          Inl err \<Rightarrow> (Some err, None)
        | Inr resp \<Rightarrow>
            if reply_Status resp \<noteq> 200 \<and> reply_Status resp \<noteq> 404
            then (Some (ErrOther (''response not ok: '' @ Itoa (reply_Status resp))), None) else (None, Some resp))))) (\<lambda>(replyError, res).
     case replyError of
       Some e \<Rightarrow> throwE e
     | None \<Rightarrow> (case res of Some (Some resp) \<Rightarrow> returnE resp | _ \<Rightarrow> throwE (Panic ''unreachable''))))"

section \<open>requests\_signing.go\<close>

definition verify_keys :: "matrix_externals \<Rightarrow> (string \<times> string) list \<Rightarrow> goerr + ServerSigningKeys" where
  "verify_keys mx ks = foldr (\<lambda>(keyId, coded) res. case kx_decode64 (mx_keys mx) coded of
       Inl err \<Rightarrow> Inl err | Inr b \<Rightarrow> map_sum id (\<lambda>l. (keyId, b) # l) res) ks (Inr [])"

text \<open>\<open>ed25519.Verify\<close> panics on a key that has not 32 bytes.\<close>

definition ed25519_Verify :: "matrix_externals \<Rightarrow> bytes \<Rightarrow> bytes \<Rightarrow> bytes \<Rightarrow> goerr + bool" where
  "ed25519_Verify mx key message sig =
     (if length key \<noteq> 32 then Inl (Panic ''ed25519: bad public key length'') else Inr (mx_verify mx key message sig))"

fun check_sigs :: "matrix_externals \<Rightarrow> ServerSigningKeys \<Rightarrow> bytes \<Rightarrow> (string \<times> string) list \<Rightarrow> goerr + unit" where
  "check_sigs mx keys canonical [] = Inr ()"
| "check_sigs mx keys canonical ((keyId, coded) # sigs) =
     (case kx_decode64 (mx_keys mx) coded of
        Inl err \<Rightarrow> Inl err
      | Inr sig \<Rightarrow> (case map_of keys keyId of
          None \<Rightarrow> Inl (ErrOther (''unknown key ID '' @ keyId))
        | Some key \<Rightarrow> (case ed25519_Verify mx key canonical sig of
            Inl err \<Rightarrow> Inl err
          | Inr ok \<Rightarrow> if \<not> ok then Inl (ErrOther (''invalid signature from key ID '' @ keyId)) else check_sigs mx keys canonical sigs)))"

fun check_domains :: "matrix_externals \<Rightarrow> string \<Rightarrow> ServerSigningKeys \<Rightarrow> bytes \<Rightarrow> (string \<times> (string \<times> string) list) list \<Rightarrow> goerr + unit" where
  "check_domains mx serverName keys canonical [] = Inr ()"
| "check_domains mx serverName keys canonical ((domain, sigs) # ds) =
     (if domain \<noteq> serverName then Inl (ErrOther (''unexpected signature from '' @ domain))
      else case check_sigs mx keys canonical sigs of
        Inl err \<Rightarrow> Inl err
      | Inr _ \<Rightarrow> check_domains mx serverName keys canonical ds)"

definition CheckSigningKeySignatures ::
  "matrix_externals \<Rightarrow> string \<Rightarrow> ServerKeyResult \<Rightarrow> (string \<times> json) list \<Rightarrow> goerr + ServerSigningKeys" where
  "CheckSigningKeySignatures mx serverName keyInfo raw =
     (case verify_keys mx (sk_VerifyKeys keyInfo) of
        Inl err \<Rightarrow> Inl err
      | Inr serverKeys \<Rightarrow>
          let own = (case map_of (sk_Signatures keyInfo) serverName of None \<Rightarrow> [] | Some l \<Rightarrow> l) in
          if own = [] then Inl (ErrOther (''missing signatures from '' @ serverName))
          else case mx_canonical mx (filter (\<lambda>(k, _). k \<noteq> ''signatures'') raw) of
            Inl err \<Rightarrow> Inl err
          | Inr canonical \<Rightarrow> (case check_domains mx serverName serverKeys canonical (sk_Signatures keyInfo) of
              Inl err \<Rightarrow> Inl err
            | Inr _ \<Rightarrow> (case find (\<lambda>(keyId, _). map_of own keyId = None) serverKeys of
                Some (keyId, _) \<Rightarrow> Inl (ErrOther (''missing signature from key '' @ keyId))
              | None \<Rightarrow> Inr serverKeys)))"

text \<open>
  The keys are kept for half of the time that they are valid, in nanoseconds.  The second
  look into the cache, under the lock, tests the wrong variable and never finds anything.
\<close>

definition fetch_keys :: "matrix_externals \<Rightarrow> string \<Rightarrow> ServerSigningKeys matrix_io" where
  "fetch_keys mx serverName =
     bindE (GetServerApiUrl mx serverName) (\<lambda>(url, hostname).
     bindE (FederatedGet mx None (url @ ''/_matrix/key/v2/server'') hostname serverName '''' False) (\<lambda>keysResponse.
     bindE (lift_result (mx_decodeObject mx (reply_Body keysResponse))) (\<lambda>raw.
     bindE (lift_result (mx_keyInfo mx raw)) (\<lambda>keyInfo.
     if sk_ServerName keyInfo \<noteq> serverName then throwE (ErrOther (''got keys for '' @ sk_ServerName keyInfo))
     else bindE (on_world NowMillis) (\<lambda>t.
       if sk_ValidUntilTs keyInfo \<le> t then throwE (ErrOther ''returned server keys are expired'')
       else
         let cacheUntil = (min (sk_ValidUntilTs keyInfo) (t + 7 * 24 * 60 * 60 * 1000) - t) * millisecond sdiv 2 in
         if cacheUntil \<le> 60 * second then throwE (ErrOther ''returned server keys would expire too quickly'')
         else bindE (lift_result (CheckSigningKeySignatures mx serverName keyInfo raw)) (\<lambda>serverKeys.
           thenE (modifyS (\<lambda>s. s\<lparr>signingKeyCache := (signingKeyCache s)(serverName \<mapsto> (serverKeys, t, cacheUntil))\<rparr>))
             (returnE serverKeys)))))))"

definition QuerySigningKeys :: "matrix_externals \<Rightarrow> string \<Rightarrow> ServerSigningKeys matrix_io" where
  "QuerySigningKeys mx serverName =
     bindE (cache_Get mx signingKeyCache serverName) (\<lambda>keys. case keys of
       Some ks \<Rightarrow> returnE ks
     | None \<Rightarrow> fetch_keys mx serverName)"

end
