(* ===== verification/MatrixProofs.thy ===== *)
theory MatrixProofs
  imports Matrix
begin

text \<open>
  What the client of other servers guarantees: the networks it connects to, and the requests
  between servers that it signs.
\<close>

section \<open>The networks that are contacted\<close>

definition in_network :: "128 word \<Rightarrow> string \<Rightarrow> bool" where
  "in_network ip cidr = (case ParseCIDR cidr of None \<Rightarrow> False | Some n \<Rightarrow> Contains n ip)"

text \<open>A malformed entry hides the entries after it.\<close>

lemma inRange_iff:
  "inRange ip cidrs \<longleftrightarrow> (\<exists>c \<in> set (takeWhile (\<lambda>c. ParseCIDR c \<noteq> None) cidrs). in_network ip c)"
  by (induction cidrs) (auto simp: in_network_def split: option.split)

lemma inRange_parsed:
  "\<forall>c \<in> set cidrs. ParseCIDR c \<noteq> None \<Longrightarrow> inRange ip cidrs \<longleftrightarrow> (\<exists>c \<in> set cidrs. in_network ip c)"
  by (simp add: inRange_iff takeWhile_eq_all_conv [THEN iffD2])

lemma isAllowed_iff: "isAllowed ip allowed disallowed \<longleftrightarrow> inRange ip allowed \<and> \<not> inRange ip disallowed"
  by (simp add: isAllowed_def)

lemma parse_unspecified: "ParseCIDR ''0.0.0.0/32'' = Some (Net4 0 (- 1))" "ParseCIDR ''::/128'' = Some (Net16 0 (- 1))"
  by code_simp+

lemma To4_v4: "To4 (v4_in_v6 0) = Some 0" "To4 0 = None"
  by code_simp+

lemma unspecified_denied: "in_network (v4_in_v6 0) ''0.0.0.0/32''" "in_network 0 ''::/128''"
  by (simp_all add: in_network_def parse_unspecified Contains_def To4_v4)

definition dialable :: "string list \<Rightarrow> string list \<Rightarrow> string \<times> string \<Rightarrow> bool" where
  "dialable allowed disallowed a \<longleftrightarrow>
     fst a \<in> {''tcp4'', ''tcp6''} \<and>
     (\<exists>host port ip. SplitHostPort (snd a) = Inr (host, port) \<and> ParseIP host = Some ip \<and>
        ip \<noteq> 0 \<and> ip \<noteq> v4_in_v6 0 \<and> (\<forall>c \<in> set disallowed. \<not> in_network ip c) \<and> (\<exists>c \<in> set allowed. in_network ip c))"

lemma safeControl_dialable:
  assumes "safeControl (cl_Config (NewHttpClient conf)) (fst a) (snd a) = None"
    and "\<forall>c \<in> set (hc_DeniedCIDRs conf). ParseCIDR c \<noteq> None" and "hc_AllowedCIDRs conf = Some allowed"
  shows "dialable allowed (hc_DeniedCIDRs conf) a"
proof -
  obtain host port ip where a: "fst a \<in> {''tcp4'', ''tcp6''}" "SplitHostPort (snd a) = Inr (host, port)" "ParseIP host = Some ip"
      "isAllowed ip allowed (hc_DeniedCIDRs conf @ [''0.0.0.0/32'', ''::/128''])"
    using assms(1,3) by (auto simp: safeControl_def NewHttpClient_def Let_def split: if_splits sum.splits option.splits)
  have "\<forall>c \<in> set (hc_DeniedCIDRs conf @ [''0.0.0.0/32'', ''::/128'']). ParseCIDR c \<noteq> None"
    using assms(2) by (auto simp: parse_unspecified)
  with a(4) have "\<forall>c \<in> set (hc_DeniedCIDRs conf @ [''0.0.0.0/32'', ''::/128'']). \<not> in_network ip c" "inRange ip allowed"
    by (auto simp: isAllowed_iff inRange_parsed simp del: set_append)
  then have "\<forall>c \<in> set (hc_DeniedCIDRs conf). \<not> in_network ip c" "ip \<noteq> 0" "ip \<noteq> v4_in_v6 0" "\<exists>c \<in> set allowed. in_network ip c"
    using unspecified_denied by (auto simp: inRange_iff dest: set_takeWhileD)
  with a show ?thesis unfolding dialable_def by blast
qed

lemma dial_safe: "dial mx conf err as = Inr a \<Longrightarrow> safeControl conf (fst a) (snd a) = None"
  by (induction as arbitrary: err) (auto simp: Let_def split: option.splits if_splits)

lemma set_tls_defaults_config [simp]: "cl_Config (set_tls_defaults c) = cl_Config c"
  by (simp add: set_tls_defaults_def split: option.split)

lemma CheckRedirect_config: "CheckRedirect mx c req via = Inr c' \<Longrightarrow> cl_Config c' = cl_Config c"
  by (auto simp: CheckRedirect_def split: if_splits option.splits)

text \<open>A redirect of the client to a page behind TLS never meets the missing configuration: it is followed.\<close>

lemma CheckRedirect_follows:
  assumes "hc_FollowRedirects (cl_Config c)" "via \<le> 5" "mx_Scheme mx (call_Url req) = ''https''"
  shows "CheckRedirect mx (set_tls_defaults c) req via = Inr (c\<lparr>cl_TLSClientConfig := Some ''''\<rparr>)"
  using assms by (auto simp: CheckRedirect_def set_tls_defaults_def split: option.split)

definition dials :: "HttpClientConfig \<Rightarrow> nat \<Rightarrow> matrix_state \<Rightarrow> matrix_state \<Rightarrow> bool" where
  "dials conf n s s' \<longleftrightarrow> (\<exists>ds. dialled s' = ds @ dialled s \<and> length ds \<le> n \<and> (\<forall>a \<in> set ds. safeControl conf (fst a) (snd a) = None))"

lemma dials_same: "dialled s' = dialled s \<Longrightarrow> dials conf n s s'"
  by (simp add: dials_def)

lemma dials_trans: "dials conf m s s1 \<Longrightarrow> dials conf n s1 s2 \<Longrightarrow> dials conf (m + n) s s2"
  unfolding dials_def by (elim exE conjE) (rule exI, rule conjI, simp, auto)

lemma dials_mono: "dials conf m s s' \<Longrightarrow> m \<le> n \<Longrightarrow> dials conf n s s'"
  by (fastforce simp: dials_def)

lemma round_trip_dials: "round_trip mx c req (w, s) = (res, (w', s')) \<Longrightarrow> dials (cl_Config c) 1 s s'"
  by (auto simp: round_trip_def dials_def io_simps lift_result_run dest!: dial_safe split: sum.splits prod.splits)

lemma client_Do_dials:
  "client_Do mx c via req (w, s) = (res, (w', s')) \<Longrightarrow> via \<le> 5 \<Longrightarrow> dials (cl_Config c) (6 - via) s s'"
proof (induction mx c via req arbitrary: w s rule: client_Do.induct)
  case (1 mx c via req)
  obtain r w1 s1 where r: "round_trip mx (set_tls_defaults c) req (w, s) = (r, (w1, s1))" by (metis prod.collapse)
  have first: "dials (cl_Config c) 1 s s1" using round_trip_dials [OF r] by simp
  show ?case
  proof (cases "\<exists>reply req' c'. r = Inr reply \<and> mx_redirect mx req reply = Some req' \<and>
      CheckRedirect mx (set_tls_defaults c) req' (Suc via) = Inr c'")
    case True
    then obtain reply req' c' where more: "r = Inr reply" "mx_redirect mx req reply = Some req'"
        "CheckRedirect mx (set_tls_defaults c) req' (Suc via) = Inr c'" by blast
    with "1.prems"(1) r have "client_Do mx c' (Suc via) req' (w1, s1) = (res, (w', s'))"
      by (subst (asm) client_Do.simps) (simp add: io_simps)
    moreover have via: "Suc via \<le> 5" by (rule CheckRedirect_via [OF more(3)])
    ultimately have "dials (cl_Config c) (6 - Suc via) s1 s'"
      using "1.IH" [OF more(2,3)] CheckRedirect_config [OF more(3)] by fastforce
    from dials_trans [OF first this] via show ?thesis by (simp add: Suc_diff_le [symmetric])
  next
    case False
    with "1.prems"(1) r have "s' = s1"
      by (subst (asm) client_Do.simps) (auto simp: io_simps split: sum.splits option.splits)
    then show ?thesis using dials_mono [OF first] "1.prems"(2) by simp
  qed
qed

lemma preserves_on_world: "preserves I m \<Longrightarrow> preserves (\<lambda>(w, s). I w \<and> J s) (on_world m)"
  by (rule preservesI) (auto simp: on_world_def split: prod.splits dest: preservesD')

lemma preserves_getsS: "preserves I (getsS f)"
  by (rule preservesI) (auto simp: getsS_def)

lemma preserves_modifyS: "(\<And>s. J s \<Longrightarrow> J (f s)) \<Longrightarrow> preserves (\<lambda>(w, s). I w \<and> J s) (modifyS f)"
  by (rule preservesI) (auto simp: modifyS_def)

lemma preserves_lift: "preserves I (lift_result r)"
  by (cases r) (auto simp: lift_result_def)

text \<open>The parts of a federation request that do not dial.\<close>

lemma quiet_parts:
  fixes c0 d0
  defines "I \<equiv> \<lambda>(w, s). cfg w = c0 \<and> dialled s = d0"
  shows "preserves I (getFederationBreaker mx host)" "preserves I (federation_auth mx request url dest path)"
  unfolding I_def getFederationBreaker_def federation_auth_def getLocalSigningKey_def cache_Get_def Let_def
  by (intro hoare_intros preserves_on_world preserves_getsS preserves_modifyS preserves_lift preserves_ext env_stableI; simp)+

lemma FederatedGet_dials:
  assumes "FederatedGet mx request url realHost destination path follow (w, s) = (res, (w', s'))"
  shows "\<exists>host. dials (cl_Config (federation_client mx (cfg w) host follow)) 6 s s'"
proof -
  let ?I = "\<lambda>(w1, s1). cfg w1 = cfg w \<and> dialled s1 = dialled s"
  obtain r1 w1 s1 where b: "getFederationBreaker mx realHost (w, s) = (r1, (w1, s1))" by (metis prod.collapse)
  then have s1: "?I (w1, s1)"
    using preservesD' [OF quiet_parts(1) [of "cfg w" "dialled s"]] by blast
  obtain r2 w2 s2 where a: "federation_auth mx request url destination path (w1, s1) = (r2, (w2, s2))" by (metis prod.collapse)
  then have s2: "?I (w2, s2)"
    using preservesD' [OF quiet_parts(2) [of "cfg w" "dialled s"] s1] by blast
  let ?host = "case SplitHostPort realHost of Inr (h, _) \<Rightarrow> h | Inl _ \<Rightarrow> realHost"
  let ?req = "\<lambda>auth. \<lparr>call_Method = ''GET'', call_Url = url, call_Headers = [(''Host'', realHost), (''User-Agent'', ''matrix-media-repo'')] @ auth\<rparr>"
  let ?c = "federation_client mx (cfg w) ?host follow"
  obtain r3 w3 s3 where d: "\<And>auth. r2 = Inr auth \<Longrightarrow> client_Do mx ?c 0 (?req auth) (w2, s2) = (r3, (w3, s3))"
    by (cases r2) (auto, metis prod.collapse)
  have "dialled s' = dialled s \<or> (\<exists>auth. r2 = Inr auth \<and> dialled s' = dialled s3)"
    using assms b a s1 s2 d
    by (cases r1; cases r2; cases r3)
      (auto simp: FederatedGet_def CallContext_def io_simps lift_result_run Let_def split: if_splits option.splits)
  then show ?thesis
  proof
    assume "dialled s' = dialled s"
    then show ?thesis by (blast intro: dials_same)
  next
    assume "\<exists>auth. r2 = Inr auth \<and> dialled s' = dialled s3"
    then obtain auth where "r2 = Inr auth" "dialled s' = dialled s3" by blast
    with client_Do_dials [OF d] s2 have "dials (cl_Config ?c) 6 s s'" by (fastforce simp: dials_def)
    then show ?thesis by blast
  qed
qed

text \<open>
  C29: \<open>FederatedGet\<close> connects to at most six addresses, its redirects included, because
  \<open>CheckRedirect\<close> refuses the sixth redirect, and to none but TCP addresses in an allowed network
  and outside every disallowed one, so never to the unspecified addresses \<open>0.0.0.0\<close> and \<open>::\<close>,
  which reach the host itself.  The disallowed networks must be well-formed: a malformed entry
  hides the entries after it.  The discovery that comes before the request is not covered: it
  fetches the \<^verbatim>\<open>.well-known\<close> file with \<^verbatim>\<open>http.Get\<close>, the default client of the library, which no
  network of the configuration restricts.
\<close>

theorem federation_connections:
  assumes "FederatedGet mx request url realHost destination path follow (w, s) = (res, (w', s'))"
    and "\<forall>c \<in> set (fed_DisallowedNetworks (Federation (cfg w))). ParseCIDR c \<noteq> None"
  shows "\<exists>ds. dialled s' = ds @ dialled s \<and> length ds \<le> 6 \<and>
    (\<forall>a \<in> set ds. dialable (fed_AllowedNetworks (Federation (cfg w))) (fed_DisallowedNetworks (Federation (cfg w))) a)"
proof -
  from FederatedGet_dials [OF assms(1)] obtain host ds where
    "dialled s' = ds @ dialled s" "length ds \<le> 6"
    "\<forall>a \<in> set ds. safeControl (cl_Config (federation_client mx (cfg w) host follow)) (fst a) (snd a) = None"
    by (auto simp: dials_def)
  moreover have "dialable (fed_AllowedNetworks (Federation (cfg w))) (fed_DisallowedNetworks (Federation (cfg w))) a"
    if "safeControl (cl_Config (federation_client mx (cfg w) host follow)) (fst a) (snd a) = None" for a
    using safeControl_dialable [OF that [unfolded federation_client_def], of "fed_AllowedNetworks (Federation (cfg w))"] assms(2)
    by simp
  ultimately show ?thesis by blast
qed

text \<open>A network for the witnesses: a server with a private and a public address, which redirects once.\<close>

definition demo_mx :: matrix_externals where
  "demo_mx = \<lparr>mx_httpOnly = False, mx_unsafe = False, mx_isIP = (\<lambda>h. ParseIP h \<noteq> None),
     mx_wellKnown = (\<lambda>u. Inr \<lparr>reply_Status = 404, reply_Header = [], reply_ContentLength = -1, reply_Body = ''''\<rparr>), mx_serverAddr = (\<lambda>b. Inr None), mx_LookupSRV = (\<lambda>service n. []),
     mx_dials = (\<lambda>u. [(''tcp4'', ''10.0.0.1:443''), (''tcp6'', ''[::]:443''), (''tcp4'', ''93.184.216.34:443'')]),
     mx_connects = (\<lambda>a. True), mx_exchange = (\<lambda>a tls call. Inr \<lparr>reply_Status = 200, reply_Header = [], reply_ContentLength = -1, reply_Body = call_Url call\<rparr>),
     mx_redirect = (\<lambda>call reply. if call_Url call = ''https://b.org/a'' then Some (call\<lparr>call_Url := ''https://b.org/b''\<rparr>) else None),
     mx_Scheme = (\<lambda>u. ''https''), mx_RequestURI = Inr, mx_homeserver = (\<lambda>c. Inl ErrEOF), mx_mtxError = (\<lambda>b. None),
     mx_withQuery = (\<lambda>u q. None), mx_PathEscape = id, mx_emptyObject = (\<lambda>b. Inr ()), mx_whoami = (\<lambda>b. Inl ErrEOF),
     mx_versions = (\<lambda>b. Inl ErrEOF), mx_mediaList = (\<lambda>b. Inl ErrEOF),
     mx_live = (\<lambda>t life n. n < t + life), mx_newBreaker = (\<lambda>n. []), mx_ready = (\<lambda>b. True), mx_after = (\<lambda>b ok. b),
     mx_sign = (\<lambda>k m. ''sig''), mx_verify = (\<lambda>k m sig. sig = ''sig''), mx_keys = demo_kx,
     mx_canonical = (\<lambda>o'. Inr ''canonical''), mx_readFile = (\<lambda>p. Inl ErrEOF), mx_decodeObject = (\<lambda>b. Inr []),
     mx_keyInfo = (\<lambda>o'. Inl ErrEOF)\<rparr>"

definition demo_ms :: matrix_state where
  "demo_ms = \<lparr>apiUrlCache = (\<lambda>_. None), signingKeyCache = (\<lambda>_. None), localSigningKeyCache = (\<lambda>_. None),
     breakers = (\<lambda>_. None), federationBreakers = (\<lambda>_. None), dialled = []\<rparr>"

abbreviation demo_get :: "(goerr + http_reply) \<times> world \<times> matrix_state" where
  "demo_get \<equiv> FederatedGet demo_mx None ''https://b.org/a'' ''b.org'' ''b.org'' '''' True (demo_world, demo_ms)"

lemma demo_get_run:
  "case demo_get of (res, (w', s')) \<Rightarrow> map_sum id reply_Body res = Inr ''https://b.org/b'' \<and>
     dialled s' = [(''tcp4'', ''93.184.216.34:443''), (''tcp4'', ''93.184.216.34:443'')]"
  by code_simp

lemma demo_networks:
  "fed_AllowedNetworks (Federation (cfg demo_world)) = [''0.0.0.0/0'']"
  "list_all (\<lambda>c. ParseCIDR c \<noteq> None) (fed_DisallowedNetworks (Federation (cfg demo_world)))"
  by code_simp+

theorem federation_connections_witness:
  "dialable [''0.0.0.0/0''] (fed_DisallowedNetworks (Federation (cfg demo_world))) (''tcp4'', ''93.184.216.34:443'')"
proof -
  obtain res w' s' where run: "demo_get = (res, (w', s'))" by (metis prod.collapse)
  then have "dialled s' = [(''tcp4'', ''93.184.216.34:443''), (''tcp4'', ''93.184.216.34:443'')]" "dialled demo_ms = []"
    using demo_get_run by (simp_all add: demo_ms_def)
  with federation_connections [OF run] demo_networks show ?thesis
    by (auto simp: list_all_iff)
qed

section \<open>Signed requests\<close>

text \<open>The authentication of servers with this client: how it verifies, decodes and makes objects.\<close>

definition server_auth :: "matrix_externals \<Rightarrow> auth_externals \<Rightarrow> auth_externals" where
  "server_auth mx xa = xa\<lparr>xa_canonical := (\<lambda>obj. mx_canonical mx (map (\<lambda>(k, v). (k, JStr v)) obj)),
     xa_verify := mx_verify mx, xa_decode := kx_decode64 (mx_keys mx)\<rparr>"

text \<open>A value that the header can carry between its quotes.\<close>

definition plain_value :: "string \<Rightarrow> bool" where
  "plain_value v \<longleftrightarrow> set v \<inter> {CHR '','', CHR 0x22} = {}"

lemma str_trim_clean: "s \<noteq> [] \<Longrightarrow> \<not> P (hd s) \<Longrightarrow> \<not> P (last s) \<Longrightarrow> str_trim P s = s"
  using dropWhile_eq_self_iff [of P s] dropWhile_eq_self_iff [of P "rev s"] by (simp add: str_trim_def hd_rev)

lemma trim_quoted:
  assumes "plain_value v"
  shows "str_trim_char (CHR 0x22) (TrimSpace ([CHR 0x22] @ v @ [CHR 0x22])) = v"
proof -
  have "TrimSpace ([CHR 0x22] @ v @ [CHR 0x22]) = [CHR 0x22] @ v @ [CHR 0x22]"
    unfolding TrimSpace_def by (rule str_trim_clean) (simp_all add: is_space_def Let_def)
  moreover have "CHR 0x22 \<notin> set v" using assms by (simp add: plain_value_def)
  then have "dropWhile (\<lambda>x. x = CHR 0x22) (v @ [CHR 0x22]) = (if v = [] then [] else v @ [CHR 0x22])"
    "dropWhile (\<lambda>x. x = CHR 0x22) (rev v) = rev v"
    by (auto simp: dropWhile_eq_self_iff hd_rev dest: last_in_set hd_in_set)
  ultimately show ?thesis by (simp add: str_trim_char_def str_trim_def)
qed

lemma parse_quoted:
  assumes "plain_value v" "k \<in> {''origin'', ''destination'', ''key'', ''sig''}" "map_of params k = None"
  shows "parse_pairs (quote_param k v # ps) params = parse_pairs ps ((k, v) # params)"
proof -
  have "str_split2 (CHR ''='') (quote_param k v) = [k, [CHR 0x22] @ v @ [CHR 0x22]]"
    using assms(2) by (auto simp: str_split2_def quote_param_def)
  moreover have "TrimSpace (ToLower k) = k"
    using assms(2) by (elim insertE emptyE; simp) code_simp+
  ultimately show ?thesis using trim_quoted [OF assms(1)] assms(3) by simp
qed

lemma GetXMatrixAuth_created:
  assumes "plain_value origin" "plain_value destination" "plain_value version" "plain_value coded" "origin \<noteq> []"
    "decode coded = Inr sig" "sig \<noteq> []"
  shows "GetXMatrixAuth decode [''X-Matrix '' @ str_join '','' [quote_param ''origin'' origin, quote_param ''destination'' destination,
      quote_param ''key'' (''ed25519:'' @ version), quote_param ''sig'' coded]] =
    Inr [\<lparr>xm_Origin = origin, xm_Destination = destination, xm_KeyId = ''ed25519:'' @ version, xm_Signature = sig\<rparr>]"
proof -
  let ?parts = "[quote_param ''origin'' origin, quote_param ''destination'' destination,
      quote_param ''key'' (''ed25519:'' @ version), quote_param ''sig'' coded]"
  have "str_split (CHR '','') (str_join [CHR '',''] ?parts) = ?parts"
    by (rule str_split_join) (use assms(1-4) in \<open>auto simp: quote_param_def plain_value_def\<close>)
  moreover have "plain_value (''ed25519:'' @ version)" using assms(3) by (simp add: plain_value_def)
  with assms(1,2,4) have "parse_pairs ?parts [] =
      Inr [(''sig'', coded), (''key'', ''ed25519:'' @ version), (''destination'', destination), (''origin'', origin)]"
    by (simp add: parse_quoted del: parse_pairs.simps(2) append_Cons append.simps)
  moreover have "HasPrefix (''X-Matrix '' @ h) ''X-Matrix ''" "drop 9 (''X-Matrix '' @ h) = h" for h
    by (simp_all add: HasPrefix_def)
  ultimately show ?thesis
    using assms(5-7) by (simp add: param_def del: append_Cons)
qed

text \<open>
  C30: A request that a server signs with \<open>CreateXMatrixHeader\<close> is accepted by the server it
  is for, and its handler runs for the server that signed it, when the destination has the
  public key under the identifier in the header.  The names carry no commas and quotes;
  Ed25519 verifies what it signed and base64 decodes what it encoded.
\<close>

theorem signed_request_accepted:
  assumes "CreateXMatrixHeader mx origin (rq_Host r) (rq_Method r) (rq_RequestURI r) key version = Inr h"
    and "Header_Values r ''Authorization'' = [h]" and "\<not> HasSuffix (rq_RequestURI r) ''?''"
    and "plain_value origin" "plain_value (rq_Host r)" "plain_value version" "origin \<noteq> []"
    and "\<And>c. let sig = mx_sign mx key c; coded = kx_encode64 (mx_keys mx) sig in
      mx_verify mx pub c sig \<and> sig \<noteq> [] \<and> plain_value coded \<and> kx_decode64 (mx_keys mx) coded = Inr sig"
    and "xa_keys xa origin = Inr keys" "keys (''ed25519:'' @ version) = Some pub"
    and "rq_Host r \<noteq> [] \<longrightarrow> IsServerOurs (doms w) (rq_Host r)" "faults w = []"
  shows "RequireServerAuth (server_auth mx xa) gen r ctx w = gen r ctx \<lparr>s_ServerName = origin\<rparr> w"
proof -
  obtain c where c: "mx_canonical mx (signed_object (rq_Method r) (rq_RequestURI r) origin (rq_Host r)) = Inr c"
      "h = ''X-Matrix '' @ str_join '','' [quote_param ''origin'' origin, quote_param ''destination'' (rq_Host r),
        quote_param ''key'' (''ed25519:'' @ version), quote_param ''sig'' (kx_encode64 (mx_keys mx) (mx_sign mx key c))]"
    using assms(1) unfolding CreateXMatrixHeader_def by (auto split: sum.splits if_splits)
  have "GetXMatrixAuth (kx_decode64 (mx_keys mx)) [h] = Inr [\<lparr>xm_Origin = origin, xm_Destination = rq_Host r,
      xm_KeyId = ''ed25519:'' @ version, xm_Signature = mx_sign mx key c\<rparr>]"
    unfolding c(2) by (rule GetXMatrixAuth_created) (use assms(4-7) assms(8) [of c] in \<open>simp_all add: Let_def\<close>)
  moreover have "mx_canonical mx [(''method'', JStr (rq_Method r)), (''uri'', JStr (rq_RequestURI r)), (''origin'', JStr origin),
      (''destination'', JStr (rq_Host r))] = Inr c"
    using c(1) by (simp add: signed_object_def)
  moreover have "mx_verify mx pub c (mx_sign mx key c)" "rq_Host r = [] \<or> IsServerOurs (doms w) (rq_Host r)"
    using assms(8) [of c] assms(11) by (auto simp: Let_def)
  ultimately have "ValidateXMatrixAuth (server_auth mx xa) r w = (Inr origin, w)"
    using assms(2,3,9,10,12)
    by (auto simp: ValidateXMatrixAuth_def ValidateXMatrixAuthHeader_def server_auth_def io_simps lift_result_run
      simp del: GetXMatrixAuth.simps)
  then show ?thesis by (simp add: RequireServerAuth_def io_simps)
qed

theorem signed_request_accepted_witness:
  "\<exists>h. RequireServerAuth (server_auth demo_mx demo_xa) (\<lambda>r ctx server. returnE (JsonResponse (JStr (s_ServerName server))))
       (demo_request\<lparr>rq_Headers := (\<lambda>n. if n = ''authorization'' then [h] else [])\<rparr>) demo_ctx demo_world
     = (Inr (JsonResponse (JStr ''b.org'')), demo_world)"
proof -
  let ?r = "\<lambda>h. demo_request\<lparr>rq_Headers := (\<lambda>n. if n = ''authorization'' then [h] else [])\<rparr>"
  let ?gen = "\<lambda>r ctx server. returnE (JsonResponse (JStr (s_ServerName server)))"
  obtain h where h: "CreateXMatrixHeader demo_mx ''b.org'' ''a.org'' ''GET'' ''/x'' (replicate 64 (CHR ''k'')) ''1'' = Inr h"
    by (simp add: CreateXMatrixHeader_def demo_mx_def)
  have "IsServerOurs (doms demo_world) ''a.org''" "faults demo_world = []" "ToLower ''Authorization'' = ''authorization''"
    by code_simp+
  then have "RequireServerAuth (server_auth demo_mx demo_xa) ?gen (?r h) demo_ctx demo_world =
      ?gen (?r h) demo_ctx \<lparr>s_ServerName = ''b.org''\<rparr> demo_world"
    using h
    by (intro signed_request_accepted [where key = "replicate 64 (CHR ''k'')" and version = "''1''" and h = h and pub = "''b.org''"
        and keys = "\<lambda>k. if k = ''ed25519:1'' then Some ''b.org'' else None"])
      (simp_all add: demo_request_def demo_xa_def plain_value_def HasSuffix_def HasPrefix_def Header_Values_def,
       simp_all add: demo_mx_def demo_kx_def)
  then show ?thesis by (auto simp: returnE_run)
qed

end
