(* ===== verification/ArchiveProofs.thy ===== *)
theory ArchiveProofs
  imports Archive UploadProofs
begin

text \<open>
  What the writer of an archive has written, the reader reads: every media that was appended
  is handed to the import once, with its content and its record in the manifest.
\<close>

section \<open>What is appended\<close>

type_synonym item = "bytes \<times> MediaInfo"

definition item_name :: "archive_externals \<Rightarrow> item \<Rightarrow> string" where
  "item_name xv = (\<lambda>(b, info). internalName info (case xv_Detect xv (b, None) of Inl _ \<Rightarrow> '''' | Inr e \<Rightarrow> e))"

definition item_entry :: "archive_externals \<Rightarrow> item \<Rightarrow> archive_entry" where
  "item_entry xv it = \<lparr>ae_Name = item_name xv it, ae_Regular = True, ae_Content = fst it\<rparr>"

definition item_record :: "archive_externals \<Rightarrow> item \<Rightarrow> ManifestRecord" where
  "item_record xv it = manifest_record (snd it) (item_name xv it) (int (length (fst it))) (xv_sha xv (fst it))"

definition item_mxc :: "item \<Rightarrow> string" where
  "item_mxc it = MxcUri (mi_Origin (snd it)) (mi_MediaId (snd it))"

definition append_item :: "archive_externals \<Rightarrow> PartPersister \<Rightarrow> item \<Rightarrow> unit writer_io" where
  "append_item xv writeFn it = bindE (AppendMedia xv writeFn (fst it, None) (snd it)) (\<lambda>_. returnE ())"

text \<open>The run of the writer that \<open>ExportEntityData\<close> makes: a tar file is begun, the media are appended and the archive is finished.\<close>

definition write_archive :: "archive_externals \<Rightarrow> PartPersister \<Rightarrow> item list \<Rightarrow> unit writer_io" where
  "write_archive xv writeFn items =
     thenE beginTar (thenE (foreachE (append_item xv writeFn) items) (Finish xv writeFn))"

section \<open>The writer\<close>

text \<open>
  The contract of a function that persists parts: \<open>parts w\<close> are the parts that were persisted,
  in order.
\<close>

definition persists :: "(world \<Rightarrow> bytes list) \<Rightarrow> PartPersister \<Rightarrow> bool" where
  "persists parts writeFn \<longleftrightarrow>
     (\<forall>ps. env_stable (\<lambda>w. parts w = ps)) \<and>
     (\<forall>n name data w w'. writeFn n name data w = (Inr (), w') \<longrightarrow> parts w' = parts w @ [data])"

text \<open>The state of the writer: what is persisted, the entries of the open tar file and the manifest.\<close>

definition wr ::
  "(world \<Rightarrow> bytes list) \<Rightarrow> string \<Rightarrow> bytes list \<Rightarrow> archive_entry list \<Rightarrow> (string \<times> ManifestRecord) list \<Rightarrow> world \<times> ArchiveWriter \<Rightarrow> bool" where
  "wr parts entity ps es ms = (\<lambda>(w, a). parts w = ps \<and> tar_Entries (aw_currentTar a) = es \<and>
     \<not> tar_Truncated (aw_currentTar a) \<and> aw_mediaManifest a = ms \<and> aw_entity a = entity \<and> 0 < aw_currentPart a)"

abbreviation any_error :: "goerr \<Rightarrow> 's \<Rightarrow> bool" where
  "any_error \<equiv> \<lambda>_ _. True"

lemma hoare_on_world:
  "(\<And>s. hoare (\<lambda>w. P (w, s)) m (\<lambda>x w. Q x (w, s)) any_error) \<Longrightarrow> hoare P (on_world m) Q any_error"
  by (rule hoareI) (auto simp: on_world_def split: prod.splits dest: hoareD_Inr)

lemma wr_env: "persists parts writeFn \<Longrightarrow> env_stable (\<lambda>w. wr parts entity ps es ms (w, a))"
  unfolding wr_def by (auto simp: persists_def env_stable_def)

lemma hoare_modifyS: "(\<And>w s. P (w, s) \<Longrightarrow> Q (w, f s)) \<Longrightarrow> hoare P (modifyS f) (\<lambda>_. Q) any_error"
  by (rule hoareI) (auto simp: modifyS_def)

lemma hoare_getsS: "hoare P (getsS f) (\<lambda>x s. P s \<and> x = f (snd s)) any_error"
  by (rule hoareI) (auto simp: getsS_def)

lemma hoare_getsS_drop: "hoare P (getsS f) (\<lambda>_. P) any_error"
  by (rule hoareI) (auto simp: getsS_def)

lemma hoare_tick: "persists parts writeFn \<Longrightarrow>
    hoare (wr parts entity ps es ms) (on_world (ext (returnE ()))) (\<lambda>_. wr parts entity ps es ms) any_error"
  by (rule hoare_on_world, rule hoare_ext [OF wr_env]) (auto intro: hoare_return)

lemma hoare_beginTar:
  assumes "persists parts writeFn"
  shows "hoare (\<lambda>(w, a). parts w = ps \<and> aw_mediaManifest a = ms \<and> aw_entity a = entity \<and> 0 \<le> aw_currentPart a)
    beginTar (\<lambda>_. wr parts entity ps [] ms) any_error"
  unfolding beginTar_def
proof (rule hoare_then)
  let ?R = "\<lambda>(w, a). parts w = ps \<and> aw_mediaManifest a = ms \<and> aw_entity a = entity \<and> 0 < aw_currentPart a"
  show "hoare (\<lambda>(w, a). parts w = ps \<and> aw_mediaManifest a = ms \<and> aw_entity a = entity \<and> 0 \<le> aw_currentPart a)
      (modifyS (\<lambda>a. a\<lparr>aw_currentSize := 0, aw_currentPart := aw_currentPart a + 1\<rparr>)) (\<lambda>_. ?R) any_error"
    by (rule hoare_modifyS) simp
  have "env_stable (\<lambda>w. ?R (w, s))" for s using assms by (auto simp: persists_def env_stable_def)
  then show "hoare ?R (thenE (on_world (ext (returnE ()))) (modifyS (\<lambda>a. a\<lparr>aw_currentTar := newTar\<rparr>)))
      (\<lambda>_. wr parts entity ps [] ms) any_error"
    by (intro hoare_then [where R = ?R] hoare_on_world hoare_ext hoare_modifyS)
      (auto simp: wr_def newTar_def intro: hoare_return)
qed

text \<open>The part that a closed tar file becomes.\<close>

definition part_of :: "archive_externals \<Rightarrow> archive_entry list \<Rightarrow> bytes \<Rightarrow> bool" where
  "part_of xv es p \<longleftrightarrow> (\<exists>n. p = xv_pack xv n es False)"

lemma hoare_writeTar:
  assumes "persists parts writeFn"
  shows "hoare (wr parts entity ps es ms) (writeTar xv writeFn)
    (\<lambda>_ s. \<exists>p. part_of xv es p \<and> wr parts entity (ps @ [p]) es ms s) any_error"
  unfolding writeTar_def
proof (rule hoare_bind [OF hoare_getsS])
  fix open'
  have persist: "hoare (wr parts entity ps es ms) (bindE (getsS id) (\<lambda>a.
      on_world (writeFn (aw_currentPart a) (part_name a @ ''.tgz'')
        (xv_pack xv (part_name a @ ''.tar'') (tar_Entries (aw_currentTar a)) (tar_Truncated (aw_currentTar a))))))
      (\<lambda>_ s. \<exists>p. part_of xv es p \<and> wr parts entity (ps @ [p]) es ms s) any_error"
    using assms by (intro hoareI) (auto simp: getsS_def on_world_def io_simps wr_def persists_def part_of_def split: prod.splits)
  show "hoare (\<lambda>s. wr parts entity ps es ms s \<and> open' = tar_Open (aw_currentTar (snd s)))
      (thenE (set_tar (\<lambda>t. t\<lparr>tar_Usable := False, tar_Open := False\<rparr>))
        (if \<not> open' then throwE (ErrOther ''file already closed'')
         else thenE (on_world (ext (returnE ()))) (thenE (on_world (ext (returnE ()))) (bindE (getsS id) (\<lambda>a.
           on_world (writeFn (aw_currentPart a) (part_name a @ ''.tgz'')
             (xv_pack xv (part_name a @ ''.tar'') (tar_Entries (aw_currentTar a)) (tar_Truncated (aw_currentTar a)))))))))
      (\<lambda>_ s. \<exists>p. part_of xv es p \<and> wr parts entity (ps @ [p]) es ms s) any_error"
    by (rule hoare_then [where R = "wr parts entity ps es ms"])
      (auto simp: set_tar_def wr_def intro!: hoare_modifyS hoare_throw hoare_then [OF hoare_tick [OF assms, unfolded wr_def]] persist [unfolded wr_def])
qed

lemma hoare_rotateTar:
  assumes "persists parts writeFn"
  shows "hoare (wr parts entity ps es ms) (rotateTar xv writeFn)
    (\<lambda>_ s. \<exists>p. part_of xv es p \<and> wr parts entity (ps @ [p]) [] ms s) any_error"
  unfolding rotateTar_def
proof (rule hoare_bind [OF hoare_getsS])
  fix part
  have "hoare (\<lambda>s. \<exists>p. part_of xv es p \<and> wr parts entity (ps @ [p]) es ms s) beginTar
      (\<lambda>_ s. \<exists>p. part_of xv es p \<and> wr parts entity (ps @ [p]) [] ms s) any_error"
    by (rule hoare_bex_pre, rule hoare_weaken [OF hoare_beginTar [OF assms]]) (auto simp: wr_def)
  then show "hoare (\<lambda>s. wr parts entity ps es ms s \<and> part = aw_currentPart (snd s))
      (thenE (whenE (part > 0) (writeTar xv writeFn)) beginTar)
      (\<lambda>_ s. \<exists>p. part_of xv es p \<and> wr parts entity (ps @ [p]) [] ms s) any_error"
  proof (rule hoare_then [rotated])
    show "hoare (\<lambda>s. wr parts entity ps es ms s \<and> part = aw_currentPart (snd s)) (whenE (part > 0) (writeTar xv writeFn))
        (\<lambda>_ s. \<exists>p. part_of xv es p \<and> wr parts entity (ps @ [p]) es ms s) any_error"
    proof (cases "part > 0")
      case True
      then show ?thesis
        by (auto simp: whenE_def intro: hoare_weaken [OF hoare_writeTar [OF assms]])
    qed (auto simp: wr_def intro: hoareI)
  qed
qed

abbreviation file_entry :: "string \<Rightarrow> bytes \<Rightarrow> archive_entry" where
  "file_entry name b \<equiv> \<lparr>ae_Name = name, ae_Regular = True, ae_Content = b\<rparr>"

lemma hoare_tar_write:
  assumes "persists parts writeFn"
  shows "hoare (wr parts entity ps es ms) (tar_write content) (\<lambda>_. wr parts entity ps es ms) any_error"
  unfolding tar_write_def
proof (rule hoare_bind)
  show "hoare (wr parts entity ps es ms) (tryE (on_world (ext (returnE ()))))
      (\<lambda>res s. res = Inr () \<longrightarrow> wr parts entity ps es ms s) any_error"
    using hoare_tick [OF assms, of entity ps es ms]
    by (auto simp: hoare_def tryE_def split: prod.splits sum.splits)
  show "hoare (\<lambda>s. res = Inr () \<longrightarrow> wr parts entity ps es ms s)
      (case res of Inr _ \<Rightarrow> returnE ()
       | Inl e \<Rightarrow> thenE (set_tar (\<lambda>t. t\<lparr>tar_Usable := False, tar_Truncated := tar_Truncated t \<or> content\<rparr>)) (throwE e))
      (\<lambda>_. wr parts entity ps es ms) any_error" for res :: "goerr + unit"
    by (cases res) (auto simp: set_tar_def intro!: hoare_return hoare_then [OF hoare_modifyS] hoare_throw)
qed

lemma hoare_putFile:
  assumes "persists parts writeFn"
  shows "hoare (wr parts entity ps es ms) (putFile xv r name)
    (\<lambda>x s. wr parts entity ps (es @ [file_entry name (fst r)]) ms s \<and> x = (int (length (fst r)), xv_sha xv (fst r))) any_error"
  unfolding putFile_def
proof (rule hoare_then [OF hoare_tick [OF assms]], rule hoare_bind)
  let ?W = "wr parts entity ps es ms"
  show "hoare ?W (on_world (io_copy r)) (\<lambda>b s. ?W s \<and> b = fst r) any_error"
    by (rule hoare_on_world)
      (auto simp: io_copy_def intro!: hoare_ext wr_env [OF assms] hoare_return hoare_throw split: prod.split option.split)
  show "hoare (\<lambda>s. ?W s \<and> b = fst r) (thenE (on_world (ext (returnE ())))
      (bindE (getsS (\<lambda>a. tar_Usable (aw_currentTar a))) (\<lambda>usable.
        if \<not> usable then throwE (ErrOther ''archive/tar: write after close'')
        else thenE (tar_write False) (thenE (tar_write True)
          (thenE (set_tar (\<lambda>t. t\<lparr>tar_Entries := tar_Entries t @ [file_entry name b]\<rparr>))
          (thenE (modifyS (\<lambda>a. a\<lparr>aw_currentSize := int64 (aw_currentSize a + int (length b))\<rparr>))
          (returnE (int (length b), xv_sha xv b))))))))
      (\<lambda>x s. wr parts entity ps (es @ [file_entry name (fst r)]) ms s \<and> x = (int (length (fst r)), xv_sha xv (fst r)))
      any_error" for b
  proof (rule hoare_pure, rule hoare_then [OF hoare_tick [OF assms]], rule hoare_bind [OF hoare_getsS_drop])
    fix usable
    assume b: "b = fst r"
    have "hoare ?W (thenE (set_tar (\<lambda>t. t\<lparr>tar_Entries := tar_Entries t @ [file_entry name b]\<rparr>))
        (thenE (modifyS (\<lambda>a. a\<lparr>aw_currentSize := int64 (aw_currentSize a + int (length b))\<rparr>))
        (returnE (int (length b), xv_sha xv b))))
        (\<lambda>x s. wr parts entity ps (es @ [file_entry name (fst r)]) ms s \<and> x = (int (length (fst r)), xv_sha xv (fst r))) any_error"
      unfolding set_tar_def
      by (intro hoare_then [where R = "wr parts entity ps (es @ [file_entry name (fst r)]) ms"] hoare_modifyS hoare_return)
        (auto simp: wr_def b)
    then show "hoare ?W (if \<not> usable then throwE (ErrOther ''archive/tar: write after close'')
        else thenE (tar_write False) (thenE (tar_write True)
          (thenE (set_tar (\<lambda>t. t\<lparr>tar_Entries := tar_Entries t @ [file_entry name b]\<rparr>))
          (thenE (modifyS (\<lambda>a. a\<lparr>aw_currentSize := int64 (aw_currentSize a + int (length b))\<rparr>))
          (returnE (int (length b), xv_sha xv b))))))
        (\<lambda>x s. wr parts entity ps (es @ [file_entry name (fst r)]) ms s \<and> x = (int (length (fst r)), xv_sha xv (fst r))) any_error"
      by (auto intro!: hoare_throw hoare_then [OF hoare_tar_write [OF assms]])
  qed
qed

text \<open>What was appended so far: in the persisted parts and in the open tar file, each part readable.\<close>

definition intact :: "archive_externals \<Rightarrow> bytes list \<Rightarrow> archive_entry list \<Rightarrow> bool" where
  "intact xv ps es \<longleftrightarrow> (\<exists>ess. list_all2 (part_of xv) ess ps \<and> concat ess = es)"

lemma intact_Nil: "intact xv [] []"
  by (simp add: intact_def)

lemma intact_snoc: "intact xv ps es \<Longrightarrow> part_of xv es' p \<Longrightarrow> intact xv (ps @ [p]) (es @ es')"
  unfolding intact_def
  by (elim exE conjE) (rule_tac x = "ess @ [es']" in exI, simp add: list_all2_appendI)

definition written :: "archive_externals \<Rightarrow> (world \<Rightarrow> bytes list) \<Rightarrow> string \<Rightarrow> item list \<Rightarrow> world \<times> ArchiveWriter \<Rightarrow> bool" where
  "written xv parts entity items s \<longleftrightarrow> (\<exists>ps es0 es. intact xv ps es0 \<and> es0 @ es = map (item_entry xv) items \<and>
     wr parts entity ps es (fold (\<lambda>it. AList.update (item_mxc it) (item_record xv it)) items []) s)"

lemma hoare_append_item:
  assumes "persists parts writeFn"
  shows "hoare (written xv parts entity items) (append_item xv writeFn it) (\<lambda>_. written xv parts entity (items @ [it])) any_error"
proof (cases "xv_Detect xv (fst it, None)")
  case (Inl err)
  then show ?thesis by (simp add: append_item_def AppendMedia_def hoare_throw)
next
  case (Inr e)
  let ?ms = "\<lambda>its. fold (\<lambda>it. AList.update (item_mxc it) (item_record xv it)) its []"
  let ?W = "written xv parts entity (items @ [it])"
  have name: "internalName (snd it) e = item_name xv it"
    using Inr by (cases it) (simp add: item_name_def)
  have entry: "file_entry (item_name xv it) (fst it) = item_entry xv it"
    by (simp add: item_entry_def)
  have rotate: "hoare ?W (whenE full (rotateTar xv writeFn)) (\<lambda>_. ?W) any_error" for full
  proof (rule hoareI)
    fix s x s' assume "?W s" and run: "whenE full (rotateTar xv writeFn) s = (Inr x, s')"
    then obtain ps es0 es where W: "intact xv ps es0" "es0 @ es = map (item_entry xv) (items @ [it])"
        "wr parts entity ps es (?ms (items @ [it])) s" by (auto simp: written_def)
    show "?W s'"
    proof (cases full)
      case True
      with run W(3) hoareD_Inr [OF hoare_rotateTar [OF assms]] obtain p where
        "part_of xv es p" "wr parts entity (ps @ [p]) [] (?ms (items @ [it])) s'"
        by (fastforce simp: whenE_def)
      moreover from this W(1) have "intact xv (ps @ [p]) (es0 @ es)" by (blast intro: intact_snoc)
      ultimately show ?thesis unfolding written_def using W(2)
        by (intro exI [of _ "ps @ [p]"] exI [of _ "es0 @ es"] exI [of _ "[]"]) simp
    next
      case False
      with run \<open>?W s\<close> show ?thesis by (simp add: whenE_def io_simps)
    qed
  qed simp
  show ?thesis
    unfolding append_item_def AppendMedia_def Inr sum.case Let_def name bindE_assoc thenE_def
  proof (rule hoare_bind)
    show "hoare (written xv parts entity items) (putFile xv (fst it, None) (item_name xv it))
        (\<lambda>x s. (\<exists>ps es0 es. intact xv ps es0 \<and> es0 @ es = map (item_entry xv) (items @ [it]) \<and>
          wr parts entity ps es (?ms items) s) \<and> x = (int (length (fst it)), xv_sha xv (fst it))) any_error"
      unfolding written_def
    proof (rule hoareI)
      fix s x s'
      assume "\<exists>ps es0 es. intact xv ps es0 \<and> es0 @ es = map (item_entry xv) items \<and> wr parts entity ps es (?ms items) s"
        and run: "putFile xv (fst it, None) (item_name xv it) s = (Inr x, s')"
      then obtain ps es0 es where W: "intact xv ps es0" "es0 @ es = map (item_entry xv) items" "wr parts entity ps es (?ms items) s"
        by blast
      from hoareD_Inr [OF hoare_putFile [OF assms] W(3) run]
      have "wr parts entity ps (es @ [item_entry xv it]) (?ms items) s'" "x = (int (length (fst it)), xv_sha xv (fst it))"
        by (simp_all add: entry)
      moreover have "es0 @ es @ [item_entry xv it] = map (item_entry xv) (items @ [it])" using W(2) by simp
      ultimately show "(\<exists>ps es0 es. intact xv ps es0 \<and> es0 @ es = map (item_entry xv) (items @ [it]) \<and> wr parts entity ps es (?ms items) s') \<and>
          x = (int (length (fst it)), xv_sha xv (fst it))"
        using W(1) by blast
    qed simp
    fix x :: "int \<times> string"
    let ?P = "\<lambda>s. \<exists>ps es0 es. intact xv ps es0 \<and> es0 @ es = map (item_entry xv) (items @ [it]) \<and> wr parts entity ps es (?ms items) s"
    let ?f = "\<lambda>a. a\<lparr>aw_mediaManifest := AList.update (item_mxc it) (item_record xv it) (aw_mediaManifest a),
        aw_index := aw_index a @ [(snd it, item_name xv it, int (length (fst it)), xv_sha xv (fst it))]\<rparr>"
    have "hoare ?P (modifyS ?f) (\<lambda>_. ?W) any_error"
    proof (rule hoare_modifyS)
      fix w a assume "?P (w, a)"
      then obtain ps es0 es where "intact xv ps es0" "es0 @ es = map (item_entry xv) (items @ [it])"
          "wr parts entity ps es (?ms items) (w, a)" by blast
      moreover from this(3) have "wr parts entity ps es (?ms (items @ [it])) (w, ?f a)" by (simp add: wr_def)
      ultimately show "?W (w, ?f a)" unfolding written_def by blast
    qed
    then have "hoare ?P (bindE (modifyS ?f) (\<lambda>_. bindE (getsS (\<lambda>a. aw_partSize a \<le> aw_currentSize a)) (\<lambda>full.
        bindE (whenE full (rotateTar xv writeFn)) (\<lambda>_. returnE ())))) (\<lambda>_. ?W) any_error"
      by (rule hoare_bind) (rule hoare_bind [OF hoare_getsS_drop], rule hoare_bind [OF rotate], rule hoare_return)
    then show "hoare (\<lambda>s. ?P s \<and> x = (int (length (fst it)), xv_sha xv (fst it)))
        (bindE (case x of (size', hash) \<Rightarrow> bindE (modifyS (\<lambda>a. a\<lparr>
             aw_mediaManifest := AList.update (MxcUri (mi_Origin (snd it)) (mi_MediaId (snd it)))
               (manifest_record (snd it) (item_name xv it) size' hash) (aw_mediaManifest a),
             aw_index := aw_index a @ [(snd it, item_name xv it, size', hash)]\<rparr>))
          (\<lambda>_. bindE (getsS (\<lambda>a. aw_partSize a \<le> aw_currentSize a)) (\<lambda>full.
             bindE (whenE full (rotateTar xv writeFn)) (\<lambda>_. returnE hash)))) (\<lambda>_. returnE ())) (\<lambda>_. ?W) any_error"
      by (intro hoare_pure) (simp add: item_mxc_def item_record_def bindE_assoc)
  qed
qed

text \<open>The manifest and the parts of a finished archive.\<close>

definition archive_manifest :: "archive_externals \<Rightarrow> string \<Rightarrow> item list \<Rightarrow> int \<Rightarrow> Manifest" where
  "archive_manifest xv entity items ts = \<lparr>mf_Version = ManifestVersion, mf_EntityId = entity, mf_CreatedTs = ts,
     mf_Media = Some (fold (\<lambda>it. AList.update (item_mxc it) (item_record xv it)) items []), mf_UserId = ''''\<rparr>"

definition manifest_entries :: "archive_externals \<Rightarrow> string \<Rightarrow> item list \<Rightarrow> archive_entry list \<Rightarrow> bool" where
  "manifest_entries xv entity items es \<longleftrightarrow> (\<exists>ts html.
     es = [file_entry ''manifest.json'' (xv_encode xv (archive_manifest xv entity items ts)), file_entry ''index.html'' html])"

definition finished :: "archive_externals \<Rightarrow> string \<Rightarrow> item list \<Rightarrow> bytes list \<Rightarrow> bool" where
  "finished xv entity items all \<longleftrightarrow> (\<exists>ps mp es. all = ps @ [mp] \<and> intact xv ps (map (item_entry xv) items) \<and>
     part_of xv es mp \<and> manifest_entries xv entity items es)"

lemma hoare_defer:
  assumes "hoare P m Q any_error" and "\<And>x. hoare (Q x) d (\<lambda>_. Q' x) (\<lambda>_. Q' x)"
  shows "hoare P (deferE d m) Q' any_error"
  using assms by (fastforce simp: hoare_def deferE_def split: prod.splits sum.splits)

lemma hoare_Finish:
  assumes "persists parts writeFn"
  shows "hoare (written xv parts entity items) (Finish xv writeFn) (\<lambda>_ s. finished xv entity items (parts (fst s))) any_error"
proof -
  let ?ms = "fold (\<lambda>it. AList.update (item_mxc it) (item_record xv it)) items []"
  let ?ok = "\<lambda>ps. intact xv ps (map (item_entry xv) items)"
  let ?mf = "\<lambda>ts. file_entry ''manifest.json'' (xv_encode xv (archive_manifest xv entity items ts))"
  let ?fin = "\<lambda>_ s. finished xv entity items (parts (fst s))"
  have persist: "hoare (\<lambda>s. wr parts entity ps [?mf ts, file_entry ''index.html'' html] ?ms s) (writeTar xv writeFn) ?fin any_error"
    if "?ok ps" for ps ts html
  proof -
    have "manifest_entries xv entity items [?mf ts, file_entry ''index.html'' html]"
      unfolding manifest_entries_def by blast
    with that have "part_of xv [?mf ts, file_entry ''index.html'' html] p \<Longrightarrow> finished xv entity items (ps @ [p])" for p
      unfolding finished_def by blast
    then show ?thesis
      by (intro hoare_weaken [OF hoare_writeTar [OF assms]]) (auto simp: wr_def)
  qed
  have index: "hoare (wr parts entity ps [?mf ts] ?ms)
      (thenE (on_world (ext (returnE ()))) (bindE (getsS (\<lambda>a. xv_index xv (aw_exportId a) (aw_entity a) (aw_index a))) (\<lambda>html.
        bindE (putFile xv html ''index.html'') (\<lambda>_. writeTar xv writeFn)))) ?fin any_error" if "?ok ps" for ps ts
  proof (rule hoare_then [OF hoare_tick [OF assms]], rule hoare_bind [OF hoare_getsS_drop])
    show "hoare (wr parts entity ps [?mf ts] ?ms) (bindE (putFile xv html ''index.html'') (\<lambda>_. writeTar xv writeFn)) ?fin any_error"
      for html
      by (rule hoare_bind [OF hoare_putFile [OF assms]], rule hoare_pure) (use persist [OF that] in simp)
  qed
  have manifest: "hoare (wr parts entity ps [] ?ms)
      (bindE (on_world NowMillis) (\<lambda>ts. bindE (getsS (\<lambda>a. xv_encode xv (manifest_of a ts))) (\<lambda>json.
        bindE (putFile xv (json, None) ''manifest.json'') (\<lambda>_. thenE (on_world (ext (returnE ())))
          (bindE (getsS (\<lambda>a. xv_index xv (aw_exportId a) (aw_entity a) (aw_index a))) (\<lambda>html.
            bindE (putFile xv html ''index.html'') (\<lambda>_. writeTar xv writeFn))))))) ?fin any_error" if "?ok ps" for ps
  proof (rule hoare_bind)
    show "hoare (wr parts entity ps [] ?ms) (on_world NowMillis) (\<lambda>_. wr parts entity ps [] ?ms) any_error"
      by (rule hoare_on_world, rule hoare_preserves [OF preserves_NowMillis [OF wr_env [OF assms]]]) simp
    fix ts
    have "hoare (wr parts entity ps [] ?ms) (getsS (\<lambda>a. xv_encode xv (manifest_of a ts)))
        (\<lambda>json s. wr parts entity ps [] ?ms s \<and> json = xv_encode xv (archive_manifest xv entity items ts)) any_error"
      by (rule hoareI) (auto simp: getsS_def wr_def manifest_of_def archive_manifest_def)
    then show "hoare (wr parts entity ps [] ?ms) (bindE (getsS (\<lambda>a. xv_encode xv (manifest_of a ts))) (\<lambda>json.
        bindE (putFile xv (json, None) ''manifest.json'') (\<lambda>_. thenE (on_world (ext (returnE ())))
          (bindE (getsS (\<lambda>a. xv_index xv (aw_exportId a) (aw_entity a) (aw_index a))) (\<lambda>html.
            bindE (putFile xv html ''index.html'') (\<lambda>_. writeTar xv writeFn)))))) ?fin any_error"
      by (rule hoare_bind, intro hoare_pure hoare_bind [OF hoare_putFile [OF assms]]) (use index [OF that] in simp)
  qed
  show ?thesis
    unfolding Finish_def
  proof (rule hoare_then)
    show "hoare (written xv parts entity items) (rotateTar xv writeFn) (\<lambda>_ s. \<exists>ps. ?ok ps \<and> wr parts entity ps [] ?ms s) any_error"
    proof (rule hoareI)
      fix s x s' assume "written xv parts entity items s" and run: "rotateTar xv writeFn s = (Inr x, s')"
      then obtain ps es0 es where W: "intact xv ps es0" "es0 @ es = map (item_entry xv) items" "wr parts entity ps es ?ms s"
        by (auto simp: written_def)
      with hoareD_Inr [OF hoare_rotateTar [OF assms] W(3) run] show "\<exists>ps. ?ok ps \<and> wr parts entity ps [] ?ms s'"
        by (metis intact_snoc)
    qed simp
    show "hoare (\<lambda>s. \<exists>ps. ?ok ps \<and> wr parts entity ps [] ?ms s)
      (thenE (modifyS (\<lambda>a. a\<lparr>aw_writingManifest := True\<rparr>)) (deferE (modifyS (\<lambda>a. a\<lparr>aw_writingManifest := False\<rparr>))
        (bindE (on_world NowMillis) (\<lambda>ts. bindE (getsS (\<lambda>a. xv_encode xv (manifest_of a ts))) (\<lambda>json.
        bindE (putFile xv (json, None) ''manifest.json'') (\<lambda>_. thenE (on_world (ext (returnE ())))
          (bindE (getsS (\<lambda>a. xv_index xv (aw_exportId a) (aw_entity a) (aw_index a))) (\<lambda>html.
            bindE (putFile xv html ''index.html'') (\<lambda>_. writeTar xv writeFn))))))))) ?fin any_error"
    proof (rule hoare_bex_pre, rule hoare_then)
      fix ps assume ok: "?ok ps"
      show "hoare (wr parts entity ps [] ?ms) (modifyS (\<lambda>a. a\<lparr>aw_writingManifest := True\<rparr>)) (\<lambda>_. wr parts entity ps [] ?ms) any_error"
        by (rule hoare_modifyS) (simp add: wr_def)
      have "hoare (?fin x) (modifyS (\<lambda>a. a\<lparr>aw_writingManifest := False\<rparr>)) (\<lambda>_. ?fin x) (\<lambda>_. ?fin x)" for x :: unit
        by (rule hoareI) (auto simp: modifyS_def)
      from hoare_defer [OF manifest [OF ok] this]
      show "hoare (wr parts entity ps [] ?ms) (deferE (modifyS (\<lambda>a. a\<lparr>aw_writingManifest := False\<rparr>))
        (bindE (on_world NowMillis) (\<lambda>ts. bindE (getsS (\<lambda>a. xv_encode xv (manifest_of a ts))) (\<lambda>json.
        bindE (putFile xv (json, None) ''manifest.json'') (\<lambda>_. thenE (on_world (ext (returnE ())))
          (bindE (getsS (\<lambda>a. xv_index xv (aw_exportId a) (aw_entity a) (aw_index a))) (\<lambda>html.
            bindE (putFile xv html ''index.html'') (\<lambda>_. writeTar xv writeFn)))))))) ?fin any_error" .
    qed
  qed
qed

lemma write_archive_finished:
  assumes "persists parts writeFn" "parts w = []"
    "write_archive xv writeFn items (w, initialWriter exportId entity partSize) = (Inr (), (w', a'))"
  shows "finished xv entity items (parts w')"
proof -
  have each: "hoare (written xv parts entity done') (foreachE (append_item xv writeFn) todo) (\<lambda>_. written xv parts entity (done' @ todo)) any_error"
    for done' todo
  proof (induction todo arbitrary: done')
    case (Cons it todo)
    from hoare_then [OF hoare_append_item [OF assms(1)] Cons [of "done' @ [it]"]] show ?case by simp
  qed (simp add: hoare_return)
  have "hoare (\<lambda>(w, a). parts w = [] \<and> aw_mediaManifest a = [] \<and> aw_entity a = entity \<and> 0 \<le> aw_currentPart a)
      (write_archive xv writeFn items) (\<lambda>_ s. finished xv entity items (parts (fst s))) any_error"
    unfolding write_archive_def
  proof (rule hoare_then)
    have "wr parts entity [] [] [] s \<Longrightarrow> written xv parts entity [] s" for s
      unfolding written_def using intact_Nil by (intro exI [of _ "[]"]) simp
    then show "hoare (\<lambda>(w, a). parts w = [] \<and> aw_mediaManifest a = [] \<and> aw_entity a = entity \<and> 0 \<le> aw_currentPart a)
        beginTar (\<lambda>_. written xv parts entity []) any_error"
      by (blast intro: hoare_weaken [OF hoare_beginTar [OF assms(1)]])
    show "hoare (written xv parts entity []) (thenE (foreachE (append_item xv writeFn) items) (Finish xv writeFn))
        (\<lambda>_ s. finished xv entity items (parts (fst s))) any_error"
      using each [of "[]" items] by (auto intro: hoare_then [OF _ hoare_Finish [OF assms(1)]])
  qed
  from hoareD_Inr [OF this _ assms(3)] assms(2) show ?thesis by (simp add: initialWriter_def)
qed

section \<open>The reader\<close>

text \<open>The formats lose nothing: tar files, their compression, and the JSON of a manifest.\<close>

definition lossless :: "archive_externals \<Rightarrow> string \<Rightarrow> item list \<Rightarrow> bool" where
  "lossless xv entity items \<longleftrightarrow> (\<forall>n es. xv_unpack xv (xv_pack xv n es False) = (es, None)) \<and>
     (\<forall>ts. let m = archive_manifest xv entity items ts in xv_decode xv (xv_encode xv m) = Inr (Some m))"

text \<open>Media of different identifiers and archived names, of the users of their servers or of no user.\<close>

definition importable :: "archive_externals \<Rightarrow> item list \<Rightarrow> bool" where
  "importable xv items \<longleftrightarrow> distinct (map item_mxc items) \<and> distinct (map (item_name xv) items) \<and>
     (\<forall>it \<in> set items. mi_UserId (snd it) = [] \<or> (\<exists>l. SplitUserId (mi_UserId (snd it)) = Inr (l, mi_Origin (snd it))))"

definition uploads :: "item list \<Rightarrow> bool \<Rightarrow> (string \<times> bool) list" where
  "uploads items b = map (\<lambda>it. (item_mxc it, b)) items"

definition loaded :: "archive_externals \<Rightarrow> Manifest \<Rightarrow> item list \<Rightarrow> item list \<Rightarrow> ArchiveReader" where
  "loaded xv m done' todo = \<lparr>ar_manifest = Some m, ar_uploaded = uploads done' True @ uploads todo False,
     ar_fileNamesToMxcs = map (\<lambda>it. (item_name xv it, [item_mxc it])) (done' @ todo)\<rparr>"

lemma update_new: "k \<notin> fst ` set al \<Longrightarrow> AList.update k v al = al @ [(k, v)]"
  by (induction al) auto

lemma update_at: "k \<notin> fst ` set al \<Longrightarrow> AList.update k v (al @ (k, u) # bl) = al @ (k, v) # bl"
  by (induction al) auto

lemma fold_update_new:
  "distinct (map f its) \<Longrightarrow> fst ` set al \<inter> f ` set its = {} \<Longrightarrow>
     fold (\<lambda>it. AList.update (f it) (g it)) its al = al @ map (\<lambda>it. (f it, g it)) its"
proof (induction its arbitrary: al)
  case (Cons it its)
  then show ?case by (simp add: update_new)
qed simp

lemma map_of_items: "distinct (map f its) \<Longrightarrow> it \<in> set its \<Longrightarrow> map_of (map (\<lambda>it. (f it, g it)) its) (f it) = Some (g it)"
  by (rule map_of_is_SomeI) (auto simp: comp_def)

lemma registered:
  assumes "distinct (map item_mxc its)" "distinct (map (item_name xv) its)"
  shows "fold register (map (\<lambda>it. (item_mxc it, item_record xv it)) its) (NewReader\<lparr>ar_manifest := Some m\<rparr>) = loaded xv m [] its"
  using assms
proof (induction its rule: rev_induct)
  case (snoc it its)
  have "mr_ArchivedName (item_record xv it) = item_name xv it"
    by (simp add: item_record_def manifest_record_def)
  moreover have "map_of (map (\<lambda>it. (item_name xv it, [item_mxc it])) its) (item_name xv it) = None"
    using snoc.prems(2) by (auto simp: map_of_eq_None_iff)
  ultimately show ?case
    using snoc by (auto simp: register_def loaded_def uploads_def names_of_def update_new image_image)
qed (simp add: NewReader_def loaded_def uploads_def)

lemma TryGetManifestFrom_finished:
  assumes "lossless xv entity items" "importable xv items" "entity \<noteq> []" "part_of xv es p" "manifest_entries xv entity items es"
  shows "\<exists>m. mf_Media m = Some (map (\<lambda>it. (item_mxc it, item_record xv it)) items) \<and> mf_EntityId m = entity \<and>
    TryGetManifestFrom xv p (v, NewReader) = (Inr True, (v, loaded xv m [] items))"
proof -
  obtain ts html where es: "es = [file_entry ''manifest.json'' (xv_encode xv (archive_manifest xv entity items ts)), file_entry ''index.html'' html]"
    using assms(5) by (auto simp: manifest_entries_def)
  let ?m = "archive_manifest xv entity items ts"
  have unpack: "xv_unpack xv p = (es, None)" "xv_decode xv (xv_encode xv ?m) = Inr (Some ?m)"
    using assms(1,4) by (auto simp: lossless_def part_of_def Let_def)
  have media: "mf_Media ?m = Some (map (\<lambda>it. (item_mxc it, item_record xv it)) items)"
    using assms(2) by (simp add: archive_manifest_def importable_def fold_update_new)
  have "upgraded ?m = ?m" "mf_Version ?m = ManifestVersionV2" "mf_EntityId ?m = entity"
    by (simp_all add: upgraded_def archive_manifest_def ManifestVersion_def ManifestVersionV1_def ManifestVersionV2_def)
  then have "use_manifest (Some ?m) (v, NewReader) = (Inr (), (v, loaded xv ?m [] items))"
    using assms(2,3) media by (simp add: use_manifest_def Let_def importable_def registered)
  moreover have "HasManifest (loaded xv ?m [] items)" "\<not> HasManifest NewReader"
    by (simp_all add: HasManifest_def loaded_def NewReader_def)
  ultimately have "TryGetManifestFrom xv p (v, NewReader) = (Inr True, (v, loaded xv ?m [] items))"
    using unpack by (simp add: TryGetManifestFrom_def readArchive_def es io_simps)
  with media \<open>mf_EntityId ?m = entity\<close> show ?thesis by blast
qed

text \<open>An import that hands each file to a function that notes it.\<close>

definition noting :: "(ManifestRecord \<Rightarrow> bytes \<Rightarrow> world \<Rightarrow> world) \<Rightarrow> ProcessOpts" where
  "noting note = \<lparr>po_LockedEntityId = '''', po_CheckUploadedOnly = False,
     po_ProcessFunction = Some (\<lambda>md b. thenE (modifyE (note md b)) (returnE []))\<rparr>"

abbreviation note_item :: "archive_externals \<Rightarrow> (ManifestRecord \<Rightarrow> bytes \<Rightarrow> world \<Rightarrow> world) \<Rightarrow> item \<Rightarrow> world \<Rightarrow> world" where
  "note_item xv note it \<equiv> note (item_record xv it) (fst it)"

lemma import_item:
  assumes "importable xv (done' @ it # todo)" "mf_Media m = Some (map (\<lambda>it. (item_mxc it, item_record xv it)) (done' @ it # todo))"
  shows "importFileFromStream xt ctx (noting note) (item_name xv it) (fst it) (v, loaded xv m done' (it # todo)) =
    (Inr (), (note_item xv note it v, loaded xv m (done' @ [it]) todo))"
proof -
  let ?r = "loaded xv m done' (it # todo)"
  have names: "names_of ?r (item_name xv it) = [item_mxc it]"
    using map_of_items [of "item_name xv" "done' @ it # todo" it "\<lambda>it. [item_mxc it]"] assms(1)
    by (simp add: names_of_def loaded_def importable_def)
  have md: "metadata_of ?r (item_mxc it) = Some (item_record xv it)"
    using map_of_items [of item_mxc "done' @ it # todo" it "item_record xv"] assms
    by (simp add: metadata_of_def loaded_def importable_def)
  have new: "item_mxc it \<notin> fst ` set (uploads done' True)"
    using assms(1) by (auto simp: importable_def uploads_def)
  then have "map_of (uploads done' True) (item_mxc it) = None"
    by (simp add: map_of_eq_None_iff)
  then have up: "\<not> is_uploaded ?r (item_mxc it)"
    by (simp add: is_uploaded_def loaded_def uploads_def map_add_def)
  have mark: "?r\<lparr>ar_uploaded := AList.update (item_mxc it) True (ar_uploaded ?r)\<rparr> = loaded xv m (done' @ [it]) todo"
    using update_at [OF new, of True False "uploads todo False"] by (simp add: loaded_def uploads_def)
  have rec: "MxcUri (mr_Origin (item_record xv it)) (mr_MediaId (item_record xv it)) = item_mxc it"
    "mr_Uploader (item_record xv it) = mi_UserId (snd it)" "mr_Origin (item_record xv it) = mi_Origin (snd it)"
    by (simp_all add: item_record_def manifest_record_def item_mxc_def)
  have "mi_UserId (snd it) = [] \<or> (\<exists>l. SplitUserId (mi_UserId (snd it)) = Inr (l, mi_Origin (snd it)))"
    using assms(1) by (simp add: importable_def)
  then have "import_one xt ctx (noting note) (item_mxc it) (fst it) (v, ?r) =
      (Inr [], (note_item xv note it v, loaded xv m (done' @ [it]) todo))"
    using up md rec mark
    by (auto simp: import_one_def noting_def outside_lock_def import_record_def mark_uploaded_def io_simps)
  then show ?thesis by (simp add: importFileFromStream_def names io_simps)
qed

lemma import_items:
  assumes "importable xv (done' @ todo)" "mf_Media m = Some (map (\<lambda>it. (item_mxc it, item_record xv it)) (done' @ todo))"
  shows "foreachE (\<lambda>e. importFileFromStream xt ctx (noting note) (ae_Name e) (ae_Content e)) (map (item_entry xv) todo)
      (v, loaded xv m done' todo) = (Inr (), (fold (note_item xv note) todo v, loaded xv m (done' @ todo) []))"
  using assms
proof (induction todo arbitrary: done' v)
  case (Cons it todo)
  from Cons.IH [of "done' @ [it]" "note_item xv note it v"] Cons.prems import_item [OF Cons.prems]
  show ?case by (simp add: io_simps item_entry_def)
qed (simp add: io_simps)

lemma foreach_append: "foreachE f (xs @ ys) = thenE (foreachE f xs) (foreachE f ys)"
  by (induction xs) (simp_all add: thenE_def bindE_assoc)

lemma foreach_concat: "foreachE (foreachE f) xss = foreachE f (concat xss)"
  by (induction xss) (simp_all add: foreach_append)

text \<open>Processing the parts is processing the entries of all of them.\<close>

lemma process_parts:
  assumes "lossless xv entity items" "list_all2 (part_of xv) ess ps" "\<forall>es \<in> set ess. list_all ae_Regular es"
    and "\<And>e s. HasManifest (snd s) \<Longrightarrow> HasManifest (snd (snd (f e s)))"
    and "\<And>p. g p = bindE (getsS HasManifest) (\<lambda>has. if \<not> has then throwE (ErrOther ''missing manifest'') else readArchive xv p f)"
    and "HasManifest (snd s)"
  shows "foreachE g ps s = foreachE f (concat ess) s"
  using assms(2,3,6)
proof (induction arbitrary: s rule: list_all2_induct)
  case (Cons es ess p ps)
  have step: "g p s = foreachE f es s"
    using Cons.hyps(1) Cons.prems assms(1)
    by (cases s) (auto simp: assms(5) io_simps readArchive_def lossless_def part_of_def list_all_iff filter_id_conv split: sum.splits prod.splits)
  have keeps: "HasManifest (snd s') \<Longrightarrow> HasManifest (snd (snd (foreachE f es' s')))" for es' s'
  proof (induction es' arbitrary: s')
    case (Cons e es')
    obtain x s1 where "f e s' = (x, s1)" by (cases "f e s'")
    with assms(4) [OF Cons.prems, of e] Cons.IH [of s1] Cons.prems show ?case
      by (simp add: io_simps split: sum.splits)
  qed (simp add: io_simps)
  obtain x s1 where run: "foreachE f es s = (x, s1)" by (cases "foreachE f es s")
  with keeps [of s es] Cons.prems have "HasManifest (snd s1)" by simp
  with Cons.IH [of s1] Cons.prems run step show ?case
    by (simp add: foreach_append io_simps split: sum.splits)
qed simp

lemma preserves_reader:
  "preserves (\<lambda>s. J (snd s)) (on_world m)" "preserves (\<lambda>s. J (snd s)) (getsS f)" "preserves (\<lambda>s. J (snd s)) (lift_result r)"
  "(\<And>r. J r \<Longrightarrow> J (h r)) \<Longrightarrow> preserves (\<lambda>s. J (snd s)) (modifyS h)"
  by (auto intro!: preservesI simp: on_world_def getsS_def modifyS_def lift_result_def io_simps split: prod.splits sum.splits)

lemma importFile_HasManifest: "preserves (\<lambda>s. HasManifest (snd s)) (importFileFromStream xt ctx opts name b)"
  unfolding importFileFromStream_def import_one_def import_record_def mark_uploaded_def Let_def
  by (intro hoare_intros preserves_reader) (auto simp: HasManifest_def clear_uploader_def)

lemma item_name_not: "item_name xv it \<noteq> ''manifest.json''" "item_name xv it \<noteq> ''index.html''"
proof -
  have "CHR ''_'' \<in> set (item_name xv it)" by (cases it) (simp add: item_name_def internalName_def)
  then show "item_name xv it \<noteq> ''manifest.json''" "item_name xv it \<noteq> ''index.html''" by auto
qed

text \<open>
  C31: When the writer of an archive succeeds, the reader finds the manifest in the last part,
  and processing the parts hands every media that was appended to the import exactly once, in
  order, with its content and its record in the manifest, wherever the parts were cut.  No
  media is left over.  The media have different identifiers and archived names and belong to
  users of their servers; tar, gzip and JSON lose nothing, and the persister keeps every part.
\<close>

theorem archive_roundtrip:
  assumes "lossless xv entity items" and "persists parts writeFn" and "importable xv items" and "entity \<noteq> []" and "parts w = []"
    and "write_archive xv writeFn items (w, initialWriter exportId entity partSize) = (Inr (), (w', a'))"
  shows "\<exists>r r'. TryGetManifestFrom xv (last (parts w')) (v, NewReader) = (Inr True, (v, r)) \<and> GetEntityId r = entity \<and>
    foreachE (\<lambda>p. ProcessFile xv xt ctx p (noting note)) (parts w') (v, r) = (Inr (), (fold (note_item xv note) items v, r')) \<and>
    GetNotUploadedMxcUris r' = []"
proof -
  obtain ps mp es ess where ps: "parts w' = ps @ [mp]" "list_all2 (part_of xv) ess ps" "concat ess = map (item_entry xv) items"
      "part_of xv es mp" "manifest_entries xv entity items es"
    using write_archive_finished [OF assms(2,5,6)] unfolding finished_def intact_def by metis
  obtain m where m: "mf_Media m = Some (map (\<lambda>it. (item_mxc it, item_record xv it)) items)" "mf_EntityId m = entity"
      "TryGetManifestFrom xv mp (v, NewReader) = (Inr True, (v, loaded xv m [] items))"
    using TryGetManifestFrom_finished [OF assms(1,3,4) ps(4,5)] by blast
  let ?f = "\<lambda>e. importFileFromStream xt ctx (noting note) (ae_Name e) (ae_Content e)"
  let ?r' = "loaded xv m items []"
  have regular: "\<forall>es \<in> set (ess @ [es]). list_all ae_Regular es"
  proof -
    have "list_all ae_Regular (concat ess)" by (simp add: ps(3) list_all_iff item_entry_def)
    moreover have "list_all ae_Regular es" using ps(5) by (auto simp: manifest_entries_def)
    ultimately show ?thesis by (auto simp: list_all_iff)
  qed
  have "foreachE (\<lambda>p. ProcessFile xv xt ctx p (noting note)) (parts w') (v, loaded xv m [] items) =
      foreachE ?f (concat (ess @ [es])) (v, loaded xv m [] items)"
    unfolding ps(1)
  proof (rule process_parts [OF assms(1) _ regular])
    show "list_all2 (part_of xv) (ess @ [es]) (ps @ [mp])" using ps(2,4) by (simp add: list_all2_appendI)
    show "HasManifest (snd s) \<Longrightarrow> HasManifest (snd (snd (?f e s)))" for e s
      by (rule preservesD [OF importFile_HasManifest])
  qed (simp_all add: ProcessFile_def HasManifest_def loaded_def)
  also have "\<dots> = thenE (foreachE ?f (map (item_entry xv) items)) (foreachE ?f es) (v, loaded xv m [] items)"
    by (simp add: foreach_append ps(3))
  also have "\<dots> = foreachE ?f es (fold (note_item xv note) items v, ?r')"
    using import_items [of xv "[]" items m xt ctx "note" v] assms(3) m(1) by (simp add: io_simps)
  also have "\<dots> = (Inr (), (fold (note_item xv note) items v, ?r'))"
  proof -
    have "names_of ?r' ''manifest.json'' = []" "names_of ?r' ''index.html'' = []"
      using item_name_not [of xv] by (auto simp: names_of_def loaded_def split: option.split dest!: map_of_SomeD) metis+
    then show ?thesis
      using ps(5) by (auto simp: manifest_entries_def importFileFromStream_def io_simps)
  qed
  finally have "foreachE (\<lambda>p. ProcessFile xv xt ctx p (noting note)) (parts w') (v, loaded xv m [] items) =
      (Inr (), (fold (note_item xv note) items v, ?r'))" .
  moreover have "GetEntityId (loaded xv m [] items) = entity" using m(2) by (simp add: GetEntityId_def loaded_def)
  moreover have "GetNotUploadedMxcUris ?r' = []" by (simp add: GetNotUploadedMxcUris_def loaded_def uploads_def)
  ultimately show ?thesis using m(3) ps(1) by auto
qed

section \<open>Formats for the witness\<close>

text \<open>Strings with their length in unary, entries one after the other, and a manifest by its time.\<close>

definition put_str :: "string \<Rightarrow> string" where
  "put_str s = replicate (length s) (CHR ''x'') @ CHR ''.'' # s"

definition get_str :: "string \<Rightarrow> string \<times> string" where
  "get_str b = (let n = length (takeWhile (\<lambda>c. c = CHR ''x'') b); r = drop (Suc n) b in (take n r, drop n r))"

lemma get_put_str: "get_str (put_str s @ r) = (s, r)"
proof -
  have "takeWhile (\<lambda>c. c = CHR ''x'') (put_str s @ r) = replicate (length s) (CHR ''x'')"
    by (simp add: put_str_def takeWhile_append)
  then show ?thesis by (simp add: get_str_def put_str_def)
qed

fun put_entries :: "archive_entry list \<Rightarrow> string" where
  "put_entries [] = []"
| "put_entries (e # es) = (if ae_Regular e then CHR ''r'' else CHR ''d'') # put_str (ae_Name e) @ put_str (ae_Content e) @ put_entries es"

fun get_entries :: "nat \<Rightarrow> string \<Rightarrow> archive_entry list" where
  "get_entries 0 b = []"
| "get_entries (Suc n) b =
     (case b of [] \<Rightarrow> []
      | c # r \<Rightarrow> (case get_str r of (name, r1) \<Rightarrow> (case get_str r1 of (content, r2) \<Rightarrow>
          \<lparr>ae_Name = name, ae_Regular = (c = CHR ''r''), ae_Content = content\<rparr> # get_entries n r2)))"

lemma get_put_entries: "length es \<le> n \<Longrightarrow> get_entries n (put_entries es) = es"
proof (induction es arbitrary: n)
  case Nil
  then show ?case by (cases n) simp_all
next
  case (Cons e es)
  then obtain m where "n = Suc m" "length es \<le> m" by (cases n) auto
  with Cons.IH [of m] show ?case by (simp add: get_put_str)
qed

lemma entries_length: "length es \<le> length (put_entries es)"
  by (induction es) (auto simp: put_str_def)

definition put_int :: "int \<Rightarrow> string" where
  "put_int i = (if i < 0 then replicate (nat (- i)) (CHR ''-'') else replicate (nat i) (CHR ''+''))"

definition get_int :: "string \<Rightarrow> int" where
  "get_int s = (if HasPrefix s ''-'' then - int (length s) else int (length s))"

lemma get_put_int: "get_int (put_int i) = i"
proof (cases "i < 0")
  case True
  then show ?thesis by (cases "nat (- i)") (auto simp: get_int_def put_int_def HasPrefix_def)
next
  case False
  then show ?thesis by (cases "nat i") (auto simp: get_int_def put_int_def HasPrefix_def)
qed

definition demo_items :: "item list" where
  "demo_items = map (\<lambda>(b, i). (b, \<lparr>mi_Origin = ''a.org'', mi_MediaId = i, mi_FileName = ''f'', mi_ContentType = ''text'',
     mi_CreationTs = 1, mi_S3Url = '''', mi_UserId = ''@u:a.org''\<rparr>)) [(''aa'', ''one''), (''b'', ''two'')]"

definition demo_archive :: archive_externals where
  "demo_archive = \<lparr>xv_pack = (\<lambda>n es t. put_entries es), xv_unpack = (\<lambda>b. (get_entries (length b) b, None)),
     xv_encode = (\<lambda>m. put_int (mf_CreatedTs m)),
     xv_decode = (\<lambda>b. Inr (Some (\<lparr>mf_Version = ManifestVersion, mf_EntityId = ''@u:a.org'', mf_CreatedTs = get_int b,
       mf_Media = Some (map (\<lambda>it. (item_mxc it, manifest_record (snd it) (internalName (snd it) ''.bin'') (int (length (fst it))) ''hash'')) demo_items),
       mf_UserId = ''''\<rparr>))),
     xv_index = (\<lambda>i e ms. (''html'', None)), xv_Detect = (\<lambda>s. Inr ''.bin''), xv_sha = (\<lambda>b. ''hash''),
     xv_urlOf = (\<lambda>s. ''''), xv_hostOf = (\<lambda>s. '''')\<rparr>"

definition demo_persister :: PartPersister where
  "demo_persister n name data = modifyE (\<lambda>w. w\<lparr>tbl_exports := tbl_exports w @ [(name, data)]\<rparr>)"

definition demo_parts :: "world \<Rightarrow> bytes list" where
  "demo_parts w = map snd (tbl_exports w)"

lemma demo_persists: "persists demo_parts demo_persister"
  by (auto simp: persists_def env_stable_def demo_parts_def demo_persister_def)

lemma demo_importable: "importable demo_archive demo_items"
proof -
  have "distinct (map item_mxc demo_items)" "distinct (map (item_name demo_archive) demo_items)"
    "SplitUserId ''@u:a.org'' = Inr (''u'', ''a.org'')" by code_simp+
  then show ?thesis by (auto simp: importable_def demo_items_def)
qed

lemma demo_lossless: "lossless demo_archive ''@u:a.org'' demo_items"
proof -
  have "get_entries (length (put_entries es)) (put_entries es) = es" for es
    by (rule get_put_entries [OF entries_length])
  moreover have "item_name demo_archive it = internalName (snd it) ''.bin''" for it
    by (cases it) (simp add: item_name_def demo_archive_def)
  moreover have "distinct (map item_mxc demo_items)" using demo_importable by (simp add: importable_def)
  ultimately show ?thesis
    by (simp add: lossless_def archive_manifest_def fold_update_new get_put_int item_record_def Let_def) (simp add: demo_archive_def get_put_int)
qed

lemma demo_archive_run:
  "case write_archive demo_archive demo_persister demo_items (empty_world, initialWriter ''e'' ''@u:a.org'' 2) of
     (res, (w, a)) \<Rightarrow> res = Inr () \<and> length (demo_parts w) = 3"
  by code_simp

theorem archive_roundtrip_witness:
  "\<exists>ps r r'. length ps = 3 \<and> TryGetManifestFrom demo_archive (last ps) (empty_world, NewReader) = (Inr True, (empty_world, r)) \<and>
     foreachE (\<lambda>p. ProcessFile demo_archive demo_xt demo_ctx p (noting (\<lambda>md b w. w\<lparr>tbl_exports := tbl_exports w @ [(mr_MediaId md, b)]\<rparr>))) ps
       (empty_world, r) = (Inr (), (empty_world\<lparr>tbl_exports := [(''one'', ''aa''), (''two'', ''b'')]\<rparr>, r'))"
proof -
  obtain w a where run: "write_archive demo_archive demo_persister demo_items (empty_world, initialWriter ''e'' ''@u:a.org'' 2) = (Inr (), (w, a))"
      "length (demo_parts w) = 3"
    using demo_archive_run by (auto split: prod.splits)
  let ?note = "\<lambda>md b w. w\<lparr>tbl_exports := tbl_exports w @ [(mr_MediaId md, b)]\<rparr>"
  have "fold (note_item demo_archive ?note) demo_items empty_world = empty_world\<lparr>tbl_exports := [(''one'', ''aa''), (''two'', ''b'')]\<rparr>"
    by (simp add: demo_items_def item_record_def manifest_record_def empty_world_def)
  moreover have "demo_parts empty_world = []" by (simp add: demo_parts_def empty_world_def)
  ultimately show ?thesis
    using archive_roundtrip [OF demo_lossless demo_persists demo_importable _ _ run(1), of empty_world demo_xt demo_ctx ?note] run(2)
    by auto
qed

end
