(* ===== verification/PreviewText.thy ===== *)
theory PreviewText
  imports GoStd
begin

text \<open>
  The text functions of URL previews: \<^verbatim>\<open>url_previewing/u/summarize.go\<close> and
  \<^verbatim>\<open>util/encoding.go\<close>.  Go strings are UTF-8 bytes.  The three regular expressions of
  \<^verbatim>\<open>summarize.go\<close> are spelled out: their white space is ASCII white space and the space
  separators of Unicode, which \<open>units\<close> cuts out of the bytes.
\<close>

section \<open>Regular expressions\<close>

definition byte :: "char \<Rightarrow> nat" where "byte c = of_char c"

text \<open>The number of bytes of the white space character a string starts with, or 0.\<close>

fun space_len :: "string \<Rightarrow> nat" where
  "space_len [] = 0"
| "space_len (a # s) =
     (if byte a \<in> {9, 10, 12, 13, 32} then 1
      else if byte a = 194 \<and> map byte (take 1 s) = [160] then 2
      else if map byte (a # take 2 s) \<in> {[225, 154, 128], [226, 128, 175], [226, 129, 159], [227, 128, 128]} then 3
      else if byte a = 226 \<and> map byte (take 1 s) = [128] \<and> (\<exists>c \<in> set (take 1 (drop 1 s)). 128 \<le> byte c \<and> byte c \<le> 138) then 3
      else 0)"

text \<open>A text as its white space characters (\<open>True\<close>) and its other bytes.\<close>

function units :: "string \<Rightarrow> (bool \<times> string) list" where
  "units [] = []"
| "units (a # s) =
     (let n = space_len (a # s) in
      if n = 0 then (False, [a]) # units s else (True, take n (a # s)) # units (drop (n - 1) s))"
  by pat_completeness auto
termination by (relation "measure length") auto

definition unit_text :: "(bool \<times> string) list \<Rightarrow> string" where
  "unit_text us = concat (map snd us)"

text \<open>\<open>surroundingWhitespace\<close> removed.\<close>

definition trim_units :: "(bool \<times> string) list \<Rightarrow> (bool \<times> string) list" where
  "trim_units us = rev (dropWhile fst (rev (dropWhile fst us)))"

text \<open>\<open>interiorWhitespace\<close>, two characters or more, replaced by a space.\<close>

function crush_units :: "(bool \<times> string) list \<Rightarrow> (bool \<times> string) list" where
  "crush_units [] = []"
| "crush_units (u # us) =
     (if \<not> fst u then u # crush_units us
      else if takeWhile fst us = [] then u # crush_units us
      else (True, '' '') # crush_units (dropWhile fst us))"
  by pat_completeness auto
termination by (relation "measure length") (auto simp: le_imp_less_Suc length_dropWhile_le)

text \<open>\<open>newlines\<close> replaced by a space.\<close>

definition replace_newlines :: "string \<Rightarrow> string" where
  "replace_newlines s = map (\<lambda>c. if byte c \<in> {10, 13} then CHR '' '' else c) s"

section \<open>summarize.go\<close>

text \<open>The words that fit, each after a space; a word that does not fit ends the loop.\<close>

fun fit_words :: "int \<Rightarrow> string \<Rightarrow> string list \<Rightarrow> string" where
  "fit_words maxLength newResult [] = newResult"
| "fit_words maxLength newResult (w # ws) =
     (if int (length (newResult @ '' '' @ w)) > maxLength then newResult
      else fit_words maxLength (newResult @ '' '' @ w) ws)"

definition Summarize :: "string \<Rightarrow> int \<Rightarrow> int \<Rightarrow> goerr + string" where
  "Summarize text maxWords maxLength =
     (let text1 = replace_newlines (unit_text (crush_units (trim_units (units text))));
          splitted = str_split CHR '' '' text1 in
      if int (length splitted) \<ge> maxWords \<and> maxWords < 0 then Inl (Panic ''slice bounds out of range'')
      else
        let result = (if int (length splitted) \<ge> maxWords then str_join '' '' (take (nat maxWords) splitted) else text1);
            result' = (if int (length result) > maxLength then fit_words maxLength '''' (str_split CHR '' '' result) else result) in
        if int (length result') > maxLength then
          (if maxLength < 0 then Inl (Panic ''slice bounds out of range'')
           else Inr (take (nat maxLength) result' @ ''...''))
        else Inr result')"

section \<open>util/encoding.go\<close>

definition is_cont :: "nat \<Rightarrow> nat \<Rightarrow> char \<Rightarrow> bool" where
  "is_cont lo hi c \<longleftrightarrow> lo \<le> byte c \<and> byte c \<le> hi"

text \<open>The number of bytes of the UTF-8 character that a string starts with, or 0.\<close>

definition utf8_len :: "string \<Rightarrow> nat" where
  "utf8_len s = (case s of [] \<Rightarrow> 0 | a # t \<Rightarrow>
     (let n = byte a; cont = (\<lambda>k lo hi. length (take k t) = k \<and> list_all (is_cont lo hi) (take 1 t) \<and> list_all (is_cont 128 191) (drop 1 (take k t))) in
      if n < 128 then 1
      else if 194 \<le> n \<and> n \<le> 223 then (if cont 1 128 191 then 2 else 0)
      else if n = 224 then (if cont 2 160 191 then 3 else 0)
      else if n = 237 then (if cont 2 128 159 then 3 else 0)
      else if 225 \<le> n \<and> n \<le> 239 then (if cont 2 128 191 then 3 else 0)
      else if n = 240 then (if cont 3 144 191 then 4 else 0)
      else if 241 \<le> n \<and> n \<le> 243 then (if cont 3 128 191 then 4 else 0)
      else if n = 244 then (if cont 3 128 143 then 4 else 0)
      else 0))"

function ValidString :: "string \<Rightarrow> bool" where
  "ValidString s = (if s = [] then True else if utf8_len s = 0 then False else ValidString (drop (utf8_len s) s))"
  by pat_completeness auto
termination by (relation "measure length") auto

declare ValidString.simps [simp del]

text \<open>
  The character set libraries: the encoding a document declares and whether that is
  certain, the best guess of the detector, and what a decoder of a character set reads.
\<close>

record charset_externals =
  ch_DetermineEncoding :: "string \<Rightarrow> string \<Rightarrow> string \<times> bool"
  ch_DetectBest :: "string \<Rightarrow> goerr + string"
  ch_NewReader :: "string \<Rightarrow> string \<Rightarrow> goerr + string \<times> goerr option"

definition ToUtf8 :: "charset_externals \<Rightarrow> string \<Rightarrow> string \<Rightarrow> string" where
  "ToUtf8 ch text possibleContentType =
     (if ValidString text then text
      else
        let declared = (if possibleContentType = [] then '''' else
              case ch_DetermineEncoding ch text possibleContentType of (name, ok) \<Rightarrow> if ok then name else '''') in
        case (if declared = [] then ch_DetectBest ch text else Inr declared) of
          Inl _ \<Rightarrow> text
        | Inr textCharset \<Rightarrow> (case ch_NewReader ch text textCharset of
            Inl _ \<Rightarrow> text
          | Inr (converted, Some _) \<Rightarrow> text
          | Inr (converted, None) \<Rightarrow> converted))"


section \<open>What a summary is bounded by\<close>

definition words :: "string \<Rightarrow> string list" where
  "words s = filter (\<lambda>w. w \<noteq> []) (str_split CHR '' '' s)"

lemma fit_words_bound: "int (length r) \<le> n \<Longrightarrow> int (length (fit_words n r ws)) \<le> n"
  by (induction n r ws rule: fit_words.induct) auto

lemma fit_words_take: "\<exists>k. fit_words n r ws = r @ concat (map ((#) CHR '' '') (take k ws))"
proof (induction n r ws rule: fit_words.induct)
  case (2 n r w ws)
  show ?case
  proof (cases "int (length (r @ '' '' @ w)) > n")
    case True
    then show ?thesis by (intro exI [of _ 0]) simp
  next
    case False
    from "2.IH" [OF this] obtain k where "fit_words n (r @ '' '' @ w) ws = (r @ '' '' @ w) @ concat (map ((#) CHR '' '') (take k ws))" ..
    with False show ?thesis by (intro exI [of _ "Suc k"]) simp
  qed
qed simp

lemma split_spaced: "\<forall>w \<in> set ws. CHR '' '' \<notin> set w \<Longrightarrow> str_split CHR '' '' (concat (map ((#) CHR '' '') ws)) = [] # ws"
proof (induction ws)
  case (Cons w ws)
  then show ?case by (cases ws) (simp_all add: str_split_no_sep str_split_append)
qed simp

lemma fit_words_words: "length (words (fit_words n [] (str_split CHR '' '' s))) \<le> length (words s)"
proof -
  let ?ws = "str_split CHR '' '' s"
  obtain k where k: "fit_words n [] ?ws = concat (map ((#) CHR '' '') (take k ?ws))"
    using fit_words_take [of n "[]" ?ws] by auto
  have "\<forall>w \<in> set (take k ?ws). CHR '' '' \<notin> set w" by (auto dest: in_set_takeD str_split_parts)
  then have "words (fit_words n [] ?ws) = filter (\<lambda>w. w \<noteq> []) (take k ?ws)" unfolding k words_def by (simp add: split_spaced)
  also have "length \<dots> \<le> length (filter (\<lambda>w. w \<noteq> []) (take k ?ws @ drop k ?ws))" unfolding filter_append by simp
  finally show ?thesis by (simp add: words_def)
qed

lemma first_words: "length (words (str_join '' '' (take n (str_split CHR '' '' s)))) \<le> n"
proof (cases n)
  case 0
  then show ?thesis by (simp add: words_def)
next
  case (Suc m)
  let ?ws = "take n (str_split CHR '' '' s)"
  have "str_split CHR '' '' (str_join '' '' ?ws) = ?ws"
    by (rule str_split_join) (use Suc in \<open>auto dest: in_set_takeD str_split_parts\<close>)
  then have "words (str_join '' '' ?ws) = filter (\<lambda>w. w \<noteq> []) ?ws" by (simp only: words_def)
  then show ?thesis using length_filter_le [of "\<lambda>w. w \<noteq> []" ?ws] by simp
qed

text \<open>
  The title and the description of a preview have at most the configured number of
  words and of bytes, whatever the page says.  The branch that cuts a word and appends an
  ellipsis is not reached: a word that is too long is dropped.
\<close>

theorem Summarize_bounds:
  assumes "0 \<le> maxWords" and "0 \<le> maxLength"
  shows "\<exists>r. Summarize text maxWords maxLength = Inr r \<and> int (length r) \<le> maxLength \<and> int (length (words r)) \<le> maxWords"
proof -
  let ?text = "replace_newlines (unit_text (crush_units (trim_units (units text))))"
  let ?ws = "str_split CHR '' '' ?text"
  let ?r = "if int (length ?ws) \<ge> maxWords then str_join '' '' (take (nat maxWords) ?ws) else ?text"
  have "length (words ?text) \<le> length ?ws" unfolding words_def by (rule length_filter_le)
  then have w: "int (length (words ?r)) \<le> maxWords" using first_words [of "nat maxWords" ?text] assms(1) by auto
  show ?thesis
  proof (cases "int (length ?r) > maxLength")
    case True
    let ?f = "fit_words maxLength [] (str_split CHR '' '' ?r)"
    have len: "int (length ?f) \<le> maxLength" by (rule fit_words_bound) (use assms(2) in simp)
    then have "Summarize text maxWords maxLength = Inr ?f"
      using True assms unfolding Summarize_def Let_def by (simp only: if_True if_False not_less) auto
    with len w fit_words_words [of maxLength ?r] show ?thesis by auto
  next
    case False
    then have "Summarize text maxWords maxLength = Inr ?r"
      using assms unfolding Summarize_def Let_def by (simp only: if_True if_False) auto
    with w False show ?thesis by auto
  qed
qed

theorem Summarize_bounds_witness:
  "\<exists>r. Summarize ''one two three'' 2 5 = Inr r \<and> int (length r) \<le> 5 \<and> int (length (words r)) \<le> 2"
  by (rule Summarize_bounds) simp_all

end
