(* ===== verification/Preview.thy ===== *)
theory Preview
  imports Matrix Api PreviewText
begin

text \<open>
  URL previews: the fetching of pages and images (\<^verbatim>\<open>url_previewing/u/http.go\<close>), the three
  previewers (\<^verbatim>\<open>url_previewing/p\<close>), the pipeline with its steps
  (\<^verbatim>\<open>pipelines/pipeline_preview\<close>, \<^verbatim>\<open>pipelines/_steps/url_preview\<close>) and the handler
  (\<^verbatim>\<open>api/r0/preview_url.go\<close>).

  Pages and images are fetched with the safe client of \<open>Matrix\<close>, so a preview is a computation
  on the repository and the client's state; the oEmbed library fetches with a client of its own.  The parsers of URLs, media types and HTML, the
  libraries for OpenGraph, oEmbed and HTML-to-text and the character sets are parameters.
  The worker pool runs a preview in place; a panic of the worker is caught by the pool and
  leaves the request waiting for its channel, which is the value \<open>Panic\<close> here as well.
  Bodies arrive whole, in buffers as large as they are asked for.
\<close>

section \<open>State and parameters\<close>

record url =
  url_Scheme :: string
  url_Fragment :: string
  url_rest :: string

record UrlPayload =
  UrlString :: string
  ParsedUrl :: url

record PreviewImage =
  pi_ContentType :: string
  pi_Data :: "bytes option"
  pi_Filename :: string

record PreviewResult =
  pr_Url :: string
  pr_SiteName :: string
  pr_Type :: string
  pr_Description :: string
  pr_Title :: string
  pr_Image :: "PreviewImage option"

record og_page =
  og_Type :: string
  og_URL :: string
  og_SiteName :: string
  og_Title :: string
  og_Description :: string
  og_Images :: "string list"

record oembed_info =
  oe_Type :: string
  oe_URL :: string
  oe_Title :: string
  oe_Description :: string
  oe_ProviderName :: string
  oe_HTML :: string
  oe_ThumbnailURL :: string

text \<open>
  What the selectors of \<^verbatim>\<open>opengraph.go\<close> find in a document: the text of the first element
  of a name, the content of the description, the text of the body without the elements
  of the given names, and source, width and height of the images in order.
\<close>

record document =
  doc_First :: "string \<Rightarrow> string"
  doc_MetaDescription :: "string option"
  doc_BodyWithout :: "string list \<Rightarrow> string"
  doc_Images :: "(string option \<times> string option \<times> string option) list"

record preview_externals =
  pe_matrix :: matrix_externals
  pe_upload :: externals
  pe_generators :: "Generator list"
  pe_charset :: charset_externals
  pe_Parse :: "string \<Rightarrow> goerr + url"
  pe_String :: "url \<Rightarrow> string"
  pe_ResolveReference :: "url \<Rightarrow> url \<Rightarrow> url"
  pe_NewRequest :: "string \<Rightarrow> goerr + unit"
  pe_ParseMediaType :: "string \<Rightarrow> (string \<times> string) list option \<times> goerr option"
  pe_glob :: "string \<Rightarrow> string \<Rightarrow> bool"
  pe_ProcessHTML :: "string \<Rightarrow> goerr + og_page"
  pe_NewDocument :: "string \<Rightarrow> goerr + document"
  pe_FindItem :: "string \<Rightarrow> (string \<Rightarrow> string \<Rightarrow> (string \<times> string) list \<times> (goerr + oembed_info)) option"
  pe_HTML2Text :: "string \<Rightarrow> string"

definition ErrPreviewUnsupported :: goerr where
  "ErrPreviewUnsupported = ErrOther ''preview not supported by this previewer''"

section \<open>url\_previewing/u/http.go\<close>

definition reply_Get :: "Matrix.http_reply \<Rightarrow> string \<Rightarrow> string" where
  "reply_Get reply name = (case map_of (reply_Header reply) name of None \<Rightarrow> '''' | Some v \<Rightarrow> v)"

definition preview_client :: "RequestContext \<Rightarrow> http_client" where
  "preview_client ctx =
     (let conf = UrlPreviews (ctx_Config ctx) in
      NewHttpClient \<lparr>hc_AllowUnsafeCertificate = pv_UnsafeCertificates conf,
        hc_AllowedCIDRs = Some (pv_AllowedNetworks conf), hc_DeniedCIDRs = pv_DisallowedNetworks conf,
        hc_TLSServerName = '''', hc_FollowRedirects = True\<rparr>)"

definition doHttpGet :: "preview_externals \<Rightarrow> RequestContext \<Rightarrow> UrlPayload \<Rightarrow> string \<Rightarrow> Matrix.http_reply matrix_io" where
  "doHttpGet pe ctx urlPayload languageHeader =
     (let u = ParsedUrl urlPayload in
      if url_Scheme u \<noteq> ''https'' then throwE (ErrOther ''must provide https url'')
      else bindE (lift_result (pe_NewRequest pe (pe_String pe u))) (\<lambda>_.
        client_Do (pe_matrix pe) (preview_client ctx) 0
          \<lparr>call_Method = ''GET'', call_Url = pe_String pe u,
           call_Headers = [(''User-Agent'', pv_UserAgent (UrlPreviews (ctx_Config ctx))), (''Accept-Language'', languageHeader)]\<rparr>))"

text \<open>The reader (nil without a limit on the size of a page), the file name and the content type.\<close>

definition DownloadRawContent ::
  "preview_externals \<Rightarrow> RequestContext \<Rightarrow> UrlPayload \<Rightarrow> string list \<Rightarrow> string \<Rightarrow> (bytes option \<times> string \<times> string) matrix_io" where
  "DownloadRawContent pe ctx urlPayload supportedTypes languageHeader =
     bindE (doHttpGet pe ctx urlPayload languageHeader) (\<lambda>resp.
     let maxBytes = pv_MaxPageSizeBytes (UrlPreviews (ctx_Config ctx)); contentType = reply_Get resp ''Content-Type'' in
     if reply_Status resp \<noteq> 200 then throwE (ErrOther ''error during transfer'')
     else if maxBytes > 0 \<and> reply_ContentLength resp \<ge> 0 \<and> reply_ContentLength resp > maxBytes then throwE ErrMediaTooLarge
     else if list_ex (\<lambda>supportedType. \<not> pe_glob pe supportedType contentType) supportedTypes then throwE ErrPreviewUnsupported
     else
       let reader = (if maxBytes > 0 then Some (take (nat maxBytes) (reply_Body resp)) else None);
           filename = (case fst (pe_ParseMediaType pe (reply_Get resp ''Content-Disposition'')) of
             None \<Rightarrow> ''''
           | Some params \<Rightarrow> (case map_of params ''filename'' of None \<Rightarrow> '''' | Some f \<Rightarrow> f)) in
       returnE (reader, filename, contentType))"

definition DownloadHtmlContent ::
  "preview_externals \<Rightarrow> RequestContext \<Rightarrow> UrlPayload \<Rightarrow> string list \<Rightarrow> string \<Rightarrow> string matrix_io" where
  "DownloadHtmlContent pe ctx urlPayload supportedTypes languageHeader =
     bindE (DownloadRawContent pe ctx urlPayload supportedTypes languageHeader) (\<lambda>(r, _, contentType).
     case r of
       None \<Rightarrow> throwE (Panic ''invalid memory address or nil pointer dereference'')
     | Some raw \<Rightarrow> returnE (ToUtf8 (pe_charset pe) raw contentType))"

definition DownloadImage :: "preview_externals \<Rightarrow> RequestContext \<Rightarrow> UrlPayload \<Rightarrow> string \<Rightarrow> PreviewImage matrix_io" where
  "DownloadImage pe ctx urlPayload languageHeader =
     bindE (doHttpGet pe ctx urlPayload languageHeader) (\<lambda>resp.
     if reply_Status resp \<noteq> 200 then throwE (ErrOther ''error during transfer'')
     else
       let filename = (case pe_ParseMediaType pe (reply_Get resp ''Content-Disposition'') of
             (Some params, None) \<Rightarrow> (case map_of params ''filename'' of None \<Rightarrow> '''' | Some f \<Rightarrow> f)
           | _ \<Rightarrow> '''') in
       returnE \<lparr>pi_ContentType = reply_Get resp ''Content-Type'', pi_Data = Some (reply_Body resp), pi_Filename = filename\<rparr>)"

section \<open>url\_previewing/p\<close>

text \<open>The image a page names, relative to the page; a failure only leaves the image out.\<close>

definition page_image :: "preview_externals \<Rightarrow> RequestContext \<Rightarrow> UrlPayload \<Rightarrow> string \<Rightarrow> string \<Rightarrow> PreviewImage option matrix_io" where
  "page_image pe ctx urlPayload languageHeader picture =
     (case pe_Parse pe picture of
        Inl _ \<Rightarrow> returnE None
      | Inr imgUrl \<Rightarrow>
          let imgAbsUrl = pe_ResolveReference pe (ParsedUrl urlPayload) imgUrl in
          bindE (tryE (DownloadImage pe ctx \<lparr>UrlString = pe_String pe imgAbsUrl, ParsedUrl = imgAbsUrl\<rparr> languageHeader)) (\<lambda>img.
          returnE (case img of Inl _ \<Rightarrow> None | Inr i \<Rightarrow> Some i)))"

text \<open>
  The item of the oEmbed library fetches from the endpoint of its provider with a client of its
  own, to which no limits on networks are passed: besides the answer, the parameter says to
  which addresses it connects, and they are recorded with those of the safe client.
\<close>

definition FetchOembed ::
  "(string \<Rightarrow> string \<Rightarrow> (string \<times> string) list \<times> (goerr + oembed_info)) \<Rightarrow> string \<Rightarrow> string \<Rightarrow> oembed_info matrix_io" where
  "FetchOembed item u languageHeader =
     thenE (modifyS (\<lambda>s. s\<lparr>dialled := fst (item u languageHeader) @ dialled s\<rparr>))
       (on_world (ext (lift_result (snd (item u languageHeader)))))"

definition GenerateOEmbedPreview :: "preview_externals \<Rightarrow> RequestContext \<Rightarrow> UrlPayload \<Rightarrow> string \<Rightarrow> PreviewResult matrix_io" where
  "GenerateOEmbedPreview pe ctx urlPayload languageHeader =
     (case pe_FindItem pe (pe_String pe (ParsedUrl urlPayload)) of
        None \<Rightarrow> throwE ErrPreviewUnsupported
      | Some item \<Rightarrow>
          bindE (FetchOembed item (pe_String pe (ParsedUrl urlPayload)) languageHeader) (\<lambda>info0.
          let info = (if oe_Type info0 = ''rich'' then info0\<lparr>oe_Description := pe_HTML2Text pe (oe_HTML info0)\<rparr>
                else if oe_Type info0 = ''photo'' then info0\<lparr>oe_ThumbnailURL := oe_URL info0\<rparr> else info0);
              graph = \<lparr>pr_Url = oe_URL info, pr_SiteName = oe_ProviderName info, pr_Type = oe_Type info,
                pr_Description = oe_Description info, pr_Title = oe_Title info, pr_Image = None\<rparr> in
          if oe_ThumbnailURL info \<noteq> [] then
            bindE (page_image pe ctx urlPayload languageHeader (oe_ThumbnailURL info)) (\<lambda>img. returnE (graph\<lparr>pr_Image := img\<rparr>))
          else returnE graph))"

definition calcTitle :: "preview_externals \<Rightarrow> string \<Rightarrow> string" where
  "calcTitle pe html =
     (case pe_NewDocument pe html of
        Inl _ \<Rightarrow> ''''
      | Inr doc \<Rightarrow>
          let titleText = doc_First doc ''title''; h1Text = doc_First doc ''h1''; h2Text = doc_First doc ''h2'';
              h3Text = doc_First doc ''h3'' in
          if titleText \<noteq> [] then titleText else if h1Text \<noteq> [] then h1Text
          else if h2Text \<noteq> [] then h2Text else if h3Text \<noteq> [] then h3Text else '''')"

definition calcDescription :: "preview_externals \<Rightarrow> string \<Rightarrow> string" where
  "calcDescription pe html =
     (case pe_NewDocument pe html of
        Inl _ \<Rightarrow> ''''
      | Inr doc \<Rightarrow>
          let body = doc_BodyWithout doc [''header'', ''nav'', ''aside'', ''footer'', ''noscript'', ''script'', ''style''] in
          (case doc_MetaDescription doc of
             Some metaDescription \<Rightarrow> if metaDescription \<noteq> [] then metaDescription else body
           | None \<Rightarrow> body))"

fun calc_image :: "string \<times> int \<Rightarrow> string option \<times> string option \<times> string option \<Rightarrow> string \<times> int" where
  "calc_image (imageSrc, dimensionScore) (Some src, Some wStr, Some hStr) =
     (let w = Atoi_value wStr; h = Atoi_value hStr in
      if src = [] then (imageSrc, dimensionScore)
      else if w < 10 \<or> h < 10 then (imageSrc, dimensionScore)
      else if int64 (w * h) < dimensionScore \<or> dimensionScore = 0 then (src, int64 (w * h))
      else (imageSrc, dimensionScore))"
| "calc_image best _ = best"

definition calcImages :: "preview_externals \<Rightarrow> string \<Rightarrow> string list" where
  "calcImages pe html =
     (case pe_NewDocument pe html of
        Inl _ \<Rightarrow> []
      | Inr doc \<Rightarrow>
          let (imageSrc, dimensionScore) = foldl calc_image ('''', 0) (doc_Images doc) in
          if imageSrc = [] \<or> dimensionScore \<le> 0 then [] else [imageSrc])"

definition ogSupportedTypes :: "string list" where "ogSupportedTypes = [''text/*'']"

text \<open>The error of a failed download: unsupported stays, everything else is not found.\<close>

definition unsupported_or_missing :: "goerr \<Rightarrow> goerr" where
  "unsupported_or_missing err = (if err = ErrPreviewUnsupported then ErrPreviewUnsupported else ErrMediaNotFound)"

definition GenerateOpenGraphPreview :: "preview_externals \<Rightarrow> RequestContext \<Rightarrow> UrlPayload \<Rightarrow> string \<Rightarrow> PreviewResult matrix_io" where
  "GenerateOpenGraphPreview pe ctx urlPayload languageHeader =
     bindE (tryE (DownloadHtmlContent pe ctx urlPayload ogSupportedTypes languageHeader)) (\<lambda>page. case page of
       Inl err \<Rightarrow> throwE (unsupported_or_missing err)
     | Inr html \<Rightarrow>
         bindE (lift_result (pe_ProcessHTML pe html)) (\<lambda>og.
         let conf = UrlPreviews (ctx_Config ctx);
             title = (if og_Title og = [] then calcTitle pe html else og_Title og);
             description = (if og_Description og = [] then calcDescription pe html else og_Description og);
             images = (if og_Images og = [] then calcImages pe html else og_Images og) in
         bindE (lift_result (Summarize title (pv_NumTitleWords conf) (pv_MaxTitleLength conf))) (\<lambda>title'.
         bindE (lift_result (Summarize description (pv_NumWords conf) (pv_MaxLength conf))) (\<lambda>description'.
         let graph = \<lparr>pr_Url = og_URL og, pr_SiteName = og_SiteName og, pr_Type = og_Type og,
               pr_Description = description', pr_Title = title', pr_Image = None\<rparr> in
         case images of
           [] \<Rightarrow> returnE graph
         | picture # _ \<Rightarrow>
             bindE (page_image pe ctx urlPayload languageHeader picture) (\<lambda>img. returnE (graph\<lparr>pr_Image := img\<rparr>))))))"

definition IsSupported :: "Generator list \<Rightarrow> string \<Rightarrow> bool" where
  "IsSupported gens contentType = ArrayContains (concat (map gi_supportedContentTypes gens)) contentType"

definition GenerateCalculatedPreview :: "preview_externals \<Rightarrow> RequestContext \<Rightarrow> UrlPayload \<Rightarrow> string \<Rightarrow> PreviewResult matrix_io" where
  "GenerateCalculatedPreview pe ctx urlPayload languageHeader =
     (let conf = UrlPreviews (ctx_Config ctx); urlText = pe_String pe (ParsedUrl urlPayload) in
      bindE (tryE (DownloadRawContent pe ctx urlPayload (pv_FilePreviewTypes conf) languageHeader)) (\<lambda>page. case page of
        Inl err \<Rightarrow> throwE (unsupported_or_missing err)
      | Inr (r, filename0, contentType) \<Rightarrow>
          let img = \<lparr>pi_ContentType = contentType, pi_Data = r, pi_Filename = filename0\<rparr>;
              filename = (if filename0 \<noteq> [] then filename0 else urlText);
              description0 = (if filename0 \<noteq> [] then '''' else urlText);
              description = (if description0 = filename then '''' else description0) in
          bindE (lift_result (Summarize filename (pv_NumTitleWords conf) (pv_MaxTitleLength conf))) (\<lambda>title.
          bindE (lift_result (Summarize description (pv_NumWords conf) (pv_MaxLength conf))) (\<lambda>description'.
          let result = \<lparr>pr_Url = urlText, pr_SiteName = '''', pr_Type = '''', pr_Description = description',
                pr_Title = title, pr_Image = None\<rparr> in
          if IsSupported (pe_generators pe) contentType then returnE (result\<lparr>pr_Image := Some img\<rparr>)
          else if r = None then throwE (Panic ''invalid memory address or nil pointer dereference'')
          else returnE result))))"

section \<open>\_steps/url\_preview\<close>

definition unsupported :: "goerr + 'a \<Rightarrow> bool" where
  "unsupported r \<longleftrightarrow> (case r of Inl err \<Rightarrow> err = ErrPreviewUnsupported | Inr _ \<Rightarrow> False)"

definition url_preview :: "preview_externals \<Rightarrow> RequestContext \<Rightarrow> UrlPayload \<Rightarrow> string \<Rightarrow> PreviewResult matrix_io" where
  "url_preview pe ctx targetUrl languageHeader =
     thenE (on_world (ext (returnE ())))
    (bindE (if pv_OEmbed (UrlPreviews (ctx_Config ctx)) then tryE (GenerateOEmbedPreview pe ctx targetUrl languageHeader)
            else returnE (Inl ErrPreviewUnsupported)) (\<lambda>r1.
     bindE (if unsupported r1 then tryE (GenerateOpenGraphPreview pe ctx targetUrl languageHeader) else returnE r1) (\<lambda>r2.
     bindE (if unsupported r2 then tryE (GenerateCalculatedPreview pe ctx targetUrl languageHeader) else returnE r2)
       lift_result)))"

text \<open>
  The bytes that the generators read of the image before one of them matches: all that is
  left to the reader of the dimensions, since the rest of the pipe is discarded first.
\<close>

fun sniffed :: "Generator list \<Rightarrow> bytes \<Rightarrow> string \<Rightarrow> nat" where
  "sniffed [] img contentType = 0"
| "sniffed (g # gs) img contentType =
     (case gi_matches g img contentType of
        (True, n) \<Rightarrow> n
      | (False, n) \<Rightarrow> n + sniffed gs (drop n img) contentType)"

definition origin_dimensions :: "Generator list \<Rightarrow> bytes \<Rightarrow> string \<Rightarrow> int \<times> int" where
  "origin_dimensions gens img contentType =
     (case GetGenerator gens img contentType False of
        None \<Rightarrow> (0, 0)
      | Some g \<Rightarrow> (case gi_GetOriginDimensions g (take (sniffed gens img contentType) img) contentType of
          Inl _ \<Rightarrow> (0, 0) | Inr (_, w, h) \<Rightarrow> (w, h)))"

text \<open>
  The upload reads the image and copies it into the pipe from which the dimensions are
  read.  The result is the new record, if any, and the preview with its image set.
\<close>

definition UploadImage ::
  "preview_externals \<Rightarrow> RequestContext \<Rightarrow> PreviewImage option \<Rightarrow> string \<Rightarrow> string \<Rightarrow> DbUrlPreview \<Rightarrow>
   (world, DbMedia option \<times> DbUrlPreview) io" where
  "UploadImage pe ctx picture onHost userId forRecord =
     (case picture of
        None \<Rightarrow> returnE (None, forRecord)
      | Some img \<Rightarrow> (case pi_Data img of
          None \<Rightarrow> returnE (None, forRecord)
        | Some data \<Rightarrow>
            bindE (tryE (GenerateMediaId (xt_IsImportProcess (pe_upload pe)) onHost)) (\<lambda>gen. case gen of
              Inl _ \<Rightarrow> returnE (None, forRecord)
            | Inr mediaId \<Rightarrow>
                bindE (tryE (upload_Execute (pe_upload pe) ctx onHost mediaId (reader_of (data, None))
                  (pi_ContentType img) (pi_Filename img) userId LocalMediaKind)) (\<lambda>res. case res of
                  Inr (Some record) \<Rightarrow>
                    let (w, h) = origin_dimensions (pe_generators pe) data (pi_ContentType img) in
                    returnE (Some record, forRecord\<lparr>p_ImageMxc := MxcUri (m_Origin record) (m_MediaId record),
                      p_ImageType := m_ContentType record, p_ImageSize := m_SizeBytes record,
                      p_ImageWidth := w, p_ImageHeight := h\<rparr>)
                | _ \<Rightarrow> returnE (None, forRecord)))))"

definition cleanupUnusedPreviewMedia :: "RequestContext \<Rightarrow> DbMedia \<Rightarrow> (world, unit) io" where
  "cleanupUnusedPreviewMedia ctx record =
     thenE (restricted_Delete (m_Origin record) (m_MediaId record))
    (thenE (media_Delete (m_Origin record) (m_MediaId record))
    (bindE (media_LocationExists (DatastoreId record) (Location record)) (\<lambda>exists.
     if exists then returnE () else RemoveWithDsId ctx (DatastoreId record) (Location record))))"

definition clearPreviewImage :: "DbUrlPreview \<Rightarrow> DbUrlPreview" where
  "clearPreviewImage record = record\<lparr>p_ImageMxc := '''', p_ImageType := '''', p_ImageSize := 0, p_ImageWidth := 0, p_ImageHeight := 0\<rparr>"

text \<open>The three branches of \<open>Process\<close> that give up on the cache: the image is removed and, if that worked, cleared.\<close>

definition give_up :: "RequestContext \<Rightarrow> DbMedia option \<Rightarrow> DbUrlPreview \<Rightarrow> (world, DbUrlPreview) io" where
  "give_up ctx uploadedMedia result =
     (case uploadedMedia of
        None \<Rightarrow> returnE result
      | Some m \<Rightarrow> bindE (tryE (cleanupUnusedPreviewMedia ctx m)) (\<lambda>r.
          returnE (case r of Inl _ \<Rightarrow> result | Inr _ \<Rightarrow> clearPreviewImage result)))"

definition keep_existing ::
  "RequestContext \<Rightarrow> DbMedia option \<Rightarrow> DbUrlPreview \<Rightarrow> DbUrlPreview option \<Rightarrow> (world, DbUrlPreview) io" where
  "keep_existing ctx uploadedMedia result existing =
     thenE (case uploadedMedia of
        None \<Rightarrow> returnE ()
      | Some m \<Rightarrow> whenE (case existing of None \<Rightarrow> True | Some e \<Rightarrow> p_ImageMxc e \<noteq> p_ImageMxc result)
          (bindE (tryE (cleanupUnusedPreviewMedia ctx m)) (\<lambda>_. returnE ())))
    (returnE (case existing of Some e \<Rightarrow> e | None \<Rightarrow> result))"

definition new_preview :: "string \<Rightarrow> PreviewResult \<Rightarrow> string \<Rightarrow> int \<Rightarrow> DbUrlPreview" where
  "new_preview previewUrl preview languageHeader ts =
     \<lparr>p_Url = previewUrl, p_ErrorCode = '''', p_BucketTs = ts, p_SiteUrl = pr_Url preview, p_SiteName = pr_SiteName preview,
      p_ResourceType = pr_Type preview, p_Description = pr_Description preview, p_Title = pr_Title preview,
      p_ImageMxc = '''', p_ImageType = '''', p_ImageSize = 0, p_ImageWidth = 0, p_ImageHeight = 0,
      p_LanguageHeader = languageHeader\<rparr>"

text \<open>Steps 7 and 8 of a preview that was generated.\<close>

definition cache_preview :: "RequestContext \<Rightarrow> DbMedia option \<Rightarrow> DbUrlPreview \<Rightarrow> (world, DbUrlPreview) io" where
  "cache_preview ctx uploadedMedia result =
     (let reread = previews_Get (p_Url result) (p_BucketTs result) (p_LanguageHeader result) in
      bindE (tryE (previews_Insert result)) (\<lambda>ins. case ins of
        Inl _ \<Rightarrow> give_up ctx uploadedMedia result
      | Inr inserted \<Rightarrow>
          if inserted then returnE result
          else bindE (tryE reread) (\<lambda>got. case got of
            Inl _ \<Rightarrow> give_up ctx uploadedMedia result
          | Inr existing \<Rightarrow>
              if (case existing of None \<Rightarrow> False | Some e \<Rightarrow> p_ErrorCode e \<noteq> '''') then
                bindE (tryE (previews_UpdateIfError result)) (\<lambda>upd.
                if upd = Inr True then returnE result
                else bindE (tryE reread) (\<lambda>got'. case got' of
                  Inl _ \<Rightarrow> give_up ctx uploadedMedia result
                | Inr existing' \<Rightarrow> keep_existing ctx uploadedMedia result existing'))
              else keep_existing ctx uploadedMedia result existing)))"

definition preview_Process ::
  "preview_externals \<Rightarrow> RequestContext \<Rightarrow> string \<Rightarrow> goerr + PreviewResult \<Rightarrow> string \<Rightarrow> string \<Rightarrow> string \<Rightarrow> int \<Rightarrow>
   (world, DbUrlPreview) io" where
  "preview_Process pe ctx previewUrl generated onHost userId languageHeader ts =
     (case generated of
        Inl err0 \<Rightarrow>
          let err = (if err0 = ErrPreviewUnsupported then ErrMediaNotFound else err0) in
          thenE (previews_InsertError previewUrl (if err = ErrMediaNotFound then ErrCodeNotFound else ErrCodeUnknown) ts languageHeader)
            (throwE err)
      | Inr preview \<Rightarrow>
          bindE (UploadImage pe ctx (pr_Image preview) onHost userId (new_preview previewUrl preview languageHeader ts))
            (\<lambda>(uploadedMedia, result). cache_preview ctx uploadedMedia result))"

section \<open>pipeline\_preview/pipeline.go\<close>

definition ErrCodeInvalidHost :: string where "ErrCodeInvalidHost = ''M_INVALID_HOST''"

text \<open>Steps 3 to 6, at a timestamp whose bucket is the current one.\<close>

definition generate_preview ::
  "preview_externals \<Rightarrow> RequestContext \<Rightarrow> string \<Rightarrow> string \<Rightarrow> string \<Rightarrow> int \<Rightarrow> string \<Rightarrow> DbUrlPreview option matrix_io" where
  "generate_preview pe ctx onHost previewUrl userId atBucket languageHeader =
     (case pe_Parse pe previewUrl of
        Inl _ \<Rightarrow>
          thenE (on_world (previews_InsertError previewUrl ErrCodeInvalidHost atBucket languageHeader)) (throwE ErrInvalidHost)
      | Inr parsed \<Rightarrow>
          bindE (tryE (url_preview pe ctx \<lparr>UrlString = previewUrl, ParsedUrl = parsed\<lparr>url_Fragment := ''''\<rparr>\<rparr> languageHeader)) (\<lambda>generated.
          bindE (on_world (preview_Process pe ctx previewUrl generated onHost userId languageHeader atBucket)) (\<lambda>r.
          returnE (Some r))))"

text \<open>
  The pipeline enters itself again with the current time when its timestamp is in another
  hour.  A step is repeated only while the clock moves on by more than a minute between two
  readings, which the script of the clock bounds.
\<close>

fun preview_loop ::
  "nat \<Rightarrow> preview_externals \<Rightarrow> RequestContext \<Rightarrow> string \<Rightarrow> string \<Rightarrow> string \<Rightarrow> int \<Rightarrow> string \<Rightarrow> DbUrlPreview option matrix_io" where
  "preview_loop 0 pe ctx onHost previewUrl userId timestamp languageHeader = throwE (Panic ''not enough fuel'')"
| "preview_loop (Suc n) pe ctx onHost previewUrl userId timestamp languageHeader =
     bindE (on_world (previews_Get previewUrl timestamp languageHeader)) (\<lambda>record.
     if record \<noteq> None then returnE record
     else bindE (on_world NowMillis) (\<lambda>t.
       if int64 (t - timestamp) > 60000 \<and> GetHourBucket timestamp \<noteq> GetHourBucket t
       then preview_loop n pe ctx onHost previewUrl userId t languageHeader
       else generate_preview pe ctx onHost previewUrl userId (GetHourBucket timestamp) languageHeader))"

definition preview_Execute ::
  "preview_externals \<Rightarrow> RequestContext \<Rightarrow> string \<Rightarrow> string \<Rightarrow> string \<Rightarrow> int \<Rightarrow> string \<Rightarrow> DbUrlPreview option matrix_io" where
  "preview_Execute pe ctx onHost previewUrl userId timestamp languageHeader =
     bindE (getsE (\<lambda>(w, _). length (ticks w) + 2)) (\<lambda>fuel.
     preview_loop fuel pe ctx onHost previewUrl userId timestamp languageHeader)"

section \<open>api/r0/preview\_url.go\<close>

definition omitempty :: "(string \<times> json) list \<Rightarrow> json" where
  "omitempty kvs = JObj (filter (\<lambda>(k, v). v \<noteq> JStr '''' \<and> v \<noteq> JInt 0) kvs)"

definition MatrixOpenGraph :: "DbUrlPreview \<Rightarrow> json" where
  "MatrixOpenGraph p = omitempty
     [(''og:url'', JStr (p_SiteUrl p)), (''og:site_name'', JStr (p_SiteName p)), (''og:type'', JStr (p_ResourceType p)),
      (''og:description'', JStr (p_Description p)), (''og:title'', JStr (p_Title p)), (''og:image'', JStr (p_ImageMxc p)),
      (''og:image:type'', JStr (p_ImageType p)), (''matrix:image:size'', JInt (p_ImageSize p)),
      (''og:image:width'', JInt (p_ImageWidth p)), (''og:image:height'', JInt (p_ImageHeight p))]"

definition preview_error :: "string \<Rightarrow> goerr option" where
  "preview_error code =
     (if code = '''' then None
      else if code = ErrCodeInvalidHost then Some ErrInvalidHost
      else if code = ErrCodeNotFound then Some ErrMediaNotFound
      else Some (ErrOther (''url previews: unknown error code: '' @ code)))"

definition preview_response :: "goerr + DbUrlPreview option \<Rightarrow> (world \<times> matrix_state, response) io" where
  "preview_response r =
     (case (case r of
          Inl err \<Rightarrow> Inl err
        | Inr None \<Rightarrow> Inr None
        | Inr (Some p) \<Rightarrow> (case preview_error (p_ErrorCode p) of Some err \<Rightarrow> Inl err | None \<Rightarrow> Inr (Some p))) of
        Inl err \<Rightarrow> returnE
          (if err = ErrMediaNotFound \<or> err = ErrHostNotFound then NotFoundError
           else if err = ErrInvalidHost \<or> err = ErrHostNotAllowed then BadRequest (err_text err)
           else InternalServerError ''Unexpected Error'')
      | Inr None \<Rightarrow> throwE (Panic ''invalid memory address or nil pointer dereference'')
      | Inr (Some p) \<Rightarrow> returnE (JsonResponse (MatrixOpenGraph p)))"

definition PreviewUrl ::
  "preview_externals \<Rightarrow> http_request \<Rightarrow> RequestContext \<Rightarrow> UserInfo \<Rightarrow> (world \<times> matrix_state, response) io" where
  "PreviewUrl pe r ctx user =
     (if \<not> pv_Enabled (UrlPreviews (ctx_Config ctx)) then returnE NotFoundError
      else
        let urlStr = Query_Get r ''url''; tsStr = Query_Get r ''ts'' in
        bindE (on_world NowMillis) (\<lambda>now0.
        case (if tsStr \<noteq> [] then Atoi tsStr else Inr now0) of
          Inl err \<Rightarrow> returnE (BadRequest (err_text err))
        | Inr ts \<Rightarrow>
            if urlStr = [] then returnE (BadRequest ''No url provided'')
            else if str_index urlStr ''http://'' \<noteq> 0 \<and> str_index urlStr ''https://'' \<noteq> 0
            then returnE (BadRequest ''Scheme not accepted'')
            else
              let lang = Header_Get r ''Accept-Language'';
                  languageHeader = (if lang \<noteq> [] then lang else pv_DefaultLanguage (UrlPreviews (ctx_Config ctx))) in
              bindE (tryE (preview_Execute pe ctx (rq_Host r) urlStr (u_UserId user) ts languageHeader)) preview_response))"

end
