(* ===== verification/PreviewProofs.thy ===== *)
theory PreviewProofs
  imports Preview Quiet MatrixProofs
begin

text \<open>
  What URL previews guarantee: the images of cached previews exist, a page is fetched at
  most once in an hour, and all but the fetches of the oEmbed library go to allowed networks only.
\<close>

section \<open>The images of cached previews\<close>

definition image_in :: "DbMedia set \<Rightarrow> DbUrlPreview \<Rightarrow> bool" where
  "image_in M p \<longleftrightarrow> p_ImageMxc p = '''' \<or> (\<exists>m \<in> M. p_ImageMxc p = MxcUri (m_Origin m) (m_MediaId m))"

definition previews_ok :: "world \<Rightarrow> bool" where
  "previews_ok w \<longleftrightarrow> (\<forall>p \<in> set (tbl_previews w). image_in (set (tbl_media w)) p)"

lemma image_in_mono: "image_in M p \<Longrightarrow> M \<subseteq> M' \<Longrightarrow> image_in M' p"
  by (auto simp: image_in_def)

text \<open>
  While a preview is cached the other previews stay as they are, with the media \<open>M\<close> they
  refer to; \<open>q\<close> says that no call fails.
\<close>

definition caching :: "bool \<Rightarrow> DbUrlPreview list \<Rightarrow> DbMedia set \<Rightarrow> world \<Rightarrow> bool" where
  "caching q P M s \<longleftrightarrow> tbl_previews s = P \<and> M \<subseteq> set (tbl_media s) \<and> (q \<longrightarrow> quiet s)"

definition cached :: "bool \<Rightarrow> DbUrlPreview \<Rightarrow> world \<Rightarrow> bool" where
  "cached q r s \<longleftrightarrow> previews_ok s \<and> (q \<longrightarrow> image_in (set (tbl_media s)) r)"

lemma caching_script: "script_stable (caching q P M)"
  by (auto simp: script_stable_def caching_def)

lemma preserves_conj: "preserves I m \<Longrightarrow> preserves J m \<Longrightarrow> preserves (\<lambda>s. I s \<and> J s) m"
  by (auto intro!: preservesI dest: preservesD)

lemma quiet_cleanup: "preserves quiet (cleanupUnusedPreviewMedia ctx m)"
  unfolding cleanupUnusedPreviewMedia_def restricted_Delete_def media_Delete_def media_LocationExists_def
    RemoveWithDsId_def Let_def
  by (intro quiet_intros quiet_Remove) simp_all

lemma caching_cleanup:
  assumes "\<forall>x \<in> M. media_key x \<noteq> media_key m"
  shows "preserves (caching q P M) (cleanupUnusedPreviewMedia ctx m)"
proof -
  have env: "env_stable (\<lambda>s. tbl_previews s = P \<and> M \<subseteq> set (tbl_media s))" by (rule env_stableI) simp_all
  have "preserves (\<lambda>s. tbl_previews s = P \<and> M \<subseteq> set (tbl_media s)) (cleanupUnusedPreviewMedia ctx m)"
    unfolding cleanupUnusedPreviewMedia_def restricted_Delete_def media_Delete_def media_LocationExists_def Let_def
    by (intro hoare_intros env) (use assms in auto)
  from preserves_conj [OF this quiet_cleanup] this show ?thesis
    by (cases q) (simp_all add: caching_def [abs_def] conj_assoc)
qed

lemma cached_old:
  "caching q P M s \<Longrightarrow> \<forall>p \<in> set P. image_in M p \<Longrightarrow> (q \<Longrightarrow> image_in M r) \<Longrightarrow> cached q r s"
  by (auto simp: caching_def cached_def previews_ok_def intro: image_in_mono)

lemma hoare_give_up:
  assumes "\<forall>p \<in> set P. image_in M p" and "\<And>m. um = Some m \<Longrightarrow> \<forall>x \<in> M. media_key x \<noteq> media_key m"
  shows "hoare (caching False P M) (give_up ctx um r) (cached False) (\<lambda>_. previews_ok)"
proof -
  have fin: "caching False P M s \<Longrightarrow> cached False r' s" for r' s
    using cached_old [OF _ assms(1)] by blast
  have "hoare (caching False P M) (bindE (tryE (cleanupUnusedPreviewMedia ctx m)) (\<lambda>x. returnE (g x))) (cached False) (\<lambda>_. previews_ok)"
    if "um = Some m" for m and g :: "goerr + unit \<Rightarrow> DbUrlPreview"
  proof (rule hoare_bind [OF hoare_preserves])
    show "preserves (caching False P M) (tryE (cleanupUnusedPreviewMedia ctx m))"
      by (intro preserves_try caching_cleanup assms(2) that)
    show "hoare (caching False P M) (returnE (g x)) (cached False) (\<lambda>_. previews_ok)" for x
      by (rule hoare_return) (rule fin)
  qed (use fin in \<open>auto simp: cached_def\<close>)
  then show ?thesis unfolding give_up_def using fin by (cases um) (simp_all add: hoare_return)
qed

lemma hoare_keep_existing:
  assumes P: "\<forall>p \<in> set P. image_in M p" and um: "\<And>m. um = Some m \<Longrightarrow> \<forall>x \<in> M. media_key x \<noteq> media_key m"
    and e: "\<And>e. existing = Some e \<Longrightarrow> e \<in> set P" "q \<Longrightarrow> existing \<noteq> None"
  shows "hoare (caching q P M) (keep_existing ctx um r existing) (cached q) (\<lambda>_. previews_ok)"
proof -
  have fin: "caching q P M s \<Longrightarrow> cached q (case existing of Some e \<Rightarrow> e | None \<Rightarrow> r) s" for s
    using cached_old [OF _ P] P e by (cases existing) auto
  have clean: "preserves (caching q P M) (case um of None \<Rightarrow> returnE () | Some m \<Rightarrow>
      whenE (b m) (bindE (tryE (cleanupUnusedPreviewMedia ctx m)) (\<lambda>_. returnE ())))" for b
    using um by (cases um) (auto intro!: preserves_when preserves_bind preserves_try caching_cleanup)
  show ?thesis unfolding keep_existing_def
    by (rule hoare_then [OF hoare_preserves [OF clean] hoare_return]) (use fin in \<open>auto simp: cached_def\<close>)
qed


text \<open>The three statements of the cache.\<close>

lemma hoare_previews_Get:
  assumes "q \<Longrightarrow> GetHourBucket ts = ts \<and> (url, ts, lang) \<in> preview_key ` set P"
  shows "hoare (caching q P M) (tryE (previews_Get url ts lang))
     (\<lambda>x s. caching q P M s \<and> (case x of Inl _ \<Rightarrow> \<not> q | Inr e \<Rightarrow> (\<forall>p. e = Some p \<longrightarrow> p \<in> set P) \<and> (q \<longrightarrow> e \<noteq> None))) (\<lambda>_. previews_ok)"
  unfolding previews_Get_def
  by (rule hoare_try, rule hoare_dbQuery [OF caching_script])
    (use assms in \<open>auto simp: caching_def find_None_iff dest: find_SomeD\<close>)

lemma hoare_previews_Insert:
  "hoare (caching q P M) (tryE (previews_Insert r))
     (\<lambda>x s. case x of Inl _ \<Rightarrow> caching q P M s \<and> \<not> q
        | Inr ins \<Rightarrow> if ins then caching q (P @ [r]) M s else caching q P M s \<and> preview_key r \<in> preview_key ` set P) (\<lambda>_. previews_ok)"
  unfolding previews_Insert_def
  by (rule hoare_try, rule hoare_ext_script [OF caching_script]) (auto simp: caching_def hoare_def)

lemma hoare_previews_Update:
  "hoare (caching q P M) (tryE (previews_UpdateIfError r))
     (\<lambda>x s. if x = Inr True then caching q (map (\<lambda>p. if replaces_error r p then r else p) P) M s else caching q P M s) (\<lambda>_. previews_ok)"
proof -
  have "map (\<lambda>p. if replaces_error r p then r else p) P = P" if "filter (replaces_error r) P = []"
    using that by (induction P) (auto split: if_splits)
  then show ?thesis unfolding previews_UpdateIfError_def
    by (intro hoare_try hoare_ext_script [OF caching_script]) (auto simp: caching_def hoare_def)
qed

lemma hoare_cache_preview:
  assumes P: "\<forall>p \<in> set P. image_in M p" and M: "M \<subseteq> M'" and r: "image_in M' r"
    and um: "\<And>m. um = Some m \<Longrightarrow> \<forall>x \<in> M. media_key x \<noteq> media_key m"
    and ts: "q \<Longrightarrow> GetHourBucket (p_BucketTs r) = p_BucketTs r"
  shows "hoare (caching q P M') (cache_preview ctx um r) (cached q) (\<lambda>_. previews_ok)"
proof -
  have low: "caching q P' M' s \<Longrightarrow> caching q P' M s" for q P' s using M by (auto simp: caching_def)
  have P': "\<forall>p \<in> set P. image_in M' p" using P M by (auto intro: image_in_mono)
  have new: "caching q (P @ [r]) M' s \<Longrightarrow> cached q r s" for s
    by (erule cached_old) (use P' r in auto)
  have upd: "caching q (map (\<lambda>p. if replaces_error r p then r else p) P) M' s \<Longrightarrow> cached q r s" for s
    by (erule cached_old) (use P' r in auto)
  have give: "hoare (\<lambda>s. caching q P M' s \<and> \<not> q) (give_up ctx um r) (cached q) (\<lambda>_. previews_ok)"
    by (rule hoare_pure, rule hoare_weaken [OF hoare_give_up [OF P um]]) (use M in \<open>auto simp: caching_def cached_def\<close>)
  have keep: "hoare (caching q P M') (keep_existing ctx um r e) (cached q) (\<lambda>_. previews_ok)"
    if "\<And>p. e = Some p \<Longrightarrow> p \<in> set P" "q \<Longrightarrow> e \<noteq> None" for e
    by (rule hoare_weaken [OF hoare_keep_existing [OF P um that]]) (auto dest: low)
  let ?reread = "previews_Get (p_Url r) (p_BucketTs r) (p_LanguageHeader r)"
  have reread: "hoare (caching q P M') (bindE (tryE ?reread) (\<lambda>got. case got of Inl _ \<Rightarrow> give_up ctx um r | Inr e \<Rightarrow> k e)) (cached q) (\<lambda>_. previews_ok)"
    if key: "preview_key r \<in> preview_key ` set P"
      and k: "\<And>e. (\<And>p. e = Some p \<Longrightarrow> p \<in> set P) \<Longrightarrow> (q \<Longrightarrow> e \<noteq> None) \<Longrightarrow> hoare (caching q P M') (k e) (cached q) (\<lambda>_. previews_ok)" for k
  proof (rule hoare_bind [OF hoare_previews_Get [where P = P]])
    fix x
    show "hoare (\<lambda>s. caching q P M' s \<and> (case x of Inl _ \<Rightarrow> \<not> q | Inr e \<Rightarrow> (\<forall>p. e = Some p \<longrightarrow> p \<in> set P) \<and> (q \<longrightarrow> e \<noteq> None)))
        (case x of Inl _ \<Rightarrow> give_up ctx um r | Inr e \<Rightarrow> k e) (cached q) (\<lambda>_. previews_ok)"
      by (cases x) (auto simp: give intro!: hoare_pure k)
  qed (use ts key in auto)
  have update: "hoare (caching q P M') (bindE (tryE (previews_UpdateIfError r)) (\<lambda>upd.
      if upd = Inr True then returnE r
      else bindE (tryE ?reread) (\<lambda>got'. case got' of Inl _ \<Rightarrow> give_up ctx um r | Inr e \<Rightarrow> keep_existing ctx um r e))) (cached q) (\<lambda>_. previews_ok)"
    if "preview_key r \<in> preview_key ` set P"
  proof (rule hoare_bind [OF hoare_previews_Update])
    fix x
    show "hoare (\<lambda>s. if x = Inr True then caching q (map (\<lambda>p. if replaces_error r p then r else p) P) M' s else caching q P M' s)
      (if x = Inr True then returnE r
       else bindE (tryE ?reread) (\<lambda>got'. case got' of Inl _ \<Rightarrow> give_up ctx um r | Inr e \<Rightarrow> keep_existing ctx um r e)) (cached q) (\<lambda>_. previews_ok)"
      using reread [OF that keep] upd by (cases "x = Inr True") (simp_all add: hoare_return)
  qed
  show ?thesis unfolding cache_preview_def Let_def
  proof (rule hoare_bind [OF hoare_previews_Insert])
    fix x
    show "hoare (\<lambda>s. case x of Inl _ \<Rightarrow> caching q P M' s \<and> \<not> q
          | Inr ins \<Rightarrow> if ins then caching q (P @ [r]) M' s else caching q P M' s \<and> preview_key r \<in> preview_key ` set P)
      (case x of Inl _ \<Rightarrow> give_up ctx um r
       | Inr inserted \<Rightarrow> if inserted then returnE r
          else bindE (tryE ?reread) (\<lambda>got. case got of Inl _ \<Rightarrow> give_up ctx um r
            | Inr existing \<Rightarrow> if (case existing of None \<Rightarrow> False | Some e \<Rightarrow> p_ErrorCode e \<noteq> []) then
                bindE (tryE (previews_UpdateIfError r)) (\<lambda>upd.
                if upd = Inr True then returnE r
                else bindE (tryE ?reread) (\<lambda>got'. case got' of
                  Inl _ \<Rightarrow> give_up ctx um r | Inr existing' \<Rightarrow> keep_existing ctx um r existing'))
              else keep_existing ctx um r existing)) (cached q) (\<lambda>_. previews_ok)"
    proof (cases x)
      case (Inr ins)
      show ?thesis
      proof (cases ins)
        case True
        with Inr new show ?thesis by (simp add: hoare_return)
      next
        case False
        show ?thesis unfolding Inr sum.case if_not_P [OF False]
        proof (rule hoare_pure, rule reread)
          fix e assume key: "preview_key r \<in> preview_key ` set P" and e: "\<And>p. e = Some p \<Longrightarrow> p \<in> set P" "q \<Longrightarrow> e \<noteq> None"
          show "hoare (caching q P M') (if (case e of None \<Rightarrow> False | Some e \<Rightarrow> p_ErrorCode e \<noteq> []) then
                bindE (tryE (previews_UpdateIfError r)) (\<lambda>upd.
                if upd = Inr True then returnE r
                else bindE (tryE ?reread) (\<lambda>got'. case got' of
                  Inl _ \<Rightarrow> give_up ctx um r | Inr existing' \<Rightarrow> keep_existing ctx um r existing'))
              else keep_existing ctx um r e) (cached q) (\<lambda>_. previews_ok)"
            using update [OF key] keep [OF e] by (simp del: previews_UpdateIfError_def split: if_splits)
        qed
      qed
    qed (simp add: give)
  qed
qed


text \<open>
  Uploading the image leaves the previews and the old media alone, and a new record has a
  key that no old one has, provided that an identifier was generated.
\<close>

lemma UploadImage_result:
  assumes run: "UploadImage pe ctx picture onHost userId r0 w = (res, w')" and r0: "p_ImageMxc r0 = []"
    and gen: "fst (GenerateMediaId (xt_IsImportProcess (pe_upload pe)) onHost w) \<noteq> Inr []"
  shows "tbl_previews w' = tbl_previews w \<and> set (tbl_media w) \<subseteq> set (tbl_media w') \<and> (quiet w \<longrightarrow> quiet w') \<and>
    (\<forall>um r. res = Inr (um, r) \<longrightarrow> image_in (set (tbl_media w')) r \<and> preview_key r = preview_key r0 \<and>
       (\<forall>m. um = Some m \<longrightarrow> (\<forall>x \<in> set (tbl_media w). media_key x \<noteq> media_key m)))"
proof -
  have none: "image_in X r0" for X using r0 by (simp add: image_in_def)
  show ?thesis
  proof (cases "\<exists>img data. picture = Some img \<and> pi_Data img = Some data")
    case False
    then have "res = Inr (None, r0)" "w' = w"
      using run by (auto simp: UploadImage_def io_simps split: option.splits)
    with none show ?thesis by auto
  next
    case True
    then obtain img data where img: "picture = Some img" "pi_Data img = Some data" by blast
    let ?gen = "GenerateMediaId (xt_IsImportProcess (pe_upload pe)) onHost"
    obtain g w1 where g: "?gen w = (g, w1)" by (metis prod.collapse)
    have pre: "gen_st {} (tbl_media w) (tbl_reserved w) (tbl_expiring w) w" by (simp add: gen_st_def)
    have keep1: "previews_are (tbl_previews w) w1"
      by (rule preservesD' [OF preserves_GenerateMediaId [OF previews_are_stable] refl g])
    have quiet1: "quiet w \<Longrightarrow> quiet w1" by (rule preservesD' [OF quiet_GenerateMediaId _ g])
    show ?thesis
    proof (cases g)
      case (Inl e)
      then have "tbl_media w1 = tbl_media w"
        using hoareD_Inl [OF hoare_GenerateMediaId pre] g by (auto simp: gen_st_def)
      moreover have "w' = w1" "\<And>x. res = Inr x \<Longrightarrow> x = (None, r0)"
        using run g Inl img by (auto simp: UploadImage_def io_simps split: if_splits)
      ultimately show ?thesis using keep1 quiet1 none by auto
    next
      case (Inr i)
      then have G: "tbl_media w1 = tbl_media w" "(onHost, i) \<notin> media_key ` set (tbl_media w)"
        using hoareD_Inr [OF hoare_GenerateMediaId pre] g by (auto simp: gen_st_def)
      have i: "i \<noteq> []" using gen g Inr by simp
      let ?up = "upload_Execute (pe_upload pe) ctx onHost i (reader_of (data, None)) (pi_ContentType img) (pi_Filename img) userId LocalMediaKind"
      obtain u where u: "?up w1 = (u, w')"
        and res: "\<And>x. res = Inr x \<Longrightarrow> x = (None, r0) \<or> (\<exists>m w h. u = Inr (Some m) \<and> x = (Some m,
          r0\<lparr>p_ImageMxc := MxcUri (m_Origin m) (m_MediaId m), p_ImageType := m_ContentType m, p_ImageSize := m_SizeBytes m,
             p_ImageWidth := w, p_ImageHeight := h\<rparr>))"
        using run g Inr img by (auto simp: UploadImage_def io_simps split: prod.splits sum.splits option.splits if_splits)
      have keep2: "previews_are (tbl_previews w) w'" by (rule preservesD' [OF previews_upload keep1 u])
      have quiet2: "quiet w \<Longrightarrow> quiet w'" by (rule preservesD' [OF quiet_upload quiet1 u])
      have new: "m \<in> set (tbl_media w') \<and> media_key m = (onHost, i)" if "u = Inr (Some m)" for m
        using upload_run [OF u [unfolded that]] i
        by (auto simp: upload_post_def accepted_def upload_result_def is_new_def stored_as_def rows_are_def)
      have grow: "set (tbl_media w) \<subseteq> set (tbl_media w')"
      proof (cases u)
        case (Inl e)
        from upload_run_error [OF u [unfolded this]] G(1) show ?thesis by (auto simp: at_most_new_def)
      next
        case (Inr x)
        from upload_run [OF u [unfolded this]] G(1) i show ?thesis
          by (auto simp: upload_post_def accepted_def upload_result_def stored_as_def rows_are_def split: option.splits)
      qed
      have other: "\<forall>x \<in> set (tbl_media w). media_key x \<noteq> (onHost, i)" 
        using G(2) by (simp add: image_iff) metis
      have "image_in (set (tbl_media w')) r \<and> preview_key r = preview_key r0 \<and>
         (\<forall>m. um = Some m \<longrightarrow> (\<forall>x \<in> set (tbl_media w). media_key x \<noteq> media_key m))" if r: "res = Inr (um, r)" for um r
        using res [OF r]
      proof (elim disjE exE conjE)
        assume "(um, r) = (None, r0)"
        with none show ?thesis by simp
      next
        fix m wd ht
        assume m: "u = Inr (Some m)" and umr: "(um, r) = (Some m,
          r0\<lparr>p_ImageMxc := MxcUri (m_Origin m) (m_MediaId m), p_ImageType := m_ContentType m, p_ImageSize := m_SizeBytes m,
             p_ImageWidth := wd, p_ImageHeight := ht\<rparr>)"
        have "image_in (set (tbl_media w')) r" unfolding image_in_def using umr new [OF m] by (intro disjI2 bexI [of _ m]) simp_all
        moreover have "preview_key r = preview_key r0" using umr by simp
        moreover have "\<forall>x \<in> set (tbl_media w). media_key x \<noteq> media_key m'" if "um = Some m'" for m'
        proof -
          have "media_key m' = (onHost, i)" using umr that new [OF m] by simp
          with other show ?thesis by metis
        qed
        ultimately show ?thesis by blast
      qed
      with keep2 quiet2 grow show ?thesis by blast
    qed
  qed
qed


lemma InsertError_ok: "preserves previews_ok (previews_InsertError url code ts lang)"
  unfolding previews_InsertError_def previews_Insert_def
  by (intro hoare_intros env_stableI preservesI) (auto simp: previews_ok_def image_in_def)

text \<open>
  C32: Whatever fails while a preview is stored, also when another request has cached the
  page meanwhile, the image of every cached preview is a media record.  When no call fails,
  the image of the preview that is returned is one too.  The identifier for the image must
  have been generated: the code goes on with an empty one.
\<close>

theorem preview_keeps_images:
  assumes "previews_ok w"
    and "preview_Process pe ctx previewUrl generated onHost userId languageHeader ts w = (res, w')"
    and "fst (GenerateMediaId (xt_IsImportProcess (pe_upload pe)) onHost w) \<noteq> Inr []"
  shows "previews_ok w' \<and>
    (faults w = [] \<and> GetHourBucket ts = ts \<longrightarrow> (\<forall>p. res = Inr p \<longrightarrow> image_in (set (tbl_media w')) p))"
proof (cases generated)
  case (Inl e)
  with assms(1,2) show ?thesis
    by (auto simp: preview_Process_def thenE_run throwE_run Let_def split: prod.splits sum.splits
        dest: preservesD' [OF InsertError_ok])
next
  case (Inr preview)
  let ?r0 = "new_preview previewUrl preview languageHeader ts"
  let ?q = "faults w = [] \<and> GetHourBucket ts = ts"
  obtain u w1 where u: "UploadImage pe ctx (pr_Image preview) onHost userId ?r0 w = (u, w1)" by (metis prod.collapse)
  from UploadImage_result [OF u _ assms(3)]
  have w1: "tbl_previews w1 = tbl_previews w" "set (tbl_media w) \<subseteq> set (tbl_media w1)" "quiet w \<longrightarrow> quiet w1"
    and new: "\<And>um r. u = Inr (um, r) \<Longrightarrow> image_in (set (tbl_media w1)) r \<and> preview_key r = preview_key ?r0 \<and>
       (\<forall>m. um = Some m \<longrightarrow> (\<forall>x \<in> set (tbl_media w). media_key x \<noteq> media_key m))"
    by (auto simp: new_preview_def)
  have old: "\<forall>p \<in> set (tbl_previews w). image_in (set (tbl_media w)) p" using assms(1) by (simp add: previews_ok_def)
  show ?thesis
  proof (cases u)
    case (Inl e)
    then have "w' = w1" "\<And>p. res \<noteq> Inr p"
      using assms(2) Inr u by (auto simp: preview_Process_def bindE_run)
    with w1 old show ?thesis by (auto simp: previews_ok_def intro: image_in_mono)
  next
    case (Inr x)
    obtain um r where x: "u = Inr (um, r)" using Inr by (cases x) auto
    have run: "cache_preview ctx um r w1 = (res, w')"
      using assms(2) \<open>generated = Inr preview\<close> u x by (auto simp: preview_Process_def bindE_run)
    have ts: "p_BucketTs r = ts" using new [OF x] by (simp add: new_preview_def)
    have cache: "hoare (caching ?q (tbl_previews w) (set (tbl_media w1))) (cache_preview ctx um r) (cached ?q) (\<lambda>_. previews_ok)"
      by (rule hoare_cache_preview [OF old w1(2)]) (use new [OF x] ts in auto)
    have pre: "caching ?q (tbl_previews w) (set (tbl_media w1)) w1" using w1 by (simp add: caching_def)
    show ?thesis
      using hoareD_Inr [OF cache pre] hoareD_Inl [OF cache pre] run by (cases res) (auto simp: cached_def)
  qed
qed


section \<open>Fetching a page once\<close>

text \<open>While no call fails, the generation of a preview does not touch the repository.\<close>

abbreviation at_world :: "world \<Rightarrow> world \<times> matrix_state \<Rightarrow> bool" where
  "at_world w x \<equiv> fst x = w"

lemma at_world_ext: "quiet w \<Longrightarrow> preserves (at_world w) (on_world (ext (lift_result r)))"
  by (rule preservesI) (auto simp: on_world_def lift_result_run)

lemma at_world_pure: "preserves (at_world w) (lift_result r)" "preserves (at_world w) (modifyS f)"
  by (rule preservesI, auto simp: lift_result_run modifyS_def)+

lemma at_world_client:
  assumes "quiet w"
  shows "preserves (at_world w) (client_Do mx c via req)"
proof (induction mx c via req rule: client_Do.induct)
  case (1 mx c via req)
  have step: "preserves (at_world w) (case mx_redirect mx req reply of
       None \<Rightarrow> returnE reply
     | Some req' \<Rightarrow> (case CheckRedirect mx (set_tls_defaults c) req' (Suc via) of
         Inl err \<Rightarrow> throwE err
       | Inr c' \<Rightarrow> client_Do mx c' (Suc via) req'))" for reply
    using 1 [of reply] by (auto intro!: hoare_intros split: option.split sum.split)
  have "preserves (at_world w) (round_trip mx (set_tls_defaults c) req)"
    unfolding round_trip_def by (intro hoare_intros at_world_pure at_world_ext assms)
  then show ?case by (subst client_Do.simps) (intro preserves_bind step)
qed

lemma at_world_get: "quiet w \<Longrightarrow> preserves (at_world w) (doHttpGet pe ctx u lang)"
  unfolding doHttpGet_def Let_def by (intro hoare_intros at_world_pure at_world_client)

lemma at_world_downloads:
  assumes "quiet w"
  shows "preserves (at_world w) (DownloadRawContent pe ctx u types lang)"
    and "preserves (at_world w) (DownloadHtmlContent pe ctx u types lang)"
    and "preserves (at_world w) (page_image pe ctx u lang picture)"
  unfolding DownloadHtmlContent_def DownloadRawContent_def page_image_def DownloadImage_def Let_def
  by (intro hoare_intros at_world_get assms)+

lemma preserves_case_list:
  "preserves I m \<Longrightarrow> (\<And>x xs. preserves I (f x xs)) \<Longrightarrow> preserves I (case l of [] \<Rightarrow> m | x # xs \<Rightarrow> f x xs)"
  by (cases l) auto

lemma at_world_preview:
  assumes "quiet w"
  shows "preserves (at_world w) (url_preview pe ctx u lang)"
proof -
  have pool: "preserves (at_world w) (on_world (ext (returnE ())))"
    using at_world_ext [OF assms, of "Inr ()"] by (simp add: lift_result_def)
  show ?thesis
    unfolding url_preview_def GenerateOEmbedPreview_def FetchOembed_def GenerateOpenGraphPreview_def GenerateCalculatedPreview_def Let_def
    by (intro hoare_intros preserves_case_list pool at_world_pure at_world_ext at_world_downloads assms)
qed

lemma UploadImage_panic: "UploadImage pe ctx picture onHost userId r w = (Inl e, w') \<Longrightarrow> is_panic e"
  by (auto simp: UploadImage_def io_simps split: option.splits prod.splits sum.splits if_splits)

lemma UploadImage_frame:
  "preserves quiet (UploadImage pe ctx picture onHost userId r0)"
  "preserves (previews_are P) (UploadImage pe ctx picture onHost userId r0)"
proof -
  have out: "preserves I (case res of Inr (Some record) \<Rightarrow> let (x, y) = d in returnE (f record x y) | _ \<Rightarrow> returnE z)"
    for I and res :: "goerr + DbMedia option" and f z and d :: "int \<times> int"
    by (auto split: sum.split option.split prod.split)
  show "preserves quiet (UploadImage pe ctx picture onHost userId r0)"
    unfolding UploadImage_def
    by (intro preserves_case_option preserves_case_sum preserves_bind preserves_try preserves_return quiet_GenerateMediaId quiet_upload out)
  show "preserves (previews_are P) (UploadImage pe ctx picture onHost userId r0)"
    unfolding UploadImage_def
    by (intro preserves_case_option preserves_case_sum preserves_bind preserves_try preserves_return
        preserves_GenerateMediaId [OF previews_are_stable] previews_upload out)
qed

lemma UploadImage_key:
  "UploadImage pe ctx picture onHost userId r0 w = (u, w') \<Longrightarrow> u = Inr (um, r) \<Longrightarrow> preview_key r = preview_key r0"
  by (auto simp: UploadImage_def io_simps split: option.splits prod.splits sum.splits if_splits)

text \<open>The row that a request for a page finds in the cache.\<close>

abbreviation find_preview :: "string \<Rightarrow> int \<Rightarrow> string \<Rightarrow> DbUrlPreview list \<Rightarrow> DbUrlPreview option" where
  "find_preview url b lang P \<equiv> first_row (\<lambda>p. p_Url p = url \<and> p_BucketTs p = b \<and> p_LanguageHeader p = lang) P"

definition answers :: "DbUrlPreview list \<Rightarrow> string \<times> int \<times> string \<Rightarrow> goerr + DbUrlPreview \<Rightarrow> DbUrlPreview list \<Rightarrow> bool" where
  "answers P key res P' \<longleftrightarrow> (\<exists>p. P' = P @ [p] \<and> preview_key p = key \<and> (case res of Inr q \<Rightarrow> q = p | Inl _ \<Rightarrow> p_ErrorCode p \<noteq> []))"

lemma not_found_key: "find_preview url b lang P = None \<Longrightarrow> (url, b, lang) \<notin> preview_key ` set P"
  by (auto simp: find_None_iff)

lemma InsertError_quiet:
  assumes "quiet w" and "find_preview url b lang (tbl_previews w) = None" and "code \<noteq> []"
  shows "\<exists>w'. previews_InsertError url code b lang w = (Inr (), w') \<and> quiet w' \<and> answers (tbl_previews w) (url, b, lang) (Inl e) (tbl_previews w')"
  using assms not_found_key [OF assms(2)]
  by (simp add: previews_InsertError_def previews_Insert_def io_simps find_append answers_def)

lemma Process_quiet:
  assumes "quiet w" and "find_preview url b lang (tbl_previews w) = None"
    and run: "preview_Process pe ctx url generated onHost userId lang b w = (res, w')" and np: "\<And>e. res = Inl e \<Longrightarrow> \<not> is_panic e"
  shows "quiet w' \<and> answers (tbl_previews w) (url, b, lang) res (tbl_previews w')"
proof (cases generated)
  case (Inl e)
  let ?e = "if e = ErrPreviewUnsupported then ErrMediaNotFound else e"
  let ?code = "if ?e = ErrMediaNotFound then ErrCodeNotFound else ErrCodeUnknown"
  have "?code \<noteq> []" by (simp add: ErrCodeNotFound_def ErrCodeUnknown_def)
  from InsertError_quiet [OF assms(1,2) this, of ?e] obtain w2 where
    "previews_InsertError url ?code b lang w = (Inr (), w2)" "quiet w2" "answers (tbl_previews w) (url, b, lang) (Inl ?e) (tbl_previews w2)"
    by blast
  moreover from this(1) run Inl have "res = Inl ?e \<and> w' = w2"
    by (simp add: preview_Process_def thenE_run throwE_run Let_def)
  ultimately show ?thesis by simp
next
  case (Inr preview)
  let ?r0 = "new_preview url preview lang b"
  obtain u w1 where u: "UploadImage pe ctx (pr_Image preview) onHost userId ?r0 w = (u, w1)" by (metis prod.collapse)
  have quiet1: "quiet w1" and same: "tbl_previews w1 = tbl_previews w" and key: "\<And>um r. u = Inr (um, r) \<Longrightarrow> preview_key r = (url, b, lang)"
    using preservesD' [OF UploadImage_frame(1) assms(1) u] preservesD' [OF UploadImage_frame(2) refl u] UploadImage_key [OF u]
    by (auto simp: new_preview_def)
  obtain um r where x: "u = Inr (um, r)"
    using np run Inr u UploadImage_panic [of pe ctx "pr_Image preview" onHost userId ?r0 w] by (cases u) (auto simp: preview_Process_def bindE_run)
  have "cache_preview ctx um r w1 = (Inr r, w1\<lparr>tbl_previews := tbl_previews w @ [r]\<rparr>)"
    using quiet1 same not_found_key [OF assms(2)] key [OF x]
    by (simp add: cache_preview_def previews_Insert_def io_simps Let_def)
  then have "res = Inr r" "w' = w1\<lparr>tbl_previews := tbl_previews w @ [r]\<rparr>"
    using run Inr u x by (auto simp: preview_Process_def bindE_run)
  with quiet1 key [OF x] show ?thesis by (simp add: answers_def)
qed


definition answers_io :: "goerr + DbUrlPreview option \<Rightarrow> DbUrlPreview \<Rightarrow> bool" where
  "answers_io res p \<longleftrightarrow> (case res of Inr q \<Rightarrow> q = Some p | Inl _ \<Rightarrow> p_ErrorCode p \<noteq> [])"

lemma generate_quiet:
  assumes "quiet w" and miss: "find_preview url b lang (tbl_previews w) = None"
    and run: "generate_preview pe ctx onHost url userId b lang (w, s) = (res, (w', s'))" and np: "\<And>e. res = Inl e \<Longrightarrow> \<not> is_panic e"
  shows "quiet w' \<and> (\<exists>p. tbl_previews w' = tbl_previews w @ [p] \<and> preview_key p = (url, b, lang) \<and> answers_io res p)"
proof (cases "pe_Parse pe url")
  case (Inl e)
  obtain w1 where ins: "previews_InsertError url ErrCodeInvalidHost b lang w = (Inr (), w1)" "quiet w1"
      "answers (tbl_previews w) (url, b, lang) (Inl ErrInvalidHost) (tbl_previews w1)"
    using InsertError_quiet [OF assms(1) miss, of ErrCodeInvalidHost ErrInvalidHost] by (auto simp: ErrCodeInvalidHost_def)
  from run have "res = Inl ErrInvalidHost" "w' = w1"
    by (auto simp: generate_preview_def Inl thenE_run throwE_run on_world_def ins(1))
  with ins(2,3) show ?thesis by (auto simp: answers_def answers_io_def)
next
  case (Inr parsed)
  let ?u = "\<lparr>UrlString = url, ParsedUrl = parsed\<lparr>url_Fragment := ''''\<rparr>\<rparr>"
  obtain g w1 s1 where g: "tryE (url_preview pe ctx ?u lang) (w, s) = (g, (w1, s1))" by (metis prod.collapse)
  have w1: "w1 = w" using preservesD' [OF preserves_try [OF at_world_preview [OF assms(1)]] _ g] by simp
  show ?thesis
  proof (cases g)
    case (Inl e)
    then have "is_panic e" using g by (auto simp: tryE_run split: prod.splits sum.splits if_splits)
    moreover have "res = Inl e" using run g Inl \<open>pe_Parse pe url = Inr parsed\<close> by (simp add: generate_preview_def bindE_run)
    ultimately show ?thesis using np by blast
  next
    case (Inr generated)
    obtain r w2 where p: "preview_Process pe ctx url generated onHost userId lang b w = (r, w2)" by (metis prod.collapse)
    have res: "res = map_sum id Some r" "w' = w2"
      using run g w1 Inr p \<open>pe_Parse pe url = Inr parsed\<close>
      by (auto simp: generate_preview_def bindE_run returnE_run on_world_def split: sum.splits)
    have "quiet w2 \<and> answers (tbl_previews w) (url, b, lang) r (tbl_previews w2)"
      by (rule Process_quiet [OF assms(1) miss p]) (use np res in auto)
    with res show ?thesis by (cases r) (auto simp: answers_def answers_io_def)
  qed
qed

lemma previews_Get_quiet:
  "quiet w \<Longrightarrow> on_world (previews_Get url ts lang) (w, s) = (Inr (find_preview url (GetHourBucket ts) lang (tbl_previews w)), (w, s))"
  by (simp add: on_world_def previews_Get_def)

lemma now_quiet: "ticks w = [] \<Longrightarrow> on_world NowMillis (w, s) = (Inr (now w), (w, s))"
  by (simp add: on_world_def NowMillis_def)

lemma preview_loop_quiet:
  assumes "quiet w" and "ticks w = []"
  shows "preview_loop (Suc n) pe ctx onHost url userId ts lang (w, s) =
    (case find_preview url (GetHourBucket ts) lang (tbl_previews w) of
       Some p \<Rightarrow> (Inr (Some p), (w, s))
     | None \<Rightarrow> if int64 (now w - ts) > 60000 \<and> GetHourBucket ts \<noteq> GetHourBucket (now w)
         then preview_loop n pe ctx onHost url userId (now w) lang (w, s)
         else generate_preview pe ctx onHost url userId (GetHourBucket ts) lang (w, s))"
  by (simp add: bindE_run previews_Get_quiet [OF assms(1)] now_quiet [OF assms(2)] returnE_run split: option.split)

text \<open>
  A page is fetched at most once in an hour.  Once a request for a page has been answered,
  whether with a preview or with an error, another request for it in the same hour is
  answered from the cache: it changes nothing, connects to no address, and returns the same
  preview or the recorded error.
\<close>

theorem preview_fetched_once:
  assumes run: "preview_Execute pe ctx onHost url userId ts lang (w, s) = (res, (w', s'))"
    and quiet: "faults w = []" "ticks w = []" and np: "\<And>e. res = Inl e \<Longrightarrow> \<not> is_panic e"
    and later: "now w \<le> n" "GetHourBucket n = GetHourBucket (now w)" and range: "0 \<le> ts" "0 \<le> now w" "in_int64 ts" "in_int64 n"
  shows "\<exists>p. preview_Execute pe ctx onHost' url userId' ts lang (w'\<lparr>now := n, ticks := []\<rparr>, s') =
      (Inr (Some p), (w'\<lparr>now := n, ticks := []\<rparr>, s')) \<and>
    (case res of Inr q \<Rightarrow> q = Some p | Inl _ \<Rightarrow> p_ErrorCode p \<noteq> [])"
proof -
  let ?w = "w'\<lparr>now := n, ticks := []\<rparr>"
  let ?P = "tbl_previews w" and ?find = "\<lambda>t P. find_preview url (GetHourBucket t) lang P"
  let ?bump = "\<lambda>t. int64 (t - ts) > 60000 \<and> GetHourBucket ts \<noteq> GetHourBucket t"
  have diff: "int64 (t - ts) = t - ts" if "0 \<le> t" "t \<le> n" for t
    using that range by (intro int64_id) (simp add: in_int64_def)
  have first: "preview_loop (Suc (Suc 0)) pe ctx onHost url userId ts lang (w, s) = (res, (w', s'))"
    using run quiet(2) by (simp add: preview_Execute_def bindE_run numeral_2_eq_2 del: preview_loop.simps)
  have second: "preview_Execute pe ctx onHost' url userId' ts lang (?w, s') = (Inr (Some p), (?w, s'))"
    if "quiet w'" "?find ts (tbl_previews w') = Some p \<or> ?find ts (tbl_previews w') = None \<and> ?bump n \<and> ?find n (tbl_previews w') = Some p" for p
    using that by (auto simp: preview_Execute_def bindE_run numeral_2_eq_2 preview_loop_quiet simp del: preview_loop.simps)
  have "quiet w' \<and> (\<exists>p. (?find ts (tbl_previews w') = Some p \<or> ?find ts (tbl_previews w') = None \<and> ?bump n \<and> ?find n (tbl_previews w') = Some p) \<and>
      (case res of Inr q \<Rightarrow> q = Some p | Inl _ \<Rightarrow> p_ErrorCode p \<noteq> []))"
  proof (cases "?find ts ?P")
    case (Some p)
    with first quiet show ?thesis by (auto simp: preview_loop_quiet simp del: preview_loop.simps)
  next
    case None
    show ?thesis
    proof (cases "?bump (now w)")
      case False
      have gen: "generate_preview pe ctx onHost url userId (GetHourBucket ts) lang (w, s) = (res, (w', s'))"
        using first unfolding preview_loop_quiet [OF quiet] None option.case if_not_P [OF False] .
      from generate_quiet [OF quiet(1) None gen np] None show ?thesis by (auto simp: answers_io_def find_append)
    next
      case True
      then have bump: "?bump n" using diff [of n] diff [of "now w"] later range by simp
      have again: "preview_loop (Suc 0) pe ctx onHost url userId (now w) lang (w, s) = (res, (w', s'))"
        using first unfolding preview_loop_quiet [OF quiet] None option.case if_P [OF True] .
      show ?thesis
      proof (cases "?find (now w) ?P")
        case (Some p)
        with again have "w' = w" "res = Inr (Some p)" by (simp_all add: preview_loop_quiet quiet del: preview_loop.simps)
        with Some None bump quiet(1) later(2) show ?thesis by auto
      next
        case none: None
        have gen: "generate_preview pe ctx onHost url userId (GetHourBucket (now w)) lang (w, s) = (res, (w', s'))"
          using again none by (simp add: preview_loop_quiet quiet del: preview_loop.simps)
        from generate_quiet [OF quiet(1) none gen np] None none bump later(2) show ?thesis
          by (auto simp: answers_io_def find_append)
      qed
    qed
  qed
  with second show ?thesis by blast
qed


section \<open>The networks that previews are fetched from\<close>

text \<open>
  The addresses that the oEmbed library connects to for a page: only when oEmbed is enabled
  and one of its providers knows the page.
\<close>

definition oembed_connects :: "preview_externals \<Rightarrow> RequestContext \<Rightarrow> string \<Rightarrow> string \<Rightarrow> string \<times> string \<Rightarrow> bool" where
  "oembed_connects pe ctx previewUrl languageHeader a \<longleftrightarrow> pv_OEmbed (UrlPreviews (ctx_Config ctx)) \<and>
     (case pe_Parse pe previewUrl of
        Inl _ \<Rightarrow> False
      | Inr parsed \<Rightarrow> let u = pe_String pe (parsed\<lparr>url_Fragment := ''''\<rparr>) in
          case pe_FindItem pe u of None \<Rightarrow> False | Some item \<Rightarrow> a \<in> set (fst (item u languageHeader)))"

definition only_allowed :: "RequestContext \<Rightarrow> (string \<times> string \<Rightarrow> bool) \<Rightarrow> (string \<times> string) list \<Rightarrow> world \<times> matrix_state \<Rightarrow> bool" where
  "only_allowed ctx extra d0 x \<longleftrightarrow> (\<exists>ds. dialled (snd x) = ds @ d0 \<and> (\<forall>a \<in> set ds. extra a \<or>
     dialable (pv_AllowedNetworks (UrlPreviews (ctx_Config ctx))) (pv_DisallowedNetworks (UrlPreviews (ctx_Config ctx))) a))"

definition well_formed_networks :: "RequestContext \<Rightarrow> bool" where
  "well_formed_networks ctx \<longleftrightarrow> (\<forall>c \<in> set (pv_DisallowedNetworks (UrlPreviews (ctx_Config ctx))). ParseCIDR c \<noteq> None)"

lemma only_allowed_more:
  assumes "only_allowed ctx extra d0 x" and "dialled s = ds @ dialled (snd x)"
    and "\<forall>a \<in> set ds. extra a \<or>
      dialable (pv_AllowedNetworks (UrlPreviews (ctx_Config ctx))) (pv_DisallowedNetworks (UrlPreviews (ctx_Config ctx))) a"
  shows "only_allowed ctx extra d0 (w, s)"
proof -
  obtain ds0 where ds0: "dialled (snd x) = ds0 @ d0" "\<forall>a \<in> set ds0. extra a \<or>
      dialable (pv_AllowedNetworks (UrlPreviews (ctx_Config ctx))) (pv_DisallowedNetworks (UrlPreviews (ctx_Config ctx))) a"
    using assms(1) by (auto simp: only_allowed_def)
  with assms(2,3) show ?thesis unfolding only_allowed_def by (intro exI [of _ "ds @ ds0"]) auto
qed

lemma allowed_world: "preserves (only_allowed ctx extra d0) (on_world m)"
  by (rule preservesI) (auto simp: on_world_def only_allowed_def split: prod.split)

lemma preview_client_dialable:
  "well_formed_networks ctx \<Longrightarrow> safeControl (cl_Config (preview_client ctx)) (fst a) (snd a) = None \<Longrightarrow>
     dialable (pv_AllowedNetworks (UrlPreviews (ctx_Config ctx))) (pv_DisallowedNetworks (UrlPreviews (ctx_Config ctx))) a"
  unfolding preview_client_def Let_def well_formed_networks_def by (drule safeControl_dialable) simp_all

lemma allowed_client:
  assumes "well_formed_networks ctx"
  shows "preserves (only_allowed ctx extra d0) (client_Do mx (preview_client ctx) 0 req)"
proof (rule preservesI)
  fix x assume x: "only_allowed ctx extra d0 x"
  obtain r w' s' where run: "client_Do mx (preview_client ctx) 0 req (fst x, snd x) = (r, (w', s'))" by (metis prod.collapse)
  from client_Do_dials [OF this] obtain ds where "dialled s' = ds @ dialled (snd x)"
    "\<forall>a \<in> set ds. safeControl (cl_Config (preview_client ctx)) (fst a) (snd a) = None" by (auto simp: dials_def)
  with preview_client_dialable [OF assms] have "only_allowed ctx extra d0 (w', s')"
    by (intro only_allowed_more [OF x]) auto
  then show "only_allowed ctx extra d0 (snd (client_Do mx (preview_client ctx) 0 req x))" using run by simp
qed

lemma allowed_get: "well_formed_networks ctx \<Longrightarrow> preserves (only_allowed ctx extra d0) (doHttpGet pe ctx u lang)"
  unfolding doHttpGet_def Let_def by (intro hoare_intros allowed_client)

lemma allowed_downloads:
  assumes "well_formed_networks ctx"
  shows "preserves (only_allowed ctx extra d0) (DownloadRawContent pe ctx u types lang)"
    and "preserves (only_allowed ctx extra d0) (DownloadHtmlContent pe ctx u types lang)"
    and "preserves (only_allowed ctx extra d0) (page_image pe ctx u lang picture)"
  unfolding DownloadHtmlContent_def DownloadRawContent_def page_image_def DownloadImage_def Let_def
  by (intro hoare_intros allowed_get assms)+

text \<open>The fetch of the oEmbed library is the one connection that the networks do not limit.\<close>

lemma allowed_FetchOembed:
  assumes "\<forall>a \<in> set (fst (item u lang)). extra a"
  shows "preserves (only_allowed ctx extra d0) (FetchOembed item u lang)"
proof -
  have "preserves (only_allowed ctx extra d0) (modifyS (\<lambda>s. s\<lparr>dialled := fst (item u lang) @ dialled s\<rparr>))"
    using assms by (intro preservesI) (auto simp: modifyS_def split: prod.split intro: only_allowed_more)
  then show ?thesis unfolding FetchOembed_def by (intro hoare_intros allowed_world)
qed

lemma allowed_oembed:
  assumes "well_formed_networks ctx"
    and "\<And>item a. pe_FindItem pe (pe_String pe (ParsedUrl u)) = Some item \<Longrightarrow>
      a \<in> set (fst (item (pe_String pe (ParsedUrl u)) lang)) \<Longrightarrow> extra a"
  shows "preserves (only_allowed ctx extra d0) (GenerateOEmbedPreview pe ctx u lang)"
proof (cases "pe_FindItem pe (pe_String pe (ParsedUrl u))")
  case None
  then show ?thesis by (simp add: GenerateOEmbedPreview_def preserves_throw)
next
  case (Some item)
  with assms(2) have "\<forall>a \<in> set (fst (item (pe_String pe (ParsedUrl u)) lang)). extra a" by blast
  then show ?thesis unfolding GenerateOEmbedPreview_def Some option.case Let_def
    by (intro hoare_intros allowed_downloads allowed_FetchOembed assms(1))
qed

lemma allowed_url_preview:
  assumes "well_formed_networks ctx"
    and "\<And>item a. pv_OEmbed (UrlPreviews (ctx_Config ctx)) \<Longrightarrow> pe_FindItem pe (pe_String pe (ParsedUrl u)) = Some item \<Longrightarrow>
      a \<in> set (fst (item (pe_String pe (ParsedUrl u)) lang)) \<Longrightarrow> extra a"
  shows "preserves (only_allowed ctx extra d0) (url_preview pe ctx u lang)"
proof -
  have oe: "preserves (only_allowed ctx extra d0) (GenerateOEmbedPreview pe ctx u lang)" if "pv_OEmbed (UrlPreviews (ctx_Config ctx))"
    by (intro allowed_oembed assms(1)) (rule assms(2) [OF that])
  show ?thesis
    unfolding url_preview_def GenerateOpenGraphPreview_def GenerateCalculatedPreview_def Let_def
    by (intro hoare_intros preserves_case_list allowed_world allowed_downloads assms(1) oe)
qed

lemma allowed_generate:
  assumes "well_formed_networks ctx"
  shows "preserves (only_allowed ctx (oembed_connects pe ctx url lang) d0) (generate_preview pe ctx onHost url userId b lang)"
proof (cases "pe_Parse pe url")
  case (Inl e)
  then show ?thesis unfolding generate_preview_def by (auto intro!: hoare_intros allowed_world)
next
  case (Inr parsed)
  then have "preserves (only_allowed ctx (oembed_connects pe ctx url lang) d0)
      (url_preview pe ctx \<lparr>UrlString = url, ParsedUrl = parsed\<lparr>url_Fragment := ''''\<rparr>\<rparr> lang)"
    by (intro allowed_url_preview assms) (simp add: oembed_connects_def Let_def)
  with Inr show ?thesis unfolding generate_preview_def by (auto intro!: hoare_intros allowed_world)
qed

lemma allowed_loop:
  "well_formed_networks ctx \<Longrightarrow>
     preserves (only_allowed ctx (oembed_connects pe ctx url lang) d0) (preview_loop n pe ctx onHost url userId ts lang)"
  by (induction n arbitrary: ts) (auto intro!: hoare_intros allowed_world allowed_generate)

text \<open>A page with an image, for the witnesses.\<close>

definition demo_url :: "string \<Rightarrow> url" where
  "demo_url u = \<lparr>url_Scheme = ''https'', url_Fragment = [], url_rest = u\<rparr>"

definition demo_page :: og_page where
  "demo_page = \<lparr>og_Type = ''website'', og_URL = ''u'', og_SiteName = ''s'', og_Title = ''A  title'', og_Description = ''d'',
     og_Images = [''https://b.org/i'']\<rparr>"

definition demo_pe :: preview_externals where
  "demo_pe = \<lparr>pe_matrix = demo_mx, pe_upload = demo_xt, pe_generators = [],
     pe_charset = \<lparr>ch_DetermineEncoding = (\<lambda>t c. ([], False)), ch_DetectBest = (\<lambda>t. Inl ErrEOF), ch_NewReader = (\<lambda>t c. Inl ErrEOF)\<rparr>,
     pe_Parse = (\<lambda>u. Inr (demo_url u)), pe_String = url_rest, pe_ResolveReference = (\<lambda>base u. u), pe_NewRequest = (\<lambda>u. Inr ()),
     pe_ParseMediaType = (\<lambda>d. (None, None)), pe_glob = (\<lambda>g t. True), pe_ProcessHTML = (\<lambda>h. Inr demo_page),
     pe_NewDocument = (\<lambda>h. Inl ErrEOF), pe_FindItem = (\<lambda>u. None), pe_HTML2Text = id\<rparr>"

definition preview_ctx :: RequestContext where
  "preview_ctx = demo_ctx\<lparr>ctx_Config := (ctx_Config demo_ctx)\<lparr>UrlPreviews := defaultUrlPreviews\<lparr>pv_MaxPageSizeBytes := 100\<rparr>\<rparr>\<rparr>"

abbreviation demo_preview :: "(goerr + DbUrlPreview option) \<times> world \<times> matrix_state" where
  "demo_preview \<equiv> preview_Execute demo_pe preview_ctx ''a.org'' ''https://b.org/p'' ''@u:a.org'' 1000 ''en'' (demo_world, demo_ms)"

lemma demo_preview_run:
  "case demo_preview of (res, (w', s')) \<Rightarrow>
     map_sum id (map_option (\<lambda>p. (p_Title p, p_ImageMxc p))) res = Inr (Some (''A title'', ''mxc://a.org/aabbccdd'')) \<and>
     dialled s' = [(''tcp4'', ''93.184.216.34:443''), (''tcp4'', ''93.184.216.34:443'')]"
  by code_simp

text \<open>
  C33: Whatever page a preview is asked for, and whatever its redirects and images, the
  repository connects only to addresses in a network that is allowed for previews, outside
  every disallowed one, and never to the unspecified addresses, with one exception: when oEmbed
  is enabled and a provider of the list knows the page, the oEmbed library connects with its own
  client to wherever the provider's endpoint for the page leads it, without any limit.  The
  disallowed networks must be well-formed.
\<close>

theorem preview_connections:
  assumes "preview_Execute pe ctx onHost url userId ts lang (w, s) = (res, (w', s'))" and "well_formed_networks ctx"
  shows "\<exists>ds. dialled s' = ds @ dialled s \<and> (\<forall>a \<in> set ds. oembed_connects pe ctx url lang a \<or>
    dialable (pv_AllowedNetworks (UrlPreviews (ctx_Config ctx))) (pv_DisallowedNetworks (UrlPreviews (ctx_Config ctx))) a)"
proof -
  have "preserves (only_allowed ctx (oembed_connects pe ctx url lang) (dialled s)) (preview_Execute pe ctx onHost url userId ts lang)"
    unfolding preview_Execute_def by (intro hoare_intros allowed_loop assms)
  from preservesD' [OF this _ assms(1)] show ?thesis by (simp add: only_allowed_def)
qed

lemma demo_networks_ok: "well_formed_networks preview_ctx"
  by code_simp

lemma demo_preview_split:
  obtains p w' s' where "demo_preview = (Inr (Some p), (w', s'))" "p_Title p = ''A title''" "length (dialled s') = 2"
proof -
  obtain res w' s' where run: "demo_preview = (res, (w', s'))" by (metis prod.collapse)
  with demo_preview_run have "map_sum id (map_option (\<lambda>p. (p_Title p, p_ImageMxc p))) res = Inr (Some (''A title'', ''mxc://a.org/aabbccdd''))"
    "length (dialled s') = 2" by auto
  with run that show ?thesis by (cases res) auto
qed

text \<open>
  The exception is real: a provider whose endpoint resolves to the loopback address is fetched
  from, although \<open>127.0.0.1/8\<close> is disallowed, and its thumbnail is then fetched with the safe client.
\<close>

definition oembed_pe :: preview_externals where
  "oembed_pe = demo_pe\<lparr>pe_FindItem := (\<lambda>u. Some (\<lambda>u lang. ([(''tcp4'', ''127.0.0.1:443'')],
     Inr \<lparr>oe_Type = ''video'', oe_URL = u, oe_Title = ''T'', oe_Description = [], oe_ProviderName = ''P'', oe_HTML = [],
       oe_ThumbnailURL = ''https://b.org/i''\<rparr>)))\<rparr>"

definition oembed_ctx :: RequestContext where
  "oembed_ctx = preview_ctx\<lparr>ctx_Config := (ctx_Config preview_ctx)\<lparr>UrlPreviews := (UrlPreviews (ctx_Config preview_ctx))\<lparr>pv_OEmbed := True\<rparr>\<rparr>\<rparr>"

abbreviation oembed_preview :: "(goerr + DbUrlPreview option) \<times> world \<times> matrix_state" where
  "oembed_preview \<equiv> preview_Execute oembed_pe oembed_ctx ''a.org'' ''https://b.org/p'' ''@u:a.org'' 1000 ''en'' (demo_world, demo_ms)"

lemma oembed_preview_run:
  "case oembed_preview of (res, (w', s')) \<Rightarrow> map_sum id (map_option p_Title) res = Inr (Some ''T'') \<and>
     dialled s' = [(''tcp4'', ''93.184.216.34:443''), (''tcp4'', ''127.0.0.1:443'')]"
  by code_simp

lemma oembed_networks: "well_formed_networks oembed_ctx"
  by code_simp

lemma loopback_disallowed:
  "\<not> dialable allowed (pv_DisallowedNetworks (UrlPreviews (ctx_Config oembed_ctx))) (''tcp4'', ''127.0.0.1:443'')"
proof -
  have "SplitHostPort ''127.0.0.1:443'' = Inr (''127.0.0.1'', ''443'')" by code_simp
  moreover have "list_ex (\<lambda>c. case ParseIP ''127.0.0.1'' of None \<Rightarrow> True | Some ip \<Rightarrow> in_network ip c)
      (pv_DisallowedNetworks (UrlPreviews (ctx_Config oembed_ctx)))" by code_simp
  ultimately show ?thesis by (auto simp: dialable_def list_ex_iff)
qed

theorem preview_connections_witness:
  "(\<exists>ds. dialled (snd (snd demo_preview)) = ds \<and> length ds = 2 \<and>
     (\<forall>a \<in> set ds. dialable [''0.0.0.0/0''] (pv_DisallowedNetworks (UrlPreviews (ctx_Config preview_ctx))) a)) \<and>
   oembed_connects oembed_pe oembed_ctx ''https://b.org/p'' ''en'' (''tcp4'', ''127.0.0.1:443'')"
proof -
  obtain p w' s' where run: "demo_preview = (Inr (Some p), (w', s'))" "length (dialled s') = 2" by (rule demo_preview_split)
  have "pv_AllowedNetworks (UrlPreviews (ctx_Config preview_ctx)) = [''0.0.0.0/0'']"
    by (simp add: preview_ctx_def defaultUrlPreviews_def)
  moreover have "dialled demo_ms = []" by (simp add: demo_ms_def)
  moreover have "\<not> oembed_connects demo_pe preview_ctx u l a" for u l a
    by (simp add: oembed_connects_def demo_pe_def Let_def split: sum.split)
  ultimately have first: "\<exists>ds. dialled (snd (snd demo_preview)) = ds \<and> length ds = 2 \<and>
     (\<forall>a \<in> set ds. dialable [''0.0.0.0/0''] (pv_DisallowedNetworks (UrlPreviews (ctx_Config preview_ctx))) a)"
    using preview_connections [OF run(1) demo_networks_ok] run(2) unfolding run(1) by simp
  obtain r w2 s2 where run2: "oembed_preview = (r, (w2, s2))" by (metis prod.collapse)
  with oembed_preview_run have "(''tcp4'', ''127.0.0.1:443'') \<in> set (dialled s2)" by simp
  then have "oembed_connects oembed_pe oembed_ctx ''https://b.org/p'' ''en'' (''tcp4'', ''127.0.0.1:443'')"
    using preview_connections [OF run2 oembed_networks] \<open>dialled demo_ms = []\<close> loopback_disallowed by auto
  with first show ?thesis by blast
qed

theorem preview_fetched_once_witness:
  "\<exists>p w' s'. demo_preview = (Inr (Some p), (w', s')) \<and>
     preview_Execute demo_pe preview_ctx ''c.org'' ''https://b.org/p'' ''@x:c.org'' 1000 ''en'' (w'\<lparr>now := 3000, ticks := []\<rparr>, s') =
       (Inr (Some p), (w'\<lparr>now := 3000, ticks := []\<rparr>, s'))"
proof -
  obtain p w' s' where run: "demo_preview = (Inr (Some p), (w', s'))" by (rule demo_preview_split)
  have hour: "GetHourBucket 3000 = GetHourBucket (now demo_world)" by code_simp
  from preview_fetched_once [OF run(1) demo_world_tables(3,4) _ _ hour, of "''c.org''" "''@x:c.org''"] run
  show ?thesis by (auto simp: in_int64_def)
qed

definition conflict_world :: world where
  "conflict_world = demo_world\<lparr>tbl_previews := [(new_preview ''https://b.org/p''
     \<lparr>pr_Url = [], pr_SiteName = [], pr_Type = [], pr_Description = [], pr_Title = [], pr_Image = None\<rparr> ''en'' 0)\<lparr>p_ErrorCode := ''M_UNKNOWN''\<rparr>]\<rparr>"

definition conflict_result :: PreviewResult where
  "conflict_result = \<lparr>pr_Url = ''u'', pr_SiteName = [], pr_Type = [], pr_Description = [], pr_Title = ''T'',
     pr_Image = Some \<lparr>pi_ContentType = ''image/png'', pi_Data = Some ''xy'', pi_Filename = []\<rparr>\<rparr>"

abbreviation conflict_run :: "(goerr + DbUrlPreview) \<times> world" where
  "conflict_run \<equiv> preview_Process demo_pe preview_ctx ''https://b.org/p'' (Inr conflict_result) ''a.org'' ''@u:a.org'' ''en'' 0 conflict_world"

lemma conflict_run_Inr: "case fst conflict_run of Inr p \<Rightarrow> p_ImageSize p = 2 | Inl _ \<Rightarrow> False"
  by code_simp

theorem preview_keeps_images_witness:
  "\<exists>p w'. conflict_run = (Inr p, w') \<and> p_ImageSize p = 2 \<and> previews_ok w' \<and> image_in (set (tbl_media w')) p"
proof -
  have "previews_ok conflict_world" by (simp add: conflict_world_def previews_ok_def image_in_def new_preview_def)
  moreover have "fst (GenerateMediaId (xt_IsImportProcess (pe_upload demo_pe)) ''a.org'' conflict_world) \<noteq> Inr []" by code_simp
  moreover obtain p w' where run: "conflict_run = (Inr p, w')" and p: "p_ImageSize p = 2"
    using conflict_run_Inr by (cases conflict_run; cases "fst conflict_run") auto
  ultimately have "previews_ok w' \<and>
      (faults conflict_world = [] \<and> GetHourBucket 0 = 0 \<longrightarrow> (\<forall>p'. (Inr p :: goerr + DbUrlPreview) = Inr p' \<longrightarrow> image_in (set (tbl_media w')) p'))"
    by (intro preview_keeps_images)
  moreover have "GetHourBucket 0 = 0" by code_simp
  moreover have "faults conflict_world = []" by (simp add: conflict_world_def)
  ultimately show ?thesis using run p by simp
qed

end
