(* ===== verification/Reload.thy ===== *)
theory Reload
  imports Matrix "HOL-Library.List_Lexorder" "HOL-Library.Char_ord" "HOL-Library.AList"
begin

text \<open>
  Loading the configuration (\<^verbatim>\<open>common/config/access.go\<close>), noticing that its files changed
  (\<^verbatim>\<open>common/config/watch.go\<close>), what startup checks of it (\<^verbatim>\<open>common/runtime/init.go\<close>) and telling
  the rest of the process (\<^verbatim>\<open>cmd/workers/media_repo/reloads.go\<close>).

  The YAML library is a parameter: decoding a file over a map, and moving between maps and
  structs.  The files are a map from paths to nodes.  The goroutines that wait for a reload and the
  unbuffered channels to them are a transition system.
\<close>

section \<open>access.go\<close>

datatype fs_node = FsFile bytes | FsDir "(string \<times> bool) list"

type_synonym ymap = "string \<Rightarrow> json option"

record yaml_externals =
  ye_default :: "goerr + bytes"
  ye_Unmarshal :: "bytes \<Rightarrow> ymap \<Rightarrow> goerr + ymap"
  ye_toMain :: "ymap \<Rightarrow> MainRepoConfig \<Rightarrow> goerr + MainRepoConfig"
  ye_fromDomain :: "DomainRepoConfig \<Rightarrow> goerr + ymap"
  ye_toDomain :: "ymap \<Rightarrow> DomainRepoConfig \<Rightarrow> goerr + DomainRepoConfig"

text \<open>
  The channels of \<^verbatim>\<open>common/globals/reload.go\<close>, in the order in which they are declared.
\<close>

datatype reload_chan =
    WebReloadChan | MetricsReloadChan | DatabaseReloadChan | DatastoresReloadChan
  | RecurringTasksReloadChan | AccessTokenReloadChan | CacheReplaceChan | PluginReloadChan
  | PoolReloadChan | ErrorCacheReloadChan | MatrixCachesReloadChan | PGOReloadChan | BucketsReloadChan

text \<open>
  The files, the variables \<open>instance\<close> and \<open>domains\<close> of the package, and the messages sent so far.
\<close>

record conf_state =
  cs_files :: "string \<Rightarrow> fs_node option"
  cs_instance :: "MainRepoConfig option"
  cs_domains :: domains
  cs_sent :: "reload_chan list"

type_synonym 'a conf_io = "(world \<times> conf_state, 'a) io"

subsection \<open>Paths and files\<close>

definition clean_step :: "bool \<Rightarrow> string list \<Rightarrow> string \<Rightarrow> string list" where
  "clean_step rooted out elem =
     (if elem = [] \<or> elem = ''.'' then out
      else if elem = ''..'' then
        (if out \<noteq> [] \<and> last out \<noteq> ''..'' then butlast out else if rooted then out else out @ [''..''])
      else out @ [elem])"

definition path_Clean :: "string \<Rightarrow> string" where
  "path_Clean p =
     (let rooted = HasPrefix p ''/'';
          out = foldl (clean_step rooted) [] (str_split CHR ''/'' p);
          res = (if rooted then ''/'' else []) @ str_join ''/'' out
      in if res = [] then ''.'' else res)"

definition path_Join :: "string \<Rightarrow> string \<Rightarrow> string" where
  "path_Join a b =
     (case filter (\<lambda>e. e \<noteq> []) [a, b] of [] \<Rightarrow> [] | es \<Rightarrow> path_Clean (str_join ''/'' es))"

definition ErrNotExist :: goerr where
  "ErrNotExist = ErrOther ''file does not exist''"

definition os_Stat :: "string \<Rightarrow> fs_node conf_io" where
  "os_Stat p = bindE (getsS (\<lambda>cs. cs_files cs p)) (\<lambda>node.
     on_world (ext (lift_result (case node of None \<Rightarrow> Inl ErrNotExist | Some n \<Rightarrow> Inr n))))"

definition read_file :: "string \<Rightarrow> bytes conf_io" where
  "read_file p =
     bindE (os_Stat p) (\<lambda>node. case node of
       FsFile b \<Rightarrow> on_world (ext (returnE b))
     | FsDir _ \<Rightarrow> throwE (ErrOther ''is a directory''))"

text \<open>The default configuration is generated only when \<open>os.Stat\<close> says that the path does not exist.\<close>

definition generate_config :: "yaml_externals \<Rightarrow> string \<Rightarrow> unit conf_io" where
  "generate_config ye path =
     bindE (tryE (os_Stat path)) (\<lambda>st.
     whenE (st = Inl ErrNotExist)
       (bindE (lift_result (ye_default ye)) (\<lambda>configBytes.
        thenE (on_world (ext (returnE ())))
       (thenE (modifyS (cs_files_update (\<lambda>fs. fs(path \<mapsto> FsFile []))))
       (thenE (on_world (ext (returnE ())))
       (thenE (modifyS (cs_files_update (\<lambda>fs. fs(path \<mapsto> FsFile configBytes))))
         (on_world (ext (returnE ())))))))))"

definition config_paths :: "string \<Rightarrow> string list conf_io" where
  "config_paths path =
     bindE (os_Stat path) (\<lambda>info. case info of
       FsDir entries \<Rightarrow>
         thenE (on_world (ext (returnE ())))
           (returnE (sort (map (\<lambda>(name, isDir). path_Join path name) (filter (\<lambda>(name, isDir). \<not> isDir) entries))))
     | FsFile _ \<Rightarrow> returnE [path])"

subsection \<open>reloadConfig\<close>

type_synonym pending = "(string \<times> bytes list) list"

definition add_pending :: "string \<Rightarrow> bytes \<Rightarrow> pending \<Rightarrow> pending" where
  "add_pending hs buffer ps =
     AList.update hs ((case map_of ps hs of None \<Rightarrow> [] | Some bs \<Rightarrow> bs) @ [buffer]) ps"

text \<open>One file: a file that names a homeserver waits for the main configuration, another is decoded over it.\<close>

definition load_file :: "yaml_externals \<Rightarrow> string \<Rightarrow> pending \<times> ymap \<Rightarrow> (pending \<times> ymap) conf_io" where
  "load_file ye p acc = (case acc of (pendingDomainConfigs, cMap) \<Rightarrow>
     bindE (os_Stat p) (\<lambda>s. case s of
       FsDir _ \<Rightarrow> returnE acc
     | FsFile _ \<Rightarrow>
         bindE (read_file p) (\<lambda>buffer.
         bindE (lift_result (ye_Unmarshal ye buffer (\<lambda>_. None))) (\<lambda>testMap.
         case testMap ''homeserver'' of
           Some (JStr hs) \<Rightarrow> returnE (add_pending hs buffer pendingDomainConfigs, cMap)
         | _ \<Rightarrow>
             bindE (lift_result (ye_Unmarshal ye buffer cMap)) (\<lambda>cMap'.
             returnE (pendingDomainConfigs, cMap'))))))"

definition listed_domain ::
  "yaml_externals \<Rightarrow> MainRepoConfig \<Rightarrow> HomeserverConfig \<Rightarrow> (string \<times> ymap) list \<Rightarrow> (string \<times> ymap) list conf_io" where
  "listed_domain ye c d dMaps =
     (let dc = (DomainConfigFrom c)\<lparr>Homeserver := (Homeserver (DomainConfigFrom c))
                 \<lparr>hs_Name := hs_Name d, hs_ClientServerApi := hs_ClientServerApi d, hs_BackoffAt := hs_BackoffAt d,
                  hs_AdminApiKind := hs_AdminApiKind d, hs_SigningKeyPath := hs_SigningKeyPath d\<rparr>\<rparr>
      in bindE (lift_result (ye_fromDomain ye dc)) (\<lambda>m. returnE (AList.update (hs_Name d) m dMaps)))"

definition overlay :: "yaml_externals \<Rightarrow> string \<Rightarrow> bytes \<Rightarrow> (string \<times> ymap) list \<Rightarrow> (string \<times> ymap) list conf_io" where
  "overlay ye hs b dMaps =
     (let m = (case map_of dMaps hs of None \<Rightarrow> (\<lambda>_. None) | Some m \<Rightarrow> m)
      in bindE (lift_result (ye_Unmarshal ye b m)) (\<lambda>m'. returnE (AList.update hs m' dMaps)))"

definition pending_domain ::
  "yaml_externals \<Rightarrow> MainRepoConfig \<Rightarrow> string \<times> bytes list \<Rightarrow> (string \<times> ymap) list \<Rightarrow> (string \<times> ymap) list conf_io" where
  "pending_domain ye c p dMaps = (case p of (hs, bs) \<Rightarrow>
     bindE (case map_of dMaps hs of
              Some _ \<Rightarrow> returnE dMaps
            | None \<Rightarrow>
                (let dc = (DomainConfigFrom c)\<lparr>Homeserver := (Homeserver (DomainConfigFrom c))\<lparr>hs_Name := hs\<rparr>\<rparr>
                 in bindE (lift_result (ye_fromDomain ye dc)) (\<lambda>m. returnE (AList.update hs m dMaps)))) (\<lambda>dMaps'.
     foldE (overlay ye hs) bs dMaps'))"

text \<open>The zero value of the struct: \<open>DomainRepoConfig{}\<close>.\<close>

definition zero_DomainRepoConfig :: DomainRepoConfig where
  "zero_DomainRepoConfig = MinimumRepoConfig.extend
     (MinimumRepoConfig.make [] \<lparr>arch_Enabled = False, arch_SelfService = False, arch_TargetBytesPerPart = 0\<rparr>
       \<lparr>up_MaxSizeBytes = 0, up_MinSizeBytes = 0, up_ReportedMaxSizeBytes = 0, up_MaxPending = 0, up_MaxAgeSeconds = 0,
        up_Quota = \<lparr>quotas_Enabled = False, quotas_UserQuotas = []\<rparr>\<rparr>
       \<lparr>ic_Enabled = False\<rparr>
       \<lparr>qr_ReplaceThumbnails = False, qr_ReplaceDownloads = False, qr_ThumbnailPath = [], qr_AllowLocalAdmins = False\<rparr>
       \<lparr>to_UrlPreviews = 0, to_Federation = 0, to_ClientServer = 0\<rparr> ()
       \<lparr>at_MaxCacheTimeSeconds = 0, at_UseAppservices = False, at_Appservices = []\<rparr>)
     (DomainRepoConfig.fields
       \<lparr>hs_Name = [], hs_ClientServerApi = [], hs_BackoffAt = 0, hs_AdminApiKind = [], hs_SigningKeyPath = []\<rparr>
       \<lparr>dl_MaxSizeBytes = 0, dl_FailureCacheMinutes = 0, dl_DefaultRangeChunkSizeBytes = 0\<rparr>
       \<lparr>th_MaxSourceBytes = 0, th_MaxPixels = 0, th_Types = [], th_MaxAnimateSizeBytes = 0, th_Sizes = [],
        th_DynamicSizing = False, th_AllowAnimated = False, th_DefaultAnimated = False, th_StillFrame = 0\<rparr>
       \<lparr>pv_Enabled = False, pv_NumWords = 0, pv_NumTitleWords = 0, pv_MaxLength = 0, pv_MaxTitleLength = 0,
        pv_MaxPageSizeBytes = 0, pv_FilePreviewTypes = [], pv_DisallowedNetworks = [], pv_AllowedNetworks = [],
        pv_UnsafeCertificates = False, pv_DefaultLanguage = [], pv_UserAgent = [], pv_OEmbed = False\<rparr>)"

definition finish_domain :: "yaml_externals \<Rightarrow> string \<times> ymap \<Rightarrow> domains \<Rightarrow> domains conf_io" where
  "finish_domain ye e domainConfs = (case e of (hs, m) \<Rightarrow>
     bindE (lift_result (ye_toDomain ye m zero_DomainRepoConfig)) (\<lambda>drc.
     returnE (AList.update hs (drc\<lparr>Homeserver := (Homeserver drc)\<lparr>hs_Name := hs\<rparr>\<rparr>) domainConfs)))"

definition reloadConfig :: "yaml_externals \<Rightarrow> string \<Rightarrow> (MainRepoConfig \<times> domains) conf_io" where
  "reloadConfig ye path =
     thenE (generate_config ye path)
     (bindE (config_paths path) (\<lambda>pathsOrdered.
      bindE (foldE (load_file ye) pathsOrdered ([], \<lambda>_. None)) (\<lambda>(pendingDomainConfigs, cMap).
      bindE (lift_result (ye_toMain ye cMap NewDefaultMainConfig)) (\<lambda>c.
      bindE (foldE (listed_domain ye c) (Homeservers c) []) (\<lambda>dMaps.
      bindE (foldE (pending_domain ye c) pendingDomainConfigs dMaps) (\<lambda>dMaps'.
      bindE (foldE (finish_domain ye) dMaps' []) (\<lambda>domainConfs.
      returnE (c, domainConfs))))))))"

text \<open>
  \<open>Get\<close> loads the configuration once; when it cannot, \<open>logrus.Fatal\<close> ends the process, which is a
  panic of the model.
\<close>

definition fatal :: "'a conf_io" where
  "fatal = throwE (Panic ''logrus.Fatal'')"

definition config_Get :: "yaml_externals \<Rightarrow> string \<Rightarrow> MainRepoConfig conf_io" where
  "config_Get ye path =
     bindE (getsS cs_instance) (\<lambda>inst. case inst of
       Some c \<Rightarrow> returnE c
     | None \<Rightarrow>
         bindE (tryE (reloadConfig ye path)) (\<lambda>r. case r of
           Inl _ \<Rightarrow> fatal
         | Inr (c, d) \<Rightarrow> thenE (modifyS (\<lambda>cs. cs\<lparr>cs_instance := Some c, cs_domains := d\<rparr>)) (returnE c)))"

definition config_GetDomain :: "yaml_externals \<Rightarrow> string \<Rightarrow> string \<Rightarrow> DomainRepoConfig option conf_io" where
  "config_GetDomain ye path domain =
     thenE (bindE (config_Get ye path) (\<lambda>_. returnE ())) (getsS (\<lambda>cs. GetDomain (cs_domains cs) domain))"

section \<open>watch.go\<close>

definition hasRedisShardConfigChanged :: "MainRepoConfig \<Rightarrow> MainRepoConfig \<Rightarrow> bool" where
  "hasRedisShardConfigChanged configNew configNow =
     (let oldShards = redis_Shards (Redis configNow); newShards = redis_Shards (Redis configNew)
      in length oldShards \<noteq> length newShards \<or>
         list_ex (\<lambda>s1. \<not> list_ex (\<lambda>s2. shard_Name s1 = shard_Name s2 \<and> shard_Address s1 = shard_Address s2) newShards)
           oldShards)"

text \<open>
  A send on an unbuffered channel, recorded when the receiver has taken it.  The pool settings of the
  database are a pointer; reading through a nil one panics.
\<close>

definition send_reload :: "reload_chan \<Rightarrow> unit conf_io" where
  "send_reload ch = modifyS (cs_sent_update (\<lambda>l. l @ [ch]))"

definition db_pool :: "MainRepoConfig \<Rightarrow> DbPoolConfig conf_io" where
  "db_pool c = (case db_Pool (DatabaseCfg c) of
     None \<Rightarrow> throwE (Panic ''invalid memory address or nil pointer dereference'') | Some p \<Rightarrow> returnE p)"

definition web_changed :: "MainRepoConfig \<Rightarrow> MainRepoConfig \<Rightarrow> bool" where
  "web_changed configNew configNow \<longleftrightarrow>
     gen_BindAddress (General configNew) \<noteq> gen_BindAddress (General configNow) \<or>
     gen_Port (General configNew) \<noteq> gen_Port (General configNow) \<or>
     gen_TrustAnyForward (General configNew) \<noteq> gen_TrustAnyForward (General configNow) \<or>
     gen_UseForwardedHost (General configNew) \<noteq> gen_UseForwardedHost (General configNow)"

definition metrics_changed :: "MainRepoConfig \<Rightarrow> MainRepoConfig \<Rightarrow> bool" where
  "metrics_changed configNew configNow \<longleftrightarrow>
     met_Enabled (Metrics configNew) \<noteq> met_Enabled (Metrics configNow) \<or>
     met_BindAddress (Metrics configNew) \<noteq> met_BindAddress (Metrics configNow) \<or>
     met_Port (Metrics configNew) \<noteq> met_Port (Metrics configNow)"

definition database_changed :: "MainRepoConfig \<Rightarrow> MainRepoConfig \<Rightarrow> bool conf_io" where
  "database_changed configNew configNow =
     bindE (db_pool configNew) (\<lambda>pNew. bindE (db_pool configNow) (\<lambda>pNow.
     returnE (db_Postgres (DatabaseCfg configNew) \<noteq> db_Postgres (DatabaseCfg configNow) \<or>
       pool_MaxConnections pNew \<noteq> pool_MaxConnections pNow \<or> pool_MaxIdle pNew \<noteq> pool_MaxIdle pNow)))"

definition redis_changed :: "MainRepoConfig \<Rightarrow> MainRepoConfig \<Rightarrow> bool" where
  "redis_changed configNew configNow \<longleftrightarrow>
     redis_Enabled (Redis configNew) \<noteq> redis_Enabled (Redis configNow) \<or>
     hasRedisShardConfigChanged configNew configNow \<or>
     redis_Password (Redis configNew) \<noteq> redis_Password (Redis configNow)"

definition pgo_changed :: "MainRepoConfig \<Rightarrow> MainRepoConfig \<Rightarrow> bool" where
  "pgo_changed configNew configNow \<longleftrightarrow>
     pgo_Enabled (PGO configNew) \<noteq> pgo_Enabled (PGO configNow) \<or>
     pgo_SubmitUrl (PGO configNew) \<noteq> pgo_SubmitUrl (PGO configNow) \<or>
     pgo_SubmitKey (PGO configNew) \<noteq> pgo_SubmitKey (PGO configNow)"

definition send_changes :: "MainRepoConfig \<Rightarrow> MainRepoConfig \<Rightarrow> unit conf_io" where
  "send_changes configNew configNow =
     thenE (foreachE send_reload [PoolReloadChan, ErrorCacheReloadChan, MatrixCachesReloadChan])
    (thenE (whenE (web_changed configNew configNow) (send_reload WebReloadChan))
    (thenE (whenE (metrics_changed configNew configNow) (send_reload MetricsReloadChan))
    (thenE (bindE (database_changed configNew configNow) (\<lambda>b. whenE b (send_reload DatabaseReloadChan)))
    (thenE (whenE (redis_changed configNew configNow) (send_reload CacheReplaceChan))
    (thenE (foreachE send_reload [BucketsReloadChan, AccessTokenReloadChan, DatastoresReloadChan, PluginReloadChan,
              RecurringTasksReloadChan])
       (whenE (pgo_changed configNew configNow) (send_reload PGOReloadChan)))))))"

definition onFileChanged :: "yaml_externals \<Rightarrow> string \<Rightarrow> unit conf_io" where
  "onFileChanged ye path =
     bindE (config_Get ye path) (\<lambda>configNow.
     bindE (tryE (reloadConfig ye path)) (\<lambda>r. case r of
       Inl _ \<Rightarrow> returnE ()
     | Inr (configNew, domainsNew) \<Rightarrow>
         thenE (modifyS (\<lambda>cs. cs\<lparr>cs_instance := Some configNew, cs_domains := domainsNew\<rparr>))
           (send_changes configNew configNow)))"

section \<open>common/runtime/init.go\<close>

definition datastore_found :: "string list \<Rightarrow> DatastoreConfig list \<Rightarrow> (string \<times> bool) list" where
  "datastore_found storeIds confs =
     foldl (\<lambda>m ds. AList.update (ds_Id ds) True m) (foldl (\<lambda>m i. AList.update i False m) [] storeIds) confs"

definition LoadDatastores :: "yaml_externals \<Rightarrow> string \<Rightarrow> unit conf_io" where
  "LoadDatastores ye path =
     bindE (tryE (on_world media_GetDistinctDatastoreIds)) (\<lambda>r. case r of
       Inl _ \<Rightarrow> fatal
     | Inr storeIds \<Rightarrow>
         bindE (config_Get ye path) (\<lambda>c. bindE (getsS cs_domains) (\<lambda>ds.
           if list_ex (\<lambda>(i, found). \<not> found) (datastore_found storeIds (UniqueDatastores c ds)) then fatal
           else on_world ResetS3Clients)))"

section \<open>reloads.go\<close>

text \<open>
  Each channel has one goroutine that receives from it.  What a reload does is a parameter of
  the process, represented by the channel it was asked for on; only the database's reload sends a message
  of its own.  A goroutine waits, is in the middle of a reload with messages left to send, or
  has closed its channel after a stop.
\<close>

datatype goroutine = Waiting | Reloading "reload_chan list" | Closed

fun reload_sends :: "reload_chan \<Rightarrow> reload_chan list" where
  "reload_sends DatabaseReloadChan = [DatastoresReloadChan]"
| "reload_sends _ = []"

fun received :: "reload_chan \<Rightarrow> bool \<Rightarrow> goroutine" where
  "received ch True = Reloading (reload_sends ch)"
| "received ch False = Closed"

definition stopReloads :: "(reload_chan \<times> bool) list" where
  "stopReloads = map (\<lambda>ch. (ch, False))
     [WebReloadChan, MetricsReloadChan, DatabaseReloadChan, DatastoresReloadChan, AccessTokenReloadChan,
      RecurringTasksReloadChan, CacheReplaceChan, PluginReloadChan, PoolReloadChan, ErrorCacheReloadChan,
      MatrixCachesReloadChan, PGOReloadChan, BucketsReloadChan]"

text \<open>
  The goroutines, the calls that are sending with what each has left to send, the reloads done so far,
  and whether the process has crashed.
\<close>

record reload_state =
  rs_at :: "reload_chan \<Rightarrow> goroutine"
  rs_senders :: "(reload_chan \<times> bool) list list"
  rs_done :: "reload_chan list"
  rs_panic :: bool

definition setupReloads :: reload_state where
  "setupReloads = \<lparr>rs_at = (\<lambda>_. Waiting), rs_senders = [], rs_done = [], rs_panic = False\<rparr>"

inductive reload_step :: "reload_state \<Rightarrow> reload_state \<Rightarrow> bool" where
  call_sends: "\<lbrakk>\<not> rs_panic s; i < length (rs_senders s); rs_senders s ! i = (ch, b) # q; rs_at s ch = Waiting\<rbrakk> \<Longrightarrow>
     reload_step s (s\<lparr>rs_at := (rs_at s)(ch := received ch b), rs_senders := (rs_senders s)[i := q]\<rparr>)"
| reload_sends: "\<lbrakk>\<not> rs_panic s; rs_at s g = Reloading (ch # cs); rs_at s ch = Waiting\<rbrakk> \<Longrightarrow>
     reload_step s (s\<lparr>rs_at := (rs_at s)(g := Reloading cs, ch := received ch True)\<rparr>)"
| reload_ends: "\<lbrakk>\<not> rs_panic s; rs_at s g = Reloading []\<rbrakk> \<Longrightarrow>
     reload_step s (s\<lparr>rs_at := (rs_at s)(g := Waiting), rs_done := rs_done s @ [g]\<rparr>)"
| call_panics: "\<lbrakk>\<not> rs_panic s; i < length (rs_senders s); rs_senders s ! i = (ch, b) # q; rs_at s ch = Closed\<rbrakk> \<Longrightarrow>
     reload_step s (s\<lparr>rs_panic := True\<rparr>)"
| reload_panics: "\<lbrakk>\<not> rs_panic s; rs_at s g = Reloading (ch # cs); rs_at s ch = Closed\<rbrakk> \<Longrightarrow>
     reload_step s (s\<lparr>rs_panic := True\<rparr>)"

inductive_cases reload_stepE: "reload_step s t"

end
