(* ===== verification/ReloadProofs.thy ===== *)
theory ReloadProofs
  imports Reload
begin

text \<open>
  What holds of the reload messages in every interleaving of the senders and the goroutines, what a loaded
  configuration looks like, and when a change of the files is applied.
\<close>

section \<open>Work left\<close>

definition all_chans :: "reload_chan list" where
  "all_chans = map fst stopReloads"

lemma all_chans_complete [simp]: "ch \<in> set all_chans"
  by (cases ch) (simp_all add: all_chans_def stopReloads_def)

lemma all_chans_distinct [simp]: "distinct all_chans"
  by (simp add: all_chans_def stopReloads_def)

fun gor_work :: "goroutine \<Rightarrow> nat" where
  "gor_work (Reloading cs) = 1 + 2 * length cs"
| "gor_work _ = 0"

fun msg_work :: "reload_chan \<times> bool \<Rightarrow> nat" where
  "msg_work (ch, b) = 1 + gor_work (received ch b)"

definition reload_work :: "reload_state \<Rightarrow> nat" where
  "reload_work s = sum_list (map msg_work (concat (rs_senders s))) + (\<Sum>ch\<leftarrow>all_chans. gor_work (rs_at s ch))"

text \<open>The reloads of a channel that are asked for, running or done; the database's asks for one of the datastores.\<close>

fun msg_due :: "reload_chan \<Rightarrow> reload_chan \<times> bool \<Rightarrow> nat" where
  "msg_due ch (c, b) = (if b then of_bool (c = ch) + count_list (reload_sends c) ch else 0)"

fun gor_due :: "reload_chan \<Rightarrow> reload_chan \<Rightarrow> goroutine \<Rightarrow> nat" where
  "gor_due ch c (Reloading cs) = of_bool (c = ch) + count_list cs ch"
| "gor_due ch c _ = 0"

definition reloads_due :: "reload_chan \<Rightarrow> reload_state \<Rightarrow> nat" where
  "reloads_due ch s = sum_list (map (msg_due ch) (concat (rs_senders s))) +
     (\<Sum>c\<leftarrow>all_chans. gor_due ch c (rs_at s c)) + count_list (rs_done s) ch"

section \<open>The invariant\<close>

text \<open>
  While the process runs every message asks for a reload; when it stops, one call has sent a prefix
  of \<open>stopReloads\<close> and the channels of the prefix are the closed ones.
\<close>

definition no_stops :: "reload_state \<Rightarrow> bool" where
  "no_stops s \<longleftrightarrow> list_all (list_all snd) (rs_senders s) \<and> (\<forall>ch. rs_at s ch \<noteq> Closed)"

definition stops_from :: "nat \<Rightarrow> reload_state \<Rightarrow> bool" where
  "stops_from k s \<longleftrightarrow> k \<le> 13 \<and> rs_senders s = [drop k stopReloads] \<and>
     (\<forall>ch. rs_at s ch = Closed \<longleftrightarrow> ch \<in> set (take k all_chans))"

definition sends_left :: "reload_state \<Rightarrow> bool" where
  "sends_left s \<longleftrightarrow> (\<forall>ch cs. rs_at s ch = Reloading cs \<longrightarrow> cs = [] \<or> cs = reload_sends ch)"

definition reload_inv :: "bool \<Rightarrow> reload_state \<Rightarrow> bool" where
  "reload_inv stop s \<longleftrightarrow> \<not> rs_panic s \<and> sends_left s \<and> (if stop then \<exists>k. stops_from k s else no_stops s)"

lemma reload_sends_eq_Cons: "reload_sends g = ch # cs \<longleftrightarrow> g = DatabaseReloadChan \<and> ch = DatastoresReloadChan \<and> cs = []"
  by (cases g) auto

lemma sends_left_ConsD:
  "sends_left s \<Longrightarrow> rs_at s g = Reloading (ch # cs) \<Longrightarrow> g = DatabaseReloadChan \<and> ch = DatastoresReloadChan \<and> cs = []"
  unfolding sends_left_def by (metis list.distinct(1) reload_sends_eq_Cons)

lemma length_stopReloads [simp]: "length stopReloads = 13" and length_all_chans [simp]: "length all_chans = 13"
  by (simp_all add: all_chans_def stopReloads_def)

lemma drop_stopReloads_ConsD:
  assumes "drop k stopReloads = (ch, b) # q"
  shows "k < 13" "ch = all_chans ! k" "\<not> b" "q = drop (Suc k) stopReloads"
proof -
  show k: "k < 13" using assms by (metis drop_all length_stopReloads linorder_not_le list.distinct(1))
  then have *: "stopReloads ! k = (ch, b) \<and> q = drop (Suc k) stopReloads"
    using assms by (metis Cons_nth_drop_Suc length_stopReloads list.inject)
  then show "q = drop (Suc k) stopReloads" by simp
  show "ch = all_chans ! k" using * k by (simp add: all_chans_def)
  have "(ch, b) \<in> set stopReloads" using * k by (metis length_stopReloads nth_mem)
  then show "\<not> b" by (auto simp: stopReloads_def)
qed

lemma database_stops_first:
  assumes "stops_from k s" "rs_at s DatastoresReloadChan = Closed"
  shows "rs_at s DatabaseReloadChan = Closed"
proof -
  have "all_chans ! 2 = DatabaseReloadChan" "all_chans ! 3 = DatastoresReloadChan"
    by (simp_all add: all_chans_def stopReloads_def)
  moreover from assms have "DatastoresReloadChan \<in> set (take k all_chans)" by (simp add: stops_from_def)
  then obtain i where "i < k" "i < 13" "all_chans ! i = DatastoresReloadChan" by (auto simp: in_set_conv_nth)
  ultimately have "i = 3" "3 < k"
    using nth_eq_iff_index_eq [OF all_chans_distinct, of i 3] by auto
  then have "all_chans ! 2 \<in> set (take k all_chans)" by (auto simp: in_set_conv_nth intro!: exI [of _ 2])
  with assms show ?thesis by (simp add: stops_from_def \<open>all_chans ! 2 = DatabaseReloadChan\<close>)
qed

section \<open>Steps\<close>

lemma sum_all_chans_upd:
  fixes f :: "reload_chan \<Rightarrow> goroutine \<Rightarrow> nat"
  shows "(\<Sum>c\<leftarrow>all_chans. f c ((h(g := v)) c)) + f g (h g) = (\<Sum>c\<leftarrow>all_chans. f c (h c)) + f g v"
proof -
  have "(\<Sum>c\<leftarrow>cs. f c ((h(g := v)) c)) + (if g \<in> set cs then f g (h g) else 0) =
        (\<Sum>c\<leftarrow>cs. f c (h c)) + (if g \<in> set cs then f g v else 0)" if "distinct cs" for cs
    using that by (induction cs) auto
  from this [OF all_chans_distinct] show ?thesis by simp
qed

lemma sum_senders_upd:
  assumes "i < length qss" "qss ! i = m # q"
  shows "sum_list (map f (concat (qss[i := q]))) + f m = (sum_list (map f (concat qss)) :: nat)"
  using assms
proof (induction qss arbitrary: i)
  case (Cons p qss)
  then show ?case by (cases i) auto
qed simp

lemma reload_step_work:
  assumes "reload_step s t" "sends_left s"
  shows "rs_panic t \<or> Suc (reload_work t) = reload_work s"
  using assms(1)
proof cases
  case (call_sends i ch b q)
  have "sum_list (map msg_work (concat ((rs_senders s)[i := q]))) + msg_work (ch, b) = sum_list (map msg_work (concat (rs_senders s)))"
    using call_sends by (intro sum_senders_upd)
  then show ?thesis
    using sum_all_chans_upd [of "\<lambda>_. gor_work" "rs_at s" ch "received ch b"] call_sends by (simp add: reload_work_def)
next
  case (reload_sends g ch cs)
  have g: "g = DatabaseReloadChan" "ch = DatastoresReloadChan" "cs = []"
    using sends_left_ConsD [OF assms(2)] reload_sends by auto
  show ?thesis
    using sum_all_chans_upd [of "\<lambda>_. gor_work" "rs_at s" g "Reloading cs"]
      sum_all_chans_upd [of "\<lambda>_. gor_work" "(rs_at s)(g := Reloading cs)" ch "received ch True"] reload_sends g
    by (simp add: reload_work_def)
next
  case (reload_ends g)
  then show ?thesis
    using sum_all_chans_upd [of "\<lambda>_. gor_work" "rs_at s" g Waiting] by (simp add: reload_work_def)
qed simp_all

lemma gor_due_received: "gor_due ch c (received c b) = msg_due ch (c, b)"
  by (cases b) simp_all

lemma reload_step_due:
  assumes "reload_step s t" "sends_left s"
  shows "rs_panic t \<or> reloads_due ch t = reloads_due ch s"
  using assms(1)
proof cases
  case (call_sends i c b q)
  have "sum_list (map (msg_due ch) (concat ((rs_senders s)[i := q]))) + msg_due ch (c, b) =
        sum_list (map (msg_due ch) (concat (rs_senders s)))"
    using call_sends by (intro sum_senders_upd)
  then show ?thesis
    using sum_all_chans_upd [of "gor_due ch" "rs_at s" c "received c b"] call_sends
    by (simp add: reloads_due_def gor_due_received del: msg_due.simps)
next
  case (reload_sends g c cs)
  have g: "g = DatabaseReloadChan" "c = DatastoresReloadChan" "cs = []"
    using sends_left_ConsD [OF assms(2)] reload_sends by auto
  show ?thesis
    using sum_all_chans_upd [of "gor_due ch" "rs_at s" g "Reloading cs"]
      sum_all_chans_upd [of "gor_due ch" "(rs_at s)(g := Reloading cs)" c "received c True"] reload_sends g
    by (cases "DatastoresReloadChan = ch") (simp_all add: reloads_due_def)
next
  case (reload_ends g)
  then show ?thesis
    using sum_all_chans_upd [of "gor_due ch" "rs_at s" g Waiting]
    by (cases "g = ch") (simp_all add: reloads_due_def)
qed simp_all

lemma reload_step_sends_left:
  assumes "reload_step s t" "sends_left s"
  shows "sends_left t"
  using assms(1)
proof cases
  case (call_sends i ch b q)
  then show ?thesis using assms(2) by (cases b) (auto simp: sends_left_def)
next
  case (reload_sends g ch cs)
  then show ?thesis using sends_left_ConsD [OF assms(2)] assms(2) by (auto simp: sends_left_def)
qed (use assms(2) in \<open>auto simp: sends_left_def\<close>)

lemma reload_step_running:
  assumes "reload_step s t" "sends_left s" "no_stops s" "\<not> rs_panic s"
  shows "no_stops t \<and> \<not> rs_panic t"
  using assms(1)
proof cases
  case (call_sends i ch b q)
  then have "list_all snd ((ch, b) # q)"
    using assms(3) unfolding no_stops_def by (metis list_all_length)
  then have "b" "list_all snd q" by simp_all
  moreover have "list_all (list_all snd) ((rs_senders s)[i := q])"
    using assms(3) \<open>list_all snd q\<close> by (auto simp: no_stops_def list_all_iff dest!: set_update_subset_insert [THEN subsetD])
  ultimately show ?thesis using call_sends assms(3) by (auto simp: no_stops_def)
qed (use assms in \<open>auto simp: no_stops_def\<close>)

lemma take_Suc_all_chans: "k < 13 \<Longrightarrow> set (take (Suc k) all_chans) = insert (all_chans ! k) (set (take k all_chans))"
  by (simp add: take_Suc_conv_app_nth)

lemma nth_notin_take: "k < 13 \<Longrightarrow> all_chans ! k \<notin> set (take k all_chans)"
  using distinct_take [OF all_chans_distinct, of "Suc k"] by (simp add: take_Suc_conv_app_nth)

lemma reload_step_stopping:
  assumes "reload_step s t" "sends_left s" "stops_from k s" "\<not> rs_panic s"
  shows "(\<exists>k. stops_from k t) \<and> \<not> rs_panic t"
  using assms(1)
proof cases
  case (call_sends i ch b q)
  then have "i = 0" and d: "drop k stopReloads = (ch, b) # q" using assms(3) by (auto simp: stops_from_def)
  note d' = drop_stopReloads_ConsD [OF d]
  have "stops_from (Suc k) t"
    using assms(3) call_sends d' \<open>i = 0\<close> by (auto simp: stops_from_def take_Suc_all_chans split: if_splits)
  then show ?thesis using call_sends assms(4) by auto
next
  case (reload_sends g ch cs)
  then have "\<forall>c. rs_at t c = Closed \<longleftrightarrow> rs_at s c = Closed" "rs_senders t = rs_senders s" by auto
  then have "stops_from k t" using assms(3) by (simp add: stops_from_def)
  then show ?thesis using reload_sends assms(4) by auto
next
  case (reload_ends g)
  then have "\<forall>c. rs_at t c = Closed \<longleftrightarrow> rs_at s c = Closed" "rs_senders t = rs_senders s" by auto
  then have "stops_from k t" using assms(3) by (simp add: stops_from_def)
  then show ?thesis using reload_ends assms(4) by auto
next
  case (call_panics i ch b q)
  then have d: "drop k stopReloads = (ch, b) # q" using assms(3) by (auto simp: stops_from_def)
  note d' = drop_stopReloads_ConsD [OF d]
  then have "rs_at s ch \<noteq> Closed" using assms(3) nth_notin_take by (simp add: stops_from_def)
  then show ?thesis using call_panics by simp
next
  case (reload_panics g ch cs)
  then have "g = DatabaseReloadChan" "ch = DatastoresReloadChan" using sends_left_ConsD [OF assms(2)] by auto
  then show ?thesis using database_stops_first [OF assms(3)] reload_panics by simp
qed

lemma reload_step_inv:
  assumes "reload_step s t" "reload_inv stop s"
  shows "reload_inv stop t"
  using assms reload_step_sends_left [OF assms(1)] reload_step_running [OF assms(1)] reload_step_stopping [OF assms(1)]
  by (auto simp: reload_inv_def split: if_splits)

section \<open>Progress\<close>

lemma sum_list_pos_0: "sum_list (map f l) = (0::nat) \<Longrightarrow> (\<And>m. f m \<noteq> 0) \<Longrightarrow> l = []"
  by (cases l) auto

lemma reload_work_0:
  assumes "reload_work s = 0"
  shows "list_all (\<lambda>q. q = []) (rs_senders s)" "rs_at s ch = Waiting \<or> rs_at s ch = Closed"
proof -
  have pos: "msg_work m \<noteq> 0" for m by (cases m) simp
  have "sum_list (map msg_work (concat (rs_senders s))) = 0" using assms by (simp only: reload_work_def add_is_0)
  then have "concat (rs_senders s) = []" using pos by (rule sum_list_pos_0)
  then show "list_all (\<lambda>q. q = []) (rs_senders s)" by (simp add: list_all_iff)
  have "gor_work (rs_at s ch) = 0" using assms by (simp add: reload_work_def)
  then show "rs_at s ch = Waiting \<or> rs_at s ch = Closed" by (cases "rs_at s ch") auto
qed

lemma reload_progress:
  assumes "reload_inv stop s" "0 < reload_work s"
  shows "\<exists>t. reload_step s t"
proof (cases "\<exists>g cs. rs_at s g = Reloading cs")
  case True
  then obtain g cs where g: "rs_at s g = Reloading cs" by blast
  have np: "\<not> rs_panic s" and sl: "sends_left s" using assms(1) by (auto simp: reload_inv_def)
  show ?thesis
  proof (cases cs)
    case Nil
    then show ?thesis using reload_step.reload_ends [OF np] g by blast
  next
    case (Cons ch cs')
    show ?thesis
    proof (cases "rs_at s ch")
      case Waiting
      then show ?thesis using reload_step.reload_sends [OF np] g Cons by blast
    next
      case (Reloading cs'')
      have "ch = DatastoresReloadChan" using sends_left_ConsD [OF sl, of g ch cs'] g Cons by blast
      then have "cs'' = []" using sends_left_ConsD [OF sl, of ch] Reloading by (cases cs'') auto
      then show ?thesis using reload_step.reload_ends [OF np] Reloading by blast
    next
      case Closed
      then show ?thesis using reload_step.reload_panics [OF np] g Cons by blast
    qed
  qed
next
  case False
  then have "gor_work (rs_at s ch) = 0" for ch by (cases "rs_at s ch") auto
  then have "sum_list (map msg_work (concat (rs_senders s))) \<noteq> 0" using assms(2)
    by (simp only: reload_work_def sum_list_0 add_0_right)
  then have "concat (rs_senders s) \<noteq> []" by (metis list.simps(8) sum_list.Nil)
  then obtain i ch b q where i: "i < length (rs_senders s)" "rs_senders s ! i = (ch, b) # q"
    by (auto simp: in_set_conv_nth neq_Nil_conv)
  have np: "\<not> rs_panic s" using assms(1) by (simp add: reload_inv_def)
  show ?thesis
    using reload_step.call_sends [OF np i] reload_step.call_panics [OF np i] False by (cases "rs_at s ch") blast+
qed

section \<open>Runs\<close>

lemma reload_steps_inv:
  assumes "(reload_step ^^ n) s t" "reload_inv stop s"
  shows "reload_inv stop t \<and> n + reload_work t = reload_work s \<and> (\<forall>ch. reloads_due ch t = reloads_due ch s)"
  using assms(1)
proof (induction n arbitrary: t)
  case 0
  then show ?case using assms(2) by simp
next
  case (Suc n)
  then obtain r where r: "(reload_step ^^ n) s r" "reload_step r t" by auto
  note IH = Suc.IH [OF r(1)]
  then have inv: "reload_inv stop r" and "sends_left r" by (auto simp: reload_inv_def)
  then have "reload_inv stop t" using reload_step_inv r(2) by blast
  then have "\<not> rs_panic t" by (simp add: reload_inv_def)
  then show ?case
    using IH reload_step_work [OF r(2) \<open>sends_left r\<close>] reload_step_due [OF r(2) \<open>sends_left r\<close>] \<open>reload_inv stop t\<close> by auto
qed

definition calls :: "reload_chan list list \<Rightarrow> reload_state" where
  "calls css = setupReloads\<lparr>rs_senders := map (map (\<lambda>ch. (ch, True))) css\<rparr>"

lemma calls_inv: "reload_inv False (calls css)"
  by (auto simp: calls_def setupReloads_def reload_inv_def no_stops_def sends_left_def list_all_iff)

lemma stop_inv:
  assumes "reload_inv False r"
  shows "reload_inv True (r\<lparr>rs_senders := [stopReloads]\<rparr>)"
proof -
  have "stops_from 0 (r\<lparr>rs_senders := [stopReloads]\<rparr>)"
    using assms by (simp add: reload_inv_def no_stops_def stops_from_def)
  then show ?thesis using assms by (auto simp: reload_inv_def sends_left_def)
qed

lemma reload_work_0_at:
  assumes "reload_inv stop t" "reload_work t = 0"
  shows "rs_at t = (\<lambda>_. if stop then Closed else Waiting)"
proof (rule ext)
  fix ch
  show "rs_at t ch = (if stop then Closed else Waiting)"
  proof (cases stop)
    case True
    then obtain k where k: "stops_from k t" using assms(1) by (auto simp: reload_inv_def)
    then have "drop k stopReloads = []" using reload_work_0(1) [OF assms(2)] by (auto simp: stops_from_def)
    then have "take k all_chans = all_chans" by (simp add: all_chans_def)
    then show ?thesis using k True by (simp add: stops_from_def)
  next
    case False
    then show ?thesis using assms(1) reload_work_0(2) [OF assms(2), of ch] by (auto simp: reload_inv_def no_stops_def)
  qed
qed

lemma reload_done_due:
  assumes "reload_inv stop t" "reload_work t = 0"
  shows "count_list (rs_done t) ch = reloads_due ch t"
proof -
  have "concat (rs_senders t) = []" using reload_work_0(1) [OF assms(2)] by (simp add: list_all_iff)
  moreover have "gor_due ch c (rs_at t c) = 0" for c by (simp add: reload_work_0_at [OF assms])
  ultimately show ?thesis by (simp only: reloads_due_def) simp
qed

section \<open>The reload protocol\<close>

text \<open>
  C39: Whatever the interleaving of any number of configuration changes with the goroutines, and of the
  stop of the process once those changes have been sent, no message is sent on a closed channel and
  nothing deadlocks: every run can go on until nothing is left to do, after exactly
  \<open>reload_work\<close> steps, and then each channel has been reloaded as often as it was asked for (the datastores
  once more for every reload of the database) and all goroutines wait, respectively have
  closed their channels.
\<close>

theorem reload_protocol:
  assumes "reload_step\<^sup>*\<^sup>* (calls css) r" and "stop \<Longrightarrow> list_all (\<lambda>q. q = []) (rs_senders r)"
    and "s = (if stop then r\<lparr>rs_senders := [stopReloads]\<rparr> else r)" and "(reload_step ^^ n) s t"
  shows "\<not> rs_panic t \<and> n + reload_work t = reload_work s \<and>
    (if reload_work t = 0
     then rs_at t = (\<lambda>_. if stop then Closed else Waiting) \<and> list_all (\<lambda>q. q = []) (rs_senders t) \<and>
       (\<forall>ch. count_list (rs_done t) ch =
          count_list (concat css) ch + (if ch = DatastoresReloadChan then count_list (concat css) DatabaseReloadChan else 0))
     else (\<exists>u. reload_step t u))"
proof -
  obtain m where m: "(reload_step ^^ m) (calls css) r" using assms(1) by (metis rtranclp_imp_relpowp)
  note r = reload_steps_inv [OF m calls_inv]
  have inv: "reload_inv stop s" using r assms(3) stop_inv [of r] by (cases stop) auto
  have "reloads_due ch s = reloads_due ch r" for ch
  proof (cases stop)
    case True
    then have "concat (rs_senders r) = []" using assms(2) by (simp add: list_all_iff)
    then have "sum_list (map (msg_due ch) (concat (rs_senders r))) = 0" by (simp only: list.map sum_list.Nil)
    moreover have "sum_list (map (msg_due ch) stopReloads) = 0" by (auto simp: stopReloads_def)
    moreover have "concat (rs_senders s) = stopReloads" "rs_at s = rs_at r" "rs_done s = rs_done r"
      using assms(3) True by simp_all
    ultimately show ?thesis by (simp only: reloads_due_def)
  qed (simp add: assms(3))
  moreover have "reloads_due ch (calls css) =
      count_list (concat css) ch + (if ch = DatastoresReloadChan then count_list (concat css) DatabaseReloadChan else 0)" for ch
  proof -
    have "sum_list (map (msg_due ch) (map (\<lambda>ch. (ch, True)) cs)) =
        count_list cs ch + (if ch = DatastoresReloadChan then count_list cs DatabaseReloadChan else 0)" for cs
    proof (induction cs)
      case (Cons c cs)
      then show ?case by (cases c) (auto simp del: map_map)
    qed simp
    moreover have "concat (map (map (\<lambda>ch. (ch, True))) css) = map (\<lambda>ch. (ch, True)) (concat css)" by (simp add: map_concat)
    ultimately show ?thesis by (simp add: reloads_due_def calls_def setupReloads_def del: map_map)
  qed
  moreover note t = reload_steps_inv [OF assms(4) inv]
  ultimately have due: "reloads_due ch t =
      count_list (concat css) ch + (if ch = DatastoresReloadChan then count_list (concat css) DatabaseReloadChan else 0)" for ch
    using r by simp
  have "\<not> rs_panic t" using t by (simp add: reload_inv_def)
  then show ?thesis
    using t due reload_progress [of stop t] reload_work_0_at [of stop t] reload_work_0(1) [of t] reload_done_due [of stop t] by auto
qed

text \<open>One change that reloads the web server; the process stops while that reload still runs, and its end comes first.\<close>

definition demo_stopping :: reload_state where
  "demo_stopping = \<lparr>rs_at = (\<lambda>_. Waiting)(WebReloadChan := Reloading []), rs_senders = [stopReloads], rs_done = [],
     rs_panic = False\<rparr>"

theorem reload_protocol_witness:
  "\<exists>t u. reload_step demo_stopping t \<and> \<not> rs_panic t \<and> reload_work t = 13 \<and> reload_step t u"
proof -
  define r where "r = demo_stopping\<lparr>rs_senders := [[]]\<rparr>"
  have "reload_step (calls [[WebReloadChan]])
      ((calls [[WebReloadChan]])\<lparr>rs_at := (rs_at (calls [[WebReloadChan]]))(WebReloadChan := received WebReloadChan True),
         rs_senders := (rs_senders (calls [[WebReloadChan]]))[0 := []]\<rparr>)"
    by (rule call_sends) (simp_all add: calls_def setupReloads_def)
  moreover have "\<dots> = r" unfolding fun_upd_def by (auto simp: calls_def setupReloads_def r_def demo_stopping_def)
  ultimately have 1: "reload_step\<^sup>*\<^sup>* (calls [[WebReloadChan]]) r" by auto
  define t where "t = demo_stopping\<lparr>rs_at := (rs_at demo_stopping)(WebReloadChan := Waiting), rs_done := [WebReloadChan]\<rparr>"
  have 2: "reload_step demo_stopping t"
    using reload_ends [of demo_stopping WebReloadChan] by (simp add: demo_stopping_def t_def)
  have "\<not> rs_panic t \<and> 1 + reload_work t = reload_work demo_stopping \<and>
    (if reload_work t = 0
     then rs_at t = (\<lambda>_. if True then Closed else Waiting) \<and> list_all (\<lambda>q. q = []) (rs_senders t) \<and>
       (\<forall>ch. count_list (rs_done t) ch = count_list (concat [[WebReloadChan]]) ch +
         (if ch = DatastoresReloadChan then count_list (concat [[WebReloadChan]]) DatabaseReloadChan else 0))
     else (\<exists>u. reload_step t u))"
    using 1 2 by (intro reload_protocol [of "[[WebReloadChan]]" r True]) (auto simp: r_def demo_stopping_def)
  moreover have "reload_work demo_stopping = 14"
    by (simp add: reload_work_def demo_stopping_def all_chans_def stopReloads_def)
  ultimately show ?thesis using 2 by auto
qed

text \<open>
  The stop must wait for the watcher: when it begins while a change is still being sent, the change can
  reach a closed channel.
\<close>

lemma stop_races_watcher:
  assumes "s = setupReloads\<lparr>rs_senders := [[(WebReloadChan, True)], stopReloads]\<rparr>"
  shows "\<exists>t. reload_step\<^sup>*\<^sup>* s t \<and> rs_panic t"
proof -
  define r where "r = s\<lparr>rs_at := (rs_at s)(WebReloadChan := Closed), rs_senders := [[(WebReloadChan, True)], tl stopReloads]\<rparr>"
  have "reload_step s r"
    using call_sends [of s 1 WebReloadChan False "tl stopReloads"] by (simp add: assms r_def setupReloads_def stopReloads_def)
  moreover have "reload_step r (r\<lparr>rs_panic := True\<rparr>)"
    by (rule call_panics [of r 0 WebReloadChan True "[]"]) (simp_all add: r_def assms setupReloads_def)
  ultimately have "reload_step\<^sup>*\<^sup>* s (r\<lparr>rs_panic := True\<rparr>)" by auto
  then show ?thesis by (intro exI) auto
qed

section \<open>What a loaded configuration looks like\<close>

definition config_files :: "(string \<Rightarrow> fs_node option) \<Rightarrow> string \<Rightarrow> string list" where
  "config_files fs path = (case fs path of
     Some (FsDir entries) \<Rightarrow> map (\<lambda>(name, isDir). path_Join path name) (filter (\<lambda>(name, isDir). \<not> isDir) entries)
   | Some (FsFile _) \<Rightarrow> [path] | None \<Rightarrow> [])"

fun json_str :: "json option \<Rightarrow> string option" where
  "json_str (Some (JStr s)) = Some s"
| "json_str _ = None"

definition names_homeserver :: "yaml_externals \<Rightarrow> (string \<Rightarrow> fs_node option) \<Rightarrow> string \<Rightarrow> string option" where
  "names_homeserver ye fs p = (case fs p of
     Some (FsFile b) \<Rightarrow> (case ye_Unmarshal ye b (\<lambda>_. None) of Inr m \<Rightarrow> json_str (m ''homeserver'') | Inl _ \<Rightarrow> None)
   | _ \<Rightarrow> None)"

definition file_homeservers :: "yaml_externals \<Rightarrow> (string \<Rightarrow> fs_node option) \<Rightarrow> string list \<Rightarrow> string set" where
  "file_homeservers ye fs ps = {hs. \<exists>p \<in> set ps. names_homeserver ye fs p = Some hs}"

abbreviation has_files :: "(string \<Rightarrow> fs_node option) \<Rightarrow> world \<times> conf_state \<Rightarrow> bool" where
  "has_files fs s \<equiv> cs_files (snd s) = fs"

abbreviation any_err :: "goerr \<Rightarrow> world \<times> conf_state \<Rightarrow> bool" where
  "any_err \<equiv> \<lambda>_ _. True"

lemma on_world_lift_hoare: "hoare (\<lambda>s. P (snd s)) (on_world (ext (lift_result r))) (\<lambda>x s. P (snd s) \<and> r = Inr x) any_err"
  by (auto simp: hoare_def on_world_def ext_def lift_result_def throwE_def returnE_def
           split: list.splits option.splits sum.splits prod.splits)

lemma on_world_return_hoare: "hoare (\<lambda>s. P (snd s)) (on_world (ext (returnE x))) (\<lambda>y s. P (snd s) \<and> y = x) any_err"
  by (auto simp: hoare_def on_world_def ext_def throwE_def returnE_def split: list.splits option.splits sum.splits prod.splits)

lemma lift_result_hoare: "hoare P (lift_result r) (\<lambda>x s. P s \<and> r = Inr x) any_err"
  by (auto simp: hoare_def lift_result_def throwE_def returnE_def split: sum.splits)

lemma os_Stat_hoare: "hoare (has_files fs) (os_Stat p) (\<lambda>n s. has_files fs s \<and> fs p = Some n) any_err"
  by (auto simp: hoare_def os_Stat_def bindE_def on_world_def ext_def lift_result_def throwE_def returnE_def
           split: list.splits option.splits sum.splits prod.splits)

lemma read_file_hoare: "hoare (has_files fs) (read_file p) (\<lambda>b s. has_files fs s \<and> fs p = Some (FsFile b)) any_err"
  unfolding read_file_def
proof (rule hoare_bind [OF os_Stat_hoare])
  fix node
  show "hoare (\<lambda>s. has_files fs s \<and> fs p = Some node)
     (case node of FsFile b \<Rightarrow> on_world (ext (returnE b)) | FsDir _ \<Rightarrow> throwE (ErrOther ''is a directory''))
     (\<lambda>b s. has_files fs s \<and> fs p = Some (FsFile b)) any_err"
  proof (cases node)
    case (FsFile b)
    then show ?thesis
      using on_world_return_hoare [of "\<lambda>cs. cs_files cs = fs \<and> fs p = Some node" b] by (auto elim: hoare_weaken)
  qed (simp add: hoare_throw)
qed

lemma config_paths_hoare:
  "hoare (has_files fs) (config_paths path) (\<lambda>ps s. has_files fs s \<and> set ps = set (config_files fs path)) any_err"
  unfolding config_paths_def
proof (rule hoare_bind [OF os_Stat_hoare])
  fix info
  show "hoare (\<lambda>s. has_files fs s \<and> fs path = Some info)
     (case info of
       FsDir entries \<Rightarrow> thenE (on_world (ext (returnE ())))
         (returnE (sort (map (\<lambda>(name, isDir). path_Join path name) (filter (\<lambda>(name, isDir). \<not> isDir) entries))))
     | FsFile _ \<Rightarrow> returnE [path])
     (\<lambda>ps s. has_files fs s \<and> set ps = set (config_files fs path)) any_err"
  proof (cases info)
    case (FsDir entries)
    have "hoare (\<lambda>s. has_files fs s \<and> fs path = Some info) (on_world (ext (returnE ())))
        (\<lambda>_ s. has_files fs s \<and> fs path = Some info) any_err"
      using on_world_return_hoare [of "\<lambda>cs. cs_files cs = fs \<and> fs path = Some info" "()"] by (auto elim: hoare_weaken)
    then show ?thesis unfolding FsDir fs_node.case
      by (rule hoare_then) (auto intro!: hoare_return simp: config_files_def FsDir)
  qed (auto intro!: hoare_return simp: config_files_def)
qed

lemma update_keys_set: "fst ` set (AList.update k v al) = insert k (fst ` set al)"
proof -
  have "dom (map_of (AList.update k v al)) = insert k (dom (map_of al))" by (simp add: update_conv')
  then show ?thesis by (simp add: dom_map_of_conv_image_fst)
qed

lemma hoare_frame: "hoare P m Q E \<Longrightarrow> hoare (\<lambda>s. P s \<and> A) m (\<lambda>x s. Q x s \<and> A) E"
  by (cases A) (simp_all add: hoare_def)

lemma add_pending_keys: "fst ` set (add_pending hs b ps) = insert hs (fst ` set ps)"
  by (simp add: add_pending_def update_keys_set)

lemma file_homeservers_snoc:
  "file_homeservers ye fs (ps @ [p]) =
     (case names_homeserver ye fs p of None \<Rightarrow> file_homeservers ye fs ps | Some hs \<Rightarrow> insert hs (file_homeservers ye fs ps))"
  by (auto simp: file_homeservers_def split: option.split)

lemma load_file_hoare:
  "hoare (\<lambda>s. has_files fs s \<and> fst ` set (fst acc) = file_homeservers ye fs ps) (load_file ye p acc)
     (\<lambda>acc' s. has_files fs s \<and> fst ` set (fst acc') = file_homeservers ye fs (ps @ [p])) any_err"
proof -
  obtain pend cMap where acc: "acc = (pend, cMap)" by (cases acc)
  let ?done = "\<lambda>acc' s. has_files fs s \<and> fst ` set (fst acc') = file_homeservers ye fs (ps @ [p])"
  have keep: "?done (pend, m) s"
    if "has_files fs s" "fst ` set pend = file_homeservers ye fs ps" "names_homeserver ye fs p = None" for m s
    using that by (simp add: file_homeservers_snoc)
  have isfile: "hoare (\<lambda>s. has_files fs s \<and> fst ` set pend = file_homeservers ye fs ps)
     (bindE (read_file p) (\<lambda>buffer.
      bindE (lift_result (ye_Unmarshal ye buffer (\<lambda>_. None))) (\<lambda>testMap.
      case testMap ''homeserver'' of
        Some (JStr hs) \<Rightarrow> returnE (add_pending hs buffer pend, cMap)
      | _ \<Rightarrow> bindE (lift_result (ye_Unmarshal ye buffer cMap)) (\<lambda>cMap'. returnE (pend, cMap'))))) ?done any_err"
    (is "hoare ?pre (bindE _ (\<lambda>buffer. bindE _ (?next buffer))) _ _")
  proof (rule hoare_bind)
    show "hoare ?pre (read_file p) (\<lambda>b s. ?pre s \<and> fs p = Some (FsFile b)) any_err"
      by (rule hoare_weaken [OF hoare_frame [OF read_file_hoare [of fs p], of "fst ` set pend = file_homeservers ye fs ps"]]) auto
  next
    fix b
    show "hoare (\<lambda>s. ?pre s \<and> fs p = Some (FsFile b)) (bindE (lift_result (ye_Unmarshal ye b (\<lambda>_. None))) (?next b)) ?done any_err"
    proof (rule hoare_bind [OF lift_result_hoare])
      fix m
      let ?P = "\<lambda>s. (?pre s \<and> fs p = Some (FsFile b)) \<and> ye_Unmarshal ye b (\<lambda>_. None) = Inr m"
      have names: "names_homeserver ye fs p = json_str (m ''homeserver'')" if "?P s" for s
        using that by (simp add: names_homeserver_def)
      have other: "hoare ?P (bindE (lift_result (ye_Unmarshal ye b cMap)) (\<lambda>cMap'. returnE (pend, cMap'))) ?done any_err"
        if "json_str (m ''homeserver'') = None"
        by (rule hoare_bind [OF lift_result_hoare], rule hoare_return) (use that names keep in auto)
      show "hoare ?P (?next b m) ?done any_err"
      proof (cases "json_str (m ''homeserver'')")
        case None
        then show ?thesis using other by (auto split: option.split json.split)
      next
        case (Some hs)
        then have "m ''homeserver'' = Some (JStr hs)" by (cases "m ''homeserver''" rule: json_str.cases) auto
        moreover have "hoare ?P (returnE (add_pending hs b pend, cMap)) ?done any_err"
          by (rule hoare_return, frule names) (simp add: Some add_pending_keys file_homeservers_snoc)
        ultimately show ?thesis by simp
      qed
    qed
  qed
  show ?thesis unfolding acc load_file_def prod.case fst_conv
  proof (rule hoare_bind)
    show "hoare (\<lambda>s. has_files fs s \<and> fst ` set pend = file_homeservers ye fs ps) (os_Stat p)
        (\<lambda>n s. (has_files fs s \<and> fst ` set pend = file_homeservers ye fs ps) \<and> fs p = Some n) any_err"
      by (rule hoare_weaken [OF hoare_frame [OF os_Stat_hoare [of fs p], of "fst ` set pend = file_homeservers ye fs ps"]]) auto
    fix n
    show "hoare (\<lambda>s. (has_files fs s \<and> fst ` set pend = file_homeservers ye fs ps) \<and> fs p = Some n)
       (case n of FsDir _ \<Rightarrow> returnE (pend, cMap)
        | FsFile _ \<Rightarrow> bindE (read_file p) (\<lambda>buffer.
            bindE (lift_result (ye_Unmarshal ye buffer (\<lambda>_. None))) (\<lambda>testMap.
            case testMap ''homeserver'' of
              Some (JStr hs) \<Rightarrow> returnE (add_pending hs buffer pend, cMap)
            | _ \<Rightarrow> bindE (lift_result (ye_Unmarshal ye buffer cMap)) (\<lambda>cMap'. returnE (pend, cMap'))))) ?done any_err"
    proof (cases n)
      case (FsFile b)
      then show ?thesis using isfile by (auto elim: hoare_weaken)
    next
      case (FsDir es)
      show ?thesis unfolding FsDir fs_node.case
        by (rule hoare_return) (rule keep, simp_all add: names_homeserver_def)
    qed
  qed
qed

abbreviation keys_are :: "string set \<Rightarrow> (string \<times> 'a) list \<Rightarrow> bool" where
  "keys_are K al \<equiv> fst ` set al = K \<and> distinct (map fst al)"

lemma keys_are_update: "keys_are K al \<Longrightarrow> keys_are (insert k K) (AList.update k v al)"
  by (simp add: update_keys_set distinct_update)

lemma listed_domain_hoare:
  "hoare (\<lambda>s. has_files fs s \<and> keys_are K dMaps) (listed_domain ye c d dMaps)
     (\<lambda>dMaps' s. has_files fs s \<and> keys_are (insert (hs_Name d) K) dMaps') any_err"
  unfolding listed_domain_def Let_def
  by (rule hoare_bind [OF lift_result_hoare], rule hoare_return) (simp add: keys_are_update)

lemma overlay_hoare:
  assumes "hs \<in> K"
  shows "hoare (\<lambda>s. has_files fs s \<and> keys_are K dMaps) (overlay ye hs b dMaps)
     (\<lambda>dMaps' s. has_files fs s \<and> keys_are K dMaps') any_err"
  unfolding overlay_def Let_def
  by (rule hoare_bind [OF lift_result_hoare], rule hoare_return)
     (use assms in \<open>simp add: update_keys_set distinct_update insert_absorb\<close>)

lemma pending_domain_hoare:
  "hoare (\<lambda>s. has_files fs s \<and> keys_are K dMaps) (pending_domain ye c (hs, bs) dMaps)
     (\<lambda>dMaps' s. has_files fs s \<and> keys_are (insert hs K) dMaps') any_err"
  unfolding pending_domain_def prod.case Let_def
proof (rule hoare_bind)
  fix dMaps'
  show "hoare (\<lambda>s. has_files fs s \<and> keys_are (insert hs K) dMaps') (foldE (overlay ye hs) bs dMaps')
      (\<lambda>dMaps' s. has_files fs s \<and> keys_are (insert hs K) dMaps') any_err"
    by (rule hoare_fold [where J = "\<lambda>dMaps s. has_files fs s \<and> keys_are (insert hs K) dMaps"]) (rule overlay_hoare, simp)
next
  let ?new = "bindE (lift_result (ye_fromDomain ye ((DomainConfigFrom c)
      \<lparr>Homeserver := (Homeserver (DomainConfigFrom c))\<lparr>hs_Name := hs\<rparr>\<rparr>))) (\<lambda>m. returnE (AList.update hs m dMaps))"
  have new: "hoare (\<lambda>s. has_files fs s \<and> keys_are K dMaps) ?new (\<lambda>dMaps' s. has_files fs s \<and> keys_are (insert hs K) dMaps') any_err"
    by (rule hoare_bind [OF lift_result_hoare], rule hoare_return) (simp add: keys_are_update)
  show "hoare (\<lambda>s. has_files fs s \<and> keys_are K dMaps)
     (case map_of dMaps hs of Some _ \<Rightarrow> returnE dMaps | None \<Rightarrow> ?new)
     (\<lambda>dMaps' s. has_files fs s \<and> keys_are (insert hs K) dMaps') any_err"
  proof (cases "map_of dMaps hs")
    case None
    then show ?thesis using new by simp
  next
    case (Some m)
    then have "hs \<in> fst ` set dMaps" by (metis domI dom_map_of_conv_image_fst)
    then show ?thesis using Some by (auto intro!: hoare_return)
  qed
qed

lemma domains_wf_update:
  assumes "domains_wf ds" "hs_Name (Homeserver d) = k"
  shows "domains_wf (AList.update k d ds)"
proof -
  have "list_all (\<lambda>(k, d). hs_Name (Homeserver d) = k) (AList.update k d ds)"
    if "list_all (\<lambda>(k, d). hs_Name (Homeserver d) = k) ds" for ds
    using that assms(2) by (induction ds) auto
  with assms(1) show ?thesis by (simp add: domains_wf_def distinct_update)
qed

lemma finish_domain_hoare:
  "hoare (\<lambda>s. domains_wf ds \<and> fst ` set ds = K) (finish_domain ye (hs, m) ds)
     (\<lambda>ds' s. domains_wf ds' \<and> fst ` set ds' = insert hs K) any_err"
  unfolding finish_domain_def prod.case
  by (rule hoare_bind [OF lift_result_hoare], rule hoare_return) (simp add: domains_wf_update update_keys_set)

lemma finish_domains_hoare:
  "hoare (\<lambda>s. A) (foldE (finish_domain ye) dMaps []) (\<lambda>ds s. A \<and> domains_wf ds \<and> fst ` set ds = fst ` set dMaps) any_err"
proof -
  have "hoare (\<lambda>s. domains_wf [] \<and> fst ` set ([] :: domains) = fst ` set (take 0 dMaps)) (foldE (finish_domain ye) dMaps [])
      (\<lambda>ds s. domains_wf ds \<and> fst ` set ds = fst ` set dMaps) any_err"
    using hoare_fold_prefix [where J = "\<lambda>done ds s. domains_wf ds \<and> fst ` set ds = fst ` set done" and xs = dMaps
        and f = "finish_domain ye" and E = any_err and a = "[]"] finish_domain_hoare by auto
  then have "hoare (\<lambda>s. True) (foldE (finish_domain ye) dMaps []) (\<lambda>ds s. domains_wf ds \<and> fst ` set ds = fst ` set dMaps) any_err"
    by (simp add: domains_wf_def)
  from hoare_frame [OF this, of A] show ?thesis by (auto elim: hoare_weaken)
qed

definition loaded_ok :: "yaml_externals \<Rightarrow> string \<Rightarrow> (string \<Rightarrow> fs_node option) \<Rightarrow> MainRepoConfig \<times> domains \<Rightarrow> bool" where
  "loaded_ok ye path fs r \<longleftrightarrow> domains_wf (snd r) \<and>
     fst ` set (snd r) = hs_Name ` set (Homeservers (fst r)) \<union> file_homeservers ye fs (config_files fs path)"

lemma file_homeservers_cong: "set ps = set ps' \<Longrightarrow> file_homeservers ye fs ps = file_homeservers ye fs ps'"
  by (simp add: file_homeservers_def)

lemma load_files_hoare:
  "hoare (has_files fs) (foldE (load_file ye) ps ([], \<lambda>_. None))
     (\<lambda>acc s. has_files fs s \<and> fst ` set (fst acc) = file_homeservers ye fs ps) any_err"
proof -
  have "hoare (\<lambda>s. has_files fs s \<and> fst ` set (fst ([] :: pending, (\<lambda>_. None) :: ymap)) = file_homeservers ye fs [])
      (foldE (load_file ye) ps ([], \<lambda>_. None))
      (\<lambda>acc s. has_files fs s \<and> fst ` set (fst acc) = file_homeservers ye fs ps) any_err"
    by (rule hoare_fold_prefix [where J = "\<lambda>ps acc s. has_files fs s \<and> fst ` set (fst acc) = file_homeservers ye fs ps"])
       (rule load_file_hoare)
  then show ?thesis by (simp add: file_homeservers_def)
qed

lemma listed_domains_hoare:
  "hoare (has_files fs) (foldE (listed_domain ye c) hss [])
     (\<lambda>dMaps s. has_files fs s \<and> keys_are (hs_Name ` set hss) dMaps) any_err"
proof -
  have "hoare (\<lambda>s. has_files fs s \<and> keys_are (hs_Name ` set ([] :: HomeserverConfig list)) ([] :: (string \<times> ymap) list))
      (foldE (listed_domain ye c) hss [])
      (\<lambda>dMaps s. has_files fs s \<and> keys_are (hs_Name ` set hss) dMaps) any_err"
    by (rule hoare_fold_prefix [where J = "\<lambda>hss dMaps s. has_files fs s \<and> keys_are (hs_Name ` set hss) dMaps"])
       (use listed_domain_hoare in simp)
  then show ?thesis by simp
qed

lemma pending_domains_hoare:
  "hoare (\<lambda>s. has_files fs s \<and> keys_are K dMaps) (foldE (pending_domain ye c) ps dMaps)
     (\<lambda>dMaps' s. has_files fs s \<and> keys_are (K \<union> fst ` set ps) dMaps') any_err"
proof -
  have "hoare (\<lambda>s. has_files fs s \<and> keys_are (K \<union> fst ` set ([] :: pending)) dMaps) (foldE (pending_domain ye c) ps dMaps)
      (\<lambda>dMaps' s. has_files fs s \<and> keys_are (K \<union> fst ` set ps) dMaps') any_err"
  proof (rule hoare_fold_prefix [where J = "\<lambda>ps dMaps s. has_files fs s \<and> keys_are (K \<union> fst ` set ps) dMaps"])
    fix xs1 xs2 :: pending and x dMaps
    show "hoare (\<lambda>s. has_files fs s \<and> keys_are (K \<union> fst ` set xs1) dMaps) (pending_domain ye c x dMaps)
        (\<lambda>dMaps' s. has_files fs s \<and> keys_are (K \<union> fst ` set (xs1 @ [x])) dMaps') any_err"
      using pending_domain_hoare [where fs = fs and K = "K \<union> fst ` set xs1" and dMaps = dMaps and ye = ye and c = c
          and hs = "fst x" and bs = "snd x"] by simp
  qed
  then show ?thesis by simp
qed

lemma build_hoare:
  "hoare (has_files fs)
     (bindE (foldE (listed_domain ye c) (Homeservers c) []) (\<lambda>dMaps.
      bindE (foldE (pending_domain ye c) pend dMaps) (\<lambda>dMaps'.
      bindE (foldE (finish_domain ye) dMaps' []) (\<lambda>domainConfs. returnE (c, domainConfs)))))
     (\<lambda>r s. domains_wf (snd r) \<and> fst r = c \<and> fst ` set (snd r) = hs_Name ` set (Homeservers c) \<union> fst ` set pend) any_err"
proof (rule hoare_bind [OF listed_domains_hoare], rule hoare_bind [OF pending_domains_hoare])
  fix dMaps dMaps' :: "(string \<times> ymap) list"
  let ?K = "hs_Name ` set (Homeservers c) \<union> fst ` set pend"
  show "hoare (\<lambda>s. has_files fs s \<and> keys_are ?K dMaps')
      (bindE (foldE (finish_domain ye) dMaps' []) (\<lambda>domainConfs. returnE (c, domainConfs)))
      (\<lambda>r s. domains_wf (snd r) \<and> fst r = c \<and> fst ` set (snd r) = ?K) any_err"
  proof (rule hoare_bind)
    show "hoare (\<lambda>s. has_files fs s \<and> keys_are ?K dMaps') (foldE (finish_domain ye) dMaps' [])
        (\<lambda>ds s. keys_are ?K dMaps' \<and> domains_wf ds \<and> fst ` set ds = fst ` set dMaps') any_err"
      using finish_domains_hoare [of "keys_are ?K dMaps'" ye dMaps'] by (auto elim: hoare_weaken)
    fix ds
    show "hoare (\<lambda>s. keys_are ?K dMaps' \<and> domains_wf ds \<and> fst ` set ds = fst ` set dMaps') (returnE (c, ds))
        (\<lambda>r s. domains_wf (snd r) \<and> fst r = c \<and> fst ` set (snd r) = ?K) any_err"
      by (rule hoare_return) simp
  qed
qed

lemma load_hoare:
  "hoare (has_files fs)
     (bindE (config_paths path) (\<lambda>pathsOrdered.
      bindE (foldE (load_file ye) pathsOrdered ([], \<lambda>_. None)) (\<lambda>(pendingDomainConfigs, cMap).
      bindE (lift_result (ye_toMain ye cMap NewDefaultMainConfig)) (\<lambda>c.
      bindE (foldE (listed_domain ye c) (Homeservers c) []) (\<lambda>dMaps.
      bindE (foldE (pending_domain ye c) pendingDomainConfigs dMaps) (\<lambda>dMaps'.
      bindE (foldE (finish_domain ye) dMaps' []) (\<lambda>domainConfs. returnE (c, domainConfs))))))))
     (\<lambda>r s. loaded_ok ye path fs r) any_err"
proof (rule hoare_bind [OF config_paths_hoare])
  fix ps
  show "hoare (\<lambda>s. has_files fs s \<and> set ps = set (config_files fs path))
     (bindE (foldE (load_file ye) ps ([], \<lambda>_. None)) (\<lambda>(pendingDomainConfigs, cMap).
      bindE (lift_result (ye_toMain ye cMap NewDefaultMainConfig)) (\<lambda>c.
      bindE (foldE (listed_domain ye c) (Homeservers c) []) (\<lambda>dMaps.
      bindE (foldE (pending_domain ye c) pendingDomainConfigs dMaps) (\<lambda>dMaps'.
      bindE (foldE (finish_domain ye) dMaps' []) (\<lambda>domainConfs. returnE (c, domainConfs)))))))
     (\<lambda>r s. loaded_ok ye path fs r) any_err"
  proof (rule hoare_pure, rule hoare_bind [OF load_files_hoare], unfold split_paired_all prod.case fst_conv)
    fix pend :: pending and cMap
    assume ps: "set ps = set (config_files fs path)"
    show "hoare (\<lambda>s. has_files fs s \<and> fst ` set pend = file_homeservers ye fs ps)
       (bindE (lift_result (ye_toMain ye cMap NewDefaultMainConfig)) (\<lambda>c.
        bindE (foldE (listed_domain ye c) (Homeservers c) []) (\<lambda>dMaps.
        bindE (foldE (pending_domain ye c) pend dMaps) (\<lambda>dMaps'.
        bindE (foldE (finish_domain ye) dMaps' []) (\<lambda>domainConfs. returnE (c, domainConfs))))))
       (\<lambda>r s. loaded_ok ye path fs r) any_err"
    proof (rule hoare_bind [OF lift_result_hoare])
      fix c
      have eq: "file_homeservers ye fs ps = file_homeservers ye fs (config_files fs path)"
        using ps by (rule file_homeservers_cong)
      show "hoare (\<lambda>s. (has_files fs s \<and> fst ` set pend = file_homeservers ye fs ps) \<and>
            ye_toMain ye cMap NewDefaultMainConfig = Inr c)
         (bindE (foldE (listed_domain ye c) (Homeservers c) []) (\<lambda>dMaps.
          bindE (foldE (pending_domain ye c) pend dMaps) (\<lambda>dMaps'.
          bindE (foldE (finish_domain ye) dMaps' []) (\<lambda>domainConfs. returnE (c, domainConfs)))))
         (\<lambda>r s. loaded_ok ye path fs r) any_err"
        by (rule hoare_weaken [OF hoare_frame [OF build_hoare [of fs ye c pend],
              of "fst ` set pend = file_homeservers ye fs ps"]]) (auto simp: loaded_ok_def eq)
    qed
  qed
qed

subsection \<open>What loading leaves alone\<close>

abbreviation conf_is :: "MainRepoConfig option \<Rightarrow> domains \<Rightarrow> reload_chan list \<Rightarrow> world \<times> conf_state \<Rightarrow> bool" where
  "conf_is i ds l s \<equiv> cs_instance (snd s) = i \<and> cs_domains (snd s) = ds \<and> cs_sent (snd s) = l"

lemma conf_preserves_on_world [intro]: "preserves (\<lambda>s. P (snd s)) (on_world m)"
  by (rule preservesI) (auto simp: on_world_def split: prod.split)

declare preserves_lift_result [intro]

lemma conf_preserves_getsS [intro]: "preserves I (getsS f)"
  by (simp add: getsS_def preserves_gets)

text \<open>Every step of loading but the generation of a file leaves the whole state of the package alone.\<close>

lemma preserves_os_Stat: "preserves (\<lambda>s. P (snd s)) (os_Stat p)"
  unfolding os_Stat_def by (intro preserves_bind conf_preserves_getsS conf_preserves_on_world)

lemma preserves_config_paths: "preserves (\<lambda>s. P (snd s)) (config_paths path)"
  unfolding config_paths_def
  by (rule preserves_bind [OF preserves_os_Stat]) (auto split: fs_node.split intro!: preserves_then)

lemma preserves_load_file: "preserves (\<lambda>s. P (snd s)) (load_file ye p acc)"
proof -
  have rd: "preserves (\<lambda>s. P (snd s)) (read_file p)"
    unfolding read_file_def by (rule preserves_bind [OF preserves_os_Stat]) (auto split: fs_node.split)
  have parse: "preserves (\<lambda>s. P (snd s)) (bindE (lift_result r) (\<lambda>m. returnE (pend, m)))" for r :: "goerr + ymap" and pend :: pending
    by (intro preserves_bind preserves_lift_result preserves_return)
  show ?thesis
    unfolding load_file_def
    by (cases acc, simp only: prod.case, rule preserves_bind [OF preserves_os_Stat])
       (auto split: fs_node.split option.split json.split intro!: preserves_bind rd parse)
qed

lemma preserves_build:
  "preserves I (listed_domain ye c d dMaps)" "preserves I (pending_domain ye c q dMaps)" "preserves I (finish_domain ye e ds)"
  unfolding listed_domain_def pending_domain_def finish_domain_def overlay_def Let_def
  by (auto split: option.split prod.split intro!: preserves_bind preserves_fold)

lemma preserves_load:
  "preserves (\<lambda>s. P (snd s))
     (bindE (config_paths path) (\<lambda>pathsOrdered.
      bindE (foldE (load_file ye) pathsOrdered ([], \<lambda>_. None)) (\<lambda>(pendingDomainConfigs, cMap).
      bindE (lift_result (ye_toMain ye cMap NewDefaultMainConfig)) (\<lambda>c.
      bindE (foldE (listed_domain ye c) (Homeservers c) []) (\<lambda>dMaps.
      bindE (foldE (pending_domain ye c) pendingDomainConfigs dMaps) (\<lambda>dMaps'.
      bindE (foldE (finish_domain ye) dMaps' []) (\<lambda>domainConfs. returnE (c, domainConfs))))))))"
  by (rule preserves_bind [OF preserves_config_paths], rule preserves_bind [OF preserves_fold [OF preserves_load_file]],
      simp only: split_paired_all prod.case)
     (intro preserves_bind preserves_fold preserves_build preserves_lift_result preserves_return)

lemma reloadConfig_keeps: "preserves (conf_is i ds l) (reloadConfig ye path)"
proof -
  have "preserves (conf_is i ds l) (modifyS (cs_files_update f))" for f
    unfolding modifyS_def by (rule preserves_modify) auto
  then have "preserves (conf_is i ds l) (generate_config ye path)"
    unfolding generate_config_def
    by (intro preserves_bind preserves_try preserves_when preserves_then preserves_lift_result
          preserves_os_Stat [where P = "\<lambda>cs. cs_instance cs = i \<and> cs_domains cs = ds \<and> cs_sent cs = l"]
          conf_preserves_on_world [where P = "\<lambda>cs. cs_instance cs = i \<and> cs_domains cs = ds \<and> cs_sent cs = l"])
  then show ?thesis
    unfolding reloadConfig_def
    by (rule preserves_then) (rule preserves_load [where P = "\<lambda>cs. cs_instance cs = i \<and> cs_domains cs = ds \<and> cs_sent cs = l"])
qed

lemma reloadConfig_loads:
  assumes "reloadConfig ye path s = (Inr r, s')"
  shows "loaded_ok ye path (cs_files (snd s')) r"
proof -
  obtain s1 where g: "generate_config ye path s = (Inr (), s1)"
    and l: "(bindE (config_paths path) (\<lambda>pathsOrdered.
      bindE (foldE (load_file ye) pathsOrdered ([], \<lambda>_. None)) (\<lambda>(pendingDomainConfigs, cMap).
      bindE (lift_result (ye_toMain ye cMap NewDefaultMainConfig)) (\<lambda>c.
      bindE (foldE (listed_domain ye c) (Homeservers c) []) (\<lambda>dMaps.
      bindE (foldE (pending_domain ye c) pendingDomainConfigs dMaps) (\<lambda>dMaps'.
      bindE (foldE (finish_domain ye) dMaps' []) (\<lambda>domainConfs. returnE (c, domainConfs)))))))) s1 = (Inr r, s')"
    (is "?load s1 = _")
    using assms unfolding reloadConfig_def thenE_def bindE_def [of "generate_config ye path"]
    by (auto split: prod.splits sum.splits)
  have "loaded_ok ye path (cs_files (snd s1)) r"
    using hoareD_Inr [OF load_hoare [of "cs_files (snd s1)" path ye] _ l] by simp
  moreover have "cs_files (snd s') = cs_files (snd s1)"
    using preservesD' [OF preserves_load [of "\<lambda>cs. cs_files cs = cs_files (snd s1)" path ye] _ l] by simp
  ultimately show ?thesis by simp
qed

section \<open>A change of the files\<close>

text \<open>
  What a change must ask for, as a table of the channels with the condition of each, over the
  settings themselves: eight reloads always, the metrics and the submission of profiles when
  anything of their section differs, the web server for four of the general settings, the
  database for its address and pool, and the cache for everything but the database number, the
  shards being compared as \<open>hasRedisShardConfigChanged\<close> does it: by number, and by whether one of
  the old ones is gone.
\<close>

definition change_messages :: "MainRepoConfig \<Rightarrow> MainRepoConfig \<Rightarrow> reload_chan list" where
  "change_messages new cur = map fst (filter snd
     [(PoolReloadChan, True), (ErrorCacheReloadChan, True), (MatrixCachesReloadChan, True),
      (WebReloadChan,
        (gen_BindAddress (General new), gen_Port (General new), gen_TrustAnyForward (General new), gen_UseForwardedHost (General new)) \<noteq>
        (gen_BindAddress (General cur), gen_Port (General cur), gen_TrustAnyForward (General cur), gen_UseForwardedHost (General cur))),
      (MetricsReloadChan, Metrics new \<noteq> Metrics cur),
      (DatabaseReloadChan, DatabaseCfg new \<noteq> DatabaseCfg cur),
      (CacheReplaceChan,
        (redis_Enabled (Redis new), redis_Password (Redis new), length (redis_Shards (Redis new))) \<noteq>
        (redis_Enabled (Redis cur), redis_Password (Redis cur), length (redis_Shards (Redis cur))) \<or>
        \<not> set (redis_Shards (Redis cur)) \<subseteq> set (redis_Shards (Redis new))),
      (BucketsReloadChan, True), (AccessTokenReloadChan, True), (DatastoresReloadChan, True),
      (PluginReloadChan, True), (RecurringTasksReloadChan, True), (PGOReloadChan, PGO new \<noteq> PGO cur)])"

text \<open>The comparisons of the code, in these terms.\<close>

lemma web_changed_iff: "web_changed new cur \<longleftrightarrow>
    (gen_BindAddress (General new), gen_Port (General new), gen_TrustAnyForward (General new), gen_UseForwardedHost (General new)) \<noteq>
    (gen_BindAddress (General cur), gen_Port (General cur), gen_TrustAnyForward (General cur), gen_UseForwardedHost (General cur))"
  by (auto simp: web_changed_def)

lemma metrics_changed_iff: "metrics_changed new cur \<longleftrightarrow> Metrics new \<noteq> Metrics cur"
  by (cases "Metrics new"; cases "Metrics cur") (auto simp: metrics_changed_def)

lemma shards_kept:
  fixes ss ts :: "RedisShardConfig list"
  shows "(\<forall>s1 \<in> set ss. \<exists>s2 \<in> set ts. shard_Name s1 = shard_Name s2 \<and> shard_Address s1 = shard_Address s2) \<longleftrightarrow> set ss \<subseteq> set ts"
  (is "?kept \<longleftrightarrow> _")
proof
  assume kept: ?kept
  show "set ss \<subseteq> set ts"
  proof
    fix s1 assume "s1 \<in> set ss"
    with kept obtain s2 where "s2 \<in> set ts" "shard_Name s1 = shard_Name s2" "shard_Address s1 = shard_Address s2" by blast
    moreover from this(2,3) have "s1 = s2" by (intro RedisShardConfig.equality) simp_all
    ultimately show "s1 \<in> set ts" by simp
  qed
qed auto

lemma redis_changed_iff: "redis_changed new cur \<longleftrightarrow>
    (redis_Enabled (Redis new), redis_Password (Redis new), length (redis_Shards (Redis new))) \<noteq>
    (redis_Enabled (Redis cur), redis_Password (Redis cur), length (redis_Shards (Redis cur))) \<or>
    \<not> set (redis_Shards (Redis cur)) \<subseteq> set (redis_Shards (Redis new))"
  using shards_kept [of "redis_Shards (Redis cur)" "redis_Shards (Redis new)"]
  by (auto simp: redis_changed_def hasRedisShardConfigChanged_def Let_def list_ex_iff)

lemmas settings_changed_iff = web_changed_iff metrics_changed_iff redis_changed_iff

definition add_sent :: "reload_chan list \<Rightarrow> world \<times> conf_state \<Rightarrow> world \<times> conf_state" where
  "add_sent chs s = (fst s, (snd s)\<lparr>cs_sent := cs_sent (snd s) @ chs\<rparr>)"

lemma add_sent_add [simp]: "add_sent chs' (add_sent chs s) = add_sent (chs @ chs') s"
  by (simp add: add_sent_def)

lemma send_reload_run: "send_reload ch s = (Inr (), add_sent [ch] s)"
  by (cases s) (simp add: send_reload_def add_sent_def)

lemma send_when_run: "whenE b (send_reload ch) s = (Inr (), add_sent (if b then [ch] else []) s)"
  by (cases s) (simp add: whenE_def send_reload_run returnE_def add_sent_def)

lemma send_each_run: "foreachE send_reload chs s = (Inr (), add_sent chs s)"
proof (induction chs arbitrary: s)
  case Nil
  then show ?case by (simp add: returnE_def add_sent_def)
qed (simp add: thenE_def bindE_def send_reload_run)

lemma then_run: "m s = (Inr x, s') \<Longrightarrow> thenE m n s = n s'"
  by (simp add: thenE_def bindE_def)

lemma db_eq_iff:
  fixes d d' :: DatabaseConfig
  assumes "db_Pool d = Some p" "db_Pool d' = Some p'"
  shows "d \<noteq> d' \<longleftrightarrow> db_Postgres d \<noteq> db_Postgres d' \<or> pool_MaxConnections p \<noteq> pool_MaxConnections p' \<or> pool_MaxIdle p \<noteq> pool_MaxIdle p'"
  using assms by (cases d; cases d'; cases p; cases p') auto

lemma pgo_changed_iff: "pgo_changed new cur \<longleftrightarrow> PGO new \<noteq> PGO cur"
  by (cases "PGO new"; cases "PGO cur") (auto simp: pgo_changed_def)

lemma send_changes_run:
  "send_changes new cur s =
     (if db_Pool (DatabaseCfg new) = None \<or> db_Pool (DatabaseCfg cur) = None
      then (Inl (Panic ''invalid memory address or nil pointer dereference''),
        add_sent (takeWhile (\<lambda>ch. ch \<notin> {DatabaseReloadChan, CacheReplaceChan, BucketsReloadChan}) (change_messages new cur)) s)
      else (Inr (), add_sent (change_messages new cur) s))"
proof -
  define s1 where "s1 = add_sent ([PoolReloadChan, ErrorCacheReloadChan, MatrixCachesReloadChan] @
      (if web_changed new cur then [WebReloadChan] else []) @ (if metrics_changed new cur then [MetricsReloadChan] else [])) s"
  define tail where "tail = thenE (whenE (redis_changed new cur) (send_reload CacheReplaceChan))
    (thenE (foreachE send_reload [BucketsReloadChan, AccessTokenReloadChan, DatastoresReloadChan, PluginReloadChan,
              RecurringTasksReloadChan])
       (whenE (pgo_changed new cur) (send_reload PGOReloadChan)))"
  have 1: "send_changes new cur s = thenE (bindE (database_changed new cur) (\<lambda>b. whenE b (send_reload DatabaseReloadChan))) tail s1"
    by (simp only: send_changes_def then_run [OF send_each_run] then_run [OF send_when_run] s1_def add_sent_add append_assoc tail_def)
  have tl: "tail s2 = (Inr (), add_sent ((if redis_changed new cur then [CacheReplaceChan] else []) @
      [BucketsReloadChan, AccessTokenReloadChan, DatastoresReloadChan, PluginReloadChan, RecurringTasksReloadChan] @
      (if pgo_changed new cur then [PGOReloadChan] else [])) s2)" for s2
    by (simp only: then_run [OF send_each_run] then_run [OF send_when_run] send_when_run add_sent_add append_assoc tail_def)
  show ?thesis
  proof (cases "db_Pool (DatabaseCfg new) = None \<or> db_Pool (DatabaseCfg cur) = None")
    case True
    then have "database_changed new cur s1 = (Inl (Panic ''invalid memory address or nil pointer dereference''), s1)"
      by (auto simp: database_changed_def db_pool_def bindE_def throwE_def returnE_def split: option.split)
    then show ?thesis using True by (auto simp: 1 s1_def thenE_def bindE_def change_messages_def settings_changed_iff)
  next
    case False
    then obtain p p' where p: "db_Pool (DatabaseCfg new) = Some p" "db_Pool (DatabaseCfg cur) = Some p'" by auto
    then have "database_changed new cur s1 = (Inr (DatabaseCfg new \<noteq> DatabaseCfg cur), s1)"
      by (simp add: database_changed_def db_pool_def bindE_def returnE_def db_eq_iff [OF p])
    then have "send_changes new cur s = tail (add_sent (if DatabaseCfg new \<noteq> DatabaseCfg cur then [DatabaseReloadChan] else []) s1)"
      by (simp add: 1 thenE_def bindE_def send_when_run)
    then show ?thesis using False by (simp add: tl s1_def change_messages_def pgo_changed_iff settings_changed_iff)
  qed
qed

text \<open>
  C38: When the files change and cannot be loaded, the configuration in use, its domains and the
  goroutines are left alone.  When they can, the new configuration is used with a table of domains that
  has each name once, each under its own name, and exactly the names that the main configuration lists or that
  a file is for; and the goroutines are asked, in a fixed order, for the eight reloads that every change asks
  for and for those of the web server, the metrics, the database, the cache and the profiles whose
  settings differ, as \<open>change_messages\<close> lists them.  A change of the database number of Redis alone
  asks for nothing of the cache.  When either configuration has no pool settings for the database,
  the process crashes halfway: only the reloads before the database's were asked for.
\<close>

theorem config_change:
  assumes "cs_instance (snd s) = Some cur"
  shows "case reloadConfig ye path s of
      (Inl e, s1) \<Rightarrow> onFileChanged ye path s = (if is_panic e then Inl e else Inr (), s1) \<and>
        cs_instance (snd s1) = Some cur \<and> cs_domains (snd s1) = cs_domains (snd s) \<and> cs_sent (snd s1) = cs_sent (snd s)
    | (Inr (new, ds), s1) \<Rightarrow>
        domains_wf ds \<and>
        set (map fst ds) = hs_Name ` set (Homeservers new) \<union>
          file_homeservers ye (cs_files (snd s1)) (config_files (cs_files (snd s1)) path) \<and>
        (case onFileChanged ye path s of (r, s2) \<Rightarrow>
           cs_instance (snd s2) = Some new \<and> cs_domains (snd s2) = ds \<and>
           (if db_Pool (DatabaseCfg new) = None \<or> db_Pool (DatabaseCfg cur) = None
            then (\<exists>p. r = Inl (Panic p)) \<and> cs_sent (snd s2) = cs_sent (snd s) @
              takeWhile (\<lambda>ch. ch \<notin> {DatabaseReloadChan, CacheReplaceChan, BucketsReloadChan}) (change_messages new cur)
            else r = Inr () \<and> cs_sent (snd s2) = cs_sent (snd s) @ change_messages new cur))"
proof -
  obtain w cs where s: "s = (w, cs)" by (cases s)
  have get: "config_Get ye path s = (Inr cur, s)"
    using assms by (simp add: s config_Get_def bindE_def returnE_def)
  obtain r w1 cs1 where l: "reloadConfig ye path s = (r, (w1, cs1))" by (metis surj_pair)
  have keep: "conf_is (Some cur) (cs_domains cs) (cs_sent cs) (w1, cs1)"
    using preservesD' [OF reloadConfig_keeps _ l] assms by (simp add: s)
  show ?thesis
  proof (cases r)
    case (Inl e)
    then show ?thesis using l keep get by (auto simp: s onFileChanged_def bindE_def tryE_def returnE_def)
  next
    case (Inr x)
    obtain new ds where x: "x = (new, ds)" by (cases x)
    have ok: "loaded_ok ye path (cs_files cs1) (new, ds)" using reloadConfig_loads l Inr x by fastforce
    have ch: "onFileChanged ye path s = send_changes new cur (w1, cs1\<lparr>cs_instance := Some new, cs_domains := ds\<rparr>)"
      using l get Inr x by (simp add: onFileChanged_def bindE_def tryE_def thenE_def s)
    show ?thesis using ok keep l Inr x ch by (simp add: loaded_ok_def send_changes_run add_sent_def s)
  qed
qed

text \<open>A directory with an empty file and one for a homeserver; the configuration in use had another port.\<close>

definition demo_ye :: yaml_externals where
  "demo_ye = \<lparr>ye_default = Inr [], ye_Unmarshal = (\<lambda>b m. Inr (if b = [] then m else m(''homeserver'' \<mapsto> JStr b))),
     ye_toMain = (\<lambda>m c. Inr c), ye_fromDomain = (\<lambda>d. Inr (\<lambda>_. None)), ye_toDomain = (\<lambda>m d. Inr d)\<rparr>"

definition demo_conf :: conf_state where
  "demo_conf = \<lparr>cs_files = [''c'' \<mapsto> FsDir [(''b'', False), (''a'', False), (''d'', True)], ''c/a'' \<mapsto> FsFile [],
       ''c/b'' \<mapsto> FsFile ''hs''],
     cs_instance = Some (NewDefaultMainConfig\<lparr>General := (General NewDefaultMainConfig)\<lparr>gen_Port := 1\<rparr>\<rparr>),
     cs_domains = [], cs_sent = []\<rparr>"

lemma bind_run: "m s = (Inr x, s') \<Longrightarrow> bindE m f s = f x s'"
  by (simp add: bindE_def)

lemma demo_paths: "path_Join ''c'' ''a'' = ''c/a''" "path_Join ''c'' ''b'' = ''c/b''"
  by (simp_all add: path_Join_def path_Clean_def clean_step_def HasPrefix_def Let_def)

lemma demo_stat: "os_Stat p (empty_world, cs) = (case cs_files cs p of None \<Rightarrow> Inl ErrNotExist | Some n \<Rightarrow> Inr n, (empty_world, cs))"
  by (simp add: os_Stat_def bindE_def on_world_run ext_def empty_world_def lift_result_def throwE_def returnE_def split: option.split)

lemma demo_reload:
  "\<exists>d. reloadConfig demo_ye ''c'' (empty_world, demo_conf) = (Inr (NewDefaultMainConfig, [(''hs'', d)]), (empty_world, demo_conf))"
proof -
  have ext_ok: "on_world (ext (returnE x)) (empty_world, cs) = (Inr x, (empty_world, cs))" for x :: 'a and cs :: conf_state
    by (simp add: on_world_run ext_def empty_world_def returnE_def)
  have sorted: "sort [''c/b'', ''c/a''] = [''c/a'', ''c/b'']" by code_simp
  have gen: "generate_config demo_ye ''c'' (empty_world, demo_conf) = (Inr (), (empty_world, demo_conf))"
    by (simp add: generate_config_def bindE_def tryE_def demo_stat whenE_def returnE_def demo_conf_def)
  have paths: "config_paths ''c'' (empty_world, demo_conf) = (Inr [''c/a'', ''c/b''], (empty_world, demo_conf))"
    by (simp add: config_paths_def bindE_def thenE_def demo_stat ext_ok demo_paths sorted demo_conf_def) (simp add: returnE_def)
  have homes: "Homeservers NewDefaultMainConfig = []" by (simp add: NewDefaultMainConfig_def MainRepoConfig.defs MinimumRepoConfig.defs)
  have bind_ret: "bindE (lift_result (Inr x)) f = f x" for x :: 'x and f :: "'x \<Rightarrow> ('s, 'y) io"
    by (rule HOL.ext) (simp add: bindE_def lift_result_def returnE_def)
  have rd: "read_file ''c/a'' (empty_world, demo_conf) = (Inr [], (empty_world, demo_conf))"
    "read_file ''c/b'' (empty_world, demo_conf) = (Inr ''hs'', (empty_world, demo_conf))"
    by (simp_all add: read_file_def bindE_def demo_stat ext_ok demo_conf_def)
  have stat: "os_Stat ''c/a'' (empty_world, demo_conf) = (Inr (FsFile []), (empty_world, demo_conf))"
    "os_Stat ''c/b'' (empty_world, demo_conf) = (Inr (FsFile ''hs''), (empty_world, demo_conf))"
    by (simp_all add: demo_stat demo_conf_def)
  have ye: "ye_Unmarshal demo_ye b m = Inr (if b = [] then m else m(''homeserver'' \<mapsto> JStr b))" for b m
    by (simp add: demo_ye_def)
  have "load_file demo_ye ''c/a'' ([], \<lambda>_. None) (empty_world, demo_conf) = (Inr ([], \<lambda>_. None), (empty_world, demo_conf))"
    unfolding load_file_def prod.case bindE_def [of "os_Stat _"] bindE_def [of "read_file _"]
    by (simp add: stat rd ye bind_ret) (simp add: returnE_def)
  moreover have "load_file demo_ye ''c/b'' ([], \<lambda>_. None) (empty_world, demo_conf) =
      (Inr ([(''hs'', [''hs''])], \<lambda>_. None), (empty_world, demo_conf))"
    unfolding load_file_def prod.case bindE_def [of "os_Stat _"] bindE_def [of "read_file _"]
    by (simp add: stat rd ye bind_ret add_pending_def) (simp add: returnE_def)
  ultimately have load: "foldE (load_file demo_ye) [''c/a'', ''c/b''] ([], \<lambda>_. None) (empty_world, demo_conf) =
      (Inr ([(''hs'', [''hs''])], \<lambda>_. None), (empty_world, demo_conf))"
    by (simp add: bindE_def returnE_def)
  show ?thesis
    unfolding reloadConfig_def then_run [where m = "generate_config demo_ye ''c''", OF gen]
      bind_run [where m = "config_paths ''c''", OF paths]
      bind_run [where m = "foldE (load_file demo_ye) [''c/a'', ''c/b''] ([], \<lambda>_. None)", OF load] prod.case
    by (simp add: demo_ye_def lift_result_def returnE_def bindE_def pending_domain_def overlay_def finish_domain_def homes)
qed

theorem config_change_witness:
  "\<exists>s2. onFileChanged demo_ye ''c'' (empty_world, demo_conf) = (Inr (), s2) \<and> set (map fst (cs_domains (snd s2))) = {''hs''} \<and>
     cs_sent (snd s2) = [PoolReloadChan, ErrorCacheReloadChan, MatrixCachesReloadChan, WebReloadChan, BucketsReloadChan,
       AccessTokenReloadChan, DatastoresReloadChan, PluginReloadChan, RecurringTasksReloadChan]"
proof -
  let ?cur = "NewDefaultMainConfig\<lparr>General := (General NewDefaultMainConfig)\<lparr>gen_Port := 1\<rparr>\<rparr>"
  obtain d where d: "reloadConfig demo_ye ''c'' (empty_world, demo_conf) =
      (Inr (NewDefaultMainConfig, [(''hs'', d)]), (empty_world, demo_conf))" using demo_reload by blast
  have msgs: "change_messages NewDefaultMainConfig ?cur = [PoolReloadChan, ErrorCacheReloadChan, MatrixCachesReloadChan,
      WebReloadChan, BucketsReloadChan, AccessTokenReloadChan, DatastoresReloadChan, PluginReloadChan, RecurringTasksReloadChan]"
    by (simp add: change_messages_def NewDefaultMainConfig_def MainRepoConfig.defs MinimumRepoConfig.defs)
  have pool: "db_Pool (DatabaseCfg NewDefaultMainConfig) \<noteq> None" "db_Pool (DatabaseCfg ?cur) \<noteq> None"
    by (simp_all add: NewDefaultMainConfig_def MainRepoConfig.defs MinimumRepoConfig.defs)
  have inst: "cs_instance (snd (empty_world, demo_conf)) = Some ?cur" by (simp add: demo_conf_def)
  obtain r s2 where run: "onFileChanged demo_ye ''c'' (empty_world, demo_conf) = (r, s2)" by (metis surj_pair)
  show ?thesis
    using config_change [where ye = demo_ye and path = "''c''", OF inst] pool
    by (simp add: d run msgs) (simp add: demo_conf_def)
qed

section \<open>Datastores at startup\<close>

lemma datastore_found_run:
  assumes "distinct (map fst m)"
  shows "distinct (map fst (foldl (\<lambda>m i. AList.update (f i) b m) m is)) \<and>
    map_of (foldl (\<lambda>m i. AList.update (f i) b m) m is) k = (if k \<in> f ` set is then Some b else map_of m k)"
  using assms by (induction "is" arbitrary: m) (auto simp: distinct_update update_conv')

lemma datastore_found_iff:
  "list_ex (\<lambda>(i, found). \<not> found) (datastore_found ids confs) \<longleftrightarrow> \<not> set ids \<subseteq> ds_Id ` set confs"
proof -
  let ?m1 = "foldl (\<lambda>m i. AList.update i False m) [] ids"
  have 1: "distinct (map fst ?m1)" "map_of ?m1 k = (if k \<in> set ids then Some False else None)" for k
    using datastore_found_run [of "[]" "\<lambda>i. i" False ids k] by simp_all
  note 2 = datastore_found_run [OF 1(1), of ds_Id True confs]
  have d: "distinct (map fst (datastore_found ids confs))" using 2 by (simp add: datastore_found_def)
  have "list_ex (\<lambda>(i, found). \<not> found) (datastore_found ids confs) \<longleftrightarrow> (\<exists>i. (i, False) \<in> set (datastore_found ids confs))"
    by (auto simp: list_ex_iff)
  also have "\<dots> \<longleftrightarrow> (\<exists>i. map_of (datastore_found ids confs) i = Some False)" using d by simp
  also have "\<dots> \<longleftrightarrow> \<not> set ids \<subseteq> ds_Id ` set confs"
    using 2 1(2) by (auto simp: datastore_found_def split: if_splits)
  finally show ?thesis .
qed

text \<open>Startup goes on exactly when every datastore that holds media is configured.\<close>

lemma LoadDatastores_iff:
  assumes "faults w = []" "cs_instance cs = Some c"
  shows "fst (LoadDatastores ye path (w, cs)) = Inr () \<longleftrightarrow>
    DatastoreId ` set (tbl_media w) \<subseteq> ds_Id ` set (UniqueDatastores c (cs_domains cs))"
proof -
  have q: "tryE (on_world media_GetDistinctDatastoreIds) (w, cs) = (Inr (Inr (remdups (map DatastoreId (tbl_media w)))), (w, cs))"
    using assms(1) by (simp add: tryE_def on_world_run media_GetDistinctDatastoreIds_def dbQuery_def ext_def)
  have g: "config_Get ye path (w, cs) = (Inr c, (w, cs))"
    using assms(2) by (simp add: config_Get_def bindE_def returnE_def)
  show ?thesis
    by (simp add: LoadDatastores_def bind_run [where m = "tryE (on_world media_GetDistinctDatastoreIds)", OF q]
        bind_run [where m = "config_Get ye path", OF g] bindE_def [of "getsS _"] datastore_found_iff fatal_def throwE_def
        on_world_run ResetS3Clients_def)
qed

end
