(* ===== verification/Generators.thy ===== *)
theory Generators
  imports ThumbPipeline "HOL-Library.Signed_Division"
begin

text \<open>
  The thumbnail generators (\<^verbatim>\<open>thumbnailing/i\<close>) and their helpers (\<^verbatim>\<open>thumbnailing/u\<close>), as values of
  the record \<open>Generator\<close>.

  Decoders, encoders, scaling, dithering, EXIF and ID3 parsing, and the external programs are the
  parameters \<open>codecs\<close>.  What the code does itself is spelled out: the scan that limits an
  animation, the drawing of the frames of an animation over each other, looking for the animation chunk
  of a PNG, the orientation of a photograph, SVG lengths, the sampling and the plot of audio.
  An encoder that fails in the goroutine that feeds the result's pipe fails the generation here;
  in the code it fails the reading of the result.
\<close>

section \<open>float64\<close>

text \<open>As \<open>f32\<close> with 53 significant bits; a number below the smallest normal one keeps more bits than in Go.\<close>

definition f64 :: "rat \<Rightarrow> rat" where
  "f64 x = (if x = 0 then 0 else let e = log2_floor 1100 \<bar>x\<bar> - 52 in sgn x * of_int (round_even (\<bar>x\<bar> / pow2 e)) * pow2 e)"

definition f64_div :: "rat \<Rightarrow> rat \<Rightarrow> rat" where "f64_div a b = f64 (f64 a / f64 b)"
definition f64_mul :: "rat \<Rightarrow> rat \<Rightarrow> rat" where "f64_mul a b = f64 (f64 a * f64 b)"

text \<open>\<open>math.Round\<close>: halves away from zero.\<close>

definition math_Round :: "rat \<Rightarrow> int" where
  "math_Round x = (if x \<ge> 0 then \<lfloor>x + 1 / 2\<rfloor> else - \<lfloor>1 / 2 - x\<rfloor>)"

section \<open>Pictures\<close>

text \<open>
  An image of Go's \<^verbatim>\<open>image\<close>: the corners of its rectangle and the premultiplied 16-bit colours (red, green,
  blue, alpha) that \<open>RGBA()\<close> gives.  An \<open>image.RGBA\<close> keeps the upper bytes.
\<close>

type_synonym color = "nat \<times> nat \<times> nat \<times> nat"

record picture =
  pic_Min :: "int \<times> int"
  pic_Max :: "int \<times> int"
  pic_at :: "int \<times> int \<Rightarrow> color"

definition transparent :: color where "transparent = (0, 0, 0, 0)"

fun in_rect :: "int \<times> int \<Rightarrow> int \<times> int \<Rightarrow> int \<times> int \<Rightarrow> bool" where
  "in_rect (x0, y0) (x1, y1) (x, y) \<longleftrightarrow> x0 \<le> x \<and> x < x1 \<and> y0 \<le> y \<and> y < y1"

definition NewRGBA :: "int \<times> int \<Rightarrow> int \<times> int \<Rightarrow> picture" where
  "NewRGBA mn mx = \<lparr>pic_Min = mn, pic_Max = mx, pic_at = (\<lambda>_. transparent)\<rparr>"

definition upper :: "nat \<Rightarrow> nat" where "upper v = (v div 256) * 257"

fun over_channel :: "nat \<Rightarrow> nat \<Rightarrow> nat \<Rightarrow> nat" where
  "over_channel d s sa = (((d div 257) * ((65535 - sa) * 257) + s * 65535) div 65535 div 256 mod 256) * 257"

fun over_color :: "color \<Rightarrow> color \<Rightarrow> color" where
  "over_color (dr, dg, db, da) (sr, sg, sb, sa) =
     (over_channel dr sr sa, over_channel dg sg sa, over_channel db sb sa, over_channel da sa sa)"

fun src_color :: "color \<Rightarrow> color" where
  "src_color (r, g, b, a) = (upper r, upper g, upper b, upper a)"

text \<open>
  \<open>draw.Draw(dst, image.Rect(mn, mx), src, image.Point{0, 0}, op)\<close>: the point \<open>mn\<close> of the destination
  gets the point (0, 0) of the source, and the rectangle is clipped to both.
\<close>

definition draw_Draw :: "(color \<Rightarrow> color \<Rightarrow> color) \<Rightarrow> int \<times> int \<Rightarrow> int \<times> int \<Rightarrow> picture \<Rightarrow> picture \<Rightarrow> picture" where
  "draw_Draw op mn mx src dst = dst\<lparr>pic_at := (\<lambda>p.
     let q = (fst p - fst mn, snd p - snd mn) in
     if in_rect mn mx p \<and> in_rect (pic_Min dst) (pic_Max dst) p \<and> in_rect (pic_Min src) (pic_Max src) q
     then op (pic_at dst p) (pic_at src q) else pic_at dst p)\<rparr>"

definition draw_over :: "picture \<Rightarrow> picture \<Rightarrow> picture" where
  "draw_over src dst = draw_Draw over_color (pic_Min dst) (pic_Max dst) src dst"

definition draw_src :: "picture \<Rightarrow> picture \<Rightarrow> picture" where
  "draw_src src dst = draw_Draw (\<lambda>_ s. src_color s) (pic_Min dst) (pic_Max dst) src dst"

definition draw_clear :: "picture \<Rightarrow> picture" where
  "draw_clear dst = dst\<lparr>pic_at := (\<lambda>p. if in_rect (pic_Min dst) (pic_Max dst) p then transparent else pic_at dst p)\<rparr>"

section \<open>Parameters\<close>

datatype exif_value = ExifShorts "nat list" | ExifShort nat | ExifOther

type_synonym palette = "color list"

record gif_file =
  gif_Width :: int
  gif_Height :: int
  gif_Image :: "(picture \<times> palette) list"
  gif_Disposal :: "nat list option"

datatype apng_dispose = DISPOSE_OP_NONE | DISPOSE_OP_BACKGROUND | DISPOSE_OP_PREVIOUS

record apng_frame =
  apf_Image :: picture
  apf_XOffset :: int
  apf_YOffset :: int
  apf_DisposeOp :: apng_dispose
  apf_BlendOver :: bool

text \<open>A decoded audio stream: its samples, where \<open>Seek\<close> fails, and its format.\<close>

record audio_stream =
  au_samples :: "(rat \<times> rat) list"
  au_Seek :: "int \<Rightarrow> goerr option"
  au_Stream :: "nat \<Rightarrow> goerr option"
  au_Duration :: int
  au_NumChannels :: int

record codecs =
  cx_DecodeConfig :: "string \<Rightarrow> bytes \<Rightarrow> goerr + int \<times> int"
  cx_Decode :: "string \<Rightarrow> bytes \<Rightarrow> goerr + picture"
  cx_Encode :: "string \<Rightarrow> picture \<Rightarrow> goerr + bytes"
  cx_Fit :: "picture \<Rightarrow> int \<Rightarrow> int \<Rightarrow> picture"
  cx_Fill :: "picture \<Rightarrow> int \<Rightarrow> int \<Rightarrow> picture"
  cx_Rotate90 :: "picture \<Rightarrow> picture"
  cx_Rotate180 :: "picture \<Rightarrow> picture"
  cx_Rotate270 :: "picture \<Rightarrow> picture"
  cx_FlipH :: "picture \<Rightarrow> picture"
  cx_FlipV :: "picture \<Rightarrow> picture"
  cx_Dither :: "picture \<Rightarrow> palette \<Rightarrow> picture"
  cx_SearchExif :: "bytes \<Rightarrow> goerr + bytes option"
  cx_ExifTags :: "bytes \<Rightarrow> goerr + (string \<times> exif_value) list"
  cx_gif_DecodeAll :: "bytes \<Rightarrow> goerr + gif_file"
  cx_gif_EncodeAll :: "gif_file \<Rightarrow> goerr + bytes"
  cx_apng_DecodeAll :: "bytes \<Rightarrow> goerr + apng_frame list"
  cx_apng_Encode :: "apng_frame list \<Rightarrow> goerr + bytes"
  cx_svg_root :: "bytes \<Rightarrow> goerr + string \<times> string \<times> string"
  cx_ParseFloat :: "string \<Rightarrow> goerr + rat"
  cx_audio :: "string \<Rightarrow> goerr + bytes \<Rightarrow> goerr + audio_stream"
  cx_ID3Picture :: "goerr + bytes \<Rightarrow> bytes option"
  cx_artwork :: "bytes option"
  cx_fs :: "string \<Rightarrow> goerr option"
  cx_LookPath :: "string \<Rightarrow> goerr option"
  cx_Command :: "string \<Rightarrow> string list \<Rightarrow> bytes \<Rightarrow> bytes \<times> goerr option \<times> bytes"
  cx_TempDir :: string

definition fail_with :: "string \<Rightarrow> goerr + 'a \<Rightarrow> goerr + 'a" where
  "fail_with msg r = (case r of Inl e \<Rightarrow> Inl (ErrOther (msg @ err_text e)) | Inr x \<Rightarrow> Inr x)"

definition bindR :: "goerr + 'a \<Rightarrow> ('a \<Rightarrow> goerr + 'b) \<Rightarrow> goerr + 'b" where
  "bindR r f = (case r of Inl e \<Rightarrow> Inl e | Inr x \<Rightarrow> f x)"

lemma bindR_simps [simp]: "bindR (Inl e) f = Inl e" "bindR (Inr x) f = f x"
  by (simp_all add: bindR_def)

lemma fail_with_simps [simp]: "fail_with msg (Inl e) = Inl (ErrOther (msg @ err_text e))" "fail_with msg (Inr x) = Inr x"
  by (simp_all add: fail_with_def)

section \<open>thumbnailing/u\<close>

definition MakeThumbnail :: "codecs \<Rightarrow> picture \<Rightarrow> string \<Rightarrow> int \<Rightarrow> int \<Rightarrow> goerr + picture" where
  "MakeThumbnail cx src mthd width height =
     (if mthd = ''scale'' then Inr (cx_Fit cx src width height)
      else if mthd = ''crop'' then Inr (cx_Fill cx src width height)
      else Inl (ErrOther (''unrecognized method: '' @ mthd)))"

record ExifOrientation =
  eo_RotateDegrees :: int
  eo_FlipVertical :: bool
  eo_FlipHorizontal :: bool

definition orientation_of :: "nat \<Rightarrow> ExifOrientation" where
  "orientation_of n =
     \<lparr>eo_RotateDegrees = (if n = 1 \<or> n = 2 then 0 else if n = 3 \<or> n = 4 then 180 else if n = 5 \<or> n = 6 then 270
        else if n = 7 \<or> n = 8 then 90 else 0),
      eo_FlipVertical = (n > 4 \<and> n mod 2 \<noteq> 0), eo_FlipHorizontal = (n < 5 \<and> n mod 2 = 0)\<rparr>"

definition GetExifOrientation :: "codecs \<Rightarrow> bytes \<Rightarrow> goerr + ExifOrientation option" where
  "GetExifOrientation cx img =
     (case cx_SearchExif cx img of
        Inl e \<Rightarrow> Inl (ErrOther (''exif: error reading possible exif data: '' @ err_text e))
      | Inr None \<Rightarrow> Inr None
      | Inr (Some rawExif) \<Rightarrow>
          bindR (fail_with ''exif: error parsing exif data: '' (cx_ExifTags cx rawExif)) (\<lambda>tags.
          case map_of tags ''Orientation'' of
            None \<Rightarrow> Inr None
          | Some v \<Rightarrow>
              bindR (case v of ExifShorts (n # _) \<Rightarrow> Inr n | ExifShort n \<Rightarrow> Inr n
                     | _ \<Rightarrow> Inl (ErrOther ''exif: error parsing orientation: parse error (not an int)'')) (\<lambda>orientation.
              if orientation = 0 then Inr None
              else if orientation < 1 \<or> orientation > 8 then
                Inl (ErrOther (''orientation out of range: '' @ Itoa (int orientation)))
              else Inr (Some (orientation_of orientation)))))"

text \<open>An error while reading the header counts as no orientation.\<close>

definition ExtractExifOrientation :: "codecs \<Rightarrow> bytes \<Rightarrow> ExifOrientation option" where
  "ExtractExifOrientation cx r = (case GetExifOrientation cx r of Inl _ \<Rightarrow> None | Inr o' \<Rightarrow> o')"

definition ApplyOrientation :: "codecs \<Rightarrow> picture \<Rightarrow> ExifOrientation option \<Rightarrow> picture" where
  "ApplyOrientation cx src orientation = (case orientation of
     None \<Rightarrow> src
   | Some o' \<Rightarrow>
       (let r1 = (if eo_RotateDegrees o' = 90 then cx_Rotate90 cx src
                  else if eo_RotateDegrees o' = 180 then cx_Rotate180 cx src
                  else if eo_RotateDegrees o' = 270 then cx_Rotate270 cx src else src);
            r2 = (if eo_FlipHorizontal o' then cx_FlipH cx r1 else r1)
        in if eo_FlipVertical o' then cx_FlipV cx r2 else r2))"

definition u_Encode :: "codecs \<Rightarrow> bool \<Rightarrow> picture \<Rightarrow> goerr + bytes" where
  "u_Encode cx jpegSource p = cx_Encode cx (if jpegSource then ''JPEG'' else ''PNG'') p"

definition png_thumbnail :: "bytes \<Rightarrow> Thumbnail" where
  "png_thumbnail b = \<lparr>tn_Animated = False, tn_ContentType = ''image/png'', tn_Reader = b\<rparr>"

section \<open>png.go\<close>

definition png_GenerateThumbnailOf :: "codecs \<Rightarrow> picture \<Rightarrow> int \<Rightarrow> int \<Rightarrow> string \<Rightarrow> goerr + Thumbnail option" where
  "png_GenerateThumbnailOf cx src width height mthd =
     bindR (MakeThumbnail cx src mthd width height) (\<lambda>thumb.
     bindR (fail_with ''png: error encoding thumbnail: '' (u_Encode cx False thumb)) (\<lambda>b. Inr (Some (png_thumbnail b))))"

definition config_dimensions :: "codecs \<Rightarrow> string \<Rightarrow> bytes \<Rightarrow> goerr + bool \<times> int \<times> int" where
  "config_dimensions cx format b = bindR (cx_DecodeConfig cx format b) (\<lambda>(w, h). Inr (True, w, h))"

definition png_GenerateThumbnail :: "codecs \<Rightarrow> bytes \<Rightarrow> int \<Rightarrow> int \<Rightarrow> string \<Rightarrow> goerr + Thumbnail option" where
  "png_GenerateThumbnail cx b width height mthd =
     bindR (fail_with ''png: error decoding thumbnail: '' (cx_Decode cx ''imaging'' b)) (\<lambda>src.
     png_GenerateThumbnailOf cx src width height mthd)"

definition pngGenerator :: "codecs \<Rightarrow> Generator" where
  "pngGenerator cx = \<lparr>gi_supportedContentTypes = [''image/png''], gi_supportsAnimation = False,
     gi_matches = (\<lambda>img contentType. (contentType = ''image/png'', 0)),
     gi_GetOriginDimensions = (\<lambda>b contentType. config_dimensions cx ''image'' b),
     gi_GenerateThumbnail = (\<lambda>b contentType width height mthd animated. png_GenerateThumbnail cx b width height mthd)\<rparr>"

section \<open>gif.go: the complexity of an animation\<close>

text \<open>
  The scanner: what is left of the stream and how many bytes were counted.  A short read counts the
  whole buffer.
\<close>

record gifComplexityScanner =
  gs_rest :: bytes
  gs_bytesRead :: int

definition errAnimatedGIFTooLarge :: goerr where
  "errAnimatedGIFTooLarge = ErrOther ''animated gif exceeds max animate size''"

definition maxAnimatedGIFFrames :: int where "maxAnimatedGIFFrames = 256"

definition too_large :: "int \<Rightarrow> int \<Rightarrow> bool" where
  "too_large maxAnimateBytes bytesRead \<longleftrightarrow> maxAnimateBytes > 0 \<and> bytesRead > maxAnimateBytes"

definition gs_readFull :: "int \<Rightarrow> nat \<Rightarrow> (gifComplexityScanner, bytes) io" where
  "gs_readFull mx n s =
     (let got = take n (gs_rest s); s' = \<lparr>gs_rest = drop n (gs_rest s), gs_bytesRead = gs_bytesRead s + int n\<rparr>
      in (if too_large mx (gs_bytesRead s') then Inl errAnimatedGIFTooLarge
          else if length got < n then Inl (if got = [] then ErrEOF else ErrOther ''unexpected EOF'')
          else Inr got, s'))"

definition gs_skipBytes :: "int \<Rightarrow> nat \<Rightarrow> (gifComplexityScanner, unit) io" where
  "gs_skipBytes mx n s =
     (let got = take n (gs_rest s); s' = \<lparr>gs_rest = drop n (gs_rest s), gs_bytesRead = gs_bytesRead s + int (length got)\<rparr>
      in (if too_large mx (gs_bytesRead s') then Inl errAnimatedGIFTooLarge
          else if length got < n then Inl ErrEOF else Inr (), s'))"

lemma gs_readFull_shorter:
  "gs_readFull mx (Suc n) s = (Inr got, s') \<Longrightarrow> length (gs_rest s') < length (gs_rest s)"
  by (auto simp: gs_readFull_def Let_def split: if_splits)

lemma gs_skipBytes_le: "gs_skipBytes mx n s = (r, s') \<Longrightarrow> length (gs_rest s') \<le> length (gs_rest s)"
  by (auto simp: gs_skipBytes_def Let_def)

function gs_skipSubBlocks :: "int \<Rightarrow> (gifComplexityScanner, unit) io" where
  "gs_skipSubBlocks mx s = (case gs_readFull mx 1 s of
     (Inl e, s1) \<Rightarrow> (Inl e, s1)
   | (Inr sz, s1) \<Rightarrow>
       (if hd sz = CHR 0x00 then (Inr (), s1)
        else case gs_skipBytes mx (of_char (hd sz)) s1 of
          (Inl e, s2) \<Rightarrow> (Inl e, s2) | (Inr _, s2) \<Rightarrow> gs_skipSubBlocks mx s2))"
  by pat_completeness auto
termination
proof (relation "measure (\<lambda>(mx, s). length (gs_rest s))")
  fix mx s x s1 sz y s2 u
  assume "(x, s1) = gs_readFull mx 1 s" "x = Inr sz" "(y, s2) = gs_skipBytes mx (of_char (hd sz)) s1"
  then show "((mx, s2), (mx, s)) \<in> measure (\<lambda>(mx, s). length (gs_rest s))"
    using gs_readFull_shorter [of mx 0 s sz s1] gs_skipBytes_le [of mx "of_char (hd sz)" s1 y s2] by auto
qed simp

lemma gs_skipSubBlocks_le: "gs_skipSubBlocks mx s = (r, s') \<Longrightarrow> length (gs_rest s') \<le> length (gs_rest s)"
proof (induction mx s arbitrary: r s' rule: gs_skipSubBlocks.induct)
  case (1 mx s)
  have r: "length (gs_rest s1) \<le> length (gs_rest s)" if "gs_readFull mx 1 s = (x, s1)" for x s1
    using that by (auto simp: gs_readFull_def Let_def)
  show ?case
  proof (cases "gs_readFull mx 1 s")
    case (Pair x s1)
    show ?thesis
    proof (cases x)
      case (Inl e)
      then show ?thesis using 1 Pair r by auto
    next
      case (Inr sz)
      show ?thesis
      proof (cases "hd sz = CHR 0x00")
        case True
        then show ?thesis using 1 Pair Inr r by auto
      next
        case False
        obtain y s2 where sk: "gs_skipBytes mx (of_char (hd sz)) s1 = (y, s2)" by fastforce
        note le = gs_skipBytes_le [OF sk] r [OF Pair]
        then show ?thesis
          using "1.IH" [OF Pair [symmetric] Inr False sk [symmetric]] "1.prems" Pair Inr False sk
          by (cases y) (auto dest: order_trans)
      qed
    qed
  qed
qed

declare gs_skipSubBlocks.simps [simp del]

definition color_table_bytes :: "char \<Rightarrow> nat" where
  "color_table_bytes packed = 3 * 2 ^ ((of_char packed :: nat) mod 8 + 1)"

definition has_color_table :: "char \<Rightarrow> bool" where
  "has_color_table packed \<longleftrightarrow> (of_char packed :: nat) \<ge> 128"

text \<open>After the descriptor of an image: its colour table, the code size and the data.\<close>

definition gs_image_data :: "int \<Rightarrow> bytes \<Rightarrow> (gifComplexityScanner, unit) io" where
  "gs_image_data mx descriptor =
     thenE (whenE (has_color_table (descriptor ! 8)) (gs_skipBytes mx (color_table_bytes (descriptor ! 8))))
    (thenE (gs_skipBytes mx 1) (gs_skipSubBlocks mx))"

definition gs_extension :: "int \<Rightarrow> (gifComplexityScanner, unit) io" where
  "gs_extension mx = thenE (gs_skipBytes mx 1) (gs_skipSubBlocks mx)"

lemma gs_parts_le:
  "gs_image_data mx d s = (r, s') \<Longrightarrow> length (gs_rest s') \<le> length (gs_rest s)"
  "gs_extension mx s = (r', s'') \<Longrightarrow> length (gs_rest s'') \<le> length (gs_rest s)"
  by (auto simp: gs_image_data_def gs_extension_def thenE_def bindE_def whenE_def returnE_def split: prod.splits sum.splits if_splits
      dest!: gs_skipBytes_le gs_skipSubBlocks_le)

function gs_blocks :: "int \<Rightarrow> int \<Rightarrow> int \<Rightarrow> int \<Rightarrow> int \<Rightarrow> (gifComplexityScanner, bool) io" where
  "gs_blocks mx logicalPixels maxTotalPixels frames totalPixels s = (case gs_readFull mx 1 s of
     (Inl e, s1) \<Rightarrow> (Inl e, s1)
   | (Inr blockType, s1) \<Rightarrow>
       (if hd blockType = CHR 0x2c then
          (case gs_readFull mx 9 s1 of
             (Inl e, s2) \<Rightarrow> (Inl e, s2)
           | (Inr descriptor, s2) \<Rightarrow>
               let frames' = frames + 1; totalPixels' = int64 (totalPixels + logicalPixels) in
               if frames' > maxAnimatedGIFFrames \<or> totalPixels' > maxTotalPixels then (Inr True, s2)
               else (case gs_image_data mx descriptor s2 of
                  (Inl e, s3) \<Rightarrow> (Inl e, s3)
                | (Inr _, s3) \<Rightarrow> gs_blocks mx logicalPixels maxTotalPixels frames' totalPixels' s3))
        else if hd blockType = CHR 0x21 then
          (case gs_extension mx s1 of
             (Inl e, s2) \<Rightarrow> (Inl e, s2)
           | (Inr _, s2) \<Rightarrow> gs_blocks mx logicalPixels maxTotalPixels frames totalPixels s2)
        else if hd blockType = CHR 0x3b then (Inr False, s1)
        else (Inl (ErrOther ''unknown gif block type''), s1)))"
  by pat_completeness auto
termination
proof (relation "measure (\<lambda>(mx, lp, mp, f, t, s). length (gs_rest s))")
  fix mx lp mp f t s x s1 b y s2 d f' t' z s3 u
  assume "(x, s1) = gs_readFull mx 1 s" "x = Inr b" "(y, s2) = gs_readFull mx 9 s1" "y = Inr d"
    "(z, s3) = gs_image_data mx d s2"
  then show "((mx, lp, mp, f', t', s3), (mx, lp, mp, f, t, s)) \<in> measure (\<lambda>(mx, lp, mp, f, t, s). length (gs_rest s))"
    using gs_readFull_shorter [of mx 0 s b s1] gs_readFull_shorter [of mx 8 s1 d s2] gs_parts_le(1) [of mx d s2 z s3] by auto
next
  fix mx lp mp f t s x s1 b z s2 u
  assume "(x, s1) = gs_readFull mx 1 s" "x = Inr b" "(z, s2) = gs_extension mx s1"
  then show "((mx, lp, mp, f, t, s2), (mx, lp, mp, f, t, s)) \<in> measure (\<lambda>(mx, lp, mp, f, t, s). length (gs_rest s))"
    using gs_readFull_shorter [of mx 0 s b s1] gs_parts_le(2) [of mx s1 z s2] by auto
qed simp

declare gs_blocks.simps [simp del]

definition le16 :: "bytes \<Rightarrow> nat \<Rightarrow> int" where
  "le16 b i = of_char (b ! i) + 256 * of_char (b ! (i + 1))"

definition max_total_pixels :: "RequestContext \<Rightarrow> int" where
  "max_total_pixels ctx =
     (let m = th_MaxPixels (Thumbnails (ctx_Config ctx)) in if m \<le> 0 then 32000000 else m)"

definition exceedsAnimationComplexity :: "RequestContext \<Rightarrow> (gifComplexityScanner, bool) io" where
  "exceedsAnimationComplexity ctx =
     (let mx = th_MaxAnimateSizeBytes (Thumbnails (ctx_Config ctx)) in
      bindE (gs_readFull mx 13) (\<lambda>h.
      if take 3 h \<noteq> ''GIF'' then throwE (ErrOther ''not a gif'')
      else
        thenE (whenE (has_color_table (h ! 10)) (gs_skipBytes mx (color_table_bytes (h ! 10))))
          (gs_blocks mx (int64 (le16 h 6 * le16 h 8)) (max_total_pixels ctx) 0 0)))"

text \<open>The reader is rewound in every case: the generators get all bytes of the stream.\<close>

definition guardAnimatedGIFReader :: "RequestContext \<Rightarrow> bytes \<Rightarrow> bytes \<times> bool" where
  "guardAnimatedGIFReader ctx b =
     (case fst (exceedsAnimationComplexity ctx \<lparr>gs_rest = b, gs_bytesRead = 0\<rparr>) of
        Inl e \<Rightarrow> (b, e = errAnimatedGIFTooLarge)
      | Inr exceeds \<Rightarrow> (b, exceeds))"

section \<open>gif.go: thumbnails\<close>

text \<open>
  The frames of an animation are drawn over one canvas, which stays after a frame of disposal 0 or 1
  and is cleared after any other.  The first result ends the loop with a still frame.
\<close>

definition index_panic :: goerr where
  "index_panic = Panic ''index out of range''"

definition set_disposal :: "nat \<Rightarrow> nat list option \<Rightarrow> goerr + nat list option" where
  "set_disposal i disp = (case disp of
     None \<Rightarrow> Inl index_panic | Some ds \<Rightarrow> if i < length ds then Inr (Some (ds[i := 1])) else Inl index_panic)"

definition get_disposal :: "nat \<Rightarrow> nat list option \<Rightarrow> goerr + nat" where
  "get_disposal i disp = (case disp of
     None \<Rightarrow> Inr 0 | Some ds \<Rightarrow> if i < length ds then Inr (ds ! i) else Inl index_panic)"

definition still_or_encode :: "codecs \<Rightarrow> string \<Rightarrow> picture \<Rightarrow> int \<Rightarrow> int \<Rightarrow> string \<Rightarrow> goerr + Thumbnail" where
  "still_or_encode cx msg src width height mthd =
     bindR (png_GenerateThumbnailOf cx src width height mthd) (\<lambda>t. case t of
       Some t \<Rightarrow> Inr t
     | None \<Rightarrow> bindR (fail_with msg (u_Encode cx False src)) (\<lambda>b. Inr (png_thumbnail b)))"

fun gif_loop ::
  "codecs \<Rightarrow> int \<Rightarrow> int \<Rightarrow> string \<Rightarrow> bool \<Rightarrow> int \<Rightarrow> nat \<Rightarrow> (picture \<times> palette) list \<Rightarrow> picture \<Rightarrow> nat list option \<Rightarrow>
   (picture \<times> palette) list \<Rightarrow> goerr + (Thumbnail + (picture \<times> palette) list \<times> nat list option)" where
  "gif_loop cx width height mthd animated target i [] frameImg disp acc = Inr (Inr (acc, disp))"
| "gif_loop cx width height mthd animated target i ((img, pal) # imgs) frameImg disp acc =
     bindR (get_disposal i disp) (\<lambda>disposal.
     let frameImg' = draw_over img frameImg in
     bindR (fail_with ''gif: error generating thumbnail frame: '' (MakeThumbnail cx frameImg' mthd width height)) (\<lambda>frameThumb.
     let targetImg = cx_Dither cx frameThumb pal in
     if \<not> animated \<and> int i = target then
       bindR (still_or_encode cx ''gif: error encoding static thumbnail: '' targetImg width height mthd) (\<lambda>t. Inr (Inl t))
     else if disposal = 1 \<or> disposal = 0 then
       bindR (set_disposal i disp) (\<lambda>disp'.
       gif_loop cx width height mthd animated target (Suc i) imgs frameImg' disp' (acc @ [(targetImg, pal)]))
     else
       gif_loop cx width height mthd animated target (Suc i) imgs (draw_clear frameImg') disp (acc @ [(targetImg, pal)])))"

definition still_index :: "rat \<Rightarrow> nat \<Rightarrow> int" where
  "still_index stillFrame n = \<lfloor>f64 (min 1 (max 0 stillFrame) * of_nat n)\<rfloor>"

definition gif_generateStaticThumbnail :: "codecs \<Rightarrow> bytes \<Rightarrow> int \<Rightarrow> int \<Rightarrow> string \<Rightarrow> goerr + Thumbnail option" where
  "gif_generateStaticThumbnail cx b width height mthd =
     bindR (fail_with ''gif: error decoding static fallback: '' (cx_Decode cx ''gif'' b)) (\<lambda>img.
     bindR (still_or_encode cx ''gif: error encoding static fallback: '' img width height mthd) (\<lambda>t. Inr (Some t)))"

definition gif_redraw :: "codecs \<Rightarrow> RequestContext \<Rightarrow> bytes \<Rightarrow> int \<Rightarrow> int \<Rightarrow> string \<Rightarrow> bool \<Rightarrow> goerr + Thumbnail option" where
  "gif_redraw cx ctx b width height mthd animated =
     bindR (fail_with ''gif: error decoding image: '' (cx_gif_DecodeAll cx b)) (\<lambda>g.
     bindR (gif_loop cx width height mthd animated
        (still_index (th_StillFrame (Thumbnails (ctx_Config ctx))) (length (gif_Image g))) 0
        (gif_Image g) (NewRGBA (0, 0) (gif_Width g, gif_Height g)) (gif_Disposal g) []) (\<lambda>res. case res of
       Inl t \<Rightarrow> Inr (Some t)
     | Inr ([], _) \<Rightarrow> Inl index_panic
     | Inr (f # fs, disp) \<Rightarrow>
         bindR (fail_with ''gif: error encoding animated thumbnail: ''
           (cx_gif_EncodeAll cx \<lparr>gif_Width = fst (pic_Max (fst f)), gif_Height = snd (pic_Max (fst f)), gif_Image = f # fs,
              gif_Disposal = disp\<rparr>)) (\<lambda>buf.
         Inr (Some \<lparr>tn_Animated = True, tn_ContentType = ''image/gif'', tn_Reader = buf\<rparr>))))"

definition gif_GenerateThumbnail :: "codecs \<Rightarrow> RequestContext \<Rightarrow> bytes \<Rightarrow> int \<Rightarrow> int \<Rightarrow> string \<Rightarrow> bool \<Rightarrow> goerr + Thumbnail option" where
  "gif_GenerateThumbnail cx ctx b width height mthd animated =
     (if animated then
        (case guardAnimatedGIFReader ctx b of (guarded, fallbackToStatic) \<Rightarrow>
           if fallbackToStatic then gif_generateStaticThumbnail cx guarded width height mthd
           else gif_redraw cx ctx guarded width height mthd animated)
      else gif_redraw cx ctx b width height mthd animated)"

definition gifGenerator :: "codecs \<Rightarrow> RequestContext \<Rightarrow> Generator" where
  "gifGenerator cx ctx = \<lparr>gi_supportedContentTypes = [''image/gif''], gi_supportsAnimation = True,
     gi_matches = (\<lambda>img contentType. (contentType = ''image/gif'', 0)),
     gi_GetOriginDimensions = (\<lambda>b contentType. config_dimensions cx ''image'' b),
     gi_GenerateThumbnail = (\<lambda>b contentType width height mthd animated. gif_GenerateThumbnail cx ctx b width height mthd animated)\<rparr>"

section \<open>apng.go\<close>

text \<open>
  The search for an animation chunk before the image data in the first 4096 bytes.  The buffer is
  longer than the data when fewer bytes were read, and one byte after them is still looked at.
\<close>

fun find_acTL :: "bytes \<Rightarrow> nat \<Rightarrow> nat \<Rightarrow> bool" where
  "find_acTL [] idatIdx actlIdx = False"
| "find_acTL (bt # b) idatIdx actlIdx =
     (case (if bt = ''IDAT'' ! idatIdx then (idatIdx + 1, 0)
            else if bt = ''acTL'' ! actlIdx then (0, actlIdx + 1) else (0, 0)) of (idat, actl) \<Rightarrow>
      if idat = 4 then False else if actl = 4 then True else find_acTL b idat actl)"

definition isAnimatedPNG :: "bytes \<Rightarrow> bool \<times> nat" where
  "isAnimatedPNG r =
     (if r = [] then (False, 0)
      else let b = take 4096 r; c = length b in
        (find_acTL (take (Suc c) (b @ replicate (4096 - c) (CHR 0x00))) 0 0, c))"

definition apng_frame_step :: "apng_frame \<Rightarrow> picture \<Rightarrow> picture \<times> picture" where
  "apng_frame_step frame frameImg0 =
     (let frameImg1 = (if apf_DisposeOp frame = DISPOSE_OP_BACKGROUND \<or> apf_BlendOver frame then draw_clear frameImg0 else frameImg0);
          shown = draw_Draw (\<lambda>_ s. src_color s) (apf_XOffset frame, apf_YOffset frame) (pic_Max frameImg1) (apf_Image frame) frameImg1;
          after = (if apf_DisposeOp frame = DISPOSE_OP_PREVIOUS
                   then draw_src (draw_src frameImg1 (NewRGBA (pic_Min frameImg1) (pic_Max frameImg1))) shown else shown)
      in (shown, after))"

fun apng_loop :: "codecs \<Rightarrow> int \<Rightarrow> int \<Rightarrow> string \<Rightarrow> apng_frame list \<Rightarrow> picture \<Rightarrow> goerr + apng_frame list" where
  "apng_loop cx width height mthd [] frameImg = Inr []"
| "apng_loop cx width height mthd (frame # frames) frameImg =
     (case apng_frame_step frame frameImg of (shown, after) \<Rightarrow>
      bindR (fail_with ''apng: error generating thumbnail frame: '' (MakeThumbnail cx shown mthd width height)) (\<lambda>frameThumb.
      bindR (apng_loop cx width height mthd frames after) (\<lambda>rest.
      Inr (frame\<lparr>apf_Image := frameThumb, apf_XOffset := 0, apf_YOffset := 0\<rparr> # rest))))"

definition apng_GenerateThumbnail :: "codecs \<Rightarrow> bytes \<Rightarrow> int \<Rightarrow> int \<Rightarrow> string \<Rightarrow> bool \<Rightarrow> goerr + Thumbnail option" where
  "apng_GenerateThumbnail cx b width height mthd animated =
     (if \<not> animated then png_GenerateThumbnail cx b width height mthd
      else
        bindR (fail_with ''apng: error decoding image: '' (cx_apng_DecodeAll cx b)) (\<lambda>frames.
        case frames of
          [] \<Rightarrow> Inl index_panic
        | f # _ \<Rightarrow>
            bindR (apng_loop cx width height mthd frames (NewRGBA (pic_Min (apf_Image f)) (pic_Max (apf_Image f)))) (\<lambda>frames'.
            bindR (fail_with ''apng: error encoding final thumbnail: '' (cx_apng_Encode cx frames')) (\<lambda>out.
            Inr (Some \<lparr>tn_Animated = True, tn_ContentType = ''image/png'', tn_Reader = out\<rparr>)))))"

definition apngGenerator :: "codecs \<Rightarrow> Generator" where
  "apngGenerator cx = \<lparr>gi_supportedContentTypes = [''image/png'', ''image/apng''], gi_supportsAnimation = True,
     gi_matches = (\<lambda>img contentType.
        if contentType = ''image/png'' then
          (case isAnimatedPNG img of (found, n) \<Rightarrow> (found \<or> contentType = ''image/apng'', n))
        else (contentType = ''image/apng'', 0)),
     gi_GetOriginDimensions = (\<lambda>b contentType. config_dimensions cx ''apng'' b),
     gi_GenerateThumbnail = (\<lambda>b contentType width height mthd animated. apng_GenerateThumbnail cx b width height mthd animated)\<rparr>"

section \<open>jpg.go, heif.go, bmp.go, webp.go, tiff.go\<close>

definition jpg_GenerateThumbnail :: "codecs \<Rightarrow> bytes \<Rightarrow> int \<Rightarrow> int \<Rightarrow> string \<Rightarrow> goerr + Thumbnail option" where
  "jpg_GenerateThumbnail cx b width height mthd =
     (let orientation = ExtractExifOrientation cx b in
      bindR (fail_with ''jpg: error decoding thumbnail: '' (cx_Decode cx ''imaging'' b)) (\<lambda>src.
      bindR (fail_with ''jpg: error making thumbnail: '' (MakeThumbnail cx src mthd width height)) (\<lambda>thumb.
      bindR (fail_with ''jpg: error encoding thumbnail: '' (u_Encode cx True (ApplyOrientation cx thumb orientation))) (\<lambda>out.
      Inr (Some \<lparr>tn_Animated = False, tn_ContentType = ''image/jpeg'', tn_Reader = out\<rparr>)))))"

definition jpgGenerator :: "codecs \<Rightarrow> Generator" where
  "jpgGenerator cx = \<lparr>gi_supportedContentTypes = [''image/jpeg'', ''image/jpg''], gi_supportsAnimation = False,
     gi_matches = (\<lambda>img contentType. (ArrayContains [''image/jpeg'', ''image/jpg''] contentType, 0)),
     gi_GetOriginDimensions = (\<lambda>b contentType. config_dimensions cx ''image'' b),
     gi_GenerateThumbnail = (\<lambda>b contentType width height mthd animated. jpg_GenerateThumbnail cx b width height mthd)\<rparr>"

text \<open>The generators that decode one picture and hand it to the PNG generator.\<close>

definition decoded_thumbnail :: "codecs \<Rightarrow> string \<Rightarrow> bytes \<Rightarrow> int \<Rightarrow> int \<Rightarrow> string \<Rightarrow> goerr + Thumbnail option" where
  "decoded_thumbnail cx format b width height mthd =
     bindR (fail_with (format @ '': error decoding thumbnail: '') (cx_Decode cx format b)) (\<lambda>src.
     png_GenerateThumbnailOf cx src width height mthd)"

definition heifGenerator :: "codecs \<Rightarrow> Generator" where
  "heifGenerator cx = \<lparr>gi_supportedContentTypes = [''image/heif'', ''image/heic''], gi_supportsAnimation = True,
     gi_matches = (\<lambda>img contentType. (ArrayContains [''image/heif'', ''image/heic''] contentType, 0)),
     gi_GetOriginDimensions = (\<lambda>b contentType. config_dimensions cx ''image'' b),
     gi_GenerateThumbnail = (\<lambda>b contentType width height mthd animated. decoded_thumbnail cx ''heif'' b width height mthd)\<rparr>"

definition bmpGenerator :: "codecs \<Rightarrow> Generator" where
  "bmpGenerator cx = \<lparr>gi_supportedContentTypes = [''image/bmp'', ''image/x-bmp''], gi_supportsAnimation = False,
     gi_matches = (\<lambda>img contentType. (ArrayContains [''image/bmp'', ''image/x-bmp''] contentType, 0)),
     gi_GetOriginDimensions = (\<lambda>b contentType. config_dimensions cx ''bmp'' b),
     gi_GenerateThumbnail = (\<lambda>b contentType width height mthd animated. decoded_thumbnail cx ''bmp'' b width height mthd)\<rparr>"

definition webpGenerator :: "codecs \<Rightarrow> Generator" where
  "webpGenerator cx = \<lparr>gi_supportedContentTypes = [''image/webp''], gi_supportsAnimation = True,
     gi_matches = (\<lambda>img contentType. (contentType = ''image/webp'', 0)),
     gi_GetOriginDimensions = (\<lambda>b contentType. config_dimensions cx ''webp'' b),
     gi_GenerateThumbnail = (\<lambda>b contentType width height mthd animated. decoded_thumbnail cx ''webp'' b width height mthd)\<rparr>"

definition tiffGenerator :: "codecs \<Rightarrow> Generator" where
  "tiffGenerator cx = \<lparr>gi_supportedContentTypes = [''image/tiff''], gi_supportsAnimation = False,
     gi_matches = (\<lambda>img contentType. (contentType = ''image/tiff'', 0)),
     gi_GetOriginDimensions = (\<lambda>b contentType. config_dimensions cx ''tiff'' b),
     gi_GenerateThumbnail = (\<lambda>b contentType width height mthd animated. decoded_thumbnail cx ''tiff'' b width height mthd)\<rparr>"

section \<open>external\_tools.go\<close>

definition fitWithinBox :: "int \<Rightarrow> int \<Rightarrow> int \<Rightarrow> int \<Rightarrow> int \<times> int" where
  "fitWithinBox width height maxWidth maxHeight =
     (if width \<le> 0 \<or> height \<le> 0 then (width, height)
      else if width \<le> maxWidth \<and> height \<le> maxHeight then (width, height)
      else
        let scale = min (f64_div (of_int maxWidth) (of_int width)) (f64_div (of_int maxHeight) (of_int height)) in
        (max 1 \<lfloor>f64_mul (of_int width) scale\<rfloor>, max 1 \<lfloor>f64_mul (of_int height) scale\<rfloor>))"

definition buildRsvgConvertArgs :: "string \<Rightarrow> string \<Rightarrow> int \<Rightarrow> int \<Rightarrow> string list" where
  "buildRsvgConvertArgs inputFile outputFile sourceWidth sourceHeight =
     (case fitWithinBox sourceWidth sourceHeight 4096 4096 of (width, height) \<Rightarrow>
        [''-f'', ''png''] @
        (if width > 0 \<and> height > 0 \<and> (width \<noteq> sourceWidth \<or> height \<noteq> sourceHeight)
         then [''-w'', Itoa width, ''-h'', Itoa height] else []) @
        [''-o'', outputFile, inputFile])"

text \<open>\<open>^JPEG XL image,\s*(\d+)x(\d+)\b\<close> at the start of a line.\<close>

definition re_space :: "char \<Rightarrow> bool" where
  "re_space c \<longleftrightarrow> c \<in> {CHR '' '', CHR 0x09, CHR 0x0a, CHR 0x0c, CHR 0x0d}"

definition re_word :: "char \<Rightarrow> bool" where
  "re_word c \<longleftrightarrow> is_digit c \<or> c = CHR ''_'' \<or> (CHR ''a'' \<le> c \<and> c \<le> CHR ''z'') \<or> (CHR ''A'' \<le> c \<and> c \<le> CHR ''Z'')"

definition jxl_here :: "string \<Rightarrow> (string \<times> string) option" where
  "jxl_here s =
     (if \<not> HasPrefix s ''JPEG XL image,'' then None
      else
        let t = dropWhile re_space (drop 14 s); w = takeWhile is_digit t; t' = drop (length w) t;
            h = takeWhile is_digit (drop 1 t'); t'' = drop (1 + length h) t'
        in if w \<noteq> [] \<and> t' \<noteq> [] \<and> hd t' = CHR ''x'' \<and> h \<noteq> [] \<and> (t'' = [] \<or> \<not> re_word (hd t'')) then Some (w, h) else None)"

fun jxl_find :: "bool \<Rightarrow> string \<Rightarrow> (string \<times> string) option" where
  "jxl_find lineStart [] = None"
| "jxl_find lineStart (c # s) =
     (case (if lineStart then jxl_here (c # s) else None) of
        Some m \<Rightarrow> Some m | None \<Rightarrow> jxl_find (c = CHR 0x0a) s)"

definition parseJXLInfoDimensions :: "string \<Rightarrow> goerr + int \<times> int" where
  "parseJXLInfoDimensions output =
     (case jxl_find True output of
        None \<Rightarrow> Inl (ErrOther (''unexpected jxlinfo output: '' @ TrimSpace output))
      | Some (w, h) \<Rightarrow>
          bindR (fail_with ''invalid jxlinfo width: '' (Atoi w)) (\<lambda>width.
          bindR (fail_with ''invalid jxlinfo height: '' (Atoi h)) (\<lambda>height. Inr (width, height))))"

definition ErrNotFound_exec :: goerr where
  "ErrNotFound_exec = ErrOther ''executable file not found in $PATH''"

definition wrapExternalToolLookupError :: "string \<times> string \<Rightarrow> goerr \<Rightarrow> goerr" where
  "wrapExternalToolLookupError tool err =
     (if err = ErrNotFound_exec then ErrOther (fst tool @ '' not found; '' @ snd tool)
      else ErrOther (''error locating '' @ fst tool @ '': '' @ err_text err))"

definition rsvgConvertTool :: "string \<times> string" where
  "rsvgConvertTool = (''rsvg-convert'', ''use the slim/full container image or install rsvg-convert'')"
definition djxlTool :: "string \<times> string" where
  "djxlTool = (''djxl'', ''use the slim/full container image or install libjxl-tools'')"
definition jxlinfoTool :: "string \<times> string" where
  "jxlinfoTool = (''jxlinfo'', ''use the slim/full container image or install libjxl-tools'')"
definition ffmpegTool :: "string \<times> string" where
  "ffmpegTool = (''ffmpeg'', ''use the full container image or install ffmpeg'')"

text \<open>The command reads the temporary file that was written before; it gives its output and the file it produced.\<close>

definition runExternalToolOutput :: "codecs \<Rightarrow> string \<times> string \<Rightarrow> string list \<Rightarrow> bytes \<Rightarrow> goerr + bytes \<times> bytes" where
  "runExternalToolOutput cx tool args input =
     (case cx_LookPath cx (fst tool) of
        Some err \<Rightarrow> Inl (wrapExternalToolLookupError tool err)
      | None \<Rightarrow> (case cx_Command cx (fst tool) args input of
          (output, None, produced) \<Rightarrow> Inr (output, produced)
        | (output, Some err, produced) \<Rightarrow>
            Inl (ErrOther (fst tool @ '' failed: '' @ err_text err @
              (if TrimSpace output \<noteq> [] then '': '' @ TrimSpace output else [])))))"

definition runExternalTool :: "codecs \<Rightarrow> string \<times> string \<Rightarrow> string list \<Rightarrow> bytes \<Rightarrow> goerr + bytes" where
  "runExternalTool cx tool args input = bindR (runExternalToolOutput cx tool args input) (\<lambda>(_, produced). Inr produced)"

text \<open>A file operation, named by the message of its error.\<close>

definition fs_op :: "codecs \<Rightarrow> string \<Rightarrow> goerr + unit" where
  "fs_op cx msg = (case cx_fs cx msg of None \<Rightarrow> Inr () | Some e \<Rightarrow> Inl (ErrOther (msg @ err_text e)))"

definition temp_file :: "codecs \<Rightarrow> string \<Rightarrow> string \<Rightarrow> goerr + unit" where
  "temp_file cx kind name =
     bindR (fs_op cx (kind @ '': error creating temporary directory: '')) (\<lambda>_.
     bindR (fs_op cx (kind @ '': error creating temp '' @ name @ '' file: '')) (\<lambda>_.
     bindR (fs_op cx (kind @ '': error writing temp '' @ name @ '' file: '')) (\<lambda>_.
     fs_op cx (kind @ '': error closing temp '' @ name @ '' file: ''))))"

definition in_tmp :: "codecs \<Rightarrow> string \<Rightarrow> string" where
  "in_tmp cx name = cx_TempDir cx @ ''/'' @ name"

section \<open>jpegxl.go, mp4.go\<close>

text \<open>The converted picture is read back and made into a thumbnail.\<close>

definition converted_thumbnail :: "codecs \<Rightarrow> string \<Rightarrow> bytes \<Rightarrow> int \<Rightarrow> int \<Rightarrow> string \<Rightarrow> goerr + Thumbnail option" where
  "converted_thumbnail cx kind produced width height mthd =
     bindR (fs_op cx (kind @ '': error reading temp png file: '')) (\<lambda>_.
     png_GenerateThumbnail cx produced width height mthd)"

definition jpegxl_GetOriginDimensions :: "codecs \<Rightarrow> bytes \<Rightarrow> goerr + bool \<times> int \<times> int" where
  "jpegxl_GetOriginDimensions cx b =
     bindR (temp_file cx ''jpegxl'' ''jpegxl'') (\<lambda>_.
     bindR (fail_with ''jpegxl: error reading jpegxl dimensions with jxlinfo: ''
       (runExternalToolOutput cx jxlinfoTool [in_tmp cx ''i.jxl''] b)) (\<lambda>(output, _).
     bindR (fail_with ''jpegxl: error parsing jxlinfo output: '' (parseJXLInfoDimensions output)) (\<lambda>(width, height).
     Inr (True, width, height))))"

definition jpegxl_GenerateThumbnail :: "codecs \<Rightarrow> bytes \<Rightarrow> int \<Rightarrow> int \<Rightarrow> string \<Rightarrow> goerr + Thumbnail option" where
  "jpegxl_GenerateThumbnail cx b width height mthd =
     bindR (temp_file cx ''jpegxl'' ''jpegxl'') (\<lambda>_.
     bindR (fail_with ''jpegxl: error converting jpegxl with djxl: ''
       (runExternalTool cx djxlTool [in_tmp cx ''i.jxl'', in_tmp cx ''o.png'', ''--quiet''] b)) (\<lambda>produced.
     converted_thumbnail cx ''jpegxl'' produced width height mthd))"

definition jpegxlGenerator :: "codecs \<Rightarrow> Generator" where
  "jpegxlGenerator cx = \<lparr>gi_supportedContentTypes = [''image/jxl''], gi_supportsAnimation = False,
     gi_matches = (\<lambda>img contentType. (contentType = ''image/jxl'', 0)),
     gi_GetOriginDimensions = (\<lambda>b contentType. jpegxl_GetOriginDimensions cx b),
     gi_GenerateThumbnail = (\<lambda>b contentType width height mthd animated. jpegxl_GenerateThumbnail cx b width height mthd)\<rparr>"

definition ffmpeg_filter :: string where
  "ffmpeg_filter = ''scale='min(4096,iw)':'min(4096,ih)':force_original_aspect_ratio=1,pad=iw:ih:-1:-1,setsar=1''"

definition mp4_GenerateThumbnail :: "codecs \<Rightarrow> bytes \<Rightarrow> int \<Rightarrow> int \<Rightarrow> string \<Rightarrow> goerr + Thumbnail option" where
  "mp4_GenerateThumbnail cx b width height mthd =
     bindR (temp_file cx ''mp4'' ''video'') (\<lambda>_.
     bindR (fail_with ''mp4: error converting video file with ffmpeg: ''
       (runExternalTool cx ffmpegTool [''-f'', ''mp4'', ''-i'', in_tmp cx ''i.mp4'', ''-frames:v'', ''1'', ''-update'', ''true'',
          ''-vf'', ffmpeg_filter, in_tmp cx ''o.png''] b)) (\<lambda>produced.
     converted_thumbnail cx ''mp4'' produced width height mthd))"

definition mp4Generator :: "codecs \<Rightarrow> Generator" where
  "mp4Generator cx = \<lparr>gi_supportedContentTypes = [''video/mp4''], gi_supportsAnimation = False,
     gi_matches = (\<lambda>img contentType. (ArrayContains [''video/mp4''] contentType, 0)),
     gi_GetOriginDimensions = (\<lambda>b contentType. Inr (False, 0, 0)),
     gi_GenerateThumbnail = (\<lambda>b contentType width height mthd animated. mp4_GenerateThumbnail cx b width height mthd)\<rparr>"

section \<open>svg.go\<close>

text \<open>
  \<open>^\s*([+-]?(?:\d+\.\d+|\d+|\.\d+))(px|in|cm|mm|pt|pc|q)?\s*$\<close>: the number and the unit, which may be empty.
\<close>

definition svg_number :: "string \<Rightarrow> string \<times> string" where
  "svg_number s =
     (let sign = takeWhile (\<lambda>c. c \<in> {CHR ''+'', CHR ''-''}) (take 1 s); t = drop (length sign) s;
          whole = takeWhile is_digit t; t' = drop (length whole) t;
          frac = (if t' \<noteq> [] \<and> hd t' = CHR ''.'' then takeWhile is_digit (tl t') else [])
      in if frac \<noteq> [] then (sign @ whole @ ''.'' @ frac, drop (1 + length frac) t')
         else if whole \<noteq> [] then (sign @ whole, t') else ([], s))"

definition svgLengthPattern :: "string \<Rightarrow> (string \<times> string) option" where
  "svgLengthPattern value =
     (case svg_number (dropWhile re_space value) of (num, rest) \<Rightarrow>
        let unt = takeWhile (\<lambda>c. \<not> re_space c) rest; after = drop (length unt) rest
        in if num \<noteq> [] \<and> unt \<in> {[], ''px'', ''in'', ''cm'', ''mm'', ''pt'', ''pc'', ''q''} \<and> list_all re_space after
           then Some (num, unt) else None)"

definition parseSVGLength :: "codecs \<Rightarrow> string \<Rightarrow> goerr + rat" where
  "parseSVGLength cx value =
     (case svgLengthPattern value of
        None \<Rightarrow> Inl (ErrOther (''unsupported svg length: '' @ value))
      | Some (num, unt) \<Rightarrow>
          bindR (cx_ParseFloat cx num) (\<lambda>number. Inr
            (if unt = ''in'' then f64_mul number 96
             else if unt = ''cm'' then f64_div (f64_mul number 96) (254 / 100)
             else if unt = ''mm'' then f64_div (f64_mul number 96) (254 / 10)
             else if unt = ''pt'' then f64_div (f64_mul number 96) 72
             else if unt = ''pc'' then f64_mul number 16
             else if unt = ''q'' then f64_div (f64_mul number 96) (1016 / 10)
             else number)))"

text \<open>\<open>strings.FieldsFunc\<close>: the maximal runs of other characters.\<close>

definition view_box_sep :: "char \<Rightarrow> bool" where
  "view_box_sep c \<longleftrightarrow> c \<in> {CHR '','', CHR '' '', CHR 0x09, CHR 0x0a, CHR 0x0d}"

fun fields :: "(char \<Rightarrow> bool) \<Rightarrow> string \<Rightarrow> string \<Rightarrow> string list" where
  "fields f [] cur = (if cur = [] then [] else [cur])"
| "fields f (c # s) cur = (if f c then (if cur = [] then [] else [cur]) @ fields f s [] else fields f s (cur @ [c]))"

definition parseSVGViewBox :: "codecs \<Rightarrow> string \<Rightarrow> goerr + rat \<times> rat" where
  "parseSVGViewBox cx value =
     (case fields view_box_sep value [] of
        [_, _, w, h] \<Rightarrow> bindR (cx_ParseFloat cx w) (\<lambda>width. bindR (cx_ParseFloat cx h) (\<lambda>height. Inr (width, height)))
      | _ \<Rightarrow> Inl (ErrOther (''unsupported viewBox: '' @ value)))"

definition getSVGOriginDimensions :: "codecs \<Rightarrow> bytes \<Rightarrow> goerr + bool \<times> int \<times> int" where
  "getSVGOriginDimensions cx b =
     bindR (cx_svg_root cx b) (\<lambda>(rootWidth, rootHeight, rootViewBox).
     case (parseSVGLength cx rootWidth, parseSVGLength cx rootHeight) of
       (Inr width, Inr height) \<Rightarrow>
         if width > 0 \<and> height > 0 then Inr (True, math_Round width, math_Round height)
         else (case parseSVGViewBox cx rootViewBox of
             Inr (w, h) \<Rightarrow> if w > 0 \<and> h > 0 then Inr (True, math_Round w, math_Round h) else Inr (False, 0, 0)
           | Inl _ \<Rightarrow> Inr (False, 0, 0))
     | _ \<Rightarrow> (case parseSVGViewBox cx rootViewBox of
             Inr (w, h) \<Rightarrow> if w > 0 \<and> h > 0 then Inr (True, math_Round w, math_Round h) else Inr (False, 0, 0)
           | Inl _ \<Rightarrow> Inr (False, 0, 0)))"

definition svg_GenerateThumbnail :: "codecs \<Rightarrow> bytes \<Rightarrow> int \<Rightarrow> int \<Rightarrow> string \<Rightarrow> goerr + Thumbnail option" where
  "svg_GenerateThumbnail cx b width height mthd =
     bindR (temp_file cx ''svg'' ''svg'') (\<lambda>_.
     bindR (fs_op cx ''svg: error reopening temp svg file: '') (\<lambda>_.
     bindR (fail_with ''svg: error reading svg dimensions: '' (getSVGOriginDimensions cx b)) (\<lambda>(dimensional, sourceWidth, sourceHeight).
     bindR (fail_with ''svg: error converting svg with rsvg-convert: ''
       (runExternalTool cx rsvgConvertTool
          (if \<not> dimensional then [''-f'', ''png'', ''-o'', in_tmp cx ''o.png'', in_tmp cx ''i.svg'']
           else buildRsvgConvertArgs (in_tmp cx ''i.svg'') (in_tmp cx ''o.png'') sourceWidth sourceHeight) b)) (\<lambda>produced.
     converted_thumbnail cx ''svg'' produced width height mthd))))"

definition svgGenerator :: "codecs \<Rightarrow> Generator" where
  "svgGenerator cx = \<lparr>gi_supportedContentTypes = [''image/svg+xml''], gi_supportsAnimation = False,
     gi_matches = (\<lambda>img contentType. (contentType = ''image/svg+xml'', 0)),
     gi_GetOriginDimensions = (\<lambda>b contentType. getSVGOriginDimensions cx b),
     gi_GenerateThumbnail = (\<lambda>b contentType width height mthd animated. svg_GenerateThumbnail cx b width height mthd)\<rparr>"

section \<open>sample.go, mp3.go, ogg.go, wav.go, flac.go\<close>

text \<open>
  The loop of \<open>FastSampleAudio\<close>: \<open>cur\<close> is the position of the stream; \<open>Stream\<close> delivers one sample or,
  at the end, none.
\<close>

fun fast_sample :: "audio_stream \<Rightarrow> int \<Rightarrow> nat \<Rightarrow> int \<Rightarrow> nat \<Rightarrow> goerr + (rat \<times> rat) list" where
  "fast_sample au everyNth i cur 0 = Inr []"
| "fast_sample au everyNth i cur (Suc left) =
     (let pos = int i * everyNth in
      case (if cur \<noteq> pos then au_Seek au pos else None) of
        Some err \<Rightarrow> Inl (ErrOther (''fast-sample: could not seek: '' @ err_text err))
      | None \<Rightarrow>
          (case au_Stream au (nat pos) of
             Some err \<Rightarrow> Inl (ErrOther (''fast-sample: could not stream: '' @ err_text err))
           | None \<Rightarrow>
               if nat pos < length (au_samples au) then
                 bindR (fast_sample au everyNth (Suc i) (pos + 1) left) (\<lambda>rest. Inr (au_samples au ! nat pos # rest))
               else Inr []))"

definition FastSampleAudio :: "audio_stream \<Rightarrow> nat \<Rightarrow> goerr + (rat \<times> rat) list" where
  "FastSampleAudio au numSamples =
     fast_sample au (math_Round (f64_div (of_nat (length (au_samples au))) (of_nat numSamples))) 0 0 numSamples"

record AudioInfo =
  ai_KeySamples :: "(rat \<times> rat) list"
  ai_Duration :: int
  ai_TotalSamples :: nat
  ai_Channels :: int

definition GetDataFromStream :: "audio_stream \<Rightarrow> nat \<Rightarrow> goerr + AudioInfo" where
  "GetDataFromStream au nKeys =
     bindR (FastSampleAudio au nKeys) (\<lambda>downsampled.
     Inr \<lparr>ai_KeySamples = downsampled, ai_Duration = au_Duration au, ai_TotalSamples = length (au_samples au),
       ai_Channels = au_NumChannels au\<rparr>)"

text \<open>A decoder and the tag parser read a stream that delivers bytes or fails.\<close>

definition audio_decode :: "codecs \<Rightarrow> string \<Rightarrow> goerr + bytes \<Rightarrow> goerr + audio_stream" where
  "audio_decode cx kind b = fail_with (kind @ '': error decoding audio: '') (cx_audio cx kind b)"

definition GetAudioData :: "codecs \<Rightarrow> string \<Rightarrow> bytes \<Rightarrow> nat \<Rightarrow> goerr + AudioInfo" where
  "GetAudioData cx kind b nKeys = bindR (audio_decode cx kind (Inr b)) (\<lambda>au. GetDataFromStream au nKeys)"

definition opaque :: "nat \<Rightarrow> nat \<Rightarrow> nat \<Rightarrow> color" where
  "opaque r g b = (r * 257, g * 257, b * 257, 65535)"

definition bgColor :: color where "bgColor = opaque 41 57 92"
definition fgColor :: color where "fgColor = opaque 240 240 240"

text \<open>The artwork: that of the tags, else the default one, else a black square.\<close>

definition tag_artwork :: "codecs \<Rightarrow> bytes option \<Rightarrow> int \<Rightarrow> picture option" where
  "tag_artwork cx pict sq =
     (case pict of
        None \<Rightarrow> None
      | Some d \<Rightarrow> (case cx_Decode cx ''image'' d of
          Inl _ \<Rightarrow> None
        | Inr artwork \<Rightarrow> (case MakeThumbnail cx artwork ''crop'' sq sq of Inl _ \<Rightarrow> None | Inr p \<Rightarrow> Some p)))"

definition fallback_artwork :: "codecs \<Rightarrow> int \<Rightarrow> int \<Rightarrow> picture" where
  "fallback_artwork cx ax ay =
     (case (case cx_artwork cx of
              None \<Rightarrow> None
            | Some f \<Rightarrow> (case cx_Decode cx ''image'' f of
                Inl _ \<Rightarrow> None
              | Inr tmp \<Rightarrow> (case MakeThumbnail cx tmp ''crop'' ax ay of Inl _ \<Rightarrow> None | Inr p \<Rightarrow> Some p))) of
        Some p \<Rightarrow> p
      | None \<Rightarrow> \<lparr>pic_Min = (0, 0), pic_Max = (ax, ay), pic_at = (\<lambda>_. opaque 0 0 0)\<rparr>)"

definition averaged_sample :: "int \<Rightarrow> rat \<times> rat \<Rightarrow> rat" where
  "averaged_sample channels s = (if channels = 1 then fst s else f64 (f64 (fst s + snd s) / 2))"

text \<open>One column of the plot: a bar from the middle up, or down for a negative sample.\<close>

definition plot_color :: "int \<Rightarrow> rat \<Rightarrow> int \<Rightarrow> color" where
  "plot_color height s y =
     (let center = height sdiv 2;
          distance = math_Round (f64_mul (of_int ((height - 16) sdiv 2)) \<bar>s\<bar>);
          px = (if s < 0 then center + distance else center - distance);
          isWithin = (if s < 0 then center \<le> y \<and> y \<le> px else y \<le> center \<and> px \<le> y)
      in if isWithin then fgColor else bgColor)"

definition plot_waveform :: "int \<Rightarrow> int \<Rightarrow> rat list \<Rightarrow> picture \<Rightarrow> picture" where
  "plot_waveform height waveformX averaged img = img\<lparr>pic_at := (\<lambda>(x, y).
     if waveformX \<le> x \<and> x < waveformX + int (length averaged) \<and> 0 \<le> y \<and> y < height \<and>
        in_rect (pic_Min img) (pic_Max img) (x, y)
     then plot_color height (averaged ! nat (x - waveformX)) y else pic_at img (x, y))\<rparr>"

definition fill_background :: "int \<Rightarrow> int \<Rightarrow> picture \<Rightarrow> picture" where
  "fill_background width height img = img\<lparr>pic_at := (\<lambda>(x, y).
     if 0 \<le> x \<and> x < width \<and> 0 \<le> y \<and> y < height \<and> snd (snd (snd (pic_at img (x, y)))) = 0
     then bgColor else pic_at img (x, y))\<rparr>"

definition audio_picture :: "codecs \<Rightarrow> audio_stream \<Rightarrow> bytes option \<Rightarrow> int \<Rightarrow> int \<Rightarrow> goerr + picture" where
  "audio_picture cx au pict width height =
     (let sq = math_Round (f64_mul (of_int height) (66 / 100));
          tagged = tag_artwork cx pict sq;
          (ax, ay) = (case tagged of Some p \<Rightarrow> pic_Max p | None \<Rightarrow> (sq, sq));
          dy = height sdiv 2 - ay sdiv 2;
          artwork = (case tagged of Some p \<Rightarrow> p | None \<Rightarrow> fallback_artwork cx ax ay);
          img = draw_Draw over_color (16, dy) (ax + 16, ay + dy) artwork (NewRGBA (0, 0) (width, height));
          waveformX = 16 + (ax + 16)
      in bindR (fail_with ''beep-visual: error sampling audio: '' (GetDataFromStream au (nat (max (width - waveformX - 16) 1)))) (\<lambda>info.
         Inr (fill_background width height
           (plot_waveform height waveformX (map (averaged_sample (ai_Channels info)) (ai_KeySamples info)) img))))"

definition GenerateFromStream :: "codecs \<Rightarrow> audio_stream \<Rightarrow> bytes option \<Rightarrow> int \<Rightarrow> int \<Rightarrow> goerr + Thumbnail option" where
  "GenerateFromStream cx au pict width height =
     bindR (audio_picture cx au pict width height) (\<lambda>img.
     bindR (fail_with ''beep-visual: error encoding thumbnail: '' (u_Encode cx False img)) (\<lambda>out. Inr (Some (png_thumbnail out))))"

text \<open>
  Reading the tags copies the stream to a temporary file and opens it again, for writing only: the
  tag parser and later the decoder fail when they read it.
\<close>

definition write_only :: "goerr + bytes" where
  "write_only = Inl (ErrOther ''bad file descriptor'')"

definition GetID3Tags :: "codecs \<Rightarrow> bytes \<Rightarrow> goerr + bytes option \<times> (goerr + bytes)" where
  "GetID3Tags cx b =
     bindR (fs_op cx ''id3: create '') (\<lambda>_. bindR (fs_op cx ''id3: copy '') (\<lambda>_. bindR (fs_op cx ''id3: close '') (\<lambda>_.
     bindR (fs_op cx ''id3: open '') (\<lambda>_. bindR (fs_op cx ''id3: seek '') (\<lambda>_. Inr (cx_ID3Picture cx write_only, write_only))))))"

definition audio_GenerateThumbnail :: "codecs \<Rightarrow> string \<Rightarrow> bytes \<Rightarrow> int \<Rightarrow> int \<Rightarrow> goerr + Thumbnail option" where
  "audio_GenerateThumbnail cx kind b width height =
     bindR (fail_with (kind @ '': error getting tags: '') (GetID3Tags cx b)) (\<lambda>(tags, rc).
     bindR (audio_decode cx kind rc) (\<lambda>au. GenerateFromStream cx au tags width height))"

definition audioGenerator :: "codecs \<Rightarrow> string \<Rightarrow> string \<Rightarrow> Generator" where
  "audioGenerator cx kind ct = \<lparr>gi_supportedContentTypes = [ct], gi_supportsAnimation = False,
     gi_matches = (\<lambda>img contentType. (contentType = ct, 0)),
     gi_GetOriginDimensions = (\<lambda>b contentType. Inr (False, 0, 0)),
     gi_GenerateThumbnail = (\<lambda>b contentType width height mthd animated. audio_GenerateThumbnail cx kind b width height)\<rparr>"

definition mp3Generator :: "codecs \<Rightarrow> Generator" where "mp3Generator cx = audioGenerator cx ''mp3'' ''audio/mpeg''"
definition oggGenerator :: "codecs \<Rightarrow> Generator" where "oggGenerator cx = audioGenerator cx ''ogg'' ''audio/ogg''"
definition wavGenerator :: "codecs \<Rightarrow> Generator" where "wavGenerator cx = audioGenerator cx ''wav'' ''audio/wav''"
definition flacGenerator :: "codecs \<Rightarrow> Generator" where "flacGenerator cx = audioGenerator cx ''flac'' ''audio/flac''"

section \<open>The registered generators\<close>

text \<open>Go runs the \<open>init\<close> functions of a package in the order of its files.\<close>

definition generators :: "codecs \<Rightarrow> RequestContext \<Rightarrow> Generator list" where
  "generators cx ctx =
     [apngGenerator cx, bmpGenerator cx, flacGenerator cx, gifGenerator cx ctx, heifGenerator cx, jpegxlGenerator cx,
      jpgGenerator cx, mp3Generator cx, mp4Generator cx, oggGenerator cx, pngGenerator cx, svgGenerator cx, tiffGenerator cx,
      wavGenerator cx, webpGenerator cx]"

end
