(* ===== verification/GeneratorProofs.thy ===== *)
theory GeneratorProofs
  imports Generators
begin

text \<open>
  What holds of the generators: the scan of an animation decides exactly what it is meant to
  decide on every well-formed file, every supported type has a generator, when a photograph is turned the
  right way, when a still frame of an animation is still, and what goes wrong with audio.
\<close>

section \<open>Well-formed files\<close>

text \<open>An image with the first eight bytes of its descriptor, its flags, colour table, code size and data, or an extension.\<close>

datatype gif_block = GifImage bytes char bytes char "bytes list" | GifExtension char "bytes list"

definition encode_subs :: "bytes list \<Rightarrow> bytes" where
  "encode_subs subs = concat (map (\<lambda>b. char_of (length b) # b) subs) @ [CHR 0x00]"

definition subs_ok :: "bytes list \<Rightarrow> bool" where
  "subs_ok subs = list_all (\<lambda>b. 0 < length b \<and> length b < 256) subs"

definition table_ok :: "char \<Rightarrow> bytes \<Rightarrow> bool" where
  "table_ok flags t \<longleftrightarrow> length t = (if has_color_table flags then color_table_bytes flags else 0)"

fun encode_block :: "gif_block \<Rightarrow> bytes" where
  "encode_block (GifImage d f t l subs) = CHR 0x2c # d @ f # t @ l # encode_subs subs"
| "encode_block (GifExtension l subs) = CHR 0x21 # l # encode_subs subs"

fun block_ok :: "gif_block \<Rightarrow> bool" where
  "block_ok (GifImage d f t l subs) \<longleftrightarrow> length d = 8 \<and> table_ok f t \<and> subs_ok subs"
| "block_ok (GifExtension l subs) \<longleftrightarrow> subs_ok subs"

fun is_image :: "gif_block \<Rightarrow> bool" where
  "is_image (GifImage d f t l subs) = True"
| "is_image (GifExtension l subs) = False"

definition images :: "gif_block list \<Rightarrow> int" where
  "images bs = int (length (filter is_image bs))"

section \<open>What a step of the scan consumes\<close>

definition consumes :: "int \<Rightarrow> (gifComplexityScanner, 'a) io \<Rightarrow> bytes \<Rightarrow> 'a \<Rightarrow> bool" where
  "consumes mx m a x \<longleftrightarrow> (\<forall>n r. \<not> too_large mx n \<longrightarrow>
     (if too_large mx (n + int (length a)) then fst (m \<lparr>gs_rest = a @ r, gs_bytesRead = n\<rparr>) = Inl errAnimatedGIFTooLarge
      else m \<lparr>gs_rest = a @ r, gs_bytesRead = n\<rparr> = (Inr x, \<lparr>gs_rest = r, gs_bytesRead = n + int (length a)\<rparr>)))"

lemma too_large_mono: "too_large mx n \<Longrightarrow> n \<le> n' \<Longrightarrow> too_large mx n'"
  by (simp add: too_large_def)

lemma consumesD:
  assumes "consumes mx m a x" "\<not> too_large mx n"
  shows "too_large mx (n + int (length a)) \<Longrightarrow> fst (m \<lparr>gs_rest = a @ r, gs_bytesRead = n\<rparr>) = Inl errAnimatedGIFTooLarge"
    and "\<not> too_large mx (n + int (length a)) \<Longrightarrow>
      m \<lparr>gs_rest = a @ r, gs_bytesRead = n\<rparr> = (Inr x, \<lparr>gs_rest = r, gs_bytesRead = n + int (length a)\<rparr>)"
  using assms by (auto simp: consumes_def)

lemma consumes_return: "consumes mx (returnE x) [] x"
  by (simp add: consumes_def returnE_def)

lemma consumes_readFull: "length a = n \<Longrightarrow> consumes mx (gs_readFull mx n) a a"
  by (auto simp: consumes_def gs_readFull_def Let_def)

lemma consumes_skipBytes: "length a = n \<Longrightarrow> consumes mx (gs_skipBytes mx n) a ()"
  by (auto simp: consumes_def gs_skipBytes_def Let_def)

lemma consumes_bind:
  assumes "consumes mx m a x" "consumes mx (f x) b y"
  shows "consumes mx (bindE m f) (a @ b) y"
  unfolding consumes_def
proof (intro allI impI)
  fix n r
  assume n: "\<not> too_large mx n"
  show "if too_large mx (n + int (length (a @ b))) then fst (bindE m f \<lparr>gs_rest = (a @ b) @ r, gs_bytesRead = n\<rparr>) = Inl errAnimatedGIFTooLarge
     else bindE m f \<lparr>gs_rest = (a @ b) @ r, gs_bytesRead = n\<rparr> = (Inr y, \<lparr>gs_rest = r, gs_bytesRead = n + int (length (a @ b))\<rparr>)"
  proof (cases "too_large mx (n + int (length a))")
    case True
    then have "fst (m \<lparr>gs_rest = a @ b @ r, gs_bytesRead = n\<rparr>) = Inl errAnimatedGIFTooLarge"
      using consumesD(1) [OF assms(1) n] by blast
    then have "fst (bindE m f \<lparr>gs_rest = (a @ b) @ r, gs_bytesRead = n\<rparr>) = Inl errAnimatedGIFTooLarge"
      by (auto simp: bindE_def split: prod.split)
    then show ?thesis using too_large_mono [OF True, of "n + int (length (a @ b))"] by simp
  next
    case False
    then have "bindE m f \<lparr>gs_rest = (a @ b) @ r, gs_bytesRead = n\<rparr> = f x \<lparr>gs_rest = b @ r, gs_bytesRead = n + int (length a)\<rparr>"
      using consumesD(2) [OF assms(1) n False] by (simp add: bindE_def)
    then show ?thesis using consumesD [OF assms(2) False, of r] by (simp add: add.assoc)
  qed
qed

lemma consumes_then: "consumes mx m a x \<Longrightarrow> consumes mx m' b y \<Longrightarrow> consumes mx (thenE m m') (a @ b) y"
  unfolding thenE_def by (rule consumes_bind)

lemma gs_skipSubBlocks_unfold:
  "gs_skipSubBlocks mx = bindE (gs_readFull mx 1) (\<lambda>sz.
     if hd sz = CHR 0x00 then returnE () else thenE (gs_skipBytes mx (of_char (hd sz))) (gs_skipSubBlocks mx))"
  by (rule HOL.ext) (subst gs_skipSubBlocks.simps, auto simp: bindE_def thenE_def returnE_def split: prod.split sum.split)

lemma consumes_skipSubBlocks: "subs_ok subs \<Longrightarrow> consumes mx (gs_skipSubBlocks mx) (encode_subs subs) ()"
proof (induction subs)
  case Nil
  have "consumes mx (bindE (gs_readFull mx 1) (\<lambda>sz.
     if hd sz = CHR 0x00 then returnE () else thenE (gs_skipBytes mx (of_char (hd sz))) (gs_skipSubBlocks mx))) ([CHR 0x00] @ []) ()"
    by (rule consumes_bind [OF consumes_readFull]) (simp_all add: consumes_return)
  then show ?case by (subst gs_skipSubBlocks_unfold) (simp add: encode_subs_def)
next
  case (Cons b subs)
  let ?c = "char_of (length b) :: char"
  have c: "?c \<noteq> CHR 0x00" "of_char ?c = length b"
  proof -
    show *: "of_char ?c = length b" using Cons.prems by (simp add: subs_ok_def)
    show "?c \<noteq> CHR 0x00"
    proof
      assume "?c = CHR 0x00"
      then have "of_char ?c = (0 :: nat)" by simp
      with * show False using Cons.prems by (simp add: subs_ok_def)
    qed
  qed
  have "consumes mx (thenE (gs_skipBytes mx (of_char ?c)) (gs_skipSubBlocks mx)) (b @ encode_subs subs) ()"
    using Cons c by (intro consumes_then) (auto simp: subs_ok_def consumes_skipBytes)
  then have "consumes mx (bindE (gs_readFull mx 1) (\<lambda>sz.
     if hd sz = CHR 0x00 then returnE () else thenE (gs_skipBytes mx (of_char (hd sz))) (gs_skipSubBlocks mx)))
     ([?c] @ b @ encode_subs subs) ()"
    using c by (intro consumes_bind [OF consumes_readFull]) simp_all
  then show ?case by (subst gs_skipSubBlocks_unfold) (simp add: encode_subs_def)
qed

lemma consumes_image_data:
  assumes "table_ok f t" "subs_ok subs" "length d = 8"
  shows "consumes mx (gs_image_data mx (d @ [f])) (t @ l # encode_subs subs) ()"
proof -
  have "consumes mx (whenE (has_color_table f) (gs_skipBytes mx (color_table_bytes f))) t ()"
    using assms(1) consumes_skipBytes [of t "color_table_bytes f" mx] consumes_return [of mx "()"]
    by (auto simp: whenE_def table_ok_def)
  then have "consumes mx (thenE (whenE (has_color_table f) (gs_skipBytes mx (color_table_bytes f)))
      (thenE (gs_skipBytes mx 1) (gs_skipSubBlocks mx))) (t @ [l] @ encode_subs subs) ()"
    using assms(2) by (intro consumes_then) (simp_all add: consumes_skipBytes consumes_skipSubBlocks)
  then show ?thesis using assms(3) by (simp add: gs_image_data_def nth_append)
qed

lemma consumes_extension: "subs_ok subs \<Longrightarrow> consumes mx (gs_extension mx) (l # encode_subs subs) ()"
  using consumes_then [OF consumes_skipBytes [of "[l]" 1 mx] consumes_skipSubBlocks [of subs mx]] by (simp add: gs_extension_def)

text \<open>Whether the scan of the animation ends with the fallback to a still frame.\<close>

fun falls_back :: "goerr + bool \<Rightarrow> bool" where
  "falls_back (Inl e) \<longleftrightarrow> e = errAnimatedGIFTooLarge"
| "falls_back (Inr b) \<longleftrightarrow> b"

lemma images_Cons: "images (b # bs) = of_bool (is_image b) + images bs"
  by (simp add: images_def)

lemma images_nonneg: "0 \<le> images bs"
  by (simp add: images_def)

lemma gs_blocks_unfold:
  "gs_blocks mx lp mp frames tot = bindE (gs_readFull mx 1) (\<lambda>b.
     if hd b = CHR 0x2c then bindE (gs_readFull mx 9) (\<lambda>d.
       if frames + 1 > maxAnimatedGIFFrames \<or> int64 (tot + lp) > mp then returnE True
       else thenE (gs_image_data mx d) (gs_blocks mx lp mp (frames + 1) (int64 (tot + lp))))
     else if hd b = CHR 0x21 then thenE (gs_extension mx) (gs_blocks mx lp mp frames tot)
     else if hd b = CHR 0x3b then returnE False else throwE (ErrOther ''unknown gif block type''))"
  by (rule HOL.ext) (subst gs_blocks.simps, auto simp: bindE_def thenE_def returnE_def throwE_def Let_def split: prod.split sum.split)

lemma fst_bind:
  "fst (m s) = Inl e \<Longrightarrow> fst (bindE m f s) = Inl e"
  "m s = (Inr x, s') \<Longrightarrow> bindE m f s = f x s'"
  by (auto simp: bindE_def split: prod.split)

lemma falls_back_step:
  assumes "consumes mx m a x" "\<not> too_large mx n"
  shows "too_large mx (n + int (length a)) \<Longrightarrow> falls_back (fst (bindE m f \<lparr>gs_rest = a @ r, gs_bytesRead = n\<rparr>))"
    and "\<not> too_large mx (n + int (length a)) \<Longrightarrow>
      bindE m f \<lparr>gs_rest = a @ r, gs_bytesRead = n\<rparr> = f x \<lparr>gs_rest = r, gs_bytesRead = n + int (length a)\<rparr>"
proof -
  assume "too_large mx (n + int (length a))"
  then have "fst (bindE m f \<lparr>gs_rest = a @ r, gs_bytesRead = n\<rparr>) = Inl errAnimatedGIFTooLarge"
    by (intro fst_bind(1) consumesD(1) [OF assms])
  then show "falls_back (fst (bindE m f \<lparr>gs_rest = a @ r, gs_bytesRead = n\<rparr>))" by simp
next
  assume "\<not> too_large mx (n + int (length a))"
  then show "bindE m f \<lparr>gs_rest = a @ r, gs_bytesRead = n\<rparr> = f x \<lparr>gs_rest = r, gs_bytesRead = n + int (length a)\<rparr>"
    by (intro fst_bind(2) consumesD(2) [OF assms])
qed

text \<open>One block after another, with the number of frames and pixels so far.\<close>

lemma gs_blocks_falls_back:
  assumes "list_all block_ok bs" "\<not> too_large mx n" "0 \<le> lp" "lp < 2 ^ 32" "0 \<le> frames" "frames \<le> 256" "frames * lp \<le> mp"
  shows "falls_back (fst (gs_blocks mx lp mp frames (frames * lp)
       \<lparr>gs_rest = concat (map encode_block bs) @ CHR 0x3b # r, gs_bytesRead = n\<rparr>)) \<longleftrightarrow>
     frames + images bs > 256 \<or> (frames + images bs) * lp > mp \<or> too_large mx (n + int (length (concat (map encode_block bs))) + 1)"
  using assms
proof (induction bs arbitrary: n frames)
  case Nil
  note st = falls_back_step [OF consumes_readFull [of "[CHR 0x3b]" 1 mx] Nil.prems(2), of _ r, simplified]
  show ?case
  proof (cases "too_large mx (n + 1)")
    case True
    then show ?thesis using st(1) by (subst gs_blocks_unfold) simp
  next
    case False
    have "fst (gs_blocks mx lp mp frames (frames * lp) \<lparr>gs_rest = CHR 0x3b # r, gs_bytesRead = n\<rparr>) = Inr False"
      using st(2) [OF False] by (subst gs_blocks_unfold) (simp add: returnE_def)
    then show ?thesis using False Nil.prems by (simp add: images_def)
  qed
next
  case (Cons b bs)
  show ?case
  proof (cases b)
    case (GifExtension l subs)
    let ?a = "l # encode_subs subs"
    let ?r = "concat (map encode_block bs) @ CHR 0x3b # r"
    have ok: "subs_ok subs" "list_all block_ok bs" using Cons.prems(1) GifExtension by auto
    note st1 = falls_back_step [OF consumes_readFull [of "[CHR 0x21]" 1 mx] Cons.prems(2), of _ "?a @ ?r", simplified]
    have len: "int (length (concat (map encode_block (b # bs)))) = 1 + int (length ?a) + int (length (concat (map encode_block bs)))"
      using GifExtension by simp
    show ?thesis
    proof (cases "too_large mx (n + 1)")
      case True
      then have "falls_back (fst (gs_blocks mx lp mp frames (frames * lp) \<lparr>gs_rest = CHR 0x21 # ?a @ ?r, gs_bytesRead = n\<rparr>))"
        using st1(1) by (subst gs_blocks_unfold) simp
      then show ?thesis using too_large_mono [OF True] GifExtension by simp
    next
      case False
      note st2 = falls_back_step [OF consumes_extension [OF ok(1), of mx l] False, of _ ?r, simplified]
      have eq: "gs_blocks mx lp mp frames (frames * lp) \<lparr>gs_rest = CHR 0x21 # ?a @ ?r, gs_bytesRead = n\<rparr> =
          thenE (gs_extension mx) (gs_blocks mx lp mp frames (frames * lp)) \<lparr>gs_rest = ?a @ ?r, gs_bytesRead = n + 1\<rparr>"
        using st1(2) [OF False] by (subst gs_blocks_unfold) simp
      show ?thesis
      proof (cases "too_large mx (n + 1 + int (length ?a))")
        case True
        then have "falls_back (fst (thenE (gs_extension mx) (gs_blocks mx lp mp frames (frames * lp)) \<lparr>gs_rest = ?a @ ?r, gs_bytesRead = n + 1\<rparr>))"
          using st2(1) unfolding thenE_def by simp
        moreover have "too_large mx (n + int (length (concat (map encode_block (b # bs)))) + 1)"
          unfolding len by (rule too_large_mono [OF True]) simp
        ultimately show ?thesis using eq GifExtension by simp
      next
        case False
        have "thenE (gs_extension mx) (gs_blocks mx lp mp frames (frames * lp)) \<lparr>gs_rest = ?a @ ?r, gs_bytesRead = n + 1\<rparr> =
            gs_blocks mx lp mp frames (frames * lp) \<lparr>gs_rest = ?r, gs_bytesRead = n + 1 + int (length ?a)\<rparr>"
          using st2(2) False unfolding thenE_def by simp
        moreover have "n + 1 + int (length ?a) + int (length (concat (map encode_block bs))) + 1 =
            n + int (length (concat (map encode_block (b # bs)))) + 1" unfolding len by simp
        ultimately show ?thesis
          using Cons.IH [OF ok(2) False Cons.prems(3-7)] eq GifExtension by (simp add: images_Cons)
      qed
    qed
  next
    case (GifImage d f t l subs)
    let ?d = "d @ [f]" and ?a = "t @ l # encode_subs subs"
    let ?r = "concat (map encode_block bs) @ CHR 0x3b # r"
    let ?S = "\<lparr>gs_rest = CHR 0x2c # ?d @ ?a @ ?r, gs_bytesRead = n\<rparr>"
    let ?last = "n + int (length (concat (map encode_block (b # bs)))) + 1"
    have ok: "length d = 8" "table_ok f t" "subs_ok subs" "list_all block_ok bs" using Cons.prems(1) GifImage by auto
    have S: "\<lparr>gs_rest = concat (map encode_block (b # bs)) @ CHR 0x3b # r, gs_bytesRead = n\<rparr> = ?S"
      using GifImage by simp
    have len: "?last = n + 10 + int (length ?a) + int (length (concat (map encode_block bs))) + 1"
      using GifImage ok(1) by simp
    have tot: "int64 (frames * lp + lp) = (frames + 1) * lp"
    proof -
      have "(frames + 1) * lp \<le> 257 * 2 ^ 32" using Cons.prems by (intro mult_mono) auto
      moreover have "0 \<le> (frames + 1) * lp" using Cons.prems by simp
      ultimately have "in_int64 ((frames + 1) * lp)" by (simp add: in_int64_def)
      then show ?thesis by (simp add: int64_id algebra_simps)
    qed
    let ?next = "\<lambda>d. if frames + 1 > maxAnimatedGIFFrames \<or> int64 (frames * lp + lp) > mp then returnE True
       else thenE (gs_image_data mx d) (gs_blocks mx lp mp (frames + 1) (int64 (frames * lp + lp)))"
    have mono: "(frames + 1) * lp \<le> (frames + images (b # bs)) * lp"
      using GifImage images_nonneg [of bs] Cons.prems(3) by (intro mult_right_mono) (simp_all add: images_Cons)
    note st1 = falls_back_step [OF consumes_readFull [of "[CHR 0x2c]" 1 mx] Cons.prems(2), of _ "?d @ ?a @ ?r", simplified]
    show ?thesis
    proof (cases "too_large mx (n + 10)")
      case True
      have "falls_back (fst (gs_blocks mx lp mp frames (frames * lp) ?S))"
      proof (cases "too_large mx (n + 1)")
        case True
        then show ?thesis using st1(1) by (subst gs_blocks_unfold) simp
      next
        case False
        note st2 = falls_back_step(1) [OF consumes_readFull [of ?d 9 mx] False, of ?next "?a @ ?r"]
        have "gs_blocks mx lp mp frames (frames * lp) ?S =
            bindE (gs_readFull mx 9) ?next \<lparr>gs_rest = ?d @ ?a @ ?r, gs_bytesRead = n + 1\<rparr>"
          using st1(2) [OF False] by (subst gs_blocks_unfold) simp
        then show ?thesis using st2 ok(1) True by (simp add: add.commute)
      qed
      moreover have "too_large mx ?last" unfolding len by (rule too_large_mono [OF True]) simp
      ultimately show ?thesis unfolding S by simp
    next
      case False
      then have n1: "\<not> too_large mx (n + 1)" by (auto simp: too_large_def)
      note st2 = falls_back_step(2) [OF consumes_readFull [of ?d 9 mx] n1, of ?next "?a @ ?r"]
      have "gs_blocks mx lp mp frames (frames * lp) ?S =
          bindE (gs_readFull mx 9) ?next \<lparr>gs_rest = ?d @ ?a @ ?r, gs_bytesRead = n + 1\<rparr>"
        using st1(2) [OF n1] by (subst gs_blocks_unfold) simp
      then have eq: "gs_blocks mx lp mp frames (frames * lp) ?S = ?next ?d \<lparr>gs_rest = ?a @ ?r, gs_bytesRead = n + 10\<rparr>"
        using st2 ok(1) False by (simp add: add.commute)
      show ?thesis
      proof (cases "frames + 1 > 256 \<or> (frames + 1) * lp > mp")
        case True
        then have "fst (gs_blocks mx lp mp frames (frames * lp) ?S) = Inr True"
          using eq tot by (simp add: maxAnimatedGIFFrames_def returnE_def)
        moreover have "frames + images (b # bs) > 256 \<or> (frames + images (b # bs)) * lp > mp"
          using True mono GifImage images_nonneg [of bs] by (auto simp: images_Cons)
        ultimately show ?thesis unfolding S by auto
      next
        case False': False
        note st3 = falls_back_step [OF consumes_image_data [OF ok(2,3,1), of mx l] False,
            of "\<lambda>_. gs_blocks mx lp mp (frames + 1) ((frames + 1) * lp)" ?r]
        have eq': "gs_blocks mx lp mp frames (frames * lp) ?S =
            bindE (gs_image_data mx ?d) (\<lambda>_. gs_blocks mx lp mp (frames + 1) ((frames + 1) * lp))
              \<lparr>gs_rest = ?a @ ?r, gs_bytesRead = n + 10\<rparr>"
          using eq tot False' by (simp add: maxAnimatedGIFFrames_def thenE_def)
        show ?thesis
        proof (cases "too_large mx (n + 10 + int (length ?a))")
          case True
          then have "falls_back (fst (gs_blocks mx lp mp frames (frames * lp) ?S))" using st3(1) eq' by simp
          moreover have "too_large mx ?last" unfolding len by (rule too_large_mono [OF True]) simp
          ultimately show ?thesis unfolding S by simp
        next
          case False
          have "gs_blocks mx lp mp frames (frames * lp) ?S =
              gs_blocks mx lp mp (frames + 1) ((frames + 1) * lp) \<lparr>gs_rest = ?r, gs_bytesRead = n + 10 + int (length ?a)\<rparr>"
            using st3(2) False eq' by simp
          note run = this
          have im: "frames + images (b # bs) = frames + 1 + images bs" using GifImage by (simp add: images_Cons)
          note IH = Cons.IH [OF ok(4) False Cons.prems(3,4), of "frames + 1"]
          show ?thesis
            unfolding S len im run by (rule IH) (use Cons.prems False' in auto)
        qed
      qed
    qed
  qed
qed

definition encode_gif :: "bytes \<Rightarrow> bytes \<Rightarrow> gif_block list \<Rightarrow> bytes" where
  "encode_gif h t bs = h @ t @ concat (map encode_block bs) @ [CHR 0x3b]"

definition gif_ok :: "bytes \<Rightarrow> bytes \<Rightarrow> gif_block list \<Rightarrow> bool" where
  "gif_ok h t bs \<longleftrightarrow> length h = 13 \<and> take 3 h = ''GIF'' \<and> table_ok (h ! 10) t \<and> list_all block_ok bs"

lemma le16_bounds: "0 \<le> le16 b i" "le16 b i < 2 ^ 16"
proof -
  have c: "(of_char c :: int) < 256" "0 \<le> (of_char c :: int)" for c :: char
  proof -
    have "(of_char c :: int) = int (of_char c)" by (simp only: of_nat_of_char)
    moreover have "(of_char c :: nat) < 256" by (rule nat_of_char_less_256)
    ultimately show "(of_char c :: int) < 256" "0 \<le> (of_char c :: int)" by linarith+
  qed
  show "0 \<le> le16 b i" "le16 b i < 2 ^ 16" using c [of "b ! i"] c [of "b ! (i + 1)"] by (simp_all add: le16_def)
qed

lemma falls_back_guard:
  "guardAnimatedGIFReader ctx b = (b, falls_back (fst (exceedsAnimationComplexity ctx \<lparr>gs_rest = b, gs_bytesRead = 0\<rparr>)))"
  by (auto simp: guardAnimatedGIFReader_def split: sum.split)

text \<open>
  C40: For every well-formed file (a header, a colour table, any number of images and extensions with
  their data, a trailer, and anything after it) the scan falls back to a still frame exactly when
  the file has more than 256 images, or the images together more pixels than allowed, or the file up to the
  trailer more bytes than an animation may have.  Pixels do not overflow, and the generator gets
  the whole stream in both cases.
\<close>

theorem guard_decides:
  assumes "gif_ok h t bs"
  shows "guardAnimatedGIFReader ctx (encode_gif h t bs @ rest) =
    (encode_gif h t bs @ rest,
     images bs > 256 \<or> images bs * (le16 h 6 * le16 h 8) > max_total_pixels ctx \<or>
     too_large (th_MaxAnimateSizeBytes (Thumbnails (ctx_Config ctx))) (int (length (encode_gif h t bs))))"
proof -
  let ?mx = "th_MaxAnimateSizeBytes (Thumbnails (ctx_Config ctx))" and ?lp = "le16 h 6 * le16 h 8" and ?mp = "max_total_pixels ctx"
  let ?bs = "concat (map encode_block bs)"
  have h: "length h = 13" "take 3 h = ''GIF''" "table_ok (h ! 10) t" "list_all block_ok bs" using assms by (auto simp: gif_ok_def)
  have lp: "0 \<le> ?lp" "?lp < 2 ^ 32"
  proof -
    show "0 \<le> ?lp" using le16_bounds by simp
    have "?lp \<le> (2 ^ 16 - 1) * (2 ^ 16 - 1)" using le16_bounds [of h 6] le16_bounds [of h 8] by (intro mult_mono) auto
    then show "?lp < 2 ^ 32" by simp
  qed
  have lp': "int64 ?lp = ?lp" using lp by (intro int64_id) (simp add: in_int64_def)
  have mp: "0 \<le> ?mp" by (simp add: max_total_pixels_def Let_def)
  let ?tbl = "whenE (has_color_table (h ! 10)) (gs_skipBytes ?mx (color_table_bytes (h ! 10)))"
  have "consumes ?mx ?tbl t ()"
    using h(3) consumes_skipBytes [of t "color_table_bytes (h ! 10)" ?mx] consumes_return [of ?mx "()"]
    by (auto simp: whenE_def table_ok_def)
  note hdr = consumes_readFull [OF h(1), of ?mx] and tbl = this
  let ?S = "\<lparr>gs_rest = h @ t @ ?bs @ CHR 0x3b # rest, gs_bytesRead = 0\<rparr>"
  let ?blocks = "gs_blocks ?mx ?lp ?mp 0 0"
  let ?next = "\<lambda>h. if take 3 h \<noteq> ''GIF'' then throwE (ErrOther ''not a gif'')
      else thenE (whenE (has_color_table (h ! 10)) (gs_skipBytes ?mx (color_table_bytes (h ! 10))))
        (gs_blocks ?mx (int64 (le16 h 6 * le16 h 8)) ?mp 0 0)"
  have ex: "exceedsAnimationComplexity ctx ?S = bindE (gs_readFull ?mx 13) ?next ?S"
    by (simp add: exceedsAnimationComplexity_def Let_def)
  have n0: "\<not> too_large ?mx 0" by (simp add: too_large_def)
  note st1 = falls_back_step [OF hdr n0, of ?next "t @ ?bs @ CHR 0x3b # rest"]
  have len: "int (length (encode_gif h t bs)) = 0 + int (length h) + int (length t) + int (length ?bs) + 1"
    by (simp add: encode_gif_def)
  have "falls_back (fst (exceedsAnimationComplexity ctx ?S)) \<longleftrightarrow>
     images bs > 256 \<or> images bs * ?lp > ?mp \<or> too_large ?mx (int (length (encode_gif h t bs)))"
  proof (cases "too_large ?mx (0 + int (length h))")
    case True
    then have "too_large ?mx (int (length (encode_gif h t bs)))" unfolding len by (rule too_large_mono) simp
    then show ?thesis using st1(1) [OF True] ex by simp
  next
    case False
    note st2 = falls_back_step [OF tbl False, of "\<lambda>_. ?blocks" "?bs @ CHR 0x3b # rest"]
    have run: "exceedsAnimationComplexity ctx ?S =
        bindE ?tbl (\<lambda>_. ?blocks) \<lparr>gs_rest = t @ ?bs @ CHR 0x3b # rest, gs_bytesRead = 0 + int (length h)\<rparr>"
      unfolding ex st1(2) [OF False] using h(2) lp' by (simp add: thenE_def)
    show ?thesis
    proof (cases "too_large ?mx (0 + int (length h) + int (length t))")
      case True
      then have "too_large ?mx (int (length (encode_gif h t bs)))" unfolding len by (rule too_large_mono) simp
      then show ?thesis using st2(1) [OF True] run by simp
    next
      case False
      show ?thesis
        unfolding run st2(2) [OF False] len
        using gs_blocks_falls_back [OF h(4) False lp, of 0 ?mp rest] mp by simp
    qed
  qed
  then show ?thesis by (simp add: falls_back_guard encode_gif_def)
qed

text \<open>A file of one picture of one pixel, without colours, and limits that it keeps.\<close>

definition demo_gif_header :: bytes where
  "demo_gif_header = ''GIF89a'' @ [CHR 0x01, CHR 0x00, CHR 0x01, CHR 0x00, CHR 0x00, CHR 0x00, CHR 0x00]"

definition demo_gif_block :: gif_block where
  "demo_gif_block = GifImage (replicate 8 (CHR 0x01)) (CHR 0x00) [] (CHR 0x02) [[CHR 0x44]]"

theorem guard_decides_witness:
  "\<exists>ctx. snd (guardAnimatedGIFReader ctx (encode_gif demo_gif_header [] [demo_gif_block])) = False"
proof -
  define ctx where "ctx = rcontext_Initial NewDefaultMainConfig"
  have ok: "gif_ok demo_gif_header [] [demo_gif_block]"
    by (simp add: gif_ok_def demo_gif_header_def demo_gif_block_def table_ok_def has_color_table_def subs_ok_def)
  have mx: "th_MaxAnimateSizeBytes (Thumbnails (ctx_Config ctx)) = 10485760" "max_total_pixels ctx = 32000000"
    by (simp_all add: ctx_def rcontext_Initial_def NewDefaultMainConfig_def max_total_pixels_def MainRepoConfig.defs
        MinimumRepoConfig.defs DomainRepoConfig.defs ThumbnailsConfig.defs defaultThumbnails_def)
  have "guardAnimatedGIFReader ctx (encode_gif demo_gif_header [] [demo_gif_block] @ []) =
      (encode_gif demo_gif_header [] [demo_gif_block] @ [], False)"
    unfolding guard_decides [OF ok] mx
    by (simp add: images_def demo_gif_header_def demo_gif_block_def le16_def too_large_def encode_gif_def encode_subs_def)
  then show ?thesis by (intro exI [of _ ctx]) simp
qed

section \<open>Choosing a generator\<close>

lemma find_generator_finds:
  assumes "g \<in> set gens" "needsAnimation \<Longrightarrow> gi_supportsAnimation g" "\<And>b. fst (gi_matches g b ct)"
  shows "find_generator gens img ct needsAnimation \<noteq> None"
  using assms
proof (induction gens arbitrary: img)
  case (Cons g' gens)
  show ?case
  proof (cases "g = g'")
    case True
    then have "fst (gi_matches g' img ct)" "\<not> (needsAnimation \<and> \<not> gi_supportsAnimation g')" using Cons.prems by auto
    then show ?thesis by (cases "gi_matches g' img ct") auto
  next
    case False
    then have "g \<in> set gens" using Cons.prems(1) by simp
    then show ?thesis using Cons.IH Cons.prems(2,3) by (auto split: prod.split bool.split)
  qed
qed simp

text \<open>Every content type that is announced as supported has a generator, animated or not.\<close>

lemma supported_has_generator:
  assumes "ArrayContains (concat (map gi_supportedContentTypes (generators cx ctx))) ct"
  shows "GetGenerator (generators cx ctx) img ct animated \<noteq> None"
proof -
  have in_list: "pngGenerator cx \<in> set (generators cx ctx)" by (simp add: generators_def)
  have "\<exists>g \<in> set (generators cx ctx). \<forall>b. fst (gi_matches g b ct)"
  proof (cases "ct = ''image/png''")
    case True
    then show ?thesis using in_list by (intro bexI [of _ "pngGenerator cx"]) (simp_all add: pngGenerator_def)
  next
    case False
    then show ?thesis
      using assms unfolding ArrayContains_iff generators_def mp3Generator_def oggGenerator_def wavGenerator_def flacGenerator_def
      by (auto simp: apngGenerator_def bmpGenerator_def gifGenerator_def heifGenerator_def
          jpegxlGenerator_def jpgGenerator_def mp4Generator_def pngGenerator_def svgGenerator_def
          tiffGenerator_def webpGenerator_def audioGenerator_def)
  qed
  then obtain g where "g \<in> set (generators cx ctx)" "\<And>b. fst (gi_matches g b ct)" by blast
  then have "find_generator (generators cx ctx) img ct False \<noteq> None" by (intro find_generator_finds) auto
  then show ?thesis by (auto simp: GetGenerator_def split: option.split)
qed

section \<open>Still frames of animations\<close>

lemma png_still: "png_GenerateThumbnailOf cx src w h m = Inr r \<Longrightarrow> \<exists>t. r = Some t \<and> \<not> tn_Animated t"
  by (auto simp: png_GenerateThumbnailOf_def bindR_def fail_with_def png_thumbnail_def split: sum.splits)

lemma still_or_encode_still: "still_or_encode cx msg src w h m = Inr t \<Longrightarrow> \<not> tn_Animated t"
  by (auto simp: still_or_encode_def bindR_def png_thumbnail_def split: sum.splits option.splits dest!: png_still)

text \<open>When the frame that is asked for exists, the result is that frame.\<close>

lemma gif_loop_still:
  assumes "gif_loop cx w h m False target i imgs frameImg disp acc = Inr r" "int i \<le> target" "target < int (i + length imgs)"
  shows "\<exists>t. r = Inl t \<and> \<not> tn_Animated t"
  using assms
proof (induction imgs arbitrary: i frameImg disp acc)
  case (Cons p imgs)
  obtain img pal where p: "p = (img, pal)" by fastforce
  show ?case
  proof (cases "int i = target")
    case True
    then show ?thesis using Cons.prems(1) by (auto simp: p bindR_def fail_with_def split: sum.splits dest!: still_or_encode_still)
  next
    case False
    then have "int (Suc i) \<le> target" "target < int (Suc i + length imgs)" using Cons.prems(2,3) by auto
    then show ?thesis
      using Cons.prems(1) False by (auto simp: p bindR_def fail_with_def Let_def split: sum.splits if_splits intro: Cons.IH)
  qed
qed simp

lemma gif_redraw_still:
  assumes "cx_gif_DecodeAll cx b = Inr g" "gif_redraw cx ctx b w h m False = Inr (Some t)"
    and "0 \<le> still_index (th_StillFrame (Thumbnails (ctx_Config ctx))) (length (gif_Image g))"
    and "still_index (th_StillFrame (Thumbnails (ctx_Config ctx))) (length (gif_Image g)) < int (length (gif_Image g))"
  shows "\<not> tn_Animated t"
  using assms gif_loop_still [of cx w h m _ 0 "gif_Image g"]
  by (fastforce simp: gif_redraw_def bindR_def fail_with_def split: sum.splits list.splits)

text \<open>With a still frame of 1 the index is one past the last frame, and a still request gets an animation.\<close>

lemma still_index_one: "still_index 1 1 = 1"
proof -
  have "log2_floor 1100 1 = 0" by (simp add: numeral_eq_Suc)
  then have "f64 1 = 1" by (simp add: f64_def pow2_def round_even_def)
  then show ?thesis by (simp add: still_index_def)
qed

lemma gif_still_frame_one:
  assumes "th_StillFrame (Thumbnails (ctx_Config ctx)) = 1"
    and "cx_gif_DecodeAll cx b = Inr \<lparr>gif_Width = gw, gif_Height = gh, gif_Image = [(img, pal)], gif_Disposal = Some [0]\<rparr>"
    and "\<And>g. \<exists>out. cx_gif_EncodeAll cx g = Inr out"
  shows "\<exists>t. gif_GenerateThumbnail cx ctx b w h ''scale'' False = Inr (Some t) \<and> tn_Animated t"
proof -
  let ?d = "cx_Dither cx (cx_Fit cx (draw_over img (NewRGBA (0, 0) (gw, gh))) w h) pal"
  obtain out where "cx_gif_EncodeAll cx \<lparr>gif_Width = fst (pic_Max ?d), gif_Height = snd (pic_Max ?d), gif_Image = [(?d, pal)],
      gif_Disposal = Some [1]\<rparr> = Inr out" using assms(3) by blast
  then show ?thesis
    using assms(1,2) by (simp add: gif_GenerateThumbnail_def gif_redraw_def get_disposal_def set_disposal_def MakeThumbnail_def
        Let_def still_index_one [simplified])
qed

section \<open>Photographs\<close>

text \<open>
  The documented effect of the turning operations on a picture of \<open>w\<close> by \<open>h\<close> points: rotations are counter-clockwise.
\<close>

definition turns :: "(picture \<Rightarrow> picture) \<Rightarrow> (int \<Rightarrow> int \<Rightarrow> int \<times> int) \<Rightarrow> (int \<Rightarrow> int \<Rightarrow> int \<Rightarrow> int \<Rightarrow> int \<times> int) \<Rightarrow> bool" where
  "turns f dims from_point \<longleftrightarrow> (\<forall>p w h x y. pic_Min p = (0, 0) \<and> pic_Max p = (w, h) \<longrightarrow>
     pic_Min (f p) = (0, 0) \<and> pic_Max (f p) = dims w h \<and> pic_at (f p) (x, y) = pic_at p (from_point w h x y))"

definition imaging_turns :: "codecs \<Rightarrow> bool" where
  "imaging_turns cx \<longleftrightarrow>
     turns (cx_Rotate90 cx) (\<lambda>w h. (h, w)) (\<lambda>w h x y. (w - 1 - y, x)) \<and>
     turns (cx_Rotate180 cx) (\<lambda>w h. (w, h)) (\<lambda>w h x y. (w - 1 - x, h - 1 - y)) \<and>
     turns (cx_Rotate270 cx) (\<lambda>w h. (h, w)) (\<lambda>w h x y. (y, h - 1 - x)) \<and>
     turns (cx_FlipH cx) (\<lambda>w h. (w, h)) (\<lambda>w h x y. (w - 1 - x, y)) \<and>
     turns (cx_FlipV cx) (\<lambda>w h. (w, h)) (\<lambda>w h x y. (x, h - 1 - y))"

text \<open>Where the EXIF standard finds the point of the upright picture in the stored one.\<close>

definition exif_point :: "nat \<Rightarrow> int \<Rightarrow> int \<Rightarrow> int \<Rightarrow> int \<Rightarrow> int \<times> int" where
  "exif_point n w h x y =
     (if n = 2 then (w - 1 - x, y) else if n = 3 then (w - 1 - x, h - 1 - y) else if n = 4 then (x, h - 1 - y)
      else if n = 5 then (y, x) else if n = 6 then (y, h - 1 - x) else if n = 7 then (w - 1 - y, h - 1 - x)
      else if n = 8 then (w - 1 - y, x) else (x, y))"

lemma turnsD:
  assumes "turns f dims from_point" "pic_Min p = (0, 0)" "pic_Max p = (w, h)"
  shows "pic_Min (f p) = (0, 0)" "pic_Max (f p) = dims w h" "pic_at (f p) (x, y) = pic_at p (from_point w h x y)"
  using assms by (auto simp: turns_def)

text \<open>Six of the eight orientations come out upright; 5 is treated as 7 and 7 as 5.\<close>

lemma orientation_swapped:
  assumes "imaging_turns cx" "pic_Min p = (0, 0)" "pic_Max p = (w, h)" "n \<in> {1..8}"
  shows "pic_at (ApplyOrientation cx p (Some (orientation_of n))) (x, y) =
    pic_at p (exif_point (if n = 5 then 7 else if n = 7 then 5 else n) w h x y)"
proof -
  have r90: "turns (cx_Rotate90 cx) (\<lambda>w h. (h, w)) (\<lambda>w h x y. (w - 1 - y, x))"
    and r180: "turns (cx_Rotate180 cx) (\<lambda>w h. (w, h)) (\<lambda>w h x y. (w - 1 - x, h - 1 - y))"
    and r270: "turns (cx_Rotate270 cx) (\<lambda>w h. (h, w)) (\<lambda>w h x y. (y, h - 1 - x))"
    and fh: "turns (cx_FlipH cx) (\<lambda>w h. (w, h)) (\<lambda>w h x y. (w - 1 - x, y))"
    and fv: "turns (cx_FlipV cx) (\<lambda>w h. (w, h)) (\<lambda>w h x y. (x, h - 1 - y))"
    using assms(1) by (auto simp: imaging_turns_def)
  note t90 = turnsD [OF r90 assms(2,3)] and t180 = turnsD [OF r180 assms(2,3)] and t270 = turnsD [OF r270 assms(2,3)]
  note facts = turnsD(3) [OF fh assms(2,3)] turnsD(3) [OF fh t180(1,2)] turnsD(3) [OF fv t90(1,2)] turnsD(3) [OF fv t270(1,2)]
    t90(3) t180(3) t270(3)
  have "n = 1 \<or> n = 2 \<or> n = 3 \<or> n = 4 \<or> n = 5 \<or> n = 6 \<or> n = 7 \<or> n = 8" using assms(4) by auto
  then show ?thesis
    by (elim disjE) (simp_all add: ApplyOrientation_def orientation_of_def exif_point_def facts)
qed

section \<open>Audio\<close>

text \<open>A decoder that cannot read its stream fails, and then no audio thumbnail can be made.\<close>

lemma audio_thumbnails_fail:
  assumes "\<And>kind e. \<exists>e'. cx_audio cx kind (Inl e) = Inl e'"
  shows "\<exists>e. audio_GenerateThumbnail cx kind b width height = Inl e"
proof -
  obtain e where "cx_audio cx kind write_only = Inl e" using assms by (auto simp: write_only_def)
  then show ?thesis
    by (auto simp: audio_GenerateThumbnail_def GetID3Tags_def fs_op_def bindR_def fail_with_def audio_decode_def
        split: sum.splits option.splits)
qed

text \<open>Fifteen samples of which ten are wanted: the step is two, and the ninth position is beyond the end.\<close>

lemma short_clip_fails:
  assumes "length (au_samples au) = 15" "\<And>pos. au_Seek au pos = (if pos > 15 then Some (ErrOther ''range'') else None)"
    and "\<And>pos. au_Stream au pos = None"
  shows "\<exists>e. FastSampleAudio au 10 = Inl e"
proof -
  have l: "log2_floor 1100 15 = 3" "log2_floor 1100 10 = 3" "log2_floor 1100 (3 / 2) = 0" by (simp_all add: numeral_eq_Suc)
  have f: "f64 15 = 15" "f64 10 = 10" "f64 (3 / 2) = 3 / 2"
    by (simp_all add: f64_def l pow2_def round_even_def Let_def)
  have "f64_div 15 10 = f64 (3 / 2)" by (simp add: f64_div_def f(1,2))
  also have "\<dots> = 3 / 2" by (rule f(3))
  finally have d: "f64_div 15 10 = 3 / 2" .
  have "math_Round (3 / 2) = 2" by (simp add: math_Round_def)
  then have "math_Round (f64_div 15 10) = 2" by (simp only: d)
  then have "FastSampleAudio au 10 = fast_sample au 2 0 0 10" using assms(1) by (simp add: FastSampleAudio_def)
  then show ?thesis using assms by (simp add: numeral_eq_Suc Let_def)
qed

end
