(* ===== verification/Routes.thy ===== *)
theory Routes
  imports Respond Auth
begin

text \<open>
  The routes of the repository: the table that \<^verbatim>\<open>api/routes.go\<close> registers, the chain of
  routers every request passes (\<^verbatim>\<open>makeRoute\<close>, \<^verbatim>\<open>api/_routers\<close>), the fallbacks of
  \<^verbatim>\<open>api/router.go\<close> and the profiling endpoints of \<^verbatim>\<open>api/_debug\<close>.

  The table is data: a method, a path template and what serves it.  The matching of a path
  against the table is \<^verbatim>\<open>httprouter\<close>'s and a parameter; the theorems use of it only that it
  answers with an entry of the table.  The handlers are a parameter, named as in the source:
  what is shown here holds whatever they do (their models are in \<open>Api\<close> and \<open>Admin\<close>).
\<close>

section \<open>The table\<close>

datatype guard = OptionalGuard | AccessTokenGuard bool | RepoAdminGuard | ServerGuard

record route =
  rt_guard :: guard
  rt_handler :: string
  rt_name :: string

definition makeRoute :: "guard \<Rightarrow> string \<Rightarrow> string \<Rightarrow> route" where
  "makeRoute g handler name = \<lparr>rt_guard = g, rt_handler = handler, rt_name = name\<rparr>"

datatype endpoint = Direct route | Branches "(string \<times> route) list" | Pprof string

type_synonym entry = "string \<times> string \<times> endpoint"

definition PrefixMedia :: string where "PrefixMedia = ''/_matrix/media''"
definition PrefixClient :: string where "PrefixClient = ''/_matrix/client''"
definition PrefixFederation :: string where "PrefixFederation = ''/_matrix/federation''"
definition PrefixAdminApi :: string where "PrefixAdminApi = ''/_synapse/admin''"

type_synonym matrixVersions = "string list"

definition mxUnstable :: matrixVersions where "mxUnstable = [''unstable'', ''unstable/io.t2bot.media'']"
definition msc4034 :: matrixVersions where "msc4034 = [''unstable/org.matrix.msc4034'']"
definition mxSpecV3Transition :: matrixVersions where "mxSpecV3Transition = [''r0'', ''v1'', ''v3'']"
definition mxSpecV3TransitionCS :: matrixVersions where "mxSpecV3TransitionCS = [''r0'', ''v3'']"
definition mxR0 :: matrixVersions where "mxR0 = [''r0'']"
definition mxV1 :: matrixVersions where "mxV1 = [''v1'']"
definition mxV3 :: matrixVersions where "mxV3 = [''v3'']"
definition mxNoVersion :: matrixVersions where "mxNoVersion = ['''']"

definition register :: "string list \<Rightarrow> string \<Rightarrow> string \<Rightarrow> matrixVersions \<Rightarrow> endpoint \<Rightarrow> entry list" where
  "register methods pfx postfix versions handler =
     concat (map (\<lambda>m. map (\<lambda>version.
       (m, if version = [] then pfx @ ''/'' @ postfix else pfx @ ''/'' @ version @ ''/'' @ postfix, handler))
       versions) methods)"

text \<open>The profiling endpoints exist only when the environment sets their secret.\<close>

definition BindPprofEndpoints :: "entry list" where
  "BindPprofEndpoints = map (\<lambda>(postfix, fn). (''GET'', ''/_matrix/media/unstable/io.t2bot/debug/pprof/'' @ postfix, Pprof fn))
     [('''', ''Index''), (''allocs'', ''Index''), (''block'', ''Index''), (''cmdline'', ''Index''), (''goroutine'', ''Index''),
      (''heap'', ''Index''), (''mutex'', ''Index''), (''profile'', ''Profile''), (''threadcreate'', ''Index''), (''trace'', ''Trace'')]"

definition downloadRoute :: route where
  "downloadRoute = makeRoute OptionalGuard ''r0.DownloadMediaUser'' ''download''"

definition previewUrlRoute :: route where
  "previewUrlRoute = makeRoute (AccessTokenGuard False) ''r0.PreviewUrl'' ''url_preview''"

definition configRoute :: route where
  "configRoute = makeRoute (AccessTokenGuard False) ''r0.PublicConfig'' ''config''"

definition authedDownloadRoute :: route where
  "authedDownloadRoute = makeRoute (AccessTokenGuard True) ''v1.ClientDownloadMedia'' ''download''"

definition purgeOneRoute :: route where
  "purgeOneRoute = makeRoute (AccessTokenGuard False) ''custom.PurgeIndividualRecord'' ''purge_individual_media''"

definition healthzRoute :: route where
  "healthzRoute = makeRoute OptionalGuard ''custom.GetHealthz'' ''healthz''"

definition synUserStatsRoute :: route where
  "synUserStatsRoute = makeRoute (AccessTokenGuard False) ''custom.SynGetUsersMediaStats'' ''users_usage_stats''"

definition purgeRemoteRoute :: route where
  "purgeRemoteRoute = makeRoute RepoAdminGuard ''custom.PurgeRemoteMedia'' ''purge_remote_media''"

definition purgeBranch :: "(string \<times> route) list" where
  "purgeBranch =
     [(''remote'', purgeRemoteRoute),
      (''old'', makeRoute RepoAdminGuard ''custom.PurgeOldMedia'' ''purge_old_media''),
      (''quarantined'', makeRoute (AccessTokenGuard False) ''custom.PurgeQuarantined'' ''purge_quarantined''),
      (''user/:userId'', makeRoute (AccessTokenGuard False) ''custom.PurgeUserMedia'' ''purge_user_media''),
      (''room/:roomId'', makeRoute (AccessTokenGuard False) ''custom.PurgeRoomMedia'' ''purge_room_media''),
      (''server/:serverName'', makeRoute (AccessTokenGuard False) ''custom.PurgeDomainMedia'' ''purge_domain_media''),
      ('':server/:mediaId'', purgeOneRoute)]"

definition quarantineRoomRoute :: route where
  "quarantineRoomRoute = makeRoute (AccessTokenGuard False) ''custom.QuarantineRoomMedia'' ''quarantine_room''"

definition quarantineBranch :: "(string \<times> route) list" where
  "quarantineBranch =
     [(''room/:roomId'', quarantineRoomRoute),
      (''user/:userId'', makeRoute (AccessTokenGuard False) ''custom.QuarantineUserMedia'' ''quarantine_user''),
      (''server/:serverName'', makeRoute (AccessTokenGuard False) ''custom.QuarantineDomainMedia'' ''quarantine_domain''),
      ('':server/:mediaId'', makeRoute (AccessTokenGuard False) ''custom.QuarantineMedia'' ''quarantine_media'')]"

definition tasksBranch :: "(string \<times> route) list" where
  "tasksBranch =
     [(''all'', makeRoute RepoAdminGuard ''custom.ListAllTasks'' ''list_all_background_tasks''),
      (''unfinished'', makeRoute RepoAdminGuard ''custom.ListUnfinishedTasks'' ''list_unfinished_background_tasks''),
      ('':taskId'', makeRoute RepoAdminGuard ''custom.GetTask'' ''get_background_task'')]"

definition buildRoutes :: "string \<Rightarrow> entry list" where
  "buildRoutes pprofSecret =
     (if pprofSecret \<noteq> [] then BindPprofEndpoints else []) @
     concat
      [register [''PUT''] PrefixMedia ''upload/:server/:mediaId'' mxV3
         (Direct (makeRoute (AccessTokenGuard False) ''r0.UploadMediaAsync'' ''upload_async'')),
       register [''POST''] PrefixMedia ''upload'' mxSpecV3Transition
         (Direct (makeRoute (AccessTokenGuard False) ''r0.UploadMediaSync'' ''upload'')),
       register [''GET'', ''HEAD''] PrefixMedia ''download/:server/:mediaId/:filename'' mxSpecV3Transition
         (Direct downloadRoute),
       register [''GET'', ''HEAD''] PrefixMedia ''download/:server/:mediaId'' mxSpecV3Transition (Direct downloadRoute),
       register [''GET''] PrefixMedia ''thumbnail/:server/:mediaId'' mxSpecV3Transition
         (Direct (makeRoute OptionalGuard ''r0.ThumbnailMediaUser'' ''thumbnail'')),
       register [''GET''] PrefixMedia ''preview_url'' mxSpecV3TransitionCS (Direct previewUrlRoute),
       register [''GET''] PrefixMedia ''identicon/*seed'' mxR0
         (Direct (makeRoute OptionalGuard ''r0.Identicon'' ''identicon'')),
       register [''GET''] PrefixMedia ''config'' mxSpecV3TransitionCS (Direct configRoute),
       register [''POST''] PrefixClient ''logout'' mxSpecV3TransitionCS
         (Direct (makeRoute (AccessTokenGuard False) ''r0.Logout'' ''logout'')),
       register [''POST''] PrefixClient ''logout/all'' mxSpecV3TransitionCS
         (Direct (makeRoute (AccessTokenGuard False) ''r0.LogoutAll'' ''logout_all'')),
       register [''POST''] PrefixMedia ''create'' mxV1
         (Direct (makeRoute (AccessTokenGuard False) ''v1.CreateMedia'' ''create'')),
       register [''GET''] PrefixClient ''versions'' mxNoVersion
         (Direct (makeRoute OptionalGuard ''r0.ClientVersions'' ''client_versions'')),
       register [''GET''] PrefixClient ''media/preview_url'' mxV1 (Direct previewUrlRoute),
       register [''GET''] PrefixClient ''media/config'' mxV1 (Direct configRoute),
       register [''GET''] PrefixClient ''media/download/:server/:mediaId/:filename'' mxV1 (Direct authedDownloadRoute),
       register [''GET''] PrefixClient ''media/download/:server/:mediaId'' mxV1 (Direct authedDownloadRoute),
       register [''GET''] PrefixClient ''media/thumbnail/:server/:mediaId'' mxV1
         (Direct (makeRoute (AccessTokenGuard True) ''v1.ClientThumbnailMedia'' ''thumbnail'')),
       register [''GET''] PrefixFederation ''media/download/:mediaId'' mxV1
         (Direct (makeRoute ServerGuard ''v1.FederationDownloadMedia'' ''download'')),
       register [''GET''] PrefixFederation ''media/thumbnail/:mediaId'' mxV1
         (Direct (makeRoute ServerGuard ''v1.FederationThumbnailMedia'' ''thumbnail'')),
       register [''GET''] PrefixMedia ''local_copy/:server/:mediaId'' mxUnstable
         (Direct (makeRoute (AccessTokenGuard False) ''unstable.LocalCopy'' ''local_copy'')),
       register [''GET''] PrefixMedia ''info/:server/:mediaId'' mxUnstable
         (Direct (makeRoute (AccessTokenGuard False) ''unstable.MediaInfo'' ''info'')),
       register [''DELETE''] PrefixMedia ''download/:server/:mediaId'' mxUnstable (Direct purgeOneRoute),
       register [''GET''] PrefixMedia ''usage'' msc4034
         (Direct (makeRoute (AccessTokenGuard False) ''unstable.PublicUsage'' ''usage'')),
       [(''GET'', PrefixMedia @ ''/version'', Direct (makeRoute OptionalGuard ''custom.GetVersion'' ''get_version''))],
       [(''GET'', ''/healthz'', Direct healthzRoute)],
       [(''HEAD'', ''/healthz'', Direct healthzRoute)],
       register [''GET''] PrefixAdminApi ''statistics/users/media'' mxV1 (Direct synUserStatsRoute),
       register [''POST''] PrefixMedia ''admin/purge/*branch'' mxUnstable (Branches purgeBranch),
       register [''POST''] PrefixMedia ''admin/purge_remote'' mxUnstable (Direct purgeRemoteRoute),
       register [''POST''] PrefixClient ''admin/purge_media_cache'' mxUnstable (Direct purgeRemoteRoute),
       register [''POST''] PrefixMedia ''admin/quarantine/*branch'' mxUnstable (Branches quarantineBranch),
       register [''POST''] PrefixClient ''admin/quarantine_media/:roomId'' mxUnstable (Direct quarantineRoomRoute),
       register [''GET''] PrefixMedia ''admin/datastores/:datastoreId/size_estimate'' mxUnstable
         (Direct (makeRoute RepoAdminGuard ''custom.GetDatastoreStorageEstimate'' ''get_storage_estimate'')),
       register [''POST''] PrefixMedia ''admin/datastores/:sourceDsId/transfer_to/:targetDsId'' mxUnstable
         (Direct (makeRoute RepoAdminGuard ''custom.MigrateBetweenDatastores'' ''datastore_transfer'')),
       register [''GET''] PrefixMedia ''admin/datastores'' mxUnstable
         (Direct (makeRoute RepoAdminGuard ''custom.GetDatastores'' ''list_datastores'')),
       register [''GET''] PrefixMedia ''admin/federation/test/:serverName'' mxUnstable
         (Direct (makeRoute RepoAdminGuard ''custom.GetFederationInfo'' ''federation_test'')),
       register [''GET''] PrefixMedia ''admin/usage/:serverName'' mxUnstable
         (Direct (makeRoute RepoAdminGuard ''custom.GetDomainUsage'' ''domain_usage'')),
       register [''GET''] PrefixMedia ''admin/usage/:serverName/users'' mxUnstable
         (Direct (makeRoute RepoAdminGuard ''custom.GetUserUsage'' ''user_usage'')),
       register [''GET''] PrefixMedia ''admin/usage/:serverName/users-stats'' mxUnstable (Direct synUserStatsRoute),
       register [''GET''] PrefixMedia ''admin/usage/:serverName/uploads'' mxUnstable
         (Direct (makeRoute RepoAdminGuard ''custom.GetUploadsUsage'' ''uploads_usage'')),
       register [''GET''] PrefixMedia ''admin/tasks/*branch'' mxUnstable (Branches tasksBranch),
       register [''POST''] PrefixMedia ''admin/user/:userId/export'' mxUnstable
         (Direct (makeRoute (AccessTokenGuard False) ''custom.ExportUserData'' ''export_user_data'')),
       register [''POST''] PrefixMedia ''admin/server/:serverName/export'' mxUnstable
         (Direct (makeRoute (AccessTokenGuard False) ''custom.ExportServerData'' ''export_server_data'')),
       register [''GET''] PrefixMedia ''admin/export/:exportId/view'' mxUnstable
         (Direct (makeRoute OptionalGuard ''custom.ViewExport'' ''view_export'')),
       register [''GET''] PrefixMedia ''admin/export/:exportId/metadata'' mxUnstable
         (Direct (makeRoute OptionalGuard ''custom.GetExportMetadata'' ''get_export_metadata'')),
       register [''GET''] PrefixMedia ''admin/export/:exportId/part/:partId'' mxUnstable
         (Direct (makeRoute OptionalGuard ''custom.DownloadExportPart'' ''download_export_part'')),
       register [''DELETE''] PrefixMedia ''admin/export/:exportId'' mxUnstable
         (Direct (makeRoute OptionalGuard ''custom.DeleteExport'' ''delete_export'')),
       register [''POST''] PrefixMedia ''admin/import'' mxUnstable
         (Direct (makeRoute RepoAdminGuard ''custom.StartImport'' ''start_import'')),
       register [''POST''] PrefixMedia ''admin/import/:importId/part'' mxUnstable
         (Direct (makeRoute RepoAdminGuard ''custom.AppendToImport'' ''append_to_import'')),
       register [''POST''] PrefixMedia ''admin/import/:importId/close'' mxUnstable
         (Direct (makeRoute RepoAdminGuard ''custom.StopImport'' ''stop_import'')),
       register [''GET''] PrefixMedia ''admin/media/:server/:mediaId/attributes'' mxUnstable
         (Direct (makeRoute (AccessTokenGuard False) ''custom.GetAttributes'' ''get_media_attributes'')),
       register [''POST''] PrefixMedia ''admin/media/:server/:mediaId/attributes'' mxUnstable
         (Direct (makeRoute (AccessTokenGuard False) ''custom.SetAttributes'' ''set_media_attributes''))]"

section \<open>Which paths a template matches\<close>

text \<open>
  The segments of a template against those of a path: a parameter takes one segment, a
  catch-all what is left.
\<close>

definition segments :: "string \<Rightarrow> string list" where
  "segments path = str_split (CHR ''/'') path"

definition is_param :: "string \<Rightarrow> bool" where
  "is_param s \<longleftrightarrow> HasPrefix s '':''"

definition is_catchall :: "string \<Rightarrow> bool" where
  "is_catchall s \<longleftrightarrow> HasPrefix s ''*''"

fun segments_match :: "string list \<Rightarrow> string list \<Rightarrow> bool" where
  "segments_match [] ps \<longleftrightarrow> ps = []"
| "segments_match (t # ts) [] \<longleftrightarrow> False"
| "segments_match (t # ts) (p # ps) \<longleftrightarrow> is_catchall t \<or> (is_param t \<or> t = p) \<and> segments_match ts ps"

definition entry_matches :: "string \<Rightarrow> string \<Rightarrow> entry \<Rightarrow> bool" where
  "entry_matches mthd path e \<longleftrightarrow> fst e = mthd \<and> segments_match (segments (fst (snd e))) (segments path)"

text \<open>
  What \<^verbatim>\<open>httprouter\<close> asks of the templates of a method, or it panics when they are
  registered: no two are equal, and where they branch either every branch is a plain segment
  or all of them are the same parameter.
\<close>

fun separated :: "nat \<Rightarrow> string list list \<Rightarrow> bool" where
  "separated 0 ss \<longleftrightarrow> length ss \<le> 1"
| "separated (Suc n) ss \<longleftrightarrow>
     (if length ss \<le> 1 then True
      else if length (filter (\<lambda>s. s = []) ss) > 1 then False
      else let ne = filter (\<lambda>s. s \<noteq> []) ss; heads = remdups (map hd ne) in
        if length ne \<le> 1 then True
        else if list_ex (\<lambda>h. is_catchall h \<or> is_param h \<and> length heads > 1) heads then False
        else list_all (\<lambda>h. separated n (map tl (filter (\<lambda>s. hd s = h) ne))) heads)"

definition templates :: "string \<Rightarrow> entry list \<Rightarrow> string list list" where
  "templates mthd table = map (\<lambda>e. segments (fst (snd e))) (filter (\<lambda>e. fst e = mthd) table)"

lemma separated_unique:
  "separated n ss \<Longrightarrow> length (filter (\<lambda>s. segments_match s path) ss) \<le> 1"
proof (induction n arbitrary: ss path)
  case 0
  then show ?case using le_trans [OF length_filter_le] by simp
next
  case (Suc n)
  let ?ne = "filter (\<lambda>s. s \<noteq> []) ss"
  have le: "length ss \<le> 1 \<Longrightarrow> ?case"
    by (rule le_trans [OF length_filter_le])
  show ?case
  proof (cases path)
    case Nil
    have "segments_match s [] \<longleftrightarrow> s = []" for s by (cases s) auto
    then have "filter (\<lambda>s. segments_match s path) ss = filter (\<lambda>s. s = []) ss" using Nil by simp
    then show ?thesis using Suc.prems le by (auto split: if_splits)
  next
    case (Cons p ps)
    have "segments_match [] (p # ps) = False" by simp
    then have ne: "filter (\<lambda>s. segments_match s path) ss = filter (\<lambda>s. segments_match s path) ?ne"
      using Cons by (auto intro: filter_cong)
    show ?thesis
    proof (cases "length ss \<le> 1 \<or> length ?ne \<le> 1")
      case True
      then show ?thesis
        using le ne le_trans [OF length_filter_le [of "\<lambda>s. segments_match s path" ?ne]] by metis
    next
      case False
      let ?heads = "remdups (map hd ?ne)"
      define h where "h = (if \<exists>h \<in> set ?heads. is_param h then hd ?heads else p)"
      from Suc.prems False
      have flat: "\<And>h. h \<in> set ?heads \<Longrightarrow> \<not> is_catchall h \<and> (is_param h \<longrightarrow> length ?heads \<le> 1)"
        and sub: "\<And>h. h \<in> set ?heads \<Longrightarrow> separated n (map tl (filter (\<lambda>s. hd s = h) ?ne))"
        by (auto simp: Let_def list_ex_iff list_all_iff not_le split: if_splits)
      have head: "hd s = h" if s: "s \<in> set ?ne" and m: "segments_match s path" for s
      proof -
        have hs: "hd s \<in> set ?heads" using s by simp
        show ?thesis
        proof (cases "\<exists>h \<in> set ?heads. is_param h")
          case True
          then have "length ?heads \<le> 1" using flat by blast
          with hs have "?heads = [hd s]" by (cases ?heads) (auto simp del: set_remdups)
          with True show ?thesis by (simp add: h_def)
        next
          case False
          from s have "s \<noteq> []" by simp
          then obtain t ts where t: "s = t # ts" by (cases s) auto
          then have "\<not> is_param t \<and> \<not> is_catchall t" using False flat [OF hs] hs by (metis list.sel(1))
          with m t Cons have "hd s = p" by simp
          then show ?thesis using False by (simp add: h_def del: set_remdups)
        qed
      qed
      have tails: "length (filter (\<lambda>s. segments_match s path) ?ne)
        \<le> length (filter (\<lambda>s. segments_match s ps) (map tl (filter (\<lambda>s. hd s = h) ?ne)))"
      proof -
        have "segments_match (tl s) ps" if s: "s \<in> set ?ne" and m: "segments_match s path" for s
        proof -
          from s have "s \<noteq> []" by simp
          then obtain t ts where t: "s = t # ts" by (cases s) auto
          have "hd s \<in> set ?heads" using s by simp
          with t flat have "\<not> is_catchall t" by force
          with m t Cons show ?thesis by simp
        qed
        with head have "filter (\<lambda>s. segments_match s path) ?ne
            = filter (\<lambda>s. segments_match s path) (filter (\<lambda>s. segments_match (tl s) ps) (filter (\<lambda>s. hd s = h) ?ne))"
          by (auto simp: filter_filter intro!: filter_cong)
        then have "length (filter (\<lambda>s. segments_match s path) ?ne) \<le> length (filter (\<lambda>s. segments_match (tl s) ps) (filter (\<lambda>s. hd s = h) ?ne))"
          using length_filter_le by metis
        then show ?thesis by (simp add: filter_map comp_def)
      qed
      show ?thesis
      proof (cases "h \<in> set ?heads")
        case True
        from Suc.IH [OF sub [OF this], of ps] tails ne show ?thesis by simp
      next
        case False
        then have "filter (\<lambda>s. segments_match s path) ?ne = []"
          using head by (fastforce simp: filter_empty_conv)
        with ne show ?thesis by simp
      qed
    qed
  qed
qed

lemma buildRoutes_methods: "list_all (\<lambda>e. fst e \<in> set [''GET'', ''HEAD'', ''POST'', ''PUT'', ''DELETE'']) (buildRoutes ''x'')"
  by code_simp

lemma separated_DELETE: "separated 12 (templates ''DELETE'' (buildRoutes ''x''))"
  by code_simp
lemma separated_HEAD: "separated 12 (templates ''HEAD'' (buildRoutes ''x''))"
  by code_simp
lemma separated_POST: "separated 12 (templates ''POST'' (buildRoutes ''x''))"
  by code_simp
lemma separated_PUT: "separated 12 (templates ''PUT'' (buildRoutes ''x''))"
  by code_simp
lemma separated_GET: "separated 12 (templates ''GET'' (buildRoutes ''x''))"
  by code_simp
lemma separated_GET_plain: "separated 12 (templates ''GET'' (buildRoutes []))"
  by code_simp

lemma buildRoutes_cases:
  "buildRoutes pprofSecret = (if pprofSecret = [] then buildRoutes [] else buildRoutes ''x'')"
  by (simp add: buildRoutes_def)

lemma buildRoutes_suffix: "buildRoutes ''x'' = BindPprofEndpoints @ buildRoutes []"
  by (simp add: buildRoutes_def)

lemma pprof_GET: "m \<noteq> ''GET'' \<Longrightarrow> templates m (buildRoutes pprofSecret) = templates m (buildRoutes ''x'')"
  by (subst buildRoutes_cases) (simp add: buildRoutes_suffix templates_def BindPprofEndpoints_def)

lemma buildRoutes_separated: "separated 12 (templates m (buildRoutes pprofSecret))"
proof (cases "m \<in> set [''GET'', ''HEAD'', ''POST'', ''PUT'', ''DELETE'']")
  case True
  have get: "separated 12 (templates ''GET'' (buildRoutes pprofSecret))"
    by (subst buildRoutes_cases) (simp add: separated_GET separated_GET_plain del: separated.simps)
  have other: "separated 12 (templates m (buildRoutes ''x''))" if "m \<noteq> ''GET''"
    using True that separated_DELETE separated_HEAD separated_POST separated_PUT
    by (auto simp del: separated.simps)
  show ?thesis
  proof (cases "m = ''GET''")
    case False
    show ?thesis by (subst pprof_GET [OF False]) (rule other [OF False])
  qed (use get in \<open>simp del: separated.simps\<close>)
next
  case False
  have "\<forall>e \<in> set (buildRoutes ''x''). fst e \<noteq> m"
    using False buildRoutes_methods unfolding list_all_iff by blast
  then have "filter (\<lambda>e. fst e = m) (buildRoutes ''x'') = []"
    by (simp add: filter_empty_conv)
  moreover have "m \<noteq> ''GET''" using False by auto
  ultimately have "templates m (buildRoutes pprofSecret) = []"
    by (subst pprof_GET) (simp_all add: templates_def)
  then show ?thesis by (simp add: numeral_eq_Suc)
qed

text \<open>
  C35: The table of routes is one the router accepts, with and without the profiling
  endpoints: no two templates of a method are equal, and where they branch no parameter
  competes with a plain segment.  Hence a request is matched by at most one route, so the
  check in front of a handler does not depend on the order of registration.
\<close>

theorem at_most_one_route:
  "separated 12 (templates m (buildRoutes pprofSecret)) \<and>
   length (filter (entry_matches m path) (buildRoutes pprofSecret)) \<le> 1"
proof -
  have "filter (entry_matches m path) es = filter (\<lambda>e. segments_match (segments (fst (snd e))) (segments path)) (filter (\<lambda>e. fst e = m) es)" for es
    by (induction es) (auto simp: entry_matches_def)
  then have "length (filter (entry_matches m path) es) = length (filter (\<lambda>s. segments_match s (segments path)) (templates m es))" for es
    by (simp add: templates_def filter_map comp_def)
  with separated_unique [OF buildRoutes_separated] buildRoutes_separated show ?thesis
    by metis
qed

section \<open>Serving a request\<close>

text \<open>
  What the server counts: the number of the next request and the counters of the metrics
  (host, action, method and status of requests and responses, newest first).
\<close>

record http_server =
  sv_lastId :: "64 word"
  sv_requests :: "(string \<times> string \<times> string) list"
  sv_responses :: "(string \<times> string \<times> string \<times> int) list"
  sv_invalid :: "(string \<times> string) list"

text \<open>
  The handlers by name, the libraries behind the routers, and whether the stream of a
  response can seek; \<open>wx_pprof\<close> is the handler of \<^verbatim>\<open>net/http/pprof\<close>.
\<close>

record web_externals =
  wx_auth :: auth_externals
  wx_reply :: reply_externals
  wx_xff :: "http_request \<Rightarrow> string"
  wx_seekable :: "response \<Rightarrow> bool"
  wx_user :: "string \<Rightarrow> user_generator"
  wx_server :: "string \<Rightarrow> http_request \<Rightarrow> RequestContext \<Rightarrow> ServerInfo \<Rightarrow> (world, response) io"
  wx_pprof :: "string \<Rightarrow> http_request \<Rightarrow> http_reply"

definition generatorFn :: "web_externals \<Rightarrow> route \<Rightarrow> generator" where
  "generatorFn wx rt =
     (case rt_guard rt of
        OptionalGuard \<Rightarrow> OptionalAccessToken (wx_auth wx) (wx_user wx (rt_handler rt))
      | AccessTokenGuard allowGuests \<Rightarrow> RequireAccessToken (wx_auth wx) (wx_user wx (rt_handler rt)) allowGuests
      | RepoAdminGuard \<Rightarrow> RequireRepoAdmin (wx_auth wx) (wx_user wx (rt_handler rt))
      | ServerGuard \<Rightarrow> RequireServerAuth (wx_auth wx) (wx_server wx (rt_handler rt)))"

subsection \<open>api/router.go\<close>

definition fallback :: "reply_externals \<Rightarrow> headers \<Rightarrow> int \<Rightarrow> response \<Rightarrow> http_reply" where
  "fallback xr h status res =
     \<lparr>rep_Status = status, rep_Headers = h(''Content-Type'' := ''application/json''), rep_Body = xr_json xr res, rep_panic = None\<rparr>"

definition methodNotAllowedFn :: "reply_externals \<Rightarrow> headers \<Rightarrow> http_reply" where
  "methodNotAllowedFn xr h = fallback xr h 405 MethodNotAllowed"

definition notFoundFn :: "reply_externals \<Rightarrow> headers \<Rightarrow> http_reply" where
  "notFoundFn xr h = fallback xr h 404 NotFoundError"

definition finishCorsFn :: "headers \<Rightarrow> http_reply" where
  "finishCorsFn h = \<lparr>rep_Status = 204, rep_Headers = h, rep_Body = [], rep_panic = None\<rparr>"

text \<open>
  A panic before anything was written is answered with status 500.  After the header was
  written only the body can grow, up to the announced length: the writer refuses more, and
  the handler panics in turn, which ends the connection.
\<close>

definition panicFn :: "reply_externals \<Rightarrow> headers \<Rightarrow> http_reply" where
  "panicFn xr h = fallback xr h 500 (InternalServerError ''unexpected error'')"

definition panicFn_sent :: "reply_externals \<Rightarrow> http_reply \<Rightarrow> http_reply" where
  "panicFn_sent xr rep =
     (let b = xr_json xr (InternalServerError ''unexpected error'') in
      if int (length (rep_Body rep) + length b) \<le> Atoi_value (rep_Headers rep ''Content-Length'')
      then rep\<lparr>rep_Body := rep_Body rep @ b, rep_panic := None\<rparr>
      else rep\<lparr>rep_panic := Some (Panic ''error sending InternalServerError: '')\<rparr>)"

subsection \<open>The chain of makeRoute\<close>

text \<open>
  The response is counted by a deferred call, also when the handler panicked: the status of
  a request that wrote none is 200.
\<close>

definition MetricsResponseRouter_ServeHTTP :: "string \<Rightarrow> http_request \<Rightarrow> int \<Rightarrow> http_server \<Rightarrow> http_server" where
  "MetricsResponseRouter_ServeHTTP name r status sv =
     sv\<lparr>sv_responses := (rq_Host r, name, rq_Method r, status) # sv_responses sv\<rparr>"

definition MetricsRequestRouter_ServeHTTP :: "string \<Rightarrow> http_request \<Rightarrow> http_server \<Rightarrow> http_server" where
  "MetricsRequestRouter_ServeHTTP name r sv =
     sv\<lparr>sv_requests := (rq_Host r, name, rq_Method r) # sv_requests sv\<rparr>"

definition RContextRouter_ServeHTTP ::
  "web_externals \<Rightarrow> route \<Rightarrow> http_request \<Rightarrow> DomainRepoConfig option \<Rightarrow> headers \<Rightarrow> http_server \<times> world \<Rightarrow> http_reply \<times> http_server \<times> world" where
  "RContextRouter_ServeHTTP wx rt r domain h s =
     (case domain of
        None \<Rightarrow> (panicFn (wx_reply wx) h, MetricsResponseRouter_ServeHTTP (rt_name rt) r 200 (fst s), snd s)
      | Some c \<Rightarrow>
          let ctx = \<lparr>ctx_Config = c\<rparr> in
          (case generatorFn wx rt r ctx (snd s) of
             (Inl err, w) \<Rightarrow> (panicFn (wx_reply wx) h, MetricsResponseRouter_ServeHTTP (rt_name rt) r 200 (fst s), w)
           | (Inr res, w) \<Rightarrow>
               let rep = RContextRouter_reply (wx_reply wx) ctx h r (wx_seekable wx res) res in
               (if rep_panic rep = None then rep else panicFn_sent (wx_reply wx) rep,
                MetricsResponseRouter_ServeHTTP (rt_name rt) r (rep_Status rep) (fst s), w)))"

definition InstallMetadataRouter_ServeHTTP :: "route \<Rightarrow> http_request \<Rightarrow> http_server \<Rightarrow> http_request \<times> http_server" where
  "InstallMetadataRouter_ServeHTTP rt r sv =
     (let (requestId, n) = NextId (sv_lastId sv) in
      (r\<lparr>rq_ignoreHost := (rt_name rt = ''healthz'')\<rparr>, sv\<lparr>sv_lastId := n\<rparr>))"

definition route_ServeHTTP ::
  "web_externals \<Rightarrow> route \<Rightarrow> http_request \<Rightarrow> headers \<Rightarrow> http_server \<times> world \<Rightarrow> http_reply \<times> http_server \<times> world" where
  "route_ServeHTTP wx rt r0 h0 s =
     (let (r, sv) = InstallMetadataRouter_ServeHTTP rt r0 (fst s);
          h = install_headers h0;
          w = snd s
      in case HostRouter_ServeHTTP (wx_xff wx) (cfg w) (doms w) r of
           Inl err \<Rightarrow>
             (\<lparr>rep_Status = 502, rep_Headers = h, rep_Body = xr_json (wx_reply wx) err, rep_panic = None\<rparr>,
              sv\<lparr>sv_invalid := (rt_name rt, rq_Method r) # sv_invalid sv\<rparr>, w)
         | Inr (r', domain) \<Rightarrow>
             RContextRouter_ServeHTTP wx rt r' domain h (MetricsRequestRouter_ServeHTTP (rt_name rt) r' sv, w))"

subsection \<open>api/\_debug and the primary router\<close>

definition pprof_ServeHTTP :: "web_externals \<Rightarrow> string \<Rightarrow> string \<Rightarrow> http_request \<Rightarrow> headers \<Rightarrow> http_reply" where
  "pprof_ServeHTTP wx secret fn r h =
     (let auth0 = Header_Get r ''Authorization'';
          auth = (if auth0 = [] then Query_Get r ''access_token'' else auth0)
      in if auth \<noteq> ''Bearer '' @ secret
         then \<lparr>rep_Status = 401, rep_Headers = h(''Content-Type'' := ''application/json; charset=UTF-8''),
               rep_Body = ''{\"success\":false}'' @ [CHR 0x0A], rep_panic = None\<rparr>
         else wx_pprof wx fn r)"

definition endpoint_ServeHTTP ::
  "web_externals \<Rightarrow> string \<Rightarrow> endpoint \<Rightarrow> http_request \<Rightarrow> headers \<Rightarrow> http_server \<times> world \<Rightarrow> http_reply \<times> http_server \<times> world" where
  "endpoint_ServeHTTP wx secret e r h s =
     (case e of
        Direct rt \<Rightarrow> route_ServeHTTP wx rt r h s
      | Branches branches \<Rightarrow> (case branchedRoute branches r of
            None \<Rightarrow> (notFoundFn (wx_reply wx) h, s)
          | Some (rt, r') \<Rightarrow> route_ServeHTTP wx rt r' h s)
      | Pprof fn \<Rightarrow> (pprof_ServeHTTP wx secret fn r h, s))"

text \<open>
  What \<^verbatim>\<open>httprouter\<close> finds for a method and a path: an entry with its template and the
  parameters, or the methods the path has (none: the empty string).
\<close>

datatype lookup_result = Found string endpoint "(string \<times> string) list" | Allowed string

definition primaryRouter ::
  "web_externals \<Rightarrow> string \<Rightarrow> (string \<Rightarrow> string \<Rightarrow> lookup_result) \<Rightarrow> string \<Rightarrow> http_request \<Rightarrow> headers \<Rightarrow> http_server \<times> world \<Rightarrow> http_reply \<times> http_server \<times> world" where
  "primaryRouter wx secret look path r h s =
     (case look (rq_Method r) path of
        Found template e params \<Rightarrow> endpoint_ServeHTTP wx secret e (r\<lparr>rq_Params := params\<rparr>) h s
      | Allowed allow \<Rightarrow>
          if allow = [] then (notFoundFn (wx_reply wx) h, s)
          else
            let h' = h(''Allow'' := allow) in
            (if rq_Method r = ''OPTIONS'' then finishCorsFn (install_headers h') else methodNotAllowedFn (wx_reply wx) h', s))"

definition serves_table :: "(string \<Rightarrow> string \<Rightarrow> lookup_result) \<Rightarrow> entry list \<Rightarrow> bool" where
  "serves_table look table \<longleftrightarrow>
     (\<forall>m path template e params. look m path = Found template e params \<longrightarrow> (m, template, e) \<in> set table)"

text \<open>
  A handler that panics is answered with status 500, and counted as a response with status
  200: the deferred call reads the status of a request that never wrote one.
\<close>

lemma panic_counted_as_ok:
  assumes "generatorFn wx rt r \<lparr>ctx_Config = c\<rparr> w = (Inl err, w')"
  shows "\<exists>rep. RContextRouter_ServeHTTP wx rt r (Some c) h (sv, w) =
      (rep, sv\<lparr>sv_responses := (rq_Host r, rt_name rt, rq_Method r, 200) # sv_responses sv\<rparr>, w') \<and> rep_Status rep = 500"
  using assms by (simp add: RContextRouter_ServeHTTP_def MetricsResponseRouter_ServeHTTP_def panicFn_def fallback_def)

section \<open>Without credentials\<close>

text \<open>The routes that answer without an access token.\<close>

definition public_routes :: "(string \<times> string) list" where
  "public_routes =
     [(''GET'', ''/_matrix/media/r0/download/:server/:mediaId/:filename''), (''GET'', ''/_matrix/media/v1/download/:server/:mediaId/:filename''),
      (''GET'', ''/_matrix/media/v3/download/:server/:mediaId/:filename''), (''HEAD'', ''/_matrix/media/r0/download/:server/:mediaId/:filename''),
      (''HEAD'', ''/_matrix/media/v1/download/:server/:mediaId/:filename''), (''HEAD'', ''/_matrix/media/v3/download/:server/:mediaId/:filename''),
      (''GET'', ''/_matrix/media/r0/download/:server/:mediaId''), (''GET'', ''/_matrix/media/v1/download/:server/:mediaId''),
      (''GET'', ''/_matrix/media/v3/download/:server/:mediaId''), (''HEAD'', ''/_matrix/media/r0/download/:server/:mediaId''),
      (''HEAD'', ''/_matrix/media/v1/download/:server/:mediaId''), (''HEAD'', ''/_matrix/media/v3/download/:server/:mediaId''),
      (''GET'', ''/_matrix/media/r0/thumbnail/:server/:mediaId''), (''GET'', ''/_matrix/media/v1/thumbnail/:server/:mediaId''),
      (''GET'', ''/_matrix/media/v3/thumbnail/:server/:mediaId''), (''GET'', ''/_matrix/media/r0/identicon/*seed''),
      (''GET'', ''/_matrix/client/versions''), (''GET'', ''/_matrix/media/version''), (''GET'', ''/healthz''), (''HEAD'', ''/healthz''),
      (''GET'', ''/_matrix/media/unstable/admin/export/:exportId/view''),
      (''GET'', ''/_matrix/media/unstable/io.t2bot.media/admin/export/:exportId/view''),
      (''GET'', ''/_matrix/media/unstable/admin/export/:exportId/metadata''),
      (''GET'', ''/_matrix/media/unstable/io.t2bot.media/admin/export/:exportId/metadata''),
      (''GET'', ''/_matrix/media/unstable/admin/export/:exportId/part/:partId''),
      (''GET'', ''/_matrix/media/unstable/io.t2bot.media/admin/export/:exportId/part/:partId''),
      (''DELETE'', ''/_matrix/media/unstable/admin/export/:exportId''),
      (''DELETE'', ''/_matrix/media/unstable/io.t2bot.media/admin/export/:exportId'')]"

definition guarded_endpoint :: "endpoint \<Rightarrow> bool" where
  "guarded_endpoint e =
     (case e of
        Direct rt \<Rightarrow> rt_guard rt \<noteq> OptionalGuard
      | Branches bs \<Rightarrow> list_all (\<lambda>b. rt_guard (snd b) \<noteq> OptionalGuard) bs
      | Pprof fn \<Rightarrow> True)"

lemma private_routes:
  "list_all (\<lambda>(m, t, e). guarded_endpoint e \<longleftrightarrow> (m, t) \<notin> set public_routes) (buildRoutes ''x'')"
  by code_simp

lemma buildRoutes_guarded:
  assumes "(m, t, e) \<in> set (buildRoutes pprofSecret)" and "(m, t) \<notin> set public_routes"
  shows "guarded_endpoint e"
proof -
  have "(m, t, e) \<in> set (buildRoutes ''x'')"
    using assms(1) by (subst (asm) buildRoutes_cases) (auto simp: buildRoutes_suffix split: if_splits)
  with private_routes assms(2) show ?thesis unfolding list_all_iff by blast
qed

definition no_credentials :: "http_request \<Rightarrow> bool" where
  "no_credentials r \<longleftrightarrow> rq_Headers r ''authorization'' = [] \<and> rq_Query r ''access_token'' = []"

lemma no_credentials_token:
  assumes "no_credentials r"
  shows "GetAccessTokenFromRequest r = []" "Header_Values r ''Authorization'' = []" "Header_Get r ''Authorization'' = []"
    "Query_Get r ''access_token'' = []"
proof -
  have "ToLower ''Authorization'' = ''authorization''" by code_simp
  then show "Header_Values r ''Authorization'' = []" "Header_Get r ''Authorization'' = []" "Query_Get r ''access_token'' = []"
    "GetAccessTokenFromRequest r = []"
    using assms
    by (simp_all add: no_credentials_def Header_Values_def Header_Get_def Query_Get_def first_or_empty_def GetAccessTokenFromRequest_def)
qed

lemma set_segments_credentials: "no_credentials (set_segments ss ps r) = no_credentials r"
proof -
  have one: "no_credentials (ForceSetParam n v r) = no_credentials r" for n v r
    by (simp add: ForceSetParam_def no_credentials_def)
  have "no_credentials (foldl (\<lambda>r (s, v). if HasPrefix s '':'' then ForceSetParam (tl s) v r else r) r zs) = no_credentials r" for zs
    by (induction zs arbitrary: r) (simp_all add: one split: prod.split)
  then show ?thesis by (simp add: set_segments_def)
qed

lemma find_branch_seen:
  "find_branch bs ps r = Some (x, r') \<Longrightarrow> x \<in> snd ` set bs \<and> no_credentials r' = no_credentials r"
proof (induction bs ps r rule: find_branch.induct)
  case (2 segments x' bs ps r)
  then show ?case by (auto simp: set_segments_credentials image_iff split: if_splits)
qed simp

lemma branchedRoute_seen:
  "branchedRoute bs r = Some (x, r') \<Longrightarrow> x \<in> snd ` set bs \<and> no_credentials r' = no_credentials r"
  unfolding branchedRoute_def Let_def by (drule find_branch_seen) force

text \<open>A guard without credentials answers before the handler, and touches nothing.\<close>

lemma guard_refuses:
  assumes "no_credentials r" and "rt_guard rt \<noteq> OptionalGuard"
  shows "\<exists>code message. generatorFn wx rt r ctx w = (Inr (ErrorResponse code message ErrCodeMissingToken), w)"
  using assms(2) no_credentials_token [OF assms(1)]
  by (cases "rt_guard rt")
    (auto simp: generatorFn_def RequireAccessToken_def RequireRepoAdmin_def RequireServerAuth_def ValidateXMatrixAuth_def
      Let_def returnE_run bindE_run tryE_run lift_result_def throwE_run)

lemma route_refuses:
  assumes "no_credentials r" and "rt_guard rt \<noteq> OptionalGuard"
    and "route_ServeHTTP wx rt r h (sv, w) = (rep, sv', w')"
  shows "rep_Status rep \<in> {401, 502} \<and> w' = w"
proof -
  define r1 where "r1 = r\<lparr>rq_ignoreHost := (rt_name rt = ''healthz'')\<rparr>"
  have r1: "no_credentials r1" using assms(1) by (simp add: r1_def no_credentials_def)
  show ?thesis
  proof (cases "HostRouter_ServeHTTP (wx_xff wx) (cfg w) (doms w) r1")
    case (Inl e)
    with assms(3) show ?thesis
      by (auto simp: route_ServeHTTP_def InstallMetadataRouter_ServeHTTP_def r1_def split: prod.splits)
  next
    case (Inr x)
    obtain r2 domain where x: "x = (r2, domain)" by (cases x)
    obtain c where c: "domain = Some c" and r2: "no_credentials r2"
      using Inr x r1
      by (auto simp: HostRouter_ServeHTTP_def Let_def IsServerOurs_def no_credentials_def split: if_splits)
    obtain code message where g: "generatorFn wx rt r2 \<lparr>ctx_Config = c\<rparr> w = (Inr (ErrorResponse code message ErrCodeMissingToken), w)"
      using guard_refuses [OF r2 assms(2)] by blast
    have "error_status ErrCodeMissingToken = 401" by code_simp
    with assms(3) Inr x c g show ?thesis
      by (auto simp: route_ServeHTTP_def InstallMetadataRouter_ServeHTTP_def RContextRouter_ServeHTTP_def RContextRouter_reply_def
          write_json_def Let_def r1_def split: prod.splits)
  qed
qed

text \<open>
  C34: A request without credentials - no \<^verbatim>\<open>Authorization\<close> header and no \<^verbatim>\<open>access_token\<close> -
  reaches a handler only on the public routes.  On every other route, the profiling endpoints
  included, it is answered with 401 (or 502 for a host the repository does not serve), where
  no route fits with 404, 405 or the answer to \<^verbatim>\<open>OPTIONS\<close>, and nothing of the repository
  changes, whatever the handlers do.
\<close>

theorem no_credentials_refused:
  assumes "serves_table look (buildRoutes pprofSecret)"
    and "no_credentials r"
    and "\<And>template e params. look (rq_Method r) path = Found template e params \<Longrightarrow> (rq_Method r, template) \<notin> set public_routes"
    and "primaryRouter wx pprofSecret look path r h (sv, w) = (rep, sv', w')"
  shows "rep_Status rep \<in> {204, 401, 404, 405, 502} \<and> w' = w"
proof (cases "look (rq_Method r) path")
  case (Allowed allow)
  with assms(4) show ?thesis
    by (auto simp: primaryRouter_def Let_def notFoundFn_def methodNotAllowedFn_def finishCorsFn_def fallback_def split: if_splits)
next
  case (Found template e params)
  let ?r = "r\<lparr>rq_Params := params\<rparr>"
  have r: "no_credentials ?r" using assms(2) by (simp add: no_credentials_def)
  have "(rq_Method r, template, e) \<in> set (buildRoutes pprofSecret)"
    using assms(1) Found unfolding serves_table_def by blast
  then have "guarded_endpoint e"
    by (rule buildRoutes_guarded) (rule assms(3) [OF Found])
  moreover have run: "endpoint_ServeHTTP wx pprofSecret e ?r h (sv, w) = (rep, sv', w')"
    using assms(4) Found by (simp add: primaryRouter_def)
  ultimately show ?thesis
  proof (cases e)
    case (Direct rt)
    with run \<open>guarded_endpoint e\<close> show ?thesis
      using route_refuses [OF r, of rt wx h sv w rep sv' w'] by (simp add: endpoint_ServeHTTP_def guarded_endpoint_def) blast
  next
    case (Branches bs)
    show ?thesis
    proof (cases "branchedRoute bs ?r")
      case None
      with run Branches show ?thesis by (auto simp: endpoint_ServeHTTP_def notFoundFn_def fallback_def)
    next
      case (Some x)
      obtain rt r' where x: "x = (rt, r')" by (cases x)
      have "rt_guard rt \<noteq> OptionalGuard" "no_credentials r'"
        using branchedRoute_seen [of bs ?r rt r'] Some x r \<open>guarded_endpoint e\<close> Branches
        by (auto simp: guarded_endpoint_def list_all_iff)
      with run Branches Some x show ?thesis
        using route_refuses [of r' rt wx h sv w rep sv' w'] by (simp add: endpoint_ServeHTTP_def) blast
    qed
  next
    case (Pprof fn)
    with run show ?thesis
      using no_credentials_token [OF r] by (auto simp: endpoint_ServeHTTP_def pprof_ServeHTTP_def Let_def)
  qed
qed

text \<open>A router that follows the table: the entry that matches, with the parameters of its template.\<close>

fun template_params :: "string list \<Rightarrow> string list \<Rightarrow> (string \<times> string) list" where
  "template_params (t # ts) (p # ps) =
     (if is_param t then (tl t, p) # template_params ts ps
      else if is_catchall t then [(tl t, concat (map (\<lambda>s. ''/'' @ s) (p # ps)))]
      else template_params ts ps)"
| "template_params _ _ = []"

definition table_lookup :: "entry list \<Rightarrow> string \<Rightarrow> string \<Rightarrow> lookup_result" where
  "table_lookup table m path =
     (case find (entry_matches m path) table of
        Some (_, t, e) \<Rightarrow> Found t e (template_params (segments t) (segments path))
      | None \<Rightarrow> Allowed [])"

lemma table_lookup_serves: "serves_table (table_lookup table) table"
proof -
  have "(m, t, e) \<in> set table" if "table_lookup table m path = Found t e params" for m path t e params
  proof -
    from that obtain m' where f: "find (entry_matches m path) table = Some (m', t, e)"
      by (auto simp: table_lookup_def split: option.splits)
    then obtain i where "i < length table" "entry_matches m path (table ! i)" "(m', t, e) = table ! i"
      unfolding find_Some_iff by blast
    then show ?thesis by (metis entry_matches_def fst_conv nth_mem)
  qed
  then show ?thesis unfolding serves_table_def by blast
qed

definition demo_wx :: web_externals where
  "demo_wx = \<lparr>wx_auth = demo_xa, wx_reply = demo_xr, wx_xff = (\<lambda>r. ''''), wx_seekable = (\<lambda>res. True),
     wx_user = (\<lambda>name r ctx user. returnE EmptyResponse), wx_server = (\<lambda>name r ctx server. returnE EmptyResponse),
     wx_pprof = (\<lambda>fn r. finishCorsFn (\<lambda>_. ''''))\<rparr>"

definition anonymous_purge :: http_request where
  "anonymous_purge = demo_request\<lparr>rq_Method := ''POST'', rq_Headers := (\<lambda>n. [])\<rparr>"

definition demo_server :: http_server where
  "demo_server = \<lparr>sv_lastId = 0, sv_requests = [], sv_responses = [], sv_invalid = []\<rparr>"

definition demo_path :: string where
  "demo_path = ''/_matrix/media/unstable/admin/purge/room/!r''"

lemma demo_lookup:
  "table_lookup (buildRoutes []) ''POST'' demo_path =
     Found ''/_matrix/media/unstable/admin/purge/*branch'' (Branches purgeBranch) [(''branch'', ''/room/!r'')]"
  by code_simp

theorem no_credentials_refused_witness:
  "\<exists>rep sv'. primaryRouter demo_wx [] (table_lookup (buildRoutes [])) demo_path anonymous_purge (\<lambda>_. '''') (demo_server, demo_world)
     = (rep, sv', demo_world) \<and> rep_Status rep \<in> {204, 401, 404, 405, 502}"
proof -
  obtain rep sv' w' where run: "primaryRouter demo_wx [] (table_lookup (buildRoutes [])) demo_path anonymous_purge (\<lambda>_. '''')
      (demo_server, demo_world) = (rep, sv', w')"
    by (metis prod_cases3)
  have "no_credentials anonymous_purge"
    by (simp add: no_credentials_def anonymous_purge_def demo_request_def)
  moreover have "(rq_Method anonymous_purge, ''/_matrix/media/unstable/admin/purge/*branch'') \<notin> set public_routes"
    by code_simp
  ultimately show ?thesis
    using no_credentials_refused [OF table_lookup_serves _ _ run] run
    by (simp add: demo_lookup anonymous_purge_def)
qed

end
