(* ===== verification/WebServer.thy ===== *)
theory WebServer
  imports Prelude
begin

text \<open>
  Starting, reloading and stopping the web server (\<^verbatim>\<open>api/webserver.go\<close>) as a transition system:
  the goroutine that reloads or stops it, the goroutine each \<^verbatim>\<open>Init\<close> starts, and the variables
  \<^verbatim>\<open>srv\<close>, \<^verbatim>\<open>reload\<close> and \<^verbatim>\<open>waitGroup\<close> they share without a lock.  The main goroutine waits until
  the group is back at zero (\<^verbatim>\<open>cmd/workers/media_repo/main.go\<close>), which ends the process.

  Of \<^verbatim>\<open>net/http\<close> the model uses: \<^verbatim>\<open>ListenAndServe\<close> returns \<^verbatim>\<open>ErrServerClosed\<close> once the server is shut
  down, also when that happened before; \<^verbatim>\<open>Shutdown\<close> returns after the listeners are closed, or
  with an error after the time limit; an address serves one server at a time.
\<close>

section \<open>The state\<close>

datatype goroutine = Starting | Serving nat | Returned | Cleared | Finished

datatype caller = Idle | Stopping bool | ShuttingDown bool nat | Resting bool | Rebuilt | Spawning

datatype process_end = Panicked | Fatal

text \<open>
  Servers are numbered in the order of their creation, and \<open>w_addresses\<close> holds the address of
  each.  \<open>w_caller\<close> is where the goroutine of the web channel (or the one of the stop signal,
  which runs after it ended) stands; its flag says whether it reloads.
\<close>

record web =
  w_srv :: "nat option"
  w_reload :: bool
  w_group :: int
  w_addresses :: "string list"
  w_shut :: "nat list"
  w_goroutines :: "goroutine list"
  w_caller :: caller
  w_end :: "process_end option"

text \<open>After \<^verbatim>\<open>Init\<close>, and \<^verbatim>\<open>web.Add(1)\<close> of the main goroutine.\<close>

definition web_start :: "string \<Rightarrow> web" where
  "web_start address =
     \<lparr>w_srv = Some 0, w_reload = False, w_group = 1, w_addresses = [address], w_shut = [],
      w_goroutines = [Starting], w_caller = Idle, w_end = None\<rparr>"

section \<open>The steps\<close>

datatype web_action =
    BeginReload | BeginStop | LoadSrv | ShutdownReturns bool | NewServer string | ClearReload | Spawn
  | Continue nat | ListenFails nat

definition address_taken :: "web \<Rightarrow> nat \<Rightarrow> bool" where
  "address_taken w n \<longleftrightarrow>
     list_ex (\<lambda>g. case g of Serving m \<Rightarrow> m \<notin> set (w_shut w) \<and> w_addresses w ! m = w_addresses w ! n | _ \<Rightarrow> False)
       (w_goroutines w)"

text \<open>
  The goroutine of \<^verbatim>\<open>Init\<close>.  It reads \<^verbatim>\<open>srv\<close> when it starts: without a server the call
  dereferences nil.
\<close>

definition continue_goroutine :: "nat \<Rightarrow> web \<Rightarrow> web option" where
  "continue_goroutine i w =
     (let goto = (\<lambda>g w. w\<lparr>w_goroutines := (w_goroutines w)[i := g]\<rparr>) in
      if i \<ge> length (w_goroutines w) then None
      else case w_goroutines w ! i of
        Starting \<Rightarrow> (case w_srv w of
            None \<Rightarrow> Some (w\<lparr>w_end := Some Panicked\<rparr>)
          | Some n \<Rightarrow>
              if n \<in> set (w_shut w) then Some (goto Returned w)
              else if address_taken w n then Some (w\<lparr>w_end := Some Fatal\<rparr>)
              else Some (goto (Serving n) w))
      | Serving n \<Rightarrow> if n \<in> set (w_shut w) then Some (goto Returned w) else None
      | Returned \<Rightarrow> Some (goto Cleared (w\<lparr>w_srv := None\<rparr>))
      | Cleared \<Rightarrow>
          if w_reload w then Some (goto Finished w)
          else if w_group w = 0 then Some (w\<lparr>w_end := Some Panicked\<rparr>)
          else Some (goto Finished (w\<lparr>w_group := w_group w - 1\<rparr>))
      | Finished \<Rightarrow> None)"

text \<open>\<^verbatim>\<open>Reload\<close> and \<^verbatim>\<open>Stop\<close>, one access to the shared variables per step.\<close>

fun web_step :: "web_action \<Rightarrow> web \<Rightarrow> web option" where
  "web_step BeginReload w =
     (if w_caller w = Idle then Some (w\<lparr>w_reload := True, w_caller := Stopping True\<rparr>) else None)"
| "web_step BeginStop w = (if w_caller w = Idle then Some (w\<lparr>w_caller := Stopping False\<rparr>) else None)"
| "web_step LoadSrv w = (case w_caller w of
      Stopping b \<Rightarrow> (case w_srv w of
          None \<Rightarrow> Some (w\<lparr>w_caller := Resting b\<rparr>)
        | Some n \<Rightarrow> Some (w\<lparr>w_shut := n # w_shut w, w_caller := ShuttingDown b n\<rparr>))
    | _ \<Rightarrow> None)"
| "web_step (ShutdownReturns ok) w = (case w_caller w of
      ShuttingDown b n \<Rightarrow>
        if \<not> ok then Some (w\<lparr>w_end := Some Panicked\<rparr>)
        else if Serving n \<in> set (w_goroutines w) then None
        else Some (w\<lparr>w_caller := Resting b\<rparr>)
    | _ \<Rightarrow> None)"
| "web_step (NewServer address) w =
     (if w_caller w = Resting True
      then Some (w\<lparr>w_srv := Some (length (w_addresses w)), w_addresses := w_addresses w @ [address], w_caller := Rebuilt\<rparr>)
      else None)"
| "web_step ClearReload w =
     (if w_caller w = Rebuilt then Some (w\<lparr>w_reload := False, w_caller := Spawning\<rparr>) else None)"
| "web_step Spawn w =
     (if w_caller w = Spawning
      then Some (w\<lparr>w_goroutines := w_goroutines w @ [Starting], w_caller := Idle\<rparr>) else None)"
| "web_step (Continue i) w = continue_goroutine i w"
| "web_step (ListenFails i) w =
     (if i < length (w_goroutines w)
      then (case w_goroutines w ! i of Serving n \<Rightarrow> Some (w\<lparr>w_end := Some Fatal\<rparr>) | _ \<Rightarrow> None)
      else None)"

text \<open>A run stops when a step is not possible or the process has ended.\<close>

fun web_run :: "web_action list \<Rightarrow> web \<Rightarrow> web option" where
  "web_run [] w = Some w"
| "web_run (a # as) w =
     (if w_end w \<noteq> None then None else case web_step a w of None \<Rightarrow> None | Some w' \<Rightarrow> web_run as w')"

definition process_done :: "web \<Rightarrow> bool" where
  "process_done w \<longleftrightarrow> w_group w = 0"

section \<open>Orderly reloads\<close>

text \<open>
  A run is orderly when no external call fails and each reload makes its server only after
  the goroutine of the old one has finished.
\<close>

definition orderly_action :: "web_action \<Rightarrow> web \<Rightarrow> bool" where
  "orderly_action a w \<longleftrightarrow> (case a of
      NewServer _ \<Rightarrow> list_all (\<lambda>g. g = Finished) (w_goroutines w)
    | ShutdownReturns ok \<Rightarrow> ok
    | ListenFails _ \<Rightarrow> False
    | _ \<Rightarrow> True)"

fun orderly :: "web_action list \<Rightarrow> web \<Rightarrow> bool" where
  "orderly [] w \<longleftrightarrow> True"
| "orderly (a # as) w \<longleftrightarrow>
     orderly_action a w \<and> (case web_step a w of None \<Rightarrow> True | Some w' \<Rightarrow> orderly as w')"

definition asked_to_stop :: "web \<Rightarrow> bool" where
  "asked_to_stop w \<longleftrightarrow> (case w_caller w of
      Stopping b \<Rightarrow> \<not> b | ShuttingDown b n \<Rightarrow> \<not> b | Resting b \<Rightarrow> \<not> b | _ \<Rightarrow> False)"

text \<open>
  The invariant: \<open>g\<close> is the goroutine of the newest server \<open>n\<close>, all earlier ones have
  finished.
\<close>

fun phase :: "caller \<Rightarrow> nat option \<Rightarrow> bool \<Rightarrow> bool \<Rightarrow> int \<Rightarrow> nat \<Rightarrow> goroutine \<Rightarrow> bool" where
  "phase Idle srv shut rel grp n g \<longleftrightarrow> g \<in> {Starting, Serving n} \<and> srv = Some n \<and> \<not> shut \<and> \<not> rel \<and> grp = 1"
| "phase (Stopping b) srv shut rel grp n g \<longleftrightarrow> g \<in> {Starting, Serving n} \<and> srv = Some n \<and> \<not> shut \<and> rel = b \<and> grp = 1"
| "phase (ShuttingDown b m) srv shut rel grp n g \<longleftrightarrow>
     m = n \<and> shut \<and> rel = b \<and> g \<in> {Starting, Serving n, Returned, Cleared, Finished} \<and>
     srv = (if g \<in> {Cleared, Finished} then None else Some n) \<and> grp = (if g = Finished \<and> \<not> b then 0 else 1)"
| "phase (Resting b) srv shut rel grp n g \<longleftrightarrow>
     shut \<and> rel = b \<and> g \<in> {Starting, Returned, Cleared, Finished} \<and>
     srv = (if g \<in> {Cleared, Finished} then None else Some n) \<and> grp = (if g = Finished \<and> \<not> b then 0 else 1)"
| "phase Rebuilt srv shut rel grp n g \<longleftrightarrow> g = Finished \<and> srv = Some n \<and> \<not> shut \<and> rel \<and> grp = 1"
| "phase Spawning srv shut rel grp n g \<longleftrightarrow> g = Finished \<and> srv = Some n \<and> \<not> shut \<and> \<not> rel \<and> grp = 1"

definition web_phase :: "web \<Rightarrow> goroutine \<Rightarrow> nat \<Rightarrow> bool" where
  "web_phase w g n \<longleftrightarrow> phase (w_caller w) (w_srv w) (n \<in> set (w_shut w)) (w_reload w) (w_group w) n g"

definition web_inv :: "web \<Rightarrow> bool" where
  "web_inv w \<longleftrightarrow> w_end w = None \<and> (\<forall>m \<in> set (w_shut w). m < length (w_addresses w)) \<and>
     (\<exists>gs g n. w_goroutines w = gs @ [g] \<and> (\<forall>x \<in> set gs. x = Finished) \<and>
        length (w_addresses w) = Suc n \<and> web_phase w g n)"

lemma web_inv_start: "web_inv (web_start address)"
  unfolding web_inv_def by (rule conjI, simp add: web_start_def, rule conjI, simp add: web_start_def)
    (rule exI [of _ "[]"], rule exI [of _ Starting], rule exI [of _ 0], simp add: web_start_def web_phase_def)

lemma last_update: "(gs @ [g])[length gs := x] = gs @ [x]"
  by simp

lemma continue_inv:
  assumes "web_inv w" and "continue_goroutine i w = Some w'"
  shows "web_inv w'"
proof -
  obtain gs g n where gs: "w_goroutines w = gs @ [g]" "\<forall>x \<in> set gs. x = Finished" and n: "length (w_addresses w) = Suc n"
    and ph: "web_phase w g n" and e: "w_end w = None" and sh: "\<forall>m \<in> set (w_shut w). m < length (w_addresses w)"
    using assms(1) by (auto simp: web_inv_def)
  have i: "i = length gs"
  proof (rule ccontr)
    assume "i \<noteq> length gs"
    then have "i < length gs" using assms(2) gs by (auto simp: continue_goroutine_def Let_def split: if_splits)
    then have "w_goroutines w ! i = Finished" using gs by (simp add: nth_append)
    then show False using assms(2) gs by (simp add: continue_goroutine_def Let_def split: if_splits)
  qed
  have free: "\<not> address_taken w n" if "g = Starting"
    using gs that by (auto simp: address_taken_def list_ex_iff split: goroutine.splits)
  have "\<exists>g'. w_goroutines w' = gs @ [g'] \<and> w_addresses w' = w_addresses w \<and> w_shut w' = w_shut w \<and>
      w_end w' = None \<and> web_phase w' g' n"
  proof (cases g)
    case Starting
    have "w_srv w = Some n" using ph Starting by (cases "w_caller w") (simp_all add: web_phase_def)
    with assms(2) gs e i free [OF Starting] Starting ph show ?thesis
      by (cases "w_caller w") (auto simp: continue_goroutine_def Let_def web_phase_def split: if_splits)
  next
    case (Serving m)
    with assms(2) gs e i ph show ?thesis
      by (cases "w_caller w") (auto simp: continue_goroutine_def Let_def web_phase_def split: if_splits)
  next
    case Returned
    with assms(2) gs e i ph show ?thesis
      by (cases "w_caller w") (auto simp: continue_goroutine_def Let_def web_phase_def)
  next
    case Cleared
    with assms(2) gs e i ph show ?thesis
      by (cases "w_caller w") (auto simp: continue_goroutine_def Let_def web_phase_def split: if_splits)
  next
    case Finished
    with assms(2) gs i show ?thesis by (simp add: continue_goroutine_def Let_def)
  qed
  with gs n sh show ?thesis unfolding web_inv_def by metis
qed

lemma step_inv:
  assumes "web_inv w" and "web_step a w = Some w'" and "orderly_action a w"
  shows "web_inv w'"
proof (cases "\<exists>i. a = Continue i")
  case True
  then show ?thesis using continue_inv [OF assms(1)] assms(2) by auto
next
  case False
  obtain gs g n where gs: "w_goroutines w = gs @ [g]" "\<forall>x \<in> set gs. x = Finished" and n: "length (w_addresses w) = Suc n"
    and ph: "web_phase w g n" and e: "w_end w = None" and sh: "\<forall>m \<in> set (w_shut w). m < length (w_addresses w)"
    using assms(1) by (auto simp: web_inv_def)
  have step: "w_end w' = None \<and> (\<forall>m \<in> set (w_shut w'). m < length (w_addresses w')) \<and>
      (\<exists>gs' g' n'. w_goroutines w' = gs' @ [g'] \<and> (\<forall>x \<in> set gs'. x = Finished) \<and>
        length (w_addresses w') = Suc n' \<and> web_phase w' g' n')"
  proof (cases a)
    case LoadSrv
    with assms(2) obtain b where b: "w_caller w = Stopping b" by (auto split: caller.splits)
    with LoadSrv assms(2) gs n ph e sh show ?thesis by (auto simp: web_phase_def)
  next
    case (ShutdownReturns ok)
    with assms(2) obtain b m where b: "w_caller w = ShuttingDown b m" by (auto split: caller.splits)
    with ShutdownReturns assms(2,3) gs n ph e sh show ?thesis
      by (auto simp: web_phase_def orderly_action_def split: if_splits)
  next
    case (NewServer address)
    with assms(2,3) gs have b: "w_caller w = Resting True" "g = Finished"
      by (auto simp: orderly_action_def split: if_splits)
    with NewServer assms(2) gs n ph e sh show ?thesis by (force simp: web_phase_def)
  next
    case Spawn
    with assms(2) have b: "w_caller w = Spawning" by (auto split: if_splits)
    with ph have "g = Finished" by (simp add: web_phase_def)
    then have "\<forall>x \<in> set (w_goroutines w). x = Finished" using gs by auto
    with b Spawn assms(2) n ph e sh show ?thesis by (auto simp: web_phase_def)
  next
    case (ListenFails i)
    with assms(3) show ?thesis by (simp add: orderly_action_def)
  qed (use assms(2) False gs n ph e sh in \<open>auto simp: web_phase_def split: if_splits\<close>)
  then show ?thesis unfolding web_inv_def by blast
qed

lemma run_inv:
  "web_inv w \<Longrightarrow> web_run as w = Some w' \<Longrightarrow> orderly as w \<Longrightarrow> web_inv w'"
proof (induction as arbitrary: w)
  case (Cons a as)
  then obtain w1 where "web_step a w = Some w1" "web_run as w1 = Some w'"
    by (auto split: if_splits option.splits)
  with Cons step_inv [of w a w1] show ?case by auto
qed simp

text \<open>Once its server is shut down, the last goroutine ends the process in at most three steps.\<close>

lemma last_goroutine_ends:
  assumes "w_goroutines w = gs @ [g]" and "w_end w = None" and "\<not> w_reload w" and "w_group w = 1" and "n \<in> set (w_shut w)"
    and "g = Starting \<longrightarrow> w_srv w = Some n" and "g \<in> {Starting, Serving n, Returned, Cleared}"
  shows "\<exists>as w'. length as \<le> 3 \<and> web_run as w = Some w' \<and> process_done w'"
proof -
  let ?c = "Continue (length gs)"
  have "\<exists>w'. web_run [?c] w = Some w' \<and> process_done w'" if "g = Cleared"
    using assms that by (simp add: continue_goroutine_def Let_def process_done_def)
  moreover have "\<exists>w'. web_run [?c, ?c] w = Some w' \<and> process_done w'" if "g = Returned"
    using assms that by (simp add: continue_goroutine_def Let_def process_done_def)
  moreover have "\<exists>w'. web_run [?c, ?c, ?c] w = Some w' \<and> process_done w'" if "g \<in> {Starting, Serving n}"
    using assms that by (auto simp: continue_goroutine_def Let_def process_done_def)
  moreover have "length [?c] \<le> 3" "length [?c, ?c] \<le> 3" "length [?c, ?c, ?c] \<le> 3" by simp_all
  ultimately show ?thesis using assms(7) by blast
qed

lemma stop_ends:
  assumes "web_inv w" and "asked_to_stop w"
  shows "\<exists>as w'. length as \<le> 4 \<and> web_run as w = Some w' \<and> process_done w'"
proof -
  obtain gs g n where gs: "w_goroutines w = gs @ [g]" and ph: "web_phase w g n" and e: "w_end w = None"
    using assms(1) by (auto simp: web_inv_def)
  show ?thesis
  proof (cases "g = Finished \<or> w_caller w = Stopping False")
    case False
    then have "\<not> w_reload w" "w_group w = 1" "n \<in> set (w_shut w)" "g = Starting \<longrightarrow> w_srv w = Some n"
      "g \<in> {Starting, Serving n, Returned, Cleared}"
      using assms(2) ph by (cases "w_caller w"; auto simp: web_phase_def asked_to_stop_def)+
    from last_goroutine_ends [OF gs e this] obtain as w' where
      "length as \<le> 3" "web_run as w = Some w'" "process_done w'" by blast
    then show ?thesis by (intro exI [of _ as] exI [of _ w']) simp
  next
    case True
    show ?thesis
    proof (cases "w_caller w = Stopping False")
      case True
      let ?w = "w\<lparr>w_shut := n # w_shut w, w_caller := ShuttingDown False n\<rparr>"
      have ph': "g \<in> {Starting, Serving n}" "w_srv w = Some n" "\<not> w_reload w" "w_group w = 1"
        using ph True by (auto simp: web_phase_def)
      have "\<exists>as w'. length as \<le> 3 \<and> web_run as ?w = Some w' \<and> process_done w'"
        by (rule last_goroutine_ends [of _ gs g n]) (use gs e ph' in auto)
      then obtain as w' where as: "length as \<le> 3" "web_run as ?w = Some w'" "process_done w'" by blast
      then have "web_run (LoadSrv # as) w = Some w'" using e True ph' by simp
      with as show ?thesis by (intro exI [of _ "LoadSrv # as"] exI [of _ w']) simp
    next
      case False
      then have "process_done w"
        using \<open>g = Finished \<or> w_caller w = Stopping False\<close> assms(2) ph
        by (cases "w_caller w") (auto simp: web_phase_def asked_to_stop_def process_done_def)
      then show ?thesis by (intro exI [of _ "[]"] exI [of _ w]) simp
    qed
  qed
qed

text \<open>
  C36: However often the web server is reloaded, in every interleaving in which no external
  call fails and a reload makes the new server only after the goroutine of the old one has
  finished: nothing panics, between reloads exactly one goroutine is left and it serves (or is
  about to) the newest server, which is the one \<^verbatim>\<open>srv\<close> names and is not shut down, the process
  ends only after it was asked to stop, and then at most four more steps end it.
\<close>

theorem orderly_reload_serves:
  assumes "web_run as (web_start address) = Some w" and "orderly as (web_start address)"
  shows "w_end w = None \<and> (process_done w \<longrightarrow> asked_to_stop w) \<and>
    (asked_to_stop w \<longrightarrow> (\<exists>as' w'. length as' \<le> 4 \<and> web_run as' w = Some w' \<and> process_done w')) \<and>
    (w_caller w = Idle \<longrightarrow>
       (\<exists>n g. w_srv w = Some n \<and> length (w_addresses w) = Suc n \<and> n \<notin> set (w_shut w) \<and>
          filter (\<lambda>g. g \<noteq> Finished) (w_goroutines w) = [g] \<and> g \<in> {Starting, Serving n}))"
proof -
  have inv: "web_inv w" by (rule run_inv [OF web_inv_start assms])
  then obtain gs g n where gs: "w_goroutines w = gs @ [g]" "\<forall>x \<in> set gs. x = Finished" and n: "length (w_addresses w) = Suc n"
    and ph: "web_phase w g n" and e: "w_end w = None"
    by (auto simp: web_inv_def)
  have "process_done w \<longrightarrow> asked_to_stop w"
    using ph by (cases "w_caller w") (auto simp: web_phase_def process_done_def asked_to_stop_def split: if_splits)
  moreover have "filter (\<lambda>g. g \<noteq> Finished) gs = []" using gs(2) by (simp add: filter_empty_conv)
  then have "w_caller w = Idle \<longrightarrow>
       (\<exists>n g. w_srv w = Some n \<and> length (w_addresses w) = Suc n \<and> n \<notin> set (w_shut w) \<and>
          filter (\<lambda>g. g \<noteq> Finished) (w_goroutines w) = [g] \<and> g \<in> {Starting, Serving n})"
    using ph gs n by (auto simp: web_phase_def)
  ultimately show ?thesis using e stop_ends [OF inv] by blast
qed

definition orderly_reload :: "web_action list" where
  "orderly_reload = [Continue 0, BeginReload, LoadSrv, Continue 0, ShutdownReturns True, Continue 0, Continue 0,
     NewServer ''b:80'', ClearReload, Spawn, Continue 1]"

theorem orderly_reload_serves_witness:
  "\<exists>w g. web_run orderly_reload (web_start ''a:80'') = Some w \<and> w_srv w = Some 1 \<and> w_addresses w = [''a:80'', ''b:80''] \<and>
     filter (\<lambda>g. g \<noteq> Finished) (w_goroutines w) = [g] \<and> g \<in> {Starting, Serving 1}"
proof -
  have "case web_run orderly_reload (web_start ''a:80'') of
      Some w \<Rightarrow> w_caller w = Idle \<and> w_addresses w = [''a:80'', ''b:80''] | None \<Rightarrow> False"
    by code_simp
  then obtain w where run: "web_run orderly_reload (web_start ''a:80'') = Some w"
    and w: "w_caller w = Idle" "w_addresses w = [''a:80'', ''b:80'']"
    by (auto split: option.splits)
  have "orderly orderly_reload (web_start ''a:80'')" by code_simp
  from orderly_reload_serves [OF run this] run w show ?thesis by auto
qed

text \<open>
  Nothing in the code makes a reload orderly.  When the goroutine of the old server is late,
  it may (1) end the process although nobody asked it to stop, by reading \<^verbatim>\<open>reload\<close> after it was
  cleared; (2) clear \<^verbatim>\<open>srv\<close> after it was set, so that the new goroutine dereferences nil; or (3)
  clear it while the new server runs: a stop then finds no server to shut down, and the next
  reload fails because the address is taken.
\<close>

definition late_reload :: "web_action list" where
  "late_reload = [Continue 0, BeginReload, LoadSrv, Continue 0, ShutdownReturns True, NewServer ''a:80'']"

definition race_end :: "web_action list \<Rightarrow> (web \<Rightarrow> bool) \<Rightarrow> bool" where
  "race_end as P \<longleftrightarrow> (case web_run (late_reload @ as) (web_start ''a:80'') of Some w \<Rightarrow> P w | None \<Rightarrow> False)"

lemma reload_races:
  "race_end [ClearReload, Continue 0, Continue 0] (\<lambda>w. process_done w \<and> \<not> asked_to_stop w)"
  "race_end [Continue 0, ClearReload, Spawn, Continue 1] (\<lambda>w. w_end w = Some Panicked)"
  "race_end [ClearReload, Spawn, Continue 1, Continue 0, BeginStop, LoadSrv]
     (\<lambda>w. w_caller w = Resting False \<and> w_goroutines w = [Cleared, Serving 1] \<and> w_shut w = [0])"
  "race_end [ClearReload, Spawn, Continue 1, Continue 0, BeginReload, LoadSrv, NewServer ''a:80'', ClearReload, Spawn, Continue 2]
     (\<lambda>w. w_end w = Some Fatal)"
  by code_simp+

end
