(* ===== verification/Tools.thy ===== *)
theory Tools
  imports UploadClaims ThumbPipeline Archive Keys Reload
begin

text \<open>
  The command line programs (\<^verbatim>\<open>cmd\<close>) and the homeserver databases they read
  (\<^verbatim>\<open>homeserver_interop/*/db.go\<close>): importing the media of a running homeserver, archiving the
  files of a stopped one, importing an archive here or into Synapse, finding unreferenced
  objects in S3, writing signing keys, and the antispam plugin.

  Flags are arguments of the definitions.  The answers of the homeserver, its database rows,
  reading a file, image libraries and the OCR server are parameters.  A program that exits
  with an error, or panics with one, ends with that error.
\<close>

text \<open>\<open>if err != nil { panic(err) }\<close>\<close>

definition must :: "('s, 'a) io \<Rightarrow> ('s, 'a) io" where
  "must m = bindE (tryE m) (\<lambda>res. case res of Inl err \<Rightarrow> throwE (Panic (err_text err)) | Inr x \<Rightarrow> returnE x)"

section \<open>homeserver\_interop/*/db.go\<close>

text \<open>A row as PostgreSQL gives it: \<open>None\<close> is \<open>NULL\<close>, which reads as the empty string or as 0.\<close>

definition NullString :: "string option \<Rightarrow> string" where
  "NullString v = (case v of None \<Rightarrow> '''' | Some s \<Rightarrow> s)"

definition NullInt64 :: "int option \<Rightarrow> int" where
  "NullInt64 v = (case v of None \<Rightarrow> 0 | Some n \<Rightarrow> n)"

record synapse_row =
  sr_media_id :: "string option"
  sr_media_type :: "string option"
  sr_media_length :: "int option"
  sr_created_ts :: "int option"
  sr_upload_name :: "string option"
  sr_user_id :: "string option"
  sr_url_cache :: "string option"

record synapse_LocalMedia =
  sl_MediaId :: string
  sl_ContentType :: string
  sl_SizeBytes :: int
  sl_CreatedTs :: int
  sl_UploadName :: string
  sl_UserId :: string
  sl_UrlCache :: string

definition synapse_scan :: "synapse_row \<Rightarrow> synapse_LocalMedia" where
  "synapse_scan r = \<lparr>sl_MediaId = NullString (sr_media_id r), sl_ContentType = NullString (sr_media_type r),
     sl_SizeBytes = NullInt64 (sr_media_length r), sl_CreatedTs = NullInt64 (sr_created_ts r),
     sl_UploadName = NullString (sr_upload_name r), sl_UserId = NullString (sr_user_id r), sl_UrlCache = NullString (sr_url_cache r)\<rparr>"

text \<open>
  The loop \<open>for rows.Next()\<close>.  The error that ends an iteration early is left in \<open>rows.Err()\<close>,
  which nobody reads: the rows so far are returned as if they were all.  Scanning into nullable
  columns of the right type does not fail.
\<close>

primrec next_rows :: "('r \<Rightarrow> 'a) \<Rightarrow> 'r list \<Rightarrow> 'a list \<Rightarrow> (world, 'a list) io" where
  "next_rows scan [] results = returnE results"
| "next_rows scan (r # rs) results =
     bindE (tryE (ext (returnE ()))) (\<lambda>more. case more of
       Inl _ \<Rightarrow> returnE results
     | Inr _ \<Rightarrow> next_rows scan rs (results @ [scan r]))"

definition synapse_GetAllMedia :: "synapse_row list \<Rightarrow> (world, synapse_LocalMedia list) io" where
  "synapse_GetAllMedia rows = thenE (ext (returnE ())) (next_rows synapse_scan rows [])"

record dendrite_row =
  dr_media_id :: "string option"
  dr_media_origin :: "string option"
  dr_content_type :: "string option"
  dr_file_size_bytes :: "int option"
  dr_creation_ts :: "int option"
  dr_upload_name :: "string option"
  dr_base64hash :: "string option"
  dr_user_id :: "string option"

record dendrite_LocalMedia =
  dl_MediaId :: string
  dl_MediaOrigin :: string
  dl_ContentType :: string
  dl_FileSizeBytes :: int
  dl_CreationTs :: int
  dl_UploadName :: string
  dl_Base64Hash :: string
  dl_UserId :: string

definition dendrite_scan :: "dendrite_row \<Rightarrow> dendrite_LocalMedia" where
  "dendrite_scan r = \<lparr>dl_MediaId = NullString (dr_media_id r), dl_MediaOrigin = NullString (dr_media_origin r),
     dl_ContentType = NullString (dr_content_type r), dl_FileSizeBytes = NullInt64 (dr_file_size_bytes r),
     dl_CreationTs = NullInt64 (dr_creation_ts r), dl_UploadName = NullString (dr_upload_name r),
     dl_Base64Hash = NullString (dr_base64hash r), dl_UserId = NullString (dr_user_id r)\<rparr>"

definition dendrite_GetAllMedia :: "string \<Rightarrow> dendrite_row list \<Rightarrow> (world, dendrite_LocalMedia list) io" where
  "dendrite_GetAllMedia origin rows =
     thenE (ext (returnE ())) (next_rows dendrite_scan (filter (\<lambda>r. dr_media_origin r = Some origin) rows) [])"

section \<open>homeserver\_live\_importers\<close>

record MediaMetadata =
  mm_MediaId :: string
  mm_ContentType :: string
  mm_FileName :: string
  mm_UploaderUserId :: string
  mm_SizeBytes :: int

definition synapse_metadata :: "synapse_LocalMedia \<Rightarrow> MediaMetadata" where
  "synapse_metadata r = \<lparr>mm_MediaId = sl_MediaId r, mm_ContentType = sl_ContentType r, mm_FileName = sl_UploadName r,
     mm_UploaderUserId = sl_UserId r, mm_SizeBytes = sl_SizeBytes r\<rparr>"

definition dendrite_metadata :: "dendrite_LocalMedia \<Rightarrow> MediaMetadata" where
  "dendrite_metadata r = \<lparr>mm_MediaId = dl_MediaId r, mm_ContentType = dl_ContentType r, mm_FileName = dl_UploadName r,
     mm_UploaderUserId = dl_UserId r, mm_SizeBytes = dl_FileSizeBytes r\<rparr>"

text \<open>What \<^verbatim>\<open>http.Get\<close> answers for a URL: the status and the body.\<close>

type_synonym http_get = "string \<Rightarrow> goerr + int \<times> bytesReader"

definition downloadMedia :: "http_get \<Rightarrow> string \<Rightarrow> string \<Rightarrow> string \<Rightarrow> (world, bytesReader) io" where
  "downloadMedia http baseUrl serverName mediaId =
     bindE (ext (lift_result (http (baseUrl @ ''/_matrix/media/v3/download/'' @ serverName @ ''/'' @ mediaId)))) (\<lambda>(code, body).
     if code \<noteq> 200 then throwE (ErrOther (''received status code '' @ Itoa code)) else returnE body)"

definition doWork :: "externals \<Rightarrow> http_get \<Rightarrow> RequestContext \<Rightarrow> string \<Rightarrow> string \<Rightarrow> MediaMetadata \<Rightarrow> (world, unit) io" where
  "doWork xt http ctx serverName csApiUrl record =
     bindE (must (media_GetById serverName (mm_MediaId record))) (\<lambda>dbRecord.
     if dbRecord \<noteq> None then returnE ()
     else bindE (must (downloadMedia http csApiUrl serverName (mm_MediaId record))) (\<lambda>body.
          bindE (must (upload_Execute xt ctx serverName (mm_MediaId record) body (mm_ContentType record) (mm_FileName record)
            (mm_UploaderUserId record) LocalMediaKind)) (\<lambda>dbRecord. case dbRecord of
              None \<Rightarrow> throwE (Panic ''invalid memory address or nil pointer dereference'')
            | Some _ \<Rightarrow> returnE ())))"

text \<open>The records in the order in which the workers take them.\<close>

definition PsqlMatrixDownloadCopy ::
  "externals \<Rightarrow> http_get \<Rightarrow> RequestContext \<Rightarrow> string \<Rightarrow> string \<Rightarrow> (world, 'm list) io \<Rightarrow> ('m \<Rightarrow> MediaMetadata) \<Rightarrow> (world, unit) io" where
  "PsqlMatrixDownloadCopy xt http ctx serverName apiUrl getAllMedia extractFn =
     bindE (must getAllMedia) (\<lambda>records. foreachE (doWork xt http ctx serverName apiUrl) (map extractFn records))"

section \<open>homeserver\_offline\_importers\<close>

definition path_JoinAll :: "string list \<Rightarrow> string" where
  "path_JoinAll es = (case filter (\<lambda>e. e \<noteq> []) es of [] \<Rightarrow> [] | es' \<Rightarrow> path_Clean (str_join ''/'' es'))"

text \<open>Slicing \<open>s[a:b]\<close> panics out of range.\<close>

definition slice :: "nat \<Rightarrow> nat \<Rightarrow> string \<Rightarrow> goerr + string" where
  "slice a b s = (if b \<le> length s \<and> a \<le> b then Inr (take (b - a) (drop a s)) else Inl (Panic ''slice bounds out of range''))"

definition synapse_path :: "string \<Rightarrow> synapse_LocalMedia \<Rightarrow> goerr + string" where
  "synapse_path importPath r =
     (case slice 0 2 (sl_MediaId r) of Inl e \<Rightarrow> Inl e | Inr a \<Rightarrow> (case slice 2 4 (sl_MediaId r) of Inl e \<Rightarrow> Inl e | Inr b \<Rightarrow>
        let filePath = path_JoinAll [importPath, ''local_content'', a, b, drop 4 (sl_MediaId r)] in
        if sl_UrlCache r \<noteq> []
        then let dateParts = str_split (CHR ''_'') (sl_MediaId r) in
          Inr (path_JoinAll [importPath, ''url_cache'', hd dateParts, str_join ''_'' (tl dateParts)])
        else Inr filePath))"

definition dendrite_path :: "string \<Rightarrow> dendrite_LocalMedia \<Rightarrow> goerr + string" where
  "dendrite_path importPath r =
     (case slice 0 1 (dl_Base64Hash r) of Inl e \<Rightarrow> Inl e | Inr a \<Rightarrow> (case slice 1 2 (dl_Base64Hash r) of Inl e \<Rightarrow> Inl e | Inr b \<Rightarrow>
        Inr (path_JoinAll [importPath, a, b, drop 2 (dl_Base64Hash r), ''file''])))"

text \<open>What a program does with a record: its description and the file, or the error of opening it.\<close>

definition open_record ::
  "(string \<Rightarrow> goerr + bytes) \<Rightarrow> bool \<Rightarrow> goerr + string \<Rightarrow> MediaInfo \<Rightarrow> (world, MediaInfo \<times> (goerr + bytes)) io" where
  "open_record openFile skipMissing filePath info =
     bindE (lift_result filePath) (\<lambda>p.
     bindE (tryE (ext (lift_result (openFile p)))) (\<lambda>f. case f of
       Inl err \<Rightarrow> returnE (\<lparr>mi_Origin = '''', mi_MediaId = '''', mi_FileName = (if err = ErrNotExist \<and> skipMissing then p else ''''),
           mi_ContentType = '''', mi_CreationTs = 0, mi_S3Url = '''', mi_UserId = ''''\<rparr>, Inl err)
     | Inr b \<Rightarrow> returnE (info, Inr b)))"

definition synapse_process ::
  "(string \<Rightarrow> goerr + bytes) \<Rightarrow> string \<Rightarrow> string \<Rightarrow> bool \<Rightarrow> synapse_LocalMedia \<Rightarrow> (world, MediaInfo \<times> (goerr + bytes)) io" where
  "synapse_process openFile serverName importPath skipMissing r =
     open_record openFile skipMissing (synapse_path importPath r)
       \<lparr>mi_Origin = serverName, mi_MediaId = sl_MediaId r, mi_FileName = sl_UploadName r, mi_ContentType = sl_ContentType r,
        mi_CreationTs = sl_CreatedTs r, mi_S3Url = '''', mi_UserId = sl_UserId r\<rparr>"

definition dendrite_process ::
  "(string \<Rightarrow> goerr + bytes) \<Rightarrow> string \<Rightarrow> string \<Rightarrow> bool \<Rightarrow> dendrite_LocalMedia \<Rightarrow> (world, MediaInfo \<times> (goerr + bytes)) io" where
  "dendrite_process openFile serverName importPath skipMissing r =
     open_record openFile skipMissing (dendrite_path importPath r)
       \<lparr>mi_Origin = serverName, mi_MediaId = dl_MediaId r, mi_FileName = dl_UploadName r, mi_ContentType = dl_ContentType r,
        mi_CreationTs = dl_CreationTs r, mi_S3Url = '''', mi_UserId = dl_UserId r\<rparr>"

text \<open>
  The loop over the records.  A missing file that is to be skipped returns from the whole
  function: the result says whether the loop reached its end.
\<close>

primrec archive_records ::
  "archive_externals \<Rightarrow> PartPersister \<Rightarrow> bool \<Rightarrow> ('m \<Rightarrow> (world, MediaInfo \<times> (goerr + bytes)) io) \<Rightarrow> 'm list \<Rightarrow> bool writer_io" where
  "archive_records xv writeFn skipMissing processFn [] = returnE True"
| "archive_records xv writeFn skipMissing processFn (r # rs) =
     bindE (on_world (processFn r)) (\<lambda>(info, f). case f of
       Inl err \<Rightarrow> if err = ErrNotExist \<and> skipMissing then returnE False else throwE err
     | Inr b \<Rightarrow> bindE (AppendMedia xv writeFn (b, None) info) (\<lambda>_. archive_records xv writeFn skipMissing processFn rs))"

definition PsqlFlatFileArchive ::
  "archive_externals \<Rightarrow> PartPersister \<Rightarrow> string \<Rightarrow> int \<Rightarrow> bool \<Rightarrow> (world, 'm list) io \<Rightarrow>
   ('m \<Rightarrow> (world, MediaInfo \<times> (goerr + bytes)) io) \<Rightarrow> (world, unit) io" where
  "PsqlFlatFileArchive xv writeFn serverName partSizeBytes skipMissing getAllMedia processFn =
     bindE (must getAllMedia) (\<lambda>records w.
       case bindE (thenE beginTar (archive_records xv writeFn skipMissing processFn records))
              (\<lambda>done'. whenE done' (Finish xv writeFn)) (w, initialWriter ''OOB'' serverName partSizeBytes) of
         (res, (w', _)) \<Rightarrow> (res, w'))"

section \<open>Archives on the command line\<close>

text \<open>\<open>files\<close> are the plain files of the directory, in the order of their names.\<close>

primrec find_manifest :: "archive_externals \<Rightarrow> (string \<Rightarrow> goerr + bytes) \<Rightarrow> string list \<Rightarrow> unit reader_io" where
  "find_manifest xv openFile [] = returnE ()"
| "find_manifest xv openFile (fname # files) =
     bindE (on_world (ext (lift_result (openFile fname)))) (\<lambda>f.
     bindE (TryGetManifestFrom xv f) (\<lambda>ok. if ok then returnE () else find_manifest xv openFile files))"

definition ProcessArchiveDirectory ::
  "archive_externals \<Rightarrow> externals \<Rightarrow> RequestContext \<Rightarrow> (string \<Rightarrow> goerr + bytes) \<Rightarrow> string \<Rightarrow> string list \<Rightarrow>
   (ManifestRecord \<Rightarrow> bytes \<Rightarrow> (world, bytes) io) \<Rightarrow> string list reader_io" where
  "ProcessArchiveDirectory xv xt ctx openFile entityId files processFn =
     thenE (find_manifest xv openFile files)
    (bindE (getsS GetNotUploadedMxcUris) (\<lambda>mxcs.
     if mxcs = [] then returnE []
     else let opts = \<lparr>po_LockedEntityId = entityId, po_CheckUploadedOnly = False, po_ProcessFunction = Some processFn\<rparr> in
       thenE (foreachE (\<lambda>fname. bindE (on_world (ext (lift_result (openFile fname)))) (\<lambda>f. ProcessFile xv xt ctx f opts)) files)
      (thenE (ProcessS3Files xv xt ctx opts)
      (getsS GetNotUploadedMxcUris))))"

text \<open>\<^verbatim>\<open>gdpr_import\<close> returns what is reported as missing; with \<open>verify\<close> nothing is imported.\<close>

definition gdpr_import ::
  "archive_externals \<Rightarrow> externals \<Rightarrow> RequestContext \<Rightarrow> (string \<Rightarrow> goerr + bytes) \<Rightarrow> string list \<Rightarrow> string \<Rightarrow> bool \<Rightarrow> string list reader_io" where
  "gdpr_import xv xt ctx openFile files onlyEntity verifyMode =
     thenE (must (find_manifest xv openFile files))
    (bindE (getsS GetNotUploadedMxcUris) (\<lambda>mxcs.
     if mxcs = [] then returnE []
     else let opts = \<lparr>po_LockedEntityId = onlyEntity, po_CheckUploadedOnly = verifyMode, po_ProcessFunction = None\<rparr> in
       thenE (must (foreachE (\<lambda>fname. bindE (on_world (ext (lift_result (openFile fname)))) (\<lambda>f. ProcessFile xv xt ctx f opts)) files))
      (thenE (whenE (\<not> verifyMode) (must (ProcessS3Files xv xt ctx opts)))
      (getsS GetNotUploadedMxcUris))))"

section \<open>import\_to\_synapse\<close>

text \<open>The files below the media store of Synapse, and the two tables.\<close>

record synapse_store =
  sy_files :: "string \<Rightarrow> bytes option"
  sy_media :: "(string \<times> string \<times> int \<times> int \<times> string \<times> string) list"
  sy_thumbnails :: "(string \<times> int \<times> int \<times> string \<times> string \<times> int) list"

record synapse_tool =
  sx_generators :: "Generator list"
  sx_DetectMimeType :: "bytes \<Rightarrow> goerr + string"
  sx_redraw :: "bytes \<Rightarrow> goerr + int \<times> int \<times> bytes"

definition synapseDefaultSizes :: "(int \<times> int \<times> string) list" where
  "synapseDefaultSizes = [(32, 32, ''crop''), (96, 96, ''crop''), (320, 240, ''scale''), (640, 480, ''scale''), (800, 600, ''scale'')]"

definition HasMedia :: "string \<Rightarrow> (world \<times> synapse_store, bool) io" where
  "HasMedia mediaId = thenE (on_world (ext (returnE ()))) (getsS (\<lambda>s. mediaId \<in> fst ` set (sy_media s)))"

definition InsertMedia :: "string \<Rightarrow> string \<Rightarrow> int \<Rightarrow> int \<Rightarrow> string \<Rightarrow> string \<Rightarrow> (world \<times> synapse_store, unit) io" where
  "InsertMedia mediaId contentType sizeBytes createdTs uploadName userId =
     thenE (on_world (ext (returnE ())))
    (modifyS (\<lambda>s. s\<lparr>sy_media := sy_media s @ [(mediaId, contentType, sizeBytes, createdTs, uploadName, userId)]\<rparr>))"

definition InsertThumbnail :: "string \<Rightarrow> int \<Rightarrow> int \<Rightarrow> string \<Rightarrow> string \<Rightarrow> int \<Rightarrow> (world \<times> synapse_store, unit) io" where
  "InsertThumbnail mediaId width height contentType mthd sizeBytes =
     thenE (on_world (ext (returnE ())))
    (modifyS (\<lambda>s. s\<lparr>sy_thumbnails := sy_thumbnails s @ [(mediaId, width, height, contentType, mthd, sizeBytes)]\<rparr>))"

text \<open>Creating the directories and the file, and writing it; a failed write leaves an empty file.\<close>

definition create_file :: "string \<Rightarrow> bytes \<Rightarrow> (world \<times> synapse_store, unit) io" where
  "create_file p b =
     thenE (on_world (ext (returnE ())))
    (thenE (on_world (ext (returnE ())))
    (thenE (modifyS (\<lambda>s. s\<lparr>sy_files := (sy_files s)(p := Some [])\<rparr>))
    (thenE (on_world (ext (returnE ())))
    (modifyS (\<lambda>s. s\<lparr>sy_files := (sy_files s)(p := Some b)\<rparr>)))))"

definition media_directories :: "string \<Rightarrow> goerr + string \<times> string" where
  "media_directories mediaId = (case slice 0 2 mediaId of Inl e \<Rightarrow> Inl e | Inr a \<Rightarrow>
     (case slice 2 4 mediaId of Inl e \<Rightarrow> Inl e | Inr b \<Rightarrow> Inr (a, b)))"

definition content_path :: "string \<Rightarrow> string \<Rightarrow> goerr + string" where
  "content_path exportPath mediaId = (case media_directories mediaId of Inl e \<Rightarrow> Inl e | Inr (a, b) \<Rightarrow>
     Inr (path_JoinAll [path_JoinAll [exportPath, ''local_content'', a, b], drop 4 mediaId]))"

definition thumbnail_path :: "string \<Rightarrow> string \<Rightarrow> int \<Rightarrow> int \<Rightarrow> string \<Rightarrow> goerr + string" where
  "thumbnail_path exportPath mediaId width height mthd = (case media_directories mediaId of Inl e \<Rightarrow> Inl e | Inr (a, b) \<Rightarrow>
     Inr (path_JoinAll [path_JoinAll [exportPath, ''local_thumbnails'', a, b, drop 4 mediaId],
       Itoa width @ ''-'' @ Itoa height @ ''-image-png-'' @ mthd]))"

text \<open>
  The goroutine of a size: an error ends it and is only logged, but where no thumbnail is
  made the reader of a nil thumbnail is looked at.
\<close>

definition synapse_thumbnail ::
  "synapse_tool \<Rightarrow> RequestContext \<Rightarrow> string \<Rightarrow> string \<Rightarrow> bytes \<Rightarrow> int \<times> int \<times> string \<Rightarrow> (world \<times> synapse_store, unit) io" where
  "synapse_thumbnail sx ctx exportPath mediaId src = (\<lambda>(width, height, mthd).
     bindE (tryE
       (thenE (on_world (ext (returnE ())))
       (bindE (lift_result (sx_DetectMimeType sx src)) (\<lambda>fixedContentType.
        case GenerateThumbnail (sx_generators sx) ctx src fixedContentType width height mthd False of
          Inl err \<Rightarrow> throwE (Panic ''invalid memory address or nil pointer dereference'')
        | Inr None \<Rightarrow> throwE (Panic ''invalid memory address or nil pointer dereference'')
        | Inr (Some t) \<Rightarrow>
            bindE (lift_result (sx_redraw sx (tn_Reader t))) (\<lambda>(x, y, png).
            bindE (lift_result (thumbnail_path exportPath mediaId x y mthd)) (\<lambda>p.
            thenE (create_file p png) (InsertThumbnail mediaId x y ''image/png'' mthd (int (length png))))))))) (\<lambda>_. returnE ()))"

definition synapse_import ::
  "synapse_tool \<Rightarrow> RequestContext \<Rightarrow> string \<Rightarrow> bool \<Rightarrow> ManifestRecord \<Rightarrow> bytes \<Rightarrow> (world \<times> synapse_store, unit) io" where
  "synapse_import sx ctx exportPath generateThumbnails record f =
     bindE (HasMedia (mr_MediaId record)) (\<lambda>ok.
     if ok then returnE ()
     else bindE (lift_result (content_path exportPath (mr_MediaId record))) (\<lambda>filePath.
       thenE (create_file filePath f)
      (thenE (InsertMedia (mr_MediaId record) (mr_ContentType record) (mr_SizeBytes record) (mr_CreatedTs record)
         (mr_FileName record) (mr_Uploader record))
      (whenE generateThumbnails
        (foreachE (synapse_thumbnail sx ctx exportPath (mr_MediaId record) f) synapseDefaultSizes)))))"

section \<open>s3\_consistency\_check\<close>

text \<open>\<open>listing\<close> is what the S3 client lists of the bucket: keys and sizes.\<close>

definition ListS3Files :: "(s3 \<Rightarrow> (string \<times> int) list) \<Rightarrow> DatastoreConfig \<Rightarrow> (world, (string \<times> int) list) io" where
  "ListS3Files listing ds =
     (if ds_Type ds \<noteq> ''s3'' then throwE (ErrOther ''not an S3 datastore'')
      else bindE (getS3 ds) (\<lambda>s3c. returnE (listing s3c)))"

primrec find_unreferenced :: "string \<Rightarrow> (string \<times> int) list \<Rightarrow> string list \<times> int \<Rightarrow> (world, string list \<times> int) io" where
  "find_unreferenced dsId [] acc = returnE acc"
| "find_unreferenced dsId (object # objs) acc =
     bindE (must (media_LocationExists dsId (fst object))) (\<lambda>exists.
     if exists then find_unreferenced dsId objs acc
     else bindE (must (thumbnails_LocationExists dsId (fst object))) (\<lambda>exists.
       if exists then find_unreferenced dsId objs acc
       else find_unreferenced dsId objs (fst acc @ [fst object], int64 (snd acc + snd object))))"

text \<open>The lines of the result file.\<close>

definition s3_consistency_check :: "(s3 \<Rightarrow> (string \<times> int) list) \<Rightarrow> RequestContext \<Rightarrow> string \<Rightarrow> (world, string list) io" where
  "s3_consistency_check listing ctx datastoreId =
     (case datastores_Get ctx datastoreId of
        None \<Rightarrow> throwE (Panic ''datastore not found'')
      | Some ds \<Rightarrow>
          if ds_Type ds \<noteq> ''s3'' then throwE (Panic ''datastore is not an S3 datastore'')
          else bindE (must (ListS3Files listing ds)) (\<lambda>objs.
            bindE (find_unreferenced (ds_Id ds) objs ([], 0)) (\<lambda>(unreferenced, totalBytes).
            thenE (must (ext (returnE ()))) (returnE unreferenced))))"

section \<open>Signing keys on the command line\<close>

definition EncodeSigningKeys :: "key_externals \<Rightarrow> SigningKey list \<Rightarrow> string \<Rightarrow> goerr + string" where
  "EncodeSigningKeys kx keys format =
     (if format = ''synapse'' then synapse_EncodeAllSigningKeys kx keys
      else if format = ''dendrite'' then dendrite_EncodeAllSigningKeys kx keys
      else if format = ''mmr'' then mmr_EncodeAllSigningKeys kx keys
      else Inl (ErrOther ''Unknown output format''))"

fun add_keys :: "SigningKey list \<Rightarrow> SigningKey list \<Rightarrow> goerr + SigningKey list" where
  "add_keys keys [] = Inr keys"
| "add_keys keys (k # ks) =
     (if key_KeyVersion k \<in> key_KeyVersion ` set keys then Inl (ErrOther ''Duplicate key version detected'')
      else add_keys (keys @ [k]) ks)"

fun read_keys :: "key_externals \<Rightarrow> (string \<Rightarrow> goerr + string) \<Rightarrow> SigningKey list \<Rightarrow> string list \<Rightarrow> goerr + SigningKey list" where
  "read_keys kx openFile keys [] = Inr keys"
| "read_keys kx openFile keys (file # files) =
     (case openFile file of
        Inl err \<Rightarrow> Inl err
      | Inr b \<Rightarrow> (case any_DecodeAllSigningKeys kx b of
          Inl err \<Rightarrow> Inl err
        | Inr localKeys \<Rightarrow> (case add_keys keys localKeys of
            Inl err \<Rightarrow> Inl err
          | Inr keys' \<Rightarrow> read_keys kx openFile keys' files)))"

definition combine_signing_keys :: "key_externals \<Rightarrow> (string \<Rightarrow> goerr + string) \<Rightarrow> string list \<Rightarrow> string \<Rightarrow> goerr + string" where
  "combine_signing_keys kx openFile files outputFormat =
     (case read_keys kx openFile [] files of Inl err \<Rightarrow> Inl err | Inr keys \<Rightarrow> EncodeSigningKeys kx keys outputFormat)"

text \<open>\<open>generated\<close> is what the random source gives.\<close>

definition generate_signing_key ::
  "key_externals \<Rightarrow> (string \<Rightarrow> goerr + string) \<Rightarrow> string \<times> string \<Rightarrow> string \<Rightarrow> string \<Rightarrow> goerr + string" where
  "generate_signing_key kx openFile generated inputFile outputFormat =
     (case (if inputFile \<noteq> [] then (case openFile inputFile of Inl err \<Rightarrow> Inl err | Inr b \<Rightarrow> any_DecodeSigningKey kx b)
            else Inr (GenerateSigningKey (fst generated) (snd generated))) of
        Inl err \<Rightarrow> Inl err
      | Inr key \<Rightarrow> EncodeSigningKeys kx [key] outputFormat)"

section \<open>plugin\_antispam\_ocr\<close>

text \<open>
  \<open>'i\<close> is the type of images; the sizes are those of \<open>Bounds().Max\<close>.  \<open>oc_round\<close> is the rounded
  product of the height and the percentage, \<open>oc_ocr\<close> the answer of the server to an encoded
  image: the status and the body, and \<open>oc_result\<close> the field of a decoded body.
\<close>

record 'i ocr_externals =
  oc_base64 :: "string \<Rightarrow> goerr + bytes"
  oc_decode :: "bytes \<Rightarrow> goerr + 'i"
  oc_size :: "'i \<Rightarrow> int \<times> int"
  oc_round :: "int \<Rightarrow> rat \<Rightarrow> int"
  oc_fill :: "'i \<Rightarrow> int \<Rightarrow> int \<Rightarrow> bool \<Rightarrow> 'i"
  oc_fit :: "'i \<Rightarrow> int \<Rightarrow> int \<Rightarrow> 'i"
  oc_clean :: "'i \<Rightarrow> 'i"
  oc_encode :: "'i \<Rightarrow> goerr + bytes"
  oc_post :: "string \<Rightarrow> bytes \<Rightarrow> goerr + int \<times> bytes"
  oc_result :: "bytes \<Rightarrow> goerr + string option"

record AntispamOCR =
  ao_userIds :: "string \<Rightarrow> bool"
  ao_contentTypes :: "string list"
  ao_minSize :: int
  ao_maxSize :: int
  ao_keywordGroups :: "string list list"
  ao_ocrServer :: string
  ao_topPercentage :: rat

definition ocr_prepare :: "'i ocr_externals \<Rightarrow> AntispamOCR \<Rightarrow> 'i \<Rightarrow> 'i" where
  "ocr_prepare oc a img0 =
     (let img1 = (if ao_topPercentage a < 1 \<and> ao_topPercentage a > 0
                  then oc_fill oc img0 (fst (oc_size oc img0)) (oc_round oc (snd (oc_size oc img0)) (ao_topPercentage a)) False
                  else img0);
          img2 = oc_fit oc img1 512 512;
          img3 = oc_fill oc img2 (fst (oc_size oc img2) * 2) (snd (oc_size oc img2) * 2) True
      in oc_clean oc img3)"

fun has_keywords :: "string list list \<Rightarrow> string \<Rightarrow> bool" where
  "has_keywords [] ocr = True"
| "has_keywords (kwg # kwgs) ocr = (if list_ex (\<lambda>kw. str_contains ocr kw) kwg then has_keywords kwgs ocr else False)"

definition OCR_CheckForSpam :: "'i ocr_externals \<Rightarrow> AntispamOCR \<Rightarrow> string \<Rightarrow> string \<Rightarrow> string \<Rightarrow> goerr + bool" where
  "OCR_CheckForSpam oc a content contentType userId =
     (case oc_base64 oc content of
        Inl err \<Rightarrow> Inl err
      | Inr b \<Rightarrow>
          if int (length b) < ao_minSize a \<or> int (length b) > ao_maxSize a then Inr False
          else if \<not> ArrayContains (ao_contentTypes a) contentType then Inr False
          else if \<not> ao_userIds a userId then Inr False
          else (case oc_decode oc b of
            Inl err \<Rightarrow> Inl err
          | Inr img \<Rightarrow> (case oc_encode oc (ocr_prepare oc a img) of
              Inl err \<Rightarrow> Inl err
            | Inr png \<Rightarrow> (case MakeUrl [ao_ocrServer a, ''/base64''] of
              Inl err \<Rightarrow> Inl err
            | Inr ocrUrl \<Rightarrow> (case oc_post oc ocrUrl png of
                Inl err \<Rightarrow> Inr False
              | Inr (status, contents) \<Rightarrow> (case oc_result oc contents of
                  Inl err \<Rightarrow> Inl err
                | Inr result \<Rightarrow>
                    if status \<noteq> 200 then Inl (ErrOther (''unexpected status code: '' @ Itoa status))
                    else (case result of
                      None \<Rightarrow> Inl (Panic ''interface conversion'')
                    | Some text' \<Rightarrow> Inr (has_keywords (ao_keywordGroups a) (ToLower text')))))))))"

section \<open>What the programs guarantee\<close>

lemma must_Inr: "must m w = (Inr x, w') \<longleftrightarrow> m w = (Inr x, w')"
  by (auto simp: must_def bindE_run tryE_run returnE_run throwE_run split: prod.splits sum.splits if_splits)

lemma must_state: "snd (must m w) = snd (m w)"
  by (auto simp: must_def bindE_run tryE_run returnE_run throwE_run split: prod.splits sum.splits if_splits)

lemma must_preserves: "preserves I m \<Longrightarrow> preserves I (must m)"
  by (auto simp: must_state intro!: preservesI dest: preservesD)

subsection \<open>The live importer\<close>

lemma doWork_preserves:
  assumes "env_stable I"
    and "\<And>m r ct fn u. preserves I (upload_Execute xt ctx serverName m r ct fn u LocalMediaKind)"
  shows "preserves I (doWork xt http ctx serverName apiUrl record)"
proof -
  have "preserves I (downloadMedia http apiUrl serverName mediaId)" for mediaId
    unfolding downloadMedia_def by (intro hoare_intros assms(1))
  then show ?thesis
    unfolding doWork_def media_GetById_def
    by (intro preserves_bind must_preserves preserves_if preserves_case_option assms preserves_dbQuery hoare_intros)
qed

lemma import_preserves:
  assumes "env_stable I"
    and "\<And>m r ct fn u. preserves I (upload_Execute xt ctx serverName m r ct fn u LocalMediaKind)"
    and "preserves I getAll"
  shows "preserves I (PsqlMatrixDownloadCopy xt http ctx serverName apiUrl getAll extractFn)"
  unfolding PsqlMatrixDownloadCopy_def
  by (intro preserves_bind must_preserves preserves_foreach doWork_preserves assms)

lemma doWork_rows:
  assumes "doWork xt http ctx serverName apiUrl record w = (Inr (), w')" and "mm_MediaId record \<noteq> []"
  shows "\<exists>new. tbl_media w' = tbl_media w @ new \<and> media_key ` set new \<subseteq> {(serverName, mm_MediaId record)} \<and>
    (serverName, mm_MediaId record) \<in> media_key ` set (tbl_media w')"
proof -
  obtain x w1 where get: "media_GetById serverName (mm_MediaId record) w = (Inr x, w1)"
    and cont: "(if x \<noteq> None then returnE () else bindE (must (downloadMedia http apiUrl serverName (mm_MediaId record))) (\<lambda>body.
          bindE (must (upload_Execute xt ctx serverName (mm_MediaId record) body (mm_ContentType record) (mm_FileName record)
            (mm_UploaderUserId record) LocalMediaKind)) (\<lambda>dbRecord. case dbRecord of
              None \<Rightarrow> throwE (Panic ''invalid memory address or nil pointer dereference'')
            | Some _ \<Rightarrow> returnE ()))) w1 = (Inr (), w')"
    using assms(1) unfolding doWork_def
    by (auto simp: bindE_run must_Inr split: prod.splits sum.splits)
  obtain fs where w1: "w1 = w\<lparr>faults := fs\<rparr>"
    and x: "x = first_row (\<lambda>m. m_Origin m = serverName \<and> m_MediaId m = mm_MediaId record) (tbl_media w)"
    using dbQuery_Inr [OF get [unfolded media_GetById_def]] by auto
  show ?thesis
  proof (cases x)
    case (Some r)
    with x have "first_row (\<lambda>m. m_Origin m = serverName \<and> m_MediaId m = mm_MediaId record) (tbl_media w) = Some r" by simp
    from find_SomeD [OF this] have "r \<in> set (tbl_media w)" "media_key r = (serverName, mm_MediaId record)" by auto
    with Some cont w1 show ?thesis by (force simp: returnE_run intro!: exI [of _ "[]"])
  next
    case None
    then obtain body w2 rec where dl: "downloadMedia http apiUrl serverName (mm_MediaId record) w1 = (Inr body, w2)"
      and up: "upload_Execute xt ctx serverName (mm_MediaId record) body (mm_ContentType record) (mm_FileName record)
            (mm_UploaderUserId record) LocalMediaKind w2 = (Inr (Some rec), w')"
      using cont by (auto simp: bindE_run must_Inr returnE_run throwE_run split: prod.splits sum.splits option.splits)
    have "preserves (\<lambda>s. tbl_media s = tbl_media w) (downloadMedia http apiUrl serverName (mm_MediaId record))"
      unfolding downloadMedia_def by (intro hoare_intros env_stableI) simp_all
    from preservesD' [OF this _ dl] w1 have "tbl_media w2 = tbl_media w" by simp
    with upload_run [OF up] assms(2) have "tbl_media w' = tbl_media w @ [rec]" "media_key rec = (serverName, mm_MediaId record)"
      by (auto simp: upload_post_def accepted_def upload_result_def is_new_def stored_as_def rows_are_def)
    then show ?thesis by (intro exI [of _ "[rec]"]) simp
  qed
qed

lemma import_rows:
  assumes "foreachE (doWork xt http ctx serverName apiUrl) records w = (Inr (), w')"
    and "\<forall>r \<in> set records. mm_MediaId r \<noteq> []"
  shows "\<exists>new. tbl_media w' = tbl_media w @ new \<and> media_key ` set new \<subseteq> (\<lambda>r. (serverName, mm_MediaId r)) ` set records \<and>
    (\<forall>r \<in> set records. (serverName, mm_MediaId r) \<in> media_key ` set (tbl_media w'))"
  using assms
proof (induction records arbitrary: w)
  case (Cons r rs)
  then obtain w1 where r: "doWork xt http ctx serverName apiUrl r w = (Inr (), w1)"
    and rs: "foreachE (doWork xt http ctx serverName apiUrl) rs w1 = (Inr (), w')"
    by (auto simp: thenE_run split: prod.splits sum.splits)
  from doWork_rows [OF r] Cons.prems(2) obtain new1 where
    "tbl_media w1 = tbl_media w @ new1" "media_key ` set new1 \<subseteq> {(serverName, mm_MediaId r)}"
    "(serverName, mm_MediaId r) \<in> media_key ` set (tbl_media w1)" by auto
  moreover from Cons.IH [OF rs] Cons.prems(2) obtain new2 where
    "tbl_media w' = tbl_media w1 @ new2" "media_key ` set new2 \<subseteq> (\<lambda>r. (serverName, mm_MediaId r)) ` set rs"
    "\<forall>r \<in> set rs. (serverName, mm_MediaId r) \<in> media_key ` set (tbl_media w')" by auto
  ultimately show ?case by (intro exI [of _ "new1 @ new2"]) auto
qed (simp add: returnE_run)

text \<open>What is there already is neither downloaded nor stored again.\<close>

lemma import_again:
  assumes "faults w = []" and "\<forall>r \<in> set records. (serverName, mm_MediaId r) \<in> media_key ` set (tbl_media w)"
  shows "foreachE (doWork xt http ctx serverName apiUrl) records w = (Inr (), w)"
  using assms(2)
proof (induction records)
  case (Cons r rs)
  have "first_row (\<lambda>m. m_Origin m = serverName \<and> m_MediaId m = mm_MediaId r) (tbl_media w) \<noteq> None"
    using Cons.prems by (auto simp: find_None_iff image_iff)
  then have "doWork xt http ctx serverName apiUrl r w = (Inr (), w)"
    using assms(1) unfolding doWork_def media_GetById_def by (auto simp: bindE_run must_Inr returnE_run must_def tryE_run)
  with Cons show ?case by (simp add: thenE_run)
qed (simp add: returnE_run)

text \<open>The rows that are read: all of them, or those before the iteration broke.\<close>

lemma next_rows_run:
  "next_rows scan rs acc w = (res, w') \<Longrightarrow>
    \<exists>n \<le> length rs. res = Inr (acc @ map scan (take n rs)) \<and> tbl_media w' = tbl_media w \<and> (faults w = [] \<longrightarrow> n = length rs \<and> w' = w)"
proof (induction rs arbitrary: acc w)
  case (Cons r rs)
  show ?case
  proof (cases "returnE () :: (world, unit) io" w rule: ext_cases)
    case (run fs)
    with Cons.prems have "next_rows scan rs (acc @ [scan r]) (w\<lparr>faults := fs\<rparr>) = (res, w')"
      by (simp add: bindE_run tryE_run returnE_run)
    from Cons.IH [OF this] obtain n where n: "n \<le> length rs" "res = Inr (acc @ [scan r] @ map scan (take n rs))"
      "tbl_media w' = tbl_media w" "fs = [] \<Longrightarrow> n = length rs \<and> w' = w\<lparr>faults := fs\<rparr>" by auto
    moreover have "w\<lparr>faults := fs\<rparr> = w \<and> fs = []" if "faults w = []"
    proof -
      from run that have "w = w\<lparr>faults := fs\<rparr>" by (simp add: ext_def returnE_run)
      moreover from arg_cong [OF this, of faults] that have "fs = []" by simp
      ultimately show ?thesis by metis
    qed
    ultimately show ?thesis by (intro exI [of _ "Suc n"]) auto
  next
    case (fail e fs)
    with Cons.prems have "res = Inr acc" "w' = w\<lparr>faults := fs\<rparr>" by (auto simp: bindE_run tryE_run returnE_run)
    moreover have "faults w \<noteq> []" using fail by (auto simp: ext_def returnE_run)
    ultimately show ?thesis by (intro exI [of _ 0]) simp
  qed
qed (simp add: returnE_run)

lemma GetAllMedia_run:
  assumes "synapse_GetAllMedia rows w = (Inr recs, w')"
  shows "\<exists>n \<le> length rows. recs = map synapse_scan (take n rows) \<and> tbl_media w' = tbl_media w \<and>
    (faults w = [] \<longrightarrow> n = length rows \<and> w' = w)"
proof (cases "returnE () :: (world, unit) io" w rule: ext_cases)
  case (run fs)
  then have go: "next_rows synapse_scan rows [] (w\<lparr>faults := fs\<rparr>) = (Inr recs, w')"
    using assms by (simp add: synapse_GetAllMedia_def thenE_run returnE_run)
  show ?thesis
  proof (cases "faults w = []")
    case True
    then have "next_rows synapse_scan rows [] w = (Inr recs, w')"
      using assms by (simp add: synapse_GetAllMedia_def thenE_run returnE_run ext_def)
    from next_rows_run [OF this] show ?thesis by auto
  next
    case False
    with next_rows_run [OF go] show ?thesis by auto
  qed
qed (use assms in \<open>simp add: synapse_GetAllMedia_def thenE_run\<close>)

lemma GetAllMedia_quiet: "faults w = [] \<Longrightarrow> synapse_GetAllMedia rows w = (Inr (map synapse_scan rows), w)"
proof -
  assume q: "faults w = []"
  obtain res w' where run: "next_rows synapse_scan rows [] w = (res, w')" by (metis prod.collapse)
  from next_rows_run [OF this] q have "res = Inr (map synapse_scan rows)" "w' = w" by auto
  with run q show ?thesis by (simp add: synapse_GetAllMedia_def thenE_run returnE_run ext_def)
qed

lemma preserves_next_rows: "env_stable I \<Longrightarrow> preserves I (next_rows scan rs acc)"
proof (induction rs arbitrary: acc)
  case (Cons r rs)
  then show ?case unfolding next_rows.simps by (intro hoare_intros) simp_all
qed (simp add: preserves_return)

text \<open>
  C37: When the live import from a Synapse database ends without a panic, every row that was
  read from the homeserver (the first \<open>n\<close>, all of them when nothing fails) and has an identifier
  has its media record here, and nothing was added for any other identifier.  Unique
  identifiers, statistics and the files behind all records are as they should be (also on every
  failing path, by \<open>import_preserves\<close>).  When all rows were read, running the import once more
  downloads nothing and changes nothing, whatever the homeserver then answers.  When the
  iteration over the rows breaks, the import ends just as quietly with the rows before it.
\<close>

theorem import_complete:
  assumes "media_inv w" and "stored_inv (xt_sha xt) w" and "\<forall>r \<in> set rows. NullString (sr_media_id r) \<noteq> []"
    and "PsqlMatrixDownloadCopy xt http ctx serverName apiUrl (synapse_GetAllMedia rows) synapse_metadata w = (Inr (), w')"
  shows "media_inv w' \<and> stored_inv (xt_sha xt) w' \<and>
    (\<exists>n \<le> length rows. (faults w = [] \<longrightarrow> n = length rows) \<and>
      (\<exists>new. tbl_media w' = tbl_media w @ new \<and> media_key ` set new \<subseteq> (\<lambda>r. (serverName, NullString (sr_media_id r))) ` set (take n rows)) \<and>
      (\<forall>r \<in> set (take n rows). (serverName, NullString (sr_media_id r)) \<in> media_key ` set (tbl_media w')) \<and>
      (n = length rows \<and> faults w' = [] \<longrightarrow>
        (\<forall>http'. PsqlMatrixDownloadCopy xt http' ctx serverName apiUrl (synapse_GetAllMedia rows) synapse_metadata w' = (Inr (), w'))))"
proof -
  have ids: "mm_MediaId (synapse_metadata (synapse_scan r)) = NullString (sr_media_id r)" for r
    by (simp add: synapse_metadata_def synapse_scan_def)
  have up: "preserves media_inv (upload_Execute xt ctx serverName m r ct fn u LocalMediaKind)"
    "preserves (stored_inv (xt_sha xt)) (upload_Execute xt ctx serverName m r ct fn u LocalMediaKind)" for m r ct fn u
    by (auto intro!: preservesI intro: media_inv_upload [OF _ prod.collapse [symmetric]] stored_inv_upload [OF _ prod.collapse [symmetric]])
  have env: "env_stable (stored_inv (xt_sha xt))" by (rule upload_stable_env [OF stored_inv_stable])
  have all: "env_stable I \<Longrightarrow> preserves I (synapse_GetAllMedia rows)" for I
    unfolding synapse_GetAllMedia_def by (intro hoare_intros preserves_next_rows)
  have inv: "media_inv w'"
    by (rule preservesD' [OF import_preserves [OF media_inv_stable up(1) all [OF media_inv_stable]] assms(1,4)])
  have stored: "stored_inv (xt_sha xt) w'"
    by (rule preservesD' [OF import_preserves [OF env up(2) all [OF env]] assms(2,4)])
  from assms(4) obtain recs w1 where g: "synapse_GetAllMedia rows w = (Inr recs, w1)"
    and run: "foreachE (doWork xt http ctx serverName apiUrl) (map synapse_metadata recs) w1 = (Inr (), w')"
    by (auto simp: PsqlMatrixDownloadCopy_def bindE_run must_Inr split: prod.splits sum.splits)
  from GetAllMedia_run [OF g] obtain n where n: "n \<le> length rows" "faults w = [] \<Longrightarrow> n = length rows"
    and recs: "recs = map synapse_scan (take n rows)" and w1: "tbl_media w1 = tbl_media w" by blast
  let ?ms = "map synapse_metadata recs"
  have keys: "(\<lambda>r. (serverName, mm_MediaId r)) ` set ?ms = (\<lambda>r. (serverName, NullString (sr_media_id r))) ` set (take n rows)"
    by (simp add: recs image_image ids)
  have "\<forall>r \<in> set ?ms. mm_MediaId r \<noteq> []" using assms(3) by (auto simp: recs ids dest: in_set_takeD)
  from import_rows [OF run this] w1 obtain new where new: "tbl_media w' = tbl_media w @ new"
    "media_key ` set new \<subseteq> (\<lambda>r. (serverName, mm_MediaId r)) ` set ?ms"
    "\<forall>r \<in> set ?ms. (serverName, mm_MediaId r) \<in> media_key ` set (tbl_media w')" by auto
  have again: "PsqlMatrixDownloadCopy xt http' ctx serverName apiUrl (synapse_GetAllMedia rows) synapse_metadata w' = (Inr (), w')"
    if "n = length rows" "faults w' = []" for http'
    using import_again [OF that(2) new(3), of xt http' ctx apiUrl] that
    by (simp add: PsqlMatrixDownloadCopy_def GetAllMedia_quiet bindE_run must_def tryE_run returnE_run recs)
  have there: "\<forall>r \<in> set (take n rows). (serverName, NullString (sr_media_id r)) \<in> media_key ` set (tbl_media w')"
    using new(3) by (simp add: recs ids)
  show ?thesis using n(2) new(2) [unfolded keys] there again
    by (intro conjI exI [of _ n] exI [of _ new] allI impI inv stored n(1) new(1)) simp_all
qed

text \<open>A broken iteration: the import of two rows succeeds with the first one alone.\<close>

lemma truncated_import:
  "case next_rows synapse_scan [r1, r2] [] (demo_world\<lparr>faults := [None, Some ''connection reset'']\<rparr>) of
     (res, w') \<Rightarrow> res = Inr [synapse_scan r1] \<and> faults w' = []"
  by (simp add: bindE_run tryE_run returnE_run ext_def throwE_run)

definition demo_rows :: "synapse_row list" where
  "demo_rows = [\<lparr>sr_media_id = Some ''abcdef'', sr_media_type = Some ''text/plain'', sr_media_length = Some 2,
     sr_created_ts = None, sr_upload_name = None, sr_user_id = Some ''@u:a.org'', sr_url_cache = None\<rparr>]"

lemma demo_import_run:
  "fst (PsqlMatrixDownloadCopy demo_xt (\<lambda>u. Inr (200, demo_reader)) demo_ctx ''a.org'' ''https://hs''
     (synapse_GetAllMedia demo_rows) synapse_metadata demo_world) = Inr ()"
  by code_simp

theorem import_complete_witness:
  "\<exists>w'. PsqlMatrixDownloadCopy demo_xt (\<lambda>u. Inr (200, demo_reader)) demo_ctx ''a.org'' ''https://hs''
       (synapse_GetAllMedia demo_rows) synapse_metadata demo_world = (Inr (), w') \<and>
     (''a.org'', ''abcdef'') \<in> media_key ` set (tbl_media w')"
proof -
  obtain w' where run: "PsqlMatrixDownloadCopy demo_xt (\<lambda>u. Inr (200, demo_reader)) demo_ctx ''a.org'' ''https://hs''
       (synapse_GetAllMedia demo_rows) synapse_metadata demo_world = (Inr (), w')"
    using demo_import_run by (metis prod.collapse)
  have "\<forall>r \<in> set demo_rows. NullString (sr_media_id r) \<noteq> []" by (simp add: demo_rows_def NullString_def)
  from import_complete [OF demo_media_inv demo_stored_inv this run] run show ?thesis
    by (auto simp: demo_rows_def NullString_def)
qed

subsection \<open>The other programs\<close>

text \<open>
  A missing file that is to be skipped ends the export: nothing after it is archived and
  the archive is not finished, so nothing of the part in progress is written.
\<close>

lemma missing_file_ends_export:
  assumes "processFn r = returnE (info, Inl ErrNotExist)"
  shows "archive_records xv writeFn True processFn (r # rs) s = (Inr False, s)"
  by (cases s) (simp add: assms bindE_run on_world_def returnE_run)

text \<open>The check of a bucket reports exactly the listed keys that no media and no thumbnail refers to.\<close>

lemma find_unreferenced_spec:
  assumes "find_unreferenced dsId objs acc w = (Inr res, w')"
  shows "fst res = fst acc @ filter (\<lambda>k. \<not> list_ex (\<lambda>m. DatastoreId m = dsId \<and> Location m = k) (tbl_media w) \<and>
      \<not> list_ex (\<lambda>t. DatastoreId t = dsId \<and> Location t = k) (tbl_thumbnails w)) (map fst objs) \<and>
    tbl_media w' = tbl_media w \<and> tbl_thumbnails w' = tbl_thumbnails w \<and> objects w' = objects w"
  using assms
proof (induction objs arbitrary: acc w)
  case (Cons x xs)
  from Cons.prems obtain e w1 where e: "media_LocationExists dsId (fst x) w = (Inr e, w1)"
    by (auto simp: bindE_run must_Inr split: prod.splits sum.splits)
  obtain fs where w1: "w1 = w\<lparr>faults := fs\<rparr>"
    and ev: "e = list_ex (\<lambda>m. DatastoreId m = dsId \<and> Location m = fst x) (tbl_media w)"
    using dbQuery_Inr [OF e [unfolded media_LocationExists_def]] by auto
  have em: "must (media_LocationExists dsId (fst x)) w = (Inr e, w1)" using e by (simp add: must_Inr)
  show ?case
  proof (cases e)
    case True
    with Cons.prems e have "find_unreferenced dsId xs acc w1 = (Inr res, w')"
      by (simp add: bindE_run em)
    from Cons.IH [OF this] w1 ev True show ?thesis by simp
  next
    case False
    with Cons.prems em obtain t w2 where t: "thumbnails_LocationExists dsId (fst x) w1 = (Inr t, w2)"
      by (auto simp: bindE_run must_Inr split: prod.splits sum.splits)
    then have tm: "must (thumbnails_LocationExists dsId (fst x)) w1 = (Inr t, w2)" by (simp add: must_Inr)
    obtain fs2 where w2: "w2 = w1\<lparr>faults := fs2\<rparr>"
      and tv: "t = list_ex (\<lambda>t. DatastoreId t = dsId \<and> Location t = fst x) (tbl_thumbnails w1)"
      using dbQuery_Inr [OF t [unfolded thumbnails_LocationExists_def]] by auto
    have "find_unreferenced dsId xs (if t then acc else (fst acc @ [fst x], int64 (snd acc + snd x))) w2 = (Inr res, w')"
      using Cons.prems False by (simp add: bindE_run em tm split: if_splits)
    from Cons.IH [OF this] w1 w2 ev tv False show ?thesis by (auto split: if_splits)
  qed
qed (simp add: returnE_run)

text \<open>The combined keys have different versions.\<close>

lemma add_keys_distinct:
  "distinct (map key_KeyVersion keys) \<Longrightarrow> add_keys keys ks = Inr keys' \<Longrightarrow> distinct (map key_KeyVersion keys')"
  by (induction keys ks rule: add_keys.induct) (auto split: if_splits)

lemma read_keys_distinct:
  "distinct (map key_KeyVersion keys) \<Longrightarrow> read_keys kx openFile keys files = Inr keys' \<Longrightarrow> distinct (map key_KeyVersion keys')"
  by (induction kx openFile keys files rule: read_keys.induct) (auto split: sum.splits dest: add_keys_distinct)

text \<open>The identifier of a manifest chooses the file: it can leave the media store of Synapse.\<close>

lemma content_path_escapes: "content_path ''/synapse/media'' ''..../homeserver.yaml'' = Inr ''/synapse/homeserver.yaml''"
  "content_path ''/synapse/media'' ''..../../../etc/x'' = Inr ''/etc/x''"
  by code_simp+

text \<open>With thumbnails enabled, the first file that has none ends the program.\<close>

lemma file_without_thumbnail_panics:
  assumes "sx_DetectMimeType sx src = Inr ct" and "GenerateThumbnail (sx_generators sx) ctx src ct width height mthd False = Inl err"
    and "faults w = []"
  shows "\<exists>p. fst (synapse_thumbnail sx ctx exportPath mediaId src (width, height, mthd) (w, s)) = Inl (Panic p)"
  using assms
  by (simp add: synapse_thumbnail_def bindE_run tryE_run thenE_run on_world_run lift_result_def returnE_run throwE_run)

text \<open>Spam is what has a keyword of every group, in an image of the watched kind and users.\<close>

lemma OCR_spam_iff:
  "OCR_CheckForSpam oc a content contentType userId = Inr True \<longleftrightarrow>
    (\<exists>b img png u body text'. oc_base64 oc content = Inr b \<and> ao_minSize a \<le> int (length b) \<and> int (length b) \<le> ao_maxSize a \<and>
      ArrayContains (ao_contentTypes a) contentType \<and> ao_userIds a userId \<and> oc_decode oc b = Inr img \<and>
      oc_encode oc (ocr_prepare oc a img) = Inr png \<and> MakeUrl [ao_ocrServer a, ''/base64''] = Inr u \<and>
      oc_post oc u png = Inr (200, body) \<and> oc_result oc body = Inr (Some text') \<and>
      list_all (list_ex (str_contains (ToLower text'))) (ao_keywordGroups a))"
proof -
  have kw: "has_keywords kwgs t = list_all (list_ex (str_contains t)) kwgs" for kwgs t
    by (induction kwgs) auto
  show ?thesis
    by (auto simp: OCR_CheckForSpam_def kw not_less split: sum.splits option.splits if_splits)
qed

end
