(* ===== verification/Spec2Isabelle.thy ===== *)
theory Spec2Isabelle
  imports PurgeProofs ThumbPurge PutProofs DownloadProofs Auth Respond ThumbPipeline Api MigrateProofs AdminProofs MatrixProofs ArchiveProofs PreviewProofs ReloadProofs GeneratorProofs Routes WebServer Tools
begin

text \<open>
  A verification development for the media repository: a server that stores the media of
  Matrix homeservers, serves it to clients and to other servers, makes thumbnails and URL
  previews, and lets administrators purge, quarantine, export and import media.

  \<^bold>\<open>How the parts interact.\<close>  A request passes the router chain (\<open>Http\<close>, \<open>Auth\<close>), reaches a
  handler (\<open>Api\<close>, \<open>Admin\<close>, \<open>Preview\<close>) and its result is written by \<open>Respond\<close>.  Handlers call the
  pipelines (\<open>Upload\<close>, \<open>Download\<close>, \<open>ThumbPipeline\<close>, \<open>Preview\<close>), which work on the tables of the
  database (\<open>World\<close>, \<open>MediaTable\<close>, \<open>Tables\<close>, \<open>ThumbnailTable\<close>) and on the stored objects
  (\<open>Datastores\<close>).  Administration handlers call the tasks that purge, quarantine, migrate,
  export and import (\<open>Quarantine\<close>, \<open>Purge\<close>, \<open>ThumbPurge\<close>, \<open>Tasks\<close>, \<open>Archive\<close>).  Other servers
  are reached through \<open>Matrix\<close>, with the keys of \<open>Keys\<close>.

  \<^bold>\<open>The state.\<close>  A Go function that returns a value and an error is a computation
  \<open>('s, 'a) io\<close> of \<open>Prelude\<close>; almost all of them run on the record \<open>world\<close> of \<open>World\<close>: the
  configuration, the rows of every table as lists, the objects of the datastores, the redis
  cache, the clock, and what the process keeps in memory.  Archives, imports and the matrix
  client add a state of their own (\<open>on_world\<close> lifts).  Every call that leaves the process takes
  the next entry of the script \<open>faults\<close>: it fails without effect on \<open>Some\<close>, and runs on \<open>None\<close>
  or when the script is used up.  A theorem that does not assume \<open>faults w = []\<close> is about every
  pattern of failures.  \<open>ticks\<close> scripts the clock and \<open>uniq\<close> the random identifiers.  A panic is
  the error \<open>Panic\<close>, which \<open>tryE\<close> does not intercept.

  \<^bold>\<open>Theories.\<close>
  \<^item> \<open>Prelude\<close>, \<open>GoStd\<close>, \<open>Net\<close>, \<open>Demo\<close>: errors, computations and their Hoare logic, 64-bit
    integers; Go's \<^verbatim>\<open>strings\<close>, \<^verbatim>\<open>strconv\<close>, \<^verbatim>\<open>net\<close>; a small repository on which witnesses run.
  \<^item> \<open>Util\<close>, \<open>Config\<close>: \<^verbatim>\<open>util/*.go\<close> and \<^verbatim>\<open>common/config\<close> (structs with embedding as record
    extension, defaults, inheritance by domains).
  \<^item> \<open>World\<close>, \<open>MediaTable\<close>, \<open>Tables\<close>, \<open>ThumbnailTable\<close>: \<^verbatim>\<open>database/table_*.go\<close>, one definition
    per accessor, with the unique keys and the statistics trigger of the migrations.  The
    locale \<open>keyed_table\<close> is interpreted on the keyed tables.
  \<^item> \<open>Datastores\<close>: \<^verbatim>\<open>datastores/*.go\<close>.
  \<^item> \<open>Quarantine\<close>, \<open>Purge\<close>, \<open>PurgeProofs\<close>, \<open>ThumbPurge\<close>: \<^verbatim>\<open>tasks/task_runner\<close>.  A purge spares
    pinned media and every file that another record uses (\<^verbatim>\<open>docs/admin.md\<close> documents pinned media as
    purgeable and the files of quarantined records as deleted even when they are shared; the code
    does neither), and a complete one leaves neither dangling rows nor orphaned files; the expiry of thumbnails ends and is safe in any order (locale
    \<open>thumbnail_stores\<close>).
  \<^item> \<open>Readers\<close>: \<^verbatim>\<open>util/readers\<close> over the contract of \<open>io.Reader\<close> (locale \<open>io_reader\<close>).
  \<^item> \<open>Quota\<close>, \<open>Upload\<close>, \<open>UploadFrame\<close>, \<open>UploadProofs\<close>, \<open>UploadClaims\<close>, \<open>Quiet\<close>, \<open>PutProofs\<close>:
    \<^verbatim>\<open>pipelines/pipeline_upload\<close>, \<^verbatim>\<open>pipeline_create\<close>, \<^verbatim>\<open>_steps/upload\<close>, \<^verbatim>\<open>_steps/quota\<close>, \<^verbatim>\<open>restrictions\<close>,
    \<^verbatim>\<open>plugins/manager.go\<close>: integrity of the files, the checks of an accepted upload, quotas, fresh
    identifiers, and asynchronous uploads, which only the holder of a reservation can fill, once.
  \<^item> \<open>Refinement\<close>, \<open>Notifier\<close>: \<^verbatim>\<open>notifier/uploads.go\<close> as a transition system over all
    interleavings, refined to a list of open waits (locale \<open>event_refinement\<close>).
  \<^item> \<open>Download\<close>, \<open>DownloadProofs\<close>: \<^verbatim>\<open>pipelines/pipeline_download\<close>, \<^verbatim>\<open>_steps/download\<close>,
    \<^verbatim>\<open>errcache\<close>, \<^verbatim>\<open>limits\<close>, \<^verbatim>\<open>util/sfcache\<close>.
  \<^item> \<open>Http\<close>, \<open>Auth\<close>, \<open>Respond\<close>: \<^verbatim>\<open>api/_routers\<close>, \<^verbatim>\<open>api/_responses\<close>, \<^verbatim>\<open>api/_apimeta\<close>, \<^verbatim>\<open>api/_auth_cache\<close>.
  \<^item> \<open>ThumbPipeline\<close>: \<^verbatim>\<open>pipelines/pipeline_thumbnail\<close>, \<^verbatim>\<open>_steps/thumbnails\<close>, \<^verbatim>\<open>thumbnailing\<close>; float32
    arithmetic is spelled out over the rationals (\<open>f32\<close>).
  \<^item> \<open>Archive\<close>, \<open>ArchiveProofs\<close>, \<open>Tasks\<close>, \<open>MigrateProofs\<close>: \<^verbatim>\<open>archival\<close>, \<^verbatim>\<open>tasks\<close>.
  \<^item> \<open>Api\<close>, \<open>Admin\<close>, \<open>AdminProofs\<close>: \<^verbatim>\<open>api/r0\<close>, \<^verbatim>\<open>api/v1\<close>, \<^verbatim>\<open>api/unstable\<close>, \<^verbatim>\<open>api/custom\<close> (locale
    \<open>guarded_handlers\<close>).
  \<^item> \<open>Routes\<close>, \<open>WebServer\<close>: \<^verbatim>\<open>api/routes.go\<close> (the table of routes as data, free of conflicts, and what a
    request without credentials can reach), the chain of \<^verbatim>\<open>makeRoute\<close>, \<^verbatim>\<open>api/router.go\<close>, \<^verbatim>\<open>api/_debug\<close>, and
    \<^verbatim>\<open>api/webserver.go\<close> as a transition system over the interleavings of a reload with the goroutines
    it starts.
  \<^item> \<open>Keys\<close>, \<open>Matrix\<close>, \<open>MatrixProofs\<close>: \<^verbatim>\<open>homeserver_interop/*/signing_key.go\<close> (locale \<open>key_format\<close>)
    and \<^verbatim>\<open>matrix/*.go\<close>.  The addresses that the safe client and the oEmbed library connect to are
    recorded; the discovery's \<^verbatim>\<open>http.Get\<close> is outside of what is proved about them.
  \<^item> \<open>PreviewText\<close>, \<open>Preview\<close>, \<open>PreviewProofs\<close>: \<^verbatim>\<open>url_previewing\<close>, \<^verbatim>\<open>pipelines/pipeline_preview\<close>,
    \<^verbatim>\<open>_steps/url_preview\<close>, \<^verbatim>\<open>api/r0/preview_url.go\<close>.
  \<^item> \<open>Generators\<close>, \<open>GeneratorProofs\<close>: \<^verbatim>\<open>thumbnailing/i\<close> and \<^verbatim>\<open>thumbnailing/u\<close>: the generators as values of the
    interface that \<open>ThumbPipeline\<close> works with; the scan of a GIF decides exactly the limits of an animation.
  \<^item> \<open>Reload\<close>, \<open>ReloadProofs\<close>: \<^verbatim>\<open>common/config/access.go\<close>, \<^verbatim>\<open>watch.go\<close>, \<^verbatim>\<open>common/runtime/init.go\<close> and
    \<^verbatim>\<open>cmd/workers/media_repo/reloads.go\<close>: loading the configuration, what a change of the files asks for,
    and the reload channels as a transition system over all interleavings.
  \<^item> \<open>Tools\<close>: the command line programs of \<^verbatim>\<open>cmd\<close> that move media (importers, exporters, archives, the S3
    check), the key tools, the OCR antispam plugin, and \<^verbatim>\<open>homeserver_interop/*/db.go\<close>.

  \<^bold>\<open>Reading conventions.\<close>  Strings are lists of bytes, and case folding is that of ASCII.  Go's
  \<open>int\<close> and \<open>int64\<close> are integers whose arithmetic is wrapped by \<open>int64\<close> where it can overflow;
  sums that PostgreSQL computes are not bounded.  Goroutines that a function starts and joins
  are run in place; single-flight calls run one at a time.  A function that mutates a pointer
  argument returns the new value.  Logging, metrics (but for the counters of requests
  in \<open>Routes\<close>) and Sentry reports are left out.

  \<^bold>\<open>Fuel.\<close>  Where a Go loop has no structural bound the model counts: batches of the thumbnail
  expiry ((n+1) squared for n rows), \<open>io_Copy\<close> (the length of the source and two more), attempts at the
  upload lock (one more than the scripted failures), the re-entry of the preview pipeline (two more than the scripted ticks), binary
  exponents of float32 (200).  The redirects of the safe client need no fuel: \<open>client_Do\<close> ends
  because \<open>CheckRedirect\<close> refuses the sixth.  The theorems show the bounds to be enough or hold for every
  value of the fuel.

  \<^bold>\<open>Parameters.\<close>  What is not in the repository is an argument of the definitions that use it,
  collected in records named \<open>..._externals\<close>: SHA-256, the S3 client, glob matching, plugins,
  MIME sniffing and media types, the image and audio codecs behind the thumbnail generators,
  the leaky bucket and the in-memory caches, the circuit breaker, sockets and DNS, URL and
  JSON and YAML parsing, regular expressions where they are not spelled out, Ed25519, tar and
  gzip, PEM, HTML and OpenGraph and oEmbed, character sets, the matching of
  paths to routes.  Hypotheses on them state what
  their documentation promises, and every property with a hypothesis has a witness.

  \<^bold>\<open>Not modelled.\<close>  Flag parsing and the start of the programs in \<^verbatim>\<open>cmd\<close>, the thumbnailer and the asset
  compiler, database connections and migrations, the redis connection, logging, the metrics server,
  templates, assets, the transport to plugin processes and the test harness are input and output
  around the modelled core; rate limiting by \<^verbatim>\<open>tollbooth\<close> wraps the primary router from outside.
\<close>

end
